(* ===== verification/FF_Prelude.thy ===== *)
theory FF_Prelude
  imports Main "HOL-Library.Sublist" "HOL-Library.Product_Lexorder" "HOL-Library.List_Lexorder"
    "HOL-Library.Char_ord"
begin

text \<open>
  Shared vocabulary of the FlowForge development.

  \<^item> The action type: a service method reads and writes a state and either returns a value or
    throws. What was written before a throw stays written (the services run outside a database
    transaction unless the code opens one), so the state is returned in both cases.
  \<^item> The rows of a table are a list; \<open>save_row\<close> is TypeORM's \<open>save\<close> (update the row with the same
    primary key, insert otherwise), \<open>max_by\<close> is \<open>findOne\<close> with a descending order.
  \<^item> The string functions of the JavaScript library that the code calls.
\<close>

named_theorems run_simps \<open>evaluation of actions\<close>
named_theorems run_iffs \<open>inversion of actions that returned or threw\<close>
named_theorems keeps_intros \<open>composition rules for invariants of actions\<close>

section \<open>Actions: state and exceptions\<close>

type_synonym ('s, 'e, 'a) action = "'s \<Rightarrow> ('e + 'a) \<times> 's"

definition ret :: "'a \<Rightarrow> ('s, 'e, 'a) action" where
  "ret x s = (Inr x, s)"

definition throw :: "'e \<Rightarrow> ('s, 'e, 'a) action" where
  "throw e s = (Inl e, s)"

definition andThen :: "('s, 'e, 'a) action \<Rightarrow> ('a \<Rightarrow> ('s, 'e, 'b) action) \<Rightarrow> ('s, 'e, 'b) action" where
  "andThen m k s = (case m s of (Inl e, t) \<Rightarrow> (Inl e, t) | (Inr x, t) \<Rightarrow> k x t)"

definition reading :: "('s \<Rightarrow> 'a) \<Rightarrow> ('s, 'e, 'a) action" where
  "reading f s = (Inr (f s), s)"

definition writing :: "('s \<Rightarrow> 's) \<Rightarrow> ('s, 'e, unit) action" where
  "writing f s = (Inr (), f s)"

definition check :: "bool \<Rightarrow> 'e \<Rightarrow> ('s, 'e, unit) action" where
  "check b e s = (if b then (Inr (), s) else (Inl e, s))"

definition orThrow :: "'a option \<Rightarrow> 'e \<Rightarrow> ('s, 'e, 'a) action" where
  "orThrow r e s = (case r of None \<Rightarrow> (Inl e, s) | Some x \<Rightarrow> (Inr x, s))"

definition liftSum :: "'e + 'a \<Rightarrow> ('s, 'e, 'a) action" where
  "liftSum r s = (r, s)"

definition unless :: "bool \<Rightarrow> ('s, 'e, unit) action \<Rightarrow> ('s, 'e, unit) action" where
  "unless b m s = (if b then (Inr (), s) else m s)"

lemma ret_run [run_simps]: "ret x s = (Inr x, s)"
  by (simp add: ret_def)

lemma throw_run [run_simps]: "throw e s = (Inl e, s)"
  by (simp add: throw_def)

lemma reading_run [run_simps]: "reading f s = (Inr (f s), s)"
  by (simp add: reading_def)

lemma writing_run [run_simps]: "writing f s = (Inr (), f s)"
  by (simp add: writing_def)

lemma check_run [run_simps]: "check b e s = (if b then Inr () else Inl e, s)"
  by (simp add: check_def)

lemma orThrow_run [run_simps]:
  "orThrow None e s = (Inl e, s)" "orThrow (Some x) e s = (Inr x, s)"
  by (simp_all add: orThrow_def)

lemma liftSum_run [run_simps]: "liftSum r s = (r, s)"
  by (simp add: liftSum_def)

lemma unless_run [run_simps]: "unless True m s = (Inr (), s)" "unless False m s = m s"
  by (simp_all add: unless_def)

lemma unless_simps: "unless True m = ret ()" "unless False m = m"
  by (auto simp: unless_def ret_def)

lemma andThen_run [run_simps]:
  "m s = (Inr x, t) \<Longrightarrow> andThen m k s = k x t"
  "m s = (Inl e, t) \<Longrightarrow> andThen m k s = (Inl e, t)"
  by (simp_all add: andThen_def)

text \<open>Inversion: how a composed action returned, and how it threw.\<close>

lemma andThen_Inr_iff [run_iffs]:
  "andThen m k s = (Inr y, u) \<longleftrightarrow> (\<exists>x t. m s = (Inr x, t) \<and> k x t = (Inr y, u))"
  by (auto simp: andThen_def split: prod.splits sum.splits)

lemma andThen_Inl_iff [run_iffs]:
  "andThen m k s = (Inl e, u) \<longleftrightarrow>
     m s = (Inl e, u) \<or> (\<exists>x t. m s = (Inr x, t) \<and> k x t = (Inl e, u))"
  by (auto simp: andThen_def split: prod.splits sum.splits)

lemma ret_iff [run_iffs]: "ret x s = (r, t) \<longleftrightarrow> r = Inr x \<and> t = s"
  by (auto simp: ret_def)

lemma throw_iff [run_iffs]: "throw e s = (r, t) \<longleftrightarrow> r = Inl e \<and> t = s"
  by (auto simp: throw_def)

lemma reading_iff [run_iffs]: "reading f s = (r, t) \<longleftrightarrow> r = Inr (f s) \<and> t = s"
  by (auto simp: reading_def)

lemma writing_iff [run_iffs]: "writing f s = (r, t) \<longleftrightarrow> r = Inr () \<and> t = f s"
  by (auto simp: writing_def)

lemma check_Inr_iff [run_iffs]: "check b e s = (Inr x, t) \<longleftrightarrow> b \<and> t = s"
  by (auto simp: check_def)

lemma check_Inl_iff [run_iffs]: "check b e s = (Inl e', t) \<longleftrightarrow> \<not> b \<and> e' = e \<and> t = s"
  by (auto simp: check_def)

lemma orThrow_Inr_iff [run_iffs]: "orThrow r e s = (Inr x, t) \<longleftrightarrow> r = Some x \<and> t = s"
  by (auto simp: orThrow_def split: option.splits)

lemma orThrow_Inl_iff [run_iffs]: "orThrow r e s = (Inl e', t) \<longleftrightarrow> r = None \<and> e' = e \<and> t = s"
  by (auto simp: orThrow_def split: option.splits)

lemma liftSum_iff [run_iffs]: "liftSum r s = (r', t) \<longleftrightarrow> r' = r \<and> t = s"
  by (auto simp: liftSum_def)

lemma unless_iff [run_iffs]:
  "unless b m s = (r, t) \<longleftrightarrow> (if b then r = Inr () \<and> t = s else m s = (r, t))"
  by (auto simp: unless_def)

text \<open>
  \<open>keeps P m\<close>: the action keeps the state predicate \<open>P\<close>, whether it returns or throws.
\<close>

definition keeps :: "('s \<Rightarrow> bool) \<Rightarrow> ('s, 'e, 'a) action \<Rightarrow> bool" where
  "keeps P m \<longleftrightarrow> (\<forall>s. P s \<longrightarrow> P (snd (m s)))"

lemma keepsI: "(\<And>s r t. P s \<Longrightarrow> m s = (r, t) \<Longrightarrow> P t) \<Longrightarrow> keeps P m"
  by (metis keeps_def prod.collapse)

lemma keepsD: "keeps P m \<Longrightarrow> P s \<Longrightarrow> m s = (r, t) \<Longrightarrow> P t"
  by (metis keeps_def snd_conv)

lemma keeps_andThen [keeps_intros]:
  "keeps P m \<Longrightarrow> (\<And>x. keeps P (k x)) \<Longrightarrow> keeps P (andThen m k)"
  by (force simp: keeps_def andThen_def split: prod.splits sum.splits)

lemma keeps_ret [keeps_intros]: "keeps P (ret x)"
  by (simp add: keeps_def ret_def)

lemma keeps_throw [keeps_intros]: "keeps P (throw e)"
  by (simp add: keeps_def throw_def)

lemma keeps_reading [keeps_intros]: "keeps P (reading f)"
  by (simp add: keeps_def reading_def)

lemma keeps_check [keeps_intros]: "keeps P (check b e)"
  by (simp add: keeps_def check_def)

lemma keeps_orThrow [keeps_intros]: "keeps P (orThrow r e)"
  by (simp add: keeps_def orThrow_def split: option.splits)

lemma keeps_liftSum [keeps_intros]: "keeps P (liftSum r)"
  by (simp add: keeps_def liftSum_def)

lemma keeps_unless [keeps_intros]: "keeps P m \<Longrightarrow> keeps P (unless b m)"
  by (simp add: keeps_def unless_def)

lemma keeps_writing [keeps_intros]: "(\<And>s. P s \<Longrightarrow> P (f s)) \<Longrightarrow> keeps P (writing f)"
  by (simp add: keeps_def writing_def)

lemma keeps_if [keeps_intros]: "keeps P m \<Longrightarrow> keeps P n \<Longrightarrow> keeps P (if b then m else n)"
  by simp

lemma keeps_option [keeps_intros]:
  "keeps P m \<Longrightarrow> (\<And>x. keeps P (n x)) \<Longrightarrow> keeps P (case r of None \<Rightarrow> m | Some x \<Rightarrow> n x)"
  by (simp split: option.splits)

text \<open>
  \<open>along R m\<close>: every run of the action moves the state along \<open>R\<close>, whether it returns or throws. For a
  preorder this composes; the components instantiate it with what their operations leave unchanged.
\<close>

definition along :: "('s \<Rightarrow> 's \<Rightarrow> bool) \<Rightarrow> ('s, 'e, 'a) action \<Rightarrow> bool" where
  "along R m \<longleftrightarrow> (\<forall>s. R s (snd (m s)))"

lemma alongD: "along R m \<Longrightarrow> m s = (r, t) \<Longrightarrow> R s t"
  by (metis along_def snd_conv)

locale step_preorder =
  fixes R :: "'s \<Rightarrow> 's \<Rightarrow> bool"
  assumes R_refl: "R s s" and R_trans: "R s t \<Longrightarrow> R t u \<Longrightarrow> R s u"
begin

lemma along_pure:
  "along R (ret x)" "along R (throw e)" "along R (reading f)" "along R (check b e)"
  "along R (orThrow z e)" "along R (liftSum q)"
  by (simp_all add: along_def ret_def throw_def reading_def check_def orThrow_def liftSum_def R_refl
      split: option.splits)

lemma along_pointwise: "(\<And>s. along R (f s)) \<Longrightarrow> along R (\<lambda>s. f s s)"
  by (simp add: along_def)

lemma along_andThen: "along R m \<Longrightarrow> (\<And>x. along R (k x)) \<Longrightarrow> along R (andThen m k)"
  unfolding along_def andThen_def
proof
  fix s
  assume "\<forall>s. R s (snd (m s))" "\<And>x. \<forall>s. R s (snd (k x s))"
  then show "R s (snd (case m s of (Inl e, t) \<Rightarrow> (Inl e, t) | (Inr x, t) \<Rightarrow> k x t))"
    by (cases "m s"; cases "fst (m s)") (auto intro: R_trans [of s "snd (m s)"], metis R_trans snd_conv)+
qed

lemma along_unless: "along R m \<Longrightarrow> along R (unless b m)"
  by (cases b) (simp_all add: along_def unless_def R_refl)

lemma along_if: "along R m \<Longrightarrow> along R n \<Longrightarrow> along R (if b then m else n)"
  by simp

lemma along_option:
  "along R m \<Longrightarrow> (\<And>x. along R (n x)) \<Longrightarrow> along R (case r of None \<Rightarrow> m | Some x \<Rightarrow> n x)"
  by (simp split: option.splits)

lemma along_writing: "(\<And>s. R s (f s)) \<Longrightarrow> along R (writing f)"
  by (simp add: along_def writing_def)

lemmas along_intros = along_andThen along_pure along_unless along_if along_option

end

text \<open>
  \<open>triple P m Q E\<close>: started where \<open>P\<close> holds, the action ends where \<open>Q x\<close> holds if it returned \<open>x\<close>, and
  where \<open>E\<close> holds if it threw.
\<close>

definition triple :: "('s \<Rightarrow> bool) \<Rightarrow> ('s, 'e, 'a) action \<Rightarrow> ('a \<Rightarrow> 's \<Rightarrow> bool) \<Rightarrow> ('s \<Rightarrow> bool) \<Rightarrow> bool" where
  "triple P m Q E \<longleftrightarrow> (\<forall>s r t. P s \<longrightarrow> m s = (r, t) \<longrightarrow> (case r of Inl _ \<Rightarrow> E t | Inr x \<Rightarrow> Q x t))"

lemma triple_andThen:
  "triple P m R E \<Longrightarrow> (\<And>x. triple (R x) (k x) Q E) \<Longrightarrow> triple P (andThen m k) Q E"
  unfolding triple_def andThen_def by (fastforce split: prod.splits sum.splits)

lemma triple_weaken:
  "triple P' m Q' E' \<Longrightarrow> (\<And>s. P s \<Longrightarrow> P' s) \<Longrightarrow> (\<And>x s. Q' x s \<Longrightarrow> Q x s) \<Longrightarrow> (\<And>s. E' s \<Longrightarrow> E s) \<Longrightarrow>
     triple P m Q E"
  unfolding triple_def by (fastforce split: sum.splits)

lemma triple_pre: "triple P' m Q E \<Longrightarrow> (\<And>s. P s \<Longrightarrow> P' s) \<Longrightarrow> triple P m Q E"
  unfolding triple_def by blast

lemma triple_ret: "(\<And>s. P s \<Longrightarrow> Q x s) \<Longrightarrow> triple P (ret x) Q E"
  by (auto simp: triple_def run_iffs split: sum.splits)

lemma triple_value:
  assumes "triple P m Q E" "\<And>s x t. m s = (Inr x, t) \<Longrightarrow> V x"
  shows "triple P m (\<lambda>x t. Q x t \<and> V x) E"
  unfolding triple_def
proof (intro allI impI)
  fix s r t
  assume "P s" "m s = (r, t)"
  then have "case r of Inl _ \<Rightarrow> E t | Inr x \<Rightarrow> Q x t" using assms(1) unfolding triple_def by blast
  then show "case r of Inl _ \<Rightarrow> E t | Inr x \<Rightarrow> Q x t \<and> V x"
    using assms(2) \<open>m s = (r, t)\<close> by (cases r) auto
qed

lemma triple_keeps: "keeps P m \<longleftrightarrow> triple P m (\<lambda>_. P) P"
  unfolding triple_def keeps_def by (auto split: sum.splits) (metis sum.exhaust prod.collapse)

lemma triple_basic:
  "triple P (ret x) (\<lambda>y s. P s \<and> y = x) E"
  "triple P (reading f) (\<lambda>y s. P s \<and> y = f s) E"
  "triple P (check b e) (\<lambda>_ s. P s \<and> b) P"
  "triple P (throw e) Q P"
  "triple P (orThrow z e) (\<lambda>y s. P s \<and> z = Some y) P"
  "triple P (liftSum q) (\<lambda>y s. P s \<and> q = Inr y) P"
  by (auto simp: triple_def run_iffs split: sum.splits)

lemma triple_if:
  "(b \<Longrightarrow> triple P m Q E) \<Longrightarrow> (\<not> b \<Longrightarrow> triple P n Q E) \<Longrightarrow> triple P (if b then m else n) Q E"
  by simp

lemma triple_conj_pre: "(A \<Longrightarrow> triple P m Q E) \<Longrightarrow> triple (\<lambda>s. P s \<and> A) m Q E"
  by (auto simp: triple_def)

text \<open>The effect of an action without its value, and the state an action followed by a frame leaves.\<close>

definition forget :: "('s, 'e, 'a) action \<Rightarrow> ('s, 'e, unit) action" where
  "forget m = andThen m (\<lambda>_. ret ())"

lemma forget_run:
  "m w = (Inl e, v) \<Longrightarrow> forget m w = (Inl e, v)" "m w = (Inr x, v) \<Longrightarrow> forget m w = (Inr (), v)"
  by (simp_all add: forget_def run_simps)

lemma snd_forget [simp]: "snd (forget m w) = snd (m w)"
  by (simp add: forget_def andThen_def ret_def split: prod.splits sum.splits)

section \<open>Tables as lists of rows\<close>

definition save_row :: "('r \<Rightarrow> 'k) \<Rightarrow> 'r \<Rightarrow> 'r list \<Rightarrow> 'r list" where
  "save_row key x rows =
     (if key x \<in> key ` set rows then map (\<lambda>r. if key r = key x then x else r) rows else rows @ [x])"

definition find_row :: "('r \<Rightarrow> 'k) \<Rightarrow> 'k \<Rightarrow> 'r list \<Rightarrow> 'r option" where
  "find_row key k rows = find (\<lambda>r. key r = k) rows"

lemma find_Some_set: "find P xs = Some x \<Longrightarrow> x \<in> set xs \<and> P x"
  by (auto simp: find_Some_iff)

lemma find_row_Some: "find_row key k rows = Some r \<Longrightarrow> r \<in> set rows \<and> key r = k"
  unfolding find_row_def by (rule find_Some_set)

lemma find_row_None: "find_row key k rows = None \<longleftrightarrow> k \<notin> key ` set rows"
  by (auto simp: find_row_def find_None_iff)

lemma find_row_distinct:
  "distinct (map key rows) \<Longrightarrow> r \<in> set rows \<Longrightarrow> find_row key (key r) rows = Some r"
  by (induction rows) (auto simp: find_row_def)

lemma keys_save_row: "key ` set (save_row key x rows) = insert (key x) (key ` set rows)"
  by (auto simp: save_row_def image_iff)

lemma map_key_replace:
  "map key (map (\<lambda>r. if key r = key x then x else r) rows) = map key rows"
  by simp

lemma distinct_save_row: "distinct (map key rows) \<Longrightarrow> distinct (map key (save_row key x rows))"
  by (simp add: save_row_def comp_def map_key_replace [unfolded map_map comp_def])

lemma find_row_append:
  "find_row key k (xs @ ys) = (case find_row key k xs of None \<Rightarrow> find_row key k ys | Some r \<Rightarrow> Some r)"
  by (induction xs) (simp_all add: find_row_def)

lemma find_row_replace:
  "find_row key k (map (\<lambda>r. if key r = key x then x else r) rows) =
     (if k = key x \<and> k \<in> key ` set rows then Some x else find_row key k rows)"
  by (induction rows) (auto simp: find_row_def)

lemma find_row_save:
  "find_row key k (save_row key x rows) = (if k = key x then Some x else find_row key k rows)"
proof (cases "key x \<in> key ` set rows")
  case True
  then show ?thesis by (simp add: save_row_def find_row_replace)
next
  case False
  then have "find_row key (key x) rows = None" by (simp add: find_row_None)
  then show ?thesis
    using False by (simp add: save_row_def find_row_append split: option.splits)
      (simp add: find_row_def)
qed

lemma set_save_row:
  "set (save_row key x rows) = insert x {r \<in> set rows. key r \<noteq> key x}"
  by (auto simp: save_row_def image_iff)

lemma save_row_new: "key x \<notin> key ` set rows \<Longrightarrow> save_row key x rows = rows @ [x]"
  by (simp add: save_row_def)

lemma filter_map_fixed:
  "(\<And>r. r \<in> set us \<Longrightarrow> (P (f r) \<longleftrightarrow> P r) \<and> (P r \<longrightarrow> f r = r)) \<Longrightarrow> filter P (map f us) = filter P us"
  by (induction us) auto

fun max_by :: "('a \<Rightarrow> 'b::linorder) \<Rightarrow> 'a list \<Rightarrow> 'a option" where
  "max_by f [] = None"
| "max_by f (x # xs) =
     (case max_by f xs of None \<Rightarrow> Some x | Some y \<Rightarrow> if f x < f y then Some y else Some x)"

lemma max_by_None [simp]: "max_by f xs = None \<longleftrightarrow> xs = []"
  by (cases xs) (auto split: option.splits)

lemma max_by_Some: "max_by f xs = Some x \<Longrightarrow> x \<in> set xs \<and> (\<forall>y \<in> set xs. f y \<le> f x)"
  by (induction xs arbitrary: x) (fastforce split: option.splits if_splits)+

text \<open>
  \<open>sort_desc f\<close>: a stable descending sort (\<open>Array.sort\<close> with a reversed comparator, \<open>ORDER BY f DESC\<close>);
  \<open>page_of\<close>: the rows of a page (\<open>skip\<close> and \<open>take\<close>).
\<close>

definition sort_desc :: "('a \<Rightarrow> 'b::linorder) \<Rightarrow> 'a list \<Rightarrow> 'a list" where
  "sort_desc f xs = rev (sort_key f (rev xs))"

lemma set_sort_desc [simp]: "set (sort_desc f xs) = set xs"
  by (simp add: sort_desc_def)

lemma length_sort_desc [simp]: "length (sort_desc f xs) = length xs"
  by (simp add: sort_desc_def)

lemma distinct_sort_desc [simp]: "distinct (sort_desc f xs) = distinct xs"
  by (simp add: sort_desc_def)

lemma sorted_sort_desc: "sorted_wrt (\<lambda>x y. f y \<le> f x) (sort_desc f xs)"
proof -
  have "sorted (map f (sort_key f (rev xs)))" by simp
  then have "sorted_wrt (\<lambda>x y. f x \<le> f y) (sort_key f (rev xs))" by (simp add: sorted_map)
  then show ?thesis by (simp add: sort_desc_def sorted_wrt_rev)
qed

definition page_of :: "nat \<Rightarrow> nat \<Rightarrow> 'a list \<Rightarrow> 'a list" where
  "page_of page limit xs = take limit (drop ((page - 1) * limit) xs)"

lemma pages_cover:
  "concat (map (\<lambda>p. page_of p limit xs) [1..<Suc n]) = take (n * limit) xs"
proof (induction n)
  case (Suc n)
  have "page_of (Suc n) limit xs = take limit (drop (n * limit) xs)" by (simp add: page_of_def)
  moreover have "take (Suc n * limit) xs = take (n * limit) xs @ take limit (drop (n * limit) xs)"
    by (metis add.commute mult_Suc take_add)
  ultimately show ?case using Suc by (simp del: mult_Suc)
qed simp

text \<open>A JavaScript \<open>Map\<close> as an association list with one entry per key.\<close>

definition map_set :: "'k \<Rightarrow> 'v \<Rightarrow> ('k \<times> 'v) list \<Rightarrow> ('k \<times> 'v) list" where
  "map_set k v kvs = filter (\<lambda>p. fst p \<noteq> k) kvs @ [(k, v)]"

definition map_delete :: "'k \<Rightarrow> ('k \<times> 'v) list \<Rightarrow> ('k \<times> 'v) list" where
  "map_delete k kvs = filter (\<lambda>p. fst p \<noteq> k) kvs"

lemma map_of_delete: "map_of (map_delete k kvs) l = (if l = k then None else map_of kvs l)"
  by (induction kvs) (auto simp: map_delete_def)

lemma map_of_set: "map_of (map_set k v kvs) l = (if l = k then Some v else map_of kvs l)"
  using map_of_delete [of k kvs l]
  by (simp add: map_set_def map_delete_def map_add_def split: option.splits)

section \<open>Strings\<close>

fun nat_digits :: "nat \<Rightarrow> string" where
  "nat_digits n =
     (if n < 10 then [char_of (48 + n)] else nat_digits (n div 10) @ [char_of (48 + n mod 10)])"

declare nat_digits.simps [simp del]

definition int_str :: "int \<Rightarrow> string" where
  "int_str i = (if i < 0 then CHR ''-'' # nat_digits (nat (- i)) else nat_digits (nat i))"

text \<open>JavaScript's \<open>trim\<close> strips the white space and line terminators at both ends.\<close>

definition js_space :: "char \<Rightarrow> bool" where
  "js_space c \<longleftrightarrow> of_char c \<in> {9, 10, 11, 12, 13, 32 :: nat}"

definition js_trim :: "string \<Rightarrow> string" where
  "js_trim s = rev (dropWhile js_space (rev (dropWhile js_space s)))"

definition ascii_lower :: "char \<Rightarrow> char" where
  "ascii_lower c = (let n = of_char c :: nat in if 65 \<le> n \<and> n \<le> 90 then char_of (n + 32) else c)"

definition js_toLowerCase :: "string \<Rightarrow> string" where
  "js_toLowerCase s = map ascii_lower s"

definition js_startsWith :: "string \<Rightarrow> string \<Rightarrow> bool" where
  "js_startsWith s p \<longleftrightarrow> take (length p) s = p"

fun js_includes :: "string \<Rightarrow> string \<Rightarrow> bool" where
  "js_includes [] p \<longleftrightarrow> p = []"
| "js_includes (c # s) p \<longleftrightarrow> js_startsWith (c # s) p \<or> js_includes s p"

definition js_join :: "string \<Rightarrow> string list \<Rightarrow> string" where
  "js_join sep xs = (case xs of [] \<Rightarrow> [] | y # ys \<Rightarrow> y @ concat (map (\<lambda>z. sep @ z) ys))"

lemma js_includes_iff: "js_includes s p \<longleftrightarrow> sublist p s"
proof (induction s)
  case (Cons c s)
  have "js_startsWith (c # s) p \<longleftrightarrow> prefix p (c # s)"
    by (metis append_eq_conv_conj js_startsWith_def prefix_def)
  then show ?case using Cons by (simp add: sublist_Cons_right)
qed simp

lemma js_startsWith_append [simp]: "js_startsWith (p @ s) p"
  by (simp add: js_startsWith_def)

lemma js_startsWith_iff: "js_startsWith s p \<longleftrightarrow> (\<exists>r. s = p @ r)"
  by (metis append_eq_conv_conj append_take_drop_id js_startsWith_def)

end
