(* ===== verification/Json.thy ===== *)
theory Json
  imports FF_Prelude
begin

text \<open>
  JSON values as the services handle them (\<open>src/database/types/json-value.type.ts\<close>), JavaScript's
  \<open>JSON.stringify\<close>, and the comparison \<open>deepEqual\<close> of \<open>rules.service.ts\<close>, which compares
  serialisations.

  A number is its \<open>JSON.stringify\<close> literal: the code passes JSON numbers on and compares
  serialisations, it never computes with them, and the literal determines the double. An object is
  the list of its properties in enumeration order.
\<close>

datatype json =
    JNull
  | JBool bool
  | JNum string
  | JStr string
  | JArr "json list"
  | JObj "(string \<times> json) list"

section \<open>JSON.stringify\<close>

definition hex_digit :: "nat \<Rightarrow> char" where
  "hex_digit n = (if n < 10 then char_of (48 + n) else char_of (87 + n))"

definition json_unicode_escape :: "char \<Rightarrow> string" where
  "json_unicode_escape c = (let n = of_char c :: nat in
     [CHR 0x5C, CHR ''u'', CHR ''0'', CHR ''0'', hex_digit (n div 16), hex_digit (n mod 16)])"

definition json_escape :: "char \<Rightarrow> string" where
  "json_escape c =
    (if c = CHR 0x22 then [CHR 0x5C, CHR 0x22]
     else if c = CHR 0x5C then [CHR 0x5C, CHR 0x5C]
     else if c = CHR 0x08 then [CHR 0x5C, CHR ''b'']
     else if c = CHR 0x09 then [CHR 0x5C, CHR ''t'']
     else if c = CHR 0x0A then [CHR 0x5C, CHR ''n'']
     else if c = CHR 0x0C then [CHR 0x5C, CHR ''f'']
     else if c = CHR 0x0D then [CHR 0x5C, CHR ''r'']
     else if c < CHR 0x20 then json_unicode_escape c
     else [c])"

definition json_quote :: "string \<Rightarrow> string" where
  "json_quote s = CHR 0x22 # concat (map json_escape s) @ [CHR 0x22]"

fun stringify :: "json \<Rightarrow> string" where
  "stringify JNull = ''null''"
| "stringify (JBool b) = (if b then ''true'' else ''false'')"
| "stringify (JNum n) = n"
| "stringify (JStr s) = json_quote s"
| "stringify (JArr xs) = ''['' @ js_join '','' (map stringify xs) @ '']''"
| "stringify (JObj kvs) =
     ''{'' @ js_join '','' (map (\<lambda>(k, v). json_quote k @ '':'' @ stringify v) kvs) @ ''}''"

text \<open>\<open>None\<close> is \<open>undefined\<close>, whose serialisation is \<open>undefined\<close> too.\<close>

definition deepEqual :: "json option \<Rightarrow> json option \<Rightarrow> bool" where
  "deepEqual left right \<longleftrightarrow> map_option stringify left = map_option stringify right"

text \<open>Property access and the entries of an object.\<close>

definition get_prop :: "(string \<times> json) list \<Rightarrow> string \<Rightarrow> json option" where
  "get_prop kvs k = map_of kvs k"

definition json_of_option :: "('a \<Rightarrow> json) \<Rightarrow> 'a option \<Rightarrow> json" where
  "json_of_option f x = (case x of None \<Rightarrow> JNull | Some y \<Rightarrow> f y)"

abbreviation json_int :: "int \<Rightarrow> json" where
  "json_int i \<equiv> JNum (int_str i)"

section \<open>Serialisation determines the value\<close>

text \<open>Number literals: a digit or a minus sign, then digits, a point, an exponent.\<close>

definition num_start :: "char \<Rightarrow> bool" where
  "num_start c \<longleftrightarrow> c \<in> set ''0123456789-''"

definition num_char :: "char \<Rightarrow> bool" where
  "num_char c \<longleftrightarrow> c \<in> set ''0123456789-+.eE''"

definition num_literal :: "string \<Rightarrow> bool" where
  "num_literal s \<longleftrightarrow> s \<noteq> [] \<and> num_start (hd s) \<and> list_all num_char s"

fun wf_json :: "json \<Rightarrow> bool" where
  "wf_json (JNum n) = num_literal n"
| "wf_json (JArr xs) = list_all wf_json xs"
| "wf_json (JObj kvs) = list_all (\<lambda>(k, v). wf_json v) kvs"
| "wf_json _ = True"

definition ends_value :: "string \<Rightarrow> bool" where
  "ends_value r \<longleftrightarrow> r = [] \<or> hd r \<in> set '',]}''"

definition unhex :: "char \<Rightarrow> nat" where
  "unhex c = (let n = of_char c in if n < 58 then n - 48 else n - 87)"

fun unescape :: "string \<Rightarrow> (char \<times> string) option" where
  "unescape [] = None"
| "unescape (c # cs) =
     (if c \<noteq> CHR 0x5C then Some (c, cs)
      else case cs of
        [] \<Rightarrow> None
      | d # ds \<Rightarrow>
          if d = CHR ''u'' then Some (char_of (16 * unhex (ds ! 2) + unhex (ds ! 3)), drop 4 ds)
          else if d = CHR ''b'' then Some (CHR 0x08, ds)
          else if d = CHR ''t'' then Some (CHR 0x09, ds)
          else if d = CHR ''n'' then Some (CHR 0x0A, ds)
          else if d = CHR ''f'' then Some (CHR 0x0C, ds)
          else if d = CHR ''r'' then Some (CHR 0x0D, ds)
          else Some (d, ds))"

lemma unhex_hex_digit: "n < 16 \<Longrightarrow> unhex (hex_digit n) = n"
  by (auto simp: unhex_def hex_digit_def Let_def)

lemma unescape_unicode: "c < CHR 0x20 \<Longrightarrow> unescape (json_unicode_escape c @ x) = Some (c, x)"
proof -
  assume "c < CHR 0x20"
  then have "(of_char c :: nat) < 32" by (simp add: less_char_def)
  then have "unhex (hex_digit (of_char c div 16)) = of_char c div 16"
    "unhex (hex_digit (of_char c mod 16)) = of_char c mod 16"
    by (auto intro!: unhex_hex_digit)
  then show ?thesis by (simp add: json_unicode_escape_def Let_def)
qed

lemma unescape_escape: "unescape (json_escape c @ x) = Some (c, x)"
  by (simp add: json_escape_def unescape_unicode)

lemma escape_not_quote: "json_escape c @ x \<noteq> CHR 0x22 # y"
  by (simp add: json_escape_def json_unicode_escape_def Let_def)

lemma escapes_inj:
  "concat (map json_escape s) @ CHR 0x22 # r1 = concat (map json_escape t) @ CHR 0x22 # r2
   \<Longrightarrow> s = t \<and> r1 = r2"
proof (induction s arbitrary: t)
  case Nil
  then show ?case
    by (cases t) (auto dest: sym [THEN notE [OF escape_not_quote]])
next
  case (Cons c s)
  show ?case
  proof (cases t)
    case Nil
    with Cons.prems show ?thesis by (auto dest: notE [OF escape_not_quote])
  next
    case (Cons d t')
    let ?x = "concat (map json_escape s) @ CHR 0x22 # r1"
    let ?y = "concat (map json_escape t') @ CHR 0x22 # r2"
    have "json_escape c @ ?x = json_escape d @ ?y" using Cons.prems Cons by simp
    then have "Some (c, ?x) = Some (d, ?y)" by (metis unescape_escape)
    with Cons.IH [of t'] Cons show ?thesis by simp
  qed
qed

lemma quote_inj: "json_quote s @ r1 = json_quote t @ r2 \<Longrightarrow> s = t \<and> r1 = r2"
  by (simp add: json_quote_def) (rule escapes_inj)

lemma num_inj:
  assumes "num_literal m" "num_literal n" "ends_value r1" "ends_value r2" "m @ r1 = n @ r2"
  shows "m = n \<and> r1 = r2"
proof -
  have *: "takeWhile num_char (k @ r) = k" if "num_literal k" "ends_value r" for k r
  proof -
    have "r = [] \<or> \<not> num_char (hd r)" using that by (auto simp: ends_value_def num_char_def)
    then have "takeWhile num_char r = []" by (cases r) auto
    then show ?thesis using that by (simp add: num_literal_def list_all_iff takeWhile_append)
  qed
  show ?thesis using assms * by (metis same_append_eq)
qed

text \<open>The first character tells the kinds of value apart.\<close>

fun json_kind :: "json \<Rightarrow> nat" where
  "json_kind JNull = 0"
| "json_kind (JBool b) = (if b then 1 else 2)"
| "json_kind (JNum n) = 3"
| "json_kind (JStr s) = 4"
| "json_kind (JArr xs) = 5"
| "json_kind (JObj kvs) = 6"

definition kind_of_start :: "char \<Rightarrow> nat" where
  "kind_of_start c =
     (if c = CHR ''n'' then 0 else if c = CHR ''t'' then 1 else if c = CHR ''f'' then 2
      else if num_start c then 3 else if c = CHR 0x22 then 4 else if c = CHR ''['' then 5 else 6)"

lemma stringify_start:
  "wf_json v \<Longrightarrow> \<exists>c cs. stringify v = c # cs \<and> kind_of_start c = json_kind v \<and> c \<notin> set ''],}''"
proof (cases v)
  case (JNum n)
  assume "wf_json v"
  with JNum obtain c cs where "n = c # cs" "num_start c"
    by (auto simp: num_literal_def neq_Nil_conv)
  then show ?thesis using JNum by (auto simp: kind_of_start_def num_start_def)
qed (simp_all add: kind_of_start_def json_quote_def num_start_def)

lemma stringify_same_kind:
  "wf_json v \<Longrightarrow> wf_json w \<Longrightarrow> stringify v @ r1 = stringify w @ r2 \<Longrightarrow> json_kind v = json_kind w"
  using stringify_start [of v] stringify_start [of w] by auto

text \<open>Comma-separated items closed by a bracket decode uniquely when each item does.\<close>

definition item_inj :: "('a \<Rightarrow> string) \<Rightarrow> 'a \<Rightarrow> 'a \<Rightarrow> bool" where
  "item_inj f x y \<longleftrightarrow> (\<forall>r1 r2. ends_value r1 \<longrightarrow> ends_value r2 \<longrightarrow> f x @ r1 = f y @ r2 \<longrightarrow> x = y \<and> r1 = r2)"

definition item_start :: "('a \<Rightarrow> string) \<Rightarrow> 'a \<Rightarrow> bool" where
  "item_start f x \<longleftrightarrow> (\<exists>c cs. f x = c # cs \<and> c \<notin> set ''],}'')"

lemma tail_items_inj:
  assumes "\<And>x y. x \<in> set xs \<Longrightarrow> y \<in> set ys \<Longrightarrow> item_inj f x y" "e \<in> set '']}''"
    "concat (map (\<lambda>z. '','' @ z) (map f xs)) @ e # r1 = concat (map (\<lambda>z. '','' @ z) (map f ys)) @ e # r2"
  shows "xs = ys \<and> r1 = r2"
  using assms
proof (induction xs arbitrary: ys)
  case Nil
  then show ?case by (cases ys) auto
next
  case (Cons x xs)
  show ?case
  proof (cases ys)
    case Nil
    with Cons.prems show ?thesis by auto
  next
    case (Cons y ys')
    let ?t = "\<lambda>zs r. concat (map (\<lambda>z. '','' @ z) (map f zs)) @ e # r"
    have "ends_value (?t xs r1)" "ends_value (?t ys' r2)"
      using Cons.prems(2) by (cases xs; cases ys'; auto simp: ends_value_def)+
    moreover have "f x @ ?t xs r1 = f y @ ?t ys' r2" using Cons.prems(3) Cons by simp
    moreover have "item_inj f x y" using Cons.prems(1) Cons by simp
    ultimately have "x = y" "?t xs r1 = ?t ys' r2" unfolding item_inj_def by blast+
    with Cons.IH [of ys'] Cons.prems(1,2) Cons show ?thesis by auto
  qed
qed

lemma items_inj:
  assumes inj: "\<And>x y. x \<in> set xs \<Longrightarrow> y \<in> set ys \<Longrightarrow> item_inj f x y"
    and start: "\<And>x. x \<in> set xs \<union> set ys \<Longrightarrow> item_start f x" and e: "e \<in> set '']}''"
    and eq: "js_join '','' (map f xs) @ e # r1 = js_join '','' (map f ys) @ e # r2"
  shows "xs = ys \<and> r1 = r2"
proof (cases xs)
  case Nil
  show ?thesis
  proof (cases ys)
    case Nil
    with \<open>xs = []\<close> eq show ?thesis by (simp add: js_join_def)
  next
    case (Cons y ys')
    with start [of y] \<open>xs = []\<close> eq e show ?thesis by (auto simp: js_join_def item_start_def)
  qed
next
  case (Cons x xs')
  show ?thesis
  proof (cases ys)
    case Nil
    with start [of x] Cons eq e show ?thesis by (auto simp: js_join_def item_start_def)
  next
    case (Cons y ys')
    have "concat (map (\<lambda>z. '','' @ z) (map f xs)) @ e # r1 =
        concat (map (\<lambda>z. '','' @ z) (map f ys)) @ e # r2"
      using eq Cons \<open>xs = x # xs'\<close> by (simp add: js_join_def comp_def)
    then show ?thesis using tail_items_inj [OF inj e] by blast
  qed
qed

abbreviation stringify_prop :: "string \<times> json \<Rightarrow> string" where
  "stringify_prop \<equiv> \<lambda>(k, v). json_quote k @ '':'' @ stringify v"

lemma item_start_stringify: "wf_json v \<Longrightarrow> item_start stringify v"
  using stringify_start [of v] by (auto simp: item_start_def)

lemma item_start_prop: "item_start stringify_prop p"
  by (cases p) (simp add: item_start_def json_quote_def)

lemma item_inj_prop: "item_inj stringify v w \<Longrightarrow> item_inj stringify_prop (k, v) (l, w)"
  unfolding item_inj_def by (auto dest!: quote_inj)

theorem stringify_item_inj: "wf_json v \<Longrightarrow> wf_json w \<Longrightarrow> item_inj stringify v w"
proof (induction v arbitrary: w)
  case (JArr xs)
  show ?case
    unfolding item_inj_def
  proof (intro allI impI)
    fix r1 r2 assume eq: "stringify (JArr xs) @ r1 = stringify w @ r2"
    then have "json_kind w = 5" using stringify_same_kind [OF JArr.prems] by simp
    then obtain ys where w: "w = JArr ys" by (cases w) (auto split: if_splits)
    have "xs = ys \<and> r1 = r2"
      by (rule items_inj [where f = stringify and e = "CHR '']''"])
        (use JArr eq w in \<open>auto simp: list_all_iff intro: item_start_stringify\<close>)
    with w show "JArr xs = w \<and> r1 = r2" by simp
  qed
next
  case (JObj kvs)
  show ?case
    unfolding item_inj_def
  proof (intro allI impI)
    fix r1 r2 assume eq: "stringify (JObj kvs) @ r1 = stringify w @ r2"
    then have "json_kind w = 6" using stringify_same_kind [OF JObj.prems] by simp
    then obtain lws where w: "w = JObj lws" by (cases w) (auto split: if_splits)
    have inj: "item_inj stringify_prop p q" if p: "p \<in> set kvs" and q: "q \<in> set lws" for p q
    proof -
      obtain k u l v where kv: "p = (k, u)" "q = (l, v)" by (cases p; cases q)
      have "wf_json u" "wf_json v"
        using p q kv JObj.prems w by (fastforce simp: list_all_iff)+
      then have "item_inj stringify u v"
        using JObj.IH [of p u] p kv by (simp add: snds.intros)
      then show ?thesis unfolding kv by (rule item_inj_prop)
    qed
    have "kvs = lws \<and> r1 = r2"
      by (rule items_inj [where f = stringify_prop and e = "CHR ''}''", OF inj item_start_prop])
        (use eq w in auto)
    with w show "JObj kvs = w \<and> r1 = r2" by simp
  qed
next
  case (JNum n)
  show ?case
    unfolding item_inj_def
  proof (intro allI impI)
    fix r1 r2 assume r: "ends_value r1" "ends_value r2" and eq: "stringify (JNum n) @ r1 = stringify w @ r2"
    then have "json_kind w = 3" using stringify_same_kind [OF JNum.prems] by simp
    then obtain m where "w = JNum m" by (cases w) (auto split: if_splits)
    with num_inj [of n m r1 r2] JNum.prems r eq show "JNum n = w \<and> r1 = r2" by simp
  qed
next
  case (JStr s)
  show ?case
    unfolding item_inj_def
  proof (intro allI impI)
    fix r1 r2 assume eq: "stringify (JStr s) @ r1 = stringify w @ r2"
    then have "json_kind w = 4" using stringify_same_kind [OF JStr.prems] by simp
    then obtain t where "w = JStr t" by (cases w) (auto split: if_splits)
    with quote_inj [of s r1 t r2] eq show "JStr s = w \<and> r1 = r2" by simp
  qed
next
  case (JBool b)
  show ?case
    unfolding item_inj_def
  proof (intro allI impI)
    fix r1 r2 assume eq: "stringify (JBool b) @ r1 = stringify w @ r2"
    then have "json_kind w = json_kind (JBool b)" using stringify_same_kind [OF JBool.prems] by simp
    then have "w = JBool b" by (cases w) (auto split: if_splits)
    with eq show "JBool b = w \<and> r1 = r2" by simp
  qed
next
  case JNull
  show ?case
    unfolding item_inj_def
  proof (intro allI impI)
    fix r1 r2 assume eq: "stringify JNull @ r1 = stringify w @ r2"
    then have "json_kind w = 0" using stringify_same_kind [OF JNull.prems] by simp
    then have "w = JNull" by (cases w) (auto split: if_splits)
    with eq show "JNull = w \<and> r1 = r2" by simp
  qed
qed

text \<open>On JSON values, comparing serialisations is comparing values, property order included.\<close>

theorem stringify_inj:
  assumes "wf_json v" "wf_json w" "stringify v = stringify w"
  shows "v = w"
  using stringify_item_inj [OF assms(1,2)] assms(3)
  by (auto simp: item_inj_def ends_value_def dest: spec [where x = "[]"])

definition wf_option :: "json option \<Rightarrow> bool" where
  "wf_option v \<longleftrightarrow> (case v of None \<Rightarrow> True | Some j \<Rightarrow> wf_json j)"

lemma deepEqual_iff: "wf_option l \<Longrightarrow> wf_option r \<Longrightarrow> deepEqual l r \<longleftrightarrow> l = r"
  by (auto simp: deepEqual_def wf_option_def dest: stringify_inj split: option.splits)

lemma deepEqual_refl [simp]: "deepEqual v v"
  by (simp add: deepEqual_def)

lemma deepEqual_sym: "deepEqual v w \<longleftrightarrow> deepEqual w v"
  by (auto simp: deepEqual_def)

lemma deepEqual_trans: "deepEqual u v \<Longrightarrow> deepEqual v w \<Longrightarrow> deepEqual u w"
  by (simp add: deepEqual_def)

end
