(* ===== verification/Enums.thy ===== *)
theory Enums
  imports Json
begin

text \<open>
  The enumerations of \<open>src/database/enums/index.ts\<close>, under their names, and the strings they stand
  for at run time (\<open><enum>_str\<close>). Constructors are always written with the type's name in front, as
  in the source: several enumerations share a name such as \<open>PENDING\<close>.
\<close>

datatype UserRole =
    ADMIN | PROCESS_OWNER | BUSINESS_ANALYST | REVIEWER | VIEWER

primrec user_role_str :: "UserRole \<Rightarrow> string" where
  "user_role_str UserRole.ADMIN = ''admin''"
| "user_role_str UserRole.PROCESS_OWNER = ''process_owner''"
| "user_role_str UserRole.BUSINESS_ANALYST = ''business_analyst''"
| "user_role_str UserRole.REVIEWER = ''reviewer''"
| "user_role_str UserRole.VIEWER = ''viewer''"

datatype WorkflowStatus =
    DRAFT
  | IN_ELICITATION
  | PENDING_REVIEW
  | VALIDATED
  | EXPORTED
  | ARCHIVED

primrec workflow_status_str :: "WorkflowStatus \<Rightarrow> string" where
  "workflow_status_str WorkflowStatus.DRAFT = ''draft''"
| "workflow_status_str WorkflowStatus.IN_ELICITATION = ''in_elicitation''"
| "workflow_status_str WorkflowStatus.PENDING_REVIEW = ''pending_review''"
| "workflow_status_str WorkflowStatus.VALIDATED = ''validated''"
| "workflow_status_str WorkflowStatus.EXPORTED = ''exported''"
| "workflow_status_str WorkflowStatus.ARCHIVED = ''archived''"

datatype SessionMode =
    AUTO | INTERACTIVE

primrec session_mode_str :: "SessionMode \<Rightarrow> string" where
  "session_mode_str SessionMode.AUTO = ''auto''"
| "session_mode_str SessionMode.INTERACTIVE = ''interactive''"

datatype SessionStatus =
    CREATED
  | AWAITING_INPUT
  | PROCESSING
  | DRAFT_READY
  | NEEDS_RECONCILIATION
  | IN_ELICITATION
  | IN_REVIEW
  | VALIDATED
  | EXPORTED
  | ARCHIVED
  | ERROR

primrec session_status_str :: "SessionStatus \<Rightarrow> string" where
  "session_status_str SessionStatus.CREATED = ''created''"
| "session_status_str SessionStatus.AWAITING_INPUT = ''awaiting_input''"
| "session_status_str SessionStatus.PROCESSING = ''processing''"
| "session_status_str SessionStatus.DRAFT_READY = ''draft_ready''"
| "session_status_str SessionStatus.NEEDS_RECONCILIATION = ''needs_reconciliation''"
| "session_status_str SessionStatus.IN_ELICITATION = ''in_elicitation''"
| "session_status_str SessionStatus.IN_REVIEW = ''in_review''"
| "session_status_str SessionStatus.VALIDATED = ''validated''"
| "session_status_str SessionStatus.EXPORTED = ''exported''"
| "session_status_str SessionStatus.ARCHIVED = ''archived''"
| "session_status_str SessionStatus.ERROR = ''error''"

datatype MessageRole =
    USER | AI | SYSTEM

primrec message_role_str :: "MessageRole \<Rightarrow> string" where
  "message_role_str MessageRole.USER = ''user''"
| "message_role_str MessageRole.AI = ''ai''"
| "message_role_str MessageRole.SYSTEM = ''system''"

datatype MessageType =
    USER_INPUT
  | AI_QUESTION
  | AI_RESPONSE
  | AI_SUMMARY
  | AI_UPDATE
  | AI_CONFIDENCE_REPORT
  | SYSTEM_NOTE
  | SYSTEM_STATUS

primrec message_type_str :: "MessageType \<Rightarrow> string" where
  "message_type_str MessageType.USER_INPUT = ''user_input''"
| "message_type_str MessageType.AI_QUESTION = ''ai_question''"
| "message_type_str MessageType.AI_RESPONSE = ''ai_response''"
| "message_type_str MessageType.AI_SUMMARY = ''ai_summary''"
| "message_type_str MessageType.AI_UPDATE = ''ai_update''"
| "message_type_str MessageType.AI_CONFIDENCE_REPORT = ''ai_confidence_report''"
| "message_type_str MessageType.SYSTEM_NOTE = ''system_note''"
| "message_type_str MessageType.SYSTEM_STATUS = ''system_status''"

datatype CommentType =
    QUESTION | CORRECTION | APPROVAL | SUGGESTION | ESCALATION

primrec comment_type_str :: "CommentType \<Rightarrow> string" where
  "comment_type_str CommentType.QUESTION = ''question''"
| "comment_type_str CommentType.CORRECTION = ''correction''"
| "comment_type_str CommentType.APPROVAL = ''approval''"
| "comment_type_str CommentType.SUGGESTION = ''suggestion''"
| "comment_type_str CommentType.ESCALATION = ''escalation''"

datatype ActorType =
    USER | AI_AGENT | SYSTEM

primrec actor_type_str :: "ActorType \<Rightarrow> string" where
  "actor_type_str ActorType.USER = ''user''"
| "actor_type_str ActorType.AI_AGENT = ''ai_agent''"
| "actor_type_str ActorType.SYSTEM = ''system''"

datatype AgentType =
    ORCHESTRATOR
  | INTAKE
  | EXTRACTION
  | PATTERN
  | GAP_DETECTION
  | QA
  | VALIDATION
  | EXPORT
  | DIVERGENCE
  | RULES_SKILLS_LOADER

primrec agent_type_str :: "AgentType \<Rightarrow> string" where
  "agent_type_str AgentType.ORCHESTRATOR = ''ORCHESTRATOR''"
| "agent_type_str AgentType.INTAKE = ''INTAKE''"
| "agent_type_str AgentType.EXTRACTION = ''EXTRACTION''"
| "agent_type_str AgentType.PATTERN = ''PATTERN''"
| "agent_type_str AgentType.GAP_DETECTION = ''GAP_DETECTION''"
| "agent_type_str AgentType.QA = ''QA''"
| "agent_type_str AgentType.VALIDATION = ''VALIDATION''"
| "agent_type_str AgentType.EXPORT = ''EXPORT''"
| "agent_type_str AgentType.DIVERGENCE = ''DIVERGENCE''"
| "agent_type_str AgentType.RULES_SKILLS_LOADER = ''RULES_SKILLS_LOADER''"

datatype PipelineTaskType =
    FULL_PIPELINE | SCOPED_REPROCESS | EXPORT_ONLY | QA_ROUND

primrec pipeline_task_type_str :: "PipelineTaskType \<Rightarrow> string" where
  "pipeline_task_type_str PipelineTaskType.FULL_PIPELINE = ''FULL_PIPELINE''"
| "pipeline_task_type_str PipelineTaskType.SCOPED_REPROCESS = ''SCOPED_REPROCESS''"
| "pipeline_task_type_str PipelineTaskType.EXPORT_ONLY = ''EXPORT_ONLY''"
| "pipeline_task_type_str PipelineTaskType.QA_ROUND = ''QA_ROUND''"

datatype PipelineStatus =
    PENDING | RUNNING | PAUSED | COMPLETED | FAILED | CANCELLED

primrec pipeline_status_str :: "PipelineStatus \<Rightarrow> string" where
  "pipeline_status_str PipelineStatus.PENDING = ''PENDING''"
| "pipeline_status_str PipelineStatus.RUNNING = ''RUNNING''"
| "pipeline_status_str PipelineStatus.PAUSED = ''PAUSED''"
| "pipeline_status_str PipelineStatus.COMPLETED = ''COMPLETED''"
| "pipeline_status_str PipelineStatus.FAILED = ''FAILED''"
| "pipeline_status_str PipelineStatus.CANCELLED = ''CANCELLED''"

datatype AgentExecutionStatus =
    PENDING | RUNNING | COMPLETED | FAILED | SKIPPED

primrec agent_execution_status_str :: "AgentExecutionStatus \<Rightarrow> string" where
  "agent_execution_status_str AgentExecutionStatus.PENDING = ''PENDING''"
| "agent_execution_status_str AgentExecutionStatus.RUNNING = ''RUNNING''"
| "agent_execution_status_str AgentExecutionStatus.COMPLETED = ''COMPLETED''"
| "agent_execution_status_str AgentExecutionStatus.FAILED = ''FAILED''"
| "agent_execution_status_str AgentExecutionStatus.SKIPPED = ''SKIPPED''"

datatype LogLevel =
    DEBUG | INFO | WARNING | ERROR

primrec log_level_str :: "LogLevel \<Rightarrow> string" where
  "log_level_str LogLevel.DEBUG = ''DEBUG''"
| "log_level_str LogLevel.INFO = ''INFO''"
| "log_level_str LogLevel.WARNING = ''WARNING''"
| "log_level_str LogLevel.ERROR = ''ERROR''"

datatype GraphType =
    INTENT | GENERATED | EXECUTED | RECONCILED

primrec graph_type_str :: "GraphType \<Rightarrow> string" where
  "graph_type_str GraphType.INTENT = ''INTENT''"
| "graph_type_str GraphType.GENERATED = ''GENERATED''"
| "graph_type_str GraphType.EXECUTED = ''EXECUTED''"
| "graph_type_str GraphType.RECONCILED = ''RECONCILED''"

datatype GraphSource =
    AI_EXTRACTION | AI_GENERATION | ELSA_IMPORT | MANUAL_MERGE

primrec graph_source_str :: "GraphSource \<Rightarrow> string" where
  "graph_source_str GraphSource.AI_EXTRACTION = ''AI_EXTRACTION''"
| "graph_source_str GraphSource.AI_GENERATION = ''AI_GENERATION''"
| "graph_source_str GraphSource.ELSA_IMPORT = ''ELSA_IMPORT''"
| "graph_source_str GraphSource.MANUAL_MERGE = ''MANUAL_MERGE''"

datatype ComparisonType =
    INTENT_VS_GENERATED | GENERATED_VS_EXECUTED | INTENT_VS_EXECUTED

primrec comparison_type_str :: "ComparisonType \<Rightarrow> string" where
  "comparison_type_str ComparisonType.INTENT_VS_GENERATED = ''INTENT_VS_GENERATED''"
| "comparison_type_str ComparisonType.GENERATED_VS_EXECUTED = ''GENERATED_VS_EXECUTED''"
| "comparison_type_str ComparisonType.INTENT_VS_EXECUTED = ''INTENT_VS_EXECUTED''"

datatype DivergenceSeverity =
    NONE | LOW | MEDIUM | HIGH | CRITICAL

primrec divergence_severity_str :: "DivergenceSeverity \<Rightarrow> string" where
  "divergence_severity_str DivergenceSeverity.NONE = ''NONE''"
| "divergence_severity_str DivergenceSeverity.LOW = ''LOW''"
| "divergence_severity_str DivergenceSeverity.MEDIUM = ''MEDIUM''"
| "divergence_severity_str DivergenceSeverity.HIGH = ''HIGH''"
| "divergence_severity_str DivergenceSeverity.CRITICAL = ''CRITICAL''"

datatype DivergenceReportStatus =
    PENDING | RUNNING | COMPLETED | FAILED

primrec divergence_report_status_str :: "DivergenceReportStatus \<Rightarrow> string" where
  "divergence_report_status_str DivergenceReportStatus.PENDING = ''PENDING''"
| "divergence_report_status_str DivergenceReportStatus.RUNNING = ''RUNNING''"
| "divergence_report_status_str DivergenceReportStatus.COMPLETED = ''COMPLETED''"
| "divergence_report_status_str DivergenceReportStatus.FAILED = ''FAILED''"

datatype DivergencePointType =
    MISSING_NODE
  | EXTRA_NODE
  | MODIFIED_NODE
  | ACTOR_MISMATCH
  | CONDITION_MISMATCH
  | MISSING_EDGE
  | EXTRA_EDGE
  | REORDERED_SEQUENCE
  | LOOP_DIFFERENCE
  | MISSING_PATH
  | PARALLELISM_CHANGE

primrec divergence_point_type_str :: "DivergencePointType \<Rightarrow> string" where
  "divergence_point_type_str DivergencePointType.MISSING_NODE = ''MISSING_NODE''"
| "divergence_point_type_str DivergencePointType.EXTRA_NODE = ''EXTRA_NODE''"
| "divergence_point_type_str DivergencePointType.MODIFIED_NODE = ''MODIFIED_NODE''"
| "divergence_point_type_str DivergencePointType.ACTOR_MISMATCH = ''ACTOR_MISMATCH''"
| "divergence_point_type_str DivergencePointType.CONDITION_MISMATCH = ''CONDITION_MISMATCH''"
| "divergence_point_type_str DivergencePointType.MISSING_EDGE = ''MISSING_EDGE''"
| "divergence_point_type_str DivergencePointType.EXTRA_EDGE = ''EXTRA_EDGE''"
| "divergence_point_type_str DivergencePointType.REORDERED_SEQUENCE = ''REORDERED_SEQUENCE''"
| "divergence_point_type_str DivergencePointType.LOOP_DIFFERENCE = ''LOOP_DIFFERENCE''"
| "divergence_point_type_str DivergencePointType.MISSING_PATH = ''MISSING_PATH''"
| "divergence_point_type_str DivergencePointType.PARALLELISM_CHANGE = ''PARALLELISM_CHANGE''"

datatype PointSeverity =
    INFO | LOW | MEDIUM | HIGH | CRITICAL

primrec point_severity_str :: "PointSeverity \<Rightarrow> string" where
  "point_severity_str PointSeverity.INFO = ''INFO''"
| "point_severity_str PointSeverity.LOW = ''LOW''"
| "point_severity_str PointSeverity.MEDIUM = ''MEDIUM''"
| "point_severity_str PointSeverity.HIGH = ''HIGH''"
| "point_severity_str PointSeverity.CRITICAL = ''CRITICAL''"

datatype RuleType =
    EXTRACTION
  | ACTOR_MAPPING
  | STRUCTURAL_CONSTRAINT
  | VALIDATION
  | NAMING_CONVENTION
  | PROMPT_INJECTION

primrec rule_type_str :: "RuleType \<Rightarrow> string" where
  "rule_type_str RuleType.EXTRACTION = ''EXTRACTION''"
| "rule_type_str RuleType.ACTOR_MAPPING = ''ACTOR_MAPPING''"
| "rule_type_str RuleType.STRUCTURAL_CONSTRAINT = ''STRUCTURAL_CONSTRAINT''"
| "rule_type_str RuleType.VALIDATION = ''VALIDATION''"
| "rule_type_str RuleType.NAMING_CONVENTION = ''NAMING_CONVENTION''"
| "rule_type_str RuleType.PROMPT_INJECTION = ''PROMPT_INJECTION''"

datatype RuleScope =
    ORG | WORKFLOW | AGENT

primrec rule_scope_str :: "RuleScope \<Rightarrow> string" where
  "rule_scope_str RuleScope.ORG = ''ORG''"
| "rule_scope_str RuleScope.WORKFLOW = ''WORKFLOW''"
| "rule_scope_str RuleScope.AGENT = ''AGENT''"

datatype SkillType =
    VOCABULARY
  | ARCHETYPE
  | FEW_SHOT_EXAMPLE
  | DOMAIN_KNOWLEDGE
  | ACTOR_CATALOG
  | PROMPT_TEMPLATE

primrec skill_type_str :: "SkillType \<Rightarrow> string" where
  "skill_type_str SkillType.VOCABULARY = ''VOCABULARY''"
| "skill_type_str SkillType.ARCHETYPE = ''ARCHETYPE''"
| "skill_type_str SkillType.FEW_SHOT_EXAMPLE = ''FEW_SHOT_EXAMPLE''"
| "skill_type_str SkillType.DOMAIN_KNOWLEDGE = ''DOMAIN_KNOWLEDGE''"
| "skill_type_str SkillType.ACTOR_CATALOG = ''ACTOR_CATALOG''"
| "skill_type_str SkillType.PROMPT_TEMPLATE = ''PROMPT_TEMPLATE''"

text \<open>Statuses and modes are finite, so statements over all of them can be evaluated.\<close>

instantiation SessionMode :: enum
begin
definition enum_SessionMode :: "SessionMode list" where
  "enum_SessionMode = [SessionMode.AUTO, SessionMode.INTERACTIVE]"
definition enum_all_SessionMode :: "(SessionMode \<Rightarrow> bool) \<Rightarrow> bool" where
  "enum_all_SessionMode P \<longleftrightarrow> list_all P [SessionMode.AUTO, SessionMode.INTERACTIVE]"
definition enum_ex_SessionMode :: "(SessionMode \<Rightarrow> bool) \<Rightarrow> bool" where
  "enum_ex_SessionMode P \<longleftrightarrow> list_ex P [SessionMode.AUTO, SessionMode.INTERACTIVE]"
instance proof
  show *: "UNIV = set (Enum.enum :: SessionMode list)"
    by (auto simp: enum_SessionMode_def intro: SessionMode.exhaust)
  show "distinct (Enum.enum :: SessionMode list)"
    by (simp add: enum_SessionMode_def)
  fix P :: "SessionMode \<Rightarrow> bool"
  show "Enum.enum_all P \<longleftrightarrow> Ball UNIV P"
    unfolding * by (simp add: enum_all_SessionMode_def enum_SessionMode_def)
  show "Enum.enum_ex P \<longleftrightarrow> Bex UNIV P"
    unfolding * by (simp add: enum_ex_SessionMode_def enum_SessionMode_def)
qed
end

instantiation SessionStatus :: enum
begin
definition enum_SessionStatus :: "SessionStatus list" where
  "enum_SessionStatus = [SessionStatus.CREATED, SessionStatus.AWAITING_INPUT, SessionStatus.PROCESSING, SessionStatus.DRAFT_READY, SessionStatus.NEEDS_RECONCILIATION, SessionStatus.IN_ELICITATION, SessionStatus.IN_REVIEW, SessionStatus.VALIDATED, SessionStatus.EXPORTED, SessionStatus.ARCHIVED, SessionStatus.ERROR]"
definition enum_all_SessionStatus :: "(SessionStatus \<Rightarrow> bool) \<Rightarrow> bool" where
  "enum_all_SessionStatus P \<longleftrightarrow> list_all P [SessionStatus.CREATED, SessionStatus.AWAITING_INPUT, SessionStatus.PROCESSING, SessionStatus.DRAFT_READY, SessionStatus.NEEDS_RECONCILIATION, SessionStatus.IN_ELICITATION, SessionStatus.IN_REVIEW, SessionStatus.VALIDATED, SessionStatus.EXPORTED, SessionStatus.ARCHIVED, SessionStatus.ERROR]"
definition enum_ex_SessionStatus :: "(SessionStatus \<Rightarrow> bool) \<Rightarrow> bool" where
  "enum_ex_SessionStatus P \<longleftrightarrow> list_ex P [SessionStatus.CREATED, SessionStatus.AWAITING_INPUT, SessionStatus.PROCESSING, SessionStatus.DRAFT_READY, SessionStatus.NEEDS_RECONCILIATION, SessionStatus.IN_ELICITATION, SessionStatus.IN_REVIEW, SessionStatus.VALIDATED, SessionStatus.EXPORTED, SessionStatus.ARCHIVED, SessionStatus.ERROR]"
instance proof
  show *: "UNIV = set (Enum.enum :: SessionStatus list)"
    by (auto simp: enum_SessionStatus_def intro: SessionStatus.exhaust)
  show "distinct (Enum.enum :: SessionStatus list)"
    by (simp add: enum_SessionStatus_def)
  fix P :: "SessionStatus \<Rightarrow> bool"
  show "Enum.enum_all P \<longleftrightarrow> Ball UNIV P"
    unfolding * by (simp add: enum_all_SessionStatus_def enum_SessionStatus_def)
  show "Enum.enum_ex P \<longleftrightarrow> Bex UNIV P"
    unfolding * by (simp add: enum_ex_SessionStatus_def enum_SessionStatus_def)
qed
end

lemma user_role_str_inj: "user_role_str r = user_role_str q \<longleftrightarrow> r = q"
  by (cases r; cases q) auto

lemma session_status_str_inj: "session_status_str r = session_status_str q \<longleftrightarrow> r = q"
  by (cases r; cases q) auto

end
