(* ===== verification/Entities.thy ===== *)
theory Entities
  imports Enums
begin

text \<open>
  The tables of the database, one record per TypeORM entity with every column of the entity in its
  order; the fields carry the entity's two-letter prefix. A nullable column is an option, a \<open>uuid\<close>,
  \<open>text\<close> or \<open>varchar\<close> column a string, an \<open>integer\<close> or \<open>smallint\<close> column an \<open>int\<close>, a \<open>jsonb\<close> column a
  \<^typ>\<open>json\<close>, and a \<open>timestamptz\<close> column the microseconds since 1970 (PostgreSQL keeps microseconds; a
  JavaScript \<open>Date\<close> only milliseconds, see \<open>js_date\<close>). A \<open>float\<close> is its JSON literal.
\<close>

type_synonym time = nat
type_synonym number = string

definition js_date :: "time \<Rightarrow> time" where
  "js_date t = t div 1000 * 1000"

text \<open>The value of a decimal literal as mantissa and power of ten, and the order of the values.\<close>

definition digits_val :: "string \<Rightarrow> int" where
  "digits_val = foldl (\<lambda>n c. 10 * n + (int (of_char c) - 48)) 0"

definition signed_val :: "string \<Rightarrow> int" where
  "signed_val s = (case s of [] \<Rightarrow> 0 | c # cs \<Rightarrow>
     if c = CHR ''-'' then - digits_val cs else if c = CHR ''+'' then digits_val cs else digits_val s)"

definition num_val :: "number \<Rightarrow> int \<times> int" where
  "num_val s =
     (let neg = (s \<noteq> [] \<and> hd s = CHR ''-''); b = (if neg then tl s else s);
          man = takeWhile (\<lambda>c. c \<noteq> CHR ''e'' \<and> c \<noteq> CHR ''E'') b;
          whole = takeWhile (\<lambda>c. c \<noteq> CHR ''.'') man; frac = drop (length whole + 1) man;
          m = digits_val (whole @ frac)
      in (if neg then - m else m, signed_val (drop (length man + 1) b) - int (length frac)))"

definition num_less :: "number \<Rightarrow> number \<Rightarrow> bool" where
  "num_less a b \<longleftrightarrow>
     (let (m, e) = num_val a; (n, f) = num_val b; k = min e f
      in m * 10 ^ nat (e - k) < n * 10 ^ nat (f - k))"

lemma num_less_irrefl: "\<not> num_less a a"
  by (simp add: num_less_def split: prod.split)

lemma num_less_asym: "num_less a b \<Longrightarrow> \<not> num_less b a"
  by (cases "num_val a"; cases "num_val b") (simp add: num_less_def Let_def min.commute)

record User =
  us_id :: string
  us_email :: string
  us_passwordHash :: string
  us_role :: UserRole
  us_orgId :: string
  us_isVerified :: bool
  us_isActive :: bool
  us_inviteTokenHash :: "string option"
  us_inviteExpiresAt :: "time option"
  us_lockedUntil :: "time option"
  us_createdAt :: time
  us_updatedAt :: time

record RefreshToken =
  rt_id :: string
  rt_userId :: string
  rt_tokenHash :: string
  rt_expiresAt :: time
  rt_revoked :: bool
  rt_createdAt :: time

record Session =
  se_id :: string
  se_workflowId :: string
  se_userId :: string
  se_mode :: SessionMode
  se_status :: SessionStatus
  se_confidenceScore :: number
  se_createdAt :: time
  se_finalizedAt :: "time option"
  se_archivedAt :: "time option"

record Message =
  me_id :: string
  me_sessionId :: string
  me_role :: MessageRole
  me_type :: MessageType
  me_content :: string
  me_metadata :: json
  me_createdAt :: time
  me_archivedAt :: "time option"

record Document =
  do_id :: string
  do_workflowId :: "string option"
  do_sessionId :: "string option"
  do_filename :: string
  do_fileType :: string
  do_storageUrl :: string
  do_fileSizeBytes :: int
  do_extractedText :: "string option"
  do_preprocessingConfidence :: "number option"
  do_docVersion :: int
  do_deletedAt :: "time option"
  do_createdAt :: time
  do_archivedAt :: "time option"

record AuditLog =
  au_id :: string
  au_workflowId :: "string option"
  au_actorId :: "string option"
  au_actorType :: ActorType
  au_eventType :: string
  au_elementId :: "string option"
  au_beforeState :: "json option"
  au_afterState :: "json option"
  au_createdAt :: time

record Rule =
  ru_id :: string
  ru_orgId :: string
  ru_workflowId :: "string option"
  ru_name :: string
  ru_description :: "string option"
  ru_ruleType :: RuleType
  ru_scope :: RuleScope
  ru_targetAgent :: "AgentType option"
  ru_condition :: "json option"
  ru_instruction :: string
  ru_priority :: int
  ru_version :: int
  ru_isActive :: bool
  ru_createdBy :: string
  ru_createdAt :: time
  ru_updatedAt :: time

record RuleVersion =
  rv_id :: string
  rv_ruleId :: string
  rv_version :: int
  rv_instruction :: string
  rv_condition :: "json option"
  rv_priority :: int
  rv_isActive :: bool
  rv_changedBy :: string
  rv_createdAt :: time

record RuleApplication =
  ra_id :: string
  ra_ruleId :: string
  ra_ruleVersion :: int
  ra_agentExecutionId :: string
  ra_triggered :: bool
  ra_impactDescription :: "string option"
  ra_createdAt :: time

record Project =
  pr_id :: string
  pr_name :: string
  pr_orgId :: string
  pr_ownerId :: string
  pr_createdAt :: time
  pr_updatedAt :: time

record Comment =
  co_id :: string
  co_workflowId :: string
  co_elementId :: "string option"
  co_authorId :: string
  co_type :: CommentType
  co_content :: string
  co_resolved :: bool
  co_resolvedAt :: "time option"
  co_resolvedBy :: "string option"
  co_resolutionNote :: "string option"
  co_parentId :: "string option"
  co_assignedTo :: "string option"
  co_createdAt :: time

record Workflow =
  wf_id :: string
  wf_title :: string
  wf_description :: "string option"
  wf_status :: WorkflowStatus
  wf_currentVersion :: int
  wf_orgId :: string
  wf_ownerId :: string
  wf_projectId :: "string option"
  wf_domain :: "string option"
  wf_tags :: "string list"
  wf_shareToken :: "string option"
  wf_shareExpiresAt :: "time option"
  wf_shareMaxViews :: "int option"
  wf_shareViewCount :: int
  wf_createdAt :: time
  wf_updatedAt :: time

record WorkflowVersion =
  wv_id :: string
  wv_workflowId :: string
  wv_versionNumber :: int
  wv_elementsJson :: json
  wv_elsaJson :: "json option"
  wv_confidenceScore :: "number option"
  wv_createdBy :: "string option"
  wv_createdAt :: time

record PipelineExecution =
  pe_id :: string
  pe_sessionId :: string
  pe_taskType :: PipelineTaskType
  pe_mode :: SessionMode
  pe_status :: PipelineStatus
  pe_inputPayload :: json
  pe_retryCount :: int
  pe_lastCheckpointAgent :: "AgentType option"
  pe_triggeredBy :: "string option"
  pe_natsMessageId :: "string option"
  pe_startedAt :: "time option"
  pe_completedAt :: "time option"
  pe_totalDurationMs :: "int option"
  pe_totalLlmCalls :: int
  pe_totalTokensConsumed :: int
  pe_finalConfidence :: "number option"
  pe_errorSummary :: "string option"
  pe_createdAt :: time
  pe_archivedAt :: "time option"

record AgentExecution =
  ae_id :: string
  ae_pipelineExecutionId :: string
  ae_agentDefinitionId :: string
  ae_status :: AgentExecutionStatus
  ae_orderIndex :: int
  ae_inputSnapshot :: "json option"
  ae_outputSnapshot :: "json option"
  ae_confidenceInput :: "number option"
  ae_confidenceOutput :: "number option"
  ae_llmCallsCount :: int
  ae_tokensConsumed :: int
  ae_errorMessage :: "string option"
  ae_durationMs :: "int option"
  ae_startedAt :: "time option"
  ae_completedAt :: "time option"
  ae_createdAt :: time

record DeadLetter =
  dl_id :: string
  dl_subject :: string
  dl_payload :: json
  dl_reason :: string
  dl_deliveryCount :: int
  dl_lastError :: "string option"
  dl_createdAt :: time

record Skill =
  sk_id :: string
  sk_orgId :: string
  sk_name :: string
  sk_description :: "string option"
  sk_skillType :: SkillType
  sk_content :: json
  sk_embedding :: "(number list) option"
  sk_appliesToDomains :: "(string list) option"
  sk_appliesToAgents :: "(AgentType list) option"
  sk_isActive :: bool
  sk_isMandatory :: bool
  sk_usageCount :: int
  sk_version :: int
  sk_createdBy :: string
  sk_createdAt :: time
  sk_updatedAt :: time

record SkillApplication =
  sa_id :: string
  sa_skillId :: string
  sa_agentExecutionId :: string
  sa_retrievalRank :: "int option"
  sa_similarityScore :: "number option"
  sa_injectedTokens :: int
  sa_wasMandatory :: bool
  sa_createdAt :: time

record DivergenceReport =
  dr_id :: string
  dr_workflowId :: string
  dr_graphAId :: string
  dr_graphBId :: string
  dr_comparisonType :: ComparisonType
  dr_status :: DivergenceReportStatus
  dr_overallSimilarity :: "number option"
  dr_severity :: "DivergenceSeverity option"
  dr_algorithmUsed :: "string option"
  dr_totalPoints :: int
  dr_criticalCount :: int
  dr_highCount :: int
  dr_mediumCount :: int
  dr_lowCount :: int
  dr_autoTriggered :: bool
  dr_triggeredBy :: "string option"
  dr_pipelineExecutionId :: "string option"
  dr_completedAt :: "time option"
  dr_createdAt :: time

record DivergencePoint =
  dp_id :: string
  dp_reportId :: string
  dp_pointType :: DivergencePointType
  dp_severity :: PointSeverity
  dp_elementIdInA :: "string option"
  dp_elementIdInB :: "string option"
  dp_elementLabelA :: "string option"
  dp_elementLabelB :: "string option"
  dp_description :: string
  dp_aiSuggestion :: "string option"
  dp_autoFixable :: bool
  dp_resolved :: bool
  dp_resolvedAt :: "time option"
  dp_resolvedBy :: "string option"
  dp_createdAt :: time

record WorkflowGraphSnapshot =
  gs_id :: string
  gs_workflowId :: string
  gs_workflowVersionId :: "string option"
  gs_sessionId :: "string option"
  gs_graphType :: GraphType
  gs_source :: GraphSource
  gs_nodes :: "json list"
  gs_edges :: "json list"
  gs_nodeCount :: int
  gs_edgeCount :: int
  gs_graphEmbedding :: "(number list) option"
  gs_createdBy :: "string option"
  gs_createdAt :: time

record KGNode =
  kn_id :: string
  kn_sessionId :: string
  kn_type :: string
  kn_label :: string
  kn_properties :: json
  kn_confidence :: "number option"
  kn_embedding :: "(number list) option"
  kn_inferred :: bool
  kn_createdAt :: time

record KGEdge =
  ke_id :: string
  ke_sessionId :: string
  ke_fromNodeId :: string
  ke_toNodeId :: string
  ke_relationType :: string
  ke_condition :: "string option"
  ke_properties :: json
  ke_confidence :: "number option"
  ke_createdAt :: time

record AgentLogRow =
  lg_id :: string
  lg_agentExecutionId :: string
  lg_logLevel :: LogLevel
  lg_message :: string
  lg_metadata :: json
  lg_createdAt :: time

record AgentDefinition =
  ad_id :: string
  ad_name :: string
  ad_agentType :: AgentType
  ad_version :: string
  ad_description :: "string option"
  ad_capabilities :: json
  ad_defaultConfig :: json
  ad_isActive :: bool
  ad_createdAt :: time
  ad_updatedAt :: time

record ProcessPattern =
  pp_id :: string
  pp_name :: string
  pp_archetypeType :: string
  pp_description :: "string option"
  pp_templateJson :: json
  pp_requiredSlots :: "string list"
  pp_embedding :: "number list option"
  pp_createdAt :: time

end
