(* ===== verification/Database.thy ===== *)
theory Database
  imports Entities
begin

text \<open>
  The state every component works on, and how the code reaches it.

  \<^item> \<open>error\<close>: the exceptions the services throw, with the HTTP status the framework gives them.
  \<^item> \<open>world\<close>: the tables (rows in insertion order), what has been published on NATS and emitted on
    websocket rooms, the mails sent, the objects stored, the clock, the source of fresh uuids, and the
    in-memory state of the services.
  \<^item> \<open>save_*\<close>: the repositories' \<open>save\<close>; a violated database constraint is a \<open>QueryFailedError\<close>.
  \<^item> The locale \<open>table\<close>: the contract of a repository, interpreted for every table.

  The clock does not advance inside one operation. Columns that hold the id of the authenticated
  caller or of its organization are not checked against the user and organization tables.
\<close>

section \<open>Errors\<close>

text \<open>The argument of a framework exception is the message (a string) or the structured body.\<close>

datatype error =
    BadRequestException json
  | UnauthorizedException json
  | ForbiddenException json
  | NotFoundException json
  | ConflictException json
  | PayloadTooLargeException json
  | UnsupportedMediaTypeException json
  | UnprocessableEntityException json
  | InternalServerErrorException json
  | BadGatewayException json
  | PlainError string
  | TypeError string
  | QueryFailedError string
  | NatsError

fun getStatus :: "error \<Rightarrow> int" where
  "getStatus (BadRequestException b) = 400"
| "getStatus (UnauthorizedException b) = 401"
| "getStatus (ForbiddenException b) = 403"
| "getStatus (NotFoundException b) = 404"
| "getStatus (ConflictException b) = 409"
| "getStatus (PayloadTooLargeException b) = 413"
| "getStatus (UnsupportedMediaTypeException b) = 415"
| "getStatus (UnprocessableEntityException b) = 422"
| "getStatus (InternalServerErrorException b) = 500"
| "getStatus (BadGatewayException b) = 502"
| "getStatus (PlainError m) = 500"
| "getStatus (TypeError m) = 500"
| "getStatus (QueryFailedError m) = 500"
| "getStatus NatsError = 500"

text \<open>\<open>error.message\<close>; a structured body without a text has the name of its class.\<close>

fun error_message :: "error \<Rightarrow> string" where
  "error_message (BadRequestException (JStr m)) = m"
| "error_message (UnauthorizedException (JStr m)) = m"
| "error_message (ForbiddenException (JStr m)) = m"
| "error_message (NotFoundException (JStr m)) = m"
| "error_message (ConflictException (JStr m)) = m"
| "error_message (PayloadTooLargeException (JStr m)) = m"
| "error_message (UnsupportedMediaTypeException (JStr m)) = m"
| "error_message (UnprocessableEntityException (JStr m)) = m"
| "error_message (InternalServerErrorException (JStr m)) = m"
| "error_message (BadGatewayException (JStr m)) = m"
| "error_message (PlainError m) = m"
| "error_message (TypeError m) = m"
| "error_message (QueryFailedError m) = m"
| "error_message NatsError = ''NATS''"
| "error_message _ = ''Http Exception''"

section \<open>The state\<close>

text \<open>A message handed to JetStream, and a websocket emission to a room with the sockets it reached.\<close>

record nats_message =
  nm_subject :: string
  nm_msgId :: string
  nm_payload :: json

record ws_emission =
  ws_room :: string
  ws_event :: string
  ws_payload :: json
  ws_to :: "string list"

text \<open>A connected socket: its id, the user data of the handshake, the rooms it is in, the join errors
  it was sent.\<close>

record Client =
  cl_id :: string
  cl_userId :: "string option"
  cl_orgId :: "string option"
  cl_role :: "string option"
  cl_rooms :: "string list"
  cl_errors :: "(string \<times> string) list"

text \<open>The health of a service as last checked, and what the health service caches.\<close>

datatype ServiceStatus = OK | DEGRADED | DOWN

record HealthStatus =
  hs_status :: ServiceStatus
  hs_details :: "(string \<times> json) list"

record CachedHealthResult =
  ch_result :: "(string \<times> HealthStatus) list"
  ch_timestamp :: time
  ch_pingTimestamp :: "time option"

record world =
  userRows :: "User list"
  refreshTokenRows :: "RefreshToken list"
  sessionRows :: "Session list"
  messageRows :: "Message list"
  documentRows :: "Document list"
  auditRows :: "AuditLog list"
  ruleRows :: "Rule list"
  ruleVersionRows :: "RuleVersion list"
  ruleApplicationRows :: "RuleApplication list"
  projectRows :: "Project list"
  commentRows :: "Comment list"
  workflowRows :: "Workflow list"
  versionRows :: "WorkflowVersion list"
  pipelineRows :: "PipelineExecution list"
  agentExecutionRows :: "AgentExecution list"
  deadLetterRows :: "DeadLetter list"
  skillRows :: "Skill list"
  skillApplicationRows :: "SkillApplication list"
  reportRows :: "DivergenceReport list"
  pointRows :: "DivergencePoint list"
  snapshotRows :: "WorkflowGraphSnapshot list"
  kgNodeRows :: "KGNode list"
  kgEdgeRows :: "KGEdge list"
  agentLogRows :: "AgentLogRow list"
  agentDefinitionRows :: "AgentDefinition list"
  processPatternRows :: "ProcessPattern list"
  published :: "nats_message list"
  emitted :: "ws_emission list"
  clients :: "Client list"
  activeRuleCache :: "(string \<times> time \<times> Rule list) list"
  simulationCache :: "(string \<times> time \<times> json) list"
  completedIds :: "string list"
  divergenceIds :: "string list"
  progressIds :: "string list"
  outbox :: "(string \<times> string) list"
  storedObjects :: "(string \<times> string) list"
  healthCache :: "CachedHealthResult option"
  clock :: time
  idSupply :: "nat \<Rightarrow> string"
  idNext :: nat
  natsUp :: bool
  storageUp :: bool
  bucketReady :: "bool option"
  correlationId :: "string option"

type_synonym 'a service = "(world, error, 'a) action"

text \<open>The state before anything happened; concrete examples start from it.\<close>

definition empty_world :: world where
  "empty_world = \<lparr>userRows = [], refreshTokenRows = [], sessionRows = [], messageRows = [], documentRows = [], auditRows = [],
     ruleRows = [], ruleVersionRows = [], ruleApplicationRows = [], projectRows = [], commentRows = [],
     workflowRows = [], versionRows = [], pipelineRows = [], agentExecutionRows = [], deadLetterRows = [],
     skillRows = [], skillApplicationRows = [], reportRows = [], pointRows = [], snapshotRows = [], kgNodeRows = [],
     kgEdgeRows = [], agentLogRows = [], agentDefinitionRows = [], processPatternRows = [], published = [], emitted = [], clients = [],
     activeRuleCache = [], simulationCache = [], completedIds = [], divergenceIds = [], progressIds = [], outbox = [],
     storedObjects = [], healthCache = None, clock = 0,
     idSupply = (\<lambda>n. replicate n (CHR ''x'')), idNext = 1, natsUp = True, storageUp = True, bucketReady = None, correlationId = None\<rparr>"

text \<open>\<open>Date.now()\<close> and \<open>new Date()\<close> have millisecond precision; \<open>now()\<close> in SQL has microseconds.\<close>

definition new_Date :: "world \<Rightarrow> time" where
  "new_Date w = js_date (clock w)"

definition new_id :: "string service" where
  "new_id w = (Inr (idSupply w (idNext w)), w\<lparr>idNext := Suc (idNext w)\<rparr>)"

lemma new_id_run [run_simps]:
  "new_id w = (Inr (idSupply w (idNext w)), w\<lparr>idNext := Suc (idNext w)\<rparr>)"
  by (rule new_id_def)

lemma new_id_iff [run_iffs]:
  "new_id w = (r, v) \<longleftrightarrow> r = Inr (idSupply w (idNext w)) \<and> v = w\<lparr>idNext := Suc (idNext w)\<rparr>"
  by (auto simp: new_id_def)

lemma keeps_new_id [keeps_intros]: "(\<And>w n. P w \<Longrightarrow> P (w\<lparr>idNext := n\<rparr>)) \<Longrightarrow> keeps P new_id"
  by (simp add: keeps_def new_id_def)

section \<open>Dates in JSON\<close>

text \<open>\<open>toISOString\<close>: the Gregorian date of a day number, and the fixed-width text.\<close>

definition civil_date :: "nat \<Rightarrow> nat \<times> nat \<times> nat" where
  "civil_date day =
     (let z = day + 719468; era = z div 146097; doe = z mod 146097;
          yoe = (doe + doe div 36524 - doe div 1460 - doe div 146096) div 365;
          doy = doe - (365 * yoe + yoe div 4 - yoe div 100);
          mp = (5 * doy + 2) div 153;
          m = (if mp < 10 then mp + 3 else mp - 9)
      in (yoe + era * 400 + (if m \<le> 2 then 1 else 0), m, doy - (153 * mp + 2) div 5 + 1))"

definition pad :: "nat \<Rightarrow> nat \<Rightarrow> string" where
  "pad k n = (let d = nat_digits n in replicate (k - length d) (CHR ''0'') @ d)"

definition toISOString :: "time \<Rightarrow> string" where
  "toISOString t =
     (let ms = t div 1000; s = ms div 1000; (y, m, d) = civil_date (s div 86400) in
      pad 4 y @ ''-'' @ pad 2 m @ ''-'' @ pad 2 d @ ''T'' @
      pad 2 (s div 3600 mod 24) @ '':'' @ pad 2 (s div 60 mod 60) @ '':'' @ pad 2 (s mod 60) @
      ''.'' @ pad 3 (ms mod 1000) @ ''Z'')"

section \<open>Repositories\<close>

text \<open>
  The contract of a repository over a state: \<open>rows\<close> reads the table, \<open>modify\<close> changes it and nothing
  else about it, \<open>key\<close> is the primary key.
\<close>

locale table =
  fixes rows :: "'w \<Rightarrow> 'r list"
    and modify :: "('r list \<Rightarrow> 'r list) \<Rightarrow> 'w \<Rightarrow> 'w"
    and key :: "'r \<Rightarrow> 'k"
  assumes rows_modify: "rows (modify f w) = f (rows w)"
begin

abbreviation keyed :: "'w \<Rightarrow> bool" where
  "keyed w \<equiv> distinct (map key (rows w))"

lemma find_saved:
  "find_row key k (rows (modify (save_row key x) w)) =
     (if k = key x then Some x else find_row key k (rows w))"
  by (simp add: rows_modify find_row_save)

lemma rows_saved:
  "set (rows (modify (save_row key x) w)) = insert x {r \<in> set (rows w). key r \<noteq> key x}"
  by (simp add: rows_modify set_save_row)

lemma rows_inserted:
  "key x \<notin> key ` set (rows w) \<Longrightarrow> rows (modify (save_row key x) w) = rows w @ [x]"
  by (simp add: rows_modify save_row_new)

lemma keyed_saved: "keyed w \<Longrightarrow> keyed (modify (save_row key x) w)"
  by (simp add: rows_modify distinct_save_row)

lemma keeps_keyed: "keeps keyed (writing (modify (save_row key x)))"
  by (intro keeps_writing keyed_saved)

lemma found_is_row: "find_row key k (rows w) = Some r \<Longrightarrow> r \<in> set (rows w) \<and> key r = k"
  by (rule find_row_Some)

lemma find_unique: "keyed w \<Longrightarrow> r \<in> set (rows w) \<Longrightarrow> find_row key (key r) (rows w) = Some r"
  by (rule find_row_distinct)

end

interpretation user_table: table userRows userRows_update us_id by unfold_locales simp
interpretation session_table: table sessionRows sessionRows_update se_id by unfold_locales simp
interpretation message_table: table messageRows messageRows_update me_id by unfold_locales simp
interpretation document_table: table documentRows documentRows_update do_id by unfold_locales simp
interpretation rule_table: table ruleRows ruleRows_update ru_id by unfold_locales simp
interpretation project_table: table projectRows projectRows_update pr_id by unfold_locales simp
interpretation comment_table: table commentRows commentRows_update co_id by unfold_locales simp
interpretation workflow_table: table workflowRows workflowRows_update wf_id by unfold_locales simp
interpretation pipeline_table: table pipelineRows pipelineRows_update pe_id by unfold_locales simp
interpretation skill_table: table skillRows skillRows_update sk_id by unfold_locales simp

text \<open>
  \<open>save\<close> per table. The foreign keys, the unique index on user emails and the unique
  \<open>(workflow_id, version_number)\<close>, the smallint columns and the triggers are those of the migrations;
  references to the actor's own user row and to the organization are not checked, both come from the
  verified token of the request. \<open>updatedAt\<close> moves when a column changed.
\<close>

definition constraint :: "bool \<Rightarrow> string \<Rightarrow> unit service" where
  "constraint b name = check b (QueryFailedError name)"

lemma constraint_run [run_simps]:
  "constraint b n w = (if b then Inr () else Inl (QueryFailedError n), w)"
  by (simp add: constraint_def check_def)

lemma constraint_iff [run_iffs]:
  "constraint b n w = (Inr x, v) \<longleftrightarrow> b \<and> v = w"
  "constraint b n w = (Inl e, v) \<longleftrightarrow> \<not> b \<and> e = QueryFailedError n \<and> v = w"
  by (auto simp: constraint_def run_iffs)

lemma keeps_constraint [keeps_intros]: "keeps P (constraint b n)"
  by (simp add: constraint_def keeps_check)

definition workflowExists :: "string \<Rightarrow> world \<Rightarrow> bool" where
  "workflowExists i w \<longleftrightarrow> i \<in> wf_id ` set (workflowRows w)"

definition sessionExists :: "string \<Rightarrow> world \<Rightarrow> bool" where
  "sessionExists i w \<longleftrightarrow> i \<in> se_id ` set (sessionRows w)"

definition optionally :: "('a \<Rightarrow> bool) \<Rightarrow> 'a option \<Rightarrow> bool" where
  "optionally p x = (case x of None \<Rightarrow> True | Some y \<Rightarrow> p y)"

lemma optionally_simps [simp]: "optionally p None" "optionally p (Some y) = p y"
  by (simp_all add: optionally_def)

definition smallint :: "int \<Rightarrow> bool" where
  "smallint i \<longleftrightarrow> - 32768 \<le> i \<and> i \<le> 32767"

definition save_session :: "Session \<Rightarrow> unit service" where
  "save_session s w =
     andThen (constraint (workflowExists (se_workflowId s) w) ''session_workflow_id_fkey'')
       (\<lambda>_. writing (sessionRows_update (save_row se_id s))) w"

definition insert_audit :: "AuditLog \<Rightarrow> unit service" where
  "insert_audit a w =
     andThen (constraint (optionally (\<lambda>i. workflowExists i w) (au_workflowId a)) ''audit_log_workflow_id_fkey'')
       (\<lambda>_. writing (auditRows_update (\<lambda>rs. rs @ [a]))) w"

text \<open>The trigger on workflow rows: an insert or a change of \<open>current_version\<close> is refused when it exceeds
  the latest version number of the workflow.\<close>

definition latest_number :: "string \<Rightarrow> world \<Rightarrow> int" where
  "latest_number wid w = foldr max (map wv_versionNumber (filter (\<lambda>v. wv_workflowId v = wid) (versionRows w))) 0"

definition enforce_workflow_current_version :: "Workflow \<Rightarrow> world \<Rightarrow> bool" where
  "enforce_workflow_current_version r w \<longleftrightarrow>
     (case find_row wf_id (wf_id r) (workflowRows w) of
        Some old \<Rightarrow> wf_currentVersion old = wf_currentVersion r
      | None \<Rightarrow> False) \<or> wf_currentVersion r \<le> latest_number (wf_id r) w"

definition save_workflow :: "Workflow \<Rightarrow> Workflow service" where
  "save_workflow r w =
     andThen (constraint (enforce_workflow_current_version r w) ''workflow.current_version cannot exceed latest workflow_version.version_number'') (\<lambda>_.
     (let r' = (if find_row wf_id (wf_id r) (workflowRows w) = Some r then r
                else r\<lparr>wf_updatedAt := clock w\<rparr>)
      in andThen (writing (workflowRows_update (save_row wf_id r'))) (\<lambda>_. ret r'))) w"

definition insert_version :: "WorkflowVersion \<Rightarrow> unit service" where
  "insert_version v w =
     andThen (constraint (workflowExists (wv_workflowId v) w) ''workflow_version_workflow_id_fkey'') (\<lambda>_.
     andThen (constraint (\<not> (\<exists>x \<in> set (versionRows w).
         wv_workflowId x = wv_workflowId v \<and> wv_versionNumber x = wv_versionNumber v))
         ''uq_workflow_version_number'') (\<lambda>_.
     writing (versionRows_update (\<lambda>rs. rs @ [v])))) w"

definition save_pipeline :: "PipelineExecution \<Rightarrow> unit service" where
  "save_pipeline p w =
     andThen (constraint (sessionExists (pe_sessionId p) w) ''pipeline_execution_session_id_fkey'')
       (\<lambda>_. writing (pipelineRows_update (save_row pe_id p))) w"

definition save_message :: "Message \<Rightarrow> unit service" where
  "save_message m w =
     andThen (constraint (sessionExists (me_sessionId m) w) ''message_session_id_fkey'')
       (\<lambda>_. writing (messageRows_update (save_row me_id m))) w"

text \<open>\<open>insert\<close> of a message: the id is new, or the statement is refused.\<close>

definition insert_message :: "Message \<Rightarrow> unit service" where
  "insert_message m w =
     andThen (constraint (me_id m \<notin> me_id ` set (messageRows w)) ''message_pkey'') (\<lambda>_.
     andThen (constraint (sessionExists (me_sessionId m) w) ''message_session_id_fkey'') (\<lambda>_.
     writing (messageRows_update (\<lambda>rs. rs @ [m])))) w"

definition save_document :: "Document \<Rightarrow> unit service" where
  "save_document d w =
     andThen (constraint (optionally (\<lambda>i. workflowExists i w) (do_workflowId d)) ''document_workflow_id_fkey'') (\<lambda>_.
     andThen (constraint (optionally (\<lambda>i. sessionExists i w) (do_sessionId d)) ''document_session_id_fkey'') (\<lambda>_.
     writing (documentRows_update (save_row do_id d)))) w"

definition save_rule :: "Rule \<Rightarrow> Rule service" where
  "save_rule r w =
     andThen (constraint (optionally (\<lambda>i. workflowExists i w) (ru_workflowId r)) ''rule_workflow_id_fkey'') (\<lambda>_.
     andThen (constraint (smallint (ru_priority r) \<and> smallint (ru_version r)) ''smallint out of range'') (\<lambda>_.
     (let r' = (if find_row ru_id (ru_id r) (ruleRows w) = Some r then r
                else r\<lparr>ru_updatedAt := clock w\<rparr>)
      in andThen (writing (ruleRows_update (save_row ru_id r'))) (\<lambda>_. ret r')))) w"

definition insert_rule_version :: "RuleVersion \<Rightarrow> unit service" where
  "insert_rule_version v w =
     andThen (constraint (rv_ruleId v \<in> ru_id ` set (ruleRows w)) ''rule_version_rule_id_fkey'')
       (\<lambda>_. writing (ruleVersionRows_update (\<lambda>rs. rs @ [v]))) w"

definition save_user :: "User \<Rightarrow> User service" where
  "save_user u w =
     andThen (constraint (\<not> (\<exists>x \<in> set (userRows w).
         us_id x \<noteq> us_id u \<and> js_toLowerCase (us_email x) = js_toLowerCase (us_email u))) ''user_email_key'') (\<lambda>_.
     (let u' = (if find_row us_id (us_id u) (userRows w) = Some u then u
                else u\<lparr>us_updatedAt := clock w\<rparr>)
      in andThen (writing (userRows_update (save_row us_id u'))) (\<lambda>_. ret u'))) w"

definition save_comment :: "Comment \<Rightarrow> unit service" where
  "save_comment c w =
     andThen (constraint (workflowExists (co_workflowId c) w) ''comment_workflow_id_fkey'') (\<lambda>_.
     andThen (constraint (optionally (\<lambda>i. i \<in> co_id ` set (commentRows w)) (co_parentId c)) ''comment_parent_id_fkey'') (\<lambda>_.
     andThen (constraint (optionally (\<lambda>i. i \<in> us_id ` set (userRows w)) (co_assignedTo c)) ''comment_assigned_to_fkey'') (\<lambda>_.
     writing (commentRows_update (save_row co_id c))))) w"

definition save_skill :: "Skill \<Rightarrow> Skill service" where
  "save_skill r w =
     (let r' = (if find_row sk_id (sk_id r) (skillRows w) = Some r then r
                else r\<lparr>sk_updatedAt := clock w\<rparr>)
      in (Inr r', skillRows_update (save_row sk_id r') w))"

definition save_project :: "Project \<Rightarrow> Project service" where
  "save_project r w =
     andThen (constraint (\<not> (\<exists>x \<in> set (projectRows w).
         pr_id x \<noteq> pr_id r \<and> pr_name x = pr_name r \<and> pr_orgId x = pr_orgId r)) ''idx_project_name_org'') (\<lambda>_.
     (let r' = (if find_row pr_id (pr_id r) (projectRows w) = Some r then r
                else r\<lparr>pr_updatedAt := clock w\<rparr>)
      in andThen (writing (projectRows_update (save_row pr_id r'))) (\<lambda>_. ret r'))) w"

definition insert_dead_letter :: "DeadLetter \<Rightarrow> unit service" where
  "insert_dead_letter d = writing (deadLetterRows_update (\<lambda>rs. rs @ [d]))"

definition save_report :: "DivergenceReport \<Rightarrow> unit service" where
  "save_report d = writing (reportRows_update (save_row dr_id d))"

definition insert_snapshot :: "WorkflowGraphSnapshot \<Rightarrow> unit service" where
  "insert_snapshot g =
     andThen (constraint (smallint (gs_nodeCount g) \<and> smallint (gs_edgeCount g)) ''smallint out of range'')
       (\<lambda>_. writing (snapshotRows_update (\<lambda>rs. rs @ [g])))"

definition save_agent_execution :: "AgentExecution \<Rightarrow> unit service" where
  "save_agent_execution a w =
     andThen (constraint (ae_pipelineExecutionId a \<in> pe_id ` set (pipelineRows w)) ''agent_execution_pipeline_execution_id_fkey'') (\<lambda>_.
     andThen (constraint (smallint (ae_orderIndex a) \<and> smallint (ae_llmCallsCount a)) ''smallint out of range'') (\<lambda>_.
     writing (agentExecutionRows_update (save_row ae_id a)))) w"

definition insert_agent_log :: "AgentLogRow \<Rightarrow> unit service" where
  "insert_agent_log l = writing (agentLogRows_update (\<lambda>rs. rs @ [l]))"

lemmas save_defs = save_session_def insert_audit_def save_workflow_def insert_version_def save_pipeline_def
  save_report_def insert_snapshot_def save_agent_execution_def insert_agent_log_def
  save_message_def save_document_def save_rule_def insert_rule_version_def save_user_def
  save_comment_def save_skill_def save_project_def insert_dead_letter_def

text \<open>A transaction that throws leaves the tables as they were.\<close>

definition in_transaction :: "'a service \<Rightarrow> 'a service" where
  "in_transaction m w = (case m w of (Inl e, v) \<Rightarrow> (Inl e, w) | (Inr x, v) \<Rightarrow> (Inr x, v))"

section \<open>NATS and websockets\<close>

definition nats_publish :: "string \<Rightarrow> json \<Rightarrow> string \<Rightarrow> unit service" where
  "nats_publish subject payload msgId w =
     (if natsUp w
      then (Inr (), published_update (\<lambda>ms. ms @ [\<lparr>nm_subject = subject, nm_msgId = msgId, nm_payload = payload\<rparr>]) w)
      else (Inl NatsError, w))"

definition room_members :: "string \<Rightarrow> world \<Rightarrow> string list" where
  "room_members room w = map cl_id (filter (\<lambda>c. room \<in> set (cl_rooms c)) (clients w))"

definition emitToRoom :: "string \<Rightarrow> string \<Rightarrow> json \<Rightarrow> unit service" where
  "emitToRoom room event payload =
     writing (\<lambda>w. emitted_update (\<lambda>es. es @ [\<lparr>ws_room = room, ws_event = event, ws_payload = payload,
       ws_to = room_members room w\<rparr>]) w)"

text \<open>What an action leaves alone: one composition lemma instead of one per table and operation.\<close>

definition untouched :: "(world \<Rightarrow> 'f) \<Rightarrow> 'a service \<Rightarrow> bool" where
  "untouched f m \<longleftrightarrow> (\<forall>w. f (snd (m w)) = f w)"

named_theorems untouched_intros \<open>what an action does not change\<close>

lemma untouchedD: "untouched f m \<Longrightarrow> m w = (r, v) \<Longrightarrow> f v = f w"
  by (metis untouched_def snd_conv)

lemma untouched_rest:
  "m w = (Inr x, v) \<Longrightarrow> untouched f (k x) \<Longrightarrow> f (snd (andThen m k w)) = f v"
  by (simp add: untouched_def andThen_def)

lemma untouched_andThen [untouched_intros]:
  "untouched f m \<Longrightarrow> (\<And>x. untouched f (k x)) \<Longrightarrow> untouched f (andThen m k)"
  by (auto simp: untouched_def andThen_def split: prod.splits sum.splits) (metis snd_conv)+

lemma untouched_basic [untouched_intros]:
  "untouched f (ret x)" "untouched f (throw e)" "untouched f (reading g)" "untouched f (check b e)"
  "untouched f (orThrow r e)" "untouched f (liftSum z)" "untouched f (constraint b n)"
  by (simp_all add: untouched_def ret_def throw_def reading_def check_def orThrow_def liftSum_def
      constraint_def split: option.splits)

lemma untouched_unless [untouched_intros]: "untouched f m \<Longrightarrow> untouched f (unless b m)"
  by (simp add: untouched_def unless_def)

lemma untouched_writing [untouched_intros]: "(\<And>w. f (g w) = f w) \<Longrightarrow> untouched f (writing g)"
  by (simp add: untouched_def writing_def)

lemma untouched_if [untouched_intros]:
  "untouched f m \<Longrightarrow> untouched f n \<Longrightarrow> untouched f (if b then m else n)"
  by simp

lemma untouched_option [untouched_intros]:
  "untouched f m \<Longrightarrow> (\<And>x. untouched f (n x)) \<Longrightarrow> untouched f (case r of None \<Rightarrow> m | Some x \<Rightarrow> n x)"
  by (simp split: option.splits)

lemma untouched_new_id [untouched_intros]:
  "(\<And>w n. f (w\<lparr>idNext := n\<rparr>) = f w) \<Longrightarrow> untouched f new_id"
  by (simp add: untouched_def new_id_def)

lemma untouched_nats_publish [untouched_intros]:
  "(\<And>w g. f (published_update g w) = f w) \<Longrightarrow> untouched f (nats_publish s p i)"
  by (simp add: untouched_def nats_publish_def)

lemma untouched_emitToRoom [untouched_intros]:
  "(\<And>w g. f (emitted_update g w) = f w) \<Longrightarrow> untouched f (emitToRoom r e p)"
  by (simp add: emitToRoom_def untouched_intros)

text \<open>
  \<open>writes f A m\<close>: the action leaves the field \<open>f\<close> alone or changes it along \<open>A\<close>, once.
\<close>

definition writes :: "(world \<Rightarrow> 'f) \<Rightarrow> ('f \<Rightarrow> 'f \<Rightarrow> bool) \<Rightarrow> 'a service \<Rightarrow> bool" where
  "writes f A m \<longleftrightarrow> (\<forall>w. f (snd (m w)) = f w \<or> A (f w) (f (snd (m w))))"

named_theorems writes_intros \<open>read first, then write one field once\<close>

lemma writesD: "writes f A m \<Longrightarrow> m w = (r, v) \<Longrightarrow> f v = f w \<or> A (f w) (f v)"
  by (metis writes_def snd_conv)

lemma writes_untouched: "untouched f m \<Longrightarrow> writes f A m"
  by (simp add: writes_def untouched_def)

lemma writes_mono: "writes f A m \<Longrightarrow> (\<And>x y. A x y \<Longrightarrow> B x y) \<Longrightarrow> writes f B m"
  unfolding writes_def by blast

lemma writes_pointwise: "(\<And>w. writes f A (m w)) \<Longrightarrow> writes f A (\<lambda>w. m w w)"
  by (simp add: writes_def)

lemma writes_pre:
  assumes "untouched f m" "\<And>x. writes f A (k x)"
  shows "writes f A (andThen m k)"
  using assms unfolding writes_def untouched_def andThen_def
  by (auto split: prod.splits sum.splits) (metis snd_conv)+

lemma writes_post:
  assumes "writes f A m" "\<And>x. untouched f (k x)"
  shows "writes f A (andThen m k)"
  using assms unfolding writes_def untouched_def andThen_def
  by (auto split: prod.splits sum.splits) (metis snd_conv)+

lemma writes_liftSum: "(\<And>x. q = Inr x \<Longrightarrow> writes f A (k x)) \<Longrightarrow> writes f A (andThen (liftSum q) k)"
  unfolding writes_def andThen_def liftSum_def by (auto split: sum.splits)

lemma writes_check: "(b \<Longrightarrow> writes f A k) \<Longrightarrow> writes f A (andThen (check b e) (\<lambda>_. k))"
  unfolding writes_def andThen_def check_def by (auto split: sum.splits)

lemma writes_reading: "(\<And>w. writes f A (k (g w))) \<Longrightarrow> writes f A (andThen (reading g) k)"
  unfolding writes_def andThen_def reading_def by auto

lemma writes_if: "(b \<Longrightarrow> writes f A m) \<Longrightarrow> (\<not> b \<Longrightarrow> writes f A n) \<Longrightarrow> writes f A (if b then m else n)"
  by simp

lemma writes_lookup:
  "(\<And>x. writes f (\<lambda>R S. g R = Some x \<longrightarrow> A R S) (k x)) \<Longrightarrow> writes f A (andThen (\<lambda>w. orThrow (g (f w)) e w) k)"
  unfolding writes_def andThen_def orThrow_def by (auto split: sum.splits option.splits)

lemma writes_writing: "(\<And>w. A (f w) (f (g w))) \<Longrightarrow> writes f A (writing g)"
  by (simp add: writes_def writing_def)

text \<open>What a read learned about the field still holds when a later action writes it.\<close>

lemma writes_fact:
  assumes "\<And>w x v. m w = (Inr x, v) \<Longrightarrow> Q x (f w)" "untouched f m"
    "\<And>x. writes f (\<lambda>R S. Q x R \<longrightarrow> A R S) (k x)"
  shows "writes f A (andThen m k)"
  unfolding writes_def
proof
  fix w
  show "f (snd (andThen m k w)) = f w \<or> A (f w) (f (snd (andThen m k w)))"
  proof (cases "m w")
    case (Pair r v)
    have v: "f v = f w" using assms(2) Pair by (rule untouchedD)
    show ?thesis
    proof (cases r)
      case (Inl e)
      then show ?thesis using v Pair by (simp add: run_simps)
    next
      case (Inr x)
      have "Q x (f v)" unfolding v by (rule assms(1)) (use Pair Inr in simp)
      then have "f (snd (k x v)) = f v \<or> A (f v) (f (snd (k x v)))" using assms(3) [of x] unfolding writes_def by blast
      then show ?thesis using v Pair Inr by (simp add: run_simps)
    qed
  qed
qed

lemma untouched_lookup [untouched_intros]: "untouched f (\<lambda>w. orThrow (g w) e w)"
  by (simp add: untouched_def orThrow_def split: option.splits)

lemma untouched_prod [untouched_intros]: "(\<And>x y. untouched f (g x y)) \<Longrightarrow> untouched f (case p of (x, y) \<Rightarrow> g x y)"
  by (cases p) simp

text \<open>What an action only appends to: the audit log, the published messages, the emitted events.\<close>

definition appends :: "(world \<Rightarrow> 'x list) \<Rightarrow> 'a service \<Rightarrow> bool" where
  "appends f m \<longleftrightarrow> (\<forall>w. prefix (f w) (f (snd (m w))))"

named_theorems appends_intros \<open>what an action only appends to\<close>

lemma appendsD: "appends f m \<Longrightarrow> m w = (r, v) \<Longrightarrow> prefix (f w) (f v)"
  by (metis appends_def snd_conv)

lemma appends_untouched: "untouched f m \<Longrightarrow> appends f m"
  by (simp add: appends_def untouched_def)

lemma appends_andThen [appends_intros]:
  "appends f m \<Longrightarrow> (\<And>x. appends f (k x)) \<Longrightarrow> appends f (andThen m k)"
  by (auto simp: appends_def andThen_def split: prod.splits sum.splits)
    (metis prefix_order.trans snd_conv)+

lemma appends_basic [appends_intros]:
  "appends f (ret x)" "appends f (throw e)" "appends f (reading g)" "appends f (check b e)"
  "appends f (orThrow r e)" "appends f (liftSum z)" "appends f (constraint b n)"
  by (simp_all add: appends_untouched untouched_basic)

lemma appends_unless [appends_intros]: "appends f m \<Longrightarrow> appends f (unless b m)"
  by (simp add: appends_def unless_def)

lemma appends_writing [appends_intros]: "(\<And>w. prefix (f w) (f (g w))) \<Longrightarrow> appends f (writing g)"
  by (simp add: appends_def writing_def)

lemma appends_if [appends_intros]:
  "appends f m \<Longrightarrow> appends f n \<Longrightarrow> appends f (if b then m else n)"
  by simp

lemma appends_option [appends_intros]:
  "appends f m \<Longrightarrow> (\<And>x. appends f (n x)) \<Longrightarrow> appends f (case r of None \<Rightarrow> m | Some x \<Rightarrow> n x)"
  by (simp split: option.splits)

lemma appends_new_id [appends_intros]:
  "(\<And>w n. f (w\<lparr>idNext := n\<rparr>) = f w) \<Longrightarrow> appends f new_id"
  by (simp add: appends_untouched untouched_new_id)

lemma appends_nats_publish [appends_intros]:
  "(\<And>w x. prefix (f w) (f (published_update (\<lambda>xs. xs @ x) w))) \<Longrightarrow> appends f (nats_publish s p i)"
  by (simp add: appends_def nats_publish_def)

lemma appends_emitToRoom [appends_intros]:
  "(\<And>w x. prefix (f w) (f (emitted_update (\<lambda>xs. xs @ x) w))) \<Longrightarrow> appends f (emitToRoom r e p)"
  unfolding appends_def emitToRoom_def writing_def by simp

lemma appends_insert_audit [appends_intros]:
  "(\<And>w x. prefix (f w) (f (auditRows_update (\<lambda>xs. xs @ x) w))) \<Longrightarrow> appends f (insert_audit a)"
  by (simp add: appends_def insert_audit_def andThen_def constraint_run writing_def)

lemma untouched_insert_audit [untouched_intros]:
  "(\<And>w g. f (auditRows_update g w) = f w) \<Longrightarrow> untouched f (insert_audit a)"
  by (simp add: untouched_def insert_audit_def andThen_def constraint_run writing_def)

section \<open>Sample rows for concrete instances\<close>

definition sample_workflow :: Workflow where
  "sample_workflow = \<lparr>wf_id = ''w1'', wf_title = ''Onboarding'', wf_description = None,
     wf_status = WorkflowStatus.DRAFT, wf_currentVersion = 0, wf_orgId = ''o1'', wf_ownerId = ''u1'',
     wf_projectId = None, wf_domain = None, wf_tags = [], wf_shareToken = None, wf_shareExpiresAt = None,
     wf_shareMaxViews = None, wf_shareViewCount = 0, wf_createdAt = 0, wf_updatedAt = 0\<rparr>"

definition sample_session :: Session where
  "sample_session = \<lparr>se_id = ''s1'', se_workflowId = ''w1'', se_userId = ''u1'',
     se_mode = SessionMode.AUTO, se_status = SessionStatus.CREATED, se_confidenceScore = ''0'',
     se_createdAt = 0, se_finalizedAt = None, se_archivedAt = None\<rparr>"

definition sample_world :: world where
  "sample_world = empty_world\<lparr>workflowRows := [sample_workflow], sessionRows := [sample_session]\<rparr>"

lemmas sample_defs = sample_workflow_def sample_session_def sample_world_def empty_world_def

end
