(* ===== verification/Audit_Log.thy ===== *)
theory Audit_Log
  imports Database
begin

text \<open>
  The audit log: \<open>src/modules/audit/audit.service.ts\<close>. Appending an entry, the filtered and paginated
  views of a workflow's log, and the CSV export. The PDF export draws through a third-party library
  and is not modelled.
\<close>

section \<open>Appending\<close>

record AuditLogEntryInput =
  ei_id :: "string option"
  ei_workflowId :: "string option"
  ei_actorId :: "string option"
  ei_actorType :: ActorType
  ei_eventType :: string
  ei_elementId :: "string option"
  ei_beforeState :: "json option"
  ei_afterState :: "json option"

definition truthy :: "string option \<Rightarrow> bool" where
  "truthy s \<longleftrightarrow> s \<noteq> None \<and> s \<noteq> Some []"

definition audit_log :: "AuditLogEntryInput \<Rightarrow> AuditLog service" where
  "audit_log entry =
     andThen (check (\<not> truthy (ei_id entry)) (BadRequestException (JStr ''Audit log rows are immutable''))) (\<lambda>_.
     andThen new_id (\<lambda>i.
     andThen (reading clock) (\<lambda>now.
     let auditLog = \<lparr>au_id = i, au_workflowId = ei_workflowId entry, au_actorId = ei_actorId entry,
                     au_actorType = ei_actorType entry, au_eventType = ei_eventType entry,
                     au_elementId = ei_elementId entry, au_beforeState = ei_beforeState entry,
                     au_afterState = ei_afterState entry, au_createdAt = now\<rparr>
     in andThen (insert_audit auditLog) (\<lambda>_. ret auditLog))))"

text \<open>The entry as the callers in other services write it: no id, the event, the actor, the states.\<close>

definition audit_entry ::
  "string option \<Rightarrow> string option \<Rightarrow> ActorType \<Rightarrow> string \<Rightarrow> string option \<Rightarrow> json option \<Rightarrow> json option
     \<Rightarrow> AuditLogEntryInput" where
  "audit_entry workflowId actorId actorType eventType elementId before after =
     \<lparr>ei_id = None, ei_workflowId = workflowId, ei_actorId = actorId, ei_actorType = actorType,
      ei_eventType = eventType, ei_elementId = elementId, ei_beforeState = before, ei_afterState = after\<rparr>"

lemma truthy_simps [simp]: "\<not> truthy None" "truthy (Some s) \<longleftrightarrow> s \<noteq> []"
  by (simp_all add: truthy_def)

lemma insert_audit_run:
  "insert_audit a w =
     (if optionally (\<lambda>i. workflowExists i w) (au_workflowId a)
      then (Inr (), w\<lparr>auditRows := auditRows w @ [a]\<rparr>)
      else (Inl (QueryFailedError ''audit_log_workflow_id_fkey''), w))"
  by (simp add: insert_audit_def andThen_def constraint_run writing_def)

lemma untouched_audit_log [untouched_intros]:
  "(\<And>w n. f (w\<lparr>idNext := n\<rparr>) = f w) \<Longrightarrow> (\<And>w g. f (auditRows_update g w) = f w) \<Longrightarrow>
     untouched f (audit_log e)"
  unfolding audit_log_def Let_def by (intro untouched_intros)

lemma audit_log_rows:
  "audit_log e w = (r, v) \<Longrightarrow>
     auditRows v = (case r of Inl _ \<Rightarrow> auditRows w | Inr a \<Rightarrow> auditRows w @ [a])"
  by (auto simp: audit_log_def andThen_def check_def new_id_def reading_def Let_def ret_def
      insert_audit_run split: if_splits)

lemma audit_log_Inr:
  "audit_log e w = (Inr a, v) \<Longrightarrow>
     auditRows v = auditRows w @ [a] \<and> au_workflowId a = ei_workflowId e \<and>
     au_actorId a = ei_actorId e \<and> au_actorType a = ei_actorType e \<and>
     au_eventType a = ei_eventType e \<and> au_elementId a = ei_elementId e \<and>
     au_beforeState a = ei_beforeState e \<and> au_afterState a = ei_afterState e"
  by (auto simp: audit_log_def andThen_def check_def new_id_def reading_def Let_def ret_def
      insert_audit_run split: if_splits)

lemma audit_log_returns:
  "\<not> truthy (ei_id e) \<Longrightarrow> optionally (\<lambda>i. workflowExists i w) (ei_workflowId e) \<Longrightarrow>
     \<exists>a v. audit_log e w = (Inr a, v)"
  by (simp add: audit_log_def andThen_def check_def new_id_def reading_def Let_def ret_def
      insert_audit_run optionally_def workflowExists_def split: option.splits)

section \<open>Access and filters\<close>

record RequestUser =
  rq_id :: string
  rq_orgId :: string
  rq_role :: string

record AuditLogQueryDto =
  aq_type :: "string option"
  aq_from :: "time option"
  aq_to :: "time option"
  aq_actor_id :: "string option"
  aq_page :: "nat option"
  aq_limit :: "nat option"

definition AI_DECISION_FILTER :: string where
  "AI_DECISION_FILTER = ''ai_decision''"

definition DECISION_EVENT_TYPES :: "string list" where
  "DECISION_EVENT_TYPES = [''PATTERN_MATCHED'', ''GAP_INFERRED'', ''ANSWER_APPLIED'']"

definition assertWorkflowAccess :: "string \<Rightarrow> RequestUser \<Rightarrow> unit service" where
  "assertWorkflowAccess workflowId currentUser =
     andThen (check (rq_role currentUser \<in>
         {user_role_str UserRole.ADMIN, user_role_str UserRole.PROCESS_OWNER,
          user_role_str UserRole.BUSINESS_ANALYST})
       (ForbiddenException (JStr ''You do not have permission to access the audit log''))) (\<lambda>_.
     andThen (reading (\<lambda>w. find (\<lambda>x. wf_id x = workflowId \<and> wf_orgId x = rq_orgId currentUser) (workflowRows w)))
       (\<lambda>workflow. check (workflow \<noteq> None) (NotFoundException (JStr ''Workflow not found''))))"

definition buildAuditLogQuery :: "string \<Rightarrow> AuditLogQueryDto \<Rightarrow> bool \<Rightarrow> AuditLog \<Rightarrow> bool" where
  "buildAuditLogQuery workflowId query decisionOnly a \<longleftrightarrow>
     au_workflowId a = Some workflowId \<and>
     (if decisionOnly \<or> aq_type query = Some AI_DECISION_FILTER
      then au_eventType a \<in> set DECISION_EVENT_TYPES
      else truthy (aq_type query) \<longrightarrow> au_eventType a = the (aq_type query)) \<and>
     optionally (\<lambda>t. js_date t \<le> au_createdAt a) (aq_from query) \<and>
     optionally (\<lambda>t. au_createdAt a \<le> js_date t) (aq_to query) \<and>
     (truthy (aq_actor_id query) \<longrightarrow> au_actorId a = aq_actor_id query)"

definition newest_first :: "AuditLog list \<Rightarrow> AuditLog list" where
  "newest_first = sort_desc (\<lambda>a. (au_createdAt a, au_id a))"

record PaginatedAuditLogResult =
  pa_entries :: "AuditLog list"
  pa_total :: nat
  pa_page :: nat
  pa_limit :: nat

definition auditPage :: "string \<Rightarrow> RequestUser \<Rightarrow> AuditLogQueryDto \<Rightarrow> bool \<Rightarrow> PaginatedAuditLogResult service" where
  "auditPage workflowId currentUser query decisionOnly =
     andThen (assertWorkflowAccess workflowId currentUser) (\<lambda>_.
     let page = (case aq_page query of None \<Rightarrow> 1 | Some p \<Rightarrow> p);
         limit = (case aq_limit query of None \<Rightarrow> 20 | Some l \<Rightarrow> l)
     in reading (\<lambda>w.
          let hits = filter (buildAuditLogQuery workflowId query decisionOnly) (auditRows w)
          in \<lparr>pa_entries = page_of page limit (newest_first hits), pa_total = length hits,
              pa_page = page, pa_limit = limit\<rparr>))"

definition getWorkflowAuditLog :: "string \<Rightarrow> RequestUser \<Rightarrow> AuditLogQueryDto \<Rightarrow> PaginatedAuditLogResult service" where
  "getWorkflowAuditLog workflowId currentUser query = auditPage workflowId currentUser query False"

definition getDecisionLog :: "string \<Rightarrow> RequestUser \<Rightarrow> AuditLogQueryDto \<Rightarrow> PaginatedAuditLogResult service" where
  "getDecisionLog workflowId currentUser query = auditPage workflowId currentUser query True"

definition listDecisionEntriesForWorkflow :: "string \<Rightarrow> world \<Rightarrow> AuditLog list" where
  "listDecisionEntriesForWorkflow workflowId w =
     newest_first (filter (\<lambda>a. au_workflowId a = Some workflowId \<and>
       au_eventType a \<in> set DECISION_EVENT_TYPES) (auditRows w))"

section \<open>CSV export\<close>

definition stringifyState :: "json option \<Rightarrow> string" where
  "stringifyState value = (case value of
     None \<Rightarrow> [] | Some JNull \<Rightarrow> [] | Some (JStr s) \<Rightarrow> s | Some v \<Rightarrow> stringify v)"

definition escapeCsv :: "string \<Rightarrow> string" where
  "escapeCsv value = ''\"'' @ concat (map (\<lambda>c. if c = CHR ''\"'' then ''\"\"'' else [c]) value) @ ''\"''"

definition csv_header :: "string list" where
  "csv_header = [''id'', ''workflow_id'', ''actor_id'', ''actor_type'', ''event_type'', ''element_id'',
     ''created_at'', ''before_state'', ''after_state'']"

definition csv_fields :: "AuditLog \<Rightarrow> string list" where
  "csv_fields e =
     [au_id e, case au_workflowId e of None \<Rightarrow> [] | Some s \<Rightarrow> s,
      case au_actorId e of None \<Rightarrow> [] | Some s \<Rightarrow> s, actor_type_str (au_actorType e), au_eventType e,
      case au_elementId e of None \<Rightarrow> [] | Some s \<Rightarrow> s, toISOString (au_createdAt e),
      stringifyState (au_beforeState e), stringifyState (au_afterState e)]"

definition renderCsv :: "AuditLog list \<Rightarrow> string" where
  "renderCsv entries =
     js_join [CHR 0x0A] (js_join '','' csv_header #
       map (\<lambda>e. js_join '','' (map escapeCsv (csv_fields e))) entries)"

definition exportWorkflowAuditLogCsv :: "string \<Rightarrow> RequestUser \<Rightarrow> AuditLogQueryDto \<Rightarrow> string service" where
  "exportWorkflowAuditLogCsv workflowId currentUser query =
     andThen (assertWorkflowAccess workflowId currentUser) (\<lambda>_.
     reading (\<lambda>w. renderCsv (newest_first (filter (buildAuditLogQuery workflowId query False) (auditRows w)))))"

text \<open>A reader of CSV as RFC 4180 describes it, to state that the export loses nothing.\<close>

datatype csv_state = Fresh | Plain | Quoted | Closing

fun csv_read :: "csv_state \<Rightarrow> string \<Rightarrow> string list \<Rightarrow> string list list \<Rightarrow> string \<Rightarrow> string list list" where
  "csv_read st f r rs [] = rev (rev (rev f # r) # rs)"
| "csv_read st f r rs (c # s) =
     (if st = Quoted then (if c = CHR ''\"'' then csv_read Closing f r rs s else csv_read Quoted (c # f) r rs s)
      else if c = CHR ''\"'' then csv_read Quoted (if st = Closing then c # f else f) r rs s
      else if c = CHR '','' then csv_read Fresh [] (rev f # r) rs s
      else if c = CHR 0x0A then csv_read Fresh [] [] (rev (rev f # r) # rs) s
      else csv_read Plain (c # f) r rs s)"

definition parseCsv :: "string \<Rightarrow> string list list" where
  "parseCsv = csv_read Fresh [] [] []"

lemma csv_read_quoted:
  "csv_read Quoted f r rs (concat (map (\<lambda>c. if c = CHR ''\"'' then ''\"\"'' else [c]) v) @ ''\"'' @ s) =
     csv_read Closing (rev v @ f) r rs s"
  by (induction v arbitrary: f) simp_all

lemma csv_read_escaped: "csv_read Fresh [] r rs (escapeCsv v @ s) = csv_read Closing (rev v) r rs s"
  using csv_read_quoted [of "[]" r rs v s] by (simp add: escapeCsv_def)

lemma csv_read_plain:
  "\<forall>c \<in> set v. c \<notin> {CHR ''\"'', CHR '','', CHR 0x0A} \<Longrightarrow> st \<noteq> Quoted \<Longrightarrow> v \<noteq> [] \<Longrightarrow>
     csv_read st f r rs (v @ s) = csv_read Plain (rev v @ f) r rs s"
proof (induction v arbitrary: f st)
  case (Cons c v)
  then show ?case by (cases "v = []") simp_all
qed simp

lemma js_join_Cons: "js_join sep (x # y # ys) = x @ sep @ js_join sep (y # ys)"
  by (simp add: js_join_def)

lemma js_join_single: "js_join sep [x] = x"
  by (simp add: js_join_def)

lemma csv_read_row:
  "vs \<noteq> [] \<Longrightarrow> csv_read Fresh [] r rs (js_join '','' (map escapeCsv vs) @ s) =
     csv_read Closing (rev (last vs)) (rev (butlast vs) @ r) rs s"
proof (induction vs arbitrary: r)
  case (Cons v vs)
  show ?case
  proof (cases vs)
    case Nil
    then show ?thesis by (simp add: js_join_single csv_read_escaped)
  next
    case (Cons u us)
    then show ?thesis
      using Cons.IH [of "v # r"] by (simp add: js_join_Cons csv_read_escaped)
  qed
qed simp

lemma csv_read_rows:
  "csv_read Fresh [] [] rs (js_join [CHR 0x0A] (map (\<lambda>vs. js_join '','' (map escapeCsv vs)) (ws @ [vs]))) =
     rev rs @ ws @ [vs]" if "[] \<notin> set (ws @ [vs])"
  using that
proof (induction ws arbitrary: rs)
  case Nil
  then show ?case using csv_read_row [of vs "[]" rs "[]"] by (simp add: js_join_single)
next
  case (Cons u us)
  have u: "u \<noteq> []" using Cons.prems by auto
  have "csv_read Fresh [] [] rs (js_join '','' (map escapeCsv u) @ CHR 0x0A # s) =
      csv_read Fresh [] [] (u # rs) s" for s
    using u csv_read_row [of u "[]" rs "CHR 0x0A # s"] by simp
  then show ?case
    using Cons by (cases us) (simp_all add: js_join_Cons)
qed

lemma csv_header_read:
  "csv_read Fresh [] [] rs (js_join '','' csv_header @ CHR 0x0A # s) = csv_read Fresh [] [] (csv_header # rs) s"
  "csv_read Fresh [] [] rs (js_join '','' csv_header) = rev rs @ [csv_header]"
  by (simp_all add: csv_header_def js_join_def)

lemma parse_renderCsv: "parseCsv (renderCsv es) = csv_header # map csv_fields es"
proof (cases es rule: rev_cases)
  case Nil
  then show ?thesis by (simp add: parseCsv_def renderCsv_def js_join_single csv_header_read)
next
  case (snoc as a)
  have ne: "[] \<notin> set (map csv_fields as @ [csv_fields a])" by (auto simp: csv_fields_def)
  have "renderCsv es = js_join '','' csv_header @ [CHR 0x0A] @
      js_join [CHR 0x0A] (map (\<lambda>vs. js_join '','' (map escapeCsv vs)) (map csv_fields as @ [csv_fields a]))"
    unfolding renderCsv_def snoc by (cases as) (simp_all add: js_join_Cons js_join_single comp_def)
  then show ?thesis
    using csv_read_rows [OF ne, of "[csv_header]"] snoc by (simp add: parseCsv_def csv_header_read)
qed

end
