(* ===== verification/Realtime.thy ===== *)
theory Realtime
  imports Audit_Log
begin

text \<open>
  Websockets: the room names (\<open>src/modules/realtime/constants\<close>), the join guard
  (\<open>services/ws-room-guard.service.ts\<close>), the gateway (\<open>realtime.gateway.ts\<close>), the handshake
  (\<open>adapters/ws-jwt-auth.adapter.ts\<close>), the emitter (\<open>services/realtime-emitter.service.ts\<close>) and the
  NATS bridge (\<open>services/nats-ws-bridge.service.ts\<close>). The sockets are \<^typ>\<open>Client\<close> records of the
  world; an emission records the sockets that were in its room.
\<close>

section \<open>Rooms and the gateway's emitters\<close>

definition user_room :: "string \<Rightarrow> string" where
  "user_room userId = ''user:'' @ userId"

definition session_room :: "string \<Rightarrow> string" where
  "session_room sessionId = ''session:'' @ sessionId"

definition workflow_room :: "string \<Rightarrow> string" where
  "workflow_room workflowId = ''workflow:'' @ workflowId"

definition pipeline_room :: "string \<Rightarrow> string" where
  "pipeline_room pipelineExecutionId = ''pipeline:'' @ pipelineExecutionId"

definition adminHealth_room :: string where
  "adminHealth_room = ''admin-health''"

lemmas room_defs = user_room_def session_room_def workflow_room_def pipeline_room_def adminHealth_room_def

definition emitToSession :: "string \<Rightarrow> string \<Rightarrow> json \<Rightarrow> unit service" where
  "emitToSession sessionId event payload = emitToRoom (session_room sessionId) event payload"

definition emitToWorkflow :: "string \<Rightarrow> string \<Rightarrow> json \<Rightarrow> unit service" where
  "emitToWorkflow workflowId event payload = emitToRoom (workflow_room workflowId) event payload"

definition emitToPipeline :: "string \<Rightarrow> string \<Rightarrow> json \<Rightarrow> unit service" where
  "emitToPipeline pipelineExecutionId event payload = emitToRoom (pipeline_room pipelineExecutionId) event payload"

definition emitToUser :: "string \<Rightarrow> string \<Rightarrow> json \<Rightarrow> unit service" where
  "emitToUser userId event payload = emitToRoom (user_room userId) event payload"

definition emitToAdminHealth :: "string \<Rightarrow> json \<Rightarrow> unit service" where
  "emitToAdminHealth event payload = emitToRoom adminHealth_room event payload"

definition hasListeners :: "string \<Rightarrow> world \<Rightarrow> bool" where
  "hasListeners room w \<longleftrightarrow> room_members room w \<noteq> []"

lemmas emit_defs = emitToSession_def emitToWorkflow_def emitToPipeline_def emitToUser_def emitToAdminHealth_def

lemma emitToRoom_run [run_simps]:
  "emitToRoom room e p w =
     (Inr (), emitted_update (\<lambda>es. es @ [\<lparr>ws_room = room, ws_event = e, ws_payload = p,
       ws_to = room_members room w\<rparr>]) w)"
  by (simp add: emitToRoom_def writing_def)

lemma keeps_emitToRoom [keeps_intros]:
  "(\<And>w g. P w \<Longrightarrow> P (emitted_update g w)) \<Longrightarrow> keeps P (emitToRoom r e p)"
  by (simp add: keeps_def emitToRoom_run)

lemma room_names_disjoint:
  "session_room a \<noteq> user_room b" "session_room a \<noteq> workflow_room b" "session_room a \<noteq> pipeline_room b"
  "session_room a \<noteq> adminHealth_room" "user_room a \<noteq> workflow_room b" "user_room a \<noteq> pipeline_room b"
  "user_room a \<noteq> adminHealth_room" "workflow_room a \<noteq> pipeline_room b" "workflow_room a \<noteq> adminHealth_room"
  "pipeline_room a \<noteq> adminHealth_room"
  by (simp_all add: room_defs)

lemma room_names_inj [simp]:
  "session_room a = session_room b \<longleftrightarrow> a = b" "user_room a = user_room b \<longleftrightarrow> a = b"
  "workflow_room a = workflow_room b \<longleftrightarrow> a = b" "pipeline_room a = pipeline_room b \<longleftrightarrow> a = b"
  by (simp_all add: room_defs)

section \<open>The join guard\<close>

record RoomJoinResult =
  allowed :: bool
  reason :: "string option"

definition rejected :: "string \<Rightarrow> RoomJoinResult" where
  "rejected r = \<lparr>allowed = False, reason = Some r\<rparr>"

definition accepted :: RoomJoinResult where
  "accepted = \<lparr>allowed = True, reason = None\<rparr>"

definition workflow_in_org :: "world \<Rightarrow> string \<Rightarrow> string \<Rightarrow> bool" where
  "workflow_in_org w workflowId orgId \<longleftrightarrow>
     find (\<lambda>x. wf_id x = workflowId \<and> wf_orgId x = orgId) (workflowRows w) \<noteq> None"

definition validateSessionOrg :: "world \<Rightarrow> string \<Rightarrow> string \<Rightarrow> RoomJoinResult" where
  "validateSessionOrg w orgId sessionId =
     (case find_row se_id sessionId (sessionRows w) of
        None \<Rightarrow> rejected ''Session not found''
      | Some session \<Rightarrow>
          if workflow_in_org w (se_workflowId session) orgId then accepted
          else rejected ''Session does not belong to your organization'')"

definition validateWorkflowOrg :: "world \<Rightarrow> string \<Rightarrow> string \<Rightarrow> RoomJoinResult" where
  "validateWorkflowOrg w orgId workflowId =
     (if workflow_in_org w workflowId orgId then accepted
      else rejected ''Workflow not found or not in your organization'')"

definition validatePipelineOrg :: "world \<Rightarrow> string \<Rightarrow> string \<Rightarrow> RoomJoinResult" where
  "validatePipelineOrg w orgId pipelineId =
     (case find_row pe_id pipelineId (pipelineRows w) of
        None \<Rightarrow> rejected ''Pipeline not found''
      | Some pipeline \<Rightarrow> validateSessionOrg w orgId (pe_sessionId pipeline))"

definition canJoin :: "world \<Rightarrow> Client \<Rightarrow> string \<Rightarrow> RoomJoinResult" where
  "canJoin w socket room =
     (if \<not> truthy (cl_userId socket) \<or> \<not> truthy (cl_orgId socket) then rejected ''Missing user context''
      else if js_startsWith room ''user:''
      then (if the (cl_userId socket) \<noteq> drop 5 room then rejected ''Cannot join another user's room'' else accepted)
      else if js_startsWith room ''session:'' then validateSessionOrg w (the (cl_orgId socket)) (drop 8 room)
      else if js_startsWith room ''workflow:'' then validateWorkflowOrg w (the (cl_orgId socket)) (drop 9 room)
      else if js_startsWith room ''pipeline:'' then validatePipelineOrg w (the (cl_orgId socket)) (drop 9 room)
      else if room = ''admin-health''
      then (if cl_role socket \<noteq> Some ''admin'' then rejected ''Admin role required'' else accepted)
      else rejected ''Unknown room pattern'')"

text \<open>What the guard promises: the rooms a user may read, stated over the tables.\<close>

definition session_org :: "world \<Rightarrow> string \<Rightarrow> string \<Rightarrow> bool" where
  "session_org w sessionId orgId \<longleftrightarrow>
     (\<exists>s. find_row se_id sessionId (sessionRows w) = Some s \<and> workflow_in_org w (se_workflowId s) orgId)"

definition pipeline_org :: "world \<Rightarrow> string \<Rightarrow> string \<Rightarrow> bool" where
  "pipeline_org w pipelineId orgId \<longleftrightarrow>
     (\<exists>p. find_row pe_id pipelineId (pipelineRows w) = Some p \<and> session_org w (pe_sessionId p) orgId)"

definition may_read :: "world \<Rightarrow> string \<Rightarrow> string \<Rightarrow> string option \<Rightarrow> string \<Rightarrow> bool" where
  "may_read w userId orgId role room \<longleftrightarrow>
     room = user_room userId \<or> (\<exists>i. room = session_room i \<and> session_org w i orgId) \<or>
     (\<exists>i. room = workflow_room i \<and> workflow_in_org w i orgId) \<or>
     (\<exists>i. room = pipeline_room i \<and> pipeline_org w i orgId) \<or>
     (room = adminHealth_room \<and> role = Some ''admin'')"

lemma validateSessionOrg_iff [simp]: "allowed (validateSessionOrg w o' i) \<longleftrightarrow> session_org w i o'"
  by (simp add: validateSessionOrg_def session_org_def rejected_def accepted_def split: option.splits)

lemma validateWorkflowOrg_iff [simp]: "allowed (validateWorkflowOrg w o' i) \<longleftrightarrow> workflow_in_org w i o'"
  by (simp add: validateWorkflowOrg_def rejected_def accepted_def)

lemma validatePipelineOrg_iff [simp]: "allowed (validatePipelineOrg w o' i) \<longleftrightarrow> pipeline_org w i o'"
  by (simp add: validatePipelineOrg_def pipeline_org_def rejected_def split: option.splits)

lemma startsWith_room:
  "js_startsWith room ''user:'' \<longleftrightarrow> (\<exists>i. room = user_room i)"
  "js_startsWith room ''session:'' \<longleftrightarrow> (\<exists>i. room = session_room i)"
  "js_startsWith room ''workflow:'' \<longleftrightarrow> (\<exists>i. room = workflow_room i)"
  "js_startsWith room ''pipeline:'' \<longleftrightarrow> (\<exists>i. room = pipeline_room i)"
  by (auto simp: js_startsWith_iff room_defs)

lemma drop_room [simp]:
  "drop 5 (user_room i) = i" "drop 8 (session_room i) = i"
  "drop 9 (workflow_room i) = i" "drop 9 (pipeline_room i) = i"
  by (simp_all add: room_defs)

lemma canJoin_cases:
  assumes "truthy (cl_userId c)" "truthy (cl_orgId c)"
  shows "allowed (canJoin w c (user_room i)) \<longleftrightarrow> the (cl_userId c) = i"
    "allowed (canJoin w c (session_room i)) \<longleftrightarrow> session_org w i (the (cl_orgId c))"
    "allowed (canJoin w c (workflow_room i)) \<longleftrightarrow> workflow_in_org w i (the (cl_orgId c))"
    "allowed (canJoin w c (pipeline_room i)) \<longleftrightarrow> pipeline_org w i (the (cl_orgId c))"
    "allowed (canJoin w c adminHealth_room) \<longleftrightarrow> cl_role c = Some ''admin''"
  using assms by (simp_all add: canJoin_def js_startsWith_def room_defs rejected_def accepted_def)

lemma canJoin_unknown:
  assumes "\<not> (\<exists>i. room = user_room i)" "\<not> (\<exists>i. room = session_room i)" "\<not> (\<exists>i. room = workflow_room i)"
    "\<not> (\<exists>i. room = pipeline_room i)" "room \<noteq> adminHealth_room"
  shows "\<not> allowed (canJoin w c room)"
  using assms unfolding canJoin_def startsWith_room by (simp add: rejected_def adminHealth_room_def)

lemma canJoin_missing: "\<not> truthy (cl_userId c) \<or> \<not> truthy (cl_orgId c) \<Longrightarrow> \<not> allowed (canJoin w c room)"
  by (simp add: canJoin_def rejected_def)

lemma may_read_room:
  "may_read w u g r (session_room i) \<longleftrightarrow> session_org w i g"
  "may_read w u g r (workflow_room i) \<longleftrightarrow> workflow_in_org w i g"
  "may_read w u g r (pipeline_room i) \<longleftrightarrow> pipeline_org w i g"
  "may_read w u g r (user_room i) \<longleftrightarrow> i = u"
  "may_read w u g r adminHealth_room \<longleftrightarrow> r = Some ''admin''"
  by (auto simp: may_read_def room_defs)

lemma canJoin_sound:
  assumes "allowed (canJoin w c room)"
  shows "may_read w (the (cl_userId c)) (the (cl_orgId c)) (cl_role c) room"
proof -
  have ctx: "truthy (cl_userId c)" "truthy (cl_orgId c)" using assms canJoin_missing by blast+
  consider i where "room = user_room i" | i where "room = session_room i" | i where "room = workflow_room i"
    | i where "room = pipeline_room i" | "room = adminHealth_room"
    using assms canJoin_unknown by blast
  then show ?thesis using assms canJoin_cases [OF ctx] by cases (simp_all add: may_read_room)
qed

lemma canJoin_complete:
  assumes "truthy (cl_userId c)" "truthy (cl_orgId c)"
    "may_read w (the (cl_userId c)) (the (cl_orgId c)) (cl_role c) room"
  shows "allowed (canJoin w c room)"
  using assms(3) canJoin_cases [OF assms(1,2)] unfolding may_read_def by auto

section \<open>Sockets: handshake, join, leave, disconnect\<close>

record JwtPayload =
  jwt_sub :: "string option"
  jwt_id :: "string option"
  jwt_orgId :: "string option"
  jwt_role :: "string option"

text \<open>
  The handshake: \<open>verifyAsync\<close> is the JWT library's verification with the access secret (None when it
  throws). The result is the error passed to \<open>next\<close> or the user data of the socket.
\<close>

definition handshake ::
  "(string \<Rightarrow> JwtPayload option) \<Rightarrow> bool \<Rightarrow> string option \<Rightarrow> string option
     \<Rightarrow> string + (string option \<times> string option \<times> string option)" where
  "handshake verifyAsync devBypassAuth authToken queryToken =
     (let token = (if truthy authToken then authToken else queryToken) in
      if devBypassAuth \<and> \<not> truthy token
      then Inr (Some ''00000000-0000-0000-0000-000000000001'',
                Some ''00000000-0000-0000-0000-00000000a000'', Some ''admin'')
      else if \<not> truthy token then Inl ''Authentication error: token missing''
      else case verifyAsync (the token) of
             None \<Rightarrow> Inl ''Authentication error: invalid token''
           | Some payload \<Rightarrow>
               Inr (if truthy (jwt_sub payload) then jwt_sub payload else jwt_id payload,
                    jwt_orgId payload, jwt_role payload))"

definition handleConnection :: "string \<Rightarrow> string option \<times> string option \<times> string option \<Rightarrow> Client" where
  "handleConnection socketId user = (case user of (userId, orgId, role) \<Rightarrow>
     \<lparr>cl_id = socketId, cl_userId = userId, cl_orgId = orgId, cl_role = role,
      cl_rooms = (if truthy userId then [user_room (the userId)] else []), cl_errors = []\<rparr>)"

definition join :: "string \<Rightarrow> Client \<Rightarrow> Client" where
  "join room c = c\<lparr>cl_rooms := List.insert room (cl_rooms c)\<rparr>"

definition leave :: "string \<Rightarrow> Client \<Rightarrow> Client" where
  "leave room c = c\<lparr>cl_rooms := removeAll room (cl_rooms c)\<rparr>"

text \<open>The reasons that make the gateway drop the connection.\<close>

definition disconnects :: "string option \<Rightarrow> bool" where
  "disconnects r \<longleftrightarrow> (case r of None \<Rightarrow> False | Some s \<Rightarrow>
     js_includes s ''does not belong to your organization'' \<or>
     js_includes s ''not in your organization'' \<or> s = ''Admin role required'')"

definition update_client :: "string \<Rightarrow> (Client \<Rightarrow> Client option) \<Rightarrow> world \<Rightarrow> world" where
  "update_client i f = clients_update (\<lambda>cs. concat (map (\<lambda>c.
     if cl_id c = i then (case f c of None \<Rightarrow> [] | Some d \<Rightarrow> [d]) else [c]) cs))"

definition joinRoom :: "world \<Rightarrow> string \<Rightarrow> Client \<Rightarrow> Client option" where
  "joinRoom w room client =
     (let result = canJoin w client room in
      if \<not> allowed result
      then if disconnects (reason result) then None
           else Some (client\<lparr>cl_errors := cl_errors client @
             [(room, if truthy (reason result) then the (reason result) else ''Unauthorized'')]\<rparr>)
      else Some (join room client))"

definition handleJoinRoom :: "string \<Rightarrow> string \<Rightarrow> world \<Rightarrow> world" where
  "handleJoinRoom socketId room w = update_client socketId (joinRoom w room) w"

definition handleLeaveRoom :: "string \<Rightarrow> string \<Rightarrow> world \<Rightarrow> world" where
  "handleLeaveRoom socketId room = update_client socketId (\<lambda>c. Some (leave room c))"

definition handleDisconnect :: "string \<Rightarrow> world \<Rightarrow> world" where
  "handleDisconnect socketId = update_client socketId (\<lambda>c. None)"

text \<open>
  The gateway as a state machine. The other services change the tables between the events of a
  socket: \<open>service\<close> is any such change that keeps the sockets and does not move a session, a workflow
  or a pipeline to another organization.
\<close>

definition same_owners :: "world \<Rightarrow> world \<Rightarrow> bool" where
  "same_owners w v \<longleftrightarrow>
     (\<forall>i g. session_org w i g \<longrightarrow> session_org v i g) \<and>
     (\<forall>i g. workflow_in_org w i g \<longrightarrow> workflow_in_org v i g) \<and>
     (\<forall>i g. pipeline_org w i g \<longrightarrow> pipeline_org v i g)"

inductive ws_step :: "(string \<Rightarrow> JwtPayload option) \<Rightarrow> bool \<Rightarrow> world \<Rightarrow> world \<Rightarrow> bool"
  for verify dev where
  connect: "handshake verify dev a q = Inr user \<Longrightarrow>
     ws_step verify dev w (clients_update (\<lambda>cs. cs @ [handleConnection i user]) w)"
| join: "ws_step verify dev w (handleJoinRoom i room w)"
| leave: "ws_step verify dev w (handleLeaveRoom i room w)"
| disconnect: "ws_step verify dev w (handleDisconnect i w)"
| service: "clients v = clients w \<Longrightarrow> same_owners w v \<Longrightarrow> ws_step verify dev w v"

inductive_cases ws_stepE: "ws_step verify dev w v"

inductive ws_reach :: "(string \<Rightarrow> JwtPayload option) \<Rightarrow> bool \<Rightarrow> world \<Rightarrow> bool"
  for verify dev where
  start: "clients w = [] \<Longrightarrow> ws_reach verify dev w"
| step: "ws_reach verify dev w \<Longrightarrow> ws_step verify dev w v \<Longrightarrow> ws_reach verify dev v"

text \<open>The invariant: whatever room a socket is in, its user may read it.\<close>

definition entitled :: "world \<Rightarrow> Client \<Rightarrow> bool" where
  "entitled w c \<longleftrightarrow> (\<forall>room \<in> set (cl_rooms c).
     may_read w (the (cl_userId c)) (the (cl_orgId c)) (cl_role c) room)"

definition members_entitled :: "world \<Rightarrow> bool" where
  "members_entitled w \<longleftrightarrow> (\<forall>c \<in> set (clients w). entitled w c)"

lemma set_update_client:
  "c \<in> set (clients (update_client i f w)) \<longleftrightarrow>
     (\<exists>d \<in> set (clients w). if cl_id d = i then f d = Some c else c = d)"
proof -
  have "c \<in> set (if cl_id d = i then (case f d of None \<Rightarrow> [] | Some e \<Rightarrow> [e]) else [d]) \<longleftrightarrow>
      (if cl_id d = i then f d = Some c else c = d)" for d
    by (cases "f d") auto
  moreover have "c \<in> set (concat (map g xs)) \<longleftrightarrow> (\<exists>d \<in> set xs. c \<in> set (g d))" for g and xs :: "Client list"
    by simp
  moreover have "clients (clients_update g w) = g (clients w)" for g by simp
  ultimately show ?thesis by (simp only: update_client_def)
qed

lemma same_owners_may_read: "same_owners w v \<Longrightarrow> may_read w u g r room \<Longrightarrow> may_read v u g r room"
  unfolding same_owners_def may_read_def by blast

lemma owners_clients [simp]:
  "may_read (clients_update h w) u g r room = may_read w u g r room"
  by (simp add: may_read_def session_org_def pipeline_org_def workflow_in_org_def)

lemma may_read_update_client [simp]:
  "may_read (update_client i f w) u g r room = may_read w u g r room"
  by (simp add: update_client_def)

lemma entitled_joinRoom:
  assumes "entitled w c" "joinRoom w room c = Some d" shows "entitled w d"
proof (cases "allowed (canJoin w c room)")
  case True
  then have "may_read w (the (cl_userId c)) (the (cl_orgId c)) (cl_role c) room" by (rule canJoin_sound)
  then show ?thesis using True assms by (auto simp: joinRoom_def entitled_def join_def Let_def)
next
  case False
  then show ?thesis using assms by (auto simp: joinRoom_def entitled_def Let_def split: if_splits)
qed

lemma entitled_handleConnection: "entitled w (handleConnection i user)"
  by (cases user) (simp add: entitled_def handleConnection_def may_read_room truthy_def)

lemma members_entitled_step:
  assumes "ws_step verify dev w v" "members_entitled w" shows "members_entitled v"
  using assms(1)
proof cases
  case (connect a q user i)
  have "entitled w (handleConnection i user)" by (rule entitled_handleConnection)
  then show ?thesis using connect assms(2) by (auto simp: members_entitled_def entitled_def)
next
  case (join i room)
  then show ?thesis
    using assms(2) entitled_joinRoom [of w]
    by (auto simp: members_entitled_def handleJoinRoom_def set_update_client entitled_def split: if_splits) blast+
next
  case (leave i room)
  then show ?thesis using assms(2)
    by (auto simp: members_entitled_def handleLeaveRoom_def set_update_client entitled_def leave_def
        Realtime.leave_def split: if_splits)
next
  case (disconnect i)
  then show ?thesis using assms(2)
    by (auto simp: members_entitled_def handleDisconnect_def set_update_client entitled_def split: if_splits)
next
  case service
  then show ?thesis using assms(2) same_owners_may_read
    by (auto simp: members_entitled_def entitled_def)
qed

lemma ws_reach_entitled: "ws_reach verify dev w \<Longrightarrow> members_entitled w"
proof (induction rule: ws_reach.induct)
  case (start w)
  then show ?case by (simp add: members_entitled_def)
next
  case (step w v)
  then show ?case using members_entitled_step by blast
qed

lemma members_of_room:
  "members_entitled w \<Longrightarrow> i \<in> set (room_members room w) \<Longrightarrow>
     \<exists>c \<in> set (clients w). cl_id c = i \<and> may_read w (the (cl_userId c)) (the (cl_orgId c)) (cl_role c) room"
  by (auto simp: room_members_def members_entitled_def entitled_def)

lemma nobody_in_room:
  "members_entitled w \<Longrightarrow> (\<And>u g r. \<not> may_read w u g r room) \<Longrightarrow> room_members room w = []"
  unfolding room_members_def members_entitled_def entitled_def by (force simp: filter_empty_conv)

section \<open>The emitter other services use\<close>

text \<open>\<open>obj\<close> builds a payload: a property whose value is undefined disappears in the JSON.\<close>

definition obj :: "(string \<times> json option) list \<Rightarrow> json" where
  "obj kvs = JObj (concat (map (\<lambda>(k, v). case v of None \<Rightarrow> [] | Some j \<Rightarrow> [(k, j)]) kvs))"

definition emitSessionState :: "string \<Rightarrow> json \<Rightarrow> unit service" where
  "emitSessionState sessionId payload = emitToSession sessionId ''session.state'' payload"

definition emitSessionNeedsReconciliation :: "string \<Rightarrow> json \<Rightarrow> unit service" where
  "emitSessionNeedsReconciliation sessionId payload =
     emitToSession sessionId ''session.needs_reconciliation'' payload"

definition emitCommentCreated :: "string \<Rightarrow> json \<Rightarrow> unit service" where
  "emitCommentCreated workflowId payload = emitToWorkflow workflowId ''comment.created'' payload"

definition emitCommentResolved :: "string \<Rightarrow> json \<Rightarrow> unit service" where
  "emitCommentResolved workflowId payload = emitToWorkflow workflowId ''comment.resolved'' payload"

definition emitDivergenceReportReady :: "string \<Rightarrow> string \<Rightarrow> json \<Rightarrow> unit service" where
  "emitDivergenceReportReady workflowId sessionId payload =
     andThen (emitToWorkflow workflowId ''divergence.report.ready'' payload) (\<lambda>_.
     emitToSession sessionId ''divergence.report.ready'' payload)"

definition emitDivergenceReportUpdated :: "string \<Rightarrow> json \<Rightarrow> unit service" where
  "emitDivergenceReportUpdated workflowId payload = emitToWorkflow workflowId ''divergence.report.updated'' payload"

definition emitRulesConflictDetected :: "string \<Rightarrow> json \<Rightarrow> unit service" where
  "emitRulesConflictDetected workflowId payload = emitToWorkflow workflowId ''rules.conflict.detected'' payload"

definition emitSkillsApplicationLogged :: "string \<Rightarrow> json \<Rightarrow> unit service" where
  "emitSkillsApplicationLogged pipelineExecutionId payload =
     emitToPipeline pipelineExecutionId ''skills.application.logged'' payload"

definition emitNotificationReviewRequest :: "string \<Rightarrow> json \<Rightarrow> unit service" where
  "emitNotificationReviewRequest userId payload = emitToUser userId ''notification.review_request'' payload"

text \<open>\<open>src/modules/sessions/session-realtime-events.service.ts\<close>.\<close>

definition emitNeedsReconciliation :: "string \<Rightarrow> string \<Rightarrow> number \<Rightarrow> unit service" where
  "emitNeedsReconciliation sessionId reportId similarityScore =
     emitSessionNeedsReconciliation sessionId
       (JObj [(''session_id'', JStr sessionId), (''report_id'', JStr reportId),
              (''similarity_score'', JNum similarityScore)])"

section \<open>The bridge from NATS\<close>

record AgentLog =
  al_level :: string
  al_message :: string
  al_metadata :: "json option"

record AiTaskProgressEvent =
  ap_correlation_id :: string
  ap_session_id :: string
  ap_org_id :: "string option"
  ap_pipeline_execution_id :: string
  ap_agent_execution_id :: string
  ap_agent_type :: string
  ap_agent_name :: string
  ap_status :: string
  ap_order_index :: int
  ap_progress_pct :: number
  ap_confidence_input :: "number option"
  ap_confidence_output :: "number option"
  ap_llm_calls_delta :: "int option"
  ap_tokens_delta :: "int option"
  ap_started_at :: "string option"
  ap_completed_at :: "string option"
  ap_error_message :: "string option"
  ap_log :: "AgentLog option"

record WorkflowUpdatedEvent =
  wu_workflow_id :: string
  wu_version_number :: int
  wu_changed_elements :: json
  wu_source :: string
  wu_actor_id :: "string option"
  wu_correlation_id :: string

record SessionFinalizedEvent =
  sf_session_id :: string
  sf_workflow_id :: string
  sf_final_version_number :: int
  sf_final_confidence :: number
  sf_finalized_at :: string

record DocumentPreprocessResultEvent =
  dp_document_id :: string
  dp_extracted_text :: string
  dp_preprocessing_confidence :: "number option"

record SystemHealthPingEvent =
  hp_service :: string
  hp_status :: string
  hp_latency_ms :: "number option"
  hp_details :: "json option"
  hp_timestamp :: string

text \<open>Emission guarded by the backpressure check: nothing is sent to an empty room.\<close>

definition emitIfListening :: "string \<Rightarrow> string \<Rightarrow> json \<Rightarrow> unit service" where
  "emitIfListening room event payload w =
     (if hasListeners room w then emitToRoom room event payload w else (Inr (), w))"

definition onAiProgress :: "AiTaskProgressEvent \<Rightarrow> unit service" where
  "onAiProgress p =
     (let progressPayload = obj [(''session_id'', Some (JStr (ap_session_id p))),
            (''pipeline_execution_id'', Some (JStr (ap_pipeline_execution_id p))),
            (''agent_type'', Some (JStr (ap_agent_type p))), (''agent_name'', Some (JStr (ap_agent_name p))),
            (''status'', Some (JStr (ap_status p))), (''order_index'', Some (json_int (ap_order_index p))),
            (''progress_pct'', Some (JNum (ap_progress_pct p))),
            (''confidence_output'', map_option JNum (ap_confidence_output p))]
      in andThen (emitIfListening (session_room (ap_session_id p)) ''pipeline.progress'' progressPayload) (\<lambda>_.
         andThen (emitIfListening (pipeline_room (ap_pipeline_execution_id p)) ''pipeline.progress'' progressPayload) (\<lambda>_.
         andThen (case ap_log p of None \<Rightarrow> ret () | Some log \<Rightarrow>
             andThen (reading new_Date) (\<lambda>now.
             emitIfListening (pipeline_room (ap_pipeline_execution_id p)) ''agent.log''
               (obj [(''agent_execution_id'', Some (JStr (ap_agent_execution_id p))),
                     (''log_level'', Some (JStr (al_level log))), (''message'', Some (JStr (al_message log))),
                     (''metadata'', al_metadata log), (''created_at'', Some (JStr (toISOString now)))]))) (\<lambda>_.
         emitIfListening (pipeline_room (ap_pipeline_execution_id p)) ''agent.status''
           (obj [(''agent_execution_id'', Some (JStr (ap_agent_execution_id p))),
                 (''status'', Some (JStr (ap_status p))),
                 (''error_message'', map_option JStr (ap_error_message p))])))))"

definition onWorkflowUpdated :: "WorkflowUpdatedEvent \<Rightarrow> unit service" where
  "onWorkflowUpdated p =
     emitIfListening (workflow_room (wu_workflow_id p)) ''workflow.updated''
       (JObj [(''workflow_id'', JStr (wu_workflow_id p)), (''version_number'', json_int (wu_version_number p)),
              (''changed_elements'', wu_changed_elements p), (''source'', JStr (wu_source p)),
              (''correlation_id'', JStr (wu_correlation_id p))])"

definition onSessionFinalized :: "SessionFinalizedEvent \<Rightarrow> unit service" where
  "onSessionFinalized p =
     emitIfListening (session_room (sf_session_id p)) ''session.finalized''
       (JObj [(''session_id'', JStr (sf_session_id p)), (''workflow_id'', JStr (sf_workflow_id p)),
              (''final_version_number'', json_int (sf_final_version_number p)),
              (''final_confidence'', JNum (sf_final_confidence p))])"

definition onDocumentReady :: "DocumentPreprocessResultEvent \<Rightarrow> unit service" where
  "onDocumentReady p =
     andThen (reading (\<lambda>w. find_row do_id (dp_document_id p) (documentRows w))) (\<lambda>document.
     case Option.bind document do_sessionId of
       None \<Rightarrow> ret ()
     | Some sessionId \<Rightarrow>
         if sessionId = [] then ret ()
         else emitIfListening (session_room sessionId) ''document.ready''
           (JObj [(''document_id'', JStr (dp_document_id p)),
                  (''extracted_text_preview'', JStr (take 500 (dp_extracted_text p))),
                  (''confidence'', JNum (case dp_preprocessing_confidence p of None \<Rightarrow> ''0'' | Some c \<Rightarrow> c))]))"

definition onSystemHealth :: "SystemHealthPingEvent \<Rightarrow> unit service" where
  "onSystemHealth p =
     emitIfListening adminHealth_room ''system.health.alert''
       (obj [(''component'', Some (JStr (hp_service p))), (''status'', Some (JStr (hp_status p))),
             (''since'', Some (JStr (hp_timestamp p))), (''details'', hp_details p)])"

text \<open>
  What the bridge does for a room: it only adds emissions, each to one of the rooms \<open>R\<close> of the payload
  and each heard by somebody.
\<close>

definition relays :: "string set \<Rightarrow> 'a service \<Rightarrow> bool" where
  "relays R m \<longleftrightarrow> (\<forall>w. (\<exists>es. snd (m w) = emitted_update (\<lambda>xs. xs @ es) w \<and>
     (\<forall>e \<in> set es. ws_room e \<in> R \<and> ws_to e \<noteq> [] \<and> ws_to e = room_members (ws_room e) w)) \<and> (\<exists>x. fst (m w) = Inr x))"

lemma room_members_emitted [simp]: "room_members r (emitted_update g w) = room_members r w"
  by (simp add: room_members_def)

lemma relays_ret: "relays R (ret x)"
  unfolding relays_def ret_def by (intro allI conjI exI [of _ "[]"]) simp_all

lemma relays_andThen:
  assumes "relays R m" "\<And>x. relays R (k x)" shows "relays R (andThen m k)"
proof -
  have "\<exists>es. snd (andThen m k w) = emitted_update (\<lambda>xs. xs @ es) w \<and>
      (\<forall>e \<in> set es. ws_room e \<in> R \<and> ws_to e \<noteq> [] \<and> ws_to e = room_members (ws_room e) w)"
    "\<exists>x. fst (andThen m k w) = Inr x" for w
  proof -
    obtain es x where m: "m w = (Inr x, emitted_update (\<lambda>xs. xs @ es) w)"
      "\<forall>e \<in> set es. ws_room e \<in> R \<and> ws_to e \<noteq> [] \<and> ws_to e = room_members (ws_room e) w"
      using assms(1) unfolding relays_def by (metis prod.collapse)
    let ?u = "emitted_update (\<lambda>xs. xs @ es) w"
    obtain fs y where k: "k x ?u = (Inr y, emitted_update (\<lambda>xs. xs @ fs) ?u)"
      "\<forall>e \<in> set fs. ws_room e \<in> R \<and> ws_to e \<noteq> [] \<and> ws_to e = room_members (ws_room e) w"
      using assms(2) [of x] unfolding relays_def by (metis prod.collapse room_members_emitted)
    have "andThen m k w = (Inr y, emitted_update (\<lambda>xs. xs @ (es @ fs)) w)"
      using m(1) k(1) by (simp add: andThen_def comp_def)
    then show "\<exists>es. snd (andThen m k w) = emitted_update (\<lambda>xs. xs @ es) w \<and>
      (\<forall>e \<in> set es. ws_room e \<in> R \<and> ws_to e \<noteq> [] \<and> ws_to e = room_members (ws_room e) w)"
      "\<exists>x. fst (andThen m k w) = Inr x"
      using m(2) k(2) by (auto intro!: exI [of _ "es @ fs"])
  qed
  then show ?thesis unfolding relays_def by blast
qed

lemma relays_reading: "relays R (reading f)"
  unfolding relays_def reading_def by (intro allI conjI exI [of _ "[]"]) simp_all

lemma relays_emitIfListening: "room \<in> R \<Longrightarrow> relays R (emitIfListening room e p)"
  unfolding relays_def
proof (intro allI conjI)
  fix w
  assume r: "room \<in> R"
  show "\<exists>x. fst (emitIfListening room e p w) = Inr x"
    by (simp add: emitIfListening_def emitToRoom_run)
  show "\<exists>es. snd (emitIfListening room e p w) = emitted_update (\<lambda>xs. xs @ es) w \<and>
      (\<forall>e \<in> set es. ws_room e \<in> R \<and> ws_to e \<noteq> [] \<and> ws_to e = room_members (ws_room e) w)"
  proof (cases "hasListeners room w")
    case True
    then show ?thesis using r
      by (intro exI [of _ "[\<lparr>ws_room = room, ws_event = e, ws_payload = p, ws_to = room_members room w\<rparr>]"])
        (simp add: emitIfListening_def emitToRoom_run hasListeners_def)
  next
    case False
    then show ?thesis by (intro exI [of _ "[]"]) (simp add: emitIfListening_def)
  qed
qed

lemma relays_option:
  "relays R m \<Longrightarrow> (\<And>x. r = Some x \<Longrightarrow> relays R (n x)) \<Longrightarrow> relays R (case r of None \<Rightarrow> m | Some x \<Rightarrow> n x)"
  by (simp split: option.splits)

lemmas relays_intros = relays_andThen relays_ret relays_reading relays_emitIfListening relays_option

section \<open>Properties\<close>

text \<open>C13. The join guard admits exactly the rooms a user may read: a socket without a user or an
organization is admitted nowhere; any other socket to its own user room, to the rooms of the sessions,
workflows and pipelines whose workflow belongs to its organization, and, for an admin, to the health
room; every other room name is refused.\<close>

theorem canJoin_iff_may_read:
  "allowed (canJoin w c room) \<longleftrightarrow>
     truthy (cl_userId c) \<and> truthy (cl_orgId c) \<and>
     may_read w (the (cl_userId c)) (the (cl_orgId c)) (cl_role c) room"
  using canJoin_sound canJoin_complete canJoin_missing by blast

text \<open>C3. In every reachable state of the gateway (sockets connecting, joining, leaving and dropping in
any order, while the services change the tables without moving a session to another organization), an
event emitted for a session reaches only sockets whose organization owns the session, and an event for
a user only sockets of that user.\<close>

theorem session_events_stay_in_org:
  assumes "ws_reach verify dev w" "emitToSession i ev p w = (r, v)" "emitToUser u ev p w = (r', v')"
  shows "(\<forall>k \<in> set (ws_to (last (emitted v))). \<exists>c \<in> set (clients w).
           cl_id c = k \<and> session_org w i (the (cl_orgId c))) \<and>
         (\<forall>k \<in> set (ws_to (last (emitted v'))). \<exists>c \<in> set (clients w).
           cl_id c = k \<and> the (cl_userId c) = u)"
proof -
  have inv: "members_entitled w" using assms(1) by (rule ws_reach_entitled)
  have "ws_to (last (emitted v)) = room_members (session_room i) w"
    "ws_to (last (emitted v')) = room_members (user_room u) w"
    using assms(2,3) by (auto simp: emit_defs emitToRoom_run)
  then show ?thesis
    using members_of_room [OF inv, of _ "session_room i"] members_of_room [OF inv, of _ "user_room u"]
    by (auto simp: may_read_room)
qed

text \<open>A concrete run: a socket of the session's organization connects and joins the session's room.\<close>

lemma dev_socket_reach: "ws_reach verify True
    (clients_update (\<lambda>cs. cs @ [handleConnection ''k1'' (Some ''u1'', Some ''o1'', Some ''viewer'')]) sample_world)"
  if "verify ''t'' = Some \<lparr>jwt_sub = Some ''u1'', jwt_id = None, jwt_orgId = Some ''o1'', jwt_role = Some ''viewer''\<rparr>"
  by (rule ws_reach.step [OF ws_reach.start ws_step.connect [of _ _ "Some ''t''" None]])
    (simp_all add: sample_defs handshake_def that)

definition joined_world :: world where
  "joined_world = handleJoinRoom ''k1'' (session_room ''s1'')
    (clients_update (\<lambda>cs. cs @ [handleConnection ''k1'' (Some ''u1'', Some ''o1'', Some ''viewer'')]) sample_world)"

lemma joined_world_members: "room_members (session_room ''s1'') joined_world = [''k1'']"
  "room_members (user_room ''u1'') joined_world = [''k1'']"
  by (simp_all add: joined_world_def handleJoinRoom_def update_client_def joinRoom_def canJoin_def
      handleConnection_def sample_defs room_members_def join_def room_defs js_startsWith_def
      validateSessionOrg_def find_row_def workflow_in_org_def accepted_def Let_def)

theorem session_events_stay_in_org_witness:
  "\<exists>v v'. emitToSession ''s1'' ''e'' JNull joined_world = (Inr (), v) \<and> ws_to (last (emitted v)) = [''k1''] \<and>
     emitToUser ''u1'' ''e'' JNull joined_world = (Inr (), v') \<and>
     (\<forall>k \<in> set (ws_to (last (emitted v))). \<exists>c \<in> set (clients joined_world).
        cl_id c = k \<and> session_org joined_world ''s1'' (the (cl_orgId c)))"
proof -
  let ?verify = "\<lambda>_. Some \<lparr>jwt_sub = Some ''u1'', jwt_id = None, jwt_orgId = Some ''o1'', jwt_role = Some ''viewer''\<rparr>"
  have reach: "ws_reach ?verify True joined_world"
    unfolding joined_world_def by (rule ws_reach.step [OF _ ws_step.join], rule dev_socket_reach) simp
  obtain v v' where v: "emitToSession ''s1'' ''e'' JNull joined_world = (Inr (), v)"
    "emitToUser ''u1'' ''e'' JNull joined_world = (Inr (), v')" "ws_to (last (emitted v)) = [''k1'']"
    by (simp add: emit_defs emitToRoom_run joined_world_members)
  show ?thesis using v session_events_stay_in_org [OF reach v(1,2)] by blast
qed

text \<open>The NATS bridge forwards a message only to the rooms of the session, pipeline or workflow it
names (health pings only to the admin room), and never to a room nobody is in; it never fails.\<close>

theorem bridge_relays:
  "relays {session_room (ap_session_id a), pipeline_room (ap_pipeline_execution_id a)} (onAiProgress a) \<and>
   relays {workflow_room (wu_workflow_id u)} (onWorkflowUpdated u) \<and>
   relays {session_room (sf_session_id f)} (onSessionFinalized f) \<and>
   relays (range session_room) (onDocumentReady d) \<and>
   relays {adminHealth_room} (onSystemHealth h)"
proof (intro conjI)
  show "relays {session_room (ap_session_id a), pipeline_room (ap_pipeline_execution_id a)} (onAiProgress a)"
    unfolding onAiProgress_def Let_def by (intro relays_intros) simp_all
  show "relays {workflow_room (wu_workflow_id u)} (onWorkflowUpdated u)"
    unfolding onWorkflowUpdated_def by (intro relays_intros) simp
  show "relays {session_room (sf_session_id f)} (onSessionFinalized f)"
    unfolding onSessionFinalized_def by (intro relays_intros) simp
  show "relays (range session_room) (onDocumentReady d)"
    unfolding onDocumentReady_def
    by (intro relays_andThen relays_reading relays_option relays_ret) (simp add: relays_ret relays_emitIfListening)
  show "relays {adminHealth_room} (onSystemHealth h)"
    unfolding onSystemHealth_def by (intro relays_intros) simp
qed

end
