(* ===== verification/Rules_Logic.thy ===== *)
theory Rules_Logic
  imports Realtime
begin

text \<open>
  The pure part of \<open>src/modules/rules/rules.service.ts\<close>: which rules apply to a session
  (\<open>matchesSessionScope\<close>, \<open>matchesRuleCondition\<close>), when two rules contradict each other
  (\<open>conditionsOverlap\<close>, \<open>hasTypeSpecificConflict\<close>), the JSON shapes and the diff summary.
\<close>

section \<open>Which rules apply to a session\<close>

fun is_array :: "json \<Rightarrow> bool" where
  "is_array (JArr xs) = True"
| "is_array _ = False"

fun elements :: "json \<Rightarrow> json list" where
  "elements (JArr xs) = xs"
| "elements _ = []"

fun entries :: "json \<Rightarrow> (string \<times> json) list" where
  "entries (JObj kvs) = kvs"
| "entries _ = []"

fun is_primitive :: "json \<Rightarrow> bool" where
  "is_primitive (JArr xs) = False"
| "is_primitive (JObj kvs) = False"
| "is_primitive _ = True"

text \<open>\<open>Array.includes\<close> on decoded JSON: objects and arrays are compared by identity, so never found.\<close>

definition array_includes :: "json list \<Rightarrow> json \<Rightarrow> bool" where
  "array_includes xs v \<longleftrightarrow> is_primitive v \<and> v \<in> set xs"

definition matchesEntry :: "json option \<Rightarrow> json \<Rightarrow> bool" where
  "matchesEntry actual expected =
     (case actual of
        None \<Rightarrow> False
      | Some a \<Rightarrow>
          if is_array expected \<and> is_array a then \<exists>v \<in> set (elements expected). array_includes (elements a) v
          else if is_array expected then array_includes (elements expected) a
          else if is_array a then array_includes (elements a) expected
          else deepEqual (Some a) (Some expected))"

definition matchesRuleCondition :: "json option \<Rightarrow> (string \<times> json) list \<Rightarrow> bool" where
  "matchesRuleCondition condition context =
     (case condition of
        None \<Rightarrow> True
      | Some c \<Rightarrow> \<forall>(key, expected) \<in> set (entries c). matchesEntry (get_prop context key) expected)"

definition matchesSessionScope :: "Rule \<Rightarrow> string \<Rightarrow> bool" where
  "matchesSessionScope rule workflowId =
     (if ru_scope rule = RuleScope.WORKFLOW then ru_workflowId rule = Some workflowId
      else if truthy (ru_workflowId rule) \<and> ru_workflowId rule \<noteq> Some workflowId then False
      else True)"

definition buildSessionContext :: "Session \<Rightarrow> Workflow \<Rightarrow> (string \<times> json) list" where
  "buildSessionContext session workflow =
     [(''org_id'', JStr (wf_orgId workflow)), (''workflow_id'', JStr (wf_id workflow)),
      (''session_id'', JStr (se_id session)), (''session_mode'', JStr (session_mode_str (se_mode session))),
      (''session_status'', JStr (session_status_str (se_status session))),
      (''workflow_status'', JStr (workflow_status_str (wf_status workflow))),
      (''workflow_domain'', json_of_option JStr (wf_domain workflow)),
      (''workflow_tags'', JArr (map JStr (wf_tags workflow))), (''user_id'', JStr (se_userId session))]"

section \<open>Contradicting rules\<close>

definition contradictable :: "RuleType \<Rightarrow> bool" where
  "contradictable t \<longleftrightarrow> t \<in> {RuleType.ACTOR_MAPPING, RuleType.STRUCTURAL_CONSTRAINT}"

definition conditionsOverlap :: "json option \<Rightarrow> json option \<Rightarrow> bool" where
  "conditionsOverlap left right =
     (case (left, right) of
        (None, None) \<Rightarrow> True
      | (Some l, Some r) \<Rightarrow>
          \<exists>key \<in> set (filter (\<lambda>k. k \<in> fst ` set (entries r)) (map fst (entries l))).
            deepEqual (get_prop (entries l) key) (get_prop (entries r) key)
      | _ \<Rightarrow> False)"

fun nonblank :: "json option \<Rightarrow> string option" where
  "nonblank (Some (JStr s)) = (if js_trim s \<noteq> [] then Some (js_trim s) else None)"
| "nonblank _ = None"

fun pickFirst :: "(string \<times> json) list \<Rightarrow> string list \<Rightarrow> string option" where
  "pickFirst kvs [] = None"
| "pickFirst kvs (k # ks) =
     (case nonblank (get_prop kvs k) of None \<Rightarrow> pickFirst kvs ks | Some s \<Rightarrow> Some s)"

definition pickFirstValue :: "json option \<Rightarrow> string list \<Rightarrow> string option" where
  "pickFirstValue condition keys =
     (case condition of None \<Rightarrow> None | Some c \<Rightarrow> pickFirst (entries c) keys)"

definition source_keys :: "string list" where
  "source_keys = [''source_label'', ''source'', ''actor'', ''alias'']"

definition target_keys :: "string list" where
  "target_keys = [''canonical'', ''canonical_actor'', ''target'', ''mapped_actor'']"

definition structure_keys :: "string list" where
  "structure_keys = [''structure'', ''pattern'', ''element'']"

definition mode_keys :: "string list" where
  "mode_keys = [''mode'', ''constraint'', ''requirement'']"

text \<open>Same subject and both objects named: the objects decide; otherwise the instructions do.\<close>

definition subjectConflict :: "string option \<Rightarrow> string option \<Rightarrow> string option \<Rightarrow> string option \<Rightarrow> bool option" where
  "subjectConflict subjL subjR objL objR =
     (if subjL \<noteq> None \<and> subjR \<noteq> None \<and> subjL = subjR \<and> objL \<noteq> None \<and> objR \<noteq> None
      then Some (objL \<noteq> objR) else None)"

definition hasTypeSpecificConflict :: "RuleType \<Rightarrow> json option \<Rightarrow> string \<Rightarrow> json option \<Rightarrow> string \<Rightarrow> bool" where
  "hasTypeSpecificConflict ruleType condL instrL condR instrR =
     (case (if ruleType = RuleType.ACTOR_MAPPING
            then subjectConflict (pickFirstValue condL source_keys) (pickFirstValue condR source_keys)
                   (pickFirstValue condL target_keys) (pickFirstValue condR target_keys)
            else if ruleType = RuleType.STRUCTURAL_CONSTRAINT
            then subjectConflict (pickFirstValue condL structure_keys) (pickFirstValue condR structure_keys)
                   (pickFirstValue condL mode_keys) (pickFirstValue condR mode_keys)
            else None) of
        Some b \<Rightarrow> b
      | None \<Rightarrow> js_trim instrL \<noteq> js_trim instrR)"

definition conflicts :: "Rule \<Rightarrow> Rule \<Rightarrow> bool" where
  "conflicts candidate existing \<longleftrightarrow>
     conditionsOverlap (ru_condition candidate) (ru_condition existing) \<and>
     hasTypeSpecificConflict (ru_ruleType candidate) (ru_condition candidate) (ru_instruction candidate)
       (ru_condition existing) (ru_instruction existing)"

definition extractOverlappingConditionKeys :: "json option \<Rightarrow> json option \<Rightarrow> string list" where
  "extractOverlappingConditionKeys left right =
     (case (left, right) of
        (Some l, Some r) \<Rightarrow>
          filter (\<lambda>k. k \<in> fst ` set (entries r) \<and> deepEqual (get_prop (entries l) k) (get_prop (entries r) k))
            (map fst (entries l))
      | _ \<Rightarrow> [])"

definition buildConflictDetail :: "Rule \<Rightarrow> Rule \<Rightarrow> string" where
  "buildConflictDetail candidate conflicting =
     (let overlapKeys = extractOverlappingConditionKeys (ru_condition candidate) (ru_condition conflicting);
          overlapSegment = (if overlapKeys \<noteq> [] then '' overlapping condition keys: '' @ js_join '', '' overlapKeys else [])
      in ''Conflicting '' @ rule_type_str (ru_ruleType candidate) @ '' rule in '' @
         rule_scope_str (ru_scope candidate) @ '' scope for the same target agent/workflow.'' @ overlapSegment)"

section \<open>Shapes\<close>

definition auditShape :: "Rule \<Rightarrow> json" where
  "auditShape r = JObj [(''rule_id'', JStr (ru_id r)), (''name'', JStr (ru_name r)),
     (''type'', JStr (rule_type_str (ru_ruleType r))), (''scope'', JStr (rule_scope_str (ru_scope r))),
     (''workflow_id'', json_of_option JStr (ru_workflowId r)),
     (''target_agent'', json_of_option (\<lambda>a. JStr (agent_type_str a)) (ru_targetAgent r)),
     (''condition'', json_of_option id (ru_condition r)), (''instruction'', JStr (ru_instruction r)),
     (''priority'', json_int (ru_priority r)), (''version'', json_int (ru_version r)),
     (''is_active'', JBool (ru_isActive r))]"

definition serializeRule :: "Rule \<Rightarrow> json" where
  "serializeRule r = JObj [(''id'', JStr (ru_id r)), (''org_id'', JStr (ru_orgId r)),
     (''workflow_id'', json_of_option JStr (ru_workflowId r)), (''name'', JStr (ru_name r)),
     (''description'', json_of_option JStr (ru_description r)),
     (''type'', JStr (rule_type_str (ru_ruleType r))), (''scope'', JStr (rule_scope_str (ru_scope r))),
     (''target_agent'', json_of_option (\<lambda>a. JStr (agent_type_str a)) (ru_targetAgent r)),
     (''condition'', json_of_option id (ru_condition r)), (''instruction'', JStr (ru_instruction r)),
     (''priority'', json_int (ru_priority r)), (''version'', json_int (ru_version r)),
     (''is_active'', JBool (ru_isActive r)), (''created_by'', JStr (ru_createdBy r)),
     (''created_at'', JStr (toISOString (ru_createdAt r))), (''updated_at'', JStr (toISOString (ru_updatedAt r)))]"

definition contextRule :: "Rule \<Rightarrow> json" where
  "contextRule r = JObj [(''id'', JStr (ru_id r)), (''name'', JStr (ru_name r)),
     (''type'', JStr (rule_type_str (ru_ruleType r))), (''scope'', JStr (rule_scope_str (ru_scope r))),
     (''workflow_id'', json_of_option JStr (ru_workflowId r)),
     (''target_agent'', json_of_option (\<lambda>a. JStr (agent_type_str a)) (ru_targetAgent r)),
     (''condition'', json_of_option id (ru_condition r)), (''instruction'', JStr (ru_instruction r)),
     (''priority'', json_int (ru_priority r)), (''version'', json_int (ru_version r))]"

fun keys_of :: "json \<Rightarrow> string list" where
  "keys_of (JObj kvs) = map fst kvs"
| "keys_of (JArr xs) = map (\<lambda>i. nat_digits i) [0..<length xs]"
| "keys_of _ = []"

fun prop_of :: "json \<Rightarrow> string \<Rightarrow> json option" where
  "prop_of (JObj kvs) k = get_prop kvs k"
| "prop_of (JArr xs) k = map_of (zip (map (\<lambda>i. nat_digits i) [0..<length xs]) xs) k"
| "prop_of _ k = None"

definition changedKeys :: "json \<Rightarrow> json \<Rightarrow> string list" where
  "changedKeys a b =
     filter (\<lambda>k. \<not> deepEqual (prop_of a k) (prop_of b k))
       (rev (remdups (rev (keys_of a @ keys_of b))))"

definition buildDiffSummary :: "json \<Rightarrow> json \<Rightarrow> string" where
  "buildDiffSummary withRule withoutRule =
     (if deepEqual (Some withRule) (Some withoutRule) then ''No observable difference detected.''
      else if \<not> is_primitive withRule \<and> \<not> is_primitive withoutRule \<and> changedKeys withRule withoutRule \<noteq> []
      then ''Outputs differ on keys: '' @ js_join '', '' (changedKeys withRule withoutRule) @ ''.''
      else ''Rule simulation changed the output.'')"

section \<open>Contradiction is symmetric\<close>

lemma overlap_iff:
  "conditionsOverlap l r \<longleftrightarrow>
     (l = None \<and> r = None) \<or>
     (\<exists>a b k. l = Some a \<and> r = Some b \<and> k \<in> fst ` set (entries a) \<and> k \<in> fst ` set (entries b) \<and>
        deepEqual (get_prop (entries a) k) (get_prop (entries b) k))"
  by (cases l; cases r; simp add: conditionsOverlap_def; blast)

lemma conditionsOverlap_sym: "conditionsOverlap l r \<longleftrightarrow> conditionsOverlap r l"
  unfolding overlap_iff using deepEqual_sym by blast

lemma subjectConflict_sym: "subjectConflict a b c d = subjectConflict b a d c"
  by (simp add: subjectConflict_def) metis

lemma subjectConflict_refl: "subjectConflict a a c c \<noteq> Some True"
  by (simp add: subjectConflict_def)

lemma hasTypeSpecificConflict_sym:
  "hasTypeSpecificConflict t c i d j = hasTypeSpecificConflict t d j c i"
proof -
  have "(js_trim i \<noteq> js_trim j) = (js_trim j \<noteq> js_trim i)" by metis
  then show ?thesis
    unfolding hasTypeSpecificConflict_def
    by (simp only: subjectConflict_sym [of "pickFirstValue c _"])
qed

lemma conflicts_sym: "ru_ruleType a = ru_ruleType b \<Longrightarrow> conflicts a b \<longleftrightarrow> conflicts b a"
  unfolding conflicts_def using conditionsOverlap_sym hasTypeSpecificConflict_sym by metis

lemma conflicts_irrefl: "\<not> conflicts a a"
  using subjectConflict_refl by (auto simp: conflicts_def hasTypeSpecificConflict_def split: option.splits)

lemma overlapping_keys_iff:
  "extractOverlappingConditionKeys (Some a) (Some b) \<noteq> [] \<longleftrightarrow> conditionsOverlap (Some a) (Some b)"
  by (auto simp: extractOverlappingConditionKeys_def conditionsOverlap_def filter_empty_conv)

end
