(* ===== verification/Rules.thy ===== *)
theory Rules
  imports Rules_Logic
begin

text \<open>
  The rule service, \<open>src/modules/rules/rules.service.ts\<close>: creation, update, (de)activation, soft
  deletion, import, preview and simulation of rules, with the cache of active rules per organization.
\<close>

section \<open>Data transfer objects\<close>

record CreateRuleDto =
  cr_name :: string
  cr_description :: "string option"
  cr_type :: RuleType
  cr_scope :: RuleScope
  cr_workflow_id :: "string option"
  cr_target_agent :: "AgentType option"
  cr_condition :: "json option"
  cr_instruction :: string
  cr_priority :: "int option"

text \<open>
  A property that may be absent or \<open>null\<close> is an option of an option: the validators marked
  \<open>IsOptional\<close> let \<open>null\<close> through.
\<close>

record UpdateRuleDto =
  ud_instruction :: "string option option"
  ud_condition :: "json option option"
  ud_priority :: "int option option"
  ud_is_active :: "bool option"

record RuleBundleRuleDto =
  rb_name :: string
  rb_description :: "string option"
  rb_type :: RuleType
  rb_scope :: RuleScope
  rb_workflow_id :: "string option"
  rb_target_agent :: "AgentType option"
  rb_condition :: "json option"
  rb_instruction :: string
  rb_priority :: "int option"
  rb_version :: "int option"
  rb_is_active :: "bool option"

record ImportRulesBundleDto =
  ib_schema_version :: string
  ib_rules :: "RuleBundleRuleDto list"

record RulesFilterDto =
  fd_type :: "RuleType option"
  fd_scope :: "RuleScope option"
  fd_agent_type :: "AgentType option"

record TestRuleDto =
  tr_sample_text :: string
  tr_simulate_agent :: AgentType

section \<open>Guards and lookups\<close>

definition assertRuleManager :: "RequestUser \<Rightarrow> unit service" where
  "assertRuleManager caller =
     andThen (check (rq_orgId caller \<noteq> []) (ForbiddenException (JStr ''Organization scope is required''))) (\<lambda>_.
     check (rq_role caller \<in> {user_role_str UserRole.ADMIN, user_role_str UserRole.BUSINESS_ANALYST})
       (ForbiddenException (JStr ''Admin or Business Analyst role is required'')))"

definition findRuleOrThrow :: "string \<Rightarrow> string \<Rightarrow> Rule service" where
  "findRuleOrThrow i orgId w =
     orThrow (find (\<lambda>r. ru_id r = i \<and> ru_orgId r = orgId) (ruleRows w))
       (NotFoundException (JStr ''Rule not found'')) w"

definition assertScopeConsistency ::
  "RuleScope \<Rightarrow> string option \<Rightarrow> AgentType option \<Rightarrow> string \<Rightarrow> unit service" where
  "assertScopeConsistency scope workflowId targetAgent orgId =
     andThen (check (\<not> (scope = RuleScope.WORKFLOW \<and> \<not> truthy workflowId))
       (BadRequestException (JStr ''workflow_id is required for WORKFLOW scoped rules''))) (\<lambda>_.
     andThen (check (\<not> (scope = RuleScope.ORG \<and> truthy workflowId))
       (BadRequestException (JStr ''workflow_id must be omitted for ORG scoped rules''))) (\<lambda>_.
     andThen (check (\<not> (scope = RuleScope.AGENT \<and> targetAgent = None))
       (BadRequestException (JStr ''target_agent is required for AGENT scoped rules''))) (\<lambda>_.
     unless (\<not> truthy workflowId)
       (andThen (reading (\<lambda>w. workflow_in_org w (the workflowId) orgId)) (\<lambda>found.
        check found (NotFoundException (JStr ''Workflow not found'')))))))"

definition by_priority :: "Rule list \<Rightarrow> Rule list" where
  "by_priority = sort_desc (\<lambda>r. (ru_priority r, ru_updatedAt r))"

section \<open>Conflicts\<close>

definition bucket :: "Rule \<Rightarrow> Rule \<Rightarrow> bool" where
  "bucket candidate e \<longleftrightarrow>
     ru_orgId e = ru_orgId candidate \<and> ru_isActive e \<and> ru_ruleType e = ru_ruleType candidate \<and>
     ru_scope e = ru_scope candidate \<and> ru_targetAgent e = ru_targetAgent candidate \<and>
     ru_workflowId e = ru_workflowId candidate"

definition emitConflictEvent :: "Rule \<Rightarrow> Rule \<Rightarrow> string \<Rightarrow> unit service" where
  "emitConflictEvent candidate conflictingRule conflictDetail =
     (let payload = JObj [(''code'', JStr ''RULE_CONFLICT''), (''conflicting_rule_id'', JStr (ru_id conflictingRule)),
            (''conflicting_rule_name'', JStr (ru_name conflictingRule)), (''conflict_detail'', JStr conflictDetail),
            (''incoming_rule_name'', JStr (ru_name candidate))]
      in emitToRoom (if truthy (ru_workflowId candidate) then ''workflow:'' @ the (ru_workflowId candidate)
                     else ''org:'' @ ru_orgId candidate) ''rules.conflict.detected'' payload)"

definition conflict_error :: "Rule \<Rightarrow> string \<Rightarrow> error" where
  "conflict_error conflictingRule conflictDetail =
     ConflictException (JObj [(''code'', JStr ''RULE_CONFLICT''),
       (''conflicting_rule_id'', JStr (ru_id conflictingRule)),
       (''conflicting_rule_name'', JStr (ru_name conflictingRule)), (''conflict_detail'', JStr conflictDetail)])"

definition ensureNoConflict :: "Rule \<Rightarrow> string option \<Rightarrow> Rule list option \<Rightarrow> unit service" where
  "ensureNoConflict candidate excludeRuleId rulePool =
     (if \<not> ru_isActive candidate \<or> \<not> contradictable (ru_ruleType candidate) then ret ()
      else andThen (reading (\<lambda>w. case rulePool of
                None \<Rightarrow> by_priority (filter (bucket candidate) (ruleRows w)) | Some pool \<Rightarrow> pool)) (\<lambda>candidates.
        case find (\<lambda>e. \<not> (truthy excludeRuleId \<and> Some (ru_id e) = excludeRuleId) \<and> conflicts candidate e) candidates of
          None \<Rightarrow> ret ()
        | Some conflictingRule \<Rightarrow>
            let conflictDetail = buildConflictDetail candidate conflictingRule in
            andThen (emitConflictEvent candidate conflictingRule conflictDetail) (\<lambda>_.
            throw (conflict_error conflictingRule conflictDetail))))"

section \<open>Caches and the audit trail\<close>

definition invalidateOrgRuleCache :: "string \<Rightarrow> unit service" where
  "invalidateOrgRuleCache orgId = writing (activeRuleCache_update (map_delete orgId))"

definition invalidateRuleSimulationCache :: "string \<Rightarrow> unit service" where
  "invalidateRuleSimulationCache ruleId =
     writing (simulationCache_update (filter (\<lambda>p. \<not> js_startsWith (fst p) (ruleId @ '':''))))"

definition getCachedActiveRules :: "string \<Rightarrow> Rule list service" where
  "getCachedActiveRules orgId w =
     (case map_of (activeRuleCache w) orgId of
        Some (expiresAt, rules) \<Rightarrow> if expiresAt > new_Date w then (Inr rules, w)
          else (let rules = by_priority (filter (\<lambda>r. ru_orgId r = orgId \<and> ru_isActive r) (ruleRows w))
                in (Inr rules, activeRuleCache_update (map_set orgId (new_Date w + 60000000, rules)) w))
      | None \<Rightarrow> (let rules = by_priority (filter (\<lambda>r. ru_orgId r = orgId \<and> ru_isActive r) (ruleRows w))
                in (Inr rules, activeRuleCache_update (map_set orgId (new_Date w + 60000000, rules)) w)))"

definition ruleAudit :: "string option \<Rightarrow> string \<Rightarrow> string \<Rightarrow> json option \<Rightarrow> json option \<Rightarrow> AuditLog service" where
  "ruleAudit workflowId actorId eventType before after =
     audit_log (audit_entry workflowId (Some actorId) ActorType.USER eventType None before after)"

definition snapshotRuleVersion :: "Rule \<Rightarrow> string \<Rightarrow> unit service" where
  "snapshotRuleVersion rule changedBy =
     andThen new_id (\<lambda>i. andThen (reading clock) (\<lambda>now.
     insert_rule_version \<lparr>rv_id = i, rv_ruleId = ru_id rule, rv_version = ru_version rule,
       rv_instruction = ru_instruction rule, rv_condition = ru_condition rule, rv_priority = ru_priority rule,
       rv_isActive = ru_isActive rule, rv_changedBy = changedBy, rv_createdAt = now\<rparr>))"

definition insert_rule :: "Rule \<Rightarrow> Rule service" where
  "insert_rule candidate =
     andThen new_id (\<lambda>i. andThen (reading clock) (\<lambda>now.
     save_rule (candidate\<lparr>ru_id := i, ru_createdAt := now, ru_updatedAt := now\<rparr>)))"

section \<open>Operations\<close>

definition createRule :: "CreateRuleDto \<Rightarrow> RequestUser \<Rightarrow> json service" where
  "createRule dto caller =
     andThen (assertRuleManager caller) (\<lambda>_.
     andThen (assertScopeConsistency (cr_scope dto) (cr_workflow_id dto) (cr_target_agent dto) (rq_orgId caller)) (\<lambda>_.
     let candidate = \<lparr>ru_id = [], ru_orgId = rq_orgId caller, ru_workflowId = cr_workflow_id dto,
           ru_name = js_trim (cr_name dto), ru_description = map_option js_trim (cr_description dto),
           ru_ruleType = cr_type dto, ru_scope = cr_scope dto, ru_targetAgent = cr_target_agent dto,
           ru_condition = cr_condition dto, ru_instruction = js_trim (cr_instruction dto),
           ru_priority = (case cr_priority dto of None \<Rightarrow> 100 | Some p \<Rightarrow> p), ru_version = 1,
           ru_isActive = True, ru_createdBy = rq_id caller, ru_createdAt = 0, ru_updatedAt = 0\<rparr>
     in andThen (ensureNoConflict candidate None None) (\<lambda>_.
        andThen (insert_rule candidate) (\<lambda>saved.
        andThen (ruleAudit (ru_workflowId saved) (rq_id caller) ''RULE_CREATED'' None (Some (auditShape saved))) (\<lambda>_.
        andThen (invalidateOrgRuleCache (rq_orgId caller)) (\<lambda>_.
        andThen (invalidateRuleSimulationCache (ru_id saved)) (\<lambda>_.
        ret (JObj [(''rule'', serializeRule saved)]))))))))"

definition findAllRules :: "RulesFilterDto \<Rightarrow> string \<Rightarrow> world \<Rightarrow> Rule list" where
  "findAllRules f orgId w =
     by_priority (filter (\<lambda>r. ru_orgId r = orgId \<and> ru_isActive r \<and>
       optionally (\<lambda>t. ru_ruleType r = t) (fd_type f) \<and> optionally (\<lambda>s. ru_scope r = s) (fd_scope f) \<and>
       optionally (\<lambda>a. ru_targetAgent r = Some a) (fd_agent_type f)) (ruleRows w))"

definition serializeRuleVersion :: "RuleVersion \<Rightarrow> json" where
  "serializeRuleVersion v = JObj [(''id'', JStr (rv_id v)), (''rule_id'', JStr (rv_ruleId v)),
     (''version'', json_int (rv_version v)), (''instruction'', JStr (rv_instruction v)),
     (''condition'', json_of_option id (rv_condition v)), (''priority'', json_int (rv_priority v)),
     (''is_active'', JBool (rv_isActive v)), (''changed_by'', JStr (rv_changedBy v)),
     (''created_at'', JStr (toISOString (rv_createdAt v)))]"

definition findOneRule :: "string \<Rightarrow> string \<Rightarrow> json service" where
  "findOneRule i orgId =
     andThen (findRuleOrThrow i orgId) (\<lambda>rule.
     andThen (reading (\<lambda>w. sort_desc rv_createdAt (filter (\<lambda>v. rv_ruleId v = ru_id rule) (ruleVersionRows w)))) (\<lambda>versions.
     ret (JObj [(''rule'', serializeRule rule), (''versions'', JArr (map serializeRuleVersion versions))])))"

definition nextRule :: "UpdateRuleDto \<Rightarrow> Rule \<Rightarrow> Rule" where
  "nextRule dto rule =
     rule\<lparr>ru_instruction := (case ud_instruction dto of Some (Some s) \<Rightarrow> js_trim s | _ \<Rightarrow> ru_instruction rule),
          ru_condition := (case ud_condition dto of None \<Rightarrow> ru_condition rule | Some c \<Rightarrow> c),
          ru_priority := (case ud_priority dto of Some (Some p) \<Rightarrow> p | _ \<Rightarrow> ru_priority rule),
          ru_isActive := (case ud_is_active dto of None \<Rightarrow> ru_isActive rule | Some b \<Rightarrow> b)\<rparr>"

definition hasChanges :: "Rule \<Rightarrow> Rule \<Rightarrow> bool" where
  "hasChanges new rule \<longleftrightarrow>
     ru_instruction new \<noteq> ru_instruction rule \<or> \<not> deepEqual (ru_condition new) (ru_condition rule) \<or>
     ru_priority new \<noteq> ru_priority rule \<or> ru_isActive new \<noteq> ru_isActive rule"

definition updateEvent :: "UpdateRuleDto \<Rightarrow> Rule \<Rightarrow> Rule \<Rightarrow> string" where
  "updateEvent dto new rule =
     (if ru_isActive new \<noteq> ru_isActive rule \<and> \<not> truthy (Option.bind (ud_instruction dto) id) \<and>
         ud_priority dto = None \<and> ud_condition dto = None
      then if ru_isActive new then ''RULE_ACTIVATED'' else ''RULE_DEACTIVATED''
      else ''RULE_UPDATED'')"

definition updateRule :: "string \<Rightarrow> UpdateRuleDto \<Rightarrow> RequestUser \<Rightarrow> json service" where
  "updateRule i dto caller =
     andThen (assertRuleManager caller) (\<lambda>_.
     andThen (findRuleOrThrow i (rq_orgId caller)) (\<lambda>rule.
     andThen (check (ud_instruction dto \<noteq> Some None) (TypeError ''Cannot read properties of null'')) (\<lambda>_.
     let new = nextRule dto rule in
     if \<not> hasChanges new rule then ret (JObj [(''rule'', serializeRule rule)])
     else
       andThen (if ru_isActive new then ensureNoConflict new (Some (ru_id rule)) None else ret ()) (\<lambda>_.
       andThen (snapshotRuleVersion rule (rq_id caller)) (\<lambda>_.
       andThen (save_rule (new\<lparr>ru_version := ru_version rule + 1\<rparr>)) (\<lambda>saved.
       andThen (ruleAudit (ru_workflowId saved) (rq_id caller) (updateEvent dto new rule)
         (Some (auditShape rule)) (Some (auditShape saved))) (\<lambda>_.
       andThen (invalidateOrgRuleCache (rq_orgId caller)) (\<lambda>_.
       andThen (invalidateRuleSimulationCache (ru_id saved)) (\<lambda>_.
       ret (JObj [(''rule'', serializeRule saved)])))))))))) "

definition setActive :: "bool \<Rightarrow> string \<Rightarrow> Rule \<Rightarrow> RequestUser \<Rightarrow> Rule service" where
  "setActive b event rule caller =
     andThen (snapshotRuleVersion rule (rq_id caller)) (\<lambda>_.
     andThen (save_rule (rule\<lparr>ru_isActive := b, ru_version := ru_version rule + 1\<rparr>)) (\<lambda>saved.
     andThen (ruleAudit (ru_workflowId saved) (rq_id caller) event (Some (auditShape rule)) (Some (auditShape saved))) (\<lambda>_.
     andThen (invalidateOrgRuleCache (rq_orgId caller)) (\<lambda>_.
     andThen (invalidateRuleSimulationCache (ru_id saved)) (\<lambda>_. ret saved)))))"

definition activateRule :: "string \<Rightarrow> RequestUser \<Rightarrow> json service" where
  "activateRule i caller =
     andThen (assertRuleManager caller) (\<lambda>_.
     andThen (findRuleOrThrow i (rq_orgId caller)) (\<lambda>rule.
     if ru_isActive rule then ret (JObj [(''rule'', serializeRule rule)])
     else andThen (ensureNoConflict (rule\<lparr>ru_isActive := True\<rparr>) (Some (ru_id rule)) None) (\<lambda>_.
          andThen (setActive True ''RULE_ACTIVATED'' rule caller) (\<lambda>saved.
          ret (JObj [(''rule'', serializeRule saved)])))))"

definition deactivateRule :: "string \<Rightarrow> RequestUser \<Rightarrow> json service" where
  "deactivateRule i caller =
     andThen (assertRuleManager caller) (\<lambda>_.
     andThen (findRuleOrThrow i (rq_orgId caller)) (\<lambda>rule.
     if \<not> ru_isActive rule then ret (JObj [(''rule'', serializeRule rule)])
     else andThen (setActive False ''RULE_DEACTIVATED'' rule caller) (\<lambda>saved.
          ret (JObj [(''rule'', serializeRule saved)]))))"

definition softDeleteRule :: "string \<Rightarrow> RequestUser \<Rightarrow> unit service" where
  "softDeleteRule i caller =
     andThen (assertRuleManager caller) (\<lambda>_.
     andThen (findRuleOrThrow i (rq_orgId caller)) (\<lambda>rule.
     let after = (if ru_isActive rule then rule\<lparr>ru_isActive := False, ru_version := ru_version rule + 1\<rparr> else rule) in
     andThen (unless (\<not> ru_isActive rule)
       (andThen (snapshotRuleVersion rule (rq_id caller)) (\<lambda>_. andThen (save_rule after) (\<lambda>_. ret ())))) (\<lambda>_.
     andThen (ruleAudit (ru_workflowId rule) (rq_id caller) ''RULE_DELETED'' (Some (auditShape rule)) (Some (auditShape after))) (\<lambda>_.
     andThen (invalidateOrgRuleCache (rq_orgId caller)) (\<lambda>_.
     invalidateRuleSimulationCache (ru_id rule))))))"

definition exportedRule :: "Rule \<Rightarrow> json" where
  "exportedRule r = JObj [(''name'', JStr (ru_name r)), (''description'', json_of_option JStr (ru_description r)),
     (''type'', JStr (rule_type_str (ru_ruleType r))), (''scope'', JStr (rule_scope_str (ru_scope r))),
     (''workflow_id'', json_of_option JStr (ru_workflowId r)),
     (''target_agent'', json_of_option (\<lambda>a. JStr (agent_type_str a)) (ru_targetAgent r)),
     (''condition'', json_of_option id (ru_condition r)), (''instruction'', JStr (ru_instruction r)),
     (''priority'', json_int (ru_priority r)), (''version'', json_int (ru_version r)),
     (''is_active'', JBool (ru_isActive r))]"

definition exportRules :: "string \<Rightarrow> world \<Rightarrow> json" where
  "exportRules orgId w =
     JObj [(''schema_version'', JStr ''1.0''), (''exported_at'', JStr (toISOString (new_Date w))),
       (''rules'', JArr (map exportedRule
          (by_priority (filter (\<lambda>r. ru_orgId r = orgId \<and> ru_isActive r) (ruleRows w)))))]"

definition buildImportedRule :: "RuleBundleRuleDto \<Rightarrow> RequestUser \<Rightarrow> Rule service" where
  "buildImportedRule item caller =
     andThen (assertScopeConsistency (rb_scope item) (rb_workflow_id item) (rb_target_agent item) (rq_orgId caller)) (\<lambda>_.
     ret \<lparr>ru_id = [], ru_orgId = rq_orgId caller, ru_workflowId = rb_workflow_id item,
           ru_name = js_trim (rb_name item), ru_description = map_option js_trim (rb_description item),
           ru_ruleType = rb_type item, ru_scope = rb_scope item, ru_targetAgent = rb_target_agent item,
           ru_condition = rb_condition item, ru_instruction = js_trim (rb_instruction item),
           ru_priority = (case rb_priority item of None \<Rightarrow> 100 | Some p \<Rightarrow> p),
           ru_version = (case rb_version item of None \<Rightarrow> 1 | Some v \<Rightarrow> v),
           ru_isActive = (case rb_is_active item of None \<Rightarrow> True | Some b \<Rightarrow> b),
           ru_createdBy = rq_id caller, ru_createdAt = 0, ru_updatedAt = 0\<rparr>)"

fun stageRules :: "RequestUser \<Rightarrow> Rule list \<Rightarrow> Rule list \<Rightarrow> RuleBundleRuleDto list \<Rightarrow> Rule list service" where
  "stageRules caller activeRules staged [] = ret staged"
| "stageRules caller activeRules staged (item # items) =
     andThen (buildImportedRule item caller) (\<lambda>candidate.
     andThen (if ru_isActive candidate then ensureNoConflict candidate None (Some (activeRules @ staged)) else ret ()) (\<lambda>_.
     stageRules caller activeRules (staged @ [candidate]) items))"

fun insert_rules :: "Rule list \<Rightarrow> Rule list service" where
  "insert_rules [] = ret []"
| "insert_rules (r # rs) =
     andThen (insert_rule r) (\<lambda>saved. andThen (insert_rules rs) (\<lambda>rest. ret (saved # rest)))"

definition importRules :: "ImportRulesBundleDto \<Rightarrow> RequestUser \<Rightarrow> json service" where
  "importRules bundle caller =
     andThen (assertRuleManager caller) (\<lambda>_.
     andThen (getCachedActiveRules (rq_orgId caller)) (\<lambda>activeRules.
     andThen (stageRules caller activeRules [] (ib_rules bundle)) (\<lambda>stagedRules.
     andThen (in_transaction (insert_rules stagedRules)) (\<lambda>saved.
     andThen (ruleAudit None (rq_id caller) ''RULE_IMPORTED'' None
       (Some (JObj [(''schema_version'', JStr (ib_schema_version bundle)),
                    (''imported_rule_ids'', JArr (map (\<lambda>r. JStr (ru_id r)) saved)),
                    (''count'', json_int (int (length saved)))]))) (\<lambda>_.
     andThen (invalidateOrgRuleCache (rq_orgId caller)) (\<lambda>_.
     ret (JObj [(''imported_count'', json_int (int (length saved))),
                (''rules'', JArr (map serializeRule saved))])))))))"

definition getSessionContextRules :: "string \<Rightarrow> string \<Rightarrow> (Session \<times> Rule list) service" where
  "getSessionContextRules sessionId orgId =
     andThen (\<lambda>w. orThrow (find_row se_id sessionId (sessionRows w)) (NotFoundException (JStr ''Session not found'')) w) (\<lambda>session.
     andThen (\<lambda>w. orThrow (find (\<lambda>x. wf_id x = se_workflowId session \<and> wf_orgId x = orgId) (workflowRows w))
       (NotFoundException (JStr ''Session not found'')) w) (\<lambda>workflow.
     andThen (getCachedActiveRules orgId) (\<lambda>rules.
     ret (session, sort_desc (\<lambda>r. (ru_priority r, js_date (ru_updatedAt r)))
       (filter (\<lambda>r. matchesRuleCondition (ru_condition r) (buildSessionContext session workflow))
         (filter (\<lambda>r. matchesSessionScope r (se_workflowId session)) rules))))))"

definition previewForSession :: "string \<Rightarrow> RequestUser \<Rightarrow> json service" where
  "previewForSession sessionId caller =
     andThen (getSessionContextRules sessionId (rq_orgId caller)) (\<lambda>(session, rules).
     ret (JObj [(''session_id'', JStr (se_id session)), (''workflow_id'', JStr (se_workflowId session)),
                (''rules'', JArr (map serializeRule rules))]))"

definition listActiveRulesForContext :: "string \<Rightarrow> string \<Rightarrow> json list service" where
  "listActiveRulesForContext orgId sessionId =
     andThen (getSessionContextRules sessionId orgId) (\<lambda>(session, rules). ret (map contextRule rules))"

definition execution_org :: "world \<Rightarrow> AgentExecution \<Rightarrow> string \<Rightarrow> bool" where
  "execution_org w ae orgId \<longleftrightarrow>
     (\<exists>pe \<in> set (pipelineRows w). pe_id pe = ae_pipelineExecutionId ae \<and>
      (\<exists>s \<in> set (sessionRows w). se_id s = pe_sessionId pe \<and>
       (\<exists>x \<in> set (workflowRows w). wf_id x = se_workflowId s \<and> wf_orgId x = orgId)))"

definition listRuleApplicationsForAgentExecution :: "string \<Rightarrow> string \<Rightarrow> json service" where
  "listRuleApplicationsForAgentExecution agentExecutionId orgId =
     andThen (\<lambda>w. orThrow (find_row ae_id agentExecutionId (agentExecutionRows w))
       (NotFoundException (JStr ''Agent execution not found'')) w) (\<lambda>ae.
     reading (\<lambda>w. JObj [(''applications'', JArr (concat (map (\<lambda>ra.
       case find_row ru_id (ra_ruleId ra) (ruleRows w) of
         None \<Rightarrow> []
       | Some r \<Rightarrow> [JObj [(''id'', JStr (ra_id ra)), (''rule_id'', JStr (ra_ruleId ra)),
           (''rule_name'', JStr (ru_name r)), (''rule_type'', JStr (rule_type_str (ru_ruleType r))),
           (''rule_version'', json_int (ra_ruleVersion ra)),
           (''agent_execution_id'', JStr (ra_agentExecutionId ra)), (''triggered'', JBool (ra_triggered ra)),
           (''impact_description'', json_of_option JStr (ra_impactDescription ra)),
           (''created_at'', JStr (toISOString (ra_createdAt ra)))]])
       (sort_key ra_createdAt (filter (\<lambda>ra. ra_agentExecutionId ra = agentExecutionId \<and> execution_org w ae orgId)
         (ruleApplicationRows w))))))]))"

text \<open>
  Simulation: \<open>sha256\<close> is the hash library's hex digest, \<open>fastApiUrl\<close> the configured URL, \<open>post\<close> the
  HTTP client (the body of the answer, or the error it throws).
\<close>

definition buildSimulationCacheKey :: "(string \<Rightarrow> string) \<Rightarrow> string \<Rightarrow> string \<Rightarrow> AgentType \<Rightarrow> string" where
  "buildSimulationCacheKey sha256 ruleId sampleText simulateAgent =
     ruleId @ '':'' @ agent_type_str simulateAgent @ '':'' @ sha256 sampleText"

definition testRule ::
  "(string \<Rightarrow> string) \<Rightarrow> string option \<Rightarrow> (string \<Rightarrow> json \<Rightarrow> error + json) \<Rightarrow> string \<Rightarrow> TestRuleDto \<Rightarrow> RequestUser
     \<Rightarrow> json service" where
  "testRule sha256 fastApiUrl post i dto caller =
     andThen (findRuleOrThrow i (rq_orgId caller)) (\<lambda>rule.
     let cacheKey = buildSimulationCacheKey sha256 (ru_id rule) (tr_sample_text dto) (tr_simulate_agent dto) in
     andThen (reading (\<lambda>w. case map_of (simulationCache w) cacheKey of
         Some (expiresAt, result) \<Rightarrow> if expiresAt > new_Date w then Some result else None
       | None \<Rightarrow> None)) (\<lambda>cached.
     case cached of Some result \<Rightarrow> ret result
     | None \<Rightarrow>
       andThen (check (truthy fastApiUrl) (BadGatewayException (JStr ''FASTAPI internal URL is not configured''))) (\<lambda>_.
       let url = the fastApiUrl @ ''/internal/rules/simulate'';
           base = [(''sample_text'', JStr (tr_sample_text dto)),
                   (''simulate_agent'', JStr (agent_type_str (tr_simulate_agent dto)))] in
       andThen (liftSum (post url (JObj (base @ [(''rule'', serializeRule rule)])))) (\<lambda>withRule.
       andThen (liftSum (post url (JObj (base @ [(''rule'', JNull)])))) (\<lambda>withoutRule.
       let result = JObj [(''with_rule_output'', withRule), (''without_rule_output'', withoutRule),
                          (''diff_summary'', JStr (buildDiffSummary withRule withoutRule))] in
       andThen (writing (\<lambda>w. simulationCache_update (map_set cacheKey (new_Date w + 300000000, result)) w)) (\<lambda>_.
       ret result))))))"

end
