(* ===== verification/Rules_Correct.thy ===== *)
theory Rules_Correct
  imports Rules
begin

text \<open>
  Correctness of the rule service: active rules of one bucket never contradict each other, the cache
  of active rules is never stale, every change leaves a snapshot of the previous version, and the
  rules sent for a session are the applicable ones in priority order.
\<close>

section \<open>Contradicting active rules\<close>

definition clash :: "Rule \<Rightarrow> Rule \<Rightarrow> bool" where
  "clash a b \<longleftrightarrow> ru_isActive a \<and> contradictable (ru_ruleType a) \<and> bucket a b \<and> conflicts a b"

definition no_conflict :: "world \<Rightarrow> bool" where
  "no_conflict w \<longleftrightarrow>
     (\<forall>a \<in> set (ruleRows w). \<forall>b \<in> set (ruleRows w). ru_id a \<noteq> ru_id b \<longrightarrow> \<not> clash a b)"

lemma clash_sym: "clash a b \<longleftrightarrow> clash b a"
proof -
  have "clash b a" if "clash a b" for a b
    using that conflicts_sym [of a b] by (simp add: clash_def bucket_def)
  then show ?thesis by blast
qed

lemma clash_meta [simp]:
  "clash (r\<lparr>ru_id := i\<rparr>) e = clash r e" "clash e (r\<lparr>ru_id := i\<rparr>) = clash e r"
  "clash (r\<lparr>ru_createdAt := t\<rparr>) e = clash r e" "clash e (r\<lparr>ru_createdAt := t\<rparr>) = clash e r"
  "clash (r\<lparr>ru_updatedAt := t\<rparr>) e = clash r e" "clash e (r\<lparr>ru_updatedAt := t\<rparr>) = clash e r"
  "clash (r\<lparr>ru_version := n\<rparr>) e = clash r e" "clash e (r\<lparr>ru_version := n\<rparr>) = clash e r"
  by (simp_all add: clash_def bucket_def conflicts_def)

lemma clash_inactive: "\<not> ru_isActive r \<Longrightarrow> \<not> clash r e"
  by (simp add: clash_def)

section \<open>The cache of active rules\<close>

definition active_rules :: "string \<Rightarrow> world \<Rightarrow> Rule list" where
  "active_rules orgId w = by_priority (filter (\<lambda>r. ru_orgId r = orgId \<and> ru_isActive r) (ruleRows w))"

text \<open>Every entry holds the active rules of its organization; \<open>coherent_but o\<close>: except for \<open>o\<close>'s.\<close>

definition coherent_but :: "string set \<Rightarrow> world \<Rightarrow> bool" where
  "coherent_but orgs w \<longleftrightarrow>
     (\<forall>orgId expiresAt rules. orgId \<notin> orgs \<longrightarrow> map_of (activeRuleCache w) orgId = Some (expiresAt, rules) \<longrightarrow>
        rules = active_rules orgId w)"

definition cache_coherent :: "world \<Rightarrow> bool" where
  "cache_coherent w \<longleftrightarrow> coherent_but {} w"

lemma coherent_frame:
  "ruleRows v = ruleRows w \<Longrightarrow> activeRuleCache v = activeRuleCache w \<Longrightarrow> coherent_but S v = coherent_but S w"
  by (simp add: coherent_but_def active_rules_def)

lemma coherent_invalidate:
  "coherent_but {orgId} w \<Longrightarrow> cache_coherent (activeRuleCache_update (map_delete orgId) w)"
  by (auto simp: coherent_but_def cache_coherent_def active_rules_def map_of_delete)

lemma getCachedActiveRules_coherent:
  assumes "cache_coherent w" "getCachedActiveRules orgId w = (r, v)"
  shows "r = Inr (active_rules orgId w) \<and> cache_coherent v \<and> ruleRows v = ruleRows w"
  using assms
  by (auto simp: getCachedActiveRules_def cache_coherent_def coherent_but_def active_rules_def Let_def map_of_set
      split: option.splits if_splits)

section \<open>What the helpers do\<close>

lemma ensureNoConflict_Inr:
  assumes "ensureNoConflict c ex pool w = (Inr x, v)"
  shows "v = w" "ru_isActive c \<Longrightarrow> contradictable (ru_ruleType c) \<Longrightarrow>
     e \<in> set (case pool of None \<Rightarrow> filter (bucket c) (ruleRows w) | Some p \<Rightarrow> p) \<Longrightarrow>
     \<not> (truthy ex \<and> Some (ru_id e) = ex) \<Longrightarrow> \<not> conflicts c e"
  using assms
  by (auto simp: ensureNoConflict_def run_iffs by_priority_def find_None_iff Let_def
      split: if_splits option.splits)

lemma ensureNoConflict_frame:
  assumes "ensureNoConflict c ex pool w = (r, v)"
  shows "ruleRows v = ruleRows w" "activeRuleCache v = activeRuleCache w" "workflowRows v = workflowRows w"
    "ruleVersionRows v = ruleVersionRows w" "auditRows v = auditRows w"
proof -
  have u: "untouched f (ensureNoConflict c ex pool)" if "\<And>w g. f (emitted_update g w) = f w" for f :: "world \<Rightarrow> 'f"
    unfolding ensureNoConflict_def emitConflictEvent_def Let_def by (intro untouched_intros that)
  show "ruleRows v = ruleRows w" by (rule untouchedD [OF u assms]) simp
  show "activeRuleCache v = activeRuleCache w" by (rule untouchedD [OF u assms]) simp
  show "workflowRows v = workflowRows w" by (rule untouchedD [OF u assms]) simp
  show "ruleVersionRows v = ruleVersionRows w" by (rule untouchedD [OF u assms]) simp
  show "auditRows v = auditRows w" by (rule untouchedD [OF u assms]) simp
qed

text \<open>A rule that passed the check clashes with no row but its own.\<close>

definition clear_of_rows :: "Rule \<Rightarrow> string option \<Rightarrow> world \<Rightarrow> bool" where
  "clear_of_rows c ex w \<longleftrightarrow> (\<forall>e \<in> set (ruleRows w). Some (ru_id e) \<noteq> ex \<longrightarrow> \<not> clash c e)"

lemma ensureNoConflict_clear:
  "ensureNoConflict c ex None w = (Inr x, v) \<Longrightarrow> clear_of_rows c ex v"
  using ensureNoConflict_Inr(1) [of c ex None w x v] ensureNoConflict_Inr(2) [of c ex None w x v]
  by (auto simp: clear_of_rows_def clash_def)

lemma no_conflict_save:
  assumes "no_conflict w" "clear_of_rows r (Some (ru_id r)) w"
  shows "no_conflict (ruleRows_update (save_row ru_id r) w)"
proof -
  have "\<not> clash a b" if "a \<in> insert r {e \<in> set (ruleRows w). ru_id e \<noteq> ru_id r}"
    "b \<in> insert r {e \<in> set (ruleRows w). ru_id e \<noteq> ru_id r}" "ru_id a \<noteq> ru_id b" for a b
    using that assms clash_sym by (auto simp: no_conflict_def clear_of_rows_def)
  then show ?thesis by (auto simp: no_conflict_def set_save_row)
qed

lemma coherent_save:
  assumes "coherent_but S w" "\<forall>e \<in> set (ruleRows w). ru_id e = ru_id r \<longrightarrow> ru_orgId e = ru_orgId r"
  shows "coherent_but (insert (ru_orgId r) S) (ruleRows_update (save_row ru_id r) w)"
proof -
  have "filter (\<lambda>x. ru_orgId x = g \<and> ru_isActive x) (save_row ru_id r rows) =
      filter (\<lambda>x. ru_orgId x = g \<and> ru_isActive x) rows"
    if "g \<noteq> ru_orgId r" "\<forall>e \<in> set rows. ru_id e = ru_id r \<longrightarrow> ru_orgId e = ru_orgId r" for g rows
  proof -
    have "filter (\<lambda>x. ru_orgId x = g \<and> ru_isActive x) (map (\<lambda>e. if ru_id e = ru_id r then r else e) xs) =
        filter (\<lambda>x. ru_orgId x = g \<and> ru_isActive x) xs"
      if "\<forall>e \<in> set xs. ru_id e = ru_id r \<longrightarrow> ru_orgId e = ru_orgId r" for xs
      using that \<open>g \<noteq> ru_orgId r\<close> by (induction xs) auto
    then show ?thesis using that by (simp add: save_row_def)
  qed
  then show ?thesis
    using assms by (auto simp: coherent_but_def active_rules_def)
qed

section \<open>The invariant of the service\<close>

text \<open>Generated uuids are pairwise distinct and not yet used as rule ids; rule ids are a primary key.\<close>

definition rule_ids_ok :: "world \<Rightarrow> bool" where
  "rule_ids_ok w \<longleftrightarrow> inj (idSupply w) \<and> (\<forall>n \<ge> idNext w. idSupply w n \<notin> ru_id ` set (ruleRows w)) \<and>
     distinct (map ru_id (ruleRows w))"

definition inv_but :: "string set \<Rightarrow> world \<Rightarrow> bool" where
  "inv_but orgs w \<longleftrightarrow> no_conflict w \<and> coherent_but orgs w \<and> rule_ids_ok w"

definition rules_inv :: "world \<Rightarrow> bool" where
  "rules_inv w \<longleftrightarrow> no_conflict w \<and> cache_coherent w \<and> rule_ids_ok w"

lemma rules_inv_alt: "rules_inv w = inv_but {} w"
  by (simp add: rules_inv_def inv_but_def cache_coherent_def)

text \<open>An action that leaves rules, cache and uuids alone keeps the invariant and any fact about the rows.\<close>

definition rules_frame :: "world \<Rightarrow> world \<Rightarrow> bool" where
  "rules_frame w v \<longleftrightarrow> ruleRows v = ruleRows w \<and> activeRuleCache v = activeRuleCache w \<and>
     idSupply v = idSupply w \<and> idNext w \<le> idNext v \<and> workflowRows v = workflowRows w"

interpretation rf: step_preorder rules_frame
  by unfold_locales (auto simp: rules_frame_def)

lemma inv_frame:
  assumes "inv_but S w" "ruleRows v = ruleRows w" "activeRuleCache v = activeRuleCache w"
    "idSupply v = idSupply w" "idNext w \<le> idNext v"
  shows "inv_but S v"
  using assms coherent_frame [of v w S] by (auto simp: inv_but_def no_conflict_def rule_ids_ok_def)

lemma frames_triple:
  assumes "along rules_frame m"
  shows "triple (\<lambda>w. inv_but S w \<and> A (ruleRows w) (workflowRows w)) m
    (\<lambda>_ w. inv_but S w \<and> A (ruleRows w) (workflowRows w)) (\<lambda>w. inv_but S w \<and> A (ruleRows w) (workflowRows w))"
  unfolding triple_def
proof (intro allI impI)
  fix w r v assume h: "inv_but S w \<and> A (ruleRows w) (workflowRows w)" "m w = (r, v)"
  have f: "rules_frame w v" using assms h(2) by (rule alongD)
  then show "case r of Inl _ \<Rightarrow> inv_but S v \<and> A (ruleRows v) (workflowRows v)
      | Inr _ \<Rightarrow> inv_but S v \<and> A (ruleRows v) (workflowRows v)"
    using h(1) inv_frame [of S w v] by (auto simp: rules_frame_def split: sum.splits)
qed

lemma frames_basic:
  "along rules_frame (constraint b n)" "along rules_frame new_id" "along rules_frame (emitToRoom r ev p)"
  "along rules_frame (insert_rule_version v)" "along rules_frame (insert_audit a)"
  "along rules_frame (invalidateRuleSimulationCache i)" "along rules_frame (findRuleOrThrow i g)"
  by (simp_all add: along_def rules_frame_def new_id_def emitToRoom_run constraint_run invalidateRuleSimulationCache_def
      insert_rule_version_def insert_audit_run andThen_def writing_def findRuleOrThrow_def orThrow_def
      split: option.splits)

lemmas frames_intros = rf.along_intros frames_basic

lemma frames_snapshot: "along rules_frame (snapshotRuleVersion r u)"
  unfolding snapshotRuleVersion_def by (intro frames_intros)

lemma frames_ruleAudit: "along rules_frame (ruleAudit wid u e b a)"
  unfolding ruleAudit_def audit_log_def Let_def by (intro frames_intros)

lemma frames_ensureNoConflict: "along rules_frame (ensureNoConflict c ex pool)"
  unfolding ensureNoConflict_def emitConflictEvent_def Let_def by (intro frames_intros)

lemma frames_guards:
  "along rules_frame (assertRuleManager c)" "along rules_frame (assertScopeConsistency s wid ta g)"
  unfolding assertRuleManager_def assertScopeConsistency_def by (intro frames_intros)+

lemma save_rule_run:
  "save_rule r w =
     (if \<not> optionally (\<lambda>i. workflowExists i w) (ru_workflowId r) then (Inl (QueryFailedError ''rule_workflow_id_fkey''), w)
      else if \<not> (smallint (ru_priority r) \<and> smallint (ru_version r)) then (Inl (QueryFailedError ''smallint out of range''), w)
      else let r' = (if find_row ru_id (ru_id r) (ruleRows w) = Some r then r else r\<lparr>ru_updatedAt := clock w\<rparr>)
           in (Inr r', ruleRows_update (save_row ru_id r') w))"
  by (simp add: save_rule_def andThen_def constraint_run writing_def ret_def Let_def)

text \<open>Saving a checked rule breaks at most the cache entry of its organization.\<close>

definition storable :: "Rule \<Rightarrow> world \<Rightarrow> bool" where
  "storable r w \<longleftrightarrow> clear_of_rows r (Some (ru_id r)) w \<and>
     (\<forall>e \<in> set (ruleRows w). ru_id e = ru_id r \<longrightarrow> ru_orgId e = ru_orgId r) \<and>
     (\<forall>n \<ge> idNext w. idSupply w n \<noteq> ru_id r)"

definition unopposed :: "Rule \<Rightarrow> Rule list \<Rightarrow> bool" where
  "unopposed r rows \<longleftrightarrow> (\<forall>e \<in> set rows. \<not> clash r e)"

lemma save_rule_triple:
  assumes R: "\<forall>q \<in> R. \<not> clash q r"
  shows "triple (\<lambda>w. inv_but S w \<and> storable r w \<and> (\<forall>q \<in> R. unopposed q (ruleRows w))) (save_rule r)
     (\<lambda>s w. inv_but (insert (ru_orgId r) S) w \<and> ru_id s = ru_id r \<and> ru_workflowId s = ru_workflowId r \<and>
        optionally (\<lambda>i. i \<in> wf_id ` set (workflowRows w)) (ru_workflowId r) \<and>
        (\<forall>q \<in> R. unopposed q (ruleRows w))) (inv_but S)"
proof -
  have "inv_but (insert (ru_orgId r) S) (ruleRows_update (save_row ru_id r') w)"
    "(\<forall>q \<in> R. unopposed q (ruleRows w)) \<Longrightarrow> \<forall>q \<in> R. unopposed q (save_row ru_id r' (ruleRows w))"
    if h: "inv_but S w" "storable r w" and r': "r' = r \<or> r' = r\<lparr>ru_updatedAt := clock w\<rparr>" for w r'
  proof -
    have eq: "ru_id r' = ru_id r" "ru_orgId r' = ru_orgId r" using r' by auto
    have clear: "clear_of_rows r' (Some (ru_id r')) w" using h(2) r' by (auto simp: storable_def clear_of_rows_def)
    have "no_conflict (ruleRows_update (save_row ru_id r') w)"
      using no_conflict_save [OF _ clear] h(1) by (simp add: inv_but_def)
    moreover have "coherent_but (insert (ru_orgId r) S) (ruleRows_update (save_row ru_id r') w)"
      using coherent_save [of S w r'] h eq by (simp add: inv_but_def storable_def)
    moreover have "rule_ids_ok (ruleRows_update (save_row ru_id r') w)"
      using h eq by (auto simp: inv_but_def rule_ids_ok_def storable_def keys_save_row distinct_save_row)
    ultimately show "inv_but (insert (ru_orgId r) S) (ruleRows_update (save_row ru_id r') w)"
      by (simp add: inv_but_def)
    show "\<forall>q \<in> R. unopposed q (save_row ru_id r' (ruleRows w))" if "\<forall>q \<in> R. unopposed q (ruleRows w)"
      using that R r' by (auto simp: unopposed_def set_save_row)
  qed
  note saved = this
  show ?thesis
    unfolding triple_def
    by (auto simp: save_rule_run Let_def workflowExists_def saved split: if_splits)
qed

lemma ruleAudit_triple:
  "triple (\<lambda>w. inv_but S w \<and> optionally (\<lambda>i. i \<in> wf_id ` set (workflowRows w)) wid) (ruleAudit wid u e b a)
     (\<lambda>_. inv_but S) (\<lambda>_. False)"
  unfolding triple_def
proof (intro allI impI)
  fix w r v
  assume h: "inv_but S w \<and> optionally (\<lambda>i. i \<in> wf_id ` set (workflowRows w)) wid" "ruleAudit wid u e b a w = (r, v)"
  have "\<exists>x v. ruleAudit wid u e b a w = (Inr x, v)"
    unfolding ruleAudit_def using h(1) by (intro audit_log_returns) (simp_all add: audit_entry_def workflowExists_def)
  moreover have "inv_but S v"
    using frames_triple [OF frames_ruleAudit, of S "\<lambda>_ _. True"] h unfolding triple_def
    by (cases r) force+
  ultimately show "case r of Inl _ \<Rightarrow> False | Inr _ \<Rightarrow> inv_but S v"
    using h(2) by (auto split: sum.splits)
qed

lemma invalidate_triple: "triple (inv_but {g}) (invalidateOrgRuleCache g) (\<lambda>_. inv_but {}) E"
  using coherent_invalidate
  by (auto simp: triple_def invalidateOrgRuleCache_def writing_def inv_but_def cache_coherent_def
      no_conflict_def rule_ids_ok_def)

section \<open>Every operation keeps the invariant\<close>

definition revises :: "Rule \<Rightarrow> Rule list \<Rightarrow> bool" where
  "revises r rows \<longleftrightarrow> (\<forall>e \<in> set rows. ru_id e \<noteq> ru_id r \<longrightarrow> \<not> clash r e) \<and>
     (\<exists>e \<in> set rows. ru_id e = ru_id r \<and> ru_orgId e = ru_orgId r)"

lemma storable_revision: "inv_but S w \<Longrightarrow> revises r (ruleRows w) \<Longrightarrow> storable r w"
proof -
  assume h: "inv_but S w" "revises r (ruleRows w)"
  obtain e where e: "e \<in> set (ruleRows w)" "ru_id e = ru_id r" "ru_orgId e = ru_orgId r"
    using h(2) unfolding revises_def by blast
  have "e' = e" if "e' \<in> set (ruleRows w)" "ru_id e' = ru_id r" for e'
    using that e h(1) find_row_distinct [of ru_id "ruleRows w"]
    by (metis inv_but_def option.inject rule_ids_ok_def)
  note unique = this
  have "idSupply w n \<noteq> ru_id r" if "idNext w \<le> n" for n
    using h(1) that e(1,2) by (metis image_eqI inv_but_def rule_ids_ok_def)
  moreover have "clear_of_rows r (Some (ru_id r)) w"
    using h(2) by (simp add: clear_of_rows_def revises_def)
  moreover have "\<forall>d \<in> set (ruleRows w). ru_id d = ru_id r \<longrightarrow> ru_orgId d = ru_orgId r"
    using unique e(3) by blast
  ultimately show ?thesis by (simp add: storable_def)
qed

lemma frames_keep: "along rules_frame m \<Longrightarrow> triple (inv_but S) m (\<lambda>_. inv_but S) (inv_but S)"
  using frames_triple [of m S "\<lambda>_ _. True"] by simp

lemma found_triple:
  "triple (inv_but {}) (findRuleOrThrow i g)
     (\<lambda>r w. (inv_but {} w \<and> r \<in> set (ruleRows w)) \<and> ru_id r = i \<and> ru_orgId r = g) (inv_but {})"
  by (auto simp: triple_def findRuleOrThrow_def run_iffs find_Some_iff split: sum.splits)

lemma triple_check: "triple (\<lambda>w. inv_but {} w \<and> A w) (check b e) (\<lambda>_ w. inv_but {} w \<and> A w) (inv_but {})"
  by (auto simp: triple_def run_iffs split: sum.splits)

lemma checked_triple:
  "triple (\<lambda>w. inv_but {} w \<and> A (ruleRows w)) (ensureNoConflict c ex None)
     (\<lambda>_ w. inv_but {} w \<and> A (ruleRows w) \<and> clear_of_rows c ex w) (inv_but {})"
  unfolding triple_def
proof (intro allI impI)
  fix w r v
  assume h: "inv_but {} w \<and> A (ruleRows w)" "ensureNoConflict c ex None w = (r, v)"
  have "inv_but {} v" using frames_keep [OF frames_ensureNoConflict] h unfolding triple_def by (cases r) force+
  moreover have "A (ruleRows v)" using h ensureNoConflict_frame(1) [OF h(2)] by simp
  ultimately show "case r of Inl _ \<Rightarrow> inv_but {} v
      | Inr _ \<Rightarrow> inv_but {} v \<and> A (ruleRows v) \<and> clear_of_rows c ex v"
    using h(2) ensureNoConflict_clear by (auto split: sum.splits)
qed

lemma snapshot_triple:
  "triple (\<lambda>w. inv_but {} w \<and> A (ruleRows w)) (snapshotRuleVersion r u)
     (\<lambda>_ w. inv_but {} w \<and> A (ruleRows w)) (inv_but {})"
  using frames_triple [OF frames_snapshot, of "{}" "\<lambda>rows _. A rows"]
  by (rule triple_weaken) auto

lemma revise_triple:
  "triple (\<lambda>w. inv_but {} w \<and> revises r (ruleRows w)) (save_rule r)
     (\<lambda>s w. inv_but {ru_orgId r} w \<and> ru_id s = ru_id r \<and> ru_workflowId s = ru_workflowId r \<and>
        optionally (\<lambda>i. i \<in> wf_id ` set (workflowRows w)) (ru_workflowId r)) (inv_but {})"
  by (rule triple_weaken [OF save_rule_triple [of "{}"]]) (auto intro: storable_revision)

lemma insert_rule_triple:
  assumes R: "\<forall>q \<in> R. \<not> clash q c"
  shows "triple (\<lambda>w. inv_but S w \<and> unopposed c (ruleRows w) \<and> (\<forall>q \<in> R. unopposed q (ruleRows w))) (insert_rule c)
     (\<lambda>s w. inv_but (insert (ru_orgId c) S) w \<and> ru_workflowId s = ru_workflowId c \<and>
        optionally (\<lambda>i. i \<in> wf_id ` set (workflowRows w)) (ru_workflowId c) \<and>
        (\<forall>q \<in> R. unopposed q (ruleRows w))) (inv_but S)"
proof -
  let ?A = "\<lambda>rows. unopposed c rows \<and> (\<forall>q \<in> R. unopposed q rows)"
  have fresh: "triple (\<lambda>w. inv_but S w \<and> ?A (ruleRows w)) new_id
      (\<lambda>i w. inv_but S w \<and> ?A (ruleRows w) \<and> i \<notin> ru_id ` set (ruleRows w) \<and>
         (\<forall>n \<ge> idNext w. idSupply w n \<noteq> i)) (inv_but S)"
    unfolding triple_def
  proof (intro allI impI)
    fix w r v
    assume h: "inv_but S w \<and> ?A (ruleRows w)" "new_id w = (r, v)"
    have v: "v = w\<lparr>idNext := Suc (idNext w)\<rparr>" "r = Inr (idSupply w (idNext w))"
      using h(2) by (simp_all add: new_id_def)
    have i: "inv_but S v" using h(1) by (intro inv_frame [of S w v]) (simp_all add: v)
    have n: "idSupply w n \<noteq> idSupply w (idNext w)" if "idNext v \<le> n" for n
      using h(1) that by (auto simp: v inv_but_def rule_ids_ok_def inj_eq)
    have f: "idSupply w (idNext w) \<notin> ru_id ` set (ruleRows w)"
      using h(1) by (simp add: inv_but_def rule_ids_ok_def)
    show "case r of Inl _ \<Rightarrow> inv_but S v
        | Inr i \<Rightarrow> inv_but S v \<and> ?A (ruleRows v) \<and> i \<notin> ru_id ` set (ruleRows v) \<and>
            (\<forall>n \<ge> idNext v. idSupply v n \<noteq> i)"
      using i n f h(1) by (simp add: v)
  qed
  show ?thesis
    unfolding insert_rule_def
    apply (rule triple_andThen [OF fresh])
    apply (rule triple_andThen [OF triple_basic(2)])
    subgoal for i now
      using R by (intro triple_weaken [OF save_rule_triple [of R _ S]])
        (auto simp: storable_def unopposed_def clear_of_rows_def)
    done
qed

text \<open>The common end of an operation: audit entry, then the caches.\<close>

lemma finish_triple:
  "triple (\<lambda>w. inv_but {g} w \<and> optionally (\<lambda>i. i \<in> wf_id ` set (workflowRows w)) wid)
     (andThen (ruleAudit wid u ev b a) (\<lambda>_. andThen (invalidateOrgRuleCache g) (\<lambda>_.
      andThen (invalidateRuleSimulationCache i) (\<lambda>_. ret x)))) (\<lambda>_. inv_but {}) (inv_but {})"
  apply (rule triple_andThen [OF triple_weaken [OF ruleAudit_triple]], assumption, assumption, blast)
  apply (rule triple_andThen [OF invalidate_triple])
  by (rule frames_keep) (intro frames_intros)

lemma createRule_keeps: "triple (inv_but {}) (createRule dto caller) (\<lambda>_. inv_but {}) (inv_but {})"
  unfolding createRule_def Let_def
  apply (rule triple_andThen [OF frames_keep [OF frames_guards(1)]])
  apply (rule triple_andThen [OF frames_keep [OF frames_guards(2)]])
  apply (rule triple_andThen [OF triple_weaken [OF checked_triple [where A = "\<lambda>_. True"]]])
     apply (simp, assumption, assumption)
  apply (rule triple_andThen [OF triple_pre [OF insert_rule_triple [of "{}"]]])
    apply (simp, simp add: unopposed_def clear_of_rows_def)
  by (rule triple_weaken [OF finish_triple]) auto

lemma setActive_keeps:
  "triple (\<lambda>w. inv_but {} w \<and> revises (rule\<lparr>ru_isActive := b\<rparr>) (ruleRows w) \<and> ru_orgId rule = rq_orgId caller)
     (setActive b ev rule caller) (\<lambda>_. inv_but {}) (inv_but {})"
proof -
  have v: "revises (rule\<lparr>ru_isActive := b, ru_version := n\<rparr>) rows" if "revises (rule\<lparr>ru_isActive := b\<rparr>) rows" for n rows
    using that by (simp add: revises_def)
  show ?thesis
    unfolding setActive_def
    apply (rule triple_andThen [OF triple_weaken [OF snapshot_triple [where
        A = "\<lambda>rows. revises (rule\<lparr>ru_isActive := b\<rparr>) rows \<and> ru_orgId rule = rq_orgId caller"]]])
       apply (simp, assumption, assumption)
    apply (rule triple_andThen [where R = "\<lambda>s w. inv_but {rq_orgId caller} w \<and>
        optionally (\<lambda>i. i \<in> wf_id ` set (workflowRows w)) (ru_workflowId s)"])
    subgoal
    proof (cases "ru_orgId rule = rq_orgId caller")
      case True
      then show ?thesis
        by (intro triple_weaken [OF revise_triple]) (auto intro: v)
    next
      case False
      then show ?thesis by (simp add: triple_def)
    qed
    by (rule finish_triple)
qed

lemma nextRule_same [simp]:
  "ru_id (nextRule dto rule) = ru_id rule" "ru_orgId (nextRule dto rule) = ru_orgId rule"
  "ru_workflowId (nextRule dto rule) = ru_workflowId rule"
  by (simp_all add: nextRule_def)

lemma revisesI:
  "rule \<in> set rows \<Longrightarrow> ru_id r = ru_id rule \<Longrightarrow> ru_orgId r = ru_orgId rule \<Longrightarrow>
     (\<And>e. e \<in> set rows \<Longrightarrow> ru_id e \<noteq> ru_id r \<Longrightarrow> \<not> clash r e) \<Longrightarrow> revises r rows"
  by (auto simp: revises_def)

lemma checked_revises:
  "rule \<in> set (ruleRows w) \<Longrightarrow> clear_of_rows r (Some (ru_id rule)) w \<Longrightarrow> ru_id r = ru_id rule \<Longrightarrow>
     ru_orgId r = ru_orgId rule \<Longrightarrow> revises r (ruleRows w)"
  by (rule revisesI) (auto simp: clear_of_rows_def)

lemma updateRule_keeps: "triple (inv_but {}) (updateRule i dto caller) (\<lambda>_. inv_but {}) (inv_but {})"
proof -
  have body: "triple (\<lambda>w. inv_but {} w \<and> rule \<in> set (ruleRows w))
      (andThen (if ru_isActive new then ensureNoConflict new (Some (ru_id rule)) None else ret ()) (\<lambda>_.
       andThen (snapshotRuleVersion rule (rq_id caller)) (\<lambda>_.
       andThen (save_rule (new\<lparr>ru_version := n\<rparr>)) (\<lambda>saved.
       andThen (ruleAudit (ru_workflowId saved) (rq_id caller) ev b (a saved)) (\<lambda>_.
       andThen (invalidateOrgRuleCache (rq_orgId caller)) (\<lambda>_.
       andThen (invalidateRuleSimulationCache (ru_id saved)) (\<lambda>_. ret (x saved)))))))) (\<lambda>_. inv_but {}) (inv_but {})"
    if new: "ru_id new = ru_id rule" "ru_orgId new = rq_orgId caller" "ru_orgId rule = rq_orgId caller"
    for new rule n ev b and a :: "Rule \<Rightarrow> json option" and x :: "Rule \<Rightarrow> json"
    apply (rule triple_andThen [where R = "\<lambda>_ w. inv_but {} w \<and> revises new (ruleRows w)"])
    subgoal
    proof (cases "ru_isActive new")
      case True
      then show ?thesis
        by (simp, intro triple_weaken [OF checked_triple [where A = "\<lambda>rows. rule \<in> set rows"]])
          (auto intro: checked_revises simp: new)
    next
      case False
      then show ?thesis
        by (simp, intro triple_weaken [OF triple_basic(1)]) (auto intro!: revisesI simp: new clash_inactive)
    qed
    apply (rule triple_andThen [OF snapshot_triple])
    apply (rule triple_andThen [OF triple_weaken [OF revise_triple]])
       apply (simp add: revises_def, assumption, assumption)
    by (rule triple_weaken [OF finish_triple]) (auto simp: new)
  show ?thesis
    unfolding updateRule_def Let_def
    apply (rule triple_andThen [OF frames_keep [OF frames_guards(1)]])
    apply (rule triple_andThen [OF found_triple])
    apply (rule triple_conj_pre)
    apply (rule triple_andThen [OF triple_check])
    apply (rule triple_if)
     apply (rule triple_ret, erule conjunct1)
    by (rule body) simp_all
qed

lemma activateRule_keeps: "triple (inv_but {}) (activateRule i caller) (\<lambda>_. inv_but {}) (inv_but {})"
  unfolding activateRule_def
  apply (rule triple_andThen [OF frames_keep [OF frames_guards(1)]])
  apply (rule triple_andThen [OF found_triple])
  apply (rule triple_conj_pre, erule conjE)
  apply (rule triple_if)
   apply (rule triple_ret, erule conjunct1)
  apply (rule triple_andThen [OF checked_triple])
  apply (rule triple_andThen [OF triple_pre [OF setActive_keeps]])
   apply (auto intro: checked_revises)[1]
  by (rule triple_ret)

lemma deactivate_revises: "rule \<in> set rows \<Longrightarrow> revises (rule\<lparr>ru_isActive := False\<rparr>) rows"
  by (rule revisesI) (auto simp: clash_inactive)

lemma deactivateRule_keeps: "triple (inv_but {}) (deactivateRule i caller) (\<lambda>_. inv_but {}) (inv_but {})"
  unfolding deactivateRule_def
  apply (rule triple_andThen [OF frames_keep [OF frames_guards(1)]])
  apply (rule triple_andThen [OF found_triple])
  apply (rule triple_conj_pre, erule conjE)
  apply (rule triple_if)
   apply (rule triple_ret, erule conjunct1)
  apply (rule triple_andThen [OF triple_pre [OF setActive_keeps]])
   apply (auto intro: deactivate_revises)[1]
  by (rule triple_ret)

lemma softDeleteRule_keeps: "triple (inv_but {}) (softDeleteRule i caller) (\<lambda>_. inv_but {}) (inv_but {})"
proof -
  have fin: "triple (\<lambda>w. inv_but {g} w \<and> optionally (\<lambda>i. i \<in> wf_id ` set (workflowRows w)) wid)
     (andThen (ruleAudit wid u ev b a) (\<lambda>_. andThen (invalidateOrgRuleCache g) (\<lambda>_.
      invalidateRuleSimulationCache j))) (\<lambda>_. inv_but {}) (inv_but {})" for g wid u ev b a j
    apply (rule triple_andThen [OF triple_weaken [OF ruleAudit_triple]], assumption, assumption, blast)
    apply (rule triple_andThen [OF invalidate_triple])
    by (rule frames_keep) (intro frames_intros)
  have off: "triple (\<lambda>w. inv_but {} w \<and> rule \<in> set (ruleRows w))
      (andThen (ruleAudit wid u ev b a) (\<lambda>_. andThen (invalidateOrgRuleCache g) (\<lambda>_.
      invalidateRuleSimulationCache j))) (\<lambda>_. inv_but {}) (inv_but {})" for rule wid u ev b a g j
    apply (rule triple_pre [where P' = "inv_but {}"])
     apply (rule triple_andThen [OF frames_keep [OF frames_ruleAudit]])
     apply (rule triple_andThen [OF triple_pre [OF invalidate_triple]])
      apply (auto simp: inv_but_def coherent_but_def)[1]
     by (rule frames_keep, intro frames_intros) simp
  show ?thesis
    unfolding softDeleteRule_def Let_def
    apply (rule triple_andThen [OF frames_keep [OF frames_guards(1)]])
    apply (rule triple_andThen [OF found_triple])
    apply (rule triple_conj_pre, erule conjE)
    subgoal for _ rule
      apply (cases "ru_isActive rule")
       apply (simp add: unless_simps)
       apply (rule triple_andThen [where R = "\<lambda>_ w. inv_but {rq_orgId caller} w \<and>
          optionally (\<lambda>i. i \<in> wf_id ` set (workflowRows w)) (ru_workflowId rule)"])
        apply (rule triple_andThen [OF snapshot_triple])
        apply (rule triple_andThen [OF triple_pre [OF revise_triple]])
         apply (auto intro!: revisesI simp: clash_inactive)[1]
        apply (rule triple_ret, simp)
       apply (rule fin)
      apply (simp add: unless_simps)
      apply (rule triple_andThen [where R = "\<lambda>_ w. inv_but {} w \<and> rule \<in> set (ruleRows w)"])
       apply (rule triple_ret, assumption)
      by (rule off)
    done
qed

section \<open>Imports\<close>

definition staged_ok :: "string \<Rightarrow> Rule list \<Rightarrow> Rule list \<Rightarrow> bool" where
  "staged_ok g staged rows \<longleftrightarrow>
     (\<forall>r \<in> set staged. unopposed r rows \<and> ru_orgId r = g) \<and> sorted_wrt (\<lambda>a b. \<not> clash a b) staged"

definition covers :: "Rule list \<Rightarrow> string \<Rightarrow> Rule list \<Rightarrow> bool" where
  "covers pool g rows \<longleftrightarrow> (\<forall>e \<in> set rows. ru_orgId e = g \<and> ru_isActive e \<longrightarrow> e \<in> set pool)"

lemma staged_snoc:
  assumes st: "staged_ok g staged rows" and g: "ru_orgId c = g" and cov: "covers pool g rows"
    and ok: "ru_isActive c \<Longrightarrow> contradictable (ru_ruleType c) \<Longrightarrow> \<forall>e \<in> set (pool @ staged). \<not> conflicts c e"
  shows "staged_ok g (staged @ [c]) rows"
proof -
  have "unopposed c rows" using g cov ok by (auto simp: unopposed_def covers_def clash_def bucket_def)
  moreover have "\<not> clash c e" if "e \<in> set staged" for e using that ok by (auto simp: clash_def)
  then have "\<not> clash e c" if "e \<in> set staged" for e using that clash_sym by blast
  ultimately show ?thesis using st g by (auto simp: staged_ok_def sorted_wrt_append)
qed

lemma frames_import: "along rules_frame (buildImportedRule item caller)"
  unfolding buildImportedRule_def by (intro frames_intros frames_guards)

lemma build_org: "buildImportedRule item caller w = (Inr c, v) \<Longrightarrow> ru_orgId c = rq_orgId caller"
  by (auto simp: buildImportedRule_def run_iffs)

lemma stage_triple:
  "triple (\<lambda>w. inv_but {} w \<and> covers pool (rq_orgId caller) (ruleRows w) \<and> staged_ok (rq_orgId caller) staged (ruleRows w))
     (stageRules caller pool staged items)
     (\<lambda>st w. inv_but {} w \<and> staged_ok (rq_orgId caller) st (ruleRows w)) (inv_but {})"
proof (induction items arbitrary: staged)
  case Nil
  then show ?case by (simp, intro triple_ret) blast
next
  case (Cons item items)
  let ?A = "\<lambda>rows (_ :: Workflow list). covers pool (rq_orgId caller) rows \<and> staged_ok (rq_orgId caller) staged rows"
  have build: "triple (\<lambda>w. inv_but {} w \<and> ?A (ruleRows w) (workflowRows w)) (buildImportedRule item caller)
      (\<lambda>c w. (inv_but {} w \<and> ?A (ruleRows w) (workflowRows w)) \<and> ru_orgId c = rq_orgId caller) (inv_but {})"
    by (rule triple_value [OF triple_weaken [OF frames_triple [OF frames_import, of "{}" ?A]]])
      (blast intro: build_org)+
  have step: "triple (\<lambda>w. inv_but {} w \<and> ?A (ruleRows w) (workflowRows w))
      (if ru_isActive c then ensureNoConflict c None (Some (pool @ staged)) else ret ())
      (\<lambda>_ w. inv_but {} w \<and> covers pool (rq_orgId caller) (ruleRows w) \<and>
         staged_ok (rq_orgId caller) (staged @ [c]) (ruleRows w)) (inv_but {})" if g: "ru_orgId c = rq_orgId caller" for c
  proof (cases "ru_isActive c")
    case True
    show ?thesis unfolding triple_def
    proof (intro allI impI)
      fix w r v
      assume h: "inv_but {} w \<and> ?A (ruleRows w) (workflowRows w)"
        "(if ru_isActive c then ensureNoConflict c None (Some (pool @ staged)) else ret ()) w = (r, v)"
      then have e: "ensureNoConflict c None (Some (pool @ staged)) w = (r, v)" using True by simp
      have i: "inv_but {} v" using frames_keep [OF frames_ensureNoConflict] h(1) e unfolding triple_def
        by (cases r) force+
      have rows: "ruleRows v = ruleRows w" by (rule ensureNoConflict_frame(1) [OF e])
      show "case r of Inl _ \<Rightarrow> inv_but {} v | Inr _ \<Rightarrow> inv_but {} v \<and>
          covers pool (rq_orgId caller) (ruleRows v) \<and> staged_ok (rq_orgId caller) (staged @ [c]) (ruleRows v)"
      proof (cases r)
        case (Inr x)
        have "staged_ok (rq_orgId caller) (staged @ [c]) (ruleRows w)"
          using h(1) g ensureNoConflict_Inr(2) [OF e [unfolded Inr]] by (intro staged_snoc [where pool = pool]) auto
        then show ?thesis using Inr i h(1) rows by simp
      qed (use i in simp)
    qed
  next
    case False
    then show ?thesis
      using staged_snoc [OF _ g] by (simp, intro triple_ret) blast
  qed
  show ?case
    unfolding stageRules.simps
    apply (rule triple_andThen [OF triple_pre [OF build]], blast)
    apply (rule triple_conj_pre)
    apply (rule triple_andThen [OF step], assumption)
    by (rule Cons.IH)
qed

lemma insert_rules_triple:
  "triple (\<lambda>w. inv_but S w \<and> staged_ok g rs (ruleRows w)) (insert_rules rs)
     (\<lambda>_ w. inv_but (insert g S) w) (\<lambda>_. True)"
proof (induction rs arbitrary: S)
  case Nil
  then show ?case by (simp, intro triple_ret) (auto simp: inv_but_def coherent_but_def)
next
  case (Cons r rs)
  have "triple (\<lambda>w. inv_but S w \<and> staged_ok g (r # rs) (ruleRows w)) (insert_rule r)
      (\<lambda>_ w. inv_but (insert g S) w \<and> staged_ok g rs (ruleRows w)) (\<lambda>_. True)"
  proof (cases "(\<forall>q \<in> set (r # rs). ru_orgId q = g) \<and> sorted_wrt (\<lambda>a b. \<not> clash a b) (r # rs)")
    case True
    then have "\<forall>q \<in> set rs. \<not> clash q r" using clash_sym by auto
    then show ?thesis
      by (rule triple_weaken [OF insert_rule_triple [of _ r S]]) (use True in \<open>auto simp: staged_ok_def\<close>)
  next
    case False
    then show ?thesis by (auto simp: triple_def staged_ok_def)
  qed
  then show ?case
    unfolding insert_rules.simps
    apply (rule triple_andThen)
    apply (rule triple_andThen [OF Cons.IH])
    by (rule triple_ret) simp
qed

lemma cached_triple:
  "triple (inv_but {}) (getCachedActiveRules g)
    (\<lambda>pool w. inv_but {} w \<and> covers pool g (ruleRows w) \<and> staged_ok g [] (ruleRows w)) (inv_but {})"
  unfolding triple_def
proof (intro allI impI)
  fix w r v
  assume h: "inv_but {} w" "getCachedActiveRules g w = (r, v)"
  have c: "r = Inr (active_rules g w)" "cache_coherent v" "ruleRows v = ruleRows w"
    using getCachedActiveRules_coherent [OF _ h(2)] h(1) by (auto simp: inv_but_def cache_coherent_def)
  have "idSupply v = idSupply w" "idNext v = idNext w"
    using h(2) by (auto simp: getCachedActiveRules_def Let_def split: option.splits if_splits)
  then show "case r of Inl _ \<Rightarrow> inv_but {} v
      | Inr pool \<Rightarrow> inv_but {} v \<and> covers pool g (ruleRows v) \<and> staged_ok g [] (ruleRows v)"
    using h(1) c by (auto simp: inv_but_def cache_coherent_def no_conflict_def rule_ids_ok_def covers_def
        active_rules_def by_priority_def staged_ok_def)
qed

lemma importRules_keeps: "triple (inv_but {}) (importRules bundle caller) (\<lambda>_. inv_but {}) (inv_but {})"
proof -
  have tx: "triple P (in_transaction m) Q P" if "triple P m Q (\<lambda>_. True)" for P Q and m :: "'q service"
    using that unfolding triple_def in_transaction_def by (fastforce split: sum.splits prod.splits)
  show ?thesis
    unfolding importRules_def
    apply (rule triple_andThen [OF frames_keep [OF frames_guards(1)]])
    apply (rule triple_andThen [OF cached_triple])
    apply (rule triple_andThen [OF stage_triple])
    apply (rule triple_andThen [where R = "\<lambda>_ w. inv_but {rq_orgId caller} w"])
     apply (rule triple_weaken [OF tx [OF insert_rules_triple [where S = "{}"]]])
       apply assumption
      apply assumption
     apply blast
    apply (rule triple_andThen [OF triple_weaken [OF ruleAudit_triple]])
       apply simp
      apply assumption
     apply blast
    apply (rule triple_andThen [OF invalidate_triple])
    by (rule triple_ret)
qed

lemma getSessionContextRules_keeps:
  "triple (inv_but {}) (getSessionContextRules i g) (\<lambda>_. inv_but {}) (inv_but {})"
  unfolding getSessionContextRules_def
  apply (rule triple_andThen [where R = "\<lambda>_. inv_but {}"])
   apply (auto simp: triple_def orThrow_def split: sum.splits option.splits)[1]
  apply (rule triple_andThen [where R = "\<lambda>_. inv_but {}"])
   apply (auto simp: triple_def orThrow_def split: sum.splits option.splits)[1]
  apply (rule triple_andThen [OF cached_triple])
  by (rule triple_ret) blast

section \<open>Properties\<close>

datatype RulesCommand =
    CreateRule CreateRuleDto
  | UpdateRule string UpdateRuleDto
  | ActivateRule string
  | DeactivateRule string
  | SoftDeleteRule string
  | ImportRules ImportRulesBundleDto
  | PreviewRules string

definition done_with :: "'a service \<Rightarrow> unit service" where
  "done_with m = andThen m (\<lambda>_. ret ())"

fun exec_rules :: "RulesCommand \<Rightarrow> RequestUser \<Rightarrow> unit service" where
  "exec_rules (CreateRule dto) caller = done_with (createRule dto caller)"
| "exec_rules (UpdateRule i dto) caller = done_with (updateRule i dto caller)"
| "exec_rules (ActivateRule i) caller = done_with (activateRule i caller)"
| "exec_rules (DeactivateRule i) caller = done_with (deactivateRule i caller)"
| "exec_rules (SoftDeleteRule i) caller = done_with (softDeleteRule i caller)"
| "exec_rules (ImportRules b) caller = done_with (importRules b caller)"
| "exec_rules (PreviewRules i) caller = done_with (previewForSession i caller)"

lemma previewForSession_keeps: "triple (inv_but {}) (previewForSession i caller) (\<lambda>_. inv_but {}) (inv_but {})"
  unfolding previewForSession_def
  apply (rule triple_andThen [OF getSessionContextRules_keeps])
  by (simp split: prod.split) (intro allI impI triple_ret, assumption)

lemma done_with_triple: "triple P m (\<lambda>_. Q) E \<Longrightarrow> triple P (done_with m) (\<lambda>_. Q) E"
  unfolding done_with_def by (erule triple_andThen) (rule triple_ret)

lemma exec_rules_triple: "triple (inv_but {}) (exec_rules cmd caller) (\<lambda>_. inv_but {}) (inv_but {})"
  by (cases cmd)
    (simp_all add: done_with_triple createRule_keeps updateRule_keeps activateRule_keeps deactivateRule_keeps
      softDeleteRule_keeps importRules_keeps previewForSession_keeps)


definition sample_dto :: CreateRuleDto where
  "sample_dto = \<lparr>cr_name = ''n'', cr_description = None, cr_type = RuleType.ACTOR_MAPPING, cr_scope = RuleScope.ORG,
     cr_workflow_id = None, cr_target_agent = None, cr_condition = None, cr_instruction = ''x'', cr_priority = None\<rparr>"

definition sample_admin :: RequestUser where
  "sample_admin = \<lparr>rq_id = ''u1'', rq_orgId = ''o1'', rq_role = ''admin''\<rparr>"

lemma sample_rules_inv: "rules_inv sample_world"
proof -
  have "inj (\<lambda>n. replicate n (CHR ''x''))" by (rule injI) (metis length_replicate)
  then show ?thesis
    by (simp add: rules_inv_def no_conflict_def cache_coherent_def coherent_but_def rule_ids_ok_def sample_defs)
qed

lemmas rule_run_defs = run_simps
  createRule_def assertRuleManager_def assertScopeConsistency_def ensureNoConflict_def insert_rule_def
  ruleAudit_def audit_log_def audit_entry_def insert_audit_run save_rule_run invalidateOrgRuleCache_def
  invalidateRuleSimulationCache_def findRuleOrThrow_def snapshotRuleVersion_def insert_rule_version_def Let_def


lemma ruleAudit_frame:
  assumes "ruleAudit wid u e b a w = (r, v)"
  shows "ruleRows v = ruleRows w" "ruleVersionRows v = ruleVersionRows w"
  using untouchedD [of ruleRows "ruleAudit wid u e b a" w r v] untouchedD [of ruleVersionRows "ruleAudit wid u e b a" w r v]
    assms by (simp_all add: ruleAudit_def untouched_intros)

text \<open>C12. A successful change of a rule appends exactly one snapshot to its history, holding the version it
had before, and stores the rule with the next version number and the requested values; no other rule
changes.\<close>

theorem updateRule_history:
  assumes "updateRule i dto caller w = (Inr x, v)"
    and "find (\<lambda>r. ru_id r = i \<and> ru_orgId r = rq_orgId caller) (ruleRows w) = Some rule"
    and "hasChanges (nextRule dto rule) rule"
  shows "(\<exists>sn. ruleVersionRows v = ruleVersionRows w @ [sn] \<and> rv_ruleId sn = i \<and> rv_version sn = ru_version rule \<and>
            rv_instruction sn = ru_instruction rule \<and> rv_condition sn = ru_condition rule \<and>
            rv_priority sn = ru_priority rule \<and> rv_isActive sn = ru_isActive rule \<and> rv_changedBy sn = rq_id caller) \<and>
         (\<exists>r. find_row ru_id i (ruleRows v) = Some r \<and> ru_version r = ru_version rule + 1 \<and>
            ru_instruction r = ru_instruction (nextRule dto rule) \<and> ru_condition r = ru_condition (nextRule dto rule) \<and>
            ru_priority r = ru_priority (nextRule dto rule) \<and> ru_isActive r = ru_isActive (nextRule dto rule)) \<and>
         (\<forall>k. k \<noteq> i \<longrightarrow> find_row ru_id k (ruleRows v) = find_row ru_id k (ruleRows w))"
proof -
  let ?new = "(nextRule dto rule)\<lparr>ru_version := ru_version rule + 1\<rparr>"
  have id: "ru_id rule = i" using assms(2) by (auto simp: find_Some_iff)
  obtain w1 w2 w3 w4 y1 saved a where
    c: "(if ru_isActive (nextRule dto rule) then ensureNoConflict (nextRule dto rule) (Some (ru_id rule)) None else ret ()) w
          = (Inr y1, w1)" and
    s: "snapshotRuleVersion rule (rq_id caller) w1 = (Inr (), w2)" and
    r: "save_rule ?new w2 = (Inr saved, w3)" and
    au: "ruleAudit (ru_workflowId saved) (rq_id caller) (updateEvent dto (nextRule dto rule) rule)
          (Some (auditShape rule)) (Some (auditShape saved)) w3 = (Inr a, w4)" and
    v: "v = simulationCache_update (filter (\<lambda>p. \<not> js_startsWith (fst p) (ru_id saved @ '':'')))
          (activeRuleCache_update (map_delete (rq_orgId caller)) w4)"
    using assms
    by (auto simp: updateRule_def run_iffs findRuleOrThrow_def assertRuleManager_def Let_def
        invalidateOrgRuleCache_def invalidateRuleSimulationCache_def)
  have w1: "w1 = w" using c ensureNoConflict_Inr(1) by (auto simp: run_iffs split: if_splits)
  have saved: "saved = ?new \<or> saved = ?new\<lparr>ru_updatedAt := clock w2\<rparr>"
    "ruleVersionRows w3 = ruleVersionRows w2" "ruleRows w3 = save_row ru_id saved (ruleRows w2)"
    using r by (auto simp: save_rule_run Let_def split: if_splits)
  obtain k t where sn: "ruleRows w2 = ruleRows w" "ruleVersionRows w2 = ruleVersionRows w @ [\<lparr>rv_id = k,
      rv_ruleId = ru_id rule, rv_version = ru_version rule, rv_instruction = ru_instruction rule,
      rv_condition = ru_condition rule, rv_priority = ru_priority rule, rv_isActive = ru_isActive rule,
      rv_changedBy = rq_id caller, rv_createdAt = t\<rparr>]"
    using s w1 by (auto simp: snapshotRuleVersion_def insert_rule_version_def run_iffs)
  have rows: "ruleRows v = save_row ru_id saved (ruleRows w)" "ruleVersionRows v = ruleVersionRows w2"
    using saved(2,3) sn(1) ruleAudit_frame [OF au] by (simp_all add: v)
  have "ru_id saved = i" "ru_version saved = ru_version rule + 1"
    "ru_instruction saved = ru_instruction (nextRule dto rule)" "ru_condition saved = ru_condition (nextRule dto rule)"
    "ru_priority saved = ru_priority (nextRule dto rule)" "ru_isActive saved = ru_isActive (nextRule dto rule)"
    using saved(1) id by auto
  then show ?thesis unfolding rows sn(2) find_row_save by (simp add: id)
qed

definition sample_rule :: Rule where
  "sample_rule = \<lparr>ru_id = ''r1'', ru_orgId = ''o1'', ru_workflowId = None, ru_name = ''n'', ru_description = None,
     ru_ruleType = RuleType.EXTRACTION, ru_scope = RuleScope.ORG, ru_targetAgent = None, ru_condition = None,
     ru_instruction = ''x'', ru_priority = 100, ru_version = 1, ru_isActive = True, ru_createdBy = ''u1'',
     ru_createdAt = 0, ru_updatedAt = 0\<rparr>"

definition set_priority :: "int \<Rightarrow> UpdateRuleDto" where
  "set_priority p = \<lparr>ud_instruction = None, ud_condition = None, ud_priority = Some (Some p), ud_is_active = None\<rparr>"

lemma sample_update:
  "fst (updateRule ''r1'' (set_priority p) sample_admin (sample_world\<lparr>ruleRows := [sample_rule]\<rparr>)) =
     (if p = 100 \<or> smallint p then Inr (JObj [(''rule'', serializeRule (if p = 100 then sample_rule
        else sample_rule\<lparr>ru_priority := p, ru_version := 2\<rparr>))])
      else Inl (QueryFailedError ''smallint out of range''))"
  by (simp add: updateRule_def rule_run_defs set_priority_def sample_rule_def sample_admin_def sample_defs
      nextRule_def hasChanges_def contradictable_def find_row_def smallint_def save_row_def)

theorem updateRule_history_witness:
  "\<exists>v. updateRule ''r1'' (set_priority 7) sample_admin (sample_world\<lparr>ruleRows := [sample_rule]\<rparr>) =
       (Inr (JObj [(''rule'', serializeRule (sample_rule\<lparr>ru_priority := 7, ru_version := 2\<rparr>))]), v) \<and>
     (\<exists>sn. ruleVersionRows v = [sn] \<and> rv_version sn = 1 \<and> rv_priority sn = 100)"
proof -
  let ?w = "sample_world\<lparr>ruleRows := [sample_rule]\<rparr>"
  let ?r = "updateRule ''r1'' (set_priority 7) sample_admin ?w"
  have r: "?r = (Inr (JObj [(''rule'', serializeRule (sample_rule\<lparr>ru_priority := 7, ru_version := 2\<rparr>))]), snd ?r)"
    using sample_update [of 7] by (simp add: smallint_def prod_eq_iff)
  from updateRule_history [OF r, of sample_rule]
  have "\<exists>sn. ruleVersionRows (snd ?r) = [sn] \<and> rv_version sn = 1 \<and> rv_priority sn = 100"
    by (auto simp: sample_rule_def sample_admin_def sample_defs hasChanges_def nextRule_def set_priority_def)
  then show ?thesis using r by blast
qed

text \<open>A priority outside the \<open>smallint\<close> column passes the validation but not the database: the request
fails with a server error, the rule is unchanged, and yet its history has gained a snapshot of the version
that is still current - once per attempt.\<close>

theorem update_overflow_leaves_snapshot:
  assumes "rq_orgId caller \<noteq> []" "rq_role caller = user_role_str UserRole.ADMIN"
    and "find (\<lambda>r. ru_id r = i \<and> ru_orgId r = rq_orgId caller) (ruleRows w) = Some rule"
    and "\<not> contradictable (ru_ruleType rule)" "ru_isActive rule" "32767 < p" "ru_priority rule \<le> 32767"
    and "optionally (\<lambda>k. workflowExists k w) (ru_workflowId rule)"
  shows "\<exists>v sn. updateRule i (set_priority p) caller w = (Inl (QueryFailedError ''smallint out of range''), v) \<and>
     ruleRows v = ruleRows w \<and> ruleVersionRows v = ruleVersionRows w @ [sn] \<and>
     rv_ruleId sn = i \<and> rv_version sn = ru_version rule"
proof -
  have rule: "ru_id rule = i" "rule \<in> set (ruleRows w)" using assms(3) by (auto simp: find_Some_iff)
  then have "ru_id rule \<in> ru_id ` set (ruleRows w)" by blast
  then show ?thesis
    using assms rule
    by (simp add: updateRule_def rule_run_defs set_priority_def nextRule_def hasChanges_def smallint_def
        workflowExists_def)
qed

theorem update_overflow_leaves_snapshot_witness:
  "\<exists>v sn. updateRule ''r1'' (set_priority 40000) sample_admin (sample_world\<lparr>ruleRows := [sample_rule]\<rparr>) =
       (Inl (QueryFailedError ''smallint out of range''), v) \<and>
     ruleRows v = [sample_rule] \<and> ruleVersionRows v = [sn] \<and> rv_version sn = 1"
proof -
  let ?w = "sample_world\<lparr>ruleRows := [sample_rule]\<rparr>"
  have "\<exists>v sn. updateRule ''r1'' (set_priority 40000) sample_admin ?w = (Inl (QueryFailedError ''smallint out of range''), v) \<and>
     ruleRows v = ruleRows ?w \<and> ruleVersionRows v = ruleVersionRows ?w @ [sn] \<and>
     rv_ruleId sn = ''r1'' \<and> rv_version sn = ru_version sample_rule"
    by (rule update_overflow_leaves_snapshot)
      (simp_all add: sample_admin_def sample_rule_def sample_defs contradictable_def)
  moreover have "ruleRows ?w = [sample_rule]" "ruleVersionRows ?w = []" "ru_version sample_rule = 1"
    by (simp_all add: sample_defs sample_rule_def)
  ultimately show ?thesis by auto
qed

text \<open>The rules sent with a session are exactly the active rules of its organization whose scope and
condition match it, highest priority first; a session of another organization is reported as not found.\<close>

theorem session_rules_applicable:
  assumes "rules_inv w" "getSessionContextRules i g w = (Inr (s, rs), v)"
  shows "find_row se_id i (sessionRows w) = Some s \<and>
     (\<exists>x. find (\<lambda>x. wf_id x = se_workflowId s \<and> wf_orgId x = g) (workflowRows w) = Some x \<and>
        set rs = {r \<in> set (ruleRows w). ru_orgId r = g \<and> ru_isActive r \<and> matchesSessionScope r (se_workflowId s) \<and>
                    matchesRuleCondition (ru_condition r) (buildSessionContext s x)}) \<and>
     sorted_wrt (\<lambda>a b. ru_priority b \<le> ru_priority a) rs"
proof -
  obtain x pool where h: "find_row se_id i (sessionRows w) = Some s"
    "find (\<lambda>x. wf_id x = se_workflowId s \<and> wf_orgId x = g) (workflowRows w) = Some x"
    "getCachedActiveRules g w = (Inr pool, v)"
    "rs = sort_desc (\<lambda>r. (ru_priority r, js_date (ru_updatedAt r)))
       (filter (\<lambda>r. matchesRuleCondition (ru_condition r) (buildSessionContext s x))
         (filter (\<lambda>r. matchesSessionScope r (se_workflowId s)) pool))"
    using assms(2) by (auto simp: getSessionContextRules_def run_iffs)
  have pool: "pool = active_rules g w"
    using getCachedActiveRules_coherent [OF _ h(3)] assms(1) by (simp add: rules_inv_def)
  have "sorted_wrt (\<lambda>a b. (ru_priority b, js_date (ru_updatedAt b)) \<le> (ru_priority a, js_date (ru_updatedAt a))) rs"
    unfolding h(4) by (rule sorted_sort_desc)
  then have "sorted_wrt (\<lambda>a b. ru_priority b \<le> ru_priority a) rs"
    by (rule sorted_wrt_mono_rel [rotated]) (auto simp: less_eq_prod_def)
  then show ?thesis using h(1,2) by (auto simp: h(4) pool active_rules_def by_priority_def)
qed

theorem session_rules_applicable_witness:
  "\<exists>v. getSessionContextRules ''s1'' ''o1'' (sample_world\<lparr>ruleRows := [sample_rule]\<rparr>) = (Inr (sample_session, [sample_rule]), v) \<and>
     sorted_wrt (\<lambda>a b. ru_priority b \<le> ru_priority a) [sample_rule]"
proof -
  let ?w = "sample_world\<lparr>ruleRows := [sample_rule]\<rparr>"
  let ?r = "getSessionContextRules ''s1'' ''o1'' ?w"
  have "fst ?r = Inr (sample_session, [sample_rule])"
    by (simp add: getSessionContextRules_def run_simps sample_defs sample_rule_def find_row_def
        getCachedActiveRules_def by_priority_def sort_desc_def Let_def matchesSessionScope_def matchesRuleCondition_def)
  then have r: "?r = (Inr (sample_session, [sample_rule]), snd ?r)" by (metis prod.collapse)
  have fresh: "replicate n (CHR ''x'') \<noteq> CHR ''r'' # cs" for n cs by (cases n) simp_all
  have "rules_inv ?w"
    using sample_rules_inv fresh
    by (simp add: rules_inv_def no_conflict_def cache_coherent_def coherent_but_def rule_ids_ok_def sample_defs
        sample_rule_def)
  from session_rules_applicable [OF this r] r show ?thesis by blast
qed

text \<open>The event that announces a conflict of an organization-wide rule goes to a room nobody can be in:
in no reachable state of the gateway does it reach a socket.\<close>

theorem org_conflict_event_unheard:
  assumes "ws_reach verify dev w" "\<not> truthy (ru_workflowId candidate)"
    and "emitConflictEvent candidate existing detail w = (r, v)"
  shows "ws_event (last (emitted v)) = ''rules.conflict.detected'' \<and> ws_to (last (emitted v)) = []"
proof -
  have "\<not> may_read w u g r (''org:'' @ ru_orgId candidate)" for u g r
    by (simp add: may_read_def room_defs)
  then have "room_members (''org:'' @ ru_orgId candidate) w = []"
    by (rule nobody_in_room [OF ws_reach_entitled [OF assms(1)]])
  then show ?thesis using assms(2,3) by (auto simp: emitConflictEvent_def emitToRoom_run Let_def)
qed

theorem org_conflict_event_unheard_witness:
  "ws_to (last (emitted (snd (emitConflictEvent sample_rule sample_rule ''d'' joined_world)))) = [] \<and>
   clients joined_world \<noteq> []"
proof -
  let ?verify = "\<lambda>_. Some \<lparr>jwt_sub = Some ''u1'', jwt_id = None, jwt_orgId = Some ''o1'', jwt_role = Some ''viewer''\<rparr>"
  have reach: "ws_reach ?verify True joined_world"
    unfolding joined_world_def by (rule ws_reach.step [OF _ ws_step.join], rule dev_socket_reach) simp
  have "\<not> truthy (ru_workflowId sample_rule)" by (simp add: sample_rule_def)
  moreover have "emitConflictEvent sample_rule sample_rule ''d'' joined_world =
      (fst (emitConflictEvent sample_rule sample_rule ''d'' joined_world),
       snd (emitConflictEvent sample_rule sample_rule ''d'' joined_world))" by simp
  ultimately have "ws_to (last (emitted (snd (emitConflictEvent sample_rule sample_rule ''d'' joined_world)))) = []"
    using org_conflict_event_unheard [OF reach] by blast
  then show ?thesis using joined_world_members(1) by (auto simp: room_members_def)
qed

text \<open>The keys that decide whether two actor mappings or structural constraints contradict each other
(\<open>source_label\<close>, \<open>canonical\<close>, \<open>structure\<close>, ...) are not properties of a session: a rule whose condition
names an actor, a target, a structure or a mode matches no session, so it is never previewed nor sent.\<close>

theorem mapping_rules_never_match:
  assumes "k \<in> set source_keys \<union> set target_keys \<union> set structure_keys \<union> set mode_keys"
    and "pickFirstValue condition [k] \<noteq> None"
  shows "\<not> matchesRuleCondition condition (buildSessionContext s x)"
proof -
  obtain c where c: "condition = Some c" "nonblank (get_prop (entries c) k) \<noteq> None"
    using assms(2) by (auto simp: pickFirstValue_def split: option.splits)
  then obtain j where "get_prop (entries c) k = Some j" by (cases "get_prop (entries c) k") auto
  then have mem: "(k, j) \<in> set (entries c)" by (simp add: get_prop_def map_of_SomeD)
  have "set (map fst (buildSessionContext s x)) \<inter>
      (set source_keys \<union> set target_keys \<union> set structure_keys \<union> set mode_keys) = {}"
    by (simp add: buildSessionContext_def source_keys_def target_keys_def structure_keys_def mode_keys_def)
  then have "k \<notin> fst ` set (buildSessionContext s x)" using assms(1) by auto
  then have "get_prop (buildSessionContext s x) k = None"
    by (simp add: get_prop_def map_of_eq_None_iff)
  then show ?thesis using mem c(1)
    by (auto simp: matchesRuleCondition_def matchesEntry_def intro!: bexI [of _ "(k, j)"])
qed

theorem mapping_rules_never_match_witness:
  "\<not> matchesRuleCondition (Some (JObj [(''source_label'', JStr ''Clerk''), (''canonical'', JStr ''Agent'')]))
     (buildSessionContext sample_session sample_workflow)"
  by (rule mapping_rules_never_match [of "''source_label''"])
    (simp_all add: source_keys_def pickFirstValue_def get_prop_def js_trim_def js_space_def)

end
