(* ===== verification/Nats.thy ===== *)
theory Nats
  imports Realtime
begin

text \<open>
  Messaging: the typed publisher (\<open>src/infra/nats/nats.publisher.service.ts\<close>, subjects in
  \<open>src/core/messaging/subjects.ts\<close>) and the durable subscriber loop (\<open>src/infra/nats/nats.client.ts\<close>).
\<close>

section \<open>Publishing\<close>

definition buildMsgId :: "string \<Rightarrow> string \<Rightarrow> string option \<Rightarrow> string" where
  "buildMsgId correlation subject pipelineExecutionId =
     correlation @ '':'' @ subject @ '':'' @ (case pipelineExecutionId of None \<Rightarrow> [] | Some p \<Rightarrow> p)"

text \<open>The ids the publisher reads from the payload are passed beside it.\<close>

definition publishAiTaskNew :: "string \<Rightarrow> string \<Rightarrow> json \<Rightarrow> unit service" where
  "publishAiTaskNew correlation pipelineExecutionId payload =
     nats_publish ''ai.tasks.new'' payload (buildMsgId correlation ''ai.tasks.new'' (Some pipelineExecutionId))"

definition publishAiTaskDivergence :: "string \<Rightarrow> string \<Rightarrow> json \<Rightarrow> unit service" where
  "publishAiTaskDivergence correlation reportId payload =
     nats_publish ''ai.tasks.divergence'' payload (buildMsgId correlation ''ai.tasks.divergence'' (Some reportId))"

definition publishAiContextLoad :: "string \<Rightarrow> json \<Rightarrow> unit service" where
  "publishAiContextLoad correlation payload =
     nats_publish ''ai.context.load'' payload (buildMsgId correlation ''ai.context.load'' None)"

definition publishDocumentPreprocess :: "string \<Rightarrow> json \<Rightarrow> unit service" where
  "publishDocumentPreprocess documentId payload =
     nats_publish ''document.preprocess'' payload (buildMsgId documentId ''document.preprocess'' None)"

definition publishWorkflowUpdated :: "WorkflowUpdatedEvent \<Rightarrow> unit service" where
  "publishWorkflowUpdated e =
     nats_publish ''workflow.events.updated''
       (obj [(''workflow_id'', Some (JStr (wu_workflow_id e))), (''version_number'', Some (json_int (wu_version_number e))),
             (''changed_elements'', Some (wu_changed_elements e)), (''source'', Some (JStr (wu_source e))),
             (''actor_id'', map_option JStr (wu_actor_id e)), (''correlation_id'', Some (JStr (wu_correlation_id e)))])
       (buildMsgId (wu_correlation_id e) ''workflow.events.updated'' None)"

definition publishSessionFinalized :: "SessionFinalizedEvent \<Rightarrow> unit service" where
  "publishSessionFinalized e =
     nats_publish ''session.events.finalized''
       (JObj [(''session_id'', JStr (sf_session_id e)), (''workflow_id'', JStr (sf_workflow_id e)),
              (''final_version_number'', json_int (sf_final_version_number e)),
              (''final_confidence'', JNum (sf_final_confidence e)), (''finalized_at'', JStr (sf_finalized_at e))])
       (buildMsgId (sf_session_id e) ''session.events.finalized'' None)"

definition publishSystemHealthPing :: "SystemHealthPingEvent \<Rightarrow> unit service" where
  "publishSystemHealthPing e =
     nats_publish ''system.health.ping''
       (obj [(''service'', Some (JStr (hp_service e))), (''status'', Some (JStr (hp_status e))),
             (''latency_ms'', map_option JNum (hp_latency_ms e)), (''details'', hp_details e),
             (''timestamp'', Some (JStr (hp_timestamp e)))])
       (buildMsgId (hp_timestamp e) ''system.health.ping'' None)"

lemmas publish_defs = publishAiTaskNew_def publishAiTaskDivergence_def publishAiContextLoad_def
  publishDocumentPreprocess_def publishWorkflowUpdated_def publishSessionFinalized_def publishSystemHealthPing_def

lemma nats_publish_run:
  "nats_publish s p i w = (if natsUp w
     then (Inr (), published_update (\<lambda>ms. ms @ [\<lparr>nm_subject = s, nm_msgId = i, nm_payload = p\<rparr>]) w)
     else (Inl NatsError, w))"
  by (simp add: nats_publish_def)

text \<open>
  JetStream drops a message whose id it has seen on the stream within its deduplication window:
  \<open>stored\<close> is what the stream keeps of a burst of publications.
\<close>

fun stored :: "string set \<Rightarrow> nats_message list \<Rightarrow> nats_message list" where
  "stored seen [] = []"
| "stored seen (m # ms) =
     (if nm_msgId m \<in> seen then stored seen ms else m # stored (insert (nm_msgId m) seen) ms)"

lemma stored_all: "nm_msgId ` set ms \<subseteq> seen \<Longrightarrow> stored seen ms = []"
  by (induction ms) auto

lemma stored_fresh:
  "distinct (map nm_msgId ms) \<Longrightarrow> nm_msgId ` set ms \<inter> seen = {} \<Longrightarrow> stored seen ms = ms"
  by (induction ms arbitrary: seen) auto

section \<open>The subscriber loop\<close>

record SubscriberMeta =
  sm_subject :: string
  sm_deliveryCount :: nat
  sm_msgId :: "string option"

record NatsMsg =
  ms_data :: string
  ms_redeliveryCount :: "nat option"
  ms_msgId :: "string option"

text \<open>
  \<open>decode\<close> is the JSON codec (None when it throws), \<open>validate\<close> the validation of the payload type when
  one is given.
\<close>

record DurableSubscriberOptions =
  so_subject :: string
  so_decode :: "string \<Rightarrow> json option"
  so_validate :: "(json \<Rightarrow> bool) option"
  so_handler :: "json \<Rightarrow> SubscriberMeta \<Rightarrow> unit service"
  so_onExhausted :: "(SubscriberMeta \<Rightarrow> json \<Rightarrow> error \<Rightarrow> unit service) option"

datatype Settlement = Ack | Nak nat | Term

text \<open>One delivery: the settlement of the message, or the error that ends the subscriber's loop.\<close>

definition handleMsg :: "DurableSubscriberOptions \<Rightarrow> NatsMsg \<Rightarrow> Settlement service" where
  "handleMsg opt msg w =
     (let meta = \<lparr>sm_subject = so_subject opt,
            sm_deliveryCount = (case ms_redeliveryCount msg of None \<Rightarrow> 1 | Some n \<Rightarrow> n), sm_msgId = ms_msgId msg\<rparr>;
          attempt = andThen (orThrow (so_decode opt (ms_data msg)) (PlainError ''Bad JSON'')) (\<lambda>payload.
            andThen (check (case so_validate opt of None \<Rightarrow> True | Some p \<Rightarrow> p payload) (PlainError ''Validation failed'')) (\<lambda>_.
            so_handler opt payload meta));
          payload = (case so_decode opt (ms_data msg) of None \<Rightarrow> JObj [] | Some j \<Rightarrow> j)
      in case attempt w of
           (Inr _, v) \<Rightarrow> (Inr Ack, v)
         | (Inl e, v) \<Rightarrow>
             if sm_deliveryCount meta \<ge> 3
             then (case so_onExhausted opt of
                     None \<Rightarrow> (Inr Term, v)
                   | Some f \<Rightarrow> andThen (f meta payload e) (\<lambda>_. ret Term) v)
             else (Inr (Nak 5000), v))"

text \<open>
  The broker delivers a message again after a negative acknowledgement, with the next delivery count,
  at most \<open>max_deliver = 3\<close> times: deliveries number \<open>n\<close>, ..., 3.
\<close>

fun deliver :: "DurableSubscriberOptions \<Rightarrow> string \<Rightarrow> string option \<Rightarrow> nat \<Rightarrow> nat \<Rightarrow> Settlement list service" where
  "deliver opt dat msgId n 0 = ret []"
| "deliver opt dat msgId n (Suc k) =
     andThen (handleMsg opt \<lparr>ms_data = dat, ms_redeliveryCount = Some n, ms_msgId = msgId\<rparr>) (\<lambda>s.
     case s of
       Nak _ \<Rightarrow> andThen (deliver opt dat msgId (Suc n) k) (\<lambda>ss. ret (s # ss))
     | _ \<Rightarrow> ret [s])"

text \<open>The attempt of one delivery, as the loop's \<open>try\<close> block runs it.\<close>

definition attempt :: "DurableSubscriberOptions \<Rightarrow> string \<Rightarrow> string option \<Rightarrow> nat \<Rightarrow> unit service" where
  "attempt opt dat msgId n =
     andThen (orThrow (so_decode opt dat) (PlainError ''Bad JSON'')) (\<lambda>payload.
     andThen (check (case so_validate opt of None \<Rightarrow> True | Some p \<Rightarrow> p payload) (PlainError ''Validation failed'')) (\<lambda>_.
     so_handler opt payload \<lparr>sm_subject = so_subject opt, sm_deliveryCount = n, sm_msgId = msgId\<rparr>))"

text \<open>What remains after a third failure.\<close>

definition exhausted :: "DurableSubscriberOptions \<Rightarrow> string \<Rightarrow> string option \<Rightarrow> nat \<Rightarrow> error \<Rightarrow> unit service" where
  "exhausted opt dat msgId n e =
     (case so_onExhausted opt of
        None \<Rightarrow> ret ()
      | Some f \<Rightarrow> f \<lparr>sm_subject = so_subject opt, sm_deliveryCount = n, sm_msgId = msgId\<rparr>
                    (case so_decode opt dat of None \<Rightarrow> JObj [] | Some j \<Rightarrow> j) e)"

lemma handleMsg_attempt:
  "handleMsg opt \<lparr>ms_data = dat, ms_redeliveryCount = Some n, ms_msgId = msgId\<rparr> w =
     (case attempt opt dat msgId n w of
        (Inr _, v) \<Rightarrow> (Inr Ack, v)
      | (Inl e, v) \<Rightarrow> if n \<ge> 3 then andThen (exhausted opt dat msgId n e) (\<lambda>_. ret Term) v else (Inr (Nak 5000), v))"
  by (simp add: handleMsg_def attempt_def exhausted_def Let_def andThen_def [of "ret ()"] ret_def
      split: prod.split sum.split option.split)

lemma deliver_Suc:
  "deliver opt dat i n (Suc k) w =
     (case attempt opt dat i n w of
        (Inr _, v) \<Rightarrow> (Inr [Ack], v)
      | (Inl e, v) \<Rightarrow>
          if n \<ge> 3 then andThen (exhausted opt dat i n e) (\<lambda>_. ret [Term]) v
          else andThen (deliver opt dat i (Suc n) k) (\<lambda>ss. ret (Nak 5000 # ss)) v)"
  by (simp add: handleMsg_attempt andThen_def ret_def split: prod.split sum.split)

section \<open>Properties\<close>

text \<open>The three deliveries of a message, one after the other.\<close>

lemma deliver_settles:
  "deliver opt dat i 1 3 w =
     (case attempt opt dat i 1 w of
        (Inr _, v1) \<Rightarrow> (Inr [Ack], v1)
      | (Inl _, v1) \<Rightarrow>
          (case attempt opt dat i 2 v1 of
             (Inr _, v2) \<Rightarrow> (Inr [Nak 5000, Ack], v2)
           | (Inl _, v2) \<Rightarrow>
               (case attempt opt dat i 3 v2 of
                  (Inr _, v3) \<Rightarrow> (Inr [Nak 5000, Nak 5000, Ack], v3)
                | (Inl e, v3) \<Rightarrow>
                    andThen (exhausted opt dat i 3 e) (\<lambda>_. ret [Nak 5000, Nak 5000, Term]) v3)))"
proof -
  obtain r1 v1 where a1: "attempt opt dat i 1 w = (r1, v1)" by fastforce
  obtain r2 v2 where a2: "attempt opt dat i 2 v1 = (r2, v2)" by fastforce
  obtain r3 v3 where a3: "attempt opt dat i 3 v2 = (r3, v3)" by fastforce
  have d: "deliver opt dat i 1 3 w = deliver opt dat i 1 (Suc 2) w" "deliver opt dat i 2 2 v1 = deliver opt dat i 2 (Suc 1) v1"
    by (simp_all add: numeral_2_eq_2 numeral_3_eq_3)
  have d3: "deliver opt dat i 3 (Suc 0) v2 = (case r3 of Inr _ \<Rightarrow> (Inr [Ack], v3)
      | Inl e \<Rightarrow> andThen (exhausted opt dat i 3 e) (\<lambda>_. ret [Term]) v3)"
    unfolding deliver_Suc a3 by (cases r3) simp_all
  have d2: "deliver opt dat i 2 2 v1 = (case r2 of Inr _ \<Rightarrow> (Inr [Ack], v2)
      | Inl e \<Rightarrow> andThen (deliver opt dat i 3 (Suc 0)) (\<lambda>ss. ret (Nak 5000 # ss)) v2)"
    using deliver_Suc [of opt dat i 2 1 v1] a2 d(2) by (cases r2) (simp_all del: deliver.simps)
  have d1: "deliver opt dat i 1 3 w = (case r1 of Inr _ \<Rightarrow> (Inr [Ack], v1)
      | Inl e \<Rightarrow> andThen (deliver opt dat i 2 2) (\<lambda>ss. ret (Nak 5000 # ss)) v1)"
    using deliver_Suc [of opt dat i 1 2 w] a1 d(1) by (cases r1) (simp_all del: deliver.simps flip: numeral_2_eq_2)
  show ?thesis
    unfolding a1 d1 using a2 a3 d2 d3
    by (simp add: andThen_def ret_def del: deliver.simps split: sum.split prod.split)
qed


end
