(* ===== verification/Ai_Gateway.thy ===== *)
theory Ai_Gateway
  imports Rules Nats
begin

text \<open>
  Publishing an AI task, \<open>src/modules/ai-gateway/ai-gateway.service.ts\<close>: the pipeline row, the rules and
  skills that apply, the two messages, and the message id kept on the row.
\<close>

record PublishAiTaskParams =
  pt_sessionId :: string
  pt_taskType :: PipelineTaskType
  pt_mode :: SessionMode
  pt_input :: json
  pt_triggeredBy :: "string option"
  pt_resumeFromCheckpoint :: "AgentType option"

record AiTaskReceipt =
  rc_pipelineExecutionId :: string
  rc_natsMessageId :: string

text \<open>The inner join of session and workflow; an empty organization id is refused like a missing one.\<close>

definition resolveOrgIdForSession :: "Session \<Rightarrow> string service" where
  "resolveOrgIdForSession session =
     andThen (\<lambda>w. orThrow (find_row se_id (se_id session) (sessionRows w)) (PlainError ''Unable to resolve orgId from session'') w) (\<lambda>s.
     andThen (\<lambda>w. orThrow (find_row wf_id (se_workflowId s) (workflowRows w)) (PlainError ''Unable to resolve orgId from session'') w) (\<lambda>x.
     andThen (check (wf_orgId x \<noteq> []) (PlainError ''Unable to resolve orgId from session'')) (\<lambda>_.
     ret (wf_orgId x))))"

definition getCorrelationId :: "world \<Rightarrow> string" where
  "getCorrelationId w = (case correlationId w of None \<Rightarrow> ''system'' | Some c \<Rightarrow> if c = [] then ''system'' else c)"

definition new_pipeline :: "PublishAiTaskParams \<Rightarrow> string \<Rightarrow> time \<Rightarrow> PipelineExecution" where
  "new_pipeline params i now =
     \<lparr>pe_id = i, pe_sessionId = pt_sessionId params, pe_taskType = pt_taskType params, pe_mode = pt_mode params,
      pe_status = PipelineStatus.PENDING, pe_inputPayload = pt_input params, pe_retryCount = 0,
      pe_lastCheckpointAgent = None, pe_triggeredBy = pt_triggeredBy params, pe_natsMessageId = None,
      pe_startedAt = None, pe_completedAt = None, pe_totalDurationMs = None, pe_totalLlmCalls = 0,
      pe_totalTokensConsumed = 0, pe_finalConfidence = None, pe_errorSummary = None,
      pe_createdAt = now, pe_archivedAt = None\<rparr>"

text \<open>Mandatory skills first, the most recently updated first within each group, fifty at most.\<close>

definition active_skills :: "string \<Rightarrow> world \<Rightarrow> Skill list" where
  "active_skills orgId w =
     take 50 (sort_desc (\<lambda>s. (sk_isMandatory s, sk_updatedAt s))
       (filter (\<lambda>s. sk_orgId s = orgId \<and> sk_isActive s) (skillRows w)))"

definition context_load_event :: "string \<Rightarrow> string \<Rightarrow> string \<Rightarrow> json list \<Rightarrow> string list \<Rightarrow> json" where
  "context_load_event correlation sessionId orgId rules skills =
     JObj [(''correlation_id'', JStr correlation), (''session_id'', JStr sessionId), (''org_id'', JStr orgId),
           (''active_rules'', JArr rules), (''skill_ids'', JArr (map JStr skills))]"

definition task_new_event :: "string \<Rightarrow> string \<Rightarrow> string \<Rightarrow> PublishAiTaskParams \<Rightarrow> json" where
  "task_new_event correlation orgId pipelineId params =
     obj [(''correlation_id'', Some (JStr correlation)), (''session_id'', Some (JStr (pt_sessionId params))),
          (''org_id'', Some (JStr orgId)), (''task_type'', Some (JStr (pipeline_task_type_str (pt_taskType params)))),
          (''mode'', Some (JStr (session_mode_str (pt_mode params)))), (''input'', Some (pt_input params)),
          (''pipeline_execution_id'', Some (JStr pipelineId)),
          (''resume_from_checkpoint'', map_option (\<lambda>a. JStr (agent_type_str a)) (pt_resumeFromCheckpoint params)),
          (''triggered_by'', if truthy (pt_triggeredBy params) then map_option JStr (pt_triggeredBy params) else None)]"

definition publishAiTask :: "PublishAiTaskParams \<Rightarrow> AiTaskReceipt service" where
  "publishAiTask params =
     andThen (\<lambda>w. orThrow (find_row se_id (pt_sessionId params) (sessionRows w))
       (PlainError ''Session not found when publishing ai task'') w) (\<lambda>session.
     andThen (resolveOrgIdForSession session) (\<lambda>orgId.
     andThen (reading getCorrelationId) (\<lambda>correlation.
     andThen new_id (\<lambda>i.
     andThen (reading (\<lambda>w. new_pipeline params i (clock w))) (\<lambda>execution.
     andThen (save_pipeline execution) (\<lambda>_.
     andThen (listActiveRulesForContext orgId (se_id session)) (\<lambda>rules.
     andThen (reading (active_skills orgId)) (\<lambda>skills.
     andThen (publishAiContextLoad correlation
       (context_load_event correlation (se_id session) orgId rules (map sk_id skills))) (\<lambda>_.
     andThen (publishAiTaskNew correlation i (task_new_event correlation orgId i params)) (\<lambda>_.
     let natsMessageId = correlation @ '':ai.tasks.new:'' @ i in
     andThen (save_pipeline (execution\<lparr>pe_natsMessageId := Some natsMessageId\<rparr>)) (\<lambda>_.
     ret \<lparr>rc_pipelineExecutionId = i, rc_natsMessageId = natsMessageId\<rparr>)))))))))))"

section \<open>What publishing leaves alone\<close>

lemma untouched_nats_publishers [untouched_intros]:
  "(\<And>w g. f (published_update g w) = f w) \<Longrightarrow> untouched f (publishAiTaskNew c i p)"
  "(\<And>w g. f (published_update g w) = f w) \<Longrightarrow> untouched f (publishAiContextLoad c p)"
  "(\<And>w g. f (published_update g w) = f w) \<Longrightarrow> untouched f (publishSessionFinalized e)"
  "(\<And>w g. f (published_update g w) = f w) \<Longrightarrow> untouched f (publishWorkflowUpdated u)"
  by (simp_all add: publish_defs untouched_intros)

lemma untouched_save_pipeline [untouched_intros]:
  "(\<And>w g. f (pipelineRows_update g w) = f w) \<Longrightarrow> untouched f (save_pipeline p)"
  by (simp add: untouched_def save_pipeline_def andThen_def constraint_run writing_def)

lemma untouched_resolveOrgId [untouched_intros]: "untouched f (resolveOrgIdForSession s)"
  unfolding resolveOrgIdForSession_def by (intro untouched_intros)

lemma untouched_getCachedActiveRules [untouched_intros]:
  "(\<And>w g. f (activeRuleCache_update g w) = f w) \<Longrightarrow> untouched f (getCachedActiveRules orgId)"
  by (auto simp: untouched_def getCachedActiveRules_def Let_def split: option.splits if_splits)

lemma untouched_listActiveRules [untouched_intros]:
  "(\<And>w g. f (activeRuleCache_update g w) = f w) \<Longrightarrow> untouched f (listActiveRulesForContext orgId sid)"
  unfolding listActiveRulesForContext_def getSessionContextRules_def by (intro untouched_intros)

lemma untouched_publishAiTask [untouched_intros]:
  assumes "\<And>w n. f (w\<lparr>idNext := n\<rparr>) = f w" "\<And>w g. f (pipelineRows_update g w) = f w"
    "\<And>w g. f (activeRuleCache_update g w) = f w" "\<And>w g. f (published_update g w) = f w"
  shows "untouched f (publishAiTask params)"
  unfolding publishAiTask_def Let_def by (intro untouched_intros assms)

end
