(* ===== verification/Session_Fsm.thy ===== *)
theory Session_Fsm
  imports Database
begin

text \<open>
  The session state machine, \<open>src/modules/sessions/session-fsm.ts\<close>: the transition table, the first
  matching rule (\<open>transitionSessionStatus\<close>), the reachability test of the admin override
  (\<open>canTransitionTo\<close>), and the runs of the machine.
\<close>

datatype SessionFsmEvent =
    FIRST_USER_MESSAGE
  | AI_TASK_PUBLISHED
  | AI_RESULT_RECEIVED
  | AI_QUESTION_RECEIVED
  | USER_ANSWER_POSTED
  | DIVERGENCE_DETECTED
  | DIVERGENCE_RESOLVED
  | ENTER_REVIEW
  | VALIDATE
  | EXPORT_COMPLETED
  | USER_FINALIZES
  | PIPELINE_ERROR
  | USER_DELETES

primrec session_fsm_event_str :: "SessionFsmEvent \<Rightarrow> string" where
  "session_fsm_event_str FIRST_USER_MESSAGE = ''first_user_message''"
| "session_fsm_event_str AI_TASK_PUBLISHED = ''ai_task_published''"
| "session_fsm_event_str AI_RESULT_RECEIVED = ''ai_result_received''"
| "session_fsm_event_str AI_QUESTION_RECEIVED = ''ai_question_received''"
| "session_fsm_event_str USER_ANSWER_POSTED = ''user_answer_posted''"
| "session_fsm_event_str DIVERGENCE_DETECTED = ''divergence_detected''"
| "session_fsm_event_str DIVERGENCE_RESOLVED = ''divergence_resolved''"
| "session_fsm_event_str ENTER_REVIEW = ''enter_review''"
| "session_fsm_event_str VALIDATE = ''validate''"
| "session_fsm_event_str EXPORT_COMPLETED = ''export_completed''"
| "session_fsm_event_str USER_FINALIZES = ''user_finalizes''"
| "session_fsm_event_str PIPELINE_ERROR = ''pipeline_error''"
| "session_fsm_event_str USER_DELETES = ''user_deletes''"

record TransitionRule =
  tr_from :: SessionStatus
  tr_event :: SessionFsmEvent
  tr_to :: SessionStatus
  tr_mode :: "SessionMode option"

definition rule_for :: "SessionStatus \<Rightarrow> SessionFsmEvent \<Rightarrow> SessionStatus \<Rightarrow> TransitionRule" where
  "rule_for f e t = \<lparr>tr_from = f, tr_event = e, tr_to = t, tr_mode = None\<rparr>"

definition SESSION_TRANSITIONS :: "TransitionRule list" where
  "SESSION_TRANSITIONS =
     [rule_for SessionStatus.CREATED FIRST_USER_MESSAGE SessionStatus.AWAITING_INPUT,
      rule_for SessionStatus.AWAITING_INPUT AI_TASK_PUBLISHED SessionStatus.PROCESSING,
      rule_for SessionStatus.PROCESSING AI_RESULT_RECEIVED SessionStatus.DRAFT_READY,
      \<lparr>tr_from = SessionStatus.PROCESSING, tr_event = AI_QUESTION_RECEIVED,
       tr_to = SessionStatus.IN_ELICITATION, tr_mode = Some SessionMode.INTERACTIVE\<rparr>,
      rule_for SessionStatus.IN_ELICITATION USER_ANSWER_POSTED SessionStatus.PROCESSING,
      rule_for SessionStatus.IN_ELICITATION AI_TASK_PUBLISHED SessionStatus.PROCESSING,
      rule_for SessionStatus.DRAFT_READY AI_TASK_PUBLISHED SessionStatus.PROCESSING,
      rule_for SessionStatus.DRAFT_READY AI_RESULT_RECEIVED SessionStatus.DRAFT_READY,
      rule_for SessionStatus.DRAFT_READY DIVERGENCE_DETECTED SessionStatus.NEEDS_RECONCILIATION,
      rule_for SessionStatus.NEEDS_RECONCILIATION DIVERGENCE_RESOLVED SessionStatus.DRAFT_READY,
      rule_for SessionStatus.DRAFT_READY ENTER_REVIEW SessionStatus.IN_REVIEW,
      rule_for SessionStatus.IN_REVIEW VALIDATE SessionStatus.VALIDATED,
      rule_for SessionStatus.VALIDATED EXPORT_COMPLETED SessionStatus.EXPORTED] @
     map (\<lambda>f. rule_for f USER_FINALIZES SessionStatus.DRAFT_READY)
       [SessionStatus.CREATED, SessionStatus.AWAITING_INPUT, SessionStatus.PROCESSING,
        SessionStatus.IN_ELICITATION, SessionStatus.DRAFT_READY, SessionStatus.NEEDS_RECONCILIATION,
        SessionStatus.IN_REVIEW] @
     map (\<lambda>f. rule_for f PIPELINE_ERROR SessionStatus.ERROR) (Enum.enum :: SessionStatus list) @
     map (\<lambda>f. rule_for f USER_DELETES SessionStatus.ARCHIVED) (Enum.enum :: SessionStatus list)"

definition transitionSessionStatus ::
  "SessionStatus \<Rightarrow> SessionFsmEvent \<Rightarrow> SessionMode option \<Rightarrow> error + SessionStatus" where
  "transitionSessionStatus f e mode =
     (case find (\<lambda>c. tr_from c = f \<and> tr_event c = e \<and> (tr_mode c = None \<or> tr_mode c = mode)) SESSION_TRANSITIONS of
        None \<Rightarrow> Inl (UnprocessableEntityException (JStr (''Invalid session transition: '' @ session_status_str f @
                  '' + '' @ session_fsm_event_str e)))
      | Some r \<Rightarrow> Inr (tr_to r))"

definition canTransitionTo :: "SessionStatus \<Rightarrow> SessionStatus \<Rightarrow> SessionMode option \<Rightarrow> bool" where
  "canTransitionTo f t mode \<longleftrightarrow>
     (\<exists>c \<in> set SESSION_TRANSITIONS. tr_from c = f \<and> tr_to c = t \<and> (tr_mode c = None \<or> tr_mode c = mode))"

section \<open>Runs of a partial machine\<close>

text \<open>A run is a list of events; a mode change between two events is part of the event.\<close>

inductive run :: "('s \<Rightarrow> 'e \<Rightarrow> 'x + 's) \<Rightarrow> 's \<Rightarrow> 'e list \<Rightarrow> 's \<Rightarrow> bool" for nxt where
  stop: "run nxt s [] s"
| step: "nxt s e = Inr t \<Longrightarrow> run nxt t es u \<Longrightarrow> run nxt s (e # es) u"

inductive_cases run_ConsE: "run nxt s (e # es) u"
inductive_cases run_NilE: "run nxt s [] u"
inductive_simps fsm_run_simps: "run nxt s [] u" "run nxt s (e # es) u"

lemma run_append: "run nxt s es t \<Longrightarrow> run nxt t fs u \<Longrightarrow> run nxt s (es @ fs) u"
  by (induction rule: run.induct) (auto intro: run.step)

text \<open>A set of states the machine never leaves.\<close>

locale trap =
  fixes nxt :: "'s \<Rightarrow> 'e \<Rightarrow> 'x + 's" and T :: "'s set"
  assumes closed: "s \<in> T \<Longrightarrow> nxt s e = Inr t \<Longrightarrow> t \<in> T"
begin

lemma run_stays: "run nxt s es t \<Longrightarrow> s \<in> T \<Longrightarrow> t \<in> T"
  by (induction rule: run.induct) (auto dest: closed)

end

text \<open>A state that is entered only from one other state: every run that ends there passes the gate.\<close>

locale gate =
  fixes nxt :: "'s \<Rightarrow> 'e \<Rightarrow> 'x + 's" and g target :: 's
  assumes only: "nxt s e = Inr target \<Longrightarrow> s = g"
begin

lemma run_passes:
  "run nxt s es t \<Longrightarrow> t = target \<Longrightarrow> s \<noteq> target \<Longrightarrow>
     \<exists>fs hs. es = fs @ hs \<and> hs \<noteq> [] \<and> run nxt s fs g \<and> run nxt g hs target"
proof (induction rule: run.induct)
  case (step s e t es u)
  show ?case
  proof (cases "t = target")
    case True
    then have "s = g" using only step.hyps(1) by blast
    then show ?thesis using step.hyps step.prems(1) run.step run.stop
      by (intro exI [of _ "[]"] exI [of _ "e # es"]) auto
  next
    case False
    then obtain fs hs where "es = fs @ hs" "hs \<noteq> []" "run nxt t fs g" "run nxt g hs target"
      using step.IH step.prems(1) by blast
    then show ?thesis using step.hyps(1) run.step by (intro exI [of _ "e # fs"] exI [of _ hs]) auto
  qed
qed simp

end

section \<open>The session machine\<close>

definition session_next :: "SessionStatus \<Rightarrow> SessionFsmEvent \<times> SessionMode option \<Rightarrow> error + SessionStatus" where
  "session_next s em = transitionSessionStatus s (fst em) (snd em)"

lemma enum_SessionStatus: "(Enum.enum :: SessionStatus list) =
    [SessionStatus.CREATED, SessionStatus.AWAITING_INPUT, SessionStatus.PROCESSING, SessionStatus.DRAFT_READY,
     SessionStatus.NEEDS_RECONCILIATION, SessionStatus.IN_ELICITATION, SessionStatus.IN_REVIEW,
     SessionStatus.VALIDATED, SessionStatus.EXPORTED, SessionStatus.ARCHIVED, SessionStatus.ERROR]"
  by (simp add: enum_SessionStatus_def)

lemmas fsm_defs = transitionSessionStatus_def SESSION_TRANSITIONS_def rule_for_def enum_SessionStatus

text \<open>The machine as a table: one line per event.\<close>

lemma transition_table:
  "transitionSessionStatus s FIRST_USER_MESSAGE m = Inr t \<longleftrightarrow> s = SessionStatus.CREATED \<and> t = SessionStatus.AWAITING_INPUT"
  "transitionSessionStatus s AI_TASK_PUBLISHED m = Inr t \<longleftrightarrow>
     s \<in> {SessionStatus.AWAITING_INPUT, SessionStatus.IN_ELICITATION, SessionStatus.DRAFT_READY} \<and> t = SessionStatus.PROCESSING"
  "transitionSessionStatus s AI_RESULT_RECEIVED m = Inr t \<longleftrightarrow>
     s \<in> {SessionStatus.PROCESSING, SessionStatus.DRAFT_READY} \<and> t = SessionStatus.DRAFT_READY"
  "transitionSessionStatus s AI_QUESTION_RECEIVED m = Inr t \<longleftrightarrow>
     s = SessionStatus.PROCESSING \<and> m = Some SessionMode.INTERACTIVE \<and> t = SessionStatus.IN_ELICITATION"
  "transitionSessionStatus s USER_ANSWER_POSTED m = Inr t \<longleftrightarrow> s = SessionStatus.IN_ELICITATION \<and> t = SessionStatus.PROCESSING"
  "transitionSessionStatus s DIVERGENCE_DETECTED m = Inr t \<longleftrightarrow> s = SessionStatus.DRAFT_READY \<and> t = SessionStatus.NEEDS_RECONCILIATION"
  "transitionSessionStatus s DIVERGENCE_RESOLVED m = Inr t \<longleftrightarrow> s = SessionStatus.NEEDS_RECONCILIATION \<and> t = SessionStatus.DRAFT_READY"
  "transitionSessionStatus s ENTER_REVIEW m = Inr t \<longleftrightarrow> s = SessionStatus.DRAFT_READY \<and> t = SessionStatus.IN_REVIEW"
  "transitionSessionStatus s VALIDATE m = Inr t \<longleftrightarrow> s = SessionStatus.IN_REVIEW \<and> t = SessionStatus.VALIDATED"
  "transitionSessionStatus s EXPORT_COMPLETED m = Inr t \<longleftrightarrow> s = SessionStatus.VALIDATED \<and> t = SessionStatus.EXPORTED"
  "transitionSessionStatus s USER_FINALIZES m = Inr t \<longleftrightarrow>
     s \<notin> {SessionStatus.VALIDATED, SessionStatus.EXPORTED, SessionStatus.ARCHIVED, SessionStatus.ERROR} \<and> t = SessionStatus.DRAFT_READY"
  "transitionSessionStatus s PIPELINE_ERROR m = Inr t \<longleftrightarrow> t = SessionStatus.ERROR"
  "transitionSessionStatus s USER_DELETES m = Inr t \<longleftrightarrow> t = SessionStatus.ARCHIVED"
  by (cases s; auto simp: fsm_defs)+

lemma only_into_validated: "transitionSessionStatus s e m = Inr SessionStatus.VALIDATED \<Longrightarrow> s = SessionStatus.IN_REVIEW"
  by (cases e) (auto simp: transition_table)

lemma only_into_exported: "transitionSessionStatus s e m = Inr SessionStatus.EXPORTED \<Longrightarrow> s = SessionStatus.VALIDATED"
  by (cases e) (auto simp: transition_table)

lemma dead_end: "s \<in> {SessionStatus.ERROR, SessionStatus.ARCHIVED} \<Longrightarrow> transitionSessionStatus s e m = Inr t \<Longrightarrow>
    t \<in> {SessionStatus.ERROR, SessionStatus.ARCHIVED}"
  by (cases e) (auto simp: transition_table)

interpretation validated: gate session_next SessionStatus.IN_REVIEW SessionStatus.VALIDATED
  by unfold_locales (simp add: session_next_def only_into_validated)

interpretation exported: gate session_next SessionStatus.VALIDATED SessionStatus.EXPORTED
  by unfold_locales (simp add: session_next_def only_into_exported)

interpretation closed: trap session_next "{SessionStatus.ERROR, SessionStatus.ARCHIVED}"
  by unfold_locales (simp only: session_next_def, rule dead_end)

text \<open>No rule of the table is shadowed by an earlier one.\<close>

lemma every_rule_fires:
  "\<forall>c \<in> set SESSION_TRANSITIONS. (tr_mode c = None \<or> tr_mode c = m) \<longrightarrow>
     transitionSessionStatus (tr_from c) (tr_event c) m = Inr (tr_to c)"
  by (simp add: SESSION_TRANSITIONS_def rule_for_def enum_SessionStatus transition_table)

section \<open>Properties\<close>

text \<open>The admin override's test and the machine agree: a status can be forced without the \<open>force\<close> flag
exactly when some event leads there in the session's mode.\<close>

theorem canTransitionTo_iff_event:
  "canTransitionTo s t m \<longleftrightarrow> (\<exists>e. transitionSessionStatus s e m = Inr t)"
proof
  assume "canTransitionTo s t m"
  then obtain c where c: "c \<in> set SESSION_TRANSITIONS" "tr_from c = s" "tr_to c = t" "tr_mode c = None \<or> tr_mode c = m"
    unfolding canTransitionTo_def by blast
  then show "\<exists>e. transitionSessionStatus s e m = Inr t" using every_rule_fires [of m] by metis
next
  assume "\<exists>e. transitionSessionStatus s e m = Inr t"
  then obtain e c where "find (\<lambda>d. tr_from d = s \<and> tr_event d = e \<and> (tr_mode d = None \<or> tr_mode d = m)) SESSION_TRANSITIONS = Some c"
    "tr_to c = t"
    unfolding transitionSessionStatus_def by (auto split: option.splits)
  then show "canTransitionTo s t m" using find_Some_set [of _ SESSION_TRANSITIONS c] unfolding canTransitionTo_def by blast
qed

text \<open>Nothing is exported that was not reviewed and validated: any sequence of events and mode changes that
takes a session from a status before validation to EXPORTED first takes it to IN_REVIEW, from there to
VALIDATED, and from there to EXPORTED.\<close>

theorem export_requires_review:
  assumes "run session_next s es SessionStatus.EXPORTED" "s \<notin> {SessionStatus.EXPORTED, SessionStatus.VALIDATED}"
  shows "\<exists>fs gs hs. es = fs @ gs @ hs \<and> gs \<noteq> [] \<and> hs \<noteq> [] \<and> run session_next s fs SessionStatus.IN_REVIEW \<and>
     run session_next SessionStatus.IN_REVIEW gs SessionStatus.VALIDATED \<and>
     run session_next SessionStatus.VALIDATED hs SessionStatus.EXPORTED"
proof -
  obtain fs hs where e: "es = fs @ hs" "hs \<noteq> []" "run session_next s fs SessionStatus.VALIDATED"
    "run session_next SessionStatus.VALIDATED hs SessionStatus.EXPORTED"
    using exported.run_passes [OF assms(1)] assms(2) by auto
  obtain fs1 fs2 where "fs = fs1 @ fs2" "fs2 \<noteq> []" "run session_next s fs1 SessionStatus.IN_REVIEW"
    "run session_next SessionStatus.IN_REVIEW fs2 SessionStatus.VALIDATED"
    using validated.run_passes [OF e(3)] assms(2) by auto
  then show ?thesis using e by (metis append.assoc)
qed

lemma export_path: "run session_next SessionStatus.CREATED
    [(USER_FINALIZES, None), (ENTER_REVIEW, None), (VALIDATE, None), (EXPORT_COMPLETED, None)] SessionStatus.EXPORTED"
  by (simp add: fsm_run_simps session_next_def transition_table)

theorem export_requires_review_witness:
  "\<exists>fs gs hs. [(USER_FINALIZES, None), (ENTER_REVIEW, None), (VALIDATE, None), (EXPORT_COMPLETED, None)] = fs @ gs @ hs \<and>
     gs \<noteq> [] \<and> hs \<noteq> [] \<and> run session_next SessionStatus.CREATED fs SessionStatus.IN_REVIEW"
  using export_requires_review [OF export_path] by blast

text \<open>ERROR and ARCHIVED are final up to each other: from every status both are one event away, and no
sequence of events leads from them to any other status - a session that failed once can only be archived.\<close>

theorem error_and_archive_are_final:
  "transitionSessionStatus s PIPELINE_ERROR m = Inr SessionStatus.ERROR \<and>
   transitionSessionStatus s USER_DELETES m = Inr SessionStatus.ARCHIVED \<and>
   {t. \<exists>es. run session_next SessionStatus.ERROR es t} = {SessionStatus.ERROR, SessionStatus.ARCHIVED} \<and>
   {t. \<exists>es. run session_next SessionStatus.ARCHIVED es t} = {SessionStatus.ERROR, SessionStatus.ARCHIVED}"
proof -
  have "run session_next u [(PIPELINE_ERROR, None)] SessionStatus.ERROR"
    "run session_next u [(USER_DELETES, None)] SessionStatus.ARCHIVED" for u
    by (simp_all add: fsm_run_simps session_next_def transition_table)
  note reach = this
  have "t \<in> {SessionStatus.ERROR, SessionStatus.ARCHIVED}"
    if "run session_next u es t" "u \<in> {SessionStatus.ERROR, SessionStatus.ARCHIVED}" for u es t
    using closed.run_stays that by blast
  then have "{t. \<exists>es. run session_next u es t} = {SessionStatus.ERROR, SessionStatus.ARCHIVED}"
    if "u \<in> {SessionStatus.ERROR, SessionStatus.ARCHIVED}" for u
    using reach that by blast
  then show ?thesis by (simp add: transition_table)
qed

end
