(* ===== verification/Sessions.thy ===== *)
theory Sessions
  imports Ai_Gateway Session_Fsm
begin

text \<open>
  Elicitation sessions: \<open>src/modules/sessions/sessions.service.ts\<close> and the guard in front of it,
  \<open>session-org.guard.ts\<close>. Every operation is the whole method: lookup in the caller's organization,
  permission, transition, row, audit entry, messages.
\<close>

record CreateSessionDto =
  cs_workflowId :: string
  cs_mode :: SessionMode

record UpdateSessionStatusDto =
  us_status :: SessionStatus
  us_reason :: string
  us_force :: "bool option"

definition findWorkflowInOrgOrThrow :: "string \<Rightarrow> string \<Rightarrow> string \<Rightarrow> Workflow service" where
  "findWorkflowInOrgOrThrow workflowId orgId message w =
     orThrow (find (\<lambda>x. wf_id x = workflowId \<and> wf_orgId x = orgId) (workflowRows w))
       (NotFoundException (JStr message)) w"

definition findSessionInOrgOrThrow :: "string \<Rightarrow> string \<Rightarrow> Session service" where
  "findSessionInOrgOrThrow sessionId orgId =
     andThen (\<lambda>w. orThrow (find_row se_id sessionId (sessionRows w)) (NotFoundException (JStr ''Session not found'')) w) (\<lambda>session.
     andThen (findWorkflowInOrgOrThrow (se_workflowId session) orgId ''Session not found'') (\<lambda>_.
     ret session))"

definition findLatestWorkflowVersion :: "string \<Rightarrow> world \<Rightarrow> WorkflowVersion option" where
  "findLatestWorkflowVersion workflowId w =
     max_by wv_versionNumber (filter (\<lambda>v. wv_workflowId v = workflowId) (versionRows w))"

definition assertOwnerOrAdmin :: "Session \<Rightarrow> RequestUser \<Rightarrow> unit service" where
  "assertOwnerOrAdmin session caller =
     check (rq_role caller = ''admin'' \<or> se_userId session = rq_id caller)
       (ForbiddenException (JStr ''Only the session owner or an admin can manage this session''))"

definition assertAdmin :: "RequestUser \<Rightarrow> unit service" where
  "assertAdmin caller = check (rq_role caller = ''admin'') (ForbiddenException (JStr ''Admin role is required''))"

definition pipelineProgress :: "PipelineStatus \<Rightarrow> int" where
  "pipelineProgress status =
     (if status = PipelineStatus.COMPLETED then 100
      else if status = PipelineStatus.RUNNING then 50
      else if status = PipelineStatus.PAUSED then 50
      else if status = PipelineStatus.FAILED \<or> status = PipelineStatus.CANCELLED then 100
      else 0)"

definition sessionAudit :: "string \<Rightarrow> string \<Rightarrow> string \<Rightarrow> json option \<Rightarrow> json option \<Rightarrow> AuditLog service" where
  "sessionAudit workflowId actorId eventType before after =
     audit_log (audit_entry (Some workflowId) (Some actorId) ActorType.USER eventType None before after)"

definition date_json :: "time option \<Rightarrow> json" where
  "date_json d = (case d of None \<Rightarrow> JNull | Some t \<Rightarrow> JStr (toISOString t))"

definition serializeSession :: "Session \<Rightarrow> json" where
  "serializeSession session =
     JObj [(''id'', JStr (se_id session)), (''workflowId'', JStr (se_workflowId session)),
           (''userId'', JStr (se_userId session)), (''mode'', JStr (session_mode_str (se_mode session))),
           (''status'', JStr (session_status_str (se_status session))),
           (''confidenceScore'', JNum (se_confidenceScore session)),
           (''createdAt'', JStr (toISOString (se_createdAt session))),
           (''finalizedAt'', date_json (se_finalizedAt session)), (''archivedAt'', date_json (se_archivedAt session))]"

section \<open>Operations\<close>

definition new_session :: "CreateSessionDto \<Rightarrow> RequestUser \<Rightarrow> string \<Rightarrow> time \<Rightarrow> Session" where
  "new_session dto caller i now =
     \<lparr>se_id = i, se_workflowId = cs_workflowId dto, se_userId = rq_id caller, se_mode = cs_mode dto,
      se_status = SessionStatus.CREATED, se_confidenceScore = ''0'', se_createdAt = now, se_finalizedAt = None,
      se_archivedAt = None\<rparr>"

text \<open>\<open>save\<close> of an entity without an id is an INSERT: the database gives the id, a duplicate is refused.\<close>

definition insert_session :: "Session \<Rightarrow> unit service" where
  "insert_session s w =
     andThen (constraint (se_id s \<notin> se_id ` set (sessionRows w)) ''session_pkey'') (\<lambda>_.
     andThen (constraint (workflowExists (se_workflowId s) w) ''session_workflow_id_fkey'') (\<lambda>_.
     writing (sessionRows_update (\<lambda>rs. rs @ [s])))) w"

definition createSession :: "CreateSessionDto \<Rightarrow> RequestUser \<Rightarrow> json service" where
  "createSession dto caller =
     andThen (findWorkflowInOrgOrThrow (cs_workflowId dto) (rq_orgId caller) ''Workflow not found'') (\<lambda>workflow.
     andThen new_id (\<lambda>i.
     andThen (reading (\<lambda>w. new_session dto caller i (clock w))) (\<lambda>session.
     andThen (insert_session session) (\<lambda>_. ret (serializeSession session)))))"

definition getSession :: "string \<Rightarrow> RequestUser \<Rightarrow> json service" where
  "getSession sessionId caller =
     andThen (findSessionInOrgOrThrow sessionId (rq_orgId caller)) (\<lambda>session. ret (serializeSession session))"

definition getSessionByWorkflowId :: "string \<Rightarrow> RequestUser \<Rightarrow> json service" where
  "getSessionByWorkflowId workflowId caller =
     andThen (findWorkflowInOrgOrThrow workflowId (rq_orgId caller) ''Workflow not found'') (\<lambda>_.
     andThen (\<lambda>w. orThrow (max_by se_createdAt (filter (\<lambda>s. se_workflowId s = workflowId) (sessionRows w)))
       (NotFoundException (JStr (''No session found for workflow '' @ workflowId))) w) (\<lambda>session.
     ret (serializeSession session)))"

definition updateMode :: "string \<Rightarrow> SessionMode \<Rightarrow> RequestUser \<Rightarrow> json service" where
  "updateMode sessionId mode caller =
     andThen (findSessionInOrgOrThrow sessionId (rq_orgId caller)) (\<lambda>session.
     andThen (assertOwnerOrAdmin session caller) (\<lambda>_.
     if se_mode session = mode then ret (serializeSession session)
     else let saved = session\<lparr>se_mode := mode\<rparr> in
       andThen (save_session saved) (\<lambda>_.
       andThen (sessionAudit (se_workflowId session) (rq_id caller) ''SESSION_MODE_UPDATED''
         (Some (JObj [(''mode'', JStr (session_mode_str (se_mode session)))]))
         (Some (JObj [(''mode'', JStr (session_mode_str mode))]))) (\<lambda>_.
       ret (serializeSession saved)))))"

definition status_json :: "SessionStatus \<Rightarrow> json" where
  "status_json s = JObj [(''status'', JStr (session_status_str s))]"

definition finalized_event :: "Session \<Rightarrow> WorkflowVersion option \<Rightarrow> SessionFinalizedEvent" where
  "finalized_event saved latest =
     \<lparr>sf_session_id = se_id saved, sf_workflow_id = se_workflowId saved,
      sf_final_version_number = (case latest of None \<Rightarrow> 0 | Some v \<Rightarrow> wv_versionNumber v),
      sf_final_confidence = se_confidenceScore saved,
      sf_finalized_at = (case se_finalizedAt saved of None \<Rightarrow> [] | Some t \<Rightarrow> toISOString t)\<rparr>"

definition finalize :: "string \<Rightarrow> RequestUser \<Rightarrow> json service" where
  "finalize sessionId caller =
     andThen (findSessionInOrgOrThrow sessionId (rq_orgId caller)) (\<lambda>session.
     andThen (assertOwnerOrAdmin session caller) (\<lambda>_.
     andThen (findWorkflowInOrgOrThrow (se_workflowId session) (rq_orgId caller) ''Workflow not found'') (\<lambda>_.
     andThen (liftSum (transitionSessionStatus (se_status session) USER_FINALIZES (Some (se_mode session)))) (\<lambda>status.
     andThen (reading (\<lambda>w. session\<lparr>se_status := status, se_finalizedAt := Some (new_Date w)\<rparr>)) (\<lambda>saved.
     andThen (save_session saved) (\<lambda>_.
     andThen (reading (findLatestWorkflowVersion (se_workflowId session))) (\<lambda>latest.
     andThen (sessionAudit (se_workflowId session) (rq_id caller) ''SESSION_FINALIZED''
       (Some (status_json (se_status session)))
       (Some (JObj [(''status'', JStr (session_status_str status)), (''finalized_at'', date_json (se_finalizedAt saved))]))) (\<lambda>_.
     andThen (publishSessionFinalized (finalized_event saved latest)) (\<lambda>_.
     ret (serializeSession saved))))))))))"

definition getWorkflowState :: "string \<Rightarrow> RequestUser \<Rightarrow> json service" where
  "getWorkflowState sessionId caller =
     andThen (findSessionInOrgOrThrow sessionId (rq_orgId caller)) (\<lambda>session.
     andThen (reading (findLatestWorkflowVersion (se_workflowId session))) (\<lambda>latest.
     ret (JObj [(''sessionId'', JStr (se_id session)), (''workflowId'', JStr (se_workflowId session)),
       (''versionNumber'', case latest of None \<Rightarrow> JNull | Some v \<Rightarrow> json_int (wv_versionNumber v)),
       (''elementsJson'', case latest of None \<Rightarrow> JNull | Some v \<Rightarrow> wv_elementsJson v)])))"

definition getProgress :: "string \<Rightarrow> RequestUser \<Rightarrow> json service" where
  "getProgress sessionId caller =
     andThen (findSessionInOrgOrThrow sessionId (rq_orgId caller)) (\<lambda>session.
     andThen (reading (\<lambda>w. max_by pe_createdAt (filter (\<lambda>p. pe_sessionId p = se_id session) (pipelineRows w)))) (\<lambda>latest.
     ret (JObj [
       (''current_agent'', case latest of None \<Rightarrow> JNull
          | Some p \<Rightarrow> (case pe_lastCheckpointAgent p of None \<Rightarrow> JNull | Some a \<Rightarrow> JStr (agent_type_str a))),
       (''progress_pct'', json_int (case latest of None \<Rightarrow> 0 | Some p \<Rightarrow> pipelineProgress (pe_status p))),
       (''overall_confidence'', JNum (case latest of None \<Rightarrow> se_confidenceScore session
          | Some p \<Rightarrow> (case pe_finalConfidence p of None \<Rightarrow> se_confidenceScore session | Some c \<Rightarrow> c)))])))"

text \<open>The status a dispatched task puts the session in.\<close>

definition dispatched_status :: "Session \<Rightarrow> error + SessionStatus option" where
  "dispatched_status session =
     (if se_status session = SessionStatus.CREATED
      then (case transitionSessionStatus (se_status session) FIRST_USER_MESSAGE (Some (se_mode session)) of
              Inl e \<Rightarrow> Inl e
            | Inr s \<Rightarrow> (case transitionSessionStatus s AI_TASK_PUBLISHED (Some (se_mode session)) of
                Inl e \<Rightarrow> Inl e | Inr t \<Rightarrow> Inr (Some t)))
      else if se_status session = SessionStatus.AWAITING_INPUT \<or> se_status session = SessionStatus.IN_ELICITATION
      then (case transitionSessionStatus (se_status session) AI_TASK_PUBLISHED (Some (se_mode session)) of
              Inl e \<Rightarrow> Inl e | Inr t \<Rightarrow> Inr (Some t))
      else Inr None)"

definition dispatchAiTask ::
  "string \<Rightarrow> json \<Rightarrow> RequestUser \<Rightarrow> PipelineTaskType option \<Rightarrow> AgentType option \<Rightarrow> AiTaskReceipt service" where
  "dispatchAiTask sessionId input caller taskType resumeFromCheckpoint =
     andThen (findSessionInOrgOrThrow sessionId (rq_orgId caller)) (\<lambda>session.
     andThen (assertOwnerOrAdmin session caller) (\<lambda>_.
     let task = (case taskType of None \<Rightarrow> PipelineTaskType.FULL_PIPELINE | Some t \<Rightarrow> t) in
     andThen (publishAiTask \<lparr>pt_sessionId = se_id session, pt_taskType = task, pt_mode = se_mode session,
       pt_input = input, pt_triggeredBy = Some (rq_id caller), pt_resumeFromCheckpoint = resumeFromCheckpoint\<rparr>) (\<lambda>result.
     andThen (liftSum (dispatched_status session)) (\<lambda>status.
     andThen (case status of None \<Rightarrow> ret () | Some s \<Rightarrow> save_session (session\<lparr>se_status := s\<rparr>)) (\<lambda>_.
     andThen (sessionAudit (se_workflowId session) (rq_id caller) ''AI_TASK_DISPATCHED'' None
       (Some (JObj [(''pipeline_execution_id'', JStr (rc_pipelineExecutionId result)),
                    (''task_type'', JStr (pipeline_task_type_str task)),
                    (''nats_message_id'', JStr (rc_natsMessageId result))]))) (\<lambda>_.
     ret result))))))"

definition archive_rows :: "string \<Rightarrow> time \<Rightarrow> world \<Rightarrow> world" where
  "archive_rows sessionId t w =
     w\<lparr>messageRows := map (\<lambda>m. if me_sessionId m = sessionId then m\<lparr>me_archivedAt := Some t\<rparr> else m) (messageRows w),
       documentRows := map (\<lambda>d. if do_sessionId d = Some sessionId then d\<lparr>do_archivedAt := Some t\<rparr> else d) (documentRows w),
       pipelineRows := map (\<lambda>p. if pe_sessionId p = sessionId then p\<lparr>pe_archivedAt := Some t\<rparr> else p) (pipelineRows w)\<rparr>"

definition archive :: "string \<Rightarrow> RequestUser \<Rightarrow> json service" where
  "archive sessionId caller =
     andThen (findSessionInOrgOrThrow sessionId (rq_orgId caller)) (\<lambda>session.
     andThen (assertOwnerOrAdmin session caller) (\<lambda>_.
     andThen (liftSum (transitionSessionStatus (se_status session) USER_DELETES (Some (se_mode session)))) (\<lambda>status.
     andThen (reading new_Date) (\<lambda>now.
     let saved = session\<lparr>se_status := status, se_archivedAt := Some now\<rparr> in
     andThen (save_session saved) (\<lambda>_.
     andThen (writing (archive_rows (se_id session) now)) (\<lambda>_.
     andThen (sessionAudit (se_workflowId session) (rq_id caller) ''SESSION_ARCHIVED''
       (Some (status_json (se_status session)))
       (Some (JObj [(''status'', JStr (session_status_str status)), (''archived_at'', date_json (se_archivedAt saved))]))) (\<lambda>_.
     ret (serializeSession saved))))))))"

definition overridden :: "UpdateSessionStatusDto \<Rightarrow> time \<Rightarrow> Session \<Rightarrow> Session" where
  "overridden dto now session =
     (let s = session\<lparr>se_status := us_status dto\<rparr>;
          s = (if us_status dto = SessionStatus.ARCHIVED then s\<lparr>se_archivedAt := Some now\<rparr> else s)
      in if us_status dto = SessionStatus.DRAFT_READY \<and> se_finalizedAt s = None then s\<lparr>se_finalizedAt := Some now\<rparr> else s)"

definition overrideStatus :: "string \<Rightarrow> UpdateSessionStatusDto \<Rightarrow> RequestUser \<Rightarrow> json service" where
  "overrideStatus sessionId dto caller =
     andThen (assertAdmin caller) (\<lambda>_.
     andThen (findSessionInOrgOrThrow sessionId (rq_orgId caller)) (\<lambda>session.
     andThen (check (us_force dto = Some True \<or> canTransitionTo (se_status session) (us_status dto) (Some (se_mode session)))
       (ConflictException (JStr ''Target status violates the session FSM''))) (\<lambda>_.
     andThen (reading (\<lambda>w. overridden dto (new_Date w) session)) (\<lambda>saved.
     andThen (save_session saved) (\<lambda>_.
     andThen (unless (se_status saved \<noteq> SessionStatus.NEEDS_RECONCILIATION)
       (emitNeedsReconciliation (se_id saved) [] ''0'')) (\<lambda>_.
     andThen (sessionAudit (se_workflowId session) (rq_id caller) ''SESSION_STATUS_OVERRIDDEN''
       (Some (status_json (se_status session)))
       (Some (JObj [(''status'', JStr (session_status_str (se_status saved))), (''reason'', JStr (us_reason dto)),
                    (''force'', JBool (us_force dto = Some True))]))) (\<lambda>_.
     ret (serializeSession saved))))))))"

section \<open>The guard of the session routes\<close>

text \<open>
  \<open>isUUID\<close> is the validator's test. In the malformed case the code evaluates
  \<open>new require('@nestjs/common').BadRequestException(...)\<close>: \<open>new\<close> binds to \<open>require(...)\<close>, which returns
  the module, and the exception class is then called without \<open>new\<close> - a \<open>TypeError\<close>.
\<close>

definition sessionOrgGuard :: "(string \<Rightarrow> bool) \<Rightarrow> RequestUser option \<Rightarrow> string option \<Rightarrow> bool service" where
  "sessionOrgGuard isUUID caller sessionId =
     andThen (orThrow (case caller of None \<Rightarrow> None | Some c \<Rightarrow> if rq_orgId c = [] then None else Some c)
       (ForbiddenException (JStr ''Organization scope is required''))) (\<lambda>c.
     case sessionId of None \<Rightarrow> ret True | Some sid \<Rightarrow>
     if sid = [] then ret True
     else andThen (check (isUUID sid) (TypeError ''Class constructor BadRequestException cannot be invoked without new'')) (\<lambda>_.
       andThen (\<lambda>w. orThrow (find_row se_id sid (sessionRows w)) (NotFoundException (JStr ''Session not found'')) w) (\<lambda>session.
       andThen (\<lambda>w. orThrow (find (\<lambda>x. wf_id x = se_workflowId session \<and> wf_orgId x = rq_orgId c) (workflowRows w))
         (NotFoundException (JStr ''Session not found'')) w) (\<lambda>_.
       ret True))))"

end
