(* ===== verification/Sessions_Correct.thy ===== *)
theory Sessions_Correct
  imports Sessions
begin

text \<open>
  What the session operations guarantee: callers of another organization see and change nothing, only the
  owner or an admin manages a session, every status change of an unforced operation is a run of the state
  machine, and the exact effect of finalizing, archiving and dispatching.
\<close>

section \<open>Commands\<close>

datatype SessionCommand =
    Create CreateSessionDto
  | Get string
  | Mode string SessionMode
  | Finalize string
  | WorkflowState string
  | Progress string
  | Dispatch string json "PipelineTaskType option" "AgentType option"
  | Archive string
  | Override string UpdateSessionStatusDto

fun perform :: "SessionCommand \<Rightarrow> RequestUser \<Rightarrow> unit service" where
  "perform (Create dto) caller = forget (createSession dto caller)"
| "perform (Get sid) caller = forget (getSession sid caller)"
| "perform (Mode sid m) caller = forget (updateMode sid m caller)"
| "perform (Finalize sid) caller = forget (finalize sid caller)"
| "perform (WorkflowState sid) caller = forget (getWorkflowState sid caller)"
| "perform (Progress sid) caller = forget (getProgress sid caller)"
| "perform (Dispatch sid input tt rf) caller = forget (dispatchAiTask sid input caller tt rf)"
| "perform (Archive sid) caller = forget (archive sid caller)"
| "perform (Override sid dto) caller = forget (overrideStatus sid dto caller)"

fun perform_all :: "(SessionCommand \<times> RequestUser) list \<Rightarrow> world \<Rightarrow> world" where
  "perform_all [] w = w"
| "perform_all ((c, u) # cs) w = perform_all cs (snd (perform c u w))"

fun command_session :: "SessionCommand \<Rightarrow> string option" where
  "command_session (Create dto) = None"
| "command_session (Get sid) = Some sid"
| "command_session (Mode sid m) = Some sid"
| "command_session (Finalize sid) = Some sid"
| "command_session (WorkflowState sid) = Some sid"
| "command_session (Progress sid) = Some sid"
| "command_session (Dispatch sid input tt rf) = Some sid"
| "command_session (Archive sid) = Some sid"
| "command_session (Override sid dto) = Some sid"

fun manages :: "SessionCommand \<Rightarrow> bool" where
  "manages (Mode sid m) = True"
| "manages (Finalize sid) = True"
| "manages (Dispatch sid input tt rf) = True"
| "manages (Archive sid) = True"
| "manages _ = False"

fun forced :: "SessionCommand \<Rightarrow> bool" where
  "forced (Override sid dto) = (us_force dto = Some True)"
| "forced _ = False"

section \<open>Who may do what\<close>

text \<open>The session as a caller sees it: its row, when its workflow is in the caller's organization.\<close>

definition visible :: "string \<Rightarrow> RequestUser \<Rightarrow> world \<Rightarrow> Session option" where
  "visible sid caller w =
     (case find_row se_id sid (sessionRows w) of
        None \<Rightarrow> None
      | Some s \<Rightarrow> if (\<exists>x \<in> set (workflowRows w). wf_id x = se_workflowId s \<and> wf_orgId x = rq_orgId caller)
                  then Some s else None)"

lemma findSessionInOrg_run:
  "findSessionInOrgOrThrow sid (rq_orgId caller) w =
     (case visible sid caller w of None \<Rightarrow> Inl (NotFoundException (JStr ''Session not found'')) | Some s \<Rightarrow> Inr s, w)"
  by (auto simp: findSessionInOrgOrThrow_def findWorkflowInOrgOrThrow_def visible_def andThen_def orThrow_def ret_def
      find_None_iff dest: find_Some_set split: option.splits)

lemmas session_ops = getSession_def updateMode_def finalize_def getWorkflowState_def getProgress_def
  dispatchAiTask_def archive_def overrideStatus_def

lemma hidden_session:
  assumes "visible sid caller w = None"
  shows "andThen (findSessionInOrgOrThrow sid (rq_orgId caller)) k w =
     (Inl (NotFoundException (JStr ''Session not found'')), w)"
  using assms by (simp add: findSessionInOrg_run run_simps)

lemma seen_session:
  assumes "visible sid caller w = Some s"
  shows "andThen (findSessionInOrgOrThrow sid (rq_orgId caller)) k w = k s w"
  using assms by (simp add: findSessionInOrg_run run_simps)

lemma assertOwner_refuses:
  "rq_role caller \<noteq> ''admin'' \<Longrightarrow> se_userId s \<noteq> rq_id caller \<Longrightarrow>
     andThen (assertOwnerOrAdmin s caller) k w =
       (Inl (ForbiddenException (JStr ''Only the session owner or an admin can manage this session'')), w)"
  by (simp add: assertOwnerOrAdmin_def run_simps)

lemma assertOwner_passes:
  "rq_role caller = ''admin'' \<or> se_userId s = rq_id caller \<Longrightarrow> andThen (assertOwnerOrAdmin s caller) k w = k () w"
  by (auto simp: assertOwnerOrAdmin_def run_simps)

lemma assertAdmin_refuses:
  "rq_role caller \<noteq> ''admin'' \<Longrightarrow> andThen (assertAdmin caller) k w = (Inl (ForbiddenException (JStr ''Admin role is required'')), w)"
  by (simp add: assertAdmin_def run_simps)

lemma assertAdmin_passes: "rq_role caller = ''admin'' \<Longrightarrow> andThen (assertAdmin caller) k w = k () w"
  by (simp add: assertAdmin_def run_simps)

lemma hidden_command:
  assumes "command_session c = Some sid" "visible sid caller w = None"
    "\<forall>sid dto. c = Override sid dto \<longrightarrow> rq_role caller = ''admin''"
  shows "perform c caller w = (Inl (NotFoundException (JStr ''Session not found'')), w)"
  using assms by (cases c) (auto intro!: forget_run simp: session_ops hidden_session assertAdmin_passes)

lemma unowned_command:
  assumes "command_session c = Some sid" "visible sid caller w = Some s" "manages c"
    "rq_role caller \<noteq> ''admin''" "se_userId s \<noteq> rq_id caller"
  shows "perform c caller w =
     (Inl (ForbiddenException (JStr ''Only the session owner or an admin can manage this session'')), w)"
  using assms by (cases c) (auto intro!: forget_run simp: session_ops seen_session assertOwner_refuses)

lemma non_admin_override:
  "rq_role caller \<noteq> ''admin'' \<Longrightarrow> perform (Override sid dto) caller w =
     (Inl (ForbiddenException (JStr ''Admin role is required'')), w)"
  by (auto intro!: forget_run simp: overrideStatus_def assertAdmin_refuses)

text \<open>C4. Access: a session whose workflow is in another organization (or that does not exist) is answered with
the same 404 by every operation, a session of the organization can be managed only by its owner or an admin,
the status override only by an admin; a refused request changes nothing at all.\<close>

theorem session_access:
  assumes "command_session c = Some sid"
  shows "(visible sid caller w = None \<and> (\<forall>i dto. c = Override i dto \<longrightarrow> rq_role caller = ''admin'') \<longrightarrow>
      perform c caller w = (Inl (NotFoundException (JStr ''Session not found'')), w)) \<and>
    (visible sid caller w = Some s \<and> manages c \<and> rq_role caller \<noteq> ''admin'' \<and> se_userId s \<noteq> rq_id caller \<longrightarrow>
      perform c caller w =
        (Inl (ForbiddenException (JStr ''Only the session owner or an admin can manage this session'')), w)) \<and>
    ((\<exists>i dto. c = Override i dto) \<and> rq_role caller \<noteq> ''admin'' \<longrightarrow>
      perform c caller w = (Inl (ForbiddenException (JStr ''Admin role is required'')), w))"
  using hidden_command [OF assms, of caller w] unowned_command [OF assms, of caller w s]
    non_admin_override [of caller _ _ w]
  by (intro conjI impI) auto

definition sample_stranger :: RequestUser where
  "sample_stranger = \<lparr>rq_id = ''u9'', rq_orgId = ''o9'', rq_role = ''admin''\<rparr>"

lemma stranger_sees_nothing: "visible ''s1'' sample_stranger sample_world = None"
  by (simp add: visible_def sample_stranger_def sample_defs find_row_def)

theorem session_access_witness:
  "perform (Archive ''s1'') sample_stranger sample_world =
     (Inl (NotFoundException (JStr ''Session not found'')), sample_world)"
  using session_access [of "Archive ''s1''" "''s1''" sample_stranger sample_world] stranger_sees_nothing by simp

section \<open>Status changes are runs of the machine\<close>

definition reachable :: "SessionStatus \<Rightarrow> SessionStatus \<Rightarrow> bool" where
  "reachable s t \<longleftrightarrow> (\<exists>es. run session_next s es t)"

definition moves :: "Session list \<Rightarrow> Session list \<Rightarrow> bool" where
  "moves R S \<longleftrightarrow> (\<forall>i s. find_row se_id i R = Some s \<longrightarrow>
     (\<exists>t. find_row se_id i S = Some t \<and> se_workflowId t = se_workflowId s \<and> se_userId t = se_userId s \<and>
        reachable (se_status s) (se_status t)))"

lemma reachable_refl: "reachable s s"
  unfolding reachable_def by (blast intro: run.stop)

lemma reachable_trans: "reachable s t \<Longrightarrow> reachable t u \<Longrightarrow> reachable s u"
  unfolding reachable_def by (auto dest: run_append)

lemma reachable_event: "transitionSessionStatus s e m = Inr t \<Longrightarrow> reachable s t"
  unfolding reachable_def by (rule exI [of _ "[(e, m)]"]) (simp add: fsm_run_simps session_next_def)

lemma reachable_override: "canTransitionTo s t m \<Longrightarrow> reachable s t"
proof -
  assume "canTransitionTo s t m"
  then obtain c where "c \<in> set SESSION_TRANSITIONS" "tr_from c = s" "tr_to c = t" "tr_mode c = None \<or> tr_mode c = m"
    unfolding canTransitionTo_def by blast
  then show ?thesis using every_rule_fires [of m] reachable_event by metis
qed

interpretation status_moves: step_preorder moves
proof
  show "moves R R" for R by (auto simp: moves_def intro: reachable_refl)
  show "moves R T" if m: "moves R S" "moves S T" for R S T
    unfolding moves_def
  proof (intro allI impI)
    fix i s
    assume "find_row se_id i R = Some s"
    then obtain t where t: "find_row se_id i S = Some t" "se_workflowId t = se_workflowId s" "se_userId t = se_userId s"
      "reachable (se_status s) (se_status t)" using m(1) unfolding moves_def by blast
    then obtain u where "find_row se_id i T = Some u" "se_workflowId u = se_workflowId t" "se_userId u = se_userId t"
      "reachable (se_status t) (se_status u)" using m(2) unfolding moves_def by blast
    then show "\<exists>u. find_row se_id i T = Some u \<and> se_workflowId u = se_workflowId s \<and> se_userId u = se_userId s \<and>
      reachable (se_status s) (se_status u)" using t reachable_trans by auto
  qed
qed

lemma moves_save:
  assumes "find_row se_id (se_id t) R = Some s" "se_workflowId t = se_workflowId s" "se_userId t = se_userId s"
    "reachable (se_status s) (se_status t)"
  shows "moves R (save_row se_id t R)"
  using assms by (auto simp: moves_def find_row_save intro: reachable_refl)

lemma moves_insert: "moves R (R @ [t])"
  by (auto simp: moves_def find_row_append intro: reachable_refl)

text \<open>Reading a session, then saving it with a reachable status.\<close>

lemma writes_found:
  assumes "\<And>s. se_id s = sid \<Longrightarrow> writes sessionRows (\<lambda>R S. find_row se_id sid R = Some s \<longrightarrow> A R S) (k s)"
  shows "writes sessionRows A (andThen (findSessionInOrgOrThrow sid org) k)"
  unfolding writes_def
proof
  fix w
  show "sessionRows (snd (andThen (findSessionInOrgOrThrow sid org) k w)) = sessionRows w \<or>
    A (sessionRows w) (sessionRows (snd (andThen (findSessionInOrgOrThrow sid org) k w)))"
  proof (cases "findSessionInOrgOrThrow sid org w")
    case (Pair r v)
    then have v: "v = w" "r = Inr s \<Longrightarrow> find_row se_id sid (sessionRows w) = Some s" for s
      by (auto simp: findSessionInOrgOrThrow_def findWorkflowInOrgOrThrow_def run_iffs andThen_def orThrow_def ret_def
          split: option.splits)
    show ?thesis
    proof (cases r)
      case (Inl e)
      then show ?thesis using Pair v by (simp add: andThen_def)
    next
      case (Inr s)
      then have f: "find_row se_id sid (sessionRows w) = Some s" using v by simp
      then have "se_id s = sid" using find_row_Some by fast
      then show ?thesis using assms [of s] f Pair v Inr by (simp add: andThen_def writes_def)
    qed
  qed
qed

lemma writes_save_session: "(\<And>R. A R (save_row se_id s R)) \<Longrightarrow> writes sessionRows A (save_session s)"
  by (simp add: writes_def save_session_def andThen_def constraint_run writing_def)

lemma untouched_findWorkflowInOrg: "untouched f (findWorkflowInOrgOrThrow i g m)"
  by (simp add: untouched_def findWorkflowInOrgOrThrow_def orThrow_def split: option.splits)

lemma untouched_sessions [untouched_intros]:
  "untouched sessionRows (assertOwnerOrAdmin s u)" "untouched sessionRows (assertAdmin u)"
  "untouched sessionRows (findWorkflowInOrgOrThrow i g m)" "untouched sessionRows (publishSessionFinalized e)"
  "untouched sessionRows (sessionAudit i actor ev b a)" "untouched sessionRows (emitNeedsReconciliation sid rid sc)"
  by (simp_all add: assertOwnerOrAdmin_def assertAdmin_def untouched_findWorkflowInOrg untouched_intros sessionAudit_def
      emitNeedsReconciliation_def emitSessionNeedsReconciliation_def emitToSession_def)

lemma untouched_findSession [untouched_intros]: "untouched f (findSessionInOrgOrThrow sid g)"
  unfolding findSessionInOrgOrThrow_def by (intro untouched_intros untouched_findWorkflowInOrg)

text \<open>Saving the session that was read, with a status the machine can reach, then touching no session.\<close>

lemma writes_save_then:
  assumes "se_id t = se_id s" "se_workflowId t = se_workflowId s" "se_userId t = se_userId s"
    "reachable (se_status s) (se_status t)" "\<And>x. untouched sessionRows (k x)"
  shows "writes sessionRows (\<lambda>R S. find_row se_id (se_id s) R = Some s \<longrightarrow> moves R S) (andThen (save_session t) k)"
  using assms by (intro writes_post writes_save_session impI moves_save [of t _ s]) auto

lemma mode_moves: "writes sessionRows moves (updateMode sid m caller)"
  unfolding updateMode_def Let_def
  by (intro writes_found writes_pre [OF untouched_sessions(1)] writes_if writes_untouched [OF untouched_basic(1)])
    (rule writes_mono [OF writes_save_then]; auto intro!: untouched_intros reachable_refl)

lemma finalize_moves: "writes sessionRows moves (finalize sid caller)"
  unfolding finalize_def Let_def
  by (intro writes_found writes_pre [OF untouched_sessions(1)] writes_pre [OF untouched_sessions(3)] writes_liftSum
      writes_reading)
    (rule writes_mono [OF writes_save_then]; auto intro!: untouched_intros reachable_event)

lemma archive_moves: "writes sessionRows moves (archive sid caller)"
  unfolding archive_def Let_def
  by (intro writes_found writes_pre [OF untouched_sessions(1)] writes_liftSum writes_reading)
    (rule writes_mono [OF writes_save_then]; auto simp: archive_rows_def intro!: untouched_intros reachable_event)

lemma dispatched_reachable: "dispatched_status s = Inr (Some t) \<Longrightarrow> reachable (se_status s) t"
  by (auto simp: dispatched_status_def split: if_splits sum.splits intro: reachable_event reachable_trans)

lemma dispatch_saves:
  assumes "se_id s = sid" "\<And>x. untouched sessionRows (k x)" "dispatched_status s = Inr status"
  shows "writes sessionRows (\<lambda>R S. find_row se_id sid R = Some s \<longrightarrow> moves R S)
     (andThen (case status of None \<Rightarrow> ret () | Some t \<Rightarrow> save_session (s\<lparr>se_status := t\<rparr>)) k)"
proof (cases status)
  case None
  then show ?thesis using assms by (auto intro!: writes_untouched untouched_intros)
next
  case (Some t)
  then show ?thesis using assms dispatched_reachable writes_save_then [of "s\<lparr>se_status := t\<rparr>" s k] by simp
qed

lemma dispatch_moves: "writes sessionRows moves (dispatchAiTask sid input caller tt rf)"
  unfolding dispatchAiTask_def Let_def
  by (intro writes_found writes_pre [OF untouched_sessions(1)] writes_pre [OF untouched_publishAiTask] writes_liftSum)
    (auto intro!: dispatch_saves untouched_intros)

lemma override_moves:
  assumes "us_force dto \<noteq> Some True"
  shows "writes sessionRows moves (overrideStatus sid dto caller)"
  unfolding overrideStatus_def
  by (intro writes_pre [OF untouched_sessions(2)] writes_found writes_check writes_reading)
    (rule writes_mono [OF writes_save_then];
      use assms in \<open>auto simp: overridden_def Let_def intro!: untouched_intros dest: reachable_override\<close>)

lemma create_moves: "writes sessionRows moves (createSession dto caller)"
proof -
  have "writes sessionRows moves (insert_session s)" for s
    by (auto simp: writes_def insert_session_def andThen_def constraint_run writing_def moves_insert)
  then show ?thesis unfolding createSession_def
    by (intro writes_pre [OF untouched_findWorkflowInOrg] writes_pre [OF untouched_new_id] writes_reading writes_post
        untouched_intros) simp_all
qed

lemma reads_move:
  "writes sessionRows moves (getSession sid caller)" "writes sessionRows moves (getWorkflowState sid caller)"
  "writes sessionRows moves (getProgress sid caller)"
  unfolding getSession_def getWorkflowState_def getProgress_def by (intro writes_untouched untouched_intros)+

lemma perform_moves:
  assumes "\<not> forced c"
  shows "moves (sessionRows w) (sessionRows (snd (perform c caller w)))"
proof -
  have "writes sessionRows moves (perform c caller)"
    using assms by (cases c) (auto simp: forget_def intro!: writes_post untouched_intros create_moves reads_move
        mode_moves finalize_moves archive_moves dispatch_moves override_moves)
  then show ?thesis using status_moves.R_refl unfolding writes_def by metis
qed

text \<open>C1. Refinement of the state machine: after any sequence of session requests, by any callers, that contains no
forced override, every session that existed is still there with its workflow and owner, and its status is
reached from the old one by a run of the transition table.\<close>

theorem requests_follow_the_machine:
  assumes "\<forall>(c, caller) \<in> set cs. \<not> forced c" "find_row se_id i (sessionRows w) = Some s"
  shows "\<exists>t es. find_row se_id i (sessionRows (perform_all cs w)) = Some t \<and> se_workflowId t = se_workflowId s \<and>
     se_userId t = se_userId s \<and> run session_next (se_status s) es (se_status t)"
proof -
  have "moves (sessionRows w) (sessionRows (perform_all cs w))"
    using assms(1) by (induction cs w rule: perform_all.induct)
      (auto intro: status_moves.R_refl status_moves.R_trans perform_moves)
  then show ?thesis using assms(2) unfolding moves_def reachable_def by blast
qed

definition sample_owner :: RequestUser where
  "sample_owner = \<lparr>rq_id = ''u1'', rq_orgId = ''o1'', rq_role = ''process_owner''\<rparr>"

theorem requests_follow_the_machine_witness:
  "\<exists>t es. find_row se_id ''s1'' (sessionRows (perform_all [(Finalize ''s1'', sample_owner), (Archive ''s1'', sample_owner)]
      sample_world)) = Some t \<and> run session_next SessionStatus.CREATED es (se_status t)"
  using requests_follow_the_machine [of "[(Finalize ''s1'', sample_owner), (Archive ''s1'', sample_owner)]" "''s1''"
      sample_world sample_session]
  by (auto simp: sample_world_def find_row_def sample_session_def)

section \<open>What finalizing, archiving and dispatching do\<close>

lemma visible_found:
  assumes "visible sid caller w = Some s"
  shows "find_row se_id sid (sessionRows w) = Some s" "se_id s = sid" "workflowExists (se_workflowId s) w"
    "\<exists>x. find (\<lambda>x. wf_id x = se_workflowId s \<and> wf_orgId x = rq_orgId caller) (workflowRows w) = Some x"
proof -
  show f: "find_row se_id sid (sessionRows w) = Some s" and "workflowExists (se_workflowId s) w"
    using assms by (auto simp: visible_def workflowExists_def split: option.splits if_splits intro: rev_image_eqI)
  show "se_id s = sid" using f find_row_Some by fast
  show "\<exists>x. find (\<lambda>x. wf_id x = se_workflowId s \<and> wf_orgId x = rq_orgId caller) (workflowRows w) = Some x"
    using assms by (cases "find (\<lambda>x. wf_id x = se_workflowId s \<and> wf_orgId x = rq_orgId caller) (workflowRows w)")
      (auto simp: visible_def find_None_iff split: option.splits if_splits)
qed

lemma findWorkflowInOrg_found:
  "find (\<lambda>x. wf_id x = i \<and> wf_orgId x = g) (workflowRows w) = Some x \<Longrightarrow>
     findWorkflowInOrgOrThrow i g msg w = (Inr x, w)"
  by (simp add: findWorkflowInOrgOrThrow_def run_simps)

lemma save_session_run:
  "save_session s w = (if workflowExists (se_workflowId s) w
     then (Inr (), sessionRows_update (save_row se_id s) w) else (Inl (QueryFailedError ''session_workflow_id_fkey''), w))"
  by (simp add: save_session_def andThen_def constraint_run writing_def)

text \<open>The audit entry a session operation writes, and the state after it.\<close>

definition session_entry :: "world \<Rightarrow> string \<Rightarrow> string \<Rightarrow> string \<Rightarrow> json option \<Rightarrow> json option \<Rightarrow> AuditLog" where
  "session_entry w workflowId actorId eventType before after =
     \<lparr>au_id = idSupply w (idNext w), au_workflowId = Some workflowId, au_actorId = Some actorId,
      au_actorType = ActorType.USER, au_eventType = eventType, au_elementId = None, au_beforeState = before,
      au_afterState = after, au_createdAt = clock w\<rparr>"

lemma sessionAudit_run:
  "workflowExists i w \<Longrightarrow> sessionAudit i actor ev b a w =
     (Inr (session_entry w i actor ev b a),
      w\<lparr>idNext := Suc (idNext w), auditRows := auditRows w @ [session_entry w i actor ev b a]\<rparr>)"
  by (simp add: sessionAudit_def audit_log_def audit_entry_def session_entry_def andThen_def check_def new_id_def
      reading_def Let_def ret_def insert_audit_run workflowExists_def)

lemma transition_refused: "transitionSessionStatus f e m = Inl x \<Longrightarrow> \<exists>j. x = UnprocessableEntityException j"
  by (auto simp: transitionSessionStatus_def split: option.splits)

lemma workflowExists_cong: "workflowRows v = workflowRows w \<Longrightarrow> workflowExists i v = workflowExists i w"
  by (simp add: workflowExists_def)

lemmas session_run = seen_session assertOwner_passes assertAdmin_passes save_session_run sessionAudit_run
  nats_publish_run publishSessionFinalized_def findWorkflowInOrg_found run_simps



text \<open>Archiving cascades: the session is ARCHIVED (from any status), and every message, document and pipeline
run of the session carries the same archive time as the session; rows of other sessions are untouched.\<close>

theorem archive_effect:
  assumes "visible sid caller w = Some s" "rq_role caller = ''admin'' \<or> se_userId s = rq_id caller"
  shows "let (r, v) = archive sid caller w;
             archived = s\<lparr>se_status := SessionStatus.ARCHIVED, se_archivedAt := Some (new_Date w)\<rparr>
    in r = Inr (serializeSession archived) \<and> sessionRows v = save_row se_id archived (sessionRows w) \<and>
      messageRows v = map (\<lambda>m. if me_sessionId m = sid then m\<lparr>me_archivedAt := se_archivedAt archived\<rparr> else m) (messageRows w) \<and>
      documentRows v = map (\<lambda>d. if do_sessionId d = Some sid then d\<lparr>do_archivedAt := se_archivedAt archived\<rparr> else d) (documentRows w) \<and>
      pipelineRows v = map (\<lambda>p. if pe_sessionId p = sid then p\<lparr>pe_archivedAt := se_archivedAt archived\<rparr> else p) (pipelineRows w) \<and>
      (\<exists>a. auditRows v = auditRows w @ [a] \<and> au_eventType a = ''SESSION_ARCHIVED'' \<and> au_actorId a = Some (rq_id caller))"
proof -
  have "transitionSessionStatus (se_status s) USER_DELETES (Some (se_mode s)) = Inr SessionStatus.ARCHIVED"
    by (simp add: transition_table)
  then show ?thesis
    using assms visible_found [OF assms(1)] unfolding archive_def
    by (simp add: session_run workflowExists_def session_entry_def archive_rows_def Let_def)
qed

theorem archive_effect_witness:
  "se_status (hd (sessionRows (snd (archive ''s1'' sample_owner sample_world)))) = SessionStatus.ARCHIVED"
proof -
  have "visible ''s1'' sample_owner sample_world = Some sample_session"
    by (simp add: visible_def sample_owner_def sample_defs find_row_def)
  from archive_effect [OF this] show ?thesis
    by (simp add: sample_owner_def sample_defs Let_def case_prod_beta save_row_def)
qed

lemma cached_rules_run:
  "\<exists>rules c. getCachedActiveRules g w = (Inr rules, activeRuleCache_update c w)"
proof -
  have "\<exists>c. w = activeRuleCache_update c w" by (rule exI [of _ "\<lambda>c. c"]) simp
  then show ?thesis unfolding getCachedActiveRules_def Let_def by (auto split: option.splits prod.splits)
qed

lemma context_rules_run:
  assumes "find_row se_id sid (sessionRows w) = Some s"
    "find (\<lambda>x. wf_id x = se_workflowId s \<and> wf_orgId x = g) (workflowRows w) = Some x"
  shows "\<exists>rules c. listActiveRulesForContext g sid w = (Inr rules, activeRuleCache_update c w)"
proof -
  obtain rules c where "getCachedActiveRules g w = (Inr rules, activeRuleCache_update c w)"
    using cached_rules_run by blast
  then show ?thesis
    using assms by (simp add: listActiveRulesForContext_def getSessionContextRules_def run_simps) blast
qed

lemma org_lookup:
  assumes "distinct (map wf_id (workflowRows w))"
    "find (\<lambda>x. wf_id x = i \<and> wf_orgId x = g) (workflowRows w) = Some x"
  shows "find_row wf_id i (workflowRows w) = Some x" "wf_orgId x = g"
  using find_row_distinct [OF assms(1), of x] find_Some_set [OF assms(2)] by auto

lemma publishAiTask_run:
  assumes s: "find_row se_id (pt_sessionId params) (sessionRows w) = Some s"
    and x: "find (\<lambda>x. wf_id x = se_workflowId s \<and> wf_orgId x = g) (workflowRows w) = Some x"
    and d: "distinct (map wf_id (workflowRows w))" and g: "g \<noteq> []" and up: "natsUp w"
  shows "\<exists>v payload. let i = idSupply w (idNext w); cid = getCorrelationId w; msgId = cid @ '':ai.tasks.new:'' @ i;
        p = new_pipeline params i (clock w)
    in publishAiTask params w = (Inr \<lparr>rc_pipelineExecutionId = i, rc_natsMessageId = msgId\<rparr>, v) \<and>
      sessionRows v = sessionRows w \<and> workflowRows v = workflowRows w \<and>
      pipelineRows v = save_row pe_id (p\<lparr>pe_natsMessageId := Some msgId\<rparr>) (save_row pe_id p (pipelineRows w)) \<and>
      published v = published w @
          [\<lparr>nm_subject = ''ai.context.load'', nm_msgId = cid @ '':ai.context.load:'', nm_payload = payload\<rparr>,
           \<lparr>nm_subject = ''ai.tasks.new'', nm_msgId = msgId, nm_payload = task_new_event cid g i params\<rparr>]"
proof -
  let ?i = "idSupply w (idNext w)"
  let ?p = "new_pipeline params ?i (clock w)"
  let ?w = "pipelineRows_update (save_row pe_id ?p) (w\<lparr>idNext := Suc (idNext w)\<rparr>)"
  have sid: "se_id s = pt_sessionId params" "s \<in> set (sessionRows w)" using find_row_Some [OF s] by auto
  have org: "resolveOrgIdForSession s w = (Inr g, w)"
    using s sid org_lookup [OF d x] g by (simp add: resolveOrgIdForSession_def run_simps)
  obtain rules c where r: "listActiveRulesForContext g (pt_sessionId params) ?w = (Inr rules, activeRuleCache_update c ?w)"
    using context_rules_run [of "pt_sessionId params" ?w s g x] s x by auto
  have e: "sessionExists (pt_sessionId params) w" using sid by (auto simp: sessionExists_def intro: rev_image_eqI)
  have save: "save_pipeline q v = (Inr (), pipelineRows_update (save_row pe_id q) v)"
    if "pe_sessionId q = pt_sessionId params" "sessionRows v = sessionRows w" for q v
    using that e by (simp add: save_pipeline_def run_simps sessionExists_def)
  have p: "pe_sessionId ?p = pt_sessionId params" by (simp add: new_pipeline_def)
  show ?thesis
    using s sid org r up p
    by (simp add: publishAiTask_def Let_def run_simps save publishAiContextLoad_def publishAiTaskNew_def
        nats_publish_run buildMsgId_def getCorrelationId_def)
qed

lemma dispatched_status_table:
  "dispatched_status s = Inr
      (if se_status s \<in> {SessionStatus.CREATED, SessionStatus.AWAITING_INPUT, SessionStatus.IN_ELICITATION}
       then Some SessionStatus.PROCESSING else None)"
proof -
  have "transitionSessionStatus SessionStatus.CREATED FIRST_USER_MESSAGE m = Inr SessionStatus.AWAITING_INPUT"
    "transitionSessionStatus SessionStatus.AWAITING_INPUT AI_TASK_PUBLISHED m = Inr SessionStatus.PROCESSING"
    "transitionSessionStatus SessionStatus.IN_ELICITATION AI_TASK_PUBLISHED m = Inr SessionStatus.PROCESSING" for m
    by (simp_all add: transition_table)
  then show ?thesis by (auto simp: dispatched_status_def)
qed

text \<open>C10. Dispatching: the pipeline run is recorded as pending, the context and then the task are published, and the
message id kept on the run is the id under which the task was published. The session moves to PROCESSING from
CREATED, AWAITING_INPUT and IN_ELICITATION; from every other status, the archived one included, the task is
published and the status stays.\<close>

theorem dispatch_effect:
  assumes "visible sid caller w = Some s" "rq_role caller = ''admin'' \<or> se_userId s = rq_id caller"
    "distinct (map wf_id (workflowRows w))" "rq_orgId caller \<noteq> []" "natsUp w"
  shows "let (r, v) = dispatchAiTask sid input caller tt rf w
    in \<exists>receipt context task run. r = Inr receipt \<and> published v = published w @ [context, task] \<and>
      nm_subject context = ''ai.context.load'' \<and> nm_subject task = ''ai.tasks.new'' \<and>
      find_row pe_id (rc_pipelineExecutionId receipt) (pipelineRows v) = Some run \<and>
      pe_sessionId run = sid \<and> pe_status run = PipelineStatus.PENDING \<and> pe_inputPayload run = input \<and>
      pe_natsMessageId run = Some (nm_msgId task) \<and> rc_natsMessageId receipt = nm_msgId task \<and>
      sessionRows v =
        (if se_status s \<in> {SessionStatus.CREATED, SessionStatus.AWAITING_INPUT, SessionStatus.IN_ELICITATION}
         then save_row se_id (s\<lparr>se_status := SessionStatus.PROCESSING\<rparr>) (sessionRows w) else sessionRows w)"
proof -
  note f = visible_found [OF assms(1)]
  obtain x where x: "find (\<lambda>x. wf_id x = se_workflowId s \<and> wf_orgId x = rq_orgId caller) (workflowRows w) = Some x"
    using f(4) by blast
  let ?task = "case tt of None \<Rightarrow> PipelineTaskType.FULL_PIPELINE | Some t \<Rightarrow> t"
  define params where "params = \<lparr>pt_sessionId = sid, pt_taskType = ?task, pt_mode = se_mode s, pt_input = input,
    pt_triggeredBy = Some (rq_id caller), pt_resumeFromCheckpoint = rf\<rparr>"
  have q: "pt_sessionId params = sid" by (simp add: params_def)
  note pub = publishAiTask_run [of params w s "rq_orgId caller" x, unfolded q, OF f(1) x assms(3-5), unfolded Let_def]
  from pub obtain v payload where run: "publishAiTask params w =
    (Inr \<lparr>rc_pipelineExecutionId = idSupply w (idNext w),
          rc_natsMessageId = getCorrelationId w @ '':ai.tasks.new:'' @ idSupply w (idNext w)\<rparr>, v)"
    and v: "sessionRows v = sessionRows w" "workflowRows v = workflowRows w"
    "pipelineRows v = save_row pe_id (new_pipeline params (idSupply w (idNext w)) (clock w)
            \<lparr>pe_natsMessageId := Some (getCorrelationId w @ '':ai.tasks.new:'' @ idSupply w (idNext w))\<rparr>)
          (save_row pe_id (new_pipeline params (idSupply w (idNext w)) (clock w)) (pipelineRows w))"
    "published v = published w @
         [\<lparr>nm_subject = ''ai.context.load'', nm_msgId = getCorrelationId w @ '':ai.context.load:'', nm_payload = payload\<rparr>,
          \<lparr>nm_subject = ''ai.tasks.new'', nm_msgId = getCorrelationId w @ '':ai.tasks.new:'' @ idSupply w (idNext w),
            nm_payload = task_new_event (getCorrelationId w) (rq_orgId caller) (idSupply w (idNext w)) params\<rparr>]"
    by blast
  show ?thesis
    using assms(1,2) f run v dispatched_status_table [of s] unfolding dispatchAiTask_def params_def
    by (cases "se_status s \<in> {SessionStatus.CREATED, SessionStatus.AWAITING_INPUT, SessionStatus.IN_ELICITATION}")
      (simp_all add: session_run workflowExists_def find_row_save new_pipeline_def Let_def)
qed

definition archived_world :: world where
  "archived_world = sample_world\<lparr>sessionRows := [sample_session\<lparr>se_status := SessionStatus.ARCHIVED\<rparr>]\<rparr>"

theorem dispatch_effect_witness:
  "length (published (snd (dispatchAiTask ''s1'' (JObj []) sample_owner None None archived_world))) = 2 \<and>
   sessionRows (snd (dispatchAiTask ''s1'' (JObj []) sample_owner None None archived_world)) =
     [sample_session\<lparr>se_status := SessionStatus.ARCHIVED\<rparr>]"
proof -
  have "visible ''s1'' sample_owner archived_world = Some (sample_session\<lparr>se_status := SessionStatus.ARCHIVED\<rparr>)"
    by (simp add: visible_def sample_owner_def archived_world_def sample_defs find_row_def)
  from dispatch_effect [OF this, of "JObj []" None None] show ?thesis
    by (auto simp: sample_owner_def archived_world_def sample_world_def sample_workflow_def sample_session_def
        empty_world_def Let_def case_prod_beta)
qed

text \<open>The guard of the session routes lets a request through exactly when the session is visible to the caller's
organization and answers 404 otherwise - for well-formed ids; a malformed id, meant to be a 400, raises a
\<open>TypeError\<close>, which is answered with 500.\<close>

theorem session_guard_outcome:
  assumes "rq_orgId caller \<noteq> []" "sid \<noteq> []"
  shows "sessionOrgGuard isUUID (Some caller) (Some sid) w =
     (if isUUID sid
      then (case visible sid caller w of
              None \<Rightarrow> Inl (NotFoundException (JStr ''Session not found'')) | Some _ \<Rightarrow> Inr True)
      else Inl (TypeError ''Class constructor BadRequestException cannot be invoked without new''), w) \<and>
   getStatus (TypeError ''Class constructor BadRequestException cannot be invoked without new'') = 500"
  using assms
  by (auto simp: sessionOrgGuard_def visible_def andThen_def check_def orThrow_def ret_def find_None_iff
      dest: find_Some_set split: option.splits)

theorem session_guard_outcome_witness:
  "fst (sessionOrgGuard (\<lambda>s. s = ''s1'') (Some sample_owner) (Some ''nope'') sample_world) =
     Inl (TypeError ''Class constructor BadRequestException cannot be invoked without new'') \<and>
   fst (sessionOrgGuard (\<lambda>s. s = ''s1'') (Some sample_stranger) (Some ''s1'') sample_world) =
     Inl (NotFoundException (JStr ''Session not found''))"
  using session_guard_outcome [of sample_owner "''nope''" "\<lambda>s. s = ''s1''" sample_world]
    session_guard_outcome [of sample_stranger "''s1''" "\<lambda>s. s = ''s1''" sample_world] stranger_sees_nothing
  by (simp add: sample_owner_def sample_stranger_def)

end
