(* ===== verification/Workflows.thy ===== *)
theory Workflows
  imports Rules_Logic Nats
begin

text \<open>
  Workflows and their versions: \<open>src/modules/workflows/workflows.service.ts\<close>. Version numbers are kept on
  the workflow row and on the version rows; the trigger and the unique constraint of the database relate
  the two.
\<close>

section \<open>JSON values as the code reads them\<close>

fun json_truthy :: "json option \<Rightarrow> bool" where
  "json_truthy None = False"
| "json_truthy (Some JNull) = False"
| "json_truthy (Some (JBool b)) = b"
| "json_truthy (Some (JNum n)) = (n \<notin> {''0'', ''-0''})"
| "json_truthy (Some (JStr s)) = (s \<noteq> [])"
| "json_truthy (Some _) = True"

text \<open>Property access: undefined on everything but objects, a \<open>TypeError\<close> on null.\<close>

fun field :: "json \<Rightarrow> string \<Rightarrow> json option" where
  "field (JObj kvs) k = get_prop kvs k"
| "field _ k = None"

text \<open>\<open>x ?? y\<close>: null and undefined take the default.\<close>

definition nullish :: "json option \<Rightarrow> json \<Rightarrow> json" where
  "nullish x y = (case x of None \<Rightarrow> y | Some JNull \<Rightarrow> y | Some v \<Rightarrow> v)"

section \<open>Data transfer objects\<close>

record CreateWorkflowDto =
  cw_projectId :: "string option"
  cw_title :: string
  cw_description :: "string option"
  cw_domain :: "string option"
  cw_tags :: "(string list) option"

text \<open>\<open>Some None\<close> is an explicit null, \<open>None\<close> an absent property.\<close>

record UpdateWorkflowDto =
  uw_title :: "string option"
  uw_description :: "string option option"
  uw_domain :: "string option option"
  uw_tags :: "(string list) option"
  uw_status :: "WorkflowStatus option"
  uw_elements_json :: "json option"
  uw_source :: "string option"

record WorkflowFilterDto =
  wq_status :: "WorkflowStatus option"
  wq_domain :: "string option"
  wq_tags :: "(string list) option"
  wq_projectId :: "string option"
  wq_search :: "string option"
  wq_page :: nat
  wq_limit :: nat

section \<open>Creation\<close>

text \<open>\<open>save\<close> of a workflow without an id: the database gives the id.\<close>

definition insert_workflow :: "Workflow \<Rightarrow> unit service" where
  "insert_workflow r w =
     andThen (constraint (wf_id r \<notin> wf_id ` set (workflowRows w)) ''workflow_pkey'') (\<lambda>_.
     andThen (constraint (enforce_workflow_current_version r w) ''workflow.current_version cannot exceed latest workflow_version.version_number'') (\<lambda>_.
     writing (workflowRows_update (\<lambda>rs. rs @ [r])))) w"

definition new_workflow :: "CreateWorkflowDto \<Rightarrow> string \<Rightarrow> string \<Rightarrow> string \<Rightarrow> time \<Rightarrow> Workflow" where
  "new_workflow dto orgId ownerId i now =
     \<lparr>wf_id = i, wf_title = cw_title dto, wf_description = cw_description dto, wf_status = WorkflowStatus.DRAFT,
      wf_currentVersion = 0, wf_orgId = orgId, wf_ownerId = ownerId, wf_projectId = cw_projectId dto,
      wf_domain = cw_domain dto, wf_tags = (case cw_tags dto of None \<Rightarrow> [] | Some ts \<Rightarrow> ts), wf_shareToken = None,
      wf_shareExpiresAt = None, wf_shareMaxViews = None, wf_shareViewCount = 0, wf_createdAt = now, wf_updatedAt = now\<rparr>"

definition version_row :: "string \<Rightarrow> string \<Rightarrow> int \<Rightarrow> json \<Rightarrow> json option \<Rightarrow> string \<Rightarrow> time \<Rightarrow> WorkflowVersion" where
  "version_row i workflowId number elems elsa createdBy now =
     \<lparr>wv_id = i, wv_workflowId = workflowId, wv_versionNumber = number, wv_elementsJson = elems,
      wv_elsaJson = elsa, wv_confidenceScore = None, wv_createdBy = Some createdBy, wv_createdAt = now\<rparr>"

definition workflowAudit :: "string \<Rightarrow> string \<Rightarrow> string \<Rightarrow> json option \<Rightarrow> json option \<Rightarrow> AuditLog service" where
  "workflowAudit workflowId actorId eventType before after =
     audit_log (audit_entry (Some workflowId) (Some actorId) ActorType.USER eventType None before after)"

definition findWorkflow :: "string \<Rightarrow> string \<Rightarrow> Workflow service" where
  "findWorkflow i orgId w =
     orThrow (find (\<lambda>x. wf_id x = i \<and> wf_orgId x = orgId) (workflowRows w))
       (NotFoundException (JStr (''Workflow '' @ i @ '' not found''))) w"

text \<open>The row, version 1, and the pointer to it: shared by creation and duplication.\<close>

definition with_first_version :: "Workflow \<Rightarrow> json \<Rightarrow> json option \<Rightarrow> string \<Rightarrow> Workflow service" where
  "with_first_version r elems elsa ownerId =
     andThen (insert_workflow r) (\<lambda>_.
     andThen new_id (\<lambda>vid.
     andThen (reading (\<lambda>w. version_row vid (wf_id r) 1 elems elsa ownerId (clock w))) (\<lambda>v.
     andThen (insert_version v) (\<lambda>_.
     save_workflow (r\<lparr>wf_currentVersion := 1\<rparr>)))))"

definition createWorkflow :: "CreateWorkflowDto \<Rightarrow> string \<Rightarrow> string \<Rightarrow> Workflow service" where
  "createWorkflow dto orgId ownerId =
     andThen new_id (\<lambda>i.
     andThen (reading (\<lambda>w. new_workflow dto orgId ownerId i (clock w))) (\<lambda>r.
     andThen (with_first_version r (JObj []) None ownerId) (\<lambda>saved.
     andThen (workflowAudit (wf_id saved) ownerId ''WORKFLOW_CREATED'' None
       (Some (JObj [(''title'', JStr (wf_title saved)), (''status'', JStr (workflow_status_str (wf_status saved)))]))) (\<lambda>_.
     findWorkflow (wf_id saved) orgId))))"

section \<open>Reading\<close>

definition findLatestVersion :: "string \<Rightarrow> world \<Rightarrow> WorkflowVersion option" where
  "findLatestVersion workflowId w = max_by wv_versionNumber (filter (\<lambda>v. wv_workflowId v = workflowId) (versionRows w))"

definition findOneWithLatestVersion :: "string \<Rightarrow> string \<Rightarrow> (Workflow \<times> WorkflowVersion option) service" where
  "findOneWithLatestVersion i orgId =
     andThen (findWorkflow i orgId) (\<lambda>workflow.
     andThen (reading (findLatestVersion i)) (\<lambda>latest. ret (workflow, latest)))"

text \<open>\<open>ILIKE\<close>: \<open>%\<close> matches any text, \<open>_\<close> one character, a backslash takes the next character literally.\<close>

fun ilike :: "string \<Rightarrow> string \<Rightarrow> bool" where
  "ilike [] s = (s = [])"
| "ilike (p # ps) s =
     (if p = CHR ''%'' then ilike ps s \<or> (case s of [] \<Rightarrow> False | c # cs \<Rightarrow> ilike (p # ps) cs)
      else if p = CHR ''_'' then (case s of [] \<Rightarrow> False | c # cs \<Rightarrow> ilike ps cs)
      else if p = CHR 0x5C then (case ps of [] \<Rightarrow> False
        | q # qs \<Rightarrow> (case s of [] \<Rightarrow> False | c # cs \<Rightarrow> ascii_lower q = ascii_lower c \<and> ilike qs cs))
      else (case s of [] \<Rightarrow> False | c # cs \<Rightarrow> ascii_lower p = ascii_lower c \<and> ilike ps cs))"

definition listed :: "WorkflowFilterDto \<Rightarrow> string \<Rightarrow> Workflow \<Rightarrow> bool" where
  "listed dto orgId x \<longleftrightarrow>
     wf_orgId x = orgId \<and> wf_status x \<noteq> WorkflowStatus.ARCHIVED \<and>
     optionally (\<lambda>s. wf_status x = s) (wq_status dto) \<and>
     (truthy (wq_domain dto) \<longrightarrow> wf_domain x = wq_domain dto) \<and>
     optionally (\<lambda>ts. ts \<noteq> [] \<longrightarrow> set ts \<inter> set (wf_tags x) \<noteq> {}) (wq_tags dto) \<and>
     (truthy (wq_projectId dto) \<longrightarrow> wf_projectId x = wq_projectId dto) \<and>
     (truthy (wq_search dto) \<longrightarrow> optionally (\<lambda>s. ilike (''%'' @ s @ ''%'') (wf_title x) \<or>
        (case wf_description x of None \<Rightarrow> False | Some d \<Rightarrow> ilike (''%'' @ s @ ''%'') d)) (wq_search dto))"

definition findAllWorkflows :: "WorkflowFilterDto \<Rightarrow> string \<Rightarrow> world \<Rightarrow> Workflow list \<times> nat" where
  "findAllWorkflows dto orgId w =
     (let hits = filter (listed dto orgId) (workflowRows w)
      in (page_of (wq_page dto) (wq_limit dto) (sort_desc wf_updatedAt hits), length hits))"

definition findVersions :: "string \<Rightarrow> string \<Rightarrow> WorkflowVersion list service" where
  "findVersions i orgId =
     andThen (findWorkflow i orgId) (\<lambda>_.
     reading (\<lambda>w. sort_desc wv_versionNumber (filter (\<lambda>v. wv_workflowId v = i) (versionRows w))))"

definition find_version :: "string \<Rightarrow> int \<Rightarrow> world \<Rightarrow> WorkflowVersion option" where
  "find_version i number w = find (\<lambda>v. wv_workflowId v = i \<and> wv_versionNumber v = number) (versionRows w)"

definition findVersion :: "string \<Rightarrow> int \<Rightarrow> string \<Rightarrow> WorkflowVersion service" where
  "findVersion i number orgId =
     andThen (findWorkflow i orgId) (\<lambda>_.
     (\<lambda>w. orThrow (find_version i number w)
       (NotFoundException (JStr (''Version '' @ int_str number @ '' not found for workflow '' @ i))) w))"

section \<open>Changes\<close>

definition or_title :: "string option \<Rightarrow> string \<Rightarrow> string" where
  "or_title t old = (if truthy t then the t else old)"

definition patch_workflow :: "UpdateWorkflowDto \<Rightarrow> Workflow \<Rightarrow> Workflow" where
  "patch_workflow dto x = x\<lparr>
     wf_title := or_title (uw_title dto) (wf_title x),
     wf_description := (case uw_description dto of None \<Rightarrow> wf_description x | Some d \<Rightarrow> d),
     wf_domain := (case uw_domain dto of None \<Rightarrow> wf_domain x | Some d \<Rightarrow> d),
     wf_tags := (case uw_tags dto of None \<Rightarrow> wf_tags x | Some ts \<Rightarrow> ts),
     wf_status := (case uw_status dto of None \<Rightarrow> wf_status x | Some s \<Rightarrow> s)\<rparr>"

definition update_workflow :: "string \<Rightarrow> (Workflow \<Rightarrow> Workflow) \<Rightarrow> unit service" where
  "update_workflow i f = writing (\<lambda>w. workflowRows_update (map (\<lambda>x. if wf_id x = i then (f x)\<lparr>wf_updatedAt := clock w\<rparr> else x)) w)"

text \<open>The transaction: the next number is read from the row, the version inserted, the row moved on.\<close>

definition append_version :: "string \<Rightarrow> json \<Rightarrow> string \<Rightarrow> unit service" where
  "append_version i elems callerId =
     in_transaction
       (andThen (reading (\<lambda>w. case find_row wf_id i (workflowRows w) of None \<Rightarrow> 1 | Some x \<Rightarrow> wf_currentVersion x + 1)) (\<lambda>n.
        andThen new_id (\<lambda>vid.
        andThen (reading (\<lambda>w. version_row vid i n elems None callerId (clock w))) (\<lambda>v.
        andThen (insert_version v) (\<lambda>_.
        update_workflow i (\<lambda>x. x\<lparr>wf_currentVersion := n\<rparr>))))))"

definition workflow_state :: "Workflow \<Rightarrow> json" where
  "workflow_state x = JObj [(''title'', JStr (wf_title x)), (''status'', JStr (workflow_status_str (wf_status x))),
     (''currentVersion'', json_int (wf_currentVersion x))]"

definition updateWorkflow :: "string \<Rightarrow> UpdateWorkflowDto \<Rightarrow> RequestUser \<Rightarrow> Workflow service" where
  "updateWorkflow i dto caller =
     andThen (findWorkflow i (rq_orgId caller)) (\<lambda>workflow.
     andThen (check (wf_ownerId workflow = rq_id caller \<or> rq_role caller = ''admin'')
       (ForbiddenException (JStr ''Only owner or admin can update this workflow''))) (\<lambda>_.
     let patched = patch_workflow dto workflow; isVersionUpdate = json_truthy (uw_elements_json dto) in
     andThen (unless (\<not> isVersionUpdate) (append_version i (the (uw_elements_json dto)) (rq_id caller))) (\<lambda>_.
     let next = (if isVersionUpdate then patched\<lparr>wf_currentVersion := wf_currentVersion patched + 1\<rparr> else patched) in
     andThen (save_workflow next) (\<lambda>saved.
     andThen (workflowAudit i (rq_id caller) (if isVersionUpdate then ''WORKFLOW_VERSION_CREATED'' else ''WORKFLOW_UPDATED'')
       (Some (workflow_state workflow)) (Some (workflow_state saved))) (\<lambda>_.
     andThen (unless (\<not> isVersionUpdate) (andThen new_id (\<lambda>correlation. publishWorkflowUpdated
       \<lparr>wu_workflow_id = i, wu_version_number = wf_currentVersion saved, wu_changed_elements = JArr [],
        wu_source = (case uw_source dto of None \<Rightarrow> ''user'' | Some s \<Rightarrow> s), wu_actor_id = None,
        wu_correlation_id = correlation\<rparr>))) (\<lambda>_.
     findWorkflow i (rq_orgId caller)))))))"

definition archiveWorkflow :: "string \<Rightarrow> RequestUser \<Rightarrow> Workflow service" where
  "archiveWorkflow i caller =
     andThen (findWorkflow i (rq_orgId caller)) (\<lambda>workflow.
     andThen (check (wf_ownerId workflow = rq_id caller \<or> rq_role caller = ''admin'')
       (ForbiddenException (JStr ''Only owner or admin can archive this workflow''))) (\<lambda>_.
     andThen (save_workflow (workflow\<lparr>wf_status := WorkflowStatus.ARCHIVED\<rparr>)) (\<lambda>saved.
     andThen (workflowAudit i (rq_id caller) ''WORKFLOW_ARCHIVED''
       (Some (JObj [(''status'', JStr (workflow_status_str (wf_status workflow)))]))
       (Some (JObj [(''status'', JStr (workflow_status_str WorkflowStatus.ARCHIVED))]))) (\<lambda>_.
     ret saved))))"

definition duplicate_of :: "Workflow \<Rightarrow> string \<Rightarrow> string \<Rightarrow> string option \<Rightarrow> string \<Rightarrow> time \<Rightarrow> Workflow" where
  "duplicate_of x orgId ownerId title i now =
     (new_workflow \<lparr>cw_projectId = None, cw_title = (case title of None \<Rightarrow> ''Copy of '' @ wf_title x | Some t \<Rightarrow> t),
        cw_description = wf_description x, cw_domain = wf_domain x, cw_tags = Some (wf_tags x)\<rparr> orgId ownerId i now)"

definition duplicateWorkflow :: "string \<Rightarrow> string \<Rightarrow> string \<Rightarrow> string option \<Rightarrow> Workflow service" where
  "duplicateWorkflow i orgId ownerId title =
     andThen (findWorkflow i orgId) (\<lambda>workflow.
     andThen (reading (findLatestVersion i)) (\<lambda>latest.
     andThen new_id (\<lambda>k.
     andThen (reading (\<lambda>w. duplicate_of workflow orgId ownerId title k (clock w))) (\<lambda>r.
     andThen (with_first_version r (case latest of None \<Rightarrow> JObj [] | Some v \<Rightarrow> nullish (Some (wv_elementsJson v)) (JObj []))
       (case latest of None \<Rightarrow> None | Some v \<Rightarrow> wv_elsaJson v) ownerId) (\<lambda>saved.
     findWorkflow (wf_id saved) orgId)))))"

section \<open>Differences and diagrams\<close>

definition extractElements :: "json \<Rightarrow> json list" where
  "extractElements e = (case field e ''elements'' of Some (JArr xs) \<Rightarrow> xs | _ \<Rightarrow> [])"

text \<open>Ids compare as \<open>===\<close> does: an object is equal to nothing else.\<close>

definition same_id :: "json option \<Rightarrow> json option \<Rightarrow> bool" where
  "same_id a b \<longleftrightarrow> a = b \<and> (case a of None \<Rightarrow> True | Some v \<Rightarrow> is_primitive v)"

definition has_id :: "json list \<Rightarrow> json \<Rightarrow> bool" where
  "has_id xs e \<longleftrightarrow> (\<exists>x \<in> set xs. same_id (field x ''id'') (field e ''id''))"

definition changed_in :: "json list \<Rightarrow> json \<Rightarrow> bool" where
  "changed_in xs e \<longleftrightarrow> (case find (\<lambda>o1. same_id (field o1 ''id'') (field e ''id'')) xs of
     None \<Rightarrow> False | Some old \<Rightarrow> stringify old \<noteq> stringify e)"

record WorkflowDiff =
  df_added :: "json list"
  df_removed :: "json list"
  df_modified :: "json list"

definition diff_elements :: "json list \<Rightarrow> json list \<Rightarrow> WorkflowDiff" where
  "diff_elements xs ys =
     \<lparr>df_added = filter (\<lambda>e. \<not> has_id xs e) ys, df_removed = filter (\<lambda>e. \<not> has_id ys e) xs,
      df_modified = filter (changed_in xs) ys\<rparr>"

definition computeDiff :: "string \<Rightarrow> int \<Rightarrow> int \<Rightarrow> string \<Rightarrow> WorkflowDiff service" where
  "computeDiff i v1 v2 orgId =
     andThen (findWorkflow i orgId) (\<lambda>_.
     andThen (reading (\<lambda>w. (find_version i v1 w, find_version i v2 w))) (\<lambda>found.
     (case found of
        (Some a, Some b) \<Rightarrow>
          (let xs = extractElements (wv_elementsJson a); ys = extractElements (wv_elementsJson b) in
           andThen (check (JNull \<notin> set xs \<union> set ys) (TypeError ''Cannot read properties of null'')) (\<lambda>_.
           ret (diff_elements xs ys)))
      | _ \<Rightarrow> throw (NotFoundException (JStr ''One or both versions not found'')))))"

definition getDiagramData :: "string \<Rightarrow> string \<Rightarrow> (json \<times> json) service" where
  "getDiagramData i orgId =
     andThen (findWorkflow i orgId) (\<lambda>_.
     reading (\<lambda>w. let e = nullish (map_option wv_elementsJson (findLatestVersion i w)) (JObj [])
       in (nullish (field e ''nodes'') (JArr []), nullish (field e ''edges'') (JArr []))))"

end
