(* ===== verification/Versions.thy ===== *)
theory Versions
  imports Workflows
begin

text \<open>
  The version history: what every operation that writes workflows or versions keeps, and the abstract
  history it refines - a counter per workflow that starts at one and counts up.
\<close>

section \<open>The abstract history\<close>

type_synonym pointer_state = "(string \<times> int) list \<times> WorkflowVersion list"

definition pointers :: "world \<Rightarrow> pointer_state" where
  "pointers w = (map (\<lambda>x. (wf_id x, wf_currentVersion x)) (workflowRows w), versionRows w)"

definition vkey :: "WorkflowVersion \<Rightarrow> string \<times> int" where
  "vkey v = (wv_workflowId v, wv_versionNumber v)"

text \<open>The pointer of every workflow is the number of its versions, which are numbered 1, 2, ..., each once.\<close>

definition consistent :: "pointer_state \<Rightarrow> bool" where
  "consistent h \<longleftrightarrow> distinct (map fst (fst h)) \<and> distinct (map vkey (snd h)) \<and>
     (\<forall>v \<in> set (snd h). wv_workflowId v \<in> fst ` set (fst h)) \<and>
     (\<forall>(i, n) \<in> set (fst h). 0 \<le> n \<and> (\<forall>k. (i, k) \<in> vkey ` set (snd h) \<longleftrightarrow> 1 \<le> k \<and> k \<le> n))"

definition counters :: "pointer_state \<Rightarrow> string \<Rightarrow> int option" where
  "counters h = map_of (fst h)"

inductive history_step :: "(string \<Rightarrow> int option) \<Rightarrow> (string \<Rightarrow> int option) \<Rightarrow> bool" where
  same: "history_step c c"
| fresh: "c i = None \<Longrightarrow> history_step c (c(i \<mapsto> 1))"
| bump: "c i = Some n \<Longrightarrow> history_step c (c(i \<mapsto> n + 1))"

inductive_simps history_step_simps: "history_step c d"

definition refines :: "pointer_state \<Rightarrow> pointer_state \<Rightarrow> bool" where
  "refines h k \<longleftrightarrow> (consistent h \<longrightarrow>
     consistent k \<and> history_step (counters h) (counters k) \<and> prefix (snd h) (snd k))"

lemma refines_refl: "refines h h"
  by (simp add: refines_def history_step.same)

lemma consistentD:
  assumes "consistent (R, V)"
  shows "distinct (map fst R)" "distinct (map vkey V)" "v \<in> set V \<Longrightarrow> wv_workflowId v \<in> fst ` set R"
    "(i, n) \<in> set R \<Longrightarrow> 0 \<le> n" "(i, n) \<in> set R \<Longrightarrow> (i, k) \<in> vkey ` set V \<longleftrightarrow> 1 \<le> k \<and> k \<le> n"
  using assms by (simp_all add: consistent_def split_beta) force+

lemma consistentI:
  assumes "distinct (map fst R)" "distinct (map vkey V)" "\<And>v. v \<in> set V \<Longrightarrow> wv_workflowId v \<in> fst ` set R"
    "\<And>i n. (i, n) \<in> set R \<Longrightarrow> 0 \<le> n" "\<And>i n k. (i, n) \<in> set R \<Longrightarrow> (i, k) \<in> vkey ` set V \<longleftrightarrow> 1 \<le> k \<and> k \<le> n"
  shows "consistent (R, V)"
  using assms by (simp add: consistent_def split_beta) force

lemma consistent_fresh:
  assumes c: "consistent (R, V)" and i: "i \<notin> fst ` set R" and v: "vkey v = (i, 1)"
  shows "consistent (R @ [(i, 1)], V @ [v])" "counters (R @ [(i, 1)], V @ [v]) = (counters (R, V))(i \<mapsto> 1)"
proof -
  have no: "(i, k) \<notin> vkey ` set V" for k using consistentD(3) [OF c] i by (auto simp: vkey_def)
  have wv: "wv_workflowId v = i" using v by (simp add: vkey_def)
  show "consistent (R @ [(i, 1)], V @ [v])"
  proof (rule consistentI)
    show "distinct (map fst (R @ [(i, 1)]))" using consistentD(1) [OF c] i by simp
    show "distinct (map vkey (V @ [v]))" using consistentD(2) [OF c] no v by simp
    show "wv_workflowId u \<in> fst ` set (R @ [(i, 1)])" if "u \<in> set (V @ [v])" for u
      using that consistentD(3) [OF c, of u] wv by auto
    show "0 \<le> n" if "(j, n) \<in> set (R @ [(i, 1)])" for j n using that consistentD(4) [OF c, of j n] by auto
    show "(j, k) \<in> vkey ` set (V @ [v]) \<longleftrightarrow> 1 \<le> k \<and> k \<le> n" if "(j, n) \<in> set (R @ [(i, 1)])" for j n k
    proof (cases "j = i")
      case True
      then have "n = 1" using that i by (auto simp: image_iff)
      then show ?thesis using True no v by auto
    next
      case False
      then show ?thesis using that v consistentD(5) [OF c, of j n k] by auto
    qed
  qed
  have "map_of (R @ [(i, 1)]) = (map_of R)(i \<mapsto> 1)"
    using i by (induction R) auto
  then show "counters (R @ [(i, 1)], V @ [v]) = (counters (R, V))(i \<mapsto> 1)" by (simp add: counters_def)
qed

definition set_counter :: "string \<Rightarrow> int \<Rightarrow> (string \<times> int) list \<Rightarrow> (string \<times> int) list" where
  "set_counter i n R = map (\<lambda>p. if fst p = i then (i, n) else p) R"

lemma set_counter_keys [simp]: "map fst (set_counter i n R) = map fst R"
  by (simp add: set_counter_def)

lemma set_counter_same: "distinct (map fst R) \<Longrightarrow> (i, n) \<in> set R \<Longrightarrow> set_counter i n R = R"
  unfolding set_counter_def by (rule map_idI) (auto dest: eq_key_imp_eq_value)

lemma map_of_set_counter: "map_of (set_counter i n R) j = (if j = i \<and> i \<in> fst ` set R then Some n else map_of R j)"
proof (induction R)
  case (Cons p R)
  then show ?case by (cases "fst p = i"; cases p) (auto simp: set_counter_def rev_image_eqI)
qed (simp add: set_counter_def)

lemma consistent_bump:
  assumes c: "consistent (R, V)" and i: "(i, n) \<in> set R" and v: "vkey v = (i, n + 1)"
  shows "consistent (set_counter i (n + 1) R, V @ [v])"
    "counters (set_counter i (n + 1) R, V @ [v]) = (counters (R, V))(i \<mapsto> n + 1)" "counters (R, V) i = Some n"
proof -
  have ks: "fst ` set (set_counter i (n + 1) R) = fst ` set R" by (metis list.set_map set_counter_keys)
  have iR: "i \<in> fst ` set R" using i by force
  show "consistent (set_counter i (n + 1) R, V @ [v])"
  proof (rule consistentI)
    show "distinct (map fst (set_counter i (n + 1) R))" using consistentD(1) [OF c] by simp
    have "(i, n + 1) \<notin> vkey ` set V" using consistentD(5) [OF c i, of "n + 1"] by simp
    then show "distinct (map vkey (V @ [v]))" using consistentD(2) [OF c] v by simp
    show "wv_workflowId u \<in> fst ` set (set_counter i (n + 1) R)" if "u \<in> set (V @ [v])" for u
      using that consistentD(3) [OF c, of u] v iR ks by (auto simp: vkey_def)
    show "0 \<le> m" if "(j, m) \<in> set (set_counter i (n + 1) R)" for j m
      using that consistentD(4) [OF c] i by (fastforce simp: set_counter_def split: if_splits)
    show "(j, k) \<in> vkey ` set (V @ [v]) \<longleftrightarrow> 1 \<le> k \<and> k \<le> m" if "(j, m) \<in> set (set_counter i (n + 1) R)" for j m k
    proof (cases "j = i")
      case True
      then have "m = n + 1" using that by (auto simp: set_counter_def split: if_splits)
      moreover have "(i, k) \<in> vkey ` set (V @ [v]) \<longleftrightarrow> k = n + 1 \<or> 1 \<le> k \<and> k \<le> n"
        using v consistentD(5) [OF c i, of k] by auto
      ultimately show ?thesis using True consistentD(4) [OF c i] by auto
    next
      case False
      then have "(j, m) \<in> set R" using that by (auto simp: set_counter_def split: if_splits)
      then show ?thesis using False v consistentD(5) [OF c, of j m k] by auto
    qed
  qed
  show "counters (set_counter i (n + 1) R, V @ [v]) = (counters (R, V))(i \<mapsto> n + 1)"
    using iR by (auto simp: counters_def fun_eq_iff map_of_set_counter)
  show "counters (R, V) i = Some n" using consistentD(1) [OF c] i by (simp add: counters_def)
qed

lemma refines_fresh:
  "i \<notin> fst ` set R \<Longrightarrow> vkey v = (i, 1) \<Longrightarrow> refines (R, V) (R @ [(i, 1)], V @ [v])"
  using consistent_fresh [of R V i v] by (auto simp: refines_def counters_def map_of_eq_None_iff intro!: history_step.fresh)

lemma refines_bump:
  "(i, n) \<in> set R \<Longrightarrow> vkey v = (i, n + 1) \<Longrightarrow> refines (R, V) (set_counter i (n + 1) R, V @ [v])"
  using consistent_bump [of R V i n v] history_step.bump by (simp add: refines_def)

section \<open>The operations\<close>

lemma keys_pointers: "fst ` set (fst (pointers w)) = wf_id ` set (workflowRows w)"
  by (simp add: pointers_def image_image)

lemma distinct_ids: "consistent (pointers w) \<Longrightarrow> distinct (map wf_id (workflowRows w))"
  by (simp add: pointers_def consistent_def comp_def)

lemma found_row:
  assumes "consistent (pointers w)" "find (\<lambda>x. wf_id x = i \<and> wf_orgId x = g) (workflowRows w) = Some x"
  shows "find_row wf_id i (workflowRows w) = Some x" "wf_id x = i" "(i, wf_currentVersion x) \<in> set (fst (pointers w))"
  using find_row_distinct [OF distinct_ids [OF assms(1)], of x] find_Some_set [OF assms(2)]
  by (auto simp: pointers_def)

lemma findWorkflow_run:
  "findWorkflow i g w = (case find (\<lambda>x. wf_id x = i \<and> wf_orgId x = g) (workflowRows w) of
     None \<Rightarrow> Inl (NotFoundException (JStr (''Workflow '' @ i @ '' not found''))) | Some x \<Rightarrow> Inr x, w)"
  by (simp add: findWorkflow_def orThrow_def split: option.splits)

lemma untouched_findWorkflow [untouched_intros]: "untouched f (findWorkflow i g)"
  by (simp add: untouched_def findWorkflow_run)

lemma pointers_frame [simp]:
  "pointers (w\<lparr>idNext := n\<rparr>) = pointers w" "pointers (auditRows_update a w) = pointers w"
  "pointers (published_update p w) = pointers w"
  by (simp_all add: pointers_def)

lemma untouched_pointers [untouched_intros]:
  "untouched pointers new_id" "untouched pointers (workflowAudit i u e b a)" "untouched pointers (publishWorkflowUpdated ev)"
  by (simp_all add: untouched_intros workflowAudit_def publish_defs)

text \<open>Saving a row whose pointer did not move.\<close>

lemma save_same_pointer:
  assumes "find_row wf_id (wf_id r) (workflowRows w) = Some old" "wf_currentVersion old = wf_currentVersion r"
    "distinct (map wf_id (workflowRows w))"
  shows "\<exists>r' v. save_workflow r w = (Inr r', v) \<and> pointers v = pointers w \<and> wf_id r' = wf_id r \<and>
     wf_currentVersion r' = wf_currentVersion r \<and> published v = published w \<and> natsUp v = natsUp w"
proof -
  let ?r = "if find_row wf_id (wf_id r) (workflowRows w) = Some r then r else r\<lparr>wf_updatedAt := clock w\<rparr>"
  have r: "wf_id ?r = wf_id r" "wf_currentVersion ?r = wf_currentVersion r" by auto
  have old: "old \<in> set (workflowRows w)" "wf_id old = wf_id r" using find_row_Some [OF assms(1)] by auto
  have "map (\<lambda>x. (wf_id x, wf_currentVersion x)) (save_row wf_id ?r (workflowRows w)) =
      map (\<lambda>x. (wf_id x, wf_currentVersion x)) (workflowRows w)"
  proof -
    have "wf_id ?r \<in> wf_id ` set (workflowRows w)" using old r by (metis image_eqI)
    moreover have "wf_currentVersion x = wf_currentVersion r" if "x \<in> set (workflowRows w)" "wf_id x = wf_id r" for x
      using find_row_distinct [OF assms(3) that(1)] that(2) assms(1,2) by simp
    ultimately show ?thesis using r by (auto simp: save_row_def)
  qed
  then show ?thesis
    using assms(1,2) r by (auto simp: save_workflow_def run_simps enforce_workflow_current_version_def pointers_def Let_def)
qed

lemma latest_number_bounds:
  "0 \<le> latest_number i w" "v \<in> set (versionRows w) \<Longrightarrow> wv_workflowId v = i \<Longrightarrow> wv_versionNumber v \<le> latest_number i w"
proof -
  have "0 \<le> foldr max ns (0 :: int)" for ns by (induction ns) auto
  then show "0 \<le> latest_number i w" by (simp add: latest_number_def)
  have "n \<in> set ns \<Longrightarrow> n \<le> foldr max ns (0 :: int)" for n ns by (induction ns) auto
  then show "v \<in> set (versionRows w) \<Longrightarrow> wv_workflowId v = i \<Longrightarrow> wv_versionNumber v \<le> latest_number i w"
    by (simp add: latest_number_def)
qed

lemma no_versions: "consistent (pointers w) \<Longrightarrow> i \<notin> wf_id ` set (workflowRows w) \<Longrightarrow> v \<in> set (versionRows w) \<Longrightarrow> wv_workflowId v \<noteq> i"
  using consistentD(3) [of "fst (pointers w)" "snd (pointers w)" v] keys_pointers [of w] by (auto simp: pointers_def)

lemma insert_version_run:
  assumes "workflowExists (wv_workflowId v) w" "vkey v \<notin> vkey ` set (versionRows w)"
  shows "insert_version v w = (Inr (), versionRows_update (\<lambda>rs. rs @ [v]) w)"
proof -
  have "\<not> (\<exists>x \<in> set (versionRows w). wv_workflowId x = wv_workflowId v \<and> wv_versionNumber x = wv_versionNumber v)"
    using assms(2) by (simp add: vkey_def image_iff) metis
  then show ?thesis using assms(1) by (simp add: insert_version_def run_simps)
qed

lemma insert_workflow_run:
  assumes "wf_currentVersion r = 0"
  shows "insert_workflow r w = (if wf_id r \<in> wf_id ` set (workflowRows w) then (Inl (QueryFailedError ''workflow_pkey''), w)
     else (Inr (), workflowRows_update (\<lambda>rs. rs @ [r]) w))"
  using assms latest_number_bounds(1) [of "wf_id r" w]
  by (simp add: insert_workflow_def enforce_workflow_current_version_def run_simps)

text \<open>A workflow row, its first version, the pointer: all succeed for an id that is new, otherwise nothing is written.\<close>

lemma with_first_version_pointers:
  assumes c: "consistent (pointers w)" and r: "wf_currentVersion r = 0" "wf_id r \<notin> wf_id ` set (workflowRows w)"
  shows "\<exists>saved v ver. with_first_version r e l owner w = (Inr saved, v) \<and> wf_id saved = wf_id r \<and>
     pointers v = (fst (pointers w) @ [(wf_id r, 1)], versionRows w @ [ver]) \<and> vkey ver = (wf_id r, 1) \<and>
     wv_elementsJson ver = e"
proof -
  let ?ver = "version_row (idSupply w (idNext w)) (wf_id r) 1 e l owner (clock w)"
  let ?w1 = "workflowRows_update (\<lambda>rs. rs @ [r]) w\<lparr>idNext := Suc (idNext w)\<rparr>"
  let ?w = "versionRows_update (\<lambda>rs. rs @ [?ver]) ?w1"
  have k: "vkey ?ver = (wf_id r, 1)" by (simp add: vkey_def version_row_def)
  have "insert_version ?ver ?w1 = (Inr (), ?w)"
    by (rule insert_version_run)
      (auto simp: workflowExists_def version_row_def vkey_def dest: no_versions [OF c r(2)])
  moreover have "find_row wf_id (wf_id r) (workflowRows w @ [r]) = Some r"
    using r(2) by (simp add: find_row_append find_row_None [THEN iffD2] split: option.splits) (simp add: find_row_def)
  moreover have "1 \<le> latest_number (wf_id r) ?w"
    using latest_number_bounds(2) [of ?ver ?w "wf_id r"] by (simp add: version_row_def)
  moreover have "r \<noteq> r\<lparr>wf_currentVersion := 1\<rparr>"
  proof
    assume "r = r\<lparr>wf_currentVersion := 1\<rparr>"
    then have "wf_currentVersion r = wf_currentVersion (r\<lparr>wf_currentVersion := 1\<rparr>)" by (rule arg_cong)
    then show False using r(1) by simp
  qed
  ultimately show ?thesis
    using r k by (auto simp: with_first_version_def insert_workflow_run run_simps save_workflow_def Let_def
        enforce_workflow_current_version_def pointers_def save_row_def version_row_def image_iff intro!: map_idI)
qed

lemma append_version_pointers:
  assumes c: "consistent (pointers w)" and x: "find_row wf_id i (workflowRows w) = Some x"
  shows "\<exists>v ver y. append_version i e caller w = (Inr (), v) \<and>
     pointers v = (set_counter i (wf_currentVersion x + 1) (fst (pointers w)), versionRows w @ [ver]) \<and>
     vkey ver = (i, wf_currentVersion x + 1) \<and> wv_elementsJson ver = e \<and> wv_createdBy ver = Some caller \<and>
     find_row wf_id i (workflowRows v) = Some y \<and> wf_currentVersion y = wf_currentVersion x + 1 \<and>
     published v = published w \<and> natsUp v = natsUp w"
proof -
  let ?n = "wf_currentVersion x + 1"
  let ?ver = "version_row (idSupply w (idNext w)) i ?n e None caller (clock w)"
  let ?f = "\<lambda>x. if wf_id x = i then x\<lparr>wf_currentVersion := ?n, wf_updatedAt := clock w\<rparr> else x"
  have x': "x \<in> set (workflowRows w)" "wf_id x = i" using find_row_Some [OF x] by auto
  have k: "vkey ?ver = (i, ?n)" "wv_elementsJson ?ver = e" "wv_createdBy ?ver = Some caller" "wv_workflowId ?ver = i"
    by (simp_all add: vkey_def version_row_def)
  have "(i, wf_currentVersion x) \<in> set (fst (pointers w))" using x' by (auto simp: pointers_def)
  then have "(i, ?n) \<notin> vkey ` set (versionRows w)"
    using consistentD(5) [of "fst (pointers w)" "versionRows w" i "wf_currentVersion x" ?n] c by (simp add: pointers_def)
  then have ins: "insert_version ?ver (w\<lparr>idNext := Suc (idNext w)\<rparr>) =
      (Inr (), versionRows_update (\<lambda>rs. rs @ [?ver]) (w\<lparr>idNext := Suc (idNext w)\<rparr>))"
    using x' k by (intro insert_version_run) (auto simp: workflowExists_def)
  have rows: "find_row wf_id i (map ?f rows) = map_option ?f (find_row wf_id i rows)" for rows
    by (induction rows) (auto simp: find_row_def)
  have "append_version i e caller w = (Inr (), workflowRows_update (map ?f)
      (versionRows_update (\<lambda>rs. rs @ [?ver]) (w\<lparr>idNext := Suc (idNext w)\<rparr>)))"
    using x ins by (simp add: append_version_def in_transaction_def run_simps update_workflow_def)
  then show ?thesis
    using k rows [of "workflowRows w"] x x' by (auto simp: pointers_def set_counter_def)
qed

section \<open>Commands\<close>

datatype WorkflowCommand =
    CreateW CreateWorkflowDto string string
  | UpdateW string UpdateWorkflowDto RequestUser
  | ArchiveW string RequestUser
  | DuplicateW string string string "string option"

fun exec_workflow :: "WorkflowCommand \<Rightarrow> unit service" where
  "exec_workflow (CreateW dto orgId ownerId) = forget (createWorkflow dto orgId ownerId)"
| "exec_workflow (UpdateW i dto caller) = forget (updateWorkflow i dto caller)"
| "exec_workflow (ArchiveW i caller) = forget (archiveWorkflow i caller)"
| "exec_workflow (DuplicateW i orgId ownerId title) = forget (duplicateWorkflow i orgId ownerId title)"

lemma with_first_version_taken:
  "wf_currentVersion r = 0 \<Longrightarrow> wf_id r \<in> wf_id ` set (workflowRows w) \<Longrightarrow>
     with_first_version r e l owner w = (Inl (QueryFailedError ''workflow_pkey''), w)"
  by (simp add: with_first_version_def insert_workflow_run run_simps)

text \<open>The first version of a new workflow, followed by operations that touch no history.\<close>

lemma first_version_refines:
  assumes "wf_currentVersion r = 0" "\<And>x. untouched pointers (k x)"
  shows "refines (pointers w) (pointers (snd (andThen (with_first_version r e l owner) k w)))"
proof (cases "wf_id r \<in> wf_id ` set (workflowRows w)")
  case True
  then show ?thesis using assms(1) by (simp add: with_first_version_taken run_simps refines_refl)
next
  case False
  have "refines (pointers w) (pointers (snd (andThen (with_first_version r e l owner) k w)))" if c: "consistent (pointers w)"
  proof -
    obtain saved v ver where s: "with_first_version r e l owner w = (Inr saved, v)"
      "pointers v = (fst (pointers w) @ [(wf_id r, 1)], versionRows w @ [ver])" "vkey ver = (wf_id r, 1)"
      using with_first_version_pointers [OF c assms(1) False] by blast
    have "pointers (snd (andThen (with_first_version r e l owner) k w)) = pointers v"
      using untouched_rest [where m = "with_first_version r e l owner", OF s(1), of pointers k] assms(2) by blast
    moreover have "wf_id r \<notin> fst ` set (fst (pointers w))" using False by (simp add: keys_pointers)
    ultimately show ?thesis
      using s refines_fresh [of "wf_id r" "fst (pointers w)" ver "versionRows w"] by (simp add: pointers_def)
  qed
  then show ?thesis by (auto simp: refines_def)
qed

lemma create_refines: "refines (pointers w) (pointers (snd (createWorkflow dto orgId ownerId w)))"
proof -
  let ?r = "new_workflow dto orgId ownerId (idSupply w (idNext w)) (clock w)"
  have "refines (pointers (w\<lparr>idNext := Suc (idNext w)\<rparr>)) (pointers (snd (createWorkflow dto orgId ownerId w)))"
    unfolding createWorkflow_def
    by (simp add: run_simps del: pointers_frame, rule first_version_refines)
      (auto simp: new_workflow_def intro!: untouched_intros)
  then show ?thesis by simp
qed

lemma duplicate_refines: "refines (pointers w) (pointers (snd (duplicateWorkflow i orgId ownerId title w)))"
proof (cases "find (\<lambda>x. wf_id x = i \<and> wf_orgId x = orgId) (workflowRows w)")
  case None
  then show ?thesis by (simp add: duplicateWorkflow_def findWorkflow_run run_simps refines_refl)
next
  case (Some x)
  have "refines (pointers (w\<lparr>idNext := Suc (idNext w)\<rparr>)) (pointers (snd (duplicateWorkflow i orgId ownerId title w)))"
    unfolding duplicateWorkflow_def
    by (simp add: run_simps findWorkflow_run [of i orgId w] Some del: pointers_frame, rule first_version_refines)
      (auto simp: duplicate_of_def new_workflow_def intro!: untouched_intros)
  then show ?thesis by simp
qed

lemma save_same_refines:
  assumes "find_row wf_id (wf_id r) (workflowRows w) = Some old" "wf_currentVersion old = wf_currentVersion r"
    "distinct (map wf_id (workflowRows w))" "\<And>x. untouched pointers (k x)"
  shows "pointers (snd (andThen (save_workflow r) k w)) = pointers w"
  using save_same_pointer [OF assms(1-3)] untouched_rest [of "save_workflow r" w _ _ pointers k] assms(4) by metis

lemma archive_refines: "refines (pointers w) (pointers (snd (archiveWorkflow i caller w)))"
proof -
  have "pointers (snd (archiveWorkflow i caller w)) = pointers w" if c: "consistent (pointers w)"
  proof (cases "find (\<lambda>x. wf_id x = i \<and> wf_orgId x = rq_orgId caller) (workflowRows w)")
    case None
    then show ?thesis by (simp add: archiveWorkflow_def findWorkflow_run run_simps)
  next
    case (Some x)
    note f = found_row [OF c Some]
    show ?thesis
    proof (cases "wf_ownerId x = rq_id caller \<or> rq_role caller = ''admin''")
      case False
      then show ?thesis by (simp add: archiveWorkflow_def findWorkflow_run run_simps Some)
    next
      case True
      then have "snd (archiveWorkflow i caller w) = snd (andThen (save_workflow (x\<lparr>wf_status := WorkflowStatus.ARCHIVED\<rparr>)) (\<lambda>saved.
        andThen (workflowAudit i (rq_id caller) ''WORKFLOW_ARCHIVED''
          (Some (JObj [(''status'', JStr (workflow_status_str (wf_status x)))]))
          (Some (JObj [(''status'', JStr (workflow_status_str WorkflowStatus.ARCHIVED))]))) (\<lambda>_. ret saved)) w)"
        by (auto simp: archiveWorkflow_def findWorkflow_run run_simps Some)
      then show ?thesis using f distinct_ids [OF c] by (auto intro!: save_same_refines untouched_intros)
    qed
  qed
  then show ?thesis by (metis refines_def refines_refl)
qed

lemma patch_keeps [simp]: "wf_id (patch_workflow dto x) = wf_id x" "wf_currentVersion (patch_workflow dto x) = wf_currentVersion x"
  by (simp_all add: patch_workflow_def)

definition is_version_update :: "UpdateWorkflowDto \<Rightarrow> bool" where
  "is_version_update dto \<longleftrightarrow> json_truthy (uw_elements_json dto)"

text \<open>What remains of an update once the row is saved.\<close>

definition after_save :: "string \<Rightarrow> UpdateWorkflowDto \<Rightarrow> RequestUser \<Rightarrow> Workflow \<Rightarrow> Workflow \<Rightarrow> Workflow service" where
  "after_save i dto caller workflow saved =
     andThen (workflowAudit i (rq_id caller) (if is_version_update dto then ''WORKFLOW_VERSION_CREATED'' else ''WORKFLOW_UPDATED'')
       (Some (workflow_state workflow)) (Some (workflow_state saved))) (\<lambda>_.
     andThen (unless (\<not> is_version_update dto) (andThen new_id (\<lambda>correlation. publishWorkflowUpdated
       \<lparr>wu_workflow_id = i, wu_version_number = wf_currentVersion saved, wu_changed_elements = JArr [],
        wu_source = (case uw_source dto of None \<Rightarrow> ''user'' | Some s \<Rightarrow> s), wu_actor_id = None,
        wu_correlation_id = correlation\<rparr>))) (\<lambda>_.
     findWorkflow i (rq_orgId caller)))"

lemma untouched_after_save [untouched_intros]: "untouched pointers (after_save i dto caller x saved)"
  unfolding after_save_def by (intro untouched_intros)

lemma update_run:
  assumes "find (\<lambda>x. wf_id x = i \<and> wf_orgId x = rq_orgId caller) (workflowRows w) = Some x"
    "wf_ownerId x = rq_id caller \<or> rq_role caller = ''admin''"
  shows "\<not> is_version_update dto \<Longrightarrow> updateWorkflow i dto caller w =
      andThen (save_workflow (patch_workflow dto x)) (after_save i dto caller x) w"
    "is_version_update dto \<Longrightarrow> append_version i (the (uw_elements_json dto)) (rq_id caller) w = (Inr (), v) \<Longrightarrow>
      updateWorkflow i dto caller w =
      andThen (save_workflow ((patch_workflow dto x)\<lparr>wf_currentVersion := wf_currentVersion x + 1\<rparr>)) (after_save i dto caller x) v"
  using assms by (auto simp: updateWorkflow_def findWorkflow_run run_simps Let_def after_save_def [abs_def]
      is_version_update_def unless_simps)

lemma update_refused:
  assumes "find (\<lambda>x. wf_id x = i \<and> wf_orgId x = rq_orgId caller) (workflowRows w) = None \<or>
    (\<exists>x. find (\<lambda>x. wf_id x = i \<and> wf_orgId x = rq_orgId caller) (workflowRows w) = Some x \<and>
      wf_ownerId x \<noteq> rq_id caller \<and> rq_role caller \<noteq> ''admin'')"
  shows "snd (updateWorkflow i dto caller w) = w"
  using assms by (auto simp: updateWorkflow_def findWorkflow_run run_simps)

lemma update_refines: "refines (pointers w) (pointers (snd (updateWorkflow i dto caller w)))"
proof -
  have "refines (pointers w) (pointers (snd (updateWorkflow i dto caller w)))" if c: "consistent (pointers w)"
  proof (cases "\<exists>x. find (\<lambda>x. wf_id x = i \<and> wf_orgId x = rq_orgId caller) (workflowRows w) = Some x \<and>
      (wf_ownerId x = rq_id caller \<or> rq_role caller = ''admin'')")
    case False
    then have "snd (updateWorkflow i dto caller w) = w"
      by (intro update_refused) (cases "find (\<lambda>x. wf_id x = i \<and> wf_orgId x = rq_orgId caller) (workflowRows w)"; auto)
    then show ?thesis by (simp add: refines_refl)
  next
    case True
    then obtain x where x: "find (\<lambda>x. wf_id x = i \<and> wf_orgId x = rq_orgId caller) (workflowRows w) = Some x"
      "wf_ownerId x = rq_id caller \<or> rq_role caller = ''admin''" by blast
    note f = found_row [OF c x(1)]
    show ?thesis
    proof (cases "is_version_update dto")
      case False
      have "pointers (snd (updateWorkflow i dto caller w)) = pointers w"
        unfolding update_run(1) [OF x False] using f distinct_ids [OF c]
        by (intro save_same_refines untouched_intros) auto
      then show ?thesis by (simp add: refines_refl)
    next
      case True
      let ?r = "(patch_workflow dto x)\<lparr>wf_currentVersion := wf_currentVersion x + 1\<rparr>"
      obtain v ver y where a: "append_version i (the (uw_elements_json dto)) (rq_id caller) w = (Inr (), v)"
        "pointers v = (set_counter i (wf_currentVersion x + 1) (fst (pointers w)), versionRows w @ [ver])"
        "vkey ver = (i, wf_currentVersion x + 1)" "find_row wf_id i (workflowRows v) = Some y"
        "wf_currentVersion y = wf_currentVersion x + 1"
        using append_version_pointers [OF c f(1)] by blast
      have r: "refines (pointers w) (pointers v)"
        using a(2,3) f(3) refines_bump [of i "wf_currentVersion x" "fst (pointers w)" ver "versionRows w"]
        by (simp add: pointers_def)
      then have d: "distinct (map wf_id (workflowRows v))" using c by (auto simp: refines_def intro: distinct_ids)
      have "pointers (snd (updateWorkflow i dto caller w)) = pointers v"
        unfolding update_run(2) [OF x True a(1)] using f a(4,5) d
        by (intro save_same_refines untouched_intros) auto
      then show ?thesis using r by simp
    qed
  qed
  then show ?thesis by (auto simp: refines_def)
qed

text \<open>C17. Version history refinement: whatever is asked of the workflow service, and whether it answers or throws,
the pointer of every workflow stays the number of its versions, the versions are numbered 1, 2, ... without gaps
or repetitions, and no version is ever changed or removed: each operation leaves all counters alone, or starts a
new workflow at one, or advances one workflow by one.\<close>

theorem workflow_history_refines:
  assumes "consistent (pointers w)" "exec_workflow c w = (r, v)"
  shows "consistent (pointers v) \<and> history_step (counters (pointers w)) (counters (pointers v)) \<and>
    prefix (versionRows w) (versionRows v)"
proof -
  have "refines (pointers w) (pointers (snd (exec_workflow c w)))"
    by (cases c) (simp_all add: create_refines duplicate_refines archive_refines update_refines)
  then show ?thesis using assms by (simp add: refines_def pointers_def)
qed

definition sample_create :: CreateWorkflowDto where
  "sample_create = \<lparr>cw_projectId = None, cw_title = ''Billing'', cw_description = None, cw_domain = None, cw_tags = None\<rparr>"

lemma sample_consistent: "consistent (pointers sample_world)"
  by (simp add: consistent_def pointers_def sample_defs)

theorem workflow_history_refines_witness:
  "consistent (pointers (snd (exec_workflow (CreateW sample_create ''o1'' ''u1'') sample_world)))"
  using workflow_history_refines [OF sample_consistent, of "CreateW sample_create ''o1'' ''u1''"]
  by (metis prod.collapse)

end
