(* ===== verification/Workflows_Correct.thy ===== *)
theory Workflows_Correct
  imports Versions
begin

text \<open>
  The effect of a version update, what a diff says about two versions, and the documents the API stores.
\<close>

section \<open>A new version\<close>

lemma workflowAudit_run:
  assumes "workflowExists i w"
  shows "\<exists>a. workflowAudit i u e b s w =
     (Inr a, w\<lparr>idNext := Suc (idNext w), auditRows := auditRows w @ [a]\<rparr>) \<and> au_eventType a = e \<and> au_actorId a = Some u"
  using assms by (simp add: workflowAudit_def audit_log_def audit_entry_def andThen_def check_def new_id_def
      reading_def Let_def ret_def insert_audit_run workflowExists_def)

lemma exists_pointers: "pointers v = pointers w \<Longrightarrow> workflowExists i v \<longleftrightarrow> workflowExists i w"
  unfolding workflowExists_def keys_pointers [symmetric] by simp

text \<open>What follows the save: one audit entry, and one event for a new version.\<close>

lemma after_save_version:
  assumes "workflowExists i w" "is_version_update dto"
    "find (\<lambda>x. wf_id x = i \<and> wf_orgId x = rq_orgId caller) (workflowRows w) = Some y"
  shows "\<exists>v. snd (after_save i dto caller x saved w) = v \<and> (\<exists>a. auditRows v = auditRows w @ [a] \<and>
      au_eventType a = ''WORKFLOW_VERSION_CREATED'') \<and>
    (if natsUp w then fst (after_save i dto caller x saved w) = Inr y \<and>
       (\<exists>m. published v = published w @ [m] \<and> nm_subject m = ''workflow.events.updated'' \<and>
         field (nm_payload m) ''version_number'' = Some (json_int (wf_currentVersion saved)))
     else fst (after_save i dto caller x saved w) = Inl NatsError \<and> published v = published w)"
proof -
  obtain a where a: "workflowAudit i (rq_id caller) ''WORKFLOW_VERSION_CREATED'' (Some (workflow_state x)) (Some (workflow_state saved)) w =
      (Inr a, w\<lparr>idNext := Suc (idNext w), auditRows := auditRows w @ [a]\<rparr>)" "au_eventType a = ''WORKFLOW_VERSION_CREATED''"
    using workflowAudit_run [OF assms(1)] by blast
  show ?thesis
    using a assms(2,3)
    by (cases "natsUp w"; simp add: after_save_def run_simps publishWorkflowUpdated_def nats_publish_run findWorkflow_run
        obj_def get_prop_def)
qed

lemma save_workflow_row:
  "save_workflow r w = (Inr s, v) \<Longrightarrow> wf_orgId s = wf_orgId r \<and> s \<in> set (workflowRows v) \<and> auditRows v = auditRows w"
  by (auto simp: save_workflow_def run_iffs Let_def set_save_row simp del: Workflow.update_convs split: if_split_asm)

text \<open>A permitted version update in a consistent state: the version is appended, then the row saved, then the rest.\<close>

lemma version_update_run:
  assumes c: "consistent (pointers w)"
    and x: "find (\<lambda>x. wf_id x = i \<and> wf_orgId x = rq_orgId caller) (workflowRows w) = Some x"
      "wf_ownerId x = rq_id caller \<or> rq_role caller = ''admin''"
    and e: "is_version_update dto"
  shows "\<exists>u saved y ver. updateWorkflow i dto caller w = after_save i dto caller x saved u \<and>
    workflowExists i u \<and> find (\<lambda>x. wf_id x = i \<and> wf_orgId x = rq_orgId caller) (workflowRows u) = Some y \<and>
    wf_currentVersion saved = wf_currentVersion x + 1 \<and> natsUp u = natsUp w \<and> published u = published w \<and>
    auditRows u = auditRows w \<and> versionRows u = versionRows w @ [ver] \<and> vkey ver = (i, wf_currentVersion x + 1) \<and>
    wv_elementsJson ver = the (uw_elements_json dto) \<and> wv_createdBy ver = Some (rq_id caller) \<and> consistent (pointers u)"
proof -
  note f = found_row [OF c x(1)]
  let ?r = "(patch_workflow dto x)\<lparr>wf_currentVersion := wf_currentVersion x + 1\<rparr>"
  obtain v ver z where a: "append_version i (the (uw_elements_json dto)) (rq_id caller) w = (Inr (), v)"
    "pointers v = (set_counter i (wf_currentVersion x + 1) (fst (pointers w)), versionRows w @ [ver])"
    "vkey ver = (i, wf_currentVersion x + 1)" "wv_elementsJson ver = the (uw_elements_json dto)"
    "wv_createdBy ver = Some (rq_id caller)" "find_row wf_id i (workflowRows v) = Some z"
    "wf_currentVersion z = wf_currentVersion x + 1" "published v = published w" "natsUp v = natsUp w"
    using append_version_pointers [OF c f(1)] by blast
  have "refines (pointers w) (pointers v)"
    using a(2,3) f(3) refines_bump [of i "wf_currentVersion x" "fst (pointers w)" ver "versionRows w"] by (simp add: pointers_def)
  then have cv: "consistent (pointers v)" using c by (simp add: refines_def)
  have id: "wf_id ?r = i" using f(2) by simp
  obtain s u where s: "save_workflow ?r v = (Inr s, u)" "pointers u = pointers v" "wf_id s = wf_id ?r"
    "wf_currentVersion s = wf_currentVersion x + 1" "published u = published v" "natsUp u = natsUp v"
    using save_same_pointer [of ?r v z] a(6,7) id distinct_ids [OF cv] by auto
  have org: "wf_orgId s = rq_orgId caller" "s \<in> set (workflowRows u)" "auditRows u = auditRows v"
    using save_workflow_row [OF s(1)] find_Some_set [OF x(1)] by (simp_all add: patch_workflow_def)
  have aw: "auditRows v = auditRows w"
    using a(1) by (auto simp: append_version_def in_transaction_def run_iffs insert_version_def update_workflow_def
        split: sum.splits prod.splits)
  obtain y where y: "find (\<lambda>x. wf_id x = i \<and> wf_orgId x = rq_orgId caller) (workflowRows u) = Some y"
    using org s(3) id by (metis (mono_tags, lifting) find_None_iff not_None_eq)
  have "workflowExists i u" using find_Some_set [OF y] by (auto simp: workflowExists_def)
  moreover have "versionRows u = versionRows w @ [ver]" using s(2) a(2) by (simp add: pointers_def)
  ultimately show ?thesis
    using update_run(2) [OF x e a(1)] s a y org aw cv by (intro exI [of _ u] exI [of _ s] exI [of _ y] exI [of _ ver])
      (simp add: run_simps)
qed


definition sample_update :: "json \<Rightarrow> UpdateWorkflowDto" where
  "sample_update e = \<lparr>uw_title = None, uw_description = None, uw_domain = None, uw_tags = None, uw_status = None,
     uw_elements_json = Some e, uw_source = None\<rparr>"

definition sample_author :: RequestUser where
  "sample_author = \<lparr>rq_id = ''u1'', rq_orgId = ''o1'', rq_role = ''viewer''\<rparr>"


section \<open>What a diff says\<close>

definition element_ids :: "json list \<Rightarrow> json option list" where
  "element_ids xs = map (\<lambda>e. field e ''id'') xs"

text \<open>Elements that carry distinct primitive ids.\<close>

definition identified :: "json list \<Rightarrow> bool" where
  "identified xs \<longleftrightarrow> distinct (element_ids xs) \<and> list_all wf_json xs \<and>
     list_all (\<lambda>e. case field e ''id'' of None \<Rightarrow> False | Some v \<Rightarrow> is_primitive v) xs"

lemma same_id_identified: "identified xs \<Longrightarrow> x \<in> set xs \<Longrightarrow> same_id (field x ''id'') d \<longleftrightarrow> field x ''id'' = d"
  by (force simp: identified_def same_id_def list_all_iff split: option.splits)

lemma identified_unique: "identified xs \<Longrightarrow> x \<in> set xs \<Longrightarrow> y \<in> set xs \<Longrightarrow> field x ''id'' = field y ''id'' \<Longrightarrow> x = y"
  unfolding identified_def element_ids_def by (meson distinct_map inj_onD)

lemma has_id_identified: "identified xs \<Longrightarrow> has_id xs e \<longleftrightarrow> (\<exists>x \<in> set xs. field x ''id'' = field e ''id'')"
  unfolding has_id_def using same_id_identified by blast

lemma changed_in_identified:
  assumes "identified xs" "identified ys" "x \<in> set xs" "y \<in> set ys" "field x ''id'' = field y ''id''"
  shows "changed_in xs y \<longleftrightarrow> x \<noteq> y"
proof -
  have "\<exists>o1. find (\<lambda>o1. same_id (field o1 ''id'') (field y ''id'')) xs = Some o1"
    using assms(3,5) same_id_identified [OF assms(1,3)] by (metis (no_types, lifting) find_None_iff not_None_eq)
  then obtain o1 where o: "find (\<lambda>o1. same_id (field o1 ''id'') (field y ''id'')) xs = Some o1" by blast
  then have "o1 \<in> set xs" "same_id (field o1 ''id'') (field y ''id'')" by (auto dest: find_Some_set)
  then have "o1 = x" using identified_unique [OF assms(1)] same_id_identified [OF assms(1)] assms(3,5) by metis
  moreover have "stringify x = stringify y \<longleftrightarrow> x = y"
    using stringify_inj [of x y] assms by (auto simp: identified_def list_all_iff)
  ultimately show ?thesis using o by (simp add: changed_in_def)
qed

text \<open>C19. Diffs are exact: for elements with distinct primitive ids, dropping the removed elements from the old
version, replacing the modified ones and adding the added ones gives exactly the new version; added and modified
elements are elements of the new version, removed ones of the old; nothing is both added and modified.\<close>

theorem diff_patches:
  assumes "identified xs" "identified ys" "d = diff_elements xs ys"
  shows "set ys = {x \<in> set xs. x \<notin> set (df_removed d) \<and> field x ''id'' \<notin> set (element_ids (df_modified d))} \<union>
      set (df_added d) \<union> set (df_modified d) \<and>
    set (df_removed d) = {x \<in> set xs. field x ''id'' \<notin> set (element_ids ys)} \<and>
    set (df_added d) \<inter> set (df_modified d) = {}"
proof (intro conjI)
  have A: "set (df_added d) = {y \<in> set ys. \<not> (\<exists>x \<in> set xs. field x ''id'' = field y ''id'')}"
    by (auto simp: assms(3) diff_elements_def has_id_identified [OF assms(1)])
  have R: "set (df_removed d) = {x \<in> set xs. \<not> (\<exists>y \<in> set ys. field y ''id'' = field x ''id'')}"
    by (auto simp: assms(3) diff_elements_def has_id_identified [OF assms(2)])
  have no: "\<not> changed_in xs y" if "y \<in> set ys" "\<not> (\<exists>x \<in> set xs. field x ''id'' = field y ''id'')" for y
    using that same_id_identified [OF assms(1)]
    by (auto simp: changed_in_def dest!: find_Some_set split: option.splits)
  have M: "set (df_modified d) = {y \<in> set ys. \<exists>x \<in> set xs. field x ''id'' = field y ''id'' \<and> x \<noteq> y}"
  proof -
    have "changed_in xs y \<longleftrightarrow> (\<exists>x \<in> set xs. field x ''id'' = field y ''id'' \<and> x \<noteq> y)" if "y \<in> set ys" for y
      using no [OF that] changed_in_identified [OF assms(1,2) _ that] identified_unique [OF assms(1)] by metis
    then show ?thesis by (auto simp: assms(3) diff_elements_def)
  qed
  note u = identified_unique [OF assms(1)] identified_unique [OF assms(2)]
  show "set ys = {x \<in> set xs. x \<notin> set (df_removed d) \<and> field x ''id'' \<notin> set (element_ids (df_modified d))} \<union>
      set (df_added d) \<union> set (df_modified d)"
    unfolding element_ids_def set_map A M R using u by (auto simp: image_iff) metis+
  show "set (df_removed d) = {x \<in> set xs. field x ''id'' \<notin> set (element_ids ys)}"
    unfolding R element_ids_def by (auto simp: image_iff)
  show "set (df_added d) \<inter> set (df_modified d) = {}" unfolding A M by auto
qed

theorem diff_patches_witness:
  "set (df_added (diff_elements [JObj [(''id'', JStr ''a'')]] [JObj [(''id'', JStr ''b'')]])) = {JObj [(''id'', JStr ''b'')]}"
  using diff_patches [of "[JObj [(''id'', JStr ''a'')]]" "[JObj [(''id'', JStr ''b'')]]", OF _ _ refl]
  by (simp add: identified_def element_ids_def get_prop_def diff_elements_def has_id_def same_id_def changed_in_def)

text \<open>Elements saved the way the API documents them cannot be read back: after a permitted version update whose
elements are an array (what the version DTO requires), the latest version holds that array, but the diagram of the
workflow is empty and every diff between versions holding arrays is empty, since both read the elements from
properties of an object.\<close>

theorem saved_arrays_are_invisible:
  assumes "consistent (pointers w)" "find (\<lambda>x. wf_id x = i \<and> wf_orgId x = rq_orgId caller) (workflowRows w) = Some x"
    "wf_ownerId x = rq_id caller \<or> rq_role caller = ''admin''" "uw_elements_json dto = Some (JArr es)"
    "updateWorkflow i dto caller w = (r, v)" "natsUp w"
  shows "\<exists>ver. findLatestVersion i v = Some ver \<and> wv_elementsJson ver = JArr es \<and>
    getDiagramData i (rq_orgId caller) v = (Inr (JArr [], JArr []), v) \<and>
    (\<forall>k u. find_version i k v = Some u \<and> wv_elementsJson u \<in> range JArr \<longrightarrow>
      computeDiff i k (wv_versionNumber ver) (rq_orgId caller) v =
        (Inr \<lparr>df_added = [], df_removed = [], df_modified = []\<rparr>, v))"
proof -
  have e: "is_version_update dto" using assms(4) by (simp add: is_version_update_def)
  obtain u saved y ver where u: "updateWorkflow i dto caller w = after_save i dto caller x saved u" "workflowExists i u"
    "find (\<lambda>x. wf_id x = i \<and> wf_orgId x = rq_orgId caller) (workflowRows u) = Some y"
    "natsUp u = natsUp w" "versionRows u = versionRows w @ [ver]" "vkey ver = (i, wf_currentVersion x + 1)"
    "wv_elementsJson ver = the (uw_elements_json dto)" "consistent (pointers u)"
    using version_update_run [OF assms(1-3) e] by blast
  have pv: "pointers v = pointers u" using untouchedD [OF untouched_after_save] assms(5) u(1) by metis
  then have vr: "versionRows v = versionRows w @ [ver]" using u(5) by (simp add: pointers_def)
  have ur: "workflowRows v = workflowRows u"
  proof -
    have "untouched workflowRows (after_save i dto caller x saved)"
      unfolding after_save_def workflowAudit_def publish_defs by (intro untouched_intros) simp_all
    then show ?thesis using untouchedD assms(5) u(1) by metis
  qed
  note found = findWorkflow_run [of i "rq_orgId caller" v, unfolded ur u(3), simplified]
  have key: "wv_workflowId ver = i" "wv_versionNumber ver = wf_currentVersion x + 1" using u(6) by (auto simp: vkey_def)
  note f = found_row [OF assms(1,2)]
  have small: "wv_versionNumber z \<le> wf_currentVersion x" if "z \<in> set (versionRows w)" "wv_workflowId z = i" for z
    using consistentD(5) [of "fst (pointers w)" "versionRows w" i "wf_currentVersion x" "wv_versionNumber z"] f(3) assms(1) that
    by (auto simp: pointers_def vkey_def image_iff)
  have latest: "findLatestVersion i v = Some ver"
  proof -
    have "findLatestVersion i v \<noteq> None" using key by (simp add: findLatestVersion_def vr)
    then obtain z where z: "findLatestVersion i v = Some z" by blast
    then have "z \<in> set (versionRows v)" "wv_workflowId z = i" "wv_versionNumber ver \<le> wv_versionNumber z"
      using max_by_Some [OF z [unfolded findLatestVersion_def vr]] key by (auto simp: vr)
    then have "z = ver" using small [of z] key vr by auto
    then show ?thesis using z by simp
  qed
  have "find_version i (wv_versionNumber ver) v = Some ver"
  proof -
    have "find_version i (wv_versionNumber ver) v \<noteq> None" using key by (auto simp: find_version_def vr find_None_iff)
    then obtain z where z: "find_version i (wv_versionNumber ver) v = Some z" by blast
    then have "z \<in> set (versionRows v)" "wv_workflowId z = i" "wv_versionNumber z = wv_versionNumber ver"
      by (auto simp: find_version_def dest: find_Some_set)
    then have "z = ver" using small [of z] key vr by auto
    then show ?thesis using z by simp
  qed
  moreover have "extractElements z = []" if "z \<in> range JArr" for z using that by (auto simp: extractElements_def)
  moreover have "wv_elementsJson ver = JArr es" using u(7) assms(4) by simp
  ultimately show ?thesis
    using latest found by (auto simp: computeDiff_def getDiagramData_def run_simps nullish_def diff_elements_def)
qed

theorem saved_arrays_are_invisible_witness:
  "fst (getDiagramData ''w1'' ''o1'' (snd (updateWorkflow ''w1'' (sample_update (JArr [JObj []])) sample_author sample_world))) =
    Inr (JArr [], JArr [])"
  using saved_arrays_are_invisible [OF sample_consistent, of "''w1''" sample_author sample_workflow "sample_update (JArr [JObj []])" "[JObj []]"]
  by (cases "updateWorkflow ''w1'' (sample_update (JArr [JObj []])) sample_author sample_world")
    (auto simp: sample_defs sample_author_def sample_update_def)

end
