(* ===== verification/Audit_Correct.thy ===== *)
theory Audit_Correct
  imports Audit_Log
begin

text \<open>
  What a reader of the audit log gets: pages that cover the log without gaps or repetitions, and an
  export that loses nothing.
\<close>

definition matching_entries :: "string \<Rightarrow> AuditLogQueryDto \<Rightarrow> bool \<Rightarrow> world \<Rightarrow> AuditLog list" where
  "matching_entries workflowId query decisionOnly w =
     newest_first (filter (buildAuditLogQuery workflowId query decisionOnly) (auditRows w))"

definition may_audit :: "RequestUser \<Rightarrow> string \<Rightarrow> world \<Rightarrow> bool" where
  "may_audit u workflowId w \<longleftrightarrow>
     rq_role u \<in> {user_role_str UserRole.ADMIN, user_role_str UserRole.PROCESS_OWNER, user_role_str UserRole.BUSINESS_ANALYST} \<and>
     (\<exists>x \<in> set (workflowRows w). wf_id x = workflowId \<and> wf_orgId x = rq_orgId u)"

lemma assertWorkflowAccess_run:
  "may_audit u workflowId w \<Longrightarrow> assertWorkflowAccess workflowId u w = (Inr (), w)"
  "\<not> may_audit u workflowId w \<Longrightarrow> \<exists>e. assertWorkflowAccess workflowId u w = (Inl e, w) \<and> getStatus e \<in> {403, 404}"
  by (auto simp: assertWorkflowAccess_def may_audit_def andThen_def check_def reading_def find_None_iff
      simp del: user_role_str.simps dest: find_Some_set)

lemma buildAuditLogQuery_page [simp]:
  "buildAuditLogQuery i (q\<lparr>aq_page := p, aq_limit := l\<rparr>) d = buildAuditLogQuery i q d"
  by (simp add: fun_eq_iff buildAuditLogQuery_def)

lemma auditPage_run:
  "may_audit u workflowId w \<Longrightarrow> auditPage workflowId u (query\<lparr>aq_page := Some p, aq_limit := Some l\<rparr>) d w =
     (Inr \<lparr>pa_entries = page_of p l (matching_entries workflowId query d w),
           pa_total = length (matching_entries workflowId query d w), pa_page = p, pa_limit = l\<rparr>, w)"
  by (simp add: auditPage_def assertWorkflowAccess_run run_simps matching_entries_def newest_first_def Let_def)

lemma decision_entry:
  "a \<in> set (matching_entries workflowId query True w) \<Longrightarrow>
     au_workflowId a = Some workflowId \<and> au_eventType a \<in> set DECISION_EVENT_TYPES"
  by (simp add: matching_entries_def newest_first_def buildAuditLogQuery_def)

lemma length_matching:
  "length (matching_entries workflowId query d w) = length (filter (buildAuditLogQuery workflowId query d) (auditRows w))"
  by (simp add: matching_entries_def newest_first_def)

text \<open>C20. Reading the audit log page by page: the pages 1 to n of a query, put together, are the first n times
limit matching entries, newest first, each exactly once, and every page reports the number of all matching
entries; a caller without an auditing role or of another organization is refused and nothing is read.\<close>

theorem audit_pages_cover:
  assumes "may_audit u workflowId w"
  shows "concat (map (\<lambda>p. case fst (getWorkflowAuditLog workflowId u (query\<lparr>aq_page := Some p, aq_limit := Some l\<rparr>) w) of
             Inl e \<Rightarrow> [] | Inr res \<Rightarrow> pa_entries res) [1..<Suc n]) =
     take (n * l) (matching_entries workflowId query False w) \<and>
   (\<exists>res. getDecisionLog workflowId u (query\<lparr>aq_page := Some p, aq_limit := Some l\<rparr>) w = (Inr res, w) \<and>
     pa_total res = length (filter (buildAuditLogQuery workflowId query True) (auditRows w)) \<and>
     (\<forall>a \<in> set (pa_entries res). au_workflowId a = Some workflowId \<and> au_eventType a \<in> set DECISION_EVENT_TYPES)) \<and>
   (\<forall>other. \<not> may_audit other workflowId w \<longrightarrow>
     (\<exists>e. getWorkflowAuditLog workflowId other query w = (Inl e, w) \<and> getStatus e \<in> {403, 404}))"
proof (intro conjI)
  show "concat (map (\<lambda>p. case fst (getWorkflowAuditLog workflowId u (query\<lparr>aq_page := Some p, aq_limit := Some l\<rparr>) w) of
             Inl e \<Rightarrow> [] | Inr res \<Rightarrow> pa_entries res) [1..<Suc n]) =
     take (n * l) (matching_entries workflowId query False w)"
    using pages_cover [of l "matching_entries workflowId query False w" n]
    by (simp add: getWorkflowAuditLog_def auditPage_run [OF assms])
  have "au_workflowId a = Some workflowId \<and> au_eventType a \<in> set DECISION_EVENT_TYPES"
    if "a \<in> set (page_of p l (matching_entries workflowId query True w))" for a
    using that decision_entry unfolding page_of_def by (meson in_set_dropD in_set_takeD)
  then show "\<exists>res. getDecisionLog workflowId u (query\<lparr>aq_page := Some p, aq_limit := Some l\<rparr>) w = (Inr res, w) \<and>
     pa_total res = length (filter (buildAuditLogQuery workflowId query True) (auditRows w)) \<and>
     (\<forall>a \<in> set (pa_entries res). au_workflowId a = Some workflowId \<and> au_eventType a \<in> set DECISION_EVENT_TYPES)"
    by (simp add: getDecisionLog_def auditPage_run [OF assms] length_matching)
  show "\<forall>other. \<not> may_audit other workflowId w \<longrightarrow>
     (\<exists>e. getWorkflowAuditLog workflowId other query w = (Inl e, w) \<and> getStatus e \<in> {403, 404})"
    using assertWorkflowAccess_run(2) by (fastforce simp: getWorkflowAuditLog_def auditPage_def run_simps)
qed

definition sample_auditor :: RequestUser where
  "sample_auditor = \<lparr>rq_id = ''u2'', rq_orgId = ''o1'', rq_role = ''business_analyst''\<rparr>"

definition all_entries :: AuditLogQueryDto where
  "all_entries = \<lparr>aq_type = None, aq_from = None, aq_to = None, aq_actor_id = None, aq_page = None, aq_limit = None\<rparr>"

definition sample_entry :: AuditLog where
  "sample_entry = \<lparr>au_id = ''a1'', au_workflowId = Some ''w1'', au_actorId = None, au_actorType = ActorType.USER,
     au_eventType = ''RULE_CREATED'', au_elementId = None, au_beforeState = None,
     au_afterState = Some (JStr ''says ''), au_createdAt = 5\<rparr>"

definition audited_world :: world where
  "audited_world = sample_world\<lparr>auditRows := [sample_entry]\<rparr>"

lemma sample_may_audit: "may_audit sample_auditor ''w1'' audited_world"
  by (simp add: may_audit_def sample_auditor_def audited_world_def sample_defs)

lemma sample_matching: "matching_entries ''w1'' all_entries False audited_world = [sample_entry]"
  by (simp add: matching_entries_def newest_first_def sort_desc_def buildAuditLogQuery_def all_entries_def audited_world_def
      sample_entry_def AI_DECISION_FILTER_def)

theorem audit_pages_cover_witness:
  "concat (map (\<lambda>p. case fst (getWorkflowAuditLog ''w1'' sample_auditor (all_entries\<lparr>aq_page := Some p, aq_limit := Some 10\<rparr>)
      audited_world) of Inl e \<Rightarrow> [] | Inr res \<Rightarrow> pa_entries res) [1..<Suc 2]) = [sample_entry]"
  using audit_pages_cover [OF sample_may_audit, where query = all_entries and l = 10 and n = 2] by (simp add: sample_matching del: upt_Suc)

text \<open>C21. The CSV export loses nothing: read back as RFC 4180 describes, the file is the header and one row per
matching entry, newest first, whatever quotes, commas and line breaks the entries contain.\<close>

theorem csv_export_roundtrip:
  assumes "may_audit u workflowId w"
  shows "\<exists>csv. exportWorkflowAuditLogCsv workflowId u query w = (Inr csv, w) \<and>
     parseCsv csv = csv_header # map csv_fields (matching_entries workflowId query False w)"
  by (simp add: exportWorkflowAuditLogCsv_def assertWorkflowAccess_run(1) [OF assms] run_simps parse_renderCsv
      matching_entries_def)

theorem csv_export_roundtrip_witness:
  "\<exists>csv. exportWorkflowAuditLogCsv ''w1'' sample_auditor all_entries audited_world = (Inr csv, audited_world) \<and>
     parseCsv csv = [csv_header, csv_fields sample_entry]"
  using csv_export_roundtrip [OF sample_may_audit, where query = all_entries] by (simp add: sample_matching)

end
