(* ===== verification/Workflow_Exchange.thy ===== *)
theory Workflow_Exchange
  imports Versions
begin

text \<open>
  Workflows leaving the system: share links (\<open>services/share-workflow.service.ts\<close>), the mapping to Elsa
  activities (\<open>services/elsa-mapping.service.ts\<close>), and the export gate and exports
  (\<open>services/workflow-export.service.ts\<close> with the export routes of \<open>workflows.controller.ts\<close>).
\<close>

section \<open>Share links\<close>

datatype ExpiresIn = OneDay | SevenDays | Never

record ShareOptions =
  so_workflowId :: string
  so_expiresIn :: "ExpiresIn option"
  so_maxViews :: "int option"

record ShareResult =
  sr_token :: string
  sr_url :: string
  sr_expiresAt :: "time option"
  sr_maxViews :: "int option"

definition day :: time where
  "day = 24 * 60 * 60 * 1000 * 1000"

definition share_expiry :: "ShareOptions \<Rightarrow> time \<Rightarrow> time option" where
  "share_expiry options now = (case so_expiresIn options of
     Some OneDay \<Rightarrow> Some (now + day) | Some SevenDays \<Rightarrow> Some (now + 7 * day) | _ \<Rightarrow> None)"

text \<open>\<open>token\<close> is the text of the 16 random bytes. An \<open>update\<close> leaves the columns given as undefined alone, and
  an id that no row has updates nothing.\<close>

definition share_row :: "string \<Rightarrow> time option \<Rightarrow> int option \<Rightarrow> Workflow \<Rightarrow> Workflow" where
  "share_row token expiresAt maxViews x = x\<lparr>wf_shareToken := Some token,
     wf_shareExpiresAt := (case expiresAt of None \<Rightarrow> wf_shareExpiresAt x | Some t \<Rightarrow> Some t),
     wf_shareMaxViews := (case maxViews of None \<Rightarrow> wf_shareMaxViews x | Some n \<Rightarrow> Some n), wf_shareViewCount := 0\<rparr>"

definition createShare :: "string \<Rightarrow> ShareOptions \<Rightarrow> ShareResult service" where
  "createShare token options =
     andThen (reading (\<lambda>w. share_expiry options (new_Date w))) (\<lambda>expiresAt.
     andThen (update_workflow (so_workflowId options) (share_row token expiresAt (so_maxViews options))) (\<lambda>_.
     ret \<lparr>sr_token = token, sr_url = ''/workflows/shared/'' @ token, sr_expiresAt = expiresAt,
          sr_maxViews = so_maxViews options\<rparr>))"

definition share_open :: "Workflow \<Rightarrow> time \<Rightarrow> bool" where
  "share_open x now \<longleftrightarrow>
     (case wf_shareExpiresAt x of None \<Rightarrow> True | Some t \<Rightarrow> now \<le> t) \<and>
     (case wf_shareMaxViews x of None \<Rightarrow> True | Some n \<Rightarrow> n = 0 \<or> wf_shareViewCount x < n)"

definition getSharedWorkflow :: "string \<Rightarrow> Workflow option service" where
  "getSharedWorkflow token =
     andThen (reading (\<lambda>w. (find (\<lambda>x. wf_shareToken x = Some token) (workflowRows w), new_Date w))) (\<lambda>(found, now).
     case found of
       None \<Rightarrow> ret None
     | Some x \<Rightarrow>
         if \<not> share_open x now then ret None
         else andThen (update_workflow (wf_id x) (\<lambda>y. y\<lparr>wf_shareViewCount := wf_shareViewCount y + 1\<rparr>)) (\<lambda>_. ret (Some x)))"

text \<open>The public route shows the id and the title only.\<close>

definition sharedWorkflowRoute :: "string \<Rightarrow> json service" where
  "sharedWorkflowRoute token =
     andThen (getSharedWorkflow token) (\<lambda>found.
     case found of
       None \<Rightarrow> throw (NotFoundException (JStr ''Shared workflow not found or expired''))
     | Some x \<Rightarrow> ret (JObj [(''id'', JStr (wf_id x)), (''title'', JStr (wf_title x))]))"

section \<open>The Elsa mapping\<close>

definition FLOWFORGE_TO_ELSA_MAPPING :: "(string \<times> string) list" where
  "FLOWFORGE_TO_ELSA_MAPPING =
     [(''start'', ''Elsa.Core.Activity''), (''end'', ''Elsa.Core.Activity''), (''task'', ''Elsa.Core.Activity''),
      (''user_task'', ''Elsa.Core.Activity''), (''service_task'', ''Elsa.Core.Activity''),
      (''script_task'', ''Elsa.Scripting.JavaScript.RunJavaScript''),
      (''exclusive_gateway'', ''Elsa.Flowchart.ExclusiveGateway''),
      (''inclusive_gateway'', ''Elsa.Flowchart.InclusiveGateway''),
      (''parallel_gateway'', ''Elsa.Flowchart.ParallelGateway''),
      (''event_gateway'', ''Elsa.Flowchart.EventBasedGateway''), (''start_event'', ''Elsa.Events.StartWorkflow''),
      (''end_event'', ''Elsa.Events.EndWorkflow''), (''message_event'', ''Elsa.Messaging.StartWorkflow''),
      (''timer_event'', ''Elsa.Timers.StartWorkflowTimer''), (''subprocess'', ''Elsa.CompositeActivity''),
      (''lane'', ''Elsa.Flowchart.Lane''), (''pool'', ''Elsa.Flowchart.Pool''),
      (''sequence_flow'', ''Elsa.Flowchart.SequenceFlow''), (''default_flow'', ''Elsa.Flowchart.DefaultFlow''),
      (''conditional_flow'', ''Elsa.Flowchart.ConditionalFlow''), (''message_flow'', ''Elsa.Flowchart.MessageFlow'')]"

text \<open>
  The lookup is a property access on an object literal, so the two lower-case names of its prototype are
  found as well: \<open>constructor\<close> gives a function, which JSON omits (None), and \<open>__proto__\<close> an empty object.
\<close>

definition mapFlowForgeTypeToElsa :: "string \<Rightarrow> json option" where
  "mapFlowForgeTypeToElsa elementType =
     (let key = js_toLowerCase elementType in
      case map_of FLOWFORGE_TO_ELSA_MAPPING key of
        Some t \<Rightarrow> Some (JStr t)
      | None \<Rightarrow> if key = ''constructor'' then None else if key = ''__proto__'' then Some (JObj [])
               else Some (JStr ''Elsa.Core.Activity''))"

record ElsaActivity =
  ea_id :: "json option"
  ea_type :: "json option"
  ea_name :: json
  ea_properties :: "((string \<times> json) list) option"

record ElsaConnection =
  ec_sourceId :: json
  ec_targetId :: json
  ec_outcome :: "json option"

record ElsaWorkflowJson =
  ew_id :: string
  ew_name :: string
  ew_version :: int
  ew_activities :: "ElsaActivity list"
  ew_connections :: "ElsaConnection list"
  ew_tags :: "string list"

text \<open>\<open>Object.entries\<close>: the properties of an object, the indexed items of an array or characters of a string.\<close>

fun object_entries :: "json \<Rightarrow> (string \<times> json) list" where
  "object_entries (JObj kvs) = kvs"
| "object_entries (JArr xs) = map (\<lambda>i. (nat_digits i, xs ! i)) [0..<length xs]"
| "object_entries (JStr s) = map (\<lambda>i. (nat_digits i, JStr [s ! i])) [0..<length s]"
| "object_entries _ = []"

text \<open>Objects and arrays become their serialisation; an assignment to \<open>__proto__\<close> adds no property.\<close>

definition flatten_value :: "json \<Rightarrow> json" where
  "flatten_value v = (if is_primitive v then v else JStr (stringify v))"

definition sanitizeProperties :: "json \<Rightarrow> (string \<times> json) list" where
  "sanitizeProperties props =
     map (\<lambda>(k, v). (k, flatten_value v)) (filter (\<lambda>(k, v). k \<noteq> ''__proto__'') (object_entries props))"

definition activity_properties :: "json \<Rightarrow> (string \<times> json) list" where
  "activity_properties node =
     (if json_truthy (field node ''label'') then [(''displayText'', the (field node ''label''))] else []) @
     (if json_truthy (field node ''properties'')
      then [(''customProperties'', JObj (sanitizeProperties (the (field node ''properties''))))] else [])"

text \<open>Reading a property of null throws, and so does lower-casing a type that is not a string.\<close>

definition convertNodeToActivity :: "json \<Rightarrow> error + ElsaActivity" where
  "convertNodeToActivity node =
     (case field node ''type'' of
        Some (JStr t) \<Rightarrow>
          (let properties = activity_properties node in
           Inr \<lparr>ea_id = field node ''id'', ea_type = mapFlowForgeTypeToElsa t,
                ea_name = nullish (field node ''label'') (JStr t),
                ea_properties = (if properties \<noteq> [] then Some properties else None)\<rparr>)
      | _ \<Rightarrow> Inl (TypeError ''elementType.toLowerCase is not a function''))"

definition convertEdgeToConnection :: "json \<Rightarrow> error + ElsaConnection" where
  "convertEdgeToConnection edge =
     (if edge = JNull then Inl (TypeError ''Cannot read properties of null'')
      else Inr \<lparr>ec_sourceId = nullish (field edge ''sourceId'') (JStr []), ec_targetId = nullish (field edge ''targetId'') (JStr []),
                ec_outcome = (if json_truthy (field edge ''label'') then field edge ''label'' else None)\<rparr>)"

text \<open>\<open>Array.map\<close> with a callback that may throw.\<close>

fun mapOrThrow :: "('a \<Rightarrow> 'e + 'b) \<Rightarrow> 'a list \<Rightarrow> 'e + 'b list" where
  "mapOrThrow f [] = Inr []"
| "mapOrThrow f (x # xs) =
     (case f x of Inl e \<Rightarrow> Inl e | Inr y \<Rightarrow> (case mapOrThrow f xs of Inl e \<Rightarrow> Inl e | Inr ys \<Rightarrow> Inr (y # ys)))"

definition element_list :: "json \<Rightarrow> string \<Rightarrow> error + json list" where
  "element_list e k =
     (if e = JNull then Inl (TypeError ''Cannot read properties of null'')
      else case nullish (field e k) (JArr []) of
        JArr xs \<Rightarrow> Inr xs
      | _ \<Rightarrow> Inl (TypeError ''map is not a function''))"

definition convertToElsaWorkflow :: "json \<Rightarrow> string \<Rightarrow> string \<Rightarrow> int \<Rightarrow> error + ElsaWorkflowJson" where
  "convertToElsaWorkflow e workflowId workflowName version =
     (case (element_list e ''nodes'', element_list e ''edges'') of
        (Inr nodes, Inr edges) \<Rightarrow>
          (case mapOrThrow convertNodeToActivity nodes of
             Inl x \<Rightarrow> Inl x
           | Inr activities \<Rightarrow>
               (case mapOrThrow convertEdgeToConnection edges of
                  Inl x \<Rightarrow> Inl x
                | Inr connections \<Rightarrow>
                    Inr \<lparr>ew_id = ''workflow-'' @ workflowId, ew_name = workflowName, ew_version = version,
                         ew_activities = activities, ew_connections = connections, ew_tags = [''flowforge-export'']\<rparr>))
      | _ \<Rightarrow> Inl (TypeError ''map is not a function''))"

section \<open>The export gate\<close>

datatype ExportReason = FORBIDDEN | INVALID_STATUS | RECONCILIATION_REQUIRED

record Exportability =
  ex_reason :: "ExportReason option"
  ex_unresolvedCriticalPoints :: "int option"

definition unresolved_critical :: "string \<Rightarrow> world \<Rightarrow> DivergencePoint list" where
  "unresolved_critical reportId w =
     filter (\<lambda>p. dp_reportId p = reportId \<and> dp_severity p = PointSeverity.CRITICAL \<and> \<not> dp_resolved p) (pointRows w)"

definition latest_session :: "string \<Rightarrow> world \<Rightarrow> Session option" where
  "latest_session workflowId w = max_by se_createdAt (filter (\<lambda>s. se_workflowId s = workflowId) (sessionRows w))"

definition latest_report :: "string \<Rightarrow> world \<Rightarrow> DivergenceReport option" where
  "latest_report workflowId w = max_by dr_createdAt (filter (\<lambda>r. dr_workflowId r = workflowId) (reportRows w))"

definition divergence_gate :: "string \<Rightarrow> world \<Rightarrow> Exportability" where
  "divergence_gate workflowId w =
     (case latest_session workflowId w of
        None \<Rightarrow> \<lparr>ex_reason = None, ex_unresolvedCriticalPoints = None\<rparr>
      | Some session \<Rightarrow>
          if se_status session = SessionStatus.NEEDS_RECONCILIATION
          then \<lparr>ex_reason = Some RECONCILIATION_REQUIRED, ex_unresolvedCriticalPoints = None\<rparr>
          else case latest_report workflowId w of
            None \<Rightarrow> \<lparr>ex_reason = None, ex_unresolvedCriticalPoints = None\<rparr>
          | Some report \<Rightarrow>
              let criticalUnresolved = int (length (unresolved_critical (dr_id report) w)) in
              if criticalUnresolved > 0
              then \<lparr>ex_reason = Some RECONCILIATION_REQUIRED, ex_unresolvedCriticalPoints = Some criticalUnresolved\<rparr>
              else \<lparr>ex_reason = None, ex_unresolvedCriticalPoints = None\<rparr>)"

definition validateExportability :: "string \<Rightarrow> RequestUser \<Rightarrow> Exportability service" where
  "validateExportability workflowId caller =
     andThen (findOneWithLatestVersion workflowId (rq_orgId caller)) (\<lambda>(workflow, _).
     if wf_ownerId workflow \<noteq> rq_id caller \<and> rq_role caller \<noteq> ''admin'' \<and> rq_role caller \<noteq> ''business_analyst''
     then ret \<lparr>ex_reason = Some FORBIDDEN, ex_unresolvedCriticalPoints = None\<rparr>
     else if wf_status workflow \<noteq> WorkflowStatus.VALIDATED
     then ret \<lparr>ex_reason = Some INVALID_STATUS, ex_unresolvedCriticalPoints = Some 0\<rparr>
     else reading (divergence_gate workflowId))"

text \<open>The refusals of the three export routes.\<close>

definition export_refusal :: "Exportability \<Rightarrow> error option" where
  "export_refusal v = (case ex_reason v of
     None \<Rightarrow> None
   | Some RECONCILIATION_REQUIRED \<Rightarrow> Some (ConflictException (obj [(''code'', Some (JStr ''RECONCILIATION_REQUIRED'')),
       (''unresolved_critical_points'', map_option json_int (ex_unresolvedCriticalPoints v))]))
   | Some FORBIDDEN \<Rightarrow> Some (ForbiddenException (JObj [(''code'', JStr ''FORBIDDEN'')]))
   | Some INVALID_STATUS \<Rightarrow> Some (ConflictException (JObj [(''code'', JStr ''INVALID_STATUS'')])))"

definition export_gate :: "string \<Rightarrow> RequestUser \<Rightarrow> Workflow service" where
  "export_gate i caller =
     andThen (validateExportability i caller) (\<lambda>validation.
     andThen (case export_refusal validation of None \<Rightarrow> ret () | Some e \<Rightarrow> throw e) (\<lambda>_.
     andThen (findOneWithLatestVersion i (rq_orgId caller)) (\<lambda>(workflow, _). ret workflow)))"

section \<open>The exports\<close>

text \<open>\<open>parse\<close> is \<open>JSON.parse\<close>, None when it throws.\<close>

definition parseElements :: "(string \<Rightarrow> json option) \<Rightarrow> json \<Rightarrow> json" where
  "parseElements parse e = (case e of
     JStr s \<Rightarrow> (case parse s of None \<Rightarrow> JObj [] | Some v \<Rightarrow> v) | JNull \<Rightarrow> JObj [] | _ \<Rightarrow> e)"

definition dashed :: "string \<Rightarrow> string" where
  "dashed = map (\<lambda>c. if c = CHR '':'' \<or> c = CHR ''.'' then CHR ''-'' else c)"

record ElsaExport =
  xp_json :: ElsaWorkflowJson
  xp_filename :: string
  xp_artifactUri :: string

definition exportToElsa :: "(string \<Rightarrow> json option) \<Rightarrow> string \<Rightarrow> int \<Rightarrow> string \<Rightarrow> string \<Rightarrow> ElsaExport service" where
  "exportToElsa parse workflowId versionNumber userId orgId =
     andThen (\<lambda>w. orThrow (find_version workflowId versionNumber w)
       (NotFoundException (JStr (''Workflow version '' @ int_str versionNumber @ '' not found''))) w) (\<lambda>version.
     andThen (\<lambda>w. orThrow (find_row wf_id workflowId (workflowRows w)) (NotFoundException (JStr ''Workflow not found'')) w) (\<lambda>workflow.
     andThen (liftSum (convertToElsaWorkflow (parseElements parse (wv_elementsJson version)) workflowId (wf_title workflow) versionNumber)) (\<lambda>elsa.
     andThen (reading (\<lambda>w. dashed (toISOString (new_Date w)))) (\<lambda>timestamp.
     let v = ''v'' @ int_str versionNumber @ ''-elsa-'' @ timestamp @ ''.json'';
         artifactUri = ''exports/'' @ orgId @ ''/'' @ workflowId @ ''/'' @ v in
     andThen (audit_log (audit_entry (Some workflowId) (Some userId) ActorType.USER ''WORKFLOW_EXPORTED'' None
       (Some (JObj [(''status'', JStr (workflow_status_str WorkflowStatus.VALIDATED))]))
       (Some (JObj [(''status'', JStr (workflow_status_str WorkflowStatus.EXPORTED)), (''format'', JStr ''elsa''),
         (''artifactUri'', JStr artifactUri)])))) (\<lambda>_.
     andThen (update_workflow workflowId (\<lambda>x. x\<lparr>wf_status := WorkflowStatus.EXPORTED\<rparr>)) (\<lambda>_.
     ret \<lparr>xp_json = elsa, xp_filename = ''workflow-'' @ workflowId @ ''-'' @ v, xp_artifactUri = artifactUri\<rparr>))))))"

definition exportToElsaRoute :: "(string \<Rightarrow> json option) \<Rightarrow> string \<Rightarrow> RequestUser \<Rightarrow> (ElsaWorkflowJson \<times> string) service" where
  "exportToElsaRoute parse i caller =
     andThen (export_gate i caller) (\<lambda>workflow.
     andThen (exportToElsa parse i (wf_currentVersion workflow) (rq_id caller) (rq_orgId caller)) (\<lambda>x.
     ret (xp_json x, xp_filename x)))"

datatype ExportFormat = ELSA | BPMN | PDF

fun export_format_str :: "ExportFormat \<Rightarrow> string" where
  "export_format_str ELSA = ''elsa''"
| "export_format_str BPMN = ''bpmn''"
| "export_format_str PDF = ''pdf''"

definition export_pipeline :: "ExportFormat \<Rightarrow> string \<Rightarrow> int \<Rightarrow> string \<Rightarrow> string \<Rightarrow> string \<Rightarrow> time \<Rightarrow> PipelineExecution" where
  "export_pipeline format workflowId versionNumber userId correlation i now =
     \<lparr>pe_id = i, pe_sessionId = workflowId, pe_taskType = PipelineTaskType.EXPORT_ONLY, pe_mode = SessionMode.INTERACTIVE,
      pe_status = PipelineStatus.PENDING,
      pe_inputPayload = JObj [(''format'', JStr (export_format_str format)), (''workflowId'', JStr workflowId),
        (''versionNumber'', json_int versionNumber), (''correlationId'', JStr correlation)],
      pe_retryCount = 0, pe_lastCheckpointAgent = None, pe_triggeredBy = Some userId, pe_natsMessageId = None,
      pe_startedAt = None, pe_completedAt = None, pe_totalDurationMs = None, pe_totalLlmCalls = 0,
      pe_totalTokensConsumed = 0, pe_finalConfidence = None, pe_errorSummary = None, pe_createdAt = now, pe_archivedAt = None\<rparr>"

text \<open>The BPMN and the PDF export differ in the format only.\<close>

definition exportAsync :: "ExportFormat \<Rightarrow> string \<Rightarrow> int \<Rightarrow> string \<Rightarrow> string \<Rightarrow> (string \<times> string) service" where
  "exportAsync format workflowId versionNumber userId correlation =
     andThen new_id (\<lambda>i.
     andThen (reading (\<lambda>w. export_pipeline format workflowId versionNumber userId correlation i (clock w))) (\<lambda>p.
     andThen (save_pipeline p) (\<lambda>_. ret (i, ''/pipeline-executions/'' @ i))))"

definition exportAsyncRoute :: "ExportFormat \<Rightarrow> string \<Rightarrow> RequestUser \<Rightarrow> (string \<times> string) service" where
  "exportAsyncRoute format i caller =
     andThen (export_gate i caller) (\<lambda>workflow.
     andThen new_id (\<lambda>correlation.
     exportAsync format i (wf_currentVersion workflow) (rq_id caller) correlation))"

definition getPlainLanguageSummary :: "string \<Rightarrow> world \<Rightarrow> string option" where
  "getPlainLanguageSummary workflowId w =
     (case latest_session workflowId w of
        None \<Rightarrow> None
      | Some session \<Rightarrow> map_option me_content (max_by me_createdAt
          (filter (\<lambda>m. me_sessionId m = se_id session \<and> me_type m = MessageType.AI_SUMMARY) (messageRows w))))"

definition decisionLogForExport :: "string \<Rightarrow> world \<Rightarrow> (string \<times> string \<times> time) list" where
  "decisionLogForExport workflowId w =
     map (\<lambda>a. (actor_type_str (au_actorType a), au_eventType a, au_createdAt a))
       (take 50 (listDecisionEntriesForWorkflow workflowId w))"

end
