(* ===== verification/Exchange_Correct.thy ===== *)
theory Exchange_Correct
  imports Workflow_Exchange
begin

text \<open>
  What limits a share link, what the Elsa mapping keeps of the elements, and what the export routes let
  through.
\<close>

section \<open>Share links\<close>

lemma find_map: "(\<And>x. P (f x) = P x) \<Longrightarrow> find P (map f xs) = map_option f (find P xs)"
  by (induction xs) auto

text \<open>The times at which a series of visits at the given times was served.\<close>

fun served :: "string \<Rightarrow> time list \<Rightarrow> world \<Rightarrow> time list" where
  "served token [] w = []"
| "served token (t # ts) w =
     (case getSharedWorkflow token (w\<lparr>clock := t\<rparr>) of
        (Inr (Some _), v) \<Rightarrow> t # served token ts v
      | (_, v) \<Rightarrow> served token ts v)"

lemma visit_run:
  assumes "find (\<lambda>x. wf_shareToken x = Some token) (workflowRows w) = Some x"
  shows "share_open x (js_date t) \<Longrightarrow> \<exists>v. getSharedWorkflow token (w\<lparr>clock := t\<rparr>) = (Inr (Some x), v) \<and>
      find (\<lambda>x. wf_shareToken x = Some token) (workflowRows v) =
        Some (x\<lparr>wf_shareViewCount := wf_shareViewCount x + 1, wf_updatedAt := t\<rparr>)"
    "\<not> share_open x (js_date t) \<Longrightarrow> getSharedWorkflow token (w\<lparr>clock := t\<rparr>) = (Inr None, w\<lparr>clock := t\<rparr>)"
proof -
  let ?f = "\<lambda>y. if wf_id y = wf_id x then (y\<lparr>wf_shareViewCount := wf_shareViewCount y + 1\<rparr>)\<lparr>wf_updatedAt := t\<rparr> else y"
  have "find (\<lambda>x. wf_shareToken x = Some token) (map ?f (workflowRows w)) = Some (?f x)"
    using assms by (subst find_map) simp_all
  then show "share_open x (js_date t) \<Longrightarrow> \<exists>v. getSharedWorkflow token (w\<lparr>clock := t\<rparr>) = (Inr (Some x), v) \<and>
      find (\<lambda>x. wf_shareToken x = Some token) (workflowRows v) =
        Some (x\<lparr>wf_shareViewCount := wf_shareViewCount x + 1, wf_updatedAt := t\<rparr>)"
    using assms by (simp add: getSharedWorkflow_def run_simps update_workflow_def new_Date_def cong del: if_weak_cong)
  show "\<not> share_open x (js_date t) \<Longrightarrow> getSharedWorkflow token (w\<lparr>clock := t\<rparr>) = (Inr None, w\<lparr>clock := t\<rparr>)"
    using assms by (simp add: getSharedWorkflow_def run_simps new_Date_def)
qed

text \<open>C23. Share limits: a link with a positive view limit serves at most the views that are left, however many
visitors come and whenever they come, never after its expiry, and, when it does not expire, exactly the views
that are left.\<close>

theorem share_views_bounded:
  assumes "find (\<lambda>x. wf_shareToken x = Some token) (workflowRows w) = Some x"
    "wf_shareMaxViews x = Some n" "0 < n" "0 \<le> wf_shareViewCount x"
  shows "length (served token ts w) \<le> nat (n - wf_shareViewCount x) \<and>
    (\<forall>t \<in> set (served token ts w). \<forall>e. wf_shareExpiresAt x = Some e \<longrightarrow> js_date t \<le> e) \<and>
    (wf_shareExpiresAt x = None \<longrightarrow> length (served token ts w) = min (length ts) (nat (n - wf_shareViewCount x)))"
  using assms
proof (induction ts arbitrary: w x)
  case Nil
  then show ?case by simp
next
  case (Cons t ts)
  show ?case
  proof (cases "share_open x (js_date t)")
    case True
    then obtain v where v: "getSharedWorkflow token (w\<lparr>clock := t\<rparr>) = (Inr (Some x), v)"
      "find (\<lambda>x. wf_shareToken x = Some token) (workflowRows v) =
        Some (x\<lparr>wf_shareViewCount := wf_shareViewCount x + 1, wf_updatedAt := t\<rparr>)"
      using visit_run(1) [OF Cons.prems(1)] by blast
    then have s: "served token (t # ts) w = t # served token ts v" by simp
    have "wf_shareViewCount x < n" "wf_shareExpiresAt x = Some e \<Longrightarrow> js_date t \<le> e" for e
      using True Cons.prems by (auto simp: share_open_def)
    then show ?thesis
      using Cons.IH [OF v(2)] Cons.prems unfolding s by auto
  next
    case False
    then have s: "served token (t # ts) w = served token ts (w\<lparr>clock := t\<rparr>)"
      using visit_run(2) [OF Cons.prems(1)] by simp
    have "n \<le> wf_shareViewCount x \<or> wf_shareExpiresAt x \<noteq> None"
      using False Cons.prems by (auto simp: share_open_def split: option.splits)
    then show ?thesis
      using Cons.IH [of "w\<lparr>clock := t\<rparr>" x] Cons.prems unfolding s by auto
  qed
qed

definition shared_world :: world where
  "shared_world = sample_world\<lparr>workflowRows :=
     [sample_workflow\<lparr>wf_shareToken := Some ''k'', wf_shareMaxViews := Some 2\<rparr>]\<rparr>"

theorem share_views_bounded_witness: "length (served ''k'' [1, 2, 3, 4] shared_world) = 2"
  using share_views_bounded [of "''k''" shared_world _ 2 "[1, 2, 3, 4]"] by (simp add: shared_world_def sample_defs)

section \<open>The Elsa mapping\<close>

lemma mapOrThrow_Inr: "mapOrThrow f xs = Inr ys \<longleftrightarrow> list_all2 (\<lambda>x y. f x = Inr y) xs ys"
proof (induction xs arbitrary: ys)
  case (Cons x xs)
  show ?case
  proof (cases ys)
    case (Cons y ys')
    then show ?thesis using Cons.IH [of ys'] by (auto split: sum.splits)
  qed (auto split: sum.splits)
qed auto

lemma mapOrThrow_ok: "(\<exists>ys. mapOrThrow f xs = Inr ys) \<longleftrightarrow> (\<forall>x \<in> set xs. \<exists>y. f x = Inr y)"
  by (induction xs) (auto split: sum.splits)

fun is_text :: "json option \<Rightarrow> bool" where
  "is_text (Some (JStr s)) = True"
| "is_text _ = False"

text \<open>A convertible document: lists of elements, every node with a textual type, no null edge.\<close>

definition convertible :: "json list \<Rightarrow> json list \<Rightarrow> bool" where
  "convertible nodes edges \<longleftrightarrow> (\<forall>x \<in> set nodes. is_text (field x ''type'')) \<and> JNull \<notin> set edges"

fun flat :: "json \<Rightarrow> bool" where
  "flat (JObj kvs) = list_all (\<lambda>(k, v). is_primitive v) kvs"
| "flat _ = False"

lemma convertNode_ok: "(\<exists>a. convertNodeToActivity x = Inr a) \<longleftrightarrow> is_text (field x ''type'')"
  by (cases "field x ''type''" rule: is_text.cases) (simp_all add: convertNodeToActivity_def Let_def)

lemma convertEdge_ok: "(\<exists>c. convertEdgeToConnection x = Inr c) \<longleftrightarrow> x \<noteq> JNull"
  by (simp add: convertEdgeToConnection_def)

lemma flat_sanitized: "flat (JObj (sanitizeProperties p))"
  by (auto simp: sanitizeProperties_def flatten_value_def list_all_iff)

lemma customProperties_flat:
  "convertNodeToActivity x = Inr a \<Longrightarrow> ea_properties a = Some ps \<Longrightarrow> map_of ps ''customProperties'' = Some c \<Longrightarrow> flat c"
  by (auto simp: convertNodeToActivity_def activity_properties_def Let_def flat_sanitized simp del: flat.simps
      split: option.splits json.splits if_splits)

lemma convertNode_id: "convertNodeToActivity x = Inr a \<Longrightarrow> ea_id a = field x ''id''"
  by (auto simp: convertNodeToActivity_def Let_def split: option.splits json.splits)

text \<open>C24. The type of the Elsa conversion: a document with lists of nodes and edges converts exactly when every
node has a textual type and no edge is null; then there is one activity per node and one connection per edge, in
order, activities keep the ids of their nodes, and the custom properties they carry are flat, with no nested
value.\<close>

theorem elsa_conversion_typed:
  assumes "element_list e ''nodes'' = Inr nodes" "element_list e ''edges'' = Inr edges"
  shows "((\<exists>x. convertToElsaWorkflow e i name version = Inr x) \<longleftrightarrow> convertible nodes edges) \<and>
    (\<forall>x. convertToElsaWorkflow e i name version = Inr x \<longrightarrow>
       map ea_id (ew_activities x) = map (\<lambda>n. field n ''id'') nodes \<and>
       length (ew_connections x) = length edges \<and>
       (\<forall>a \<in> set (ew_activities x). \<forall>ps c. ea_properties a = Some ps \<and> map_of ps ''customProperties'' = Some c \<longrightarrow> flat c))"
proof
  show "(\<exists>x. convertToElsaWorkflow e i name version = Inr x) \<longleftrightarrow> convertible nodes edges"
    using mapOrThrow_ok [of convertNodeToActivity nodes] mapOrThrow_ok [of convertEdgeToConnection edges]
    by (auto simp: convertToElsaWorkflow_def assms convertible_def convertNode_ok convertEdge_ok split: sum.splits)
  show "\<forall>x. convertToElsaWorkflow e i name version = Inr x \<longrightarrow>
       map ea_id (ew_activities x) = map (\<lambda>n. field n ''id'') nodes \<and>
       length (ew_connections x) = length edges \<and>
       (\<forall>a \<in> set (ew_activities x). \<forall>ps c. ea_properties a = Some ps \<and> map_of ps ''customProperties'' = Some c \<longrightarrow> flat c)"
  proof (intro allI impI)
    fix x assume "convertToElsaWorkflow e i name version = Inr x"
    then obtain as cs where x: "mapOrThrow convertNodeToActivity nodes = Inr as" "mapOrThrow convertEdgeToConnection edges = Inr cs"
      "ew_activities x = as" "ew_connections x = cs"
      by (auto simp: convertToElsaWorkflow_def assms split: sum.splits)
    then have "list_all2 (\<lambda>n a. convertNodeToActivity n = Inr a) nodes as" "length cs = length edges"
      by (auto simp: mapOrThrow_Inr dest: list_all2_lengthD)
    moreover from this(1) have "map ea_id as = map (\<lambda>n. field n ''id'') nodes"
      by (induction rule: list_all2_induct) (auto dest: convertNode_id)
    moreover have "\<exists>n. convertNodeToActivity n = Inr a" if "a \<in> set as" for a
      using calculation(1) that by (induction rule: list_all2_induct) auto
    ultimately show "map ea_id (ew_activities x) = map (\<lambda>n. field n ''id'') nodes \<and>
       length (ew_connections x) = length edges \<and>
       (\<forall>a \<in> set (ew_activities x). \<forall>ps c. ea_properties a = Some ps \<and> map_of ps ''customProperties'' = Some c \<longrightarrow> flat c)"
      using x(3,4) customProperties_flat by blast
  qed
qed

theorem elsa_conversion_typed_witness:
  "\<exists>x. convertToElsaWorkflow (JObj [(''nodes'', JArr [JObj [(''type'', JStr ''task'')]])]) ''w1'' ''T'' 1 = Inr x"
  using elsa_conversion_typed [of "JObj [(''nodes'', JArr [JObj [(''type'', JStr ''task'')]])]" "[JObj [(''type'', JStr ''task'')]]" "[]"]
  by (simp add: element_list_def get_prop_def nullish_def convertible_def)

section \<open>The export routes\<close>

definition may_export :: "Workflow \<Rightarrow> RequestUser \<Rightarrow> bool" where
  "may_export x caller \<longleftrightarrow> wf_ownerId x = rq_id caller \<or> rq_role caller = ''admin'' \<or> rq_role caller = ''business_analyst''"

definition reconciled :: "string \<Rightarrow> world \<Rightarrow> bool" where
  "reconciled i w \<longleftrightarrow> (\<forall>s. latest_session i w = Some s \<longrightarrow> se_status s \<noteq> SessionStatus.NEEDS_RECONCILIATION \<and>
     (\<forall>rep. latest_report i w = Some rep \<longrightarrow> unresolved_critical (dr_id rep) w = []))"

lemma divergence_gate_open: "export_refusal (divergence_gate i w) = None \<longleftrightarrow> reconciled i w"
  by (simp add: divergence_gate_def reconciled_def export_refusal_def Let_def split: option.splits)

lemma findOneWithLatestVersion_run:
  "findOneWithLatestVersion i g w = (case find (\<lambda>x. wf_id x = i \<and> wf_orgId x = g) (workflowRows w) of
     None \<Rightarrow> Inl (NotFoundException (JStr (''Workflow '' @ i @ '' not found''))) | Some x \<Rightarrow> Inr (x, findLatestVersion i w), w)"
  by (simp add: findOneWithLatestVersion_def findWorkflow_run andThen_def reading_def ret_def split: option.splits)

definition verdict :: "string \<Rightarrow> RequestUser \<Rightarrow> Workflow \<Rightarrow> world \<Rightarrow> Exportability" where
  "verdict i caller x w =
     (if \<not> may_export x caller then \<lparr>ex_reason = Some FORBIDDEN, ex_unresolvedCriticalPoints = None\<rparr>
      else if wf_status x \<noteq> WorkflowStatus.VALIDATED then \<lparr>ex_reason = Some INVALID_STATUS, ex_unresolvedCriticalPoints = Some 0\<rparr>
      else divergence_gate i w)"

lemma export_gate_verdict:
  assumes "find (\<lambda>x. wf_id x = i \<and> wf_orgId x = rq_orgId caller) (workflowRows w) = Some x"
  shows "export_gate i caller w = (case export_refusal (verdict i caller x w) of None \<Rightarrow> Inr x | Some e \<Rightarrow> Inl e, w)"
proof -
  have "validateExportability i caller w = (Inr (verdict i caller x w), w)"
    using assms by (auto simp: validateExportability_def findOneWithLatestVersion_run run_simps verdict_def may_export_def)
  then show ?thesis
    using assms by (auto simp: export_gate_def run_simps findOneWithLatestVersion_run split: option.split)
qed

lemma export_refusal_cases:
  "export_refusal (verdict i caller x w) = None \<longleftrightarrow>
     may_export x caller \<and> wf_status x = WorkflowStatus.VALIDATED \<and> reconciled i w"
  "export_refusal g = Some e \<Longrightarrow> getStatus e \<in> {403, 409}"
  using divergence_gate_open [of i w]
  by (auto simp: verdict_def export_refusal_def split: option.splits ExportReason.splits)

text \<open>The gate changes nothing; it opens for an exporter of a validated, reconciled workflow.\<close>

lemma export_gate_run:
  assumes "find (\<lambda>x. wf_id x = i \<and> wf_orgId x = rq_orgId caller) (workflowRows w) = Some x"
  shows "may_export x caller \<and> wf_status x = WorkflowStatus.VALIDATED \<and> reconciled i w \<Longrightarrow>
      export_gate i caller w = (Inr x, w)"
    "\<not> (may_export x caller \<and> wf_status x = WorkflowStatus.VALIDATED \<and> reconciled i w) \<Longrightarrow>
      \<exists>e. export_gate i caller w = (Inl e, w) \<and> getStatus e \<in> {403, 409}"
    "may_export x caller \<Longrightarrow> wf_status x \<noteq> WorkflowStatus.VALIDATED \<Longrightarrow>
      export_gate i caller w = (Inl (ConflictException (JObj [(''code'', JStr ''INVALID_STATUS'')])), w)"
proof -
  note v = export_gate_verdict [OF assms] export_refusal_cases(1) [of i caller x w]
  show "may_export x caller \<and> wf_status x = WorkflowStatus.VALIDATED \<and> reconciled i w \<Longrightarrow>
      export_gate i caller w = (Inr x, w)"
    using v by simp
  show "\<exists>e. export_gate i caller w = (Inl e, w) \<and> getStatus e \<in> {403, 409}"
    if refused: "\<not> (may_export x caller \<and> wf_status x = WorkflowStatus.VALIDATED \<and> reconciled i w)"
  proof -
    obtain e where e: "export_refusal (verdict i caller x w) = Some e" using refused v(2) by blast
    then have "export_gate i caller w = (Inl e, w)" using v(1) by simp
    then show ?thesis using export_refusal_cases(2) [OF e] by blast
  qed
  show "may_export x caller \<Longrightarrow> wf_status x \<noteq> WorkflowStatus.VALIDATED \<Longrightarrow>
      export_gate i caller w = (Inl (ConflictException (JObj [(''code'', JStr ''INVALID_STATUS'')])), w)"
    using v(1) by (simp add: verdict_def export_refusal_def)
qed

lemma export_gate_unknown:
  "find (\<lambda>x. wf_id x = i \<and> wf_orgId x = rq_orgId caller) (workflowRows w) = None \<Longrightarrow>
     export_gate i caller w = (Inl (NotFoundException (JStr (''Workflow '' @ i @ '' not found''))), w)"
  by (simp add: export_gate_def validateExportability_def findOneWithLatestVersion_run run_simps)


definition export_world :: world where
  "export_world = sample_world\<lparr>workflowRows := [sample_workflow\<lparr>wf_status := WorkflowStatus.VALIDATED, wf_currentVersion := 1\<rparr>],
     versionRows := [version_row ''v1'' ''w1'' 1 (JObj []) None ''u1'' 0]\<rparr>"


text \<open>BPMN and PDF exports never start: their pipeline run is recorded with the workflow's id as its session, so
unless some session happens to have that id, the request fails with a server error after the gate and no run is
recorded.\<close>

theorem async_exports_fail:
  assumes "\<not> sessionExists i w" "exportAsyncRoute format i caller w = (r, v)"
  shows "(\<exists>e. r = Inl e \<and> getStatus e \<in> {403, 404, 409, 500}) \<and> pipelineRows v = pipelineRows w"
proof (cases "find (\<lambda>x. wf_id x = i \<and> wf_orgId x = rq_orgId caller) (workflowRows w)")
  case None
  then show ?thesis using assms(2) export_gate_unknown [OF None] by (auto simp: exportAsyncRoute_def run_simps)
next
  case (Some x)
  note g = export_gate_run [OF Some]
  show ?thesis
  proof (cases "may_export x caller \<and> wf_status x = WorkflowStatus.VALIDATED \<and> reconciled i w")
    case True
    then show ?thesis
      using g(1) assms
      by (auto simp: exportAsyncRoute_def run_simps exportAsync_def save_pipeline_def export_pipeline_def sessionExists_def)
  next
    case False
    then show ?thesis using g(2) assms(2) by (auto simp: exportAsyncRoute_def run_simps)
  qed
qed

theorem async_exports_fail_witness:
  "\<exists>e. fst (exportAsyncRoute PDF ''w1'' \<lparr>rq_id = ''u1'', rq_orgId = ''o1'', rq_role = ''viewer''\<rparr> export_world) = Inl e"
  using async_exports_fail [of "''w1''" export_world PDF "\<lparr>rq_id = ''u1'', rq_orgId = ''o1'', rq_role = ''viewer''\<rparr>"]
  by (cases "exportAsyncRoute PDF ''w1'' \<lparr>rq_id = ''u1'', rq_orgId = ''o1'', rq_role = ''viewer''\<rparr> export_world")
    (auto simp: sessionExists_def export_world_def sample_defs)

end
