(* ===== verification/Ai_Handlers.thy ===== *)
theory Ai_Handlers
  imports Sessions Versions
begin

text \<open>
  What the back end does with the messages of the AI service:
  \<open>src/modules/ai-gateway/ai-gateway.subscriber.service.ts\<close>, the handlers under \<open>handlers/\<close>, the dead
  letters of \<open>dlq/ai-task-dlq.service.ts\<close>, and the document preprocessing results of
  \<open>src/modules/documents/services/document-preprocess.subscriber.service.ts\<close>.

  A payload is decoded JSON. A text property that holds neither a string nor null is read as absent.
\<close>

section \<open>Reading payloads\<close>

definition text_at :: "json \<Rightarrow> string \<Rightarrow> string option" where
  "text_at p k = (case field p k of Some (JStr s) \<Rightarrow> Some s | _ \<Rightarrow> None)"

definition number_at :: "json \<Rightarrow> string \<Rightarrow> number option" where
  "number_at p k = (case field p k of Some (JNum n) \<Rightarrow> Some n | _ \<Rightarrow> None)"

text \<open>\<open>x ?? y\<close> on options, and \<open>String(x)\<close> as template literals apply it.\<close>

definition or_else :: "'a option \<Rightarrow> 'a option \<Rightarrow> 'a option" where
  "or_else x y = (case x of None \<Rightarrow> y | Some v \<Rightarrow> Some v)"

definition or_default :: "'a option \<Rightarrow> 'a \<Rightarrow> 'a" where
  "or_default x y = (case x of None \<Rightarrow> y | Some v \<Rightarrow> v)"

fun js_String :: "json \<Rightarrow> string" where
  "js_String JNull = ''null''"
| "js_String (JBool b) = (if b then ''true'' else ''false'')"
| "js_String (JNum n) = n"
| "js_String (JStr s) = s"
| "js_String (JArr xs) = js_join '','' (map (\<lambda>x. if x = JNull then [] else js_String x) xs)"
| "js_String (JObj kvs) = ''[object Object]''"

definition template :: "json option \<Rightarrow> string" where
  "template x = (case x of None \<Rightarrow> ''undefined'' | Some v \<Rightarrow> js_String v)"

text \<open>\<open>findOne\<close> by a column: an undefined or null value is no condition, so any row may be found; the model
  takes the first.\<close>

definition findOneBy :: "('r \<Rightarrow> string) \<Rightarrow> string option \<Rightarrow> 'r list \<Rightarrow> 'r option" where
  "findOneBy key i rows = find (\<lambda>r. optionally (\<lambda>k. key r = k) i) rows"

text \<open>The ids of handled messages, the oldest dropped beyond ten thousand.\<close>

definition markHandled :: "string \<Rightarrow> string list \<Rightarrow> string list" where
  "markHandled key ids =
     (let ks = (if key \<in> set ids then ids else ids @ [key]) in if length ks > 10000 then tl ks else ks)"

definition idempotencyKey :: "string option \<Rightarrow> string \<Rightarrow> string \<Rightarrow> string" where
  "idempotencyKey msgId correlation subject = or_default msgId [] @ '':'' @ correlation @ '':'' @ subject"

text \<open>Reading a property of a payload that is null throws.\<close>

definition not_null :: "json \<Rightarrow> unit service" where
  "not_null p = check (p \<noteq> JNull) (TypeError ''Cannot read properties of null'')"

section \<open>Results of a generation\<close>

record AiTaskResultEvent =
  ar_correlation_id :: string
  ar_session_id :: "string option"
  ar_org_id :: string
  ar_pipeline_execution_id :: string
  ar_workflow_json :: json
  ar_elsa_json :: "json option"
  ar_confidence :: number
  ar_summary :: "string option"
  ar_version_number :: "int option"

text \<open>The simplified payload of the AI service is completed from the latest run of its session.\<close>

definition latest_pipeline :: "string option \<Rightarrow> world \<Rightarrow> PipelineExecution option" where
  "latest_pipeline sessionId w =
     max_by pe_createdAt (filter (\<lambda>p. optionally (\<lambda>s. pe_sessionId p = s) sessionId) (pipelineRows w))"

definition org_of_session :: "string option \<Rightarrow> world \<Rightarrow> string" where
  "org_of_session sessionId w =
     (case findOneBy se_id sessionId (sessionRows w) of
        None \<Rightarrow> []
      | Some session \<Rightarrow> (case find_row wf_id (se_workflowId session) (workflowRows w) of None \<Rightarrow> [] | Some x \<Rightarrow> wf_orgId x))"

definition enrichResultPayload :: "json \<Rightarrow> world \<Rightarrow> AiTaskResultEvent" where
  "enrichResultPayload p w =
     (let sessionId = text_at p ''session_id''; latest = latest_pipeline sessionId w in
      \<lparr>ar_correlation_id = or_default (or_else (text_at p ''correlation_id'') (Option.bind latest pe_natsMessageId))
         (''enriched-'' @ nat_digits (clock w div 1000)),
       ar_session_id = sessionId, ar_org_id = org_of_session sessionId w,
       ar_pipeline_execution_id = or_default (or_else (text_at p ''pipeline_execution_id'') (map_option pe_id latest)) [],
       ar_workflow_json = nullish (field p ''elements_json'') (nullish (field p ''workflow_json'') (JObj [])),
       ar_elsa_json = (if field p ''workflow_json'' = Some JNull then None else field p ''workflow_json''),
       ar_confidence = or_default (number_at p ''confidence'') ''0'',
       ar_summary = Some (or_default (or_else (text_at p ''ai_summary'') (text_at p ''summary'')) ''AI pipeline completed''),
       ar_version_number = None\<rparr>)"

definition assertOrgMatch :: "string \<Rightarrow> string \<Rightarrow> unit service" where
  "assertOrgMatch orgId sessionId =
     unless (orgId = [])
       (andThen (\<lambda>w. orThrow (find_row se_id sessionId (sessionRows w)) (PlainError ''Session not found for org validation'') w) (\<lambda>session.
        andThen (\<lambda>w. orThrow (find_row wf_id (se_workflowId session) (workflowRows w)) (PlainError ''Workflow not found for org validation'') w) (\<lambda>workflow.
        check (wf_orgId workflow = orgId) (PlainError ''org_id mismatch in NATS payload''))))"

definition result_version :: "AiTaskResultEvent \<Rightarrow> Workflow \<Rightarrow> Session \<Rightarrow> string \<Rightarrow> world \<Rightarrow> WorkflowVersion" where
  "result_version payload workflow session i w =
     \<lparr>wv_id = i, wv_workflowId = wf_id workflow,
      wv_versionNumber = or_default (ar_version_number payload)
        ((case findLatestVersion (wf_id workflow) w of None \<Rightarrow> 0 | Some v \<Rightarrow> wv_versionNumber v) + 1),
      wv_elementsJson = ar_workflow_json payload, wv_elsaJson = ar_elsa_json payload,
      wv_confidenceScore = Some (ar_confidence payload), wv_createdBy = Some (se_userId session), wv_createdAt = clock w\<rparr>"

definition createWorkflowVersionFromResult :: "AiTaskResultEvent \<Rightarrow> Workflow \<Rightarrow> Session \<Rightarrow> WorkflowVersion service" where
  "createWorkflowVersionFromResult payload workflow session =
     andThen new_id (\<lambda>i.
     andThen (reading (result_version payload workflow session i)) (\<lambda>v.
     andThen (insert_version v) (\<lambda>_. ret v)))"

definition computeChangedElements :: "json \<Rightarrow> error + json list" where
  "computeChangedElements e =
     (let es = extractElements e in
      if JNull \<in> set es then Inl (TypeError ''Cannot read properties of null'')
      else Inr (map (\<lambda>x. JObj [(''element_id'', the (field x ''element_id'')), (''change_type'', JStr ''modified'')])
        (filter (\<lambda>x. text_at x ''element_id'' \<noteq> None) es)))"

text \<open>The update event of a generated version carries an empty correlation id.\<close>

definition markWorkflowUpdated :: "string \<Rightarrow> WorkflowVersion \<Rightarrow> unit service" where
  "markWorkflowUpdated workflowId version =
     andThen (liftSum (computeChangedElements (wv_elementsJson version))) (\<lambda>changed.
     publishWorkflowUpdated
       \<lparr>wu_workflow_id = workflowId, wu_version_number = wv_versionNumber version, wu_changed_elements = JArr changed,
        wu_source = ''ai'', wu_actor_id = None, wu_correlation_id = []\<rparr>)"

definition snapshot_row :: "string \<Rightarrow> string \<Rightarrow> string option \<Rightarrow> Session \<Rightarrow> GraphType \<Rightarrow> GraphSource \<Rightarrow> json list \<Rightarrow> json list \<Rightarrow> time \<Rightarrow> WorkflowGraphSnapshot" where
  "snapshot_row i workflowId versionId session graphType src nodes edges now =
     \<lparr>gs_id = i, gs_workflowId = workflowId, gs_workflowVersionId = versionId, gs_sessionId = Some (se_id session),
      gs_graphType = graphType, gs_source = src, gs_nodes = nodes, gs_edges = edges, gs_nodeCount = int (length nodes),
      gs_edgeCount = int (length edges), gs_graphEmbedding = None, gs_createdBy = Some (se_userId session), gs_createdAt = now\<rparr>"

definition kg_node_json :: "KGNode \<Rightarrow> json" where
  "kg_node_json node = JObj [(''id'', JStr (kn_id node)), (''type'', JStr (kn_type node)), (''label'', JStr (kn_label node)),
     (''inferred'', JBool (kn_inferred node))]"

definition kg_edge_json :: "KGEdge \<Rightarrow> json" where
  "kg_edge_json edge = JObj [(''id'', JStr (ke_id edge)), (''from'', JStr (ke_fromNodeId edge)), (''to'', JStr (ke_toNodeId edge)),
     (''relationType'', JStr (ke_relationType edge))]"

definition buildIntentSnapshot :: "Session \<Rightarrow> string \<Rightarrow> string service" where
  "buildIntentSnapshot session workflowId =
     andThen new_id (\<lambda>i.
     andThen (reading (\<lambda>w. snapshot_row i workflowId None session GraphType.INTENT GraphSource.AI_EXTRACTION
       (map kg_node_json (filter (\<lambda>n. kn_sessionId n = se_id session) (kgNodeRows w)))
       (map kg_edge_json (filter (\<lambda>e. ke_sessionId e = se_id session) (kgEdgeRows w))) (clock w))) (\<lambda>g.
     andThen (insert_snapshot g) (\<lambda>_. ret i)))"

definition array_at :: "json \<Rightarrow> string \<Rightarrow> json list" where
  "array_at e k = (case field e k of Some (JArr xs) \<Rightarrow> xs | _ \<Rightarrow> [])"

definition buildGeneratedSnapshot :: "Session \<Rightarrow> string \<Rightarrow> WorkflowVersion \<Rightarrow> string service" where
  "buildGeneratedSnapshot session workflowId version =
     andThen new_id (\<lambda>i.
     andThen (reading (\<lambda>w. snapshot_row i workflowId (Some (wv_id version)) session GraphType.GENERATED GraphSource.AI_GENERATION
       (array_at (wv_elementsJson version) ''nodes'') (array_at (wv_elementsJson version) ''edges'') (clock w))) (\<lambda>g.
     andThen (insert_snapshot g) (\<lambda>_. ret i)))"

definition createDivergenceReport :: "string \<Rightarrow> string \<Rightarrow> string \<Rightarrow> string \<Rightarrow> string service" where
  "createDivergenceReport workflowId pipelineExecutionId graphAId graphBId =
     andThen new_id (\<lambda>i.
     andThen (reading clock) (\<lambda>now.
     andThen (save_report
       \<lparr>dr_id = i, dr_workflowId = workflowId, dr_graphAId = graphAId, dr_graphBId = graphBId,
        dr_comparisonType = ComparisonType.INTENT_VS_GENERATED, dr_status = DivergenceReportStatus.PENDING,
        dr_overallSimilarity = None, dr_severity = None, dr_algorithmUsed = None, dr_totalPoints = 0, dr_criticalCount = 0,
        dr_highCount = 0, dr_mediumCount = 0, dr_lowCount = 0, dr_autoTriggered = True, dr_triggeredBy = None,
        dr_pipelineExecutionId = Some pipelineExecutionId, dr_completedAt = None, dr_createdAt = now\<rparr>) (\<lambda>_.
     ret i)))"

text \<open>The rows the handler needs, found before anything is written.\<close>

definition result_rows :: "AiTaskResultEvent \<Rightarrow> (PipelineExecution \<times> Session \<times> Workflow) service" where
  "result_rows payload =
     andThen (\<lambda>w. orThrow (find (\<lambda>p. pe_id p = ar_pipeline_execution_id payload \<and>
         optionally (\<lambda>s. pe_sessionId p = s) (ar_session_id payload)) (pipelineRows w))
       (PlainError ''Pipeline execution not found for ai.tasks.result'') w) (\<lambda>pipeline.
     andThen (\<lambda>w. orThrow (findOneBy se_id (ar_session_id payload) (sessionRows w)) (PlainError ''Session not found for ai.tasks.result'') w) (\<lambda>session.
     andThen (assertOrgMatch (ar_org_id payload) (se_id session)) (\<lambda>_.
     andThen (\<lambda>w. orThrow (find_row wf_id (se_workflowId session) (workflowRows w)) (PlainError ''Workflow not found for ai.tasks.result'') w) (\<lambda>workflow.
     ret (pipeline, session, workflow)))))"

definition result_message :: "AiTaskResultEvent \<Rightarrow> Session \<Rightarrow> WorkflowVersion \<Rightarrow> string \<Rightarrow> time \<Rightarrow> Message" where
  "result_message payload session version i now =
     \<lparr>me_id = i, me_sessionId = se_id session, me_role = MessageRole.AI, me_type = MessageType.AI_UPDATE,
      me_content = or_default (ar_summary payload) ''AI pipeline completed and workflow updated'',
      me_metadata = JObj [(''correlation_id'', JStr (ar_correlation_id payload)),
        (''version_number'', json_int (wv_versionNumber version))],
      me_createdAt = now, me_archivedAt = None\<rparr>"

text \<open>After the version: the workflow row, the session, the run, the message, the audit entry.\<close>

definition apply_result :: "AiTaskResultEvent \<Rightarrow> PipelineExecution \<Rightarrow> Session \<Rightarrow> Workflow \<Rightarrow> WorkflowVersion \<Rightarrow> unit service" where
  "apply_result payload pipeline session workflow created =
     andThen (save_workflow (workflow\<lparr>wf_currentVersion := wv_versionNumber created, wf_status := WorkflowStatus.PENDING_REVIEW\<rparr>)) (\<lambda>saved.
     andThen (liftSum (transitionSessionStatus (se_status session) AI_RESULT_RECEIVED (Some (se_mode session)))) (\<lambda>status.
     andThen (save_session (session\<lparr>se_confidenceScore := ar_confidence payload, se_status := status\<rparr>)) (\<lambda>_.
     andThen (reading new_Date) (\<lambda>now.
     andThen (save_pipeline (pipeline\<lparr>pe_status := PipelineStatus.COMPLETED, pe_finalConfidence := Some (ar_confidence payload),
       pe_completedAt := Some now, pe_errorSummary := None\<rparr>)) (\<lambda>_.
     andThen new_id (\<lambda>mid.
     andThen (reading clock) (\<lambda>at.
     andThen (insert_message (result_message payload session created mid at)) (\<lambda>_.
     andThen (audit_log (audit_entry (Some (wf_id workflow)) None ActorType.AI_AGENT ''AI_TASK_RESULT_APPLIED'' None
       (Some (JObj [(''workflow_current_version'', json_int (wf_currentVersion workflow)),
                    (''session_status'', JStr (session_status_str (se_status session)))]))
       (Some (JObj [(''workflow_current_version'', json_int (wf_currentVersion saved)),
                    (''session_status'', JStr (session_status_str status)), (''confidence'', JNum (ar_confidence payload))])))) (\<lambda>_.
     ret ())))))))))"

text \<open>Then the events: the workflow update, the graphs to compare with their report, and the notification.\<close>

definition announce_result :: "AiTaskResultEvent \<Rightarrow> PipelineExecution \<Rightarrow> Session \<Rightarrow> Workflow \<Rightarrow> WorkflowVersion \<Rightarrow> unit service" where
  "announce_result payload pipeline session workflow created =
     andThen (markWorkflowUpdated (wf_id workflow) created) (\<lambda>_.
     andThen (buildIntentSnapshot session (wf_id workflow)) (\<lambda>intent.
     andThen (buildGeneratedSnapshot session (wf_id workflow) created) (\<lambda>generated.
     andThen (createDivergenceReport (wf_id workflow) (pe_id pipeline) intent generated) (\<lambda>report.
     andThen (publishAiTaskDivergence (ar_correlation_id payload) report
       (JObj [(''correlation_id'', JStr (ar_correlation_id payload)), (''report_id'', JStr report),
              (''graph_a_id'', JStr intent), (''graph_b_id'', JStr generated),
              (''comparison_type'', JStr (comparison_type_str ComparisonType.INTENT_VS_GENERATED)),
              (''session_id'', JStr (se_id session))])) (\<lambda>_.
     emitToSession (se_id session) ''workflow.updated''
       (JObj [(''workflowId'', JStr (wf_id workflow)), (''versionNumber'', json_int (wv_versionNumber created)),
              (''confidence'', JNum (ar_confidence payload))]))))))"

definition handleResult :: "string option \<Rightarrow> AiTaskResultEvent \<Rightarrow> unit service" where
  "handleResult msgId payload w =
     (let key = idempotencyKey msgId (ar_correlation_id payload) ''ai.tasks.result'' in
      if key \<in> set (completedIds w) then (Inr (), w)
      else andThen (result_rows payload) (\<lambda>(pipeline, session, workflow).
        andThen (createWorkflowVersionFromResult payload workflow session) (\<lambda>created.
        andThen (apply_result payload pipeline session workflow created) (\<lambda>_.
        andThen (announce_result payload pipeline session workflow created) (\<lambda>_.
        writing (completedIds_update (markHandled key)))))) w)"

section \<open>Divergence results\<close>

text \<open>The threshold is never configured, so its default holds. A null score counts as zero, an absent one
  compares false.\<close>

definition below_threshold :: "json option \<Rightarrow> bool" where
  "below_threshold score = (case score of Some (JNum n) \<Rightarrow> num_less n ''0.7'' | Some JNull \<Rightarrow> True | _ \<Rightarrow> False)"

definition scored :: "json option \<Rightarrow> DivergenceReport \<Rightarrow> DivergenceReport" where
  "scored score report = (case score of
     Some (JNum n) \<Rightarrow> report\<lparr>dr_overallSimilarity := Some n\<rparr>
   | Some JNull \<Rightarrow> report\<lparr>dr_overallSimilarity := None\<rparr> | _ \<Rightarrow> report)"

definition handleDivergence :: "string option \<Rightarrow> json \<Rightarrow> unit service" where
  "handleDivergence msgId p w =
     (let key = idempotencyKey msgId (template (field p ''correlation_id'')) ''ai.tasks.divergence.result'';
          score = field p ''similarity_score'' in
      if key \<in> set (divergenceIds w) then (Inr (), w)
      else andThen (\<lambda>v. orThrow (findOneBy dr_id (text_at p ''report_id'') (reportRows v)) (PlainError ''Divergence report not found'') v) (\<lambda>report.
        andThen (save_report (scored score report)) (\<lambda>_.
        andThen (unless (\<not> below_threshold score)
          (andThen (reading (\<lambda>v. findOneBy se_id (text_at p ''session_id'') (sessionRows v))) (\<lambda>found.
           case found of
             None \<Rightarrow> ret ()
           | Some session \<Rightarrow>
               andThen (save_session (session\<lparr>se_status := SessionStatus.NEEDS_RECONCILIATION\<rparr>)) (\<lambda>_.
               emitToSession (se_id session) ''session.needs_reconciliation''
                 (obj [(''similarityScore'', score), (''threshold'', Some (JNum ''0.7''))]))))) (\<lambda>_.
        writing (divergenceIds_update (markHandled key))))) w)"

section \<open>Progress, exhaustion, documents\<close>

definition handleProgress :: "json \<Rightarrow> unit service" where
  "handleProgress p =
     unless (\<not> truthy (text_at p ''session_id''))
       (emitToSession (the (text_at p ''session_id'')) ''pipeline.progress''
         (JObj [(''agentName'', nullish (field p ''agent_name'') (JStr ''pipeline'')),
                (''status'', nullish (field p ''status'') (JStr ''running'')),
                (''progressPct'', nullish (field p ''progress_pct'') (JNum ''0'')),
                (''message'', nullish (field p ''message'') (JStr []))]))"

definition recordFailure :: "string \<Rightarrow> json \<Rightarrow> string \<Rightarrow> nat \<Rightarrow> string \<Rightarrow> unit service" where
  "recordFailure subject payload why deliveryCount lastError =
     andThen new_id (\<lambda>i.
     andThen (reading clock) (\<lambda>now.
     insert_dead_letter \<lparr>dl_id = i, dl_subject = subject, dl_payload = payload, dl_reason = why,
       dl_deliveryCount = int deliveryCount, dl_lastError = Some lastError, dl_createdAt = now\<rparr>))"

definition fail_pipeline :: "string option \<Rightarrow> string \<Rightarrow> unit service" where
  "fail_pipeline pipelineExecutionId lastError =
     unless (\<not> truthy pipelineExecutionId)
       (andThen (reading (\<lambda>w. (find_row pe_id (the pipelineExecutionId) (pipelineRows w), new_Date w))) (\<lambda>(found, now).
        case found of
          None \<Rightarrow> ret ()
        | Some p \<Rightarrow> save_pipeline (p\<lparr>pe_status := PipelineStatus.FAILED, pe_errorSummary := Some lastError, pe_completedAt := Some now\<rparr>)))"

definition retryExhausted :: "SubscriberMeta \<Rightarrow> json \<Rightarrow> error \<Rightarrow> unit service" where
  "retryExhausted meta payload e =
     (let sessionId = text_at payload ''session_id''; lastError = error_message e;
          why = ''max deliveries reached for '' @ sm_subject meta in
      andThen (not_null payload) (\<lambda>_.
      andThen (fail_pipeline (text_at payload ''pipeline_execution_id'') lastError) (\<lambda>_.
      andThen (unless (\<not> truthy sessionId) (emitToSession (the sessionId) ''pipeline.failed''
        (JObj [(''subject'', JStr (sm_subject meta)), (''reason'', JStr why), (''lastError'', JStr lastError)]))) (\<lambda>_.
      recordFailure (sm_subject meta) payload why (sm_deliveryCount meta) lastError))))"

definition handlePreprocessResult :: "json \<Rightarrow> unit service" where
  "handlePreprocessResult p =
     andThen (reading (\<lambda>w. findOneBy do_id (text_at p ''document_id'') (documentRows w))) (\<lambda>found.
     case found of
       None \<Rightarrow> ret ()
     | Some d \<Rightarrow>
         if do_deletedAt d \<noteq> None \<or> do_archivedAt d \<noteq> None then ret ()
         else andThen (save_document (d\<lparr>do_extractedText := text_at p ''extracted_text'',
             do_preprocessingConfidence := number_at p ''preprocessing_confidence''\<rparr>)) (\<lambda>_.
           case do_sessionId d of
             None \<Rightarrow> ret ()
           | Some s \<Rightarrow> unless (s = []) (emitToSession s ''document.ready''
               (JObj [(''type'', JStr ''document.ready''), (''document_id'', JStr (do_id d))]))))"

section \<open>The subscriptions\<close>

text \<open>\<open>decode\<close> is the JSON codec of the NATS client. The handlers are called without the message id.\<close>

definition result_subscription :: "(string \<Rightarrow> json option) \<Rightarrow> DurableSubscriberOptions" where
  "result_subscription decode =
     \<lparr>so_subject = ''ai.tasks.result'', so_decode = decode, so_validate = None,
      so_handler = (\<lambda>p meta. andThen (not_null p) (\<lambda>_. andThen (reading (enrichResultPayload p)) (handleResult None))),
      so_onExhausted = Some retryExhausted\<rparr>"

definition progress_subscription :: "(string \<Rightarrow> json option) \<Rightarrow> DurableSubscriberOptions" where
  "progress_subscription decode =
     \<lparr>so_subject = ''ai.tasks.progress'', so_decode = decode, so_validate = None,
      so_handler = (\<lambda>p meta. andThen (not_null p) (\<lambda>_. handleProgress p)), so_onExhausted = Some retryExhausted\<rparr>"

definition divergence_subscription :: "(string \<Rightarrow> json option) \<Rightarrow> DurableSubscriberOptions" where
  "divergence_subscription decode =
     \<lparr>so_subject = ''ai.tasks.divergence.result'', so_decode = decode, so_validate = None,
      so_handler = (\<lambda>p meta. andThen (not_null p) (\<lambda>_. handleDivergence None p)), so_onExhausted = Some retryExhausted\<rparr>"

text \<open>\<open>valid\<close> is the validation of the result payload by the library.\<close>

definition preprocess_subscription :: "(string \<Rightarrow> json option) \<Rightarrow> (json \<Rightarrow> bool) \<Rightarrow> DurableSubscriberOptions" where
  "preprocess_subscription decode valid =
     \<lparr>so_subject = ''document.preprocess.result'', so_decode = decode, so_validate = Some valid,
      so_handler = (\<lambda>p meta. handlePreprocessResult p), so_onExhausted = None\<rparr>"

end
