(* ===== verification/Ai_Correct.thy ===== *)
theory Ai_Correct
  imports Ai_Handlers
begin

text \<open>
  What a result of the AI service leaves behind: the effect of an accepted result and of its redelivery, and
  what a result for a session that no longer expects one leaves.
\<close>

section \<open>The version of a result\<close>

lemma latest_is_pointer:
  assumes "consistent (pointers w)" "x \<in> set (workflowRows w)"
  shows "(case findLatestVersion (wf_id x) w of None \<Rightarrow> 0 | Some v \<Rightarrow> wv_versionNumber v) = wf_currentVersion x"
proof -
  have x: "(wf_id x, wf_currentVersion x) \<in> set (fst (pointers w))" using assms(2) by (auto simp: pointers_def)
  have mem: "(wf_id x, k) \<in> vkey ` set (versionRows w) \<longleftrightarrow> 1 \<le> k \<and> k \<le> wf_currentVersion x" for k
    using consistentD(5) [of "fst (pointers w)" "versionRows w", OF _ x] assms(1) by (simp add: pointers_def)
  have nonneg: "0 \<le> wf_currentVersion x"
    using consistentD(4) [of "fst (pointers w)" "versionRows w", OF _ x] assms(1) by (simp add: pointers_def)
  show ?thesis
  proof (cases "findLatestVersion (wf_id x) w")
    case None
    then have "filter (\<lambda>v. wv_workflowId v = wf_id x) (versionRows w) = []" by (simp add: findLatestVersion_def)
    then have "\<not> 1 \<le> wf_currentVersion x" using mem [of "wf_currentVersion x"] by (auto simp: filter_empty_conv vkey_def)
    then show ?thesis using None nonneg by simp
  next
    case (Some v)
    then have v: "v \<in> set (versionRows w)" "wv_workflowId v = wf_id x"
      "\<And>u. u \<in> set (versionRows w) \<Longrightarrow> wv_workflowId u = wf_id x \<Longrightarrow> wv_versionNumber u \<le> wv_versionNumber v"
      using max_by_Some [OF Some [unfolded findLatestVersion_def]] by auto
    then have le: "1 \<le> wv_versionNumber v \<and> wv_versionNumber v \<le> wf_currentVersion x"
      using mem [of "wv_versionNumber v"] by (force simp: vkey_def image_iff)
    then obtain u where "u \<in> set (versionRows w)" "vkey u = (wf_id x, wf_currentVersion x)"
      using mem [of "wf_currentVersion x"] by (auto simp: image_iff)
    then have "wf_currentVersion x \<le> wv_versionNumber v" using v(3) [of u] by (simp add: vkey_def)
    then show ?thesis using Some le by simp
  qed
qed

lemma create_run:
  assumes c: "consistent (pointers w)" and x: "x \<in> set (workflowRows w)" and n: "ar_version_number payload = None"
  shows "\<exists>ver. createWorkflowVersionFromResult payload x s w =
      (Inr ver, versionRows_update (\<lambda>rs. rs @ [ver]) (w\<lparr>idNext := Suc (idNext w)\<rparr>)) \<and>
    vkey ver = (wf_id x, wf_currentVersion x + 1) \<and> wv_elementsJson ver = ar_workflow_json payload"
proof -
  let ?w = "w\<lparr>idNext := Suc (idNext w)\<rparr>"
  let ?ver = "result_version payload x s (idSupply w (idNext w)) ?w"
  have "findLatestVersion (wf_id x) ?w = findLatestVersion (wf_id x) w" by (simp add: findLatestVersion_def)
  then have k: "vkey ?ver = (wf_id x, wf_currentVersion x + 1)"
    using latest_is_pointer [OF c x] n by (simp add: vkey_def result_version_def or_default_def)
  have p: "(wf_id x, wf_currentVersion x) \<in> set (fst (pointers w))" using x by (auto simp: pointers_def)
  have "(wf_id x, wf_currentVersion x + 1) \<notin> vkey ` set (versionRows w)"
    using consistentD(5) [of "fst (pointers w)" "versionRows w", OF _ p, of "wf_currentVersion x + 1"] c by (simp add: pointers_def)
  then have "insert_version ?ver ?w = (Inr (), versionRows_update (\<lambda>rs. rs @ [?ver]) ?w)"
    using x k by (intro insert_version_run) (auto simp: workflowExists_def vkey_def)
  then show ?thesis
    using k by (intro exI [of _ ?ver]) (simp add: createWorkflowVersionFromResult_def run_simps result_version_def)
qed

text \<open>Moving the pointer of a row to a version that exists.\<close>

lemma save_bumped:
  assumes "find_row wf_id (wf_id r) (workflowRows w) = Some x" "distinct (map wf_id (workflowRows w))"
    "ver \<in> set (versionRows w)" "vkey ver = (wf_id r, wf_currentVersion r)"
  shows "\<exists>r'. save_workflow r w = (Inr r', workflowRows_update (save_row wf_id r') w) \<and>
    r' = (if x = r then r else r\<lparr>wf_updatedAt := clock w\<rparr>) \<and>
    pointers (workflowRows_update (save_row wf_id r') w) = (set_counter (wf_id r) (wf_currentVersion r) (fst (pointers w)), versionRows w)"
proof -
  let ?r = "if x = r then r else r\<lparr>wf_updatedAt := clock w\<rparr>"
  have r: "wf_id ?r = wf_id r" "wf_currentVersion ?r = wf_currentVersion r" by auto
  have x: "x \<in> set (workflowRows w)" "wf_id x = wf_id r" using find_row_Some [OF assms(1)] by auto
  have "wf_currentVersion r \<le> latest_number (wf_id r) w"
    using latest_number_bounds(2) [OF assms(3)] assms(4) by (simp add: vkey_def)
  then have "save_workflow r w = (Inr ?r, workflowRows_update (save_row wf_id ?r) w)"
    using assms(1) by (auto simp: save_workflow_def run_simps enforce_workflow_current_version_def Let_def)
  moreover have "map (\<lambda>x. (wf_id x, wf_currentVersion x)) (save_row wf_id ?r (workflowRows w)) =
      set_counter (wf_id r) (wf_currentVersion r) (fst (pointers w))"
  proof -
    have "wf_id ?r \<in> wf_id ` set (workflowRows w)" using x r by (metis image_eqI)
    then show ?thesis using r by (auto simp: save_row_def pointers_def set_counter_def)
  qed
  ultimately show ?thesis by (simp add: pointers_def)
qed

text \<open>A result's version and the pointer to it, before the session is moved.\<close>

lemma version_step:
  assumes c: "consistent (pointers w)" and x: "find_row wf_id i (workflowRows w) = Some x" "ar_version_number payload = None"
  shows "\<exists>ver u r. createWorkflowVersionFromResult payload x s w = (Inr ver, u) \<and>
     save_workflow (x\<lparr>wf_currentVersion := wv_versionNumber ver, wf_status := WorkflowStatus.PENDING_REVIEW\<rparr>) u =
       (Inr r, workflowRows_update (save_row wf_id r) u) \<and>
     u = versionRows_update (\<lambda>rs. rs @ [ver]) (w\<lparr>idNext := Suc (idNext w)\<rparr>) \<and>
     wf_id r = i \<and> wf_currentVersion r = wf_currentVersion x + 1 \<and> wf_status r = WorkflowStatus.PENDING_REVIEW \<and>
     wf_orgId r = wf_orgId x \<and> vkey ver = (i, wf_currentVersion x + 1) \<and> wv_elementsJson ver = ar_workflow_json payload \<and>
     consistent (pointers (workflowRows_update (save_row wf_id r) u))"
proof -
  have x': "x \<in> set (workflowRows w)" "wf_id x = i" using find_row_Some [OF x(1)] by auto
  obtain ver where v: "createWorkflowVersionFromResult payload x s w =
      (Inr ver, versionRows_update (\<lambda>rs. rs @ [ver]) (w\<lparr>idNext := Suc (idNext w)\<rparr>))"
    "vkey ver = (i, wf_currentVersion x + 1)" "wv_elementsJson ver = ar_workflow_json payload"
    using create_run [OF c x'(1) x(2)] x'(2) by blast
  let ?u = "versionRows_update (\<lambda>rs. rs @ [ver]) (w\<lparr>idNext := Suc (idNext w)\<rparr>)"
  let ?r = "x\<lparr>wf_currentVersion := wv_versionNumber ver, wf_status := WorkflowStatus.PENDING_REVIEW\<rparr>"
  have num: "wv_versionNumber ver = wf_currentVersion x + 1" using v(2) by (simp add: vkey_def)
  obtain r where r: "save_workflow ?r ?u = (Inr r, workflowRows_update (save_row wf_id r) ?u)"
    "r = (if x = ?r then ?r else ?r\<lparr>wf_updatedAt := clock ?u\<rparr>)"
    "pointers (workflowRows_update (save_row wf_id r) ?u) =
      (set_counter (wf_id ?r) (wf_currentVersion ?r) (fst (pointers ?u)), versionRows ?u)"
    using save_bumped [of ?r ?u x ver] x x'(2) distinct_ids [OF c] v(2) num by auto
  have ne: "x \<noteq> ?r"
  proof
    assume "x = ?r"
    then have "wf_currentVersion x = wf_currentVersion ?r" by (rule arg_cong)
    then show False using num by simp
  qed
  have "(i, wf_currentVersion x) \<in> set (fst (pointers w))" using x' by (auto simp: pointers_def)
  then have "refines (pointers w) (pointers (workflowRows_update (save_row wf_id r) ?u))"
    using refines_bump [of i "wf_currentVersion x" "fst (pointers w)" ver "versionRows w"] v(2) r(3) x'(2) num
    by (simp add: pointers_def)
  then have "consistent (pointers (workflowRows_update (save_row wf_id r) ?u))" using c by (simp add: refines_def)
  then show ?thesis
    using v r(1) r(2) x'(2) num ne by (intro exI [of _ ver] exI [of _ ?u] exI [of _ r]) simp
qed

section \<open>Results nobody waits for\<close>

text \<open>A simplified result for a session, with its rows in place and the result not yet handled.\<close>

definition result_for :: "json \<Rightarrow> Session \<Rightarrow> world \<Rightarrow> bool" where
  "result_for p s w \<longleftrightarrow>
     p \<noteq> JNull \<and> text_at p ''session_id'' = Some (se_id s) \<and> text_at p ''pipeline_execution_id'' = None \<and>
     find_row se_id (se_id s) (sessionRows w) = Some s \<and> latest_pipeline (Some (se_id s)) w \<noteq> None \<and>
     idempotencyKey None (ar_correlation_id (enrichResultPayload p w)) ''ai.tasks.result'' \<notin> set (completedIds w)"

lemma result_rows_run:
  assumes "result_for p s w" "find_row wf_id (se_workflowId s) (workflowRows w) = Some x"
  shows "\<exists>q. result_rows (enrichResultPayload p w) w = (Inr (q, s, x), w) \<and>
    q \<in> set (pipelineRows w) \<and> pe_sessionId q = se_id s"
proof -
  obtain l where l: "latest_pipeline (Some (se_id s)) w = Some l" using assms(1) by (auto simp: result_for_def)
  then have "l \<in> set (pipelineRows w)" "pe_sessionId l = se_id s"
    using max_by_Some [OF l [unfolded latest_pipeline_def]] by auto
  then have "find (\<lambda>q. pe_id q = pe_id l \<and> pe_sessionId q = se_id s) (pipelineRows w) \<noteq> None" by (auto simp: find_None_iff)
  then obtain q where q: "find (\<lambda>q. pe_id q = pe_id l \<and> pe_sessionId q = se_id s) (pipelineRows w) = Some q" by blast
  have "findOneBy se_id (Some (se_id s)) (sessionRows w) = Some s"
    using assms(1) by (simp add: result_for_def findOneBy_def find_row_def)
  then have "result_rows (enrichResultPayload p w) w = (Inr (q, s, x), w)"
    using assms l q by (simp add: result_rows_def enrichResultPayload_def Let_def result_for_def or_else_def or_default_def
        org_of_session_def run_simps assertOrgMatch_def unless_def)
  then show ?thesis using find_Some_set [OF q] by blast
qed

lemma enrich_version [simp]: "ar_version_number (enrichResultPayload p w) = None"
  by (simp add: enrichResultPayload_def Let_def)

text \<open>Saving the row of a workflow in its organization does not change how payloads are completed.\<close>

lemma enrich_saved:
  assumes "find_row wf_id (wf_id r) (workflowRows w) = Some x" "wf_orgId r = wf_orgId x"
  shows "enrichResultPayload p (workflowRows_update (save_row wf_id r) (versionRows_update g (w\<lparr>idNext := n\<rparr>))) = enrichResultPayload p w"
  using assms by (simp add: enrichResultPayload_def latest_pipeline_def org_of_session_def find_row_save Let_def split: option.split)

text \<open>One attempt for a session that accepts no result.\<close>

lemma rejected_attempt:
  assumes c: "consistent (pointers w)" and p: "result_for p s w"
    and x: "find_row wf_id (se_workflowId s) (workflowRows w) = Some x"
    and t: "transitionSessionStatus (se_status s) AI_RESULT_RECEIVED (Some (se_mode s)) = Inl e"
  shows "\<exists>v ver y. andThen (reading (enrichResultPayload p)) (handleResult None) w = (Inl e, v) \<and>
    consistent (pointers v) \<and> result_for p s v \<and> find_row wf_id (se_workflowId s) (workflowRows v) = Some y \<and>
    wf_currentVersion y = wf_currentVersion x + 1 \<and> wf_status y = WorkflowStatus.PENDING_REVIEW \<and>
    versionRows v = versionRows w @ [ver] \<and> vkey ver = (se_workflowId s, wf_currentVersion x + 1) \<and>
    sessionRows v = sessionRows w \<and> pipelineRows v = pipelineRows w \<and> deadLetterRows v = deadLetterRows w"
proof -
  let ?a = "enrichResultPayload p w"
  obtain q where q: "result_rows ?a w = (Inr (q, s, x), w)" using result_rows_run [OF p x] by blast
  obtain ver u r where v: "createWorkflowVersionFromResult ?a x s w = (Inr ver, u)"
    "save_workflow (x\<lparr>wf_currentVersion := wv_versionNumber ver, wf_status := WorkflowStatus.PENDING_REVIEW\<rparr>) u =
       (Inr r, workflowRows_update (save_row wf_id r) u)"
    "u = versionRows_update (\<lambda>rs. rs @ [ver]) (w\<lparr>idNext := Suc (idNext w)\<rparr>)"
    "wf_id r = se_workflowId s" "wf_currentVersion r = wf_currentVersion x + 1" "wf_status r = WorkflowStatus.PENDING_REVIEW"
    "wf_orgId r = wf_orgId x" "vkey ver = (se_workflowId s, wf_currentVersion x + 1)"
    "consistent (pointers (workflowRows_update (save_row wf_id r) u))"
    using version_step [OF c x, of ?a s] by auto
  let ?v = "workflowRows_update (save_row wf_id r) u"
  have enrich: "enrichResultPayload p ?v = ?a" using enrich_saved [of r w x] x v(3,4,7) by simp
  have "andThen (reading (enrichResultPayload p)) (handleResult None) w = (Inl e, ?v)"
    using p q v(1,2) t by (simp add: run_simps handleResult_def result_for_def Let_def apply_result_def)
  moreover have "result_for p s ?v"
    using p enrich v(3) by (simp add: result_for_def latest_pipeline_def)
  ultimately show ?thesis
    using v by (intro exI [of _ ?v] exI [of _ ver] exI [of _ r]) (simp add: find_row_save)
qed

lemma result_attempt:
  "decode dat = Some p \<Longrightarrow> p \<noteq> JNull \<Longrightarrow> attempt (result_subscription decode) dat i n w =
     andThen (reading (enrichResultPayload p)) (handleResult None) w"
  by (simp add: attempt_def result_subscription_def run_simps not_null_def)

lemma result_exhausted:
  assumes "decode dat = Some p" "result_for p s w"
  shows "\<exists>v d. exhausted (result_subscription decode) dat i n e w = (Inr (), v) \<and>
    versionRows v = versionRows w \<and> workflowRows v = workflowRows w \<and> sessionRows v = sessionRows w \<and>
    pipelineRows v = pipelineRows w \<and> deadLetterRows v = deadLetterRows w @ [d] \<and> dl_payload d = p \<and>
    dl_lastError d = Some (error_message e)"
  using assms
  by (cases "se_id s = []")
    (auto simp: exhausted_def result_subscription_def retryExhausted_def run_simps not_null_def result_for_def fail_pipeline_def
      truthy_def Let_def recordFailure_def insert_dead_letter_def emit_defs)

text \<open>C27. Results nobody waits for: when a result arrives for a session whose status admits none (any
but processing and draft ready), each of the three deliveries fails only after a version was added and the
workflow was moved to it and to pending review; in the end three equal-content versions were added, one dead letter
recorded, the session is unchanged, and the run of the session, which the simplified payload does not name, is
unchanged too: it is never marked as failed.\<close>

theorem stale_result_adds_three_versions:
  assumes "consistent (pointers w)" "decode dat = Some p" "result_for p s w"
    "find_row wf_id (se_workflowId s) (workflowRows w) = Some x"
    "transitionSessionStatus (se_status s) AI_RESULT_RECEIVED (Some (se_mode s)) = Inl e"
  shows "\<exists>v vs d y. deliver (result_subscription decode) dat i 1 3 w = (Inr [Nak 5000, Nak 5000, Term], v) \<and>
    versionRows v = versionRows w @ vs \<and>
    map vkey vs = map (\<lambda>k. (se_workflowId s, wf_currentVersion x + k)) [1, 2, 3] \<and>
    find_row wf_id (se_workflowId s) (workflowRows v) = Some y \<and> wf_currentVersion y = wf_currentVersion x + 3 \<and>
    wf_status y = WorkflowStatus.PENDING_REVIEW \<and>
    sessionRows v = sessionRows w \<and> pipelineRows v = pipelineRows w \<and>
    deadLetterRows v = deadLetterRows w @ [d] \<and> dl_lastError d = Some (error_message e)"
proof -
  let ?opt = "result_subscription decode"
  have p: "p \<noteq> JNull" using assms(3) by (simp add: result_for_def)
  note run = result_attempt [of decode dat p, OF assms(2) p]
  obtain v1 r1 y1 where v1: "attempt ?opt dat i 1 w = (Inl e, v1)" "consistent (pointers v1)" "result_for p s v1"
    "find_row wf_id (se_workflowId s) (workflowRows v1) = Some y1" "wf_currentVersion y1 = wf_currentVersion x + 1"
    "versionRows v1 = versionRows w @ [r1]" "vkey r1 = (se_workflowId s, wf_currentVersion x + 1)"
    "sessionRows v1 = sessionRows w" "pipelineRows v1 = pipelineRows w" "deadLetterRows v1 = deadLetterRows w"
    using rejected_attempt [OF assms(1,3,4,5)] unfolding run by blast
  obtain v2 r2 y2 where v2: "attempt ?opt dat i 2 v1 = (Inl e, v2)" "consistent (pointers v2)" "result_for p s v2"
    "find_row wf_id (se_workflowId s) (workflowRows v2) = Some y2" "wf_currentVersion y2 = wf_currentVersion y1 + 1"
    "versionRows v2 = versionRows v1 @ [r2]" "vkey r2 = (se_workflowId s, wf_currentVersion y1 + 1)"
    "sessionRows v2 = sessionRows v1" "pipelineRows v2 = pipelineRows v1" "deadLetterRows v2 = deadLetterRows v1"
    using rejected_attempt [OF v1(2,3,4) assms(5)] unfolding run by blast
  obtain v3 r3 y3 where v3: "attempt ?opt dat i 3 v2 = (Inl e, v3)" "consistent (pointers v3)" "result_for p s v3"
    "find_row wf_id (se_workflowId s) (workflowRows v3) = Some y3" "wf_currentVersion y3 = wf_currentVersion y2 + 1"
    "wf_status y3 = WorkflowStatus.PENDING_REVIEW"
    "versionRows v3 = versionRows v2 @ [r3]" "vkey r3 = (se_workflowId s, wf_currentVersion y2 + 1)"
    "sessionRows v3 = sessionRows v2" "pipelineRows v3 = pipelineRows v2" "deadLetterRows v3 = deadLetterRows v2"
    using rejected_attempt [OF v2(2,3,4) assms(5)] unfolding run by blast
  obtain v d where v: "exhausted ?opt dat i 3 e v3 = (Inr (), v)" "versionRows v = versionRows v3" "workflowRows v = workflowRows v3"
    "sessionRows v = sessionRows v3" "pipelineRows v = pipelineRows v3" "deadLetterRows v = deadLetterRows v3 @ [d]"
    "dl_lastError d = Some (error_message e)"
    using result_exhausted [of decode dat p s v3, OF assms(2) v3(3)] by blast
  have "deliver ?opt dat i 1 3 w = andThen (exhausted ?opt dat i 3 e) (\<lambda>_. ret [Nak 5000, Nak 5000, Term]) v3"
    using deliver_settles [of ?opt dat i w] v1(1) v2(1) v3(1) by simp
  then have "deliver ?opt dat i 1 3 w = (Inr [Nak 5000, Nak 5000, Term], v)"
    using v(1) by (simp add: run_simps)
  then show ?thesis using v1 v2 v3 v by (intro exI [of _ v] exI [of _ "[r1, r2, r3]"] exI [of _ d] exI [of _ y3]) simp
qed

section \<open>Results that are applied\<close>

lemma liftSum_returned: "liftSum q s = (Inr x, t) \<longleftrightarrow> q = Inr x \<and> t = s"
  by (auto simp: liftSum_def)

lemmas returned_iffs = andThen_Inr_iff ret_iff reading_iff writing_iff new_id_iff constraint_iff check_Inr_iff orThrow_Inr_iff liftSum_returned

lemma apply_result_effect:
  assumes "apply_result payload q s x ver u = (Inr (), v)"
  shows "\<exists>t m a now r u'. transitionSessionStatus (se_status s) AI_RESULT_RECEIVED (Some (se_mode s)) = Inr t \<and>
    save_workflow (x\<lparr>wf_currentVersion := wv_versionNumber ver, wf_status := WorkflowStatus.PENDING_REVIEW\<rparr>) u = (Inr r, u') \<and>
    workflowRows v = workflowRows u' \<and>
    sessionRows v = save_row se_id (s\<lparr>se_confidenceScore := ar_confidence payload, se_status := t\<rparr>) (sessionRows u') \<and>
    pipelineRows v = save_row pe_id (q\<lparr>pe_status := PipelineStatus.COMPLETED, pe_finalConfidence := Some (ar_confidence payload),
      pe_completedAt := Some now, pe_errorSummary := None\<rparr>) (pipelineRows u') \<and>
    messageRows v = messageRows u' @ [m] \<and> me_sessionId m = se_id s \<and> me_role m = MessageRole.AI \<and>
    auditRows v = auditRows u' @ [a] \<and> au_eventType a = ''AI_TASK_RESULT_APPLIED'' \<and>
    versionRows v = versionRows u' \<and> published v = published u' \<and> emitted v = emitted u' \<and>
    snapshotRows v = snapshotRows u' \<and> reportRows v = reportRows u' \<and> completedIds v = completedIds u' \<and> natsUp v = natsUp u'"
  using assms
  by (auto simp: apply_result_def returned_iffs save_session_def save_pipeline_def insert_message_def audit_log_def audit_entry_def
      insert_audit_def Let_def result_message_def)

lemma announce_result_effect:
  assumes "announce_result payload q s x ver u = (Inr (), v)"
  shows "\<exists>m1 m2 g1 g2 e. published v = published u @ [m1, m2] \<and> nm_subject m1 = ''workflow.events.updated'' \<and>
    nm_msgId m1 = '':workflow.events.updated:'' \<and> nm_subject m2 = ''ai.tasks.divergence'' \<and>
    snapshotRows v = snapshotRows u @ [g1, g2] \<and> gs_graphType g1 = GraphType.INTENT \<and> gs_graphType g2 = GraphType.GENERATED \<and>
    gs_workflowVersionId g2 = Some (wv_id ver) \<and>
    (\<exists>r \<in> set (reportRows v). dr_graphAId r = gs_id g1 \<and> dr_graphBId r = gs_id g2 \<and>
      dr_status r = DivergenceReportStatus.PENDING) \<and>
    emitted v = emitted u @ [e] \<and> ws_room e = session_room (se_id s) \<and> ws_event e = ''workflow.updated'' \<and>
    versionRows v = versionRows u \<and> workflowRows v = workflowRows u \<and> sessionRows v = sessionRows u \<and>
    pipelineRows v = pipelineRows u \<and> messageRows v = messageRows u \<and> auditRows v = auditRows u \<and> completedIds v = completedIds u"
  using assms
  by (auto simp: announce_result_def returned_iffs markWorkflowUpdated_def publish_defs nats_publish_def buildMsgId_def
      buildIntentSnapshot_def buildGeneratedSnapshot_def insert_snapshot_def snapshot_row_def createDivergenceReport_def
      save_report_def emit_defs emitToRoom_def set_save_row split: if_splits)

lemma markHandled_in: "key \<notin> set ids \<Longrightarrow> key \<in> set (markHandled key ids)"
  by (cases ids) (auto simp: markHandled_def Let_def)


section \<open>Divergence\<close>

text \<open>A divergence below the threshold reopens its session from any status, also from those the state machine never
leaves; the session guard of the machine is not consulted.\<close>

lemma divergence_reopens:
  assumes "findOneBy dr_id (text_at p ''report_id'') (reportRows w) = Some report"
    "text_at p ''session_id'' = Some (se_id s)" "find_row se_id (se_id s) (sessionRows w) = Some s"
    "workflowExists (se_workflowId s) w" "below_threshold (field p ''similarity_score'')"
    "idempotencyKey None (template (field p ''correlation_id'')) ''ai.tasks.divergence.result'' \<notin> set (divergenceIds w)"
  shows "find_row se_id (se_id s) (sessionRows (snd (handleDivergence None p w))) =
    Some (s\<lparr>se_status := SessionStatus.NEEDS_RECONCILIATION\<rparr>)"
  using assms
  by (simp add: handleDivergence_def Let_def run_simps save_report_def findOneBy_def [of se_id] flip: find_row_def)
    (simp add: save_session_def workflowExists_def run_simps emit_defs find_row_save)

section \<open>Concrete instances\<close>

definition sample_run :: PipelineExecution where
  "sample_run = new_pipeline \<lparr>pt_sessionId = ''s1'', pt_taskType = PipelineTaskType.FULL_PIPELINE, pt_mode = SessionMode.AUTO,
     pt_input = JObj [], pt_triggeredBy = None, pt_resumeFromCheckpoint = None\<rparr> ''p1'' 0"

definition waiting_world :: "SessionStatus \<Rightarrow> world" where
  "waiting_world st = sample_world\<lparr>sessionRows := [sample_session\<lparr>se_status := st\<rparr>], pipelineRows := [sample_run]\<rparr>"

definition sample_result :: json where
  "sample_result = JObj [(''session_id'', JStr ''s1''), (''correlation_id'', JStr ''c1''), (''elements_json'', JObj [])]"

lemma sample_result_for: "result_for sample_result (sample_session\<lparr>se_status := st\<rparr>) (waiting_world st)"
  by (simp add: result_for_def sample_result_def text_at_def get_prop_def waiting_world_def sample_defs find_row_def
      latest_pipeline_def sample_run_def new_pipeline_def)

lemma waiting_consistent: "consistent (pointers (waiting_world st))"
  by (simp add: consistent_def pointers_def waiting_world_def sample_defs)

theorem stale_result_adds_three_versions_witness:
  "\<exists>v. deliver (result_subscription (\<lambda>_. Some sample_result)) [] None 1 3 (waiting_world SessionStatus.IN_REVIEW) =
     (Inr [Nak 5000, Nak 5000, Term], v) \<and> length (versionRows v) = 3"
proof -
  have "transitionSessionStatus SessionStatus.IN_REVIEW AI_RESULT_RECEIVED (Some SessionMode.AUTO) =
      Inl (UnprocessableEntityException (JStr ''Invalid session transition: in_review + ai_result_received''))"
    by code_simp
  then have "\<exists>v vs. deliver (result_subscription (\<lambda>_. Some sample_result)) [] None 1 3 (waiting_world SessionStatus.IN_REVIEW) =
     (Inr [Nak 5000, Nak 5000, Term], v) \<and> versionRows v = [] @ vs \<and> length (map vkey vs) = 3"
    using stale_result_adds_three_versions [where dat = "[]" and i = None, OF waiting_consistent, of "\<lambda>_. Some sample_result",
        OF refl sample_result_for, of SessionStatus.IN_REVIEW sample_workflow]
    by (fastforce simp: waiting_world_def sample_defs find_row_def)
  then show ?thesis by auto
qed

lemma sample_result_returns:
  "fst (andThen (reading (enrichResultPayload sample_result)) (handleResult None) (waiting_world SessionStatus.PROCESSING)) = Inr ()"
  by code_simp


end
