(* ===== verification/Organizations.thy ===== *)
theory Organizations
  imports Sessions
begin

text \<open>
  Members of an organization: \<open>src/modules/organizations/organizations.service.ts\<close>, its guard
  \<open>org-member.guard.ts\<close> and the mailer. \<open>sha256\<close> is the hash of the crypto library, \<open>inviteToken\<close> the text of
  its 32 random bytes, \<open>production\<close> the environment.
\<close>

section \<open>Operations\<close>

record InviteUserDto =
  iu_email :: string
  iu_role :: "UserRole option"

definition INVITE_TTL :: time where
  "INVITE_TTL = 7 * 24 * 60 * 60 * 1000 * 1000"

definition assertOrgAdmin :: "RequestUser \<Rightarrow> unit service" where
  "assertOrgAdmin caller =
     andThen (check (rq_orgId caller \<noteq> []) (ForbiddenException (JStr ''Organization scope is required''))) (\<lambda>_.
     check (rq_role caller = user_role_str UserRole.ADMIN) (ForbiddenException (JStr ''Admin role is required'')))"

definition findOrgUserOrThrow :: "string \<Rightarrow> string \<Rightarrow> User service" where
  "findOrgUserOrThrow userId orgId w =
     orThrow (find (\<lambda>u. us_id u = userId \<and> us_orgId u = orgId) (userRows w)) (NotFoundException (JStr ''User not found'')) w"

definition active_admins :: "string \<Rightarrow> User list \<Rightarrow> User list" where
  "active_admins orgId us = filter (\<lambda>u. us_orgId u = orgId \<and> us_role u = UserRole.ADMIN \<and> us_isActive u) us"

definition is_admin_of :: "string \<Rightarrow> string \<Rightarrow> world \<Rightarrow> bool" where
  "is_admin_of userId orgId w \<longleftrightarrow>
     (case find (\<lambda>u. us_id u = userId \<and> us_orgId u = orgId) (userRows w) of
        None \<Rightarrow> False | Some u \<Rightarrow> us_role u = UserRole.ADMIN)"

definition assertNotLastActiveAdmin :: "string \<Rightarrow> string \<Rightarrow> unit service" where
  "assertNotLastActiveAdmin userId orgId w =
     check (\<not> (length (active_admins orgId (userRows w)) \<le> 1 \<and> is_admin_of userId orgId w))
       (BadRequestException (JStr ''Cannot downgrade or revoke the last active admin'')) w"

definition serializeUser :: "User \<Rightarrow> json" where
  "serializeUser u = JObj [(''id'', JStr (us_id u)), (''email'', JStr (us_email u)), (''role'', JStr (user_role_str (us_role u))),
     (''orgId'', JStr (us_orgId u)), (''isActive'', JBool (us_isActive u)), (''isVerified'', JBool (us_isVerified u))]"

definition orgAudit :: "string \<Rightarrow> string \<Rightarrow> json option \<Rightarrow> json option \<Rightarrow> AuditLog service" where
  "orgAudit actorId eventType before after =
     audit_log (audit_entry None (Some actorId) ActorType.USER eventType None before after)"

text \<open>The mailer only logs the address and the first eight characters of the token.\<close>

definition sendInvite :: "string \<Rightarrow> string \<Rightarrow> unit service" where
  "sendInvite email inviteToken = writing (outbox_update (\<lambda>ms. ms @ [(email, take 8 inviteToken @ ''...'')]))"

definition invited_user :: "InviteUserDto \<Rightarrow> RequestUser \<Rightarrow> string \<Rightarrow> string \<Rightarrow> world \<Rightarrow> User" where
  "invited_user dto caller tokenHash i w =
     \<lparr>us_id = i, us_email = js_toLowerCase (iu_email dto), us_passwordHash = ''pending-invite:'' @ tokenHash,
      us_role = (case iu_role dto of None \<Rightarrow> UserRole.VIEWER | Some r \<Rightarrow> r), us_orgId = rq_orgId caller, us_isVerified = False,
      us_isActive = True, us_inviteTokenHash = Some tokenHash, us_inviteExpiresAt = Some (new_Date w + INVITE_TTL),
      us_lockedUntil = None, us_createdAt = clock w, us_updatedAt = clock w\<rparr>"

text \<open>\<open>save\<close> of a user without an id: a new row, unless the address is taken. The address column ignores case.\<close>

definition insert_user :: "User \<Rightarrow> unit service" where
  "insert_user u w =
     andThen (constraint (us_id u \<notin> us_id ` set (userRows w)) ''user_pkey'') (\<lambda>_.
     andThen (constraint (\<not> (\<exists>x \<in> set (userRows w). js_toLowerCase (us_email x) = js_toLowerCase (us_email u))) ''user_email_key'') (\<lambda>_.
     writing (userRows_update (\<lambda>us. us @ [u])))) w"

definition inviteUser :: "(string \<Rightarrow> string) \<Rightarrow> bool \<Rightarrow> string \<Rightarrow> InviteUserDto \<Rightarrow> RequestUser \<Rightarrow> json service" where
  "inviteUser sha256 production inviteToken dto caller =
     andThen (assertOrgAdmin caller) (\<lambda>_.
     andThen (\<lambda>w. check (\<not> (\<exists>x \<in> set (userRows w). js_toLowerCase (us_email x) = js_toLowerCase (iu_email dto)))
       (ConflictException (JStr ''User already exists'')) w) (\<lambda>_.
     andThen new_id (\<lambda>i.
     andThen (reading (invited_user dto caller (sha256 inviteToken) i)) (\<lambda>saved.
     andThen (insert_user saved) (\<lambda>_.
     andThen (sendInvite (js_toLowerCase (iu_email dto)) inviteToken) (\<lambda>_.
     andThen (orgAudit (rq_id caller) ''ORG_USER_INVITED'' None
       (Some (JObj [(''user_id'', JStr (us_id saved)), (''email'', JStr (us_email saved)),
         (''role'', JStr (user_role_str (us_role saved))), (''org_id'', JStr (us_orgId saved))]))) (\<lambda>_.
     ret (obj [(''id'', Some (JStr (us_id saved))), (''email'', Some (JStr (us_email saved))),
       (''role'', Some (JStr (user_role_str (us_role saved)))), (''orgId'', Some (JStr (us_orgId saved))),
       (''inviteExpiresAt'', map_option (\<lambda>t. JStr (toISOString t)) (us_inviteExpiresAt saved)),
       (''inviteToken'', if production then None else Some (JStr inviteToken))]))))))))"

definition updateUserRole :: "string \<Rightarrow> UserRole \<Rightarrow> RequestUser \<Rightarrow> json service" where
  "updateUserRole userId role caller =
     andThen (assertOrgAdmin caller) (\<lambda>_.
     andThen (findOrgUserOrThrow userId (rq_orgId caller)) (\<lambda>user.
     if us_role user = role then ret (serializeUser user)
     else
       andThen (unless (\<not> (us_role user = UserRole.ADMIN \<and> role \<noteq> UserRole.ADMIN))
         (assertNotLastActiveAdmin (us_id user) (rq_orgId caller))) (\<lambda>_.
       andThen (save_user (user\<lparr>us_role := role\<rparr>)) (\<lambda>saved.
       andThen (orgAudit (rq_id caller) ''ORG_USER_ROLE_UPDATED''
         (Some (JObj [(''user_id'', JStr (us_id user)), (''role'', JStr (user_role_str (us_role user)))]))
         (Some (JObj [(''user_id'', JStr (us_id saved)), (''role'', JStr (user_role_str (us_role saved)))]))) (\<lambda>_.
       ret (serializeUser saved))))))"

definition revokeUser :: "string \<Rightarrow> RequestUser \<Rightarrow> json service" where
  "revokeUser userId caller =
     andThen (assertOrgAdmin caller) (\<lambda>_.
     andThen (findOrgUserOrThrow userId (rq_orgId caller)) (\<lambda>user.
     andThen (unless (us_role user \<noteq> UserRole.ADMIN) (assertNotLastActiveAdmin (us_id user) (rq_orgId caller))) (\<lambda>_.
     andThen (save_user (user\<lparr>us_isActive := False\<rparr>)) (\<lambda>_.
     andThen (writing (refreshTokenRows_update (map (\<lambda>t. if rt_userId t = us_id user then t\<lparr>rt_revoked := True\<rparr> else t)))) (\<lambda>_.
     andThen (orgAudit (rq_id caller) ''ORG_USER_REVOKED''
       (Some (JObj [(''user_id'', JStr (us_id user)), (''is_active'', JBool True)]))
       (Some (JObj [(''user_id'', JStr (us_id user)), (''is_active'', JBool False)]))) (\<lambda>_.
     ret (JObj [(''revoked'', JBool True)])))))))"

text \<open>The guard in front of the routes that name a user.\<close>

definition orgMemberGuard :: "RequestUser option \<Rightarrow> string option \<Rightarrow> bool service" where
  "orgMemberGuard caller targetUserId =
     (case caller of
        None \<Rightarrow> throw (ForbiddenException (JStr ''Organization scope is required''))
      | Some c \<Rightarrow>
          andThen (check (rq_orgId c \<noteq> []) (ForbiddenException (JStr ''Organization scope is required''))) (\<lambda>_.
          if \<not> truthy targetUserId then ret True
          else andThen (\<lambda>w. orThrow (find (\<lambda>u. us_id u = the targetUserId) (userRows w)) (NotFoundException (JStr ''User not found'')) w) (\<lambda>target.
            andThen (check (us_orgId target = rq_orgId c) (NotFoundException (JStr ''User not found''))) (\<lambda>_. ret True))))"

section \<open>An organization never loses its last admin\<close>

datatype OrgCommand =
    Invite string InviteUserDto
  | ChangeRole string UserRole
  | Revoke string

fun exec_org :: "(string \<Rightarrow> string) \<Rightarrow> bool \<Rightarrow> OrgCommand \<Rightarrow> RequestUser \<Rightarrow> json service" where
  "exec_org sha256 production (Invite t dto) caller = inviteUser sha256 production t dto caller"
| "exec_org sha256 production (ChangeRole i role) caller = updateUserRole i role caller"
| "exec_org sha256 production (Revoke i) caller = revokeUser i caller"

text \<open>What an operation on behalf of an organization may do to the users.\<close>

definition org_step :: "string \<Rightarrow> User list \<Rightarrow> User list \<Rightarrow> bool" where
  "org_step orgId us vs \<longleftrightarrow>
     prefix (map us_id us) (map us_id vs) \<and> filter (\<lambda>u. us_orgId u \<noteq> orgId) vs = filter (\<lambda>u. us_orgId u \<noteq> orgId) us \<and>
     (active_admins orgId us \<noteq> [] \<longrightarrow> active_admins orgId vs \<noteq> [])"

lemma org_step_refl: "org_step g us us"
  by (simp add: org_step_def)

lemma org_step_append: "us_orgId u = g \<Longrightarrow> org_step g us (us @ [u])"
  by (simp add: org_step_def active_admins_def)

text \<open>Replacing a user of the organization: fine unless the user was the last active admin.\<close>

lemma org_step_save:
  assumes d: "distinct (map us_id us)" and u: "u \<in> set us" "us_orgId u = g"
    and v: "us_id v = us_id u" "us_orgId v = g"
    and keep: "us_role v = us_role u \<and> us_isActive v = us_isActive u \<or> us_role u \<noteq> UserRole.ADMIN \<or>
      1 < length (active_admins g us)"
  shows "org_step g us (save_row us_id v us)"
proof -
  let ?f = "\<lambda>r. if us_id r = us_id v then v else r"
  have s: "save_row us_id v us = map ?f us" using u(1) v(1) by (auto simp: save_row_def image_iff)
  have only: "r = u" if "r \<in> set us" "us_id r = us_id v" for r
    using d u(1) v(1) that by (metis distinct_map inj_onD)
  have ids: "map us_id (map ?f us) = map us_id us" by simp
  have others: "filter (\<lambda>u. us_orgId u \<noteq> g) (map ?f us) = filter (\<lambda>u. us_orgId u \<noteq> g) us"
  proof (rule filter_map_fixed)
    fix r assume "r \<in> set us"
    then show "(us_orgId (?f r) \<noteq> g \<longleftrightarrow> us_orgId r \<noteq> g) \<and> (us_orgId r \<noteq> g \<longrightarrow> ?f r = r)"
      using only [of r] u(2) v(2) by (cases "us_id r = us_id v") simp_all
  qed
  have "active_admins g (map ?f us) \<noteq> []" if "active_admins g us \<noteq> []"
  proof -
    from that obtain a where a: "a \<in> set us" "us_orgId a = g" "us_role a = UserRole.ADMIN" "us_isActive a"
      by (auto simp: active_admins_def filter_empty_conv)
    show ?thesis
    proof (cases "\<exists>b \<in> set (active_admins g us). us_id b \<noteq> us_id v")
      case True
      then obtain b where b: "b \<in> set us" "us_orgId b = g" "us_role b = UserRole.ADMIN" "us_isActive b" "?f b = b"
        by (auto simp: active_admins_def)
      have "?f b \<in> set (map ?f us)" unfolding set_map using b(1) by (rule imageI)
      then have "b \<in> set (map ?f us)" unfolding b(5) .
      then have "b \<in> set (active_admins g (map ?f us))"
        using b(2-4) by (simp add: active_admins_def del: set_map)
      then show ?thesis by (metis emptyE list.set(1))
    next
      case False
      then have all: "b = u" if "b \<in> set (active_admins g us)" for b
        using that only [of b] by (simp add: active_admins_def)
      then have au: "a = u" using a by (simp add: active_admins_def)
      have "length (active_admins g us) \<le> 1"
      proof -
        have "distinct (active_admins g us)" using d by (simp add: active_admins_def distinct_map)
        moreover have "set (active_admins g us) \<subseteq> {u}" using all by blast
        ultimately show ?thesis using card_mono [of "{u}" "set (active_admins g us)"] by (simp add: distinct_card)
      qed
      then have "us_role v = UserRole.ADMIN" "us_isActive v" using keep a au by auto
      moreover have "?f u \<in> set (map ?f us)" unfolding set_map using u(1) by (rule imageI)
      ultimately have "v \<in> set (active_admins g (map ?f us))" using v by (simp add: active_admins_def del: set_map)
      then show ?thesis by (metis emptyE list.set(1))
    qed
  qed
  then show ?thesis unfolding s using ids others by (simp only: org_step_def) (simp del: map_map)
qed

lemma save_user_rows:
  "userRows (snd (save_user u w)) = userRows w \<or>
   (\<exists>t. userRows (snd (save_user u w)) = save_row us_id (u\<lparr>us_updatedAt := t\<rparr>) (userRows w)) \<or>
   userRows (snd (save_user u w)) = save_row us_id u (userRows w)"
  by (auto simp: save_user_def andThen_def constraint_run writing_def ret_def Let_def)

lemma saved_org_step:
  assumes "distinct (map us_id (userRows w))"
    "find (\<lambda>u. us_id u = i \<and> us_orgId u = g) (userRows w) = Some u" "us_id v = us_id u" "us_orgId v = us_orgId u"
    "us_role v = us_role u \<and> us_isActive v = us_isActive u \<or> us_role u \<noteq> UserRole.ADMIN \<or>
      1 < length (active_admins g (userRows w))" "\<And>x. untouched userRows (k x)"
  shows "org_step g (userRows w) (userRows (snd (andThen (save_user v) k w)))"
proof -
  have u: "u \<in> set (userRows w)" "us_orgId u = g" using find_Some_set [OF assms(2)] by auto
  have "userRows (snd (andThen (save_user v) k w)) = userRows (snd (save_user v w))"
  proof (cases "save_user v w")
    case (Pair r x)
    then show ?thesis using assms(6) by (cases r) (auto simp: andThen_def untouched_def)
  qed
  then show ?thesis
    using save_user_rows [of v w] org_step_refl [of g "userRows w"] assms(3-5) u(2)
      org_step_save [OF assms(1) u, of v] org_step_save [OF assms(1) u, of "v\<lparr>us_updatedAt := t\<rparr>" for t]
    by auto
qed

lemma untouched_orgAudit [untouched_intros]: "untouched userRows (orgAudit a e b s)"
  unfolding orgAudit_def audit_log_def Let_def by (intro untouched_intros) simp_all

lemma last_admin_check:
  "find (\<lambda>u. us_id u = i \<and> us_orgId u = g) (userRows w) = Some u \<Longrightarrow> us_role u = UserRole.ADMIN \<Longrightarrow>
     assertNotLastActiveAdmin (us_id u) g w =
       (if length (active_admins g (userRows w)) \<le> 1
        then Inl (BadRequestException (JStr ''Cannot downgrade or revoke the last active admin'')) else Inr (), w)"
  using find_Some_set [of "\<lambda>u. us_id u = i \<and> us_orgId u = g" "userRows w" u]
  by (auto simp: assertNotLastActiveAdmin_def check_def is_admin_of_def)

lemma guarded_org_step:
  assumes "find (\<lambda>u. us_id u = i \<and> us_orgId u = g) (userRows w) = Some u" "\<not> skip \<Longrightarrow> us_role u = UserRole.ADMIN"
    "skip \<or> 1 < length (active_admins g (userRows w)) \<Longrightarrow> org_step g (userRows w) (userRows (snd (m w)))"
  shows "org_step g (userRows w)
    (userRows (snd (andThen (unless skip (assertNotLastActiveAdmin (us_id u) g)) (\<lambda>_. m) w)))"
  using assms last_admin_check [OF assms(1)]
  by (cases skip; cases "length (active_admins g (userRows w)) \<le> 1") (simp_all add: run_simps org_step_refl)

lemma untouched_pointwise_check [untouched_intros]: "untouched f (\<lambda>w. check (b w) e w)"
  by (simp add: untouched_def check_def)

lemma insert_user_writes: "us_orgId u = g \<Longrightarrow> writes userRows (org_step g) (insert_user u)"
  by (auto simp: writes_def insert_user_def andThen_def constraint_run writing_def intro: org_step_append)

lemma invite_writes: "writes userRows (org_step (rq_orgId caller)) (inviteUser sha256 production t dto caller)"
  unfolding inviteUser_def assertOrgAdmin_def
  by (intro writes_pre writes_reading writes_post insert_user_writes untouched_intros)
    (simp_all add: invited_user_def sendInvite_def untouched_intros)

text \<open>C28. An organization never loses its last active admin: whatever its members ask of the service, and whether it
answers or refuses, the organization keeps an active admin if it had one, no user row disappears and the users of
all other organizations stay as they are; a caller who is not an admin changes nothing and gets 403.\<close>

theorem org_keeps_an_admin:
  assumes "distinct (map us_id (userRows w))" "exec_org sha256 production c caller w = (r, v)"
  shows "org_step (rq_orgId caller) (userRows w) (userRows v) \<and>
    (rq_role caller \<noteq> user_role_str UserRole.ADMIN \<longrightarrow> v = w \<and> (\<exists>e. r = Inl e \<and> getStatus e = 403))"
proof (cases "rq_orgId caller \<noteq> [] \<and> rq_role caller = user_role_str UserRole.ADMIN")
  case False
  then obtain e where e: "assertOrgAdmin caller w = (Inl e, w)" "getStatus e = 403"
    by (cases "rq_orgId caller = []") (simp_all add: assertOrgAdmin_def andThen_def check_def del: user_role_str.simps)
  then have "exec_org sha256 production c caller w = (Inl e, w)"
    by (cases c) (simp_all add: inviteUser_def updateUserRole_def revokeUser_def run_simps)
  then show ?thesis using assms(2) e(2) org_step_refl by auto
next
  case True
  then have admin: "assertOrgAdmin caller w = (Inr (), w)" by (simp add: assertOrgAdmin_def run_simps del: user_role_str.simps)
  let ?g = "rq_orgId caller"
  have "org_step ?g (userRows w) (userRows (snd (exec_org sha256 production c caller w)))"
  proof (cases c)
    case (Invite t dto)
    show ?thesis
      unfolding Invite using writesD [OF invite_writes, of sha256 production t dto caller w] org_step_refl [of ?g "userRows w"]
      by (cases "inviteUser sha256 production t dto caller w") auto
  next
    case (ChangeRole i role)
    show ?thesis
    proof (cases "find (\<lambda>u. us_id u = i \<and> us_orgId u = ?g) (userRows w)")
      case None
      then show ?thesis unfolding ChangeRole
        by (simp add: updateUserRole_def admin run_simps findOrgUserOrThrow_def org_step_refl)
    next
      case (Some u)
      then show ?thesis unfolding ChangeRole
        by (auto simp: updateUserRole_def admin run_simps findOrgUserOrThrow_def org_step_refl
            intro!: guarded_org_step [OF Some] saved_org_step [OF assms(1) Some] untouched_intros)
    qed
  next
    case (Revoke i)
    show ?thesis
    proof (cases "find (\<lambda>u. us_id u = i \<and> us_orgId u = ?g) (userRows w)")
      case None
      then show ?thesis unfolding Revoke
        by (simp add: revokeUser_def admin run_simps findOrgUserOrThrow_def org_step_refl)
    next
      case (Some u)
      then show ?thesis unfolding Revoke
        by (auto simp: revokeUser_def admin run_simps findOrgUserOrThrow_def org_step_refl
            intro!: guarded_org_step [OF Some] saved_org_step [OF assms(1) Some] untouched_intros)
    qed
  qed
  then show ?thesis using True assms(2) by simp
qed

definition sample_admin :: User where
  "sample_admin = \<lparr>us_id = ''a1'', us_email = ''a@x.io'', us_passwordHash = [], us_role = UserRole.ADMIN, us_orgId = ''o1'',
     us_isVerified = True, us_isActive = True, us_inviteTokenHash = None, us_inviteExpiresAt = None, us_lockedUntil = None,
     us_createdAt = 0, us_updatedAt = 0\<rparr>"

theorem org_keeps_an_admin_witness:
  "active_admins ''o1'' (userRows (snd (exec_org (\<lambda>s. s) False (Revoke ''a1'')
     \<lparr>rq_id = ''a1'', rq_orgId = ''o1'', rq_role = ''admin''\<rparr> (sample_world\<lparr>userRows := [sample_admin]\<rparr>)))) \<noteq> []"
  using org_keeps_an_admin [of "sample_world\<lparr>userRows := [sample_admin]\<rparr>" "\<lambda>s. s" False "Revoke ''a1''"
      "\<lparr>rq_id = ''a1'', rq_orgId = ''o1'', rq_role = ''admin''\<rparr>"]
  by (cases "exec_org (\<lambda>s. s) False (Revoke ''a1'') \<lparr>rq_id = ''a1'', rq_orgId = ''o1'', rq_role = ''admin''\<rparr>
      (sample_world\<lparr>userRows := [sample_admin]\<rparr>)")
    (auto simp: org_step_def active_admins_def sample_admin_def)

end
