(* ===== verification/Projects.thy ===== *)
theory Projects
  imports Versions
begin

text \<open>
  Projects: \<open>src/modules/projects/projects.service.ts\<close>, with what the database does when the workflows of a
  project are deleted: the rows that hang on a workflow go with it, the audit log refuses to lose a row, and
  references without a cascade block the statement.
\<close>

section \<open>Operations\<close>

record ProjectFilterDto =
  pf_search :: "string option"
  pf_page :: nat
  pf_limit :: nat

definition projectAudit :: "string \<Rightarrow> string \<Rightarrow> string \<Rightarrow> json option \<Rightarrow> json option \<Rightarrow> AuditLog service" where
  "projectAudit projectId actorId eventType before after =
     audit_log (audit_entry None (Some actorId) ActorType.USER eventType (Some projectId) before after)"

definition project_state :: "Project \<Rightarrow> json" where
  "project_state p = JObj [(''name'', JStr (pr_name p)), (''orgId'', JStr (pr_orgId p))]"

text \<open>The column holds 255 characters; the name is unique within the organization.\<close>

definition insert_project :: "Project \<Rightarrow> unit service" where
  "insert_project p w =
     andThen (constraint (pr_id p \<notin> pr_id ` set (projectRows w)) ''project_pkey'') (\<lambda>_.
     andThen (constraint (length (pr_name p) \<le> 255) ''value too long for type character varying(255)'') (\<lambda>_.
     andThen (constraint (\<not> (\<exists>x \<in> set (projectRows w). pr_name x = pr_name p \<and> pr_orgId x = pr_orgId p)) ''idx_project_name_org'') (\<lambda>_.
     writing (projectRows_update (\<lambda>ps. ps @ [p]))))) w"

definition createProject :: "string \<Rightarrow> string \<Rightarrow> string \<Rightarrow> Project service" where
  "createProject name orgId ownerId =
     andThen (\<lambda>w. check (\<not> (\<exists>x \<in> set (projectRows w). pr_name x = name \<and> pr_orgId x = orgId))
       (ConflictException (JObj [(''code'', JStr ''PROJECT_NAME_EXISTS''),
         (''message'', JStr (''Project with name \"'' @ name @ ''\" already exists''))])) w) (\<lambda>_.
     andThen new_id (\<lambda>i.
     andThen (reading (\<lambda>w. \<lparr>pr_id = i, pr_name = name, pr_orgId = orgId, pr_ownerId = ownerId, pr_createdAt = clock w, pr_updatedAt = clock w\<rparr>)) (\<lambda>saved.
     andThen (insert_project saved) (\<lambda>_.
     andThen (projectAudit i ownerId ''PROJECT_CREATED'' None (Some (project_state saved))) (\<lambda>_.
     ret saved)))))"

definition findAllProjects :: "ProjectFilterDto \<Rightarrow> string \<Rightarrow> world \<Rightarrow> Project list \<times> nat" where
  "findAllProjects dto orgId w =
     (let hits = filter (\<lambda>p. pr_orgId p = orgId \<and>
            (truthy (pf_search dto) \<longrightarrow> ilike (''%'' @ the (pf_search dto) @ ''%'') (pr_name p))) (projectRows w)
      in (page_of (pf_page dto) (pf_limit dto) (sort_desc pr_createdAt hits), length hits))"

definition findProject :: "string \<Rightarrow> string \<Rightarrow> Project service" where
  "findProject i orgId w =
     orThrow (find (\<lambda>p. pr_id p = i \<and> pr_orgId p = orgId) (projectRows w))
       (NotFoundException (JStr (''Project '' @ i @ '' not found''))) w"

definition findProjectWorkflows :: "string \<Rightarrow> string \<Rightarrow> ProjectFilterDto \<Rightarrow> (Workflow list \<times> nat) service" where
  "findProjectWorkflows projectId orgId dto =
     andThen (findProject projectId orgId) (\<lambda>_.
     reading (\<lambda>w. let hits = filter (\<lambda>x. wf_projectId x = Some projectId \<and> wf_orgId x = orgId) (workflowRows w)
       in (page_of (pf_page dto) (pf_limit dto) (sort_desc wf_updatedAt hits), length hits)))"

section \<open>Deleting workflows\<close>

text \<open>Statement one: the versions of the workflows, unless a snapshot refers to one of them.\<close>

definition delete_versions :: "string set \<Rightarrow> unit service" where
  "delete_versions ids w =
     andThen (constraint (\<forall>v \<in> set (versionRows w). wv_workflowId v \<in> ids \<longrightarrow>
         Some (wv_id v) \<notin> gs_workflowVersionId ` set (snapshotRows w)) ''workflow_graph_snapshot_workflow_version_id_fkey'') (\<lambda>_.
     writing (versionRows_update (filter (\<lambda>v. wv_workflowId v \<notin> ids)))) w"

text \<open>Statement two: the workflows, with everything that cascades from them and their sessions.\<close>

definition gone_sessions :: "string set \<Rightarrow> world \<Rightarrow> string set" where
  "gone_sessions ids w = se_id ` {s \<in> set (sessionRows w). se_workflowId s \<in> ids}"

definition gone_pipelines :: "string set \<Rightarrow> world \<Rightarrow> string set" where
  "gone_pipelines ids w = pe_id ` {p \<in> set (pipelineRows w). pe_sessionId p \<in> gone_sessions ids w}"

definition gone_agents :: "string set \<Rightarrow> world \<Rightarrow> string set" where
  "gone_agents ids w = ae_id ` {a \<in> set (agentExecutionRows w). ae_pipelineExecutionId a \<in> gone_pipelines ids w}"

definition gone_reports :: "string set \<Rightarrow> world \<Rightarrow> string set" where
  "gone_reports ids w = dr_id ` {r \<in> set (reportRows w). dr_workflowId r \<in> ids}"

text \<open>References that do not cascade must not survive the statement.\<close>

definition no_dangling :: "string set \<Rightarrow> world \<Rightarrow> bool" where
  "no_dangling ids w \<longleftrightarrow>
     (\<forall>r \<in> set (ruleRows w). \<forall>i \<in> ids. ru_workflowId r \<noteq> Some i) \<and>
     (\<forall>g \<in> set (snapshotRows w). gs_workflowId g \<notin> ids \<longrightarrow> (\<forall>s \<in> gone_sessions ids w. gs_sessionId g \<noteq> Some s)) \<and>
     (\<forall>r \<in> set (reportRows w). dr_workflowId r \<notin> ids \<longrightarrow>
        (\<forall>p \<in> gone_pipelines ids w. dr_pipelineExecutionId r \<noteq> Some p) \<and>
        (\<forall>g \<in> set (snapshotRows w). gs_workflowId g \<in> ids \<longrightarrow> dr_graphAId r \<noteq> gs_id g \<and> dr_graphBId r \<noteq> gs_id g))"

definition cascade :: "string set \<Rightarrow> world \<Rightarrow> world" where
  "cascade ids w = w\<lparr>
     workflowRows := filter (\<lambda>x. wf_id x \<notin> ids) (workflowRows w),
     sessionRows := filter (\<lambda>s. se_workflowId s \<notin> ids) (sessionRows w),
     messageRows := filter (\<lambda>m. me_sessionId m \<notin> gone_sessions ids w) (messageRows w),
     documentRows := filter (\<lambda>d. (\<forall>i \<in> ids. do_workflowId d \<noteq> Some i) \<and> (\<forall>s \<in> gone_sessions ids w. do_sessionId d \<noteq> Some s)) (documentRows w),
     commentRows := filter (\<lambda>c. co_workflowId c \<notin> ids) (commentRows w),
     kgNodeRows := filter (\<lambda>n. kn_sessionId n \<notin> gone_sessions ids w) (kgNodeRows w),
     kgEdgeRows := filter (\<lambda>e. ke_sessionId e \<notin> gone_sessions ids w) (kgEdgeRows w),
     pipelineRows := filter (\<lambda>p. pe_sessionId p \<notin> gone_sessions ids w) (pipelineRows w),
     agentExecutionRows := filter (\<lambda>a. ae_pipelineExecutionId a \<notin> gone_pipelines ids w) (agentExecutionRows w),
     agentLogRows := filter (\<lambda>l. lg_agentExecutionId l \<notin> gone_agents ids w) (agentLogRows w),
     ruleApplicationRows := filter (\<lambda>a. ra_agentExecutionId a \<notin> gone_agents ids w) (ruleApplicationRows w),
     skillApplicationRows := filter (\<lambda>a. sa_agentExecutionId a \<notin> gone_agents ids w) (skillApplicationRows w),
     snapshotRows := filter (\<lambda>g. gs_workflowId g \<notin> ids) (snapshotRows w),
     reportRows := filter (\<lambda>r. dr_workflowId r \<notin> ids) (reportRows w),
     pointRows := filter (\<lambda>p. dp_reportId p \<notin> gone_reports ids w) (pointRows w)\<rparr>"

text \<open>The trigger \<open>prevent_audit_log_mutation\<close> raises for each audit row the cascade reaches.\<close>

definition delete_workflows :: "string set \<Rightarrow> unit service" where
  "delete_workflows ids w =
     andThen (constraint (\<forall>a \<in> set (auditRows w). \<forall>i \<in> ids. au_workflowId a \<noteq> Some i) ''audit_log rows are immutable'') (\<lambda>_.
     andThen (constraint (no_dangling ids w) ''violates foreign key constraint'') (\<lambda>_.
     writing (cascade ids))) w"

definition project_workflows :: "string \<Rightarrow> world \<Rightarrow> string set" where
  "project_workflows i w = wf_id ` {x \<in> set (workflowRows w). wf_projectId x = Some i}"

definition deleteProject :: "string \<Rightarrow> string \<Rightarrow> string \<Rightarrow> unit service" where
  "deleteProject i orgId actorId =
     andThen (findProject i orgId) (\<lambda>project.
     andThen (in_transaction
       (andThen (reading (project_workflows i)) (\<lambda>ids.
        andThen (unless (ids = {}) (delete_versions ids)) (\<lambda>_.
        andThen (delete_workflows ids) (\<lambda>_.
        writing (projectRows_update (filter (\<lambda>p. pr_id p \<noteq> pr_id project)))))))) (\<lambda>_.
     andThen (projectAudit i actorId ''PROJECT_DELETED'' (Some (project_state project)) None) (\<lambda>_.
     ret ())))"

section \<open>Which projects can be deleted\<close>

text \<open>C29. A project that holds a created workflow can never be deleted: creating a workflow leaves an audit row of the
workflow, the audit log refuses to lose it, and so deleting a project the workflow is in is answered with a server
error (or 404) that changes nothing - whatever happened in between, as long as the audit log only grew.\<close>

theorem used_projects_are_undeletable:
  assumes "createWorkflow dto orgId ownerId w = (Inr x, u)"
    "prefix (auditRows u) (auditRows v)" "y \<in> set (workflowRows v)" "wf_id y = wf_id x" "wf_projectId y = Some i"
    "deleteProject i orgId actor v = (r, z)"
  shows "z = v \<and> (\<exists>e. r = Inl e \<and> getStatus e \<in> {404, 500})"
proof -
  have "\<exists>a \<in> set (auditRows u). au_workflowId a = Some (wf_id x)"
  proof -
    have "createWorkflow dto orgId ownerId w = (Inr x, u) \<Longrightarrow> ?thesis"
      by (auto simp: createWorkflow_def run_iffs workflowAudit_def audit_log_def audit_entry_def Let_def insert_audit_def
          findWorkflow_def dest: find_Some_set)
    then show ?thesis using assms(1) by blast
  qed
  then obtain a where a: "a \<in> set (auditRows v)" "au_workflowId a = Some (wf_id x)"
    using assms(2) by (metis set_mono_prefix subsetD)
  have ids: "wf_id x \<in> project_workflows i v" unfolding project_workflows_def
    using assms(3-5) by (metis (mono_tags, lifting) image_eqI mem_Collect_eq)
  have blocked: "\<not> (\<forall>a \<in> set (auditRows v). \<forall>i \<in> project_workflows i v. au_workflowId a \<noteq> Some i)" using a ids by blast
  let ?d = "\<lambda>u. delete_workflows (project_workflows i v) u"
  have del: "?d u = (Inl (QueryFailedError ''audit_log rows are immutable''), u)" if "auditRows u = auditRows v" for u
    using blocked that by (auto simp: delete_workflows_def run_simps andThen_def constraint_run)
  have "delete_versions (project_workflows i v) v = (Inr (), versionRows_update (filter (\<lambda>x. wv_workflowId x \<notin> project_workflows i v)) v) \<or>
      (\<exists>n. delete_versions (project_workflows i v) v = (Inl (QueryFailedError n), v))"
    by (auto simp: delete_versions_def andThen_def constraint_run writing_def)
  moreover have ne: "(project_workflows i v = {}) = False" using ids by blast
  ultimately have tr: "\<exists>n. in_transaction
       (andThen (reading (project_workflows i)) (\<lambda>ids.
        andThen (unless (ids = {}) (delete_versions ids)) (\<lambda>_.
        andThen (delete_workflows ids) (\<lambda>_.
        writing (projectRows_update (filter (\<lambda>p. pr_id p \<noteq> pr_id q))))))) v = (Inl (QueryFailedError n), v)" for q
    using del [of "versionRows_update (filter (\<lambda>x. wv_workflowId x \<notin> project_workflows i v)) v"]
    by (elim disjE exE) (simp_all add: in_transaction_def run_simps ne)
  have "\<exists>n. deleteProject i orgId actor v = (Inl n, v) \<and> getStatus n \<in> {404, 500}"
  proof (cases "find (\<lambda>p. pr_id p = i \<and> pr_orgId p = orgId) (projectRows v)")
    case None
    then show ?thesis by (simp add: deleteProject_def findProject_def run_simps)
  next
    case (Some q)
    then show ?thesis using tr [of q] by (auto simp: deleteProject_def findProject_def run_simps)
  qed
  then show ?thesis using assms(6) by auto
qed

theorem used_projects_are_undeletable_witness:
  "\<exists>x u. createWorkflow \<lparr>cw_projectId = Some ''p1'', cw_title = ''T'', cw_description = None, cw_domain = None, cw_tags = None\<rparr> ''o1'' ''u1''
       (empty_world\<lparr>projectRows := [\<lparr>pr_id = ''p1'', pr_name = ''P'', pr_orgId = ''o1'', pr_ownerId = ''u1'', pr_createdAt = 0, pr_updatedAt = 0\<rparr>]\<rparr>) = (Inr x, u) \<and>
     (\<exists>e. deleteProject ''p1'' ''o1'' ''u1'' u = (Inl e, u))"
proof -
  let ?w = "empty_world\<lparr>projectRows := [\<lparr>pr_id = ''p1'', pr_name = ''P'', pr_orgId = ''o1'', pr_ownerId = ''u1'', pr_createdAt = 0, pr_updatedAt = 0\<rparr>]\<rparr>"
  let ?dto = "\<lparr>cw_projectId = Some ''p1'', cw_title = ''T'', cw_description = None, cw_domain = None, cw_tags = None\<rparr>"
  have "\<exists>x u y. createWorkflow ?dto ''o1'' ''u1'' ?w = (Inr x, u) \<and> y \<in> set (workflowRows u) \<and> wf_id y = wf_id x \<and> wf_projectId y = Some ''p1''"
    by (simp add: createWorkflow_def run_simps with_first_version_def insert_workflow_def enforce_workflow_current_version_def
        empty_world_def new_workflow_def latest_number_def insert_version_def version_row_def workflowExists_def save_workflow_def
        Let_def find_row_def save_row_def workflowAudit_def audit_log_def audit_entry_def insert_audit_def findWorkflow_def)
  then show ?thesis
    using used_projects_are_undeletable [where i = "''p1''" and orgId = "''o1''" and actor = "''u1''"]
    by (metis prefix_order.refl prod.collapse)
qed

end
