(* ===== verification/Messages.thy ===== *)
theory Messages
  imports Sessions
begin

text \<open>
  The messages of a session: \<open>src/modules/messages/services/messages.service.ts\<close>, the two controllers, the
  cursor of \<open>utils/message-pagination.util.ts\<close> and the filters of \<open>utils/message-query.util.ts\<close>.

  The full-text search of the database (\<open>matches\<close>), \<open>JSON.parse\<close> and the \<open>Date\<close> constructor on a string are
  parameters; base64url is written out. The transcript is the list of text lines with their font size, in the
  order they are handed to the PDF library.
\<close>

record CreateMessageDto =
  cm_role :: MessageRole
  cm_type :: MessageType
  cm_content :: string
  cm_metadata :: "json option"

record ListSessionMessagesQueryDto =
  lq_type :: "MessageType option"
  lq_cursor :: "string option"
  lq_search :: "string option"

record MessageCursor =
  mc_createdAt :: time
  mc_id :: string

section \<open>Base64url\<close>

text \<open>\<open>Buffer.toString('base64url')\<close> has no padding; \<open>Buffer.from(s, 'base64url')\<close> skips characters outside the two
  base64 alphabets and drops incomplete bytes.\<close>

definition b64_char :: "nat \<Rightarrow> char" where
  "b64_char n =
     (if n < 26 then char_of (65 + n) else if n < 52 then char_of (71 + n) else if n < 62 then char_of (n - 4)
      else if n = 62 then CHR ''-'' else CHR ''_'')"

definition b64_val :: "char \<Rightarrow> nat option" where
  "b64_val c = (let n = of_char c in
     if 65 \<le> n \<and> n \<le> 90 then Some (n - 65) else if 97 \<le> n \<and> n \<le> 122 then Some (n - 71)
     else if 48 \<le> n \<and> n \<le> 57 then Some (n + 4) else if n = 45 \<or> n = 43 then Some 62
     else if n = 95 \<or> n = 47 then Some 63 else None)"

fun sextets :: "nat list \<Rightarrow> nat list" where
  "sextets (a # b # c # bs) = (a div 4) # (a mod 4 * 16 + b div 16) # (b mod 16 * 4 + c div 64) # (c mod 64) # sextets bs"
| "sextets [a, b] = [a div 4, a mod 4 * 16 + b div 16, b mod 16 * 4]"
| "sextets [a] = [a div 4, a mod 4 * 16]"
| "sextets [] = []"

fun octets :: "nat list \<Rightarrow> nat list" where
  "octets (p # q # r # s # xs) = (p * 4 + q div 16) # (q mod 16 * 16 + r div 4) # (r mod 4 * 64 + s) # octets xs"
| "octets [p, q, r] = [p * 4 + q div 16, q mod 16 * 16 + r div 4]"
| "octets [p, q] = [p * 4 + q div 16]"
| "octets _ = []"

definition base64url :: "string \<Rightarrow> string" where
  "base64url s = map b64_char (sextets (map of_char s))"

definition from_base64url :: "string \<Rightarrow> string" where
  "from_base64url s = map char_of (octets (List.map_filter b64_val s))"

lemma bits_joined:
  assumes "(b :: nat) < 256" "(c :: nat) < 256"
  shows "a div 4 * 4 + (a mod 4 * 16 + b div 16) div 16 = a" "a div 4 * 4 + (a mod 4 * 16) div 16 = a"
    "(a mod 4 * 16 + b div 16) mod 16 * 16 + (b mod 16 * 4 + c div 64) div 4 = b"
    "(a mod 4 * 16 + b div 16) mod 16 * 16 + (b mod 16 * 4) div 4 = b"
    "(b mod 16 * 4 + c div 64) mod 4 * 64 + c mod 64 = c"
proof -
  have "b div 16 < 16" "c div 64 < 4" using assms by simp_all
  then have "(a mod 4 * 16 + b div 16) div 16 = a mod 4" "(a mod 4 * 16 + b div 16) mod 16 = b div 16"
    "(b mod 16 * 4 + c div 64) div 4 = b mod 16" "(b mod 16 * 4 + c div 64) mod 4 = c div 64" by simp_all
  then show "a div 4 * 4 + (a mod 4 * 16 + b div 16) div 16 = a" "a div 4 * 4 + (a mod 4 * 16) div 16 = a"
    "(a mod 4 * 16 + b div 16) mod 16 * 16 + (b mod 16 * 4 + c div 64) div 4 = b"
    "(a mod 4 * 16 + b div 16) mod 16 * 16 + (b mod 16 * 4) div 4 = b"
    "(b mod 16 * 4 + c div 64) mod 4 * 64 + c mod 64 = c" by simp_all
qed

lemma octets_sextets: "\<forall>x \<in> set xs. x < 256 \<Longrightarrow> octets (sextets xs) = xs"
proof (induction xs rule: sextets.induct)
  case (1 a b c bs)
  then show ?case using bits_joined [of b c] by simp
next
  case (2 a b)
  then show ?case using bits_joined [of b b] by simp
next
  case (3 a)
  then show ?case using bits_joined [of a a] by simp
qed simp

lemma sextet_bounds:
  assumes "(b :: nat) < 256"
  shows "b div 4 < 64" "a mod 4 * 16 + b div 16 < 64" "a mod 16 * 4 + b div 64 < 64"
proof -
  show "b div 4 < 64" using assms by simp
  have "b div 16 < 16" "b div 64 < 4" "a mod 4 < 4" "a mod 16 < 16" using assms by simp_all
  then show "a mod 4 * 16 + b div 16 < 64" "a mod 16 * 4 + b div 64 < 64" by linarith+
qed

lemma sextets_bound: "\<forall>x \<in> set xs. x < 256 \<Longrightarrow> \<forall>y \<in> set (sextets xs). y < 64"
proof (induction xs rule: sextets.induct)
  case (1 a b c bs)
  have "a div 4 < 64" "a mod 4 * 16 + b div 16 < 64" "b mod 16 * 4 + c div 64 < 64"
    using 1 by (simp_all add: sextet_bounds)
  then show ?case using 1 by auto
next
  case (2 a b)
  then have "a div 4 < 64" "a mod 4 * 16 + b div 16 < 64" by (simp_all add: sextet_bounds)
  then show ?case by auto
qed auto

lemma b64_val_char_of: "k < 256 \<Longrightarrow> b64_val (char_of k) =
    (if 65 \<le> k \<and> k \<le> 90 then Some (k - 65) else if 97 \<le> k \<and> k \<le> 122 then Some (k - 71)
     else if 48 \<le> k \<and> k \<le> 57 then Some (k + 4) else if k = 45 \<or> k = 43 then Some 62
     else if k = 95 \<or> k = 47 then Some 63 else None)"
  by (simp only: b64_val_def of_char_of mod_less Let_def)

lemma b64_val_char: "n < 64 \<Longrightarrow> b64_val (b64_char n) = Some n"
proof -
  assume n: "n < 64"
  have special: "b64_val (CHR ''-'') = Some 62" "b64_val (CHR ''_'') = Some 63" by (simp_all add: b64_val_def)
  consider "n < 26" | "26 \<le> n" "n < 52" | "52 \<le> n" "n < 62" | "n = 62" | "n = 63" using n by linarith
  then show ?thesis
  proof cases
    case 3
    then have "n - 4 < 256" "48 \<le> n - 4" "n - 4 \<le> 57" by linarith+
    then show ?thesis using 3 by (simp add: b64_char_def b64_val_char_of)
  qed (simp_all add: b64_char_def b64_val_char_of special)
qed

theorem base64url_inverse: "from_base64url (base64url s) = s"
proof -
  let ?bs = "map of_char s :: nat list"
  have "\<forall>x \<in> set ?bs. x < 256" by auto
  then have *: "octets (sextets ?bs) = ?bs" "\<forall>y \<in> set (sextets ?bs). y < 64"
    by (rule octets_sextets, rule sextets_bound)
  have "List.map_filter b64_val (map b64_char ys) = ys" if "\<forall>y \<in> set ys. y < 64" for ys
    using that by (induction ys) (simp_all add: List.map_filter_simps b64_val_char)
  then show ?thesis using * by (simp add: base64url_def from_base64url_def comp_def)
qed

section \<open>The cursor and the page window\<close>

definition DEFAULT_MESSAGE_PAGE_SIZE :: nat where
  "DEFAULT_MESSAGE_PAGE_SIZE = 50"

definition cursor_json :: "MessageCursor \<Rightarrow> json" where
  "cursor_json c = JObj [(''createdAt'', JStr (toISOString (mc_createdAt c))), (''id'', JStr (mc_id c))]"

definition encodeMessageCursor :: "MessageCursor \<Rightarrow> string" where
  "encodeMessageCursor c = base64url (stringify (cursor_json c))"

text \<open>A date that is not a valid one has no value; the fields of a token may have any type, the \<open>Date\<close> constructor
  and the query take what they get, so a token whose fields are not strings is a parameter too (\<open>date_of\<close>).\<close>

definition cursor_field_given :: "json \<Rightarrow> bool" where
  "cursor_field_given v = (case v of JNull \<Rightarrow> False | JBool b \<Rightarrow> b | JNum n \<Rightarrow> n \<noteq> ''0'' | JStr s \<Rightarrow> s \<noteq> [] | _ \<Rightarrow> True)"

definition decodeMessageCursor ::
  "(string \<Rightarrow> json option) \<Rightarrow> (json \<Rightarrow> time option) \<Rightarrow> string \<Rightarrow> error + (time \<times> json)" where
  "decodeMessageCursor json_parse date_of encoded =
     (let invalid = Inl (BadRequestException (JStr ''Invalid cursor token.'')) in
      case json_parse (from_base64url encoded) of
        Some (JObj kvs) \<Rightarrow>
          (case (get_prop kvs ''createdAt'', get_prop kvs ''id'') of
             (Some c, Some i) \<Rightarrow>
               if \<not> cursor_field_given c \<or> \<not> cursor_field_given i then invalid
               else (case date_of c of None \<Rightarrow> invalid | Some t \<Rightarrow> Inr (t, i))
           | _ \<Rightarrow> invalid)
      | _ \<Rightarrow> invalid)"

definition message_cursor :: "Message \<Rightarrow> MessageCursor" where
  "message_cursor m = \<lparr>mc_createdAt = me_createdAt m, mc_id = me_id m\<rparr>"

definition getMessagePageWindow :: "Message list \<Rightarrow> nat \<Rightarrow> Message list \<times> string option" where
  "getMessagePageWindow rows pageSize =
     (let items = (if length rows > pageSize then take pageSize rows else rows) in
      (items, if length rows > pageSize \<and> items \<noteq> [] then Some (encodeMessageCursor (message_cursor (last items))) else None))"

section \<open>The service\<close>

definition findOwnedSessionOrThrow :: "string \<Rightarrow> string \<Rightarrow> Session service" where
  "findOwnedSessionOrThrow sessionId orgId w =
     orThrow (find (\<lambda>s. se_id s = sessionId \<and> se_archivedAt s = None \<and>
         (\<exists>x \<in> set (workflowRows w). wf_id x = se_workflowId s \<and> wf_orgId x = orgId)) (sessionRows w))
       (NotFoundException (JStr ''Session not found.'')) w"

definition toMessageResponse :: "Message \<Rightarrow> json" where
  "toMessageResponse m =
     JObj [(''id'', JStr (me_id m)), (''sessionId'', JStr (me_sessionId m)), (''role'', JStr (message_role_str (me_role m))),
           (''type'', JStr (message_type_str (me_type m))), (''content'', JStr (me_content m)),
           (''metadata'', if me_metadata m = JNull then JObj [] else me_metadata m),
           (''createdAt'', JStr (toISOString (me_createdAt m)))]"

definition new_message :: "string \<Rightarrow> CreateMessageDto \<Rightarrow> string \<Rightarrow> time \<Rightarrow> Message" where
  "new_message sessionId dto i now =
     \<lparr>me_id = i, me_sessionId = sessionId, me_role = cm_role dto, me_type = cm_type dto, me_content = cm_content dto,
      me_metadata = (case cm_metadata dto of None \<Rightarrow> JObj [] | Some v \<Rightarrow> if v = JNull then JObj [] else v),
      me_createdAt = now, me_archivedAt = None\<rparr>"

definition createMessage :: "string \<Rightarrow> CreateMessageDto \<Rightarrow> RequestUser \<Rightarrow> json service" where
  "createMessage sessionId dto caller =
     andThen (findOwnedSessionOrThrow sessionId (rq_orgId caller)) (\<lambda>_.
     andThen new_id (\<lambda>i.
     andThen (reading (\<lambda>w. new_message sessionId dto i (clock w))) (\<lambda>m.
     andThen (insert_message m) (\<lambda>_. ret (toMessageResponse m)))))"

text \<open>The route: a message of the user role also starts an AI task, after the message is stored.\<close>

definition message_input :: "CreateMessageDto \<Rightarrow> json" where
  "message_input dto = JObj [(''content'', JStr (cm_content dto)), (''type'', JStr (message_type_str (cm_type dto)))]"

definition createMessageRoute :: "string \<Rightarrow> CreateMessageDto \<Rightarrow> RequestUser \<Rightarrow> json service" where
  "createMessageRoute sessionId dto caller =
     andThen (createMessage sessionId dto caller) (\<lambda>message.
     andThen (if cm_role dto = MessageRole.USER
              then forget (dispatchAiTask sessionId (message_input dto) caller None None) else ret ()) (\<lambda>_.
     ret message))"

definition owned_session_message :: "string \<Rightarrow> string \<Rightarrow> world \<Rightarrow> Message \<Rightarrow> bool" where
  "owned_session_message sessionId orgId w m \<longleftrightarrow>
     me_sessionId m = sessionId \<and> me_archivedAt m = None \<and>
     (\<exists>s \<in> set (sessionRows w). se_id s = me_sessionId m \<and> se_archivedAt s = None \<and>
       (\<exists>x \<in> set (workflowRows w). wf_id x = se_workflowId s \<and> wf_orgId x = orgId))"

text \<open>The cursor condition compares with a timestamp of the cursor's precision; what the database reads as a uuid is a
  parameter (\<open>as_uuid\<close>), it refuses the query otherwise.\<close>

definition past_cursor :: "time \<Rightarrow> string \<Rightarrow> Message \<Rightarrow> bool" where
  "past_cursor t i m \<longleftrightarrow> t < me_createdAt m \<or> me_createdAt m = t \<and> i < me_id m"

definition optional_filters ::
  "(string \<Rightarrow> string \<Rightarrow> bool) \<Rightarrow> MessageType option \<Rightarrow> string option \<Rightarrow> (time \<times> string) option \<Rightarrow> Message \<Rightarrow> bool" where
  "optional_filters matches type search cursor m \<longleftrightarrow>
     optionally (\<lambda>t. me_type m = t) type \<and>
     (case search of None \<Rightarrow> True | Some s \<Rightarrow> s = [] \<or> matches s (me_content m)) \<and>
     optionally (\<lambda>(t, i). past_cursor t i m) cursor"

definition query_cursor ::
  "(string \<Rightarrow> json option) \<Rightarrow> (json \<Rightarrow> time option) \<Rightarrow> (json \<Rightarrow> string option) \<Rightarrow> string option \<Rightarrow>
   (time \<times> string) option service" where
  "query_cursor json_parse date_of as_uuid cursor =
     (case cursor of
        None \<Rightarrow> ret None
      | Some c \<Rightarrow>
          if c = [] then ret None
          else andThen (liftSum (decodeMessageCursor json_parse date_of c)) (\<lambda>(t, i).
            case as_uuid i of Some s \<Rightarrow> ret (Some (t, s)) | None \<Rightarrow> throw (QueryFailedError ''invalid input syntax for type uuid'')))"

definition chronological :: "Message list \<Rightarrow> Message list" where
  "chronological = sort_key (\<lambda>m. (me_createdAt m, me_id m))"

definition listSessionMessages ::
  "(string \<Rightarrow> string \<Rightarrow> bool) \<Rightarrow> (string \<Rightarrow> json option) \<Rightarrow> (json \<Rightarrow> time option) \<Rightarrow> (json \<Rightarrow> string option) \<Rightarrow>
   string \<Rightarrow> ListSessionMessagesQueryDto \<Rightarrow> RequestUser \<Rightarrow> (json list \<times> string option) service" where
  "listSessionMessages matches json_parse date_of as_uuid sessionId query caller =
     andThen (findOwnedSessionOrThrow sessionId (rq_orgId caller)) (\<lambda>_.
     andThen (query_cursor json_parse date_of as_uuid (lq_cursor query)) (\<lambda>cursor.
     andThen (reading (\<lambda>w. take (DEFAULT_MESSAGE_PAGE_SIZE + 1) (chronological (filter
       (\<lambda>m. owned_session_message sessionId (rq_orgId caller) w m \<and>
            optional_filters matches (lq_type query) (lq_search query) cursor m) (messageRows w))))) (\<lambda>rows.
     let (items, nextCursor) = getMessagePageWindow rows DEFAULT_MESSAGE_PAGE_SIZE in
     ret (map toMessageResponse items, nextCursor))))"

definition getMessage :: "string \<Rightarrow> RequestUser \<Rightarrow> json service" where
  "getMessage messageId caller =
     andThen (\<lambda>w. orThrow (find (\<lambda>m. me_id m = messageId \<and> owned_session_message (me_sessionId m) (rq_orgId caller) w m)
       (messageRows w)) (NotFoundException (JStr ''Message not found.'')) w) (\<lambda>m.
     ret (toMessageResponse m))"

definition transcript_message :: "nat \<Rightarrow> Message \<Rightarrow> (nat \<times> string) list" where
  "transcript_message index m =
     [(11, nat_digits (index + 1) @ ''. '' @ toISOString (me_createdAt m) @ '' | '' @ message_role_str (me_role m) @ '' | '' @
        message_type_str (me_type m)),
      (12, me_content m)] @
     (case me_metadata m of JObj (kv # kvs) \<Rightarrow> [(9, ''Metadata: '' @ stringify (JObj (kv # kvs)))] | _ \<Rightarrow> [])"

definition renderTranscript :: "string \<Rightarrow> time \<Rightarrow> Message list \<Rightarrow> (nat \<times> string) list" where
  "renderTranscript sessionId now messages =
     [(18, ''Session Transcript''), (10, ''Session ID: '' @ sessionId), (10, ''Generated At: '' @ toISOString now)] @
     (if messages = [] then [(12, ''No messages were found for this session.'')]
      else concat (map (\<lambda>(i, m). transcript_message i m) (List.enumerate 0 messages)))"

definition exportSessionTranscript :: "string \<Rightarrow> RequestUser \<Rightarrow> (nat \<times> string) list service" where
  "exportSessionTranscript sessionId caller =
     andThen (findOwnedSessionOrThrow sessionId (rq_orgId caller)) (\<lambda>_.
     reading (\<lambda>w. renderTranscript sessionId (new_Date w)
       (chronological (filter (owned_session_message sessionId (rq_orgId caller) w) (messageRows w)))))"

section \<open>Paging through a session\<close>

text \<open>The messages a query lists, and the page that starts at one of them.\<close>

definition session_messages :: "(string \<Rightarrow> string \<Rightarrow> bool) \<Rightarrow> string \<Rightarrow> ListSessionMessagesQueryDto \<Rightarrow> string \<Rightarrow> world \<Rightarrow> Message list" where
  "session_messages matches sessionId query orgId w =
     chronological (filter (\<lambda>m. owned_session_message sessionId orgId w m \<and>
       optional_filters matches (lq_type query) (lq_search query) None m) (messageRows w))"

definition message_page :: "nat \<Rightarrow> Message list \<Rightarrow> json list \<times> string option" where
  "message_page k ms =
     (let items = take DEFAULT_MESSAGE_PAGE_SIZE (drop k ms) in
      (map toMessageResponse items,
       if length ms \<le> k + DEFAULT_MESSAGE_PAGE_SIZE then None else Some (encodeMessageCursor (message_cursor (last items)))))"

lemma page_window:
  "(case getMessagePageWindow (take (DEFAULT_MESSAGE_PAGE_SIZE + 1) (drop k ms)) DEFAULT_MESSAGE_PAGE_SIZE of
      (items, nextCursor) \<Rightarrow> (map toMessageResponse items, nextCursor)) = message_page k ms"
  by (cases "length ms \<le> k + DEFAULT_MESSAGE_PAGE_SIZE")
    (simp_all add: getMessagePageWindow_def message_page_def Let_def DEFAULT_MESSAGE_PAGE_SIZE_def)

lemma past_cursor_less: "past_cursor t i m \<longleftrightarrow> (t, i) < (me_createdAt m, me_id m)"
  by (auto simp: past_cursor_def less_prod_def)

lemma filter_upwards:
  assumes "sorted_wrt R xs" "\<And>x y. R x y \<Longrightarrow> P x \<Longrightarrow> P y"
  shows "filter P xs = drop (length (takeWhile (\<lambda>x. \<not> P x) xs)) xs"
  using assms
proof (induction xs)
  case (Cons x xs)
  show ?case
  proof (cases "P x")
    case True
    then have "\<forall>y \<in> set (x # xs). P y" using Cons.prems by auto
    then have "filter P (x # xs) = x # xs" by (simp only: filter_id_conv)
    then show ?thesis using True by simp
  qed (use Cons in auto)
qed simp

lemma chronological_strict:
  assumes "distinct (map me_id ms)"
  shows "sorted_wrt (\<lambda>x y. (me_createdAt x, me_id x) < (me_createdAt y, me_id y)) (chronological ms)"
proof -
  let ?f = "\<lambda>m. (me_createdAt m, me_id m)" and ?xs = "chronological ms"
  have "distinct (map me_id ?xs)"
    unfolding chronological_def using assms by (simp add: distinct_map)
  then have "distinct (map ?f ?xs)" by (auto simp: distinct_map inj_on_def)
  moreover have "sorted (map ?f ?xs)" unfolding chronological_def by (rule sorted_sort_key)
  ultimately have "sorted_wrt (<) (map ?f ?xs)" by (simp add: strict_sorted_iff)
  then show ?thesis by (simp add: sorted_wrt_map)
qed

lemma chronological_filter: "chronological (filter P ms) = filter P (chronological ms)"
  by (simp add: chronological_def filter_sort)

lemma optional_filters_cursor:
  "optional_filters matches type search cursor m \<longleftrightarrow>
     optional_filters matches type search None m \<and> optionally (\<lambda>(t, i). past_cursor t i m) cursor"
  by (auto simp: optional_filters_def)

text \<open>The rows after a position: the cursor of row \<open>n\<close> has lost the microseconds, so the rows listed after it start
  at row \<open>n + 1\<close> or earlier.\<close>

lemma rows_after_cursor:
  assumes sorted: "sorted_wrt (\<lambda>x y. (me_createdAt x, me_id x) < (me_createdAt y, me_id y)) ms" and n: "n < length ms"
  defines "t \<equiv> js_date (me_createdAt (ms ! n))"
  obtains k where "k \<le> Suc n" "filter (past_cursor t (me_id (ms ! n))) ms = drop k ms"
    "\<And>i. k \<le> i \<Longrightarrow> i \<le> n \<Longrightarrow> js_date (me_createdAt (ms ! i)) = t"
    "k = Suc n \<longleftrightarrow> me_createdAt (ms ! n) = t"
proof -
  let ?P = "past_cursor t (me_id (ms ! n))" and ?k = "length (takeWhile (\<lambda>x. \<not> past_cursor t (me_id (ms ! n)) x) ms)"
  have floor: "t \<le> me_createdAt (ms ! n)" by (simp add: t_def js_date_def)
  have filter: "filter ?P ms = drop ?k ms"
    using sorted by (rule filter_upwards) (metis past_cursor_less less_trans)
  have before: "\<not> ?P (ms ! i)" if "i < ?k" for i
    using nth_mem [of i "takeWhile (\<lambda>x. \<not> ?P x) ms"] that by (metis set_takeWhileD takeWhile_nth)
  have after: "?P (ms ! i)" if "?k \<le> i" "i < length ms" for i
  proof -
    have "drop ?k ms ! (i - ?k) = ms ! i" using that by simp
    moreover have "i - ?k < length (drop ?k ms)" using that by simp
    ultimately have "ms ! i \<in> set (drop ?k ms)" by (metis nth_mem)
    then show ?thesis unfolding filter [symmetric] by simp
  qed
  have le: "?k \<le> Suc n"
  proof (rule ccontr)
    assume "\<not> ?k \<le> Suc n"
    then have k: "Suc n < ?k" by simp
    have "?k \<le> length ms" by (rule length_takeWhile_le)
    with k have "Suc n < length ms" by simp
    then have "(me_createdAt (ms ! n), me_id (ms ! n)) < (me_createdAt (ms ! Suc n), me_id (ms ! Suc n))"
      using sorted_wrt_nth_less [OF sorted, of n "Suc n"] by simp
    then have "?P (ms ! Suc n)" using floor by (auto simp: past_cursor_less less_prod_def)
    then show False using before [OF k] by simp
  qed
  have same: "js_date (me_createdAt (ms ! i)) = t" if "?k \<le> i" "i \<le> n" for i
  proof -
    have "?P (ms ! i)" using after that n by simp
    then have "t \<le> me_createdAt (ms ! i)" by (auto simp: past_cursor_def)
    moreover have "me_createdAt (ms ! i) \<le> me_createdAt (ms ! n)"
      using sorted_wrt_nth_less [OF sorted, of i n] that n by (cases "i = n") (auto simp: less_prod_def)
    ultimately have "t div 1000 \<le> me_createdAt (ms ! i) div 1000" "me_createdAt (ms ! i) div 1000 \<le> me_createdAt (ms ! n) div 1000"
      by (simp_all add: div_le_mono)
    then show ?thesis by (simp add: t_def js_date_def)
  qed
  have "?k = Suc n \<longleftrightarrow> me_createdAt (ms ! n) = t"
  proof -
    have "?P (ms ! n) \<longleftrightarrow> me_createdAt (ms ! n) \<noteq> t" using floor by (auto simp: past_cursor_def)
    then show ?thesis using before [of n] after [of n] le n by (metis le_less_linear lessI less_le_not_le not_less_eq_eq le_antisym)
  qed
  with le filter same show ?thesis by (rule that)
qed

lemma decode_encoded:
  assumes "json_parse (stringify (cursor_json c)) = Some (cursor_json c)" "date_of (JStr (toISOString (mc_createdAt c))) = Some t"
    "mc_id c \<noteq> []" "toISOString (mc_createdAt c) \<noteq> []" "as_uuid (JStr (mc_id c)) = Some (mc_id c)"
  shows "query_cursor json_parse date_of as_uuid (Some (encodeMessageCursor c)) w = (Inr (Some (t, mc_id c)), w)"
proof -
  have "encodeMessageCursor c \<noteq> []"
    using base64url_inverse [of "stringify (cursor_json c)"]
    by (auto simp: encodeMessageCursor_def cursor_json_def from_base64url_def List.map_filter_simps)
  then show ?thesis
    using assms by (simp add: query_cursor_def decodeMessageCursor_def encodeMessageCursor_def base64url_inverse run_simps
        cursor_json_def get_prop_def cursor_field_given_def)
qed

lemma listing:
  assumes "findOwnedSessionOrThrow sid (rq_orgId caller) w = (Inr s, w)"
    "query_cursor json_parse date_of as_uuid (lq_cursor query) w = (Inr cursor, w)"
    "filter (\<lambda>m. optionally (\<lambda>(t, i). past_cursor t i m) cursor) (session_messages matches sid query (rq_orgId caller) w) =
       drop k (session_messages matches sid query (rq_orgId caller) w)"
  shows "listSessionMessages matches json_parse date_of as_uuid sid query caller w =
     (Inr (message_page k (session_messages matches sid query (rq_orgId caller) w)), w)"
proof -
  have "chronological (filter (\<lambda>m. owned_session_message sid (rq_orgId caller) w m \<and>
      optional_filters matches (lq_type query) (lq_search query) cursor m) (messageRows w)) =
      drop k (session_messages matches sid query (rq_orgId caller) w)"
    unfolding assms(3) [symmetric] unfolding session_messages_def chronological_filter filter_filter
    by (rule filter_cong [OF refl]) (auto simp: optional_filters_cursor [of _ _ _ cursor])
  then show ?thesis
    using assms(1,2) page_window [of k "session_messages matches sid query (rq_orgId caller) w"]
    by (simp add: listSessionMessages_def run_simps case_prod_beta)
qed

lemma iso_not_empty: "toISOString t \<noteq> []"
  by (simp add: toISOString_def Let_def split: prod.splits)

text \<open>C30. Paging through a session: the first request gives the oldest 50 messages the query admits, a page carries a next
cursor exactly if messages remain, and the cursor of the message at position \<open>n\<close> gives a page that skips none of the
messages behind it. It starts right behind it exactly if that message was created at a whole millisecond: a cursor
keeps milliseconds of the database's microseconds, so otherwise the page repeats the message itself, and with it
those of the same millisecond.\<close>

theorem message_pages:
  assumes "findOwnedSessionOrThrow sid (rq_orgId caller) w = (Inr s, w)" "distinct (map me_id (messageRows w))"
    and "all = session_messages matches sid query (rq_orgId caller) w"
    and parsed: "\<And>m. m \<in> set all \<Longrightarrow> json_parse (stringify (cursor_json (message_cursor m))) = Some (cursor_json (message_cursor m)) \<and>
      date_of (JStr (toISOString (me_createdAt m))) = Some (js_date (me_createdAt m)) \<and>
      me_id m \<noteq> [] \<and> as_uuid (JStr (me_id m)) = Some (me_id m)"
  shows "listSessionMessages matches json_parse date_of as_uuid sid (query\<lparr>lq_cursor := None\<rparr>) caller w =
      (Inr (message_page 0 all), w) \<and>
    (\<forall>n < length all. \<exists>k \<le> Suc n.
      listSessionMessages matches json_parse date_of as_uuid sid
        (query\<lparr>lq_cursor := Some (encodeMessageCursor (message_cursor (all ! n)))\<rparr>) caller w = (Inr (message_page k all), w) \<and>
      (k = Suc n \<longleftrightarrow> me_createdAt (all ! n) = js_date (me_createdAt (all ! n))) \<and>
      (\<forall>i. k \<le> i \<and> i \<le> n \<longrightarrow> js_date (me_createdAt (all ! i)) = js_date (me_createdAt (all ! n))))"
proof (intro conjI allI impI)
  have listed: "session_messages matches sid (query\<lparr>lq_cursor := c\<rparr>) (rq_orgId caller) w = all" for c
    by (simp add: assms(3) session_messages_def)
  show "listSessionMessages matches json_parse date_of as_uuid sid (query\<lparr>lq_cursor := None\<rparr>) caller w =
      (Inr (message_page 0 all), w)"
    using listing [OF assms(1), of json_parse date_of as_uuid "query\<lparr>lq_cursor := None\<rparr>" None matches 0]
    by (simp add: query_cursor_def run_simps listed)
  fix n assume n: "n < length all"
  let ?m = "all ! n"
  have sorted: "sorted_wrt (\<lambda>x y. (me_createdAt x, me_id x) < (me_createdAt y, me_id y)) all"
    unfolding assms(3) session_messages_def using assms(2) by (intro chronological_strict) (simp add: distinct_map_filter)
  obtain k where k: "k \<le> Suc n" "filter (past_cursor (js_date (me_createdAt ?m)) (me_id ?m)) all = drop k all"
    "\<And>i. k \<le> i \<Longrightarrow> i \<le> n \<Longrightarrow> js_date (me_createdAt (all ! i)) = js_date (me_createdAt ?m)"
    "k = Suc n \<longleftrightarrow> me_createdAt ?m = js_date (me_createdAt ?m)"
    using rows_after_cursor [OF sorted n] by blast
  have decoded: "query_cursor json_parse date_of as_uuid (Some (encodeMessageCursor (message_cursor ?m))) w =
      (Inr (Some (js_date (me_createdAt ?m), me_id ?m)), w)"
    using decode_encoded [of json_parse "message_cursor ?m" date_of "js_date (me_createdAt ?m)" as_uuid w]
      parsed [OF nth_mem [OF n]] iso_not_empty by (simp add: message_cursor_def)
  show "\<exists>k \<le> Suc n.
      listSessionMessages matches json_parse date_of as_uuid sid
        (query\<lparr>lq_cursor := Some (encodeMessageCursor (message_cursor ?m))\<rparr>) caller w = (Inr (message_page k all), w) \<and>
      (k = Suc n \<longleftrightarrow> me_createdAt ?m = js_date (me_createdAt ?m)) \<and>
      (\<forall>i. k \<le> i \<and> i \<le> n \<longrightarrow> js_date (me_createdAt (all ! i)) = js_date (me_createdAt ?m))"
    using listing [OF assms(1), of json_parse date_of as_uuid
        "query\<lparr>lq_cursor := Some (encodeMessageCursor (message_cursor ?m))\<rparr>"
        "Some (js_date (me_createdAt ?m), me_id ?m)" matches k] decoded k
    by (auto simp: listed intro!: exI [of _ k])
qed

definition sample_message :: Message where
  "sample_message = \<lparr>me_id = ''m1'', me_sessionId = ''s1'', me_role = MessageRole.USER, me_type = MessageType.USER_INPUT,
     me_content = ''hello'', me_metadata = JObj [], me_createdAt = 1500, me_archivedAt = None\<rparr>"

definition chatty_world :: world where
  "chatty_world = sample_world\<lparr>messageRows := [sample_message]\<rparr>"

lemma chatty_listed:
  "findOwnedSessionOrThrow ''s1'' ''o1'' chatty_world = (Inr sample_session, chatty_world)"
  "session_messages matches ''s1'' \<lparr>lq_type = None, lq_cursor = None, lq_search = None\<rparr> ''o1'' chatty_world = [sample_message]"
  by (simp_all add: findOwnedSessionOrThrow_def chatty_world_def sample_defs run_simps session_messages_def chronological_def
      owned_session_message_def optional_filters_def sample_message_def)

theorem message_pages_witness:
  "listSessionMessages (\<lambda>_ _. True) (\<lambda>_. Some (cursor_json (message_cursor sample_message))) (\<lambda>_. Some 1000)
     (\<lambda>v. case v of JStr i \<Rightarrow> Some i | _ \<Rightarrow> None) ''s1''
     \<lparr>lq_type = None, lq_cursor = Some (encodeMessageCursor (message_cursor sample_message)), lq_search = None\<rparr>
     \<lparr>rq_id = ''u1'', rq_orgId = ''o1'', rq_role = ''business_owner''\<rparr> chatty_world =
   (Inr ([toMessageResponse sample_message], None), chatty_world)"
  using message_pages [of "''s1''" "\<lparr>rq_id = ''u1'', rq_orgId = ''o1'', rq_role = ''business_owner''\<rparr>" chatty_world sample_session
      "[sample_message]" "\<lambda>_ _. True" "\<lparr>lq_type = None, lq_cursor = None, lq_search = None\<rparr>"
      "\<lambda>_. Some (cursor_json (message_cursor sample_message))" "\<lambda>_. Some 1000" "\<lambda>v. case v of JStr i \<Rightarrow> Some i | _ \<Rightarrow> None"]
  by (auto simp: chatty_listed) (auto simp: chatty_world_def sample_message_def js_date_def message_page_def
      DEFAULT_MESSAGE_PAGE_SIZE_def le_Suc_eq)

end
