(* ===== verification/Documents.thy ===== *)
theory Documents
  imports Ai_Handlers
begin

text \<open>
  Documents: \<open>src/modules/documents/services/documents.service.ts\<close>, the storage service on MinIO and the helpers in
  \<open>utils\<close>. The preprocessing results are handled in theory \<open>Ai_Handlers\<close>.

  Parameters: the detection of a file type from its first bytes (\<open>detect\<close>, a library) and the signed URL of an object
  (\<open>presign\<close>). The store answers or not (\<open>storageUp\<close>).
\<close>

section \<open>Limits and file types\<close>

definition MAX_DOCUMENT_FILE_SIZE_BYTES :: int where
  "MAX_DOCUMENT_FILE_SIZE_BYTES = 50 * 1024 * 1024"

definition MAX_SESSION_DOCUMENT_TOTAL_SIZE_BYTES :: int where
  "MAX_SESSION_DOCUMENT_TOTAL_SIZE_BYTES = 200 * 1024 * 1024"

definition assertDocumentFileSizeWithinLimit :: "int \<Rightarrow> unit service" where
  "assertDocumentFileSizeWithinLimit bytes =
     check (bytes \<le> MAX_DOCUMENT_FILE_SIZE_BYTES)
       (PayloadTooLargeException (JStr (''Uploaded file exceeds the 50 MB limit ('' @ int_str bytes @ '' bytes received).'')))"

definition assertSessionDocumentSizeWithinLimit :: "int \<Rightarrow> int \<Rightarrow> unit service" where
  "assertSessionDocumentSizeWithinLimit current incoming =
     check (current + incoming \<le> MAX_SESSION_DOCUMENT_TOTAL_SIZE_BYTES)
       (PayloadTooLargeException (JStr ''Uploading this file would exceed the 200 MB document limit for the session.''))"

definition ALLOWED_DOCUMENT_EXTENSIONS :: "(string \<times> string) list" where
  "ALLOWED_DOCUMENT_EXTENSIONS =
     [(''.txt'', ''text/plain''), (''.pdf'', ''application/pdf''),
      (''.docx'', ''application/vnd.openxmlformats-officedocument.wordprocessingml.document''),
      (''.png'', ''image/png''), (''.jpg'', ''image/jpeg''), (''.jpeg'', ''image/jpeg''), (''.webp'', ''image/webp''),
      (''.mp3'', ''audio/mpeg''), (''.wav'', ''audio/wav''), (''.m4a'', ''audio/x-m4a''), (''.md'', ''text/markdown'')]"

definition MAGIC_MIME_EQUIVALENTS :: "(string \<times> string list) list" where
  "MAGIC_MIME_EQUIVALENTS =
     [(''text/plain'', []), (''application/pdf'', [''application/pdf'']),
      (''application/vnd.openxmlformats-officedocument.wordprocessingml.document'', [''application/zip'']),
      (''image/png'', [''image/png'']), (''image/jpeg'', [''image/jpeg'']), (''image/webp'', [''image/webp'']),
      (''audio/mpeg'', [''audio/mpeg'']), (''audio/wav'', [''audio/wav'', ''audio/vnd.wave'', ''audio/x-wav'']),
      (''audio/x-m4a'', [''audio/x-m4a'', ''audio/mp4'', ''video/mp4'']), (''text/markdown'', [])]"

text \<open>\<open>path.extname\<close>: the last component of the path from its last dot, unless that dot is its first character.\<close>

definition path_basename :: "string \<Rightarrow> string" where
  "path_basename f = rev (takeWhile (\<lambda>c. c \<noteq> CHR ''/'') (dropWhile (\<lambda>c. c = CHR ''/'') (rev f)))"

definition path_extname :: "string \<Rightarrow> string" where
  "path_extname f =
     (let base = path_basename f; after = rev (takeWhile (\<lambda>c. c \<noteq> CHR ''.'') (rev base)) in
      if base = ''..'' \<or> length base \<le> length after + 1 then [] else CHR ''.'' # after)"

definition getMimeTypeFromFilename :: "string \<Rightarrow> string option" where
  "getMimeTypeFromFilename filename = map_of ALLOWED_DOCUMENT_EXTENSIONS (js_toLowerCase (path_extname filename))"

text \<open>Decoding a buffer as UTF-8 gives a replacement character for every ill-formed sequence, and for the encoding of that
  character itself.\<close>

definition utf8_tail :: "nat \<Rightarrow> bool" where
  "utf8_tail b \<longleftrightarrow> 128 \<le> b \<and> b \<le> 191"

fun utf8_clean :: "nat list \<Rightarrow> bool" where
  "utf8_clean [] = True"
| "utf8_clean (a # xs) =
     (if a < 128 then utf8_clean xs
      else if 194 \<le> a \<and> a \<le> 223 then (case xs of b # ys \<Rightarrow> utf8_tail b \<and> utf8_clean ys | _ \<Rightarrow> False)
      else if 224 \<le> a \<and> a \<le> 239 then
        (case xs of b # c # ys \<Rightarrow>
           utf8_tail b \<and> utf8_tail c \<and> (a = 224 \<longrightarrow> 160 \<le> b) \<and> (a = 237 \<longrightarrow> b \<le> 159) \<and>
           \<not> (a = 239 \<and> b = 191 \<and> c = 189) \<and> utf8_clean ys
         | _ \<Rightarrow> False)
      else if 240 \<le> a \<and> a \<le> 244 then
        (case xs of b # c # d # ys \<Rightarrow>
           utf8_tail b \<and> utf8_tail c \<and> utf8_tail d \<and> (a = 240 \<longrightarrow> 144 \<le> b) \<and> (a = 244 \<longrightarrow> b \<le> 143) \<and> utf8_clean ys
         | _ \<Rightarrow> False)
      else False)"

definition printable_byte :: "nat \<Rightarrow> bool" where
  "printable_byte b \<longleftrightarrow> b = 9 \<or> b = 10 \<or> b = 13 \<or> 32 \<le> b \<and> b \<le> 126"

definition bufferLooksLikeUtf8Text :: "nat list \<Rightarrow> bool" where
  "bufferLooksLikeUtf8Text buffer =
     (let sample = take 4096 buffer in
      0 \<notin> set sample \<and> utf8_clean sample \<and> 85 * max (length sample) 1 \<le> 100 * length (filter printable_byte sample))"

definition magic_matches :: "string \<Rightarrow> string \<Rightarrow> bool" where
  "magic_matches mime detected \<longleftrightarrow>
     (case map_of MAGIC_MIME_EQUIVALENTS mime of None \<Rightarrow> False | Some ms \<Rightarrow> detected \<in> set ms)"

definition validateDocumentMimeType :: "(nat list \<Rightarrow> string option) \<Rightarrow> string \<Rightarrow> nat list \<Rightarrow> error + string" where
  "validateDocumentMimeType detect filename buffer =
     (case getMimeTypeFromFilename filename of
        None \<Rightarrow> Inl (UnsupportedMediaTypeException (JStr ''File extension is not supported.''))
      | Some mime \<Rightarrow>
          let mismatch = Inl (UnsupportedMediaTypeException (JStr (''File content does not match the '' @ mime @ '' extension.''))) in
          if mime = ''text/plain'' \<or> mime = ''text/markdown'' then
            (case detect buffer of
               Some t \<Rightarrow> if magic_matches mime t then Inr mime else mismatch
             | None \<Rightarrow> if bufferLooksLikeUtf8Text buffer then Inr mime else mismatch)
          else
            (case detect buffer of
               None \<Rightarrow> Inl (UnsupportedMediaTypeException (JStr ''Could not verify the uploaded file signature.''))
             | Some t \<Rightarrow> if magic_matches mime t then Inr mime else mismatch))"

section \<open>Object storage\<close>

definition buildMinioStorageUrl :: "string \<Rightarrow> string \<Rightarrow> string" where
  "buildMinioStorageUrl bucketName objectKey = ''minio://'' @ bucketName @ ''/'' @ objectKey"

definition extractObjectKeyFromStorageUrl :: "string \<Rightarrow> string \<Rightarrow> error + string" where
  "extractObjectKeyFromStorageUrl storageUrl bucketName =
     (let prefix = ''minio://'' @ bucketName @ ''/'' in
      if js_startsWith storageUrl prefix then Inr (drop (length prefix) storageUrl)
      else Inl (PlainError (''Storage URL '' @ [CHR 0x22] @ storageUrl @ [CHR 0x22] @ '' does not match MinIO bucket '' @ [CHR 0x22] @ bucketName @ [CHR 0x22] @ ''.'')))"

text \<open>\<open>replace(/[...]+/g, '-')\<close>: every maximal run of the characters becomes one dash.\<close>

fun dash_runs :: "(char \<Rightarrow> bool) \<Rightarrow> bool \<Rightarrow> string \<Rightarrow> string" where
  "dash_runs P inRun [] = []"
| "dash_runs P inRun (c # s) =
     (if P c then (if inRun then dash_runs P True s else CHR ''-'' # dash_runs P True s) else c # dash_runs P False s)"

definition safe_char :: "char \<Rightarrow> bool" where
  "safe_char c \<longleftrightarrow> (let n = of_char c :: nat in
     97 \<le> n \<and> n \<le> 122 \<or> 65 \<le> n \<and> n \<le> 90 \<or> 48 \<le> n \<and> n \<le> 57 \<or> c = CHR ''.'' \<or> c = CHR ''_'' \<or> c = CHR ''-'')"

definition trim_dashes :: "string \<Rightarrow> string" where
  "trim_dashes s =
     (let t = (if s \<noteq> [] \<and> hd s = CHR ''-'' then tl s else s) in
      if t \<noteq> [] \<and> last t = CHR ''-'' then butlast t else t)"

definition sanitizedFilename :: "string \<Rightarrow> string" where
  "sanitizedFilename f =
     trim_dashes (dash_runs (\<lambda>c. c = CHR ''-'') False (dash_runs (\<lambda>c. \<not> safe_char c) False (js_trim f)))"

definition buildSafeObjectKey :: "string \<Rightarrow> string \<Rightarrow> string \<Rightarrow> int \<Rightarrow> string \<Rightarrow> string \<Rightarrow> string" where
  "buildSafeObjectKey orgId workflowId sessionId docVersion uniqueId originalFilename =
     (let s = sanitizedFilename originalFilename; filename = (if s = [] then ''document'' else s) in
      orgId @ ''/'' @ workflowId @ ''/'' @ sessionId @ ''/v'' @ int_str docVersion @ ''-'' @ uniqueId @ ''-'' @ filename)"

text \<open>The bucket is prepared once; the promise of the first attempt is kept, whatever became of it.\<close>

definition storage_error :: error where
  "storage_error = PlainError ''MinIO request failed''"

definition ensureBucketReady :: "unit service" where
  "ensureBucketReady w =
     (case bucketReady w of
        None \<Rightarrow> (if storageUp w then Inr () else Inl storage_error, w\<lparr>bucketReady := Some (storageUp w)\<rparr>)
      | Some ok \<Rightarrow> (if ok then Inr () else Inl storage_error, w))"

definition putObject :: "string \<Rightarrow> string \<Rightarrow> unit service" where
  "putObject objectKey content w =
     (if storageUp w then (Inr (), storedObjects_update (\<lambda>os. map_set objectKey content os) w) else (Inl storage_error, w))"

definition storeDocument :: "(string \<Rightarrow> string) \<Rightarrow> string \<Rightarrow> string \<Rightarrow> string \<Rightarrow> (string \<times> string) service" where
  "storeDocument presign bucketName objectKey content =
     andThen ensureBucketReady (\<lambda>_.
     andThen (putObject objectKey content) (\<lambda>_.
     ret (buildMinioStorageUrl bucketName objectKey, presign objectKey)))"

definition createPresignedUrl :: "(string \<Rightarrow> string) \<Rightarrow> string \<Rightarrow> string \<Rightarrow> string service" where
  "createPresignedUrl presign bucketName storageUrl =
     andThen ensureBucketReady (\<lambda>_.
     andThen (liftSum (extractObjectKeyFromStorageUrl storageUrl bucketName)) (\<lambda>objectKey.
     ret (presign objectKey)))"

section \<open>The service\<close>

record UploadedFile =
  uf_originalname :: string
  uf_size :: int
  uf_buffer :: string

record UploadDocumentDto =
  ud_sessionId :: string
  ud_workflowId :: "string option"

record Storage =
  st_bucket :: string
  st_presign :: "string \<Rightarrow> string"
  st_detect :: "nat list \<Rightarrow> string option"

definition findOwnedSession :: "string \<Rightarrow> string \<Rightarrow> world \<Rightarrow> Session option" where
  "findOwnedSession sessionId orgId w =
     find (\<lambda>s. se_id s = sessionId \<and> (\<exists>x \<in> set (workflowRows w). wf_id x = se_workflowId s \<and> wf_orgId x = orgId)) (sessionRows w)"

definition findActiveOwnedDocument :: "string \<Rightarrow> string \<Rightarrow> Document service" where
  "findActiveOwnedDocument documentId orgId w =
     orThrow (find (\<lambda>d. do_id d = documentId \<and> do_deletedAt d = None \<and>
         (\<exists>x \<in> set (workflowRows w). Some (wf_id x) = do_workflowId d \<and> wf_orgId x = orgId)) (documentRows w))
       (NotFoundException (JStr ''Document not found.'')) w"

definition session_documents :: "string \<Rightarrow> world \<Rightarrow> Document list" where
  "session_documents sessionId w = filter (\<lambda>d. do_sessionId d = Some sessionId) (documentRows w)"

definition getSessionDocumentBytes :: "string \<Rightarrow> world \<Rightarrow> int" where
  "getSessionDocumentBytes sessionId w = sum_list (map do_fileSizeBytes (session_documents sessionId w))"

definition getNextDocumentVersion :: "string \<Rightarrow> string \<Rightarrow> world \<Rightarrow> int" where
  "getNextDocumentVersion sessionId filename w =
     (case max_by do_docVersion (filter (\<lambda>d. do_filename d = filename) (session_documents sessionId w)) of
        None \<Rightarrow> 0 | Some d \<Rightarrow> do_docVersion d) + 1"

definition insert_document :: "Document \<Rightarrow> unit service" where
  "insert_document d w =
     andThen (constraint (do_id d \<notin> do_id ` set (documentRows w)) ''document_pkey'') (\<lambda>_.
     andThen (constraint (optionally (\<lambda>i. workflowExists i w) (do_workflowId d)) ''document_workflow_id_fkey'') (\<lambda>_.
     andThen (constraint (optionally (\<lambda>i. sessionExists i w) (do_sessionId d)) ''document_session_id_fkey'') (\<lambda>_.
     writing (documentRows_update (\<lambda>ds. ds @ [d]))))) w"

definition toDocumentResponse :: "Document \<Rightarrow> string option \<Rightarrow> json" where
  "toDocumentResponse d presignedUrl =
     obj [(''id'', Some (JStr (do_id d))), (''workflowId'', Some (json_of_option JStr (do_workflowId d))),
       (''sessionId'', Some (json_of_option JStr (do_sessionId d))), (''filename'', Some (JStr (do_filename d))),
       (''fileType'', Some (JStr (do_fileType d))), (''storageUrl'', Some (JStr (do_storageUrl d))),
       (''fileSizeBytes'', Some (json_int (do_fileSizeBytes d))), (''docVersion'', Some (json_int (do_docVersion d))),
       (''presignedUrl'', map_option JStr presignedUrl), (''createdAt'', Some (JStr (toISOString (do_createdAt d)))),
       (''deletedAt'', Some (date_json (do_deletedAt d)))]"

definition toExtractedTextResponse :: "Document \<Rightarrow> json" where
  "toExtractedTextResponse d =
     JObj [(''documentId'', JStr (do_id d)), (''docVersion'', json_int (do_docVersion d)),
       (''extractedText'', json_of_option JStr (do_extractedText d)),
       (''preprocessingConfidence'', json_of_option JNum (do_preprocessingConfidence d))]"

definition document_preprocess :: "Document \<Rightarrow> unit service" where
  "document_preprocess d =
     publishDocumentPreprocess (do_id d) (JObj [(''document_id'', JStr (do_id d)), (''file_type'', JStr (do_fileType d)),
       (''storage_url'', JStr (do_storageUrl d))])"

definition uploaded_document :: "Session \<Rightarrow> UploadedFile \<Rightarrow> string \<Rightarrow> string \<Rightarrow> int \<Rightarrow> string \<Rightarrow> time \<Rightarrow> Document" where
  "uploaded_document session file mime url version i now =
     \<lparr>do_id = i, do_workflowId = Some (se_workflowId session), do_sessionId = Some (se_id session),
      do_filename = uf_originalname file, do_fileType = mime, do_storageUrl = url, do_fileSizeBytes = uf_size file,
      do_extractedText = None, do_preprocessingConfidence = None, do_docVersion = version, do_deletedAt = None,
      do_createdAt = now, do_archivedAt = None\<rparr>"

text \<open>An upload: the checks, then the size and version of the session's documents, the object, the row, the message.\<close>

definition store_upload :: "Storage \<Rightarrow> Session \<Rightarrow> UploadedFile \<Rightarrow> string \<Rightarrow> RequestUser \<Rightarrow> json service" where
  "store_upload st session file mime caller =
     andThen (reading (getSessionDocumentBytes (se_id session))) (\<lambda>bytes.
     andThen (assertSessionDocumentSizeWithinLimit bytes (uf_size file)) (\<lambda>_.
     andThen (reading (getNextDocumentVersion (se_id session) (uf_originalname file))) (\<lambda>version.
     andThen new_id (\<lambda>uniqueId.
     andThen (storeDocument (st_presign st) (st_bucket st)
       (buildSafeObjectKey (rq_orgId caller) (se_workflowId session) (se_id session) version uniqueId (uf_originalname file))
       (uf_buffer file)) (\<lambda>(storageUrl, presignedUrl).
     andThen new_id (\<lambda>i.
     andThen (reading (\<lambda>w. uploaded_document session file mime storageUrl version i (clock w))) (\<lambda>document.
     andThen (insert_document document) (\<lambda>_.
     andThen (document_preprocess document) (\<lambda>_.
     ret (toDocumentResponse document (Some presignedUrl)))))))))))"

definition uploadDocument :: "Storage \<Rightarrow> UploadDocumentDto \<Rightarrow> UploadedFile option \<Rightarrow> RequestUser \<Rightarrow> json service" where
  "uploadDocument st dto upload caller =
     andThen (orThrow upload (BadRequestException (JStr ''A multipart file is required under the \"file\" field.''))) (\<lambda>file.
     andThen (assertDocumentFileSizeWithinLimit (uf_size file)) (\<lambda>_.
     andThen (liftSum (validateDocumentMimeType (st_detect st) (uf_originalname file) (map of_char (uf_buffer file)))) (\<lambda>mime.
     andThen (\<lambda>w. orThrow (findOwnedSession (ud_sessionId dto) (rq_orgId caller) w) (NotFoundException (JStr ''Session not found.'')) w) (\<lambda>session.
     andThen (check (\<not> truthy (ud_workflowId dto) \<or> ud_workflowId dto = Some (se_workflowId session))
       (BadRequestException (JStr ''The provided workflowId does not match the workflow linked to the session.''))) (\<lambda>_.
     store_upload st session file mime caller)))))"

definition getDocument :: "Storage \<Rightarrow> string \<Rightarrow> RequestUser \<Rightarrow> json service" where
  "getDocument st documentId caller =
     andThen (findActiveOwnedDocument documentId (rq_orgId caller)) (\<lambda>document.
     andThen (createPresignedUrl (st_presign st) (st_bucket st) (do_storageUrl document)) (\<lambda>presignedUrl.
     ret (toDocumentResponse document (Some presignedUrl))))"

definition softDeleteDocument :: "string \<Rightarrow> RequestUser \<Rightarrow> unit service" where
  "softDeleteDocument documentId caller =
     andThen (findActiveOwnedDocument documentId (rq_orgId caller)) (\<lambda>document.
     andThen (reading new_Date) (\<lambda>now. save_document (document\<lparr>do_deletedAt := Some now\<rparr>)))"

text \<open>A \<open>null\<close> in a \<open>find\<close> condition of TypeORM is no condition: the list is not restricted to \<open>deletedAt: null\<close>.\<close>

definition listWorkflowDocuments :: "string \<Rightarrow> RequestUser \<Rightarrow> json list service" where
  "listWorkflowDocuments workflowId caller =
     andThen (findWorkflowInOrgOrThrow workflowId (rq_orgId caller) ''Workflow not found.'') (\<lambda>_.
     reading (\<lambda>w. map (\<lambda>d. toDocumentResponse d None)
       (sort_desc do_createdAt (filter (\<lambda>d. do_workflowId d = Some workflowId) (documentRows w)))))"

definition getExtractedText :: "string \<Rightarrow> RequestUser \<Rightarrow> json service" where
  "getExtractedText documentId caller =
     andThen (findActiveOwnedDocument documentId (rq_orgId caller)) (\<lambda>document. ret (toExtractedTextResponse document))"

definition extracted_state :: "Document \<Rightarrow> json" where
  "extracted_state d =
     JObj [(''extracted_text'', json_of_option JStr (do_extractedText d)),
       (''preprocessing_confidence'', json_of_option JNum (do_preprocessingConfidence d))]"

definition updateExtractedText :: "string \<Rightarrow> string \<Rightarrow> RequestUser \<Rightarrow> json service" where
  "updateExtractedText documentId extractedText caller =
     andThen (findActiveOwnedDocument documentId (rq_orgId caller)) (\<lambda>document.
     let saved = document\<lparr>do_extractedText := Some extractedText\<rparr> in
     andThen (save_document saved) (\<lambda>_.
     andThen (audit_log (audit_entry (do_workflowId saved) (Some (rq_id caller)) ActorType.USER ''DOCUMENT_EXTRACTED_TEXT_UPDATED''
       (Some (do_id saved)) (Some (extracted_state document)) (Some (extracted_state saved)))) (\<lambda>_.
     ret (toExtractedTextResponse saved))))"

definition reprocessed_document :: "Document \<Rightarrow> int \<Rightarrow> string \<Rightarrow> time \<Rightarrow> Document" where
  "reprocessed_document d version i now =
     d\<lparr>do_id := i, do_extractedText := None, do_preprocessingConfidence := None, do_docVersion := version,
       do_deletedAt := None, do_createdAt := now, do_archivedAt := None\<rparr>"

definition reprocessDocument :: "Storage \<Rightarrow> string \<Rightarrow> RequestUser \<Rightarrow> json service" where
  "reprocessDocument st documentId caller =
     andThen (findActiveOwnedDocument documentId (rq_orgId caller)) (\<lambda>document.
     andThen (check (truthy (do_sessionId document) \<and> truthy (do_workflowId document))
       (BadRequestException (JStr ''Only workflow session documents can be reprocessed.''))) (\<lambda>_.
     andThen (reading (getNextDocumentVersion (the (do_sessionId document)) (do_filename document))) (\<lambda>version.
     andThen new_id (\<lambda>i.
     andThen (reading (\<lambda>w. reprocessed_document document version i (clock w))) (\<lambda>next_document.
     andThen (insert_document next_document) (\<lambda>_.
     andThen (document_preprocess next_document) (\<lambda>_.
     andThen (createPresignedUrl (st_presign st) (st_bucket st) (do_storageUrl next_document)) (\<lambda>presignedUrl.
     ret (toDocumentResponse next_document (Some presignedUrl))))))))))"

end
