(* ===== verification/Documents_Correct.thy ===== *)
theory Documents_Correct
  imports Documents
begin

text \<open>
  Documents: the version numbers of a file in a session and the limit on the size of a session, for every sequence of
  requests and preprocessing results; the storage service after a failed start; uploads step by step.
\<close>

section \<open>Commands\<close>

datatype DocumentCommand =
    Upload UploadDocumentDto "UploadedFile option"
  | SoftDelete string
  | UpdateText string string
  | Reprocess string
  | Preprocessed json

fun perform_document :: "Storage \<Rightarrow> DocumentCommand \<Rightarrow> RequestUser \<Rightarrow> unit service" where
  "perform_document st (Upload dto file) caller = forget (uploadDocument st dto file caller)"
| "perform_document st (SoftDelete i) caller = softDeleteDocument i caller"
| "perform_document st (UpdateText i t) caller = forget (updateExtractedText i t caller)"
| "perform_document st (Reprocess i) caller = forget (reprocessDocument st i caller)"
| "perform_document st (Preprocessed p) caller = handlePreprocessResult p"

section \<open>Versions and sizes\<close>

text \<open>What the invariant talks about: id, session, file name, version and size of each row.\<close>

definition doc_key :: "Document \<Rightarrow> string \<times> string option \<times> string \<times> int \<times> int" where
  "doc_key d = (do_id d, do_sessionId d, do_filename d, do_docVersion d, do_fileSizeBytes d)"

definition versions_of :: "string \<Rightarrow> string \<Rightarrow> Document list \<Rightarrow> int list" where
  "versions_of s f R = map do_docVersion (filter (\<lambda>d. do_sessionId d = Some s \<and> do_filename d = f) R)"

definition bytes_of :: "string \<Rightarrow> Document list \<Rightarrow> int" where
  "bytes_of s R = sum_list (map do_fileSizeBytes (filter (\<lambda>d. do_sessionId d = Some s) R))"

definition from_one :: "int list \<Rightarrow> bool" where
  "from_one vs \<longleftrightarrow> vs = map int [1..<Suc (length vs)]"

lemma from_one_snoc: "from_one vs \<Longrightarrow> from_one (vs @ [int (length vs) + 1])"
  by (auto simp: from_one_def)

definition documents_ok :: "Document list \<Rightarrow> bool" where
  "documents_ok R \<longleftrightarrow> distinct (map do_id R) \<and>
     (\<forall>s f. from_one (versions_of s f R))"

lemma bytes_read: "getSessionDocumentBytes s w = bytes_of s (documentRows w)"
  by (simp add: getSessionDocumentBytes_def session_documents_def bytes_of_def)

lemma next_version_read:
  assumes "documents_ok (documentRows w)"
  shows "getNextDocumentVersion s f w = int (length (versions_of s f (documentRows w))) + 1"
proof -
  let ?ds = "filter (\<lambda>d. do_sessionId d = Some s \<and> do_filename d = f) (documentRows w)"
  let ?n = "length ?ds"
  have n: "length (versions_of s f (documentRows w)) = ?n" by (simp add: versions_of_def)
  have vs: "map do_docVersion ?ds = map int [1..<Suc ?n]"
  proof -
    have "from_one (versions_of s f (documentRows w))" using assms by (simp add: documents_ok_def)
    then show ?thesis unfolding from_one_def versions_of_def length_map .
  qed
  have next_is: "getNextDocumentVersion s f w = (case max_by do_docVersion ?ds of None \<Rightarrow> 0 | Some d \<Rightarrow> do_docVersion d) + 1"
    by (simp add: getNextDocumentVersion_def session_documents_def conj_commute)
  show ?thesis
  proof (cases "max_by do_docVersion ?ds")
    case None
    then show ?thesis using next_is n by simp
  next
    case (Some d)
    then have d: "d \<in> set ?ds" "\<forall>x \<in> set ?ds. do_docVersion x \<le> do_docVersion d"
      using max_by_Some [OF Some] by simp_all
    have versions: "do_docVersion ` set ?ds = int ` {1..?n}"
      using arg_cong [OF vs, of set] by (simp only: set_map set_upt atLeastLessThanSuc_atLeastAtMost)
    have "do_docVersion d \<in> int ` {1..?n}" unfolding versions [symmetric] using d(1) by (rule imageI)
    then have "do_docVersion d \<le> int ?n" "1 \<le> ?n" by auto
    moreover have "int ?n \<in> do_docVersion ` set ?ds" unfolding versions using \<open>1 \<le> ?n\<close> by simp
    then have "int ?n \<le> do_docVersion d" using d(2) by (auto simp del: set_filter)
    ultimately show ?thesis using Some next_is n by simp
  qed
qed

text \<open>The two ways a row changes: the file properties of existing rows stay, and new rows come at the end.\<close>

definition revised :: "Document list \<Rightarrow> Document list \<Rightarrow> bool" where
  "revised R S \<longleftrightarrow> (distinct (map do_id R) \<longrightarrow> map doc_key S = map doc_key R)"

definition added :: "(Document \<Rightarrow> Document list \<Rightarrow> bool) \<Rightarrow> Document list \<Rightarrow> Document list \<Rightarrow> bool" where
  "added P R S \<longleftrightarrow> (\<exists>d s. S = R @ [d] \<and> do_id d \<notin> do_id ` set R \<and> do_sessionId d = Some s \<and>
     (documents_ok R \<longrightarrow> do_docVersion d = int (length (versions_of s (do_filename d) R)) + 1) \<and> P d R)"

lemma keys_determine:
  assumes "map doc_key S = map doc_key R"
  shows "versions_of s f S = versions_of s f R" "bytes_of s S = bytes_of s R" "documents_ok S = documents_ok R"
proof -
  have versions: "versions_of s f T = map (\<lambda>(i, s, f, v, z). v) (filter (\<lambda>(i, t, g, v, z). t = Some s \<and> g = f) (map doc_key T))" for s f T
    by (simp add: versions_of_def filter_map comp_def doc_key_def)
  have bytes: "bytes_of s T = sum_list (map (\<lambda>(i, s, f, v, z). z) (filter (\<lambda>(i, t, g, v, z). t = Some s) (map doc_key T)))" for s T
    by (simp add: bytes_of_def filter_map comp_def doc_key_def)
  have ids: "map do_id T = map fst (map doc_key T)" for T by (simp add: doc_key_def)
  show "versions_of s f S = versions_of s f R" "bytes_of s S = bytes_of s R" unfolding versions bytes assms by simp_all
  have "versions_of s f S = versions_of s f R" for s f unfolding versions assms by simp
  then show "documents_ok S = documents_ok R" unfolding documents_ok_def ids assms by simp
qed

lemma versions_append:
  "versions_of s f (R @ [d]) = versions_of s f R @ (if do_sessionId d = Some s \<and> do_filename d = f then [do_docVersion d] else [])"
  "bytes_of s (R @ [d]) = bytes_of s R + (if do_sessionId d = Some s then do_fileSizeBytes d else 0)"
  by (simp_all add: versions_of_def bytes_of_def)

lemma added_ok: "added P R S \<Longrightarrow> documents_ok R \<Longrightarrow> documents_ok S"
  unfolding added_def documents_ok_def by (auto simp: versions_append intro!: from_one_snoc)

lemma added_versions: "added P R S \<Longrightarrow> prefix (versions_of s f R) (versions_of s f S)"
  by (auto simp: added_def versions_append)

lemma save_row_revised:
  assumes "d \<in> set R" "doc_key e = doc_key d"
  shows "revised R (save_row do_id e R)"
  unfolding revised_def
proof
  assume distinct: "distinct (map do_id R)"
  have e: "do_id e = do_id d" using assms(2) by (simp add: doc_key_def)
  then have "save_row do_id e R = map (\<lambda>r. if do_id r = do_id e then e else r) R"
    using assms(1) by (auto simp: save_row_def image_iff)
  moreover have "doc_key (if do_id r = do_id e then e else r) = doc_key r" if "r \<in> set R" for r
    using distinct assms e that by (auto simp: distinct_map dest: inj_onD)
  ultimately show "map doc_key (save_row do_id e R) = map doc_key R" by simp
qed

section \<open>What the operations write\<close>

lemma writes_found_document:
  "(\<And>d. writes documentRows (\<lambda>R S. d \<in> set R \<longrightarrow> A R S) (k d)) \<Longrightarrow>
     writes documentRows A (andThen (findActiveOwnedDocument i g) k)"
  by (rule writes_fact [where Q = "\<lambda>d R. d \<in> set R"])
    (auto simp: findActiveOwnedDocument_def run_iffs untouched_def orThrow_def split: option.splits dest: find_Some_set)

lemma untouched_document_parts [untouched_intros]:
  "untouched documentRows (document_preprocess d)" "untouched documentRows (emitToSession s e p)"
  "untouched documentRows ensureBucketReady" "untouched documentRows (putObject k c)"
  by (simp_all add: untouched_def document_preprocess_def publishDocumentPreprocess_def nats_publish_def
      emitToSession_def emitToRoom_def writing_def ensureBucketReady_def putObject_def split: option.splits)

lemma untouched_document_storage [untouched_intros]:
  "untouched documentRows (storeDocument p b k c)" "untouched documentRows (createPresignedUrl p b u)"
  unfolding storeDocument_def createPresignedUrl_def by (intro untouched_intros)+

lemma save_document_writes:
  "doc_key e = doc_key (d :: Document) \<Longrightarrow> writes documentRows (\<lambda>R S. d \<in> set R \<longrightarrow> revised R S) (save_document e)"
  by (auto simp: writes_def save_document_def andThen_def constraint_run writing_def intro: save_row_revised)

lemma insert_document_writes:
  "writes documentRows (\<lambda>R S. S = R @ [d] \<and> do_id d \<notin> do_id ` set R) (insert_document d)"
  by (auto simp: writes_def insert_document_def andThen_def constraint_run writing_def)

lemma soft_delete_writes: "writes documentRows revised (softDeleteDocument i caller)"
  unfolding softDeleteDocument_def
  by (intro writes_found_document writes_reading save_document_writes) (simp add: doc_key_def)

lemma update_text_writes: "writes documentRows revised (updateExtractedText i t caller)"
  unfolding updateExtractedText_def Let_def
  by (intro writes_found_document writes_post save_document_writes untouched_intros) (simp_all add: doc_key_def)

lemma preprocessed_writes: "writes documentRows revised (handlePreprocessResult p)"
  unfolding handlePreprocessResult_def
proof (rule writes_fact [where Q = "\<lambda>x R. \<forall>d. x = Some d \<longrightarrow> d \<in> set R"])
  show "\<forall>d. x = Some d \<longrightarrow> d \<in> set (documentRows w)"
    if "reading (\<lambda>w. findOneBy do_id (text_at p ''document_id'') (documentRows w)) w = (Inr x, v)" for w x v
    using that by (auto simp: run_iffs findOneBy_def dest: find_Some_set)
next
  fix x
  show "writes documentRows (\<lambda>R S. (\<forall>d. x = Some d \<longrightarrow> d \<in> set R) \<longrightarrow> revised R S)
    (case x of None \<Rightarrow> ret ()
     | Some d \<Rightarrow> if do_deletedAt d \<noteq> None \<or> do_archivedAt d \<noteq> None then ret ()
         else andThen (save_document (d\<lparr>do_extractedText := text_at p ''extracted_text'',
             do_preprocessingConfidence := number_at p ''preprocessing_confidence''\<rparr>)) (\<lambda>_.
           case do_sessionId d of
             None \<Rightarrow> ret ()
           | Some s \<Rightarrow> unless (s = []) (emitToSession s ''document.ready''
               (JObj [(''type'', JStr ''document.ready''), (''document_id'', JStr (do_id d))]))))"
  proof (cases x)
    case (Some d)
    have "writes documentRows (\<lambda>R S. d \<in> set R \<longrightarrow> revised R S)
      (andThen (save_document (d\<lparr>do_extractedText := text_at p ''extracted_text'',
             do_preprocessingConfidence := number_at p ''preprocessing_confidence''\<rparr>)) (\<lambda>_.
           case do_sessionId d of
             None \<Rightarrow> ret ()
           | Some s \<Rightarrow> unless (s = []) (emitToSession s ''document.ready''
               (JObj [(''type'', JStr ''document.ready''), (''document_id'', JStr (do_id d))]))))"
      by (intro writes_post save_document_writes untouched_intros) (simp add: doc_key_def)
    then show ?thesis using Some by (simp add: writes_untouched untouched_intros)
  qed (simp add: writes_untouched untouched_intros)
qed (intro untouched_intros)

lemma reprocess_writes: "writes documentRows (added (\<lambda>d R. \<exists>e \<in> set R. do_fileSizeBytes d = do_fileSizeBytes e)) (reprocessDocument st i caller)"
  unfolding reprocessDocument_def
proof (intro writes_found_document writes_check writes_fact [where f = documentRows and m = "reading (getNextDocumentVersion s f)" and
      Q = "\<lambda>n R. documents_ok R \<longrightarrow> n = int (length (versions_of s f R)) + 1" for s f]
      writes_pre [where m = new_id] writes_reading writes_post)
  fix d :: Document and n :: int and x :: string and w :: world
  assume "truthy (do_sessionId d) \<and> truthy (do_workflowId d)"
  then have s: "do_sessionId d = Some (the (do_sessionId d))" by (cases "do_sessionId d") simp_all
  show "writes documentRows (\<lambda>R S. (documents_ok R \<longrightarrow> n = int (length (versions_of (the (do_sessionId d)) (do_filename d) R)) + 1) \<longrightarrow>
      d \<in> set R \<longrightarrow> added (\<lambda>d R. \<exists>e \<in> set R. do_fileSizeBytes d = do_fileSizeBytes e) R S)
    (insert_document (reprocessed_document d n x (clock w)))"
    by (rule writes_mono [OF insert_document_writes])
      (use s in \<open>auto simp: added_def reprocessed_document_def\<close>)
qed (auto simp: run_iffs next_version_read intro: untouched_intros)

definition fits :: "Document \<Rightarrow> Document list \<Rightarrow> bool" where
  "fits d R \<longleftrightarrow> (\<forall>s. do_sessionId d = Some s \<longrightarrow>
     bytes_of s R + do_fileSizeBytes d \<le> MAX_SESSION_DOCUMENT_TOTAL_SIZE_BYTES)"

lemma store_upload_writes: "writes documentRows (added fits) (store_upload st session doc mime caller)"
  unfolding store_upload_def assertSessionDocumentSizeWithinLimit_def
proof (rule writes_fact [where Q = "\<lambda>b R. b = bytes_of (se_id session) R"], goal_cases)
  case (3 b)
  let ?vs = "versions_of (se_id session) (uf_originalname doc)"
  show ?case
  proof (rule writes_check, rule writes_fact [where Q = "\<lambda>n R. documents_ok R \<longrightarrow> n = int (length (?vs R)) + 1"], goal_cases)
    case (3 n)
    have "writes documentRows (\<lambda>R S. (documents_ok R \<longrightarrow> n = int (length (?vs R)) + 1) \<longrightarrow>
        b = bytes_of (se_id session) R \<longrightarrow> added fits R S) (insert_document (uploaded_document session doc mime url n i t))" for url i t
      by (rule writes_mono [OF insert_document_writes]) (use 3 in \<open>auto simp: added_def fits_def uploaded_document_def\<close>)
    then show ?case
      unfolding case_prod_beta
      by (intro writes_pre [where m = new_id] writes_pre [where m = "storeDocument p q k c" for p q k c]
          writes_reading writes_post untouched_intros) simp_all
  qed (auto simp: run_iffs next_version_read intro: untouched_intros)
qed (auto simp: run_iffs bytes_read intro: untouched_intros)

lemma upload_writes: "writes documentRows (added fits) (uploadDocument st dto upload caller)"
  unfolding uploadDocument_def assertDocumentFileSizeWithinLimit_def
  by (rule writes_pre, intro untouched_intros, rule writes_check, rule writes_liftSum, rule writes_pre,
    intro untouched_intros, rule writes_check, rule store_upload_writes)

section \<open>The invariant\<close>

lemma perform_writes:
  "\<exists>A. writes documentRows A (perform_document st c caller) \<and>
     (A = revised \<or> A = added fits \<or>
      (\<exists>i. c = Reprocess i) \<and> A = added (\<lambda>d R. \<exists>e \<in> set R. do_fileSizeBytes d = do_fileSizeBytes e))"
proof (cases c)
  case (Upload dto doc)
  then show ?thesis using upload_writes [of st dto doc caller] by (auto simp: writes_def)
next
  case (UpdateText i t)
  then show ?thesis using update_text_writes [of i t caller] by (auto simp: writes_def)
next
  case (Reprocess i)
  then show ?thesis using reprocess_writes [of st i caller] by (auto simp: writes_def)
qed (use soft_delete_writes preprocessed_writes in auto)

text \<open>C31. The documents stay in order under every upload, deletion, correction, reprocessing and preprocessing result,
whether it succeeds or fails: ids are distinct, the versions of a file in a session are numbered 1, 2, 3, ... in the
order they were added, earlier ones stay, and only reprocessing can take a session beyond 200 MB (or beyond what it
held before).\<close>

theorem documents_invariant:
  assumes ok: "documents_ok (documentRows w)" and run: "perform_document st c caller w = (r, v)"
  shows "documents_ok (documentRows v) \<and>
    (\<forall>s f. prefix (versions_of s f (documentRows w)) (versions_of s f (documentRows v))) \<and>
    ((\<forall>i. c \<noteq> Reprocess i) \<longrightarrow>
      (\<forall>s. getSessionDocumentBytes s v \<le> max (getSessionDocumentBytes s w) MAX_SESSION_DOCUMENT_TOTAL_SIZE_BYTES))"
proof -
  obtain A where A: "writes documentRows A (perform_document st c caller)"
    "A = revised \<or> A = added fits \<or>
      (\<exists>i. c = Reprocess i) \<and> A = added (\<lambda>d R. \<exists>e \<in> set R. do_fileSizeBytes d = do_fileSizeBytes e)"
    using perform_writes by blast
  then consider "documentRows v = documentRows w" | "revised (documentRows w) (documentRows v)"
    | "added fits (documentRows w) (documentRows v)"
    | i P where "c = Reprocess i" "added P (documentRows w) (documentRows v)"
    using writesD [OF A(1) run] by blast
  then show ?thesis
  proof cases
    case 2
    then have "map doc_key (documentRows v) = map doc_key (documentRows w)"
      using ok by (simp add: revised_def documents_ok_def)
    note same = keys_determine [OF this]
    show ?thesis unfolding bytes_read same using ok by simp
  next
    case 3
    then show ?thesis using added_ok [OF 3 ok] added_versions [OF 3] unfolding bytes_read
      by (auto simp: added_def fits_def versions_append)
  next
    case 4
    then show ?thesis using added_ok [OF 4(2) ok] added_versions [OF 4(2)] by simp
  qed (use ok in \<open>auto simp: bytes_read\<close>)
qed

definition stored_document :: Document where
  "stored_document = \<lparr>do_id = ''d1'', do_workflowId = Some ''w1'', do_sessionId = Some ''s1'', do_filename = ''a.txt'',
     do_fileType = ''text/plain'', do_storageUrl = ''minio://docs/k'', do_fileSizeBytes = 200 * 1024 * 1024,
     do_extractedText = None, do_preprocessingConfidence = None, do_docVersion = 1, do_deletedAt = None,
     do_createdAt = 0, do_archivedAt = None\<rparr>"

definition full_world :: world where
  "full_world = sample_world\<lparr>documentRows := [stored_document]\<rparr>"

definition sample_storage :: Storage where
  "sample_storage = \<lparr>st_bucket = ''docs'', st_presign = (\<lambda>k. ''https://minio/docs/'' @ k), st_detect = (\<lambda>_. None)\<rparr>"

definition sample_caller :: RequestUser where
  "sample_caller = \<lparr>rq_id = ''u1'', rq_orgId = ''o1'', rq_role = ''process_owner''\<rparr>"

lemma full_world_ok: "documents_ok (documentRows full_world)"
  by (simp add: documents_ok_def full_world_def stored_document_def versions_of_def from_one_def)

theorem documents_invariant_witness:
  "documents_ok (documentRows (snd (perform_document sample_storage (SoftDelete ''d1'') sample_caller full_world)))"
  using documents_invariant [OF full_world_ok, of sample_storage "SoftDelete ''d1''" sample_caller]
  by (metis prod.collapse)

lemmas full_world_run = full_world_def stored_document_def sample_defs sample_caller_def sample_storage_def run_simps
  findActiveOwnedDocument_def workflowExists_def sessionExists_def

text \<open>Reprocessing takes a full session to 400 MB: the new row counts the stored file again.\<close>

lemma reprocessing_counts_again:
  "getSessionDocumentBytes ''s1'' (snd (perform_document sample_storage (Reprocess ''d1'') sample_caller full_world)) =
     2 * MAX_SESSION_DOCUMENT_TOTAL_SIZE_BYTES"
  by (simp add: full_world_run reprocessDocument_def insert_document_def reprocessed_document_def document_preprocess_def
      publishDocumentPreprocess_def nats_publish_def createPresignedUrl_def ensureBucketReady_def
      extractObjectKeyFromStorageUrl_def js_startsWith_def bytes_read bytes_of_def forget_def
      MAX_SESSION_DOCUMENT_TOTAL_SIZE_BYTES_def)

text \<open>A deleted document is still listed among the documents of its workflow.\<close>

lemma deleted_document_listed:
  "let v = snd (softDeleteDocument ''d1'' sample_caller full_world)
   in do_deletedAt (hd (documentRows v)) \<noteq> None \<and>
      fst (listWorkflowDocuments ''w1'' sample_caller v) = Inr [toDocumentResponse (hd (documentRows v)) None]"
  by (simp add: full_world_run softDeleteDocument_def save_document_def save_row_def listWorkflowDocuments_def
      findWorkflowInOrgOrThrow_def sort_desc_def new_Date_def)

section \<open>A failed start of the storage service\<close>

definition never :: "(world \<Rightarrow> bool) \<Rightarrow> 'a service \<Rightarrow> bool" where
  "never P m \<longleftrightarrow> (\<forall>w. P w \<longrightarrow> (\<exists>e. fst (m w) = Inl e))"

lemma never_here: "never P m \<Longrightarrow> never P (andThen m k)"
  unfolding never_def andThen_def by (fastforce split: prod.splits sum.splits)

lemma never_later: "keeps P m \<Longrightarrow> (\<And>x. never P (k x)) \<Longrightarrow> never P (andThen m k)"
  unfolding never_def keeps_def andThen_def by (fastforce split: prod.splits sum.splits)

definition broken :: "world \<Rightarrow> bool" where
  "broken w \<longleftrightarrow> bucketReady w = Some False"

lemma never_ensure: "never broken ensureBucketReady"
  by (simp add: never_def broken_def ensureBucketReady_def)

lemma keeps_ensure: "keeps broken ensureBucketReady"
  by (simp add: keeps_def broken_def ensureBucketReady_def)

lemma keeps_broken: "untouched bucketReady m \<Longrightarrow> keeps broken m"
  by (simp add: untouched_def keeps_def broken_def)

lemma untouched_ready [untouched_intros]:
  "untouched bucketReady (findActiveOwnedDocument i g)" "untouched bucketReady (save_document d)"
  "untouched bucketReady (insert_document d)" "untouched bucketReady (document_preprocess d)"
  "untouched bucketReady (emitToSession s e p)"
  by (simp_all add: untouched_def findActiveOwnedDocument_def orThrow_def save_document_def insert_document_def andThen_def
      constraint_run writing_def document_preprocess_def publishDocumentPreprocess_def nats_publish_def
      emitToSession_def emitToRoom_def split: option.splits)

lemma never_store_upload: "never broken (store_upload st session doc mime caller)"
  unfolding store_upload_def assertSessionDocumentSizeWithinLimit_def storeDocument_def
  by (rule never_later, rule keeps_broken, intro untouched_intros)+
    (simp_all add: never_here never_ensure)

lemmas broken_intros = keeps_andThen keeps_ensure keeps_ret keeps_reading keeps_check keeps_orThrow keeps_liftSum
  keeps_broken [OF untouched_lookup]

lemma keeps_store_upload: "keeps broken (store_upload st session doc mime caller)"
  unfolding store_upload_def assertSessionDocumentSizeWithinLimit_def storeDocument_def case_prod_beta
  by (intro broken_intros keeps_broken [OF untouched_new_id] keeps_broken [OF untouched_ready(3)]
      keeps_broken [OF untouched_ready(4)]) (simp_all add: putObject_def keeps_def broken_def)

lemma keeps_broken_documents: "keeps broken (perform_document st c caller)"
proof (cases c)
  case (Upload dto doc)
  then show ?thesis
    by (simp add: uploadDocument_def forget_def assertDocumentFileSizeWithinLimit_def) (intro broken_intros keeps_store_upload)
next
  case (SoftDelete i)
  then show ?thesis
    by (simp add: softDeleteDocument_def) (intro keeps_broken untouched_intros)
next
  case (UpdateText i t)
  have "untouched bucketReady (updateExtractedText i t caller)"
    unfolding updateExtractedText_def Let_def by (intro untouched_intros) simp_all
  then show ?thesis using UpdateText by (simp add: forget_def keeps_andThen keeps_ret keeps_broken)
next
  case (Reprocess i)
  then show ?thesis
    by (simp add: reprocessDocument_def forget_def createPresignedUrl_def)
      (intro broken_intros keeps_broken [OF untouched_new_id] keeps_broken [OF untouched_ready(1)]
        keeps_broken [OF untouched_ready(3)] keeps_broken [OF untouched_ready(4)]; simp)
next
  case (Preprocessed p)
  then show ?thesis
    by (simp add: handlePreprocessResult_def) (intro keeps_broken untouched_intros)
qed

lemma never_presign: "never broken (createPresignedUrl p b u)"
  unfolding createPresignedUrl_def by (rule never_here) (rule never_ensure)

lemma never_broken:
  "never broken (uploadDocument st dto doc caller)" "never broken (getDocument st i caller)"
  "never broken (reprocessDocument st i caller)"
proof -
  show "never broken (uploadDocument st dto doc caller)"
    unfolding uploadDocument_def assertDocumentFileSizeWithinLimit_def
    by (rule never_later, rule keeps_broken, intro untouched_intros)+ (rule never_store_upload)
  show "never broken (getDocument st i caller)"
    unfolding getDocument_def
    by (rule never_later, rule keeps_broken, intro untouched_intros) (simp add: never_here never_presign)
  show "never broken (reprocessDocument st i caller)"
    unfolding reprocessDocument_def
    by (rule never_later, rule keeps_broken, intro untouched_intros, (simp; fail)?)+ (simp_all add: never_here never_presign)
qed

text \<open>The service runs on: requests and preprocessing results in any order, while the store comes and goes.\<close>

fun later :: "Storage \<Rightarrow> (bool \<times> DocumentCommand \<times> RequestUser) list \<Rightarrow> world \<Rightarrow> world" where
  "later st [] w = w"
| "later st ((up, c, caller) # cs) w = later st cs (snd (perform_document st c caller (w\<lparr>storageUp := up\<rparr>)))"

lemma later_broken: "broken w \<Longrightarrow> broken (later st cs w)"
proof (induction cs arbitrary: w)
  case (Cons a cs)
  obtain up c caller where a: "a = (up, c, caller)" by (cases a)
  have "broken (w\<lparr>storageUp := up\<rparr>)" using Cons.prems by (simp add: broken_def)
  then have "broken (snd (perform_document st c caller (w\<lparr>storageUp := up\<rparr>)))"
    using keeps_broken_documents by (simp add: keeps_def)
  then show ?case using Cons.IH a by simp
qed simp

text \<open>C32. If the object store was unreachable when it was needed first, no document is uploaded, opened or reprocessed again
until the process restarts, whatever happens in between and even after the store has come back.\<close>

theorem storage_failure_sticks:
  assumes "bucketReady w = None" "\<not> storageUp w" "snd (ensureBucketReady w) = v"
  shows "\<exists>e f g. fst (uploadDocument st dto doc caller (later st cs v)) = Inl e \<and>
    fst (getDocument st i caller (later st cs v)) = Inl f \<and> fst (reprocessDocument st i caller (later st cs v)) = Inl g"
proof -
  have "broken v" using assms by (auto simp: ensureBucketReady_def broken_def)
  then have "broken (later st cs v)" by (rule later_broken)
  then show ?thesis using never_broken unfolding never_def by metis
qed

theorem storage_failure_sticks_witness:
  "\<exists>e. fst (getDocument sample_storage ''d1'' sample_caller
     (later sample_storage [(True, SoftDelete ''d2'', sample_caller)] (full_world\<lparr>storageUp := False, bucketReady := Some False\<rparr>))) = Inl e"
proof -
  have v: "snd (ensureBucketReady (full_world\<lparr>storageUp := False\<rparr>)) = full_world\<lparr>storageUp := False, bucketReady := Some False\<rparr>"
    by (simp add: ensureBucketReady_def full_world_def sample_defs)
  have "bucketReady (full_world\<lparr>storageUp := False\<rparr>) = None" "\<not> storageUp (full_world\<lparr>storageUp := False\<rparr>)"
    by (simp_all add: full_world_def sample_defs)
  from storage_failure_sticks [OF this v, where st = sample_storage and i = "''d1''" and caller = sample_caller]
  show ?thesis by blast
qed

section \<open>Text files\<close>

lemma utf8_clean_append: "utf8_clean p \<Longrightarrow> utf8_clean (p @ xs) = utf8_clean xs"
proof (induction p rule: utf8_clean.induct)
  case (2 a ys)
  consider "a < 128" | "194 \<le> a" "a \<le> 223" | "224 \<le> a" "a \<le> 239" | "240 \<le> a" "a \<le> 244"
    using 2(5) by (simp split: if_splits)
  then show ?case
  proof cases
    case 1
    then show ?thesis using 2(1,5) by simp
  next
    case c: 2
    obtain b zs where ys: "ys = b # zs" using c 2(5) by (cases ys) simp_all
    have "\<not> a < 128" "194 \<le> a \<and> a \<le> 223" using c by simp_all
    then show ?thesis using 2(2) [OF _ _ ys] 2(5) by (simp add: ys)
  next
    case c: 3
    obtain b d zs where ys: "ys = b # d # zs" using c 2(5) by (cases ys; cases "tl ys") simp_all
    have "\<not> a < 128" "\<not> (194 \<le> a \<and> a \<le> 223)" "224 \<le> a \<and> a \<le> 239" using c by simp_all
    then show ?thesis using 2(3) [OF _ _ _ ys refl] 2(5) by (simp add: ys)
  next
    case c: 4
    obtain b d e zs where ys: "ys = b # d # e # zs" using c 2(5) by (cases ys; cases "tl ys"; cases "tl (tl ys)") simp_all
    have "\<not> a < 128" "\<not> (194 \<le> a \<and> a \<le> 223)" "\<not> (224 \<le> a \<and> a \<le> 239)" "240 \<le> a \<and> a \<le> 244" using c by simp_all
    then show ?thesis using 2(4) [OF _ _ _ _ ys refl refl] 2(5) by (simp add: ys)
  qed
qed simp

text \<open>The text check looks at 4096 bytes. A well-formed text file with a two-byte character across that boundary is
  refused, however well-formed it is.\<close>

lemma cut_character_refused:
  assumes "utf8_clean p" "length p = 4095" "194 \<le> a" "a \<le> 223" "utf8_tail b" "utf8_clean q"
  shows "utf8_clean (p @ a # b # q) \<and> \<not> bufferLooksLikeUtf8Text (p @ a # b # q)"
proof -
  have "take 4096 (p @ a # b # q) = p @ [a]" using assms(2) by simp
  moreover have "\<not> utf8_clean (p @ [a])" unfolding utf8_clean_append [OF assms(1)] using assms(3,4) by simp
  ultimately show ?thesis
    using assms by (simp add: utf8_clean_append bufferLooksLikeUtf8Text_def Let_def)
qed

lemma cut_character_upload_refused:
  assumes "getMimeTypeFromFilename f = Some mime" "mime = ''text/plain'' \<or> mime = ''text/markdown''" "detect buffer = None"
    "buffer = p @ a # b # q" "utf8_clean p" "length p = 4095" "194 \<le> a" "a \<le> 223" "utf8_tail b" "utf8_clean q"
  shows "\<exists>e. validateDocumentMimeType detect f buffer = Inl e \<and> getStatus e = 415"
  using assms cut_character_refused [of p a b q] by (auto simp: validateDocumentMimeType_def Let_def)

end
