(* ===== verification/Comments.thy ===== *)
theory Comments
  imports Sessions Workflows
begin

text \<open>
  Review comments and element approval: \<open>src/modules/comments/services/comments.service.ts\<close>.

  The percentage of the review progress is computed in double arithmetic, which is a parameter (\<open>percent\<close>). The ids of
  a bulk approval are the declared list of strings. \<open>findOne\<close> refuses a \<open>relations\<close> entry that is no relation of the
  entity; a session has none.
\<close>

record CreateCommentDto =
  cc_element_id :: "string option"
  cc_type :: CommentType
  cc_content :: string

record ListCommentsQueryDto =
  lc_resolved :: "string option"
  lc_type :: "CommentType option"
  lc_element_id :: "string option"

section \<open>Helpers\<close>

definition canUserCreateComment :: "string \<Rightarrow> bool" where
  "canUserCreateComment role \<longleftrightarrow>
     role \<in> user_role_str ` {UserRole.REVIEWER, UserRole.BUSINESS_ANALYST, UserRole.PROCESS_OWNER, UserRole.ADMIN}"

definition canUserInjectToAi :: "string \<Rightarrow> bool" where
  "canUserInjectToAi role \<longleftrightarrow>
     role \<in> user_role_str ` {UserRole.BUSINESS_ANALYST, UserRole.PROCESS_OWNER, UserRole.ADMIN}"

definition logUserAudit ::
  "string \<Rightarrow> string \<Rightarrow> string \<Rightarrow> string option \<Rightarrow> json option \<Rightarrow> json option \<Rightarrow> AuditLog service" where
  "logUserAudit workflowId actorId eventType elementId before after =
     audit_log (audit_entry (Some workflowId) (Some actorId) ActorType.USER eventType elementId before after)"

definition findCommentWithWorkflow :: "string \<Rightarrow> string \<Rightarrow> Comment service" where
  "findCommentWithWorkflow commentId orgId =
     andThen (\<lambda>w. orThrow (find_row co_id commentId (commentRows w)) (NotFoundException (JStr ''Comment not found'')) w) (\<lambda>comment.
     andThen (findWorkflowInOrgOrThrow (co_workflowId comment) orgId ''Comment not found in organization'') (\<lambda>_.
     ret comment))"

definition insert_comment :: "Comment \<Rightarrow> unit service" where
  "insert_comment c w =
     andThen (constraint (co_id c \<notin> co_id ` set (commentRows w)) ''comment_pkey'') (\<lambda>_. save_comment c) w"

definition assertAuthorOrAdmin :: "Comment \<Rightarrow> RequestUser \<Rightarrow> string \<Rightarrow> unit service" where
  "assertAuthorOrAdmin comment caller message =
     check (co_authorId comment = rq_id caller \<or> rq_role caller = user_role_str UserRole.ADMIN)
       (ForbiddenException (JStr message))"

definition new_comment :: "string \<Rightarrow> CreateCommentDto \<Rightarrow> string \<Rightarrow> string option \<Rightarrow> string \<Rightarrow> time \<Rightarrow> Comment" where
  "new_comment workflowId dto authorId parent i now =
     \<lparr>co_id = i, co_workflowId = workflowId, co_elementId = cc_element_id dto, co_authorId = authorId,
      co_type = cc_type dto, co_content = cc_content dto, co_resolved = False, co_resolvedAt = None,
      co_resolvedBy = None, co_resolutionNote = None, co_parentId = parent, co_assignedTo = None, co_createdAt = now\<rparr>"

section \<open>Comments\<close>

definition createComment :: "string \<Rightarrow> CreateCommentDto \<Rightarrow> RequestUser \<Rightarrow> Comment service" where
  "createComment workflowId dto caller =
     andThen (findWorkflowInOrgOrThrow workflowId (rq_orgId caller) ''Workflow not found'') (\<lambda>_.
     andThen (check (canUserCreateComment (rq_role caller)) (UnauthorizedException (JStr ''User role cannot create comments''))) (\<lambda>_.
     andThen new_id (\<lambda>i.
     andThen (reading (\<lambda>w. new_comment workflowId dto (rq_id caller) None i (clock w))) (\<lambda>saved.
     andThen (insert_comment saved) (\<lambda>_.
     andThen (logUserAudit workflowId (rq_id caller) ''COMMENT_CREATED'' (cc_element_id dto) None
       (Some (JObj [(''comment_id'', JStr (co_id saved)), (''type'', JStr (comment_type_str (cc_type dto)))]))) (\<lambda>_.
     ret saved))))))"

definition listComments :: "string \<Rightarrow> string \<Rightarrow> ListCommentsQueryDto \<Rightarrow> (Comment list \<times> nat) service" where
  "listComments workflowId orgId query =
     andThen (findWorkflowInOrgOrThrow workflowId orgId ''Workflow not found'') (\<lambda>_.
     reading (\<lambda>w. let comments = sort_key co_createdAt (filter (\<lambda>c.
         co_workflowId c = workflowId \<and>
         (\<not> truthy (lc_resolved query) \<or> co_resolved c = (lc_resolved query = Some ''true'')) \<and>
         optionally (\<lambda>t. co_type c = t) (lc_type query) \<and>
         (\<not> truthy (lc_element_id query) \<or> co_elementId c = lc_element_id query)) (commentRows w))
       in (comments, length comments)))"

definition updateComment :: "string \<Rightarrow> string \<Rightarrow> RequestUser \<Rightarrow> Comment service" where
  "updateComment commentId content caller =
     andThen (findCommentWithWorkflow commentId (rq_orgId caller)) (\<lambda>comment.
     andThen (assertAuthorOrAdmin comment caller ''Only comment author or admin can edit'') (\<lambda>_.
     let saved = comment\<lparr>co_content := content\<rparr> in
     andThen (save_comment saved) (\<lambda>_.
     andThen (logUserAudit (co_workflowId comment) (rq_id caller) ''COMMENT_UPDATED'' (co_elementId comment)
       (Some (JObj [(''content'', JStr (co_content comment))])) (Some (JObj [(''content'', JStr content)]))) (\<lambda>_.
     ret saved))))"

definition resolved_by :: "string \<Rightarrow> string \<Rightarrow> time \<Rightarrow> Comment \<Rightarrow> Comment" where
  "resolved_by userId note now c =
     c\<lparr>co_resolved := True, co_resolvedAt := Some now, co_resolvedBy := Some userId, co_resolutionNote := Some note\<rparr>"

definition deleteComment :: "string \<Rightarrow> RequestUser \<Rightarrow> unit service" where
  "deleteComment commentId caller =
     andThen (findCommentWithWorkflow commentId (rq_orgId caller)) (\<lambda>comment.
     andThen (assertAuthorOrAdmin comment caller ''Only comment author or admin can delete'') (\<lambda>_.
     andThen (reading new_Date) (\<lambda>now.
     andThen (save_comment (resolved_by (rq_id caller) ''deleted'' now comment)) (\<lambda>_.
     andThen (logUserAudit (co_workflowId comment) (rq_id caller) ''COMMENT_DELETED'' (co_elementId comment) None None) (\<lambda>_.
     ret ())))))"

definition createReply :: "string \<Rightarrow> string \<Rightarrow> RequestUser \<Rightarrow> Comment service" where
  "createReply commentId content caller =
     andThen (findCommentWithWorkflow commentId (rq_orgId caller)) (\<lambda>parent.
     andThen (check (canUserCreateComment (rq_role caller)) (UnauthorizedException (JStr ''User role cannot create comments''))) (\<lambda>_.
     andThen new_id (\<lambda>i.
     andThen (reading (\<lambda>w. new_comment (co_workflowId parent)
       \<lparr>cc_element_id = co_elementId parent, cc_type = co_type parent, cc_content = content\<rparr>
       (rq_id caller) (Some (co_id parent)) i (clock w))) (\<lambda>saved.
     andThen (insert_comment saved) (\<lambda>_.
     andThen (logUserAudit (co_workflowId parent) (rq_id caller) ''COMMENT_REPLY_CREATED'' (co_elementId parent)
       (Some (JObj [(''parent_comment_id'', JStr (co_id parent))])) (Some (JObj [(''reply_id'', JStr (co_id saved))]))) (\<lambda>_.
     ret saved))))))"

definition resolveComment :: "string \<Rightarrow> string \<Rightarrow> RequestUser \<Rightarrow> Comment service" where
  "resolveComment commentId note caller =
     andThen (findCommentWithWorkflow commentId (rq_orgId caller)) (\<lambda>comment.
     andThen (check (js_trim note \<noteq> []) (ForbiddenException (JStr ''Resolution note is required''))) (\<lambda>_.
     andThen (reading new_Date) (\<lambda>now.
     let saved = resolved_by (rq_id caller) note now comment in
     andThen (save_comment saved) (\<lambda>_.
     andThen (logUserAudit (co_workflowId comment) (rq_id caller) ''COMMENT_RESOLVED'' (co_elementId comment)
       (Some (JObj [(''resolved'', JBool False)]))
       (Some (JObj [(''resolved'', JBool True), (''resolution_note'', JStr note)]))) (\<lambda>_.
     ret saved)))))"

definition assignComment :: "string \<Rightarrow> string \<Rightarrow> RequestUser \<Rightarrow> Comment service" where
  "assignComment commentId assigneeId caller =
     andThen (findCommentWithWorkflow commentId (rq_orgId caller)) (\<lambda>comment.
     andThen (check (co_authorId comment = rq_id caller \<or>
         rq_role caller \<in> user_role_str ` {UserRole.ADMIN, UserRole.PROCESS_OWNER})
       (ForbiddenException (JStr ''Only comment author, admin, or process owner can assign''))) (\<lambda>_.
     andThen (\<lambda>w. orThrow (find (\<lambda>u. us_id u = assigneeId \<and> us_orgId u = rq_orgId caller) (userRows w))
       (NotFoundException (JStr ''Assignee not found in organization'')) w) (\<lambda>_.
     let saved = comment\<lparr>co_assignedTo := Some assigneeId\<rparr> in
     andThen (save_comment saved) (\<lambda>_.
     andThen (logUserAudit (co_workflowId comment) (rq_id caller) ''COMMENT_ASSIGNED'' (co_elementId comment)
       (Some (JObj [(''assigned_to'', JNull)])) (Some (JObj [(''assigned_to'', JStr assigneeId)]))) (\<lambda>_.
     andThen (emitToSession assigneeId ''notification.review_request''
       (JObj [(''comment_id'', JStr commentId), (''workflow_id'', JStr (co_workflowId comment))])) (\<lambda>_.
     ret saved))))))"

definition getAssignedToMe :: "string \<Rightarrow> string option \<Rightarrow> world \<Rightarrow> Comment list" where
  "getAssignedToMe userId resolved w =
     sort_key co_createdAt (filter (\<lambda>c. co_assignedTo c = Some userId \<and>
       (\<not> truthy resolved \<or> co_resolved c = (resolved = Some ''true''))) (commentRows w))"

section \<open>Injecting a comment into the pipeline\<close>

text \<open>The relations of the session entity; TypeORM throws for any other name.\<close>

definition session_relations :: "string list" where
  "session_relations = []"

definition check_relations :: "string list \<Rightarrow> string list \<Rightarrow> unit service" where
  "check_relations known asked =
     (case find (\<lambda>r. r \<notin> set known) asked of
        None \<Rightarrow> ret ()
      | Some r \<Rightarrow> throw (PlainError (''Relation '' @ [CHR 0x22] @ r @ [CHR 0x22] @ '' was not found'')))"

definition session_for_comment :: "Comment \<Rightarrow> Session service" where
  "session_for_comment comment =
     andThen (check_relations session_relations [''userId'']) (\<lambda>_.
     andThen (reading (\<lambda>w. find (\<lambda>s. se_workflowId s = co_workflowId comment) (sessionRows w))) (\<lambda>found.
     case found of
       Some session \<Rightarrow> ret session
     | None \<Rightarrow>
         andThen (\<lambda>w. orThrow (find_row wf_id (co_workflowId comment) (workflowRows w)) (NotFoundException (JStr ''Workflow not found'')) w) (\<lambda>workflow.
         andThen new_id (\<lambda>i.
         andThen (reading (\<lambda>w. new_session \<lparr>cs_workflowId = co_workflowId comment, cs_mode = SessionMode.AUTO\<rparr>
           \<lparr>rq_id = wf_ownerId workflow, rq_orgId = wf_orgId workflow, rq_role = []\<rparr> i (clock w))) (\<lambda>session.
         andThen (insert_session session) (\<lambda>_. ret session))))))"

definition comment_input :: "Comment \<Rightarrow> json" where
  "comment_input comment =
     JObj [(''comment_text'', JStr (co_content comment)), (''target_element_id'', json_of_option JStr (co_elementId comment))]"

definition injected_pipeline :: "Session \<Rightarrow> Comment \<Rightarrow> string \<Rightarrow> string \<Rightarrow> time \<Rightarrow> PipelineExecution" where
  "injected_pipeline session comment userId i now =
     new_pipeline \<lparr>pt_sessionId = se_id session, pt_taskType = PipelineTaskType.SCOPED_REPROCESS, pt_mode = SessionMode.AUTO,
       pt_input = comment_input comment, pt_triggeredBy = Some userId, pt_resumeFromCheckpoint = None\<rparr> i now"

definition injected_task :: "Session \<Rightarrow> Comment \<Rightarrow> RequestUser \<Rightarrow> string \<Rightarrow> json" where
  "injected_task session comment caller pipelineId =
     JObj [(''correlation_id'', JStr (''comment-'' @ co_id comment)), (''session_id'', JStr (se_id session)),
       (''org_id'', JStr (rq_orgId caller)), (''task_type'', JStr (pipeline_task_type_str PipelineTaskType.SCOPED_REPROCESS)),
       (''mode'', JStr (session_mode_str SessionMode.AUTO)), (''input'', comment_input comment),
       (''pipeline_execution_id'', JStr pipelineId),
       (''scoped_target'', JObj [(''comment_id'', JStr (co_id comment)), (''element_id'', json_of_option JStr (co_elementId comment))]),
       (''triggered_by'', JStr (rq_id caller))]"

definition injection_note :: "Session \<Rightarrow> Comment \<Rightarrow> string \<Rightarrow> string \<Rightarrow> time \<Rightarrow> Message" where
  "injection_note session comment pipelineId i now =
     \<lparr>me_id = i, me_sessionId = se_id session, me_role = MessageRole.SYSTEM, me_type = MessageType.SYSTEM_NOTE,
      me_content = ''AI task injected from comment '' @ co_id comment @ '': '' @ co_content comment,
      me_metadata = JObj [(''comment_id'', JStr (co_id comment)), (''task_type'', JStr ''SCOPED_REPROCESS''),
        (''pipeline_execution_id'', JStr pipelineId)],
      me_createdAt = now, me_archivedAt = None\<rparr>"

definition injectToAi :: "string \<Rightarrow> RequestUser \<Rightarrow> json service" where
  "injectToAi commentId caller =
     andThen (findCommentWithWorkflow commentId (rq_orgId caller)) (\<lambda>comment.
     andThen (check (canUserInjectToAi (rq_role caller)) (UnauthorizedException (JStr ''User role cannot inject to AI''))) (\<lambda>_.
     andThen (session_for_comment comment) (\<lambda>session.
     andThen new_id (\<lambda>i.
     andThen (reading (\<lambda>w. injected_pipeline session comment (rq_id caller) i (clock w))) (\<lambda>execution.
     andThen (save_pipeline execution) (\<lambda>_.
     andThen (publishAiTaskNew (''comment-'' @ commentId) i (injected_task session comment caller i)) (\<lambda>_.
     andThen (save_pipeline (execution\<lparr>pe_natsMessageId := Some (''comment-'' @ commentId @ '':ai.tasks.new:'' @ i)\<rparr>)) (\<lambda>_.
     andThen new_id (\<lambda>m.
     andThen (reading (\<lambda>w. injection_note session comment i m (clock w))) (\<lambda>note.
     andThen (insert_message note) (\<lambda>_.
     andThen (logUserAudit (co_workflowId comment) (rq_id caller) ''COMMENT_INJECTED_TO_AI'' (co_elementId comment) None
       (Some (JObj [(''comment_id'', JStr commentId), (''pipeline_execution_id'', JStr i), (''session_id'', JStr (se_id session))]))) (\<lambda>_.
     ret (JObj [(''success'', JBool True), (''pipelineExecutionId'', JStr i)])))))))))))))"

section \<open>Element review\<close>

text \<open>The elements of the latest version: array methods on anything but an array throw, and so does reading a property of
  \<open>null\<close>.\<close>

definition as_array :: "string \<Rightarrow> json \<Rightarrow> error + json list" where
  "as_array method v =
     (case v of
        JArr xs \<Rightarrow> if JNull \<in> set xs then Inl (TypeError ''Cannot read properties of null'') else Inr xs
      | _ \<Rightarrow> Inl (TypeError (method @ '' is not a function'')))"

definition is_true :: "json \<Rightarrow> string \<Rightarrow> bool" where
  "is_true e k \<longleftrightarrow> field e k = Some (JBool True)"

definition getReviewProgress :: "(nat \<Rightarrow> nat \<Rightarrow> int) \<Rightarrow> string \<Rightarrow> string \<Rightarrow> (nat \<times> nat \<times> int) service" where
  "getReviewProgress percent workflowId orgId =
     andThen (findWorkflowInOrgOrThrow workflowId orgId ''Workflow not found'') (\<lambda>_.
     andThen (reading (\<lambda>w. map_option wv_elementsJson (findLatestVersion workflowId w))) (\<lambda>elementsJson.
     andThen (liftSum (if json_truthy elementsJson then as_array ''elements.filter'' (the elementsJson) else Inr [])) (\<lambda>xs.
     let live = filter (\<lambda>e. \<not> is_true e ''archived'') xs;
         total = length live; approved = length (filter (\<lambda>e. is_true e ''approved'') live) in
     ret (approved, total, if total > 0 then percent approved total else 0))))"

text \<open>\<open>{ ...el, approved: true, ... }\<close>: existing properties keep their place, new ones follow.\<close>

definition put_prop :: "string \<Rightarrow> json \<Rightarrow> (string \<times> json) list \<Rightarrow> (string \<times> json) list" where
  "put_prop k v kvs =
     (if k \<in> fst ` set kvs then map (\<lambda>(j, x). (j, if j = k then v else x)) kvs else kvs @ [(k, v)])"

definition approved_element :: "string \<Rightarrow> time \<Rightarrow> json \<Rightarrow> json" where
  "approved_element userId now e =
     JObj (put_prop ''approved_at'' (JStr (toISOString now)) (put_prop ''approved_by'' (JStr userId)
       (put_prop ''approved'' (JBool True) (case e of JObj kvs \<Rightarrow> kvs | _ \<Rightarrow> []))))"

definition update_version_elements :: "string \<Rightarrow> json \<Rightarrow> unit service" where
  "update_version_elements versionId elementsJson =
     writing (versionRows_update (map (\<lambda>v. if wv_id v = versionId then v\<lparr>wv_elementsJson := elementsJson\<rparr> else v)))"

definition approveElement :: "string \<Rightarrow> string \<Rightarrow> RequestUser \<Rightarrow> json service" where
  "approveElement workflowId elementId caller =
     andThen (findWorkflowInOrgOrThrow workflowId (rq_orgId caller) ''Workflow not found'') (\<lambda>_.
     andThen (\<lambda>w. orThrow (findLatestVersion workflowId w) (NotFoundException (JStr ''No version found for workflow'')) w) (\<lambda>version.
     andThen (liftSum (as_array ''elementsJson.map'' (wv_elementsJson version))) (\<lambda>xs.
     andThen (reading new_Date) (\<lambda>now.
     andThen (update_version_elements (wv_id version) (JArr (map (\<lambda>e.
       if field e ''id'' = Some (JStr elementId) then approved_element (rq_id caller) now e else e) xs))) (\<lambda>_.
     andThen (logUserAudit workflowId (rq_id caller) ''ELEMENT_APPROVED'' (Some elementId) None None) (\<lambda>_.
     ret (JObj [(''success'', JBool True)])))))))"

text \<open>The target test of a bulk approval: by default the ids of the elements not yet approved. An id that is an object is
  the same only as itself, so such an element is a target if it was not approved.\<close>

definition bulk_target :: "string list option \<Rightarrow> json list \<Rightarrow> json \<Rightarrow> bool" where
  "bulk_target elementIds xs e =
     (case elementIds of
        Some ids \<Rightarrow> (\<exists>i \<in> set ids. field e ''id'' = Some (JStr i))
      | None \<Rightarrow> \<not> is_true e ''approved'' \<or>
          (\<exists>x \<in> set xs. \<not> is_true x ''approved'' \<and> same_id (field x ''id'') (field e ''id'')))"

definition bulkApproveElements :: "string \<Rightarrow> string list option \<Rightarrow> RequestUser \<Rightarrow> nat service" where
  "bulkApproveElements workflowId elementIds caller =
     andThen (findWorkflowInOrgOrThrow workflowId (rq_orgId caller) ''Workflow not found'') (\<lambda>_.
     andThen (check (rq_role caller \<in> user_role_str ` {UserRole.ADMIN, UserRole.PROCESS_OWNER})
       (ForbiddenException (JStr ''Only Admin or Process Owner can bulk approve''))) (\<lambda>_.
     andThen (\<lambda>w. orThrow (findLatestVersion workflowId w) (NotFoundException (JStr ''No version found for workflow'')) w) (\<lambda>version.
     andThen (reading new_Date) (\<lambda>now.
     andThen (liftSum (as_array (if elementIds = None then ''elementsJson.filter'' else ''elementsJson.map'') (wv_elementsJson version))) (\<lambda>xs.
     let targets = filter (bulk_target elementIds xs) xs in
     andThen (update_version_elements (wv_id version) (JArr (map (\<lambda>e.
       if bulk_target elementIds xs e then approved_element (rq_id caller) now e else e) xs))) (\<lambda>_.
     andThen (logUserAudit workflowId (rq_id caller) ''ELEMENTS_BULK_APPROVED'' None None
       (Some (JObj [(''element_ids'', JArr (map (\<lambda>e. nullish (field e ''id'') JNull) targets))]))) (\<lambda>_.
     ret (length targets))))))))"

section \<open>Notifying reviewers\<close>

definition triggerReviewerNotification :: "string \<Rightarrow> unit service" where
  "triggerReviewerNotification workflowId w =
     (case find_row wf_id workflowId (workflowRows w) of
        None \<Rightarrow> (Inr (), w)
      | Some workflow \<Rightarrow>
          if wf_status workflow \<noteq> WorkflowStatus.PENDING_REVIEW then (Inr (), w)
          else
            let users = rev (remdups (rev (List.map_filter co_assignedTo (filter (\<lambda>c. co_workflowId c = workflowId \<and>
                  truthy (co_assignedTo c)) (commentRows w)))));
                known = filter (\<lambda>u. u \<in> us_id ` set (userRows w)) users
            in (Inr (), fold (\<lambda>u v. snd (emitToSession u ''notification.review_request''
                 (JObj [(''workflow_id'', JStr workflowId), (''workflow_title'', JStr (wf_title workflow))]) v)) known w))"

end
