(* ===== verification/Comments_Correct.thy ===== *)
theory Comments_Correct
  imports Comments
begin

text \<open>
  Comments: what every request keeps of the threads, what a bulk approval does to the review progress, and the requests
  that cannot work: injecting a comment into the pipeline, notifying an assignee.
\<close>

section \<open>Threads\<close>

datatype CommentCommand =
    Post string CreateCommentDto
  | Edit string string
  | Delete string
  | Reply string string
  | Resolve string string
  | Assign string string

fun perform_comment :: "CommentCommand \<Rightarrow> RequestUser \<Rightarrow> unit service" where
  "perform_comment (Post i dto) caller = forget (createComment i dto caller)"
| "perform_comment (Edit i t) caller = forget (updateComment i t caller)"
| "perform_comment (Delete i) caller = deleteComment i caller"
| "perform_comment (Reply i t) caller = forget (createReply i t caller)"
| "perform_comment (Resolve i t) caller = forget (resolveComment i t caller)"
| "perform_comment (Assign i u) caller = forget (assignComment i u caller)"

text \<open>What is fixed when a comment is written.\<close>

definition comment_key :: "Comment \<Rightarrow> string \<times> string \<times> string option \<times> string \<times> CommentType \<times> string option \<times> time" where
  "comment_key c = (co_id c, co_workflowId c, co_elementId c, co_authorId c, co_type c, co_parentId c, co_createdAt c)"

definition answers :: "Comment \<Rightarrow> Comment \<Rightarrow> bool" where
  "answers c d \<longleftrightarrow> co_parentId c = Some (co_id d) \<and> co_workflowId c = co_workflowId d \<and> co_elementId c = co_elementId d \<and>
     co_type c = co_type d"

definition comments_ok :: "Comment list \<Rightarrow> bool" where
  "comments_ok R \<longleftrightarrow> distinct (map co_id R) \<and> (\<forall>c \<in> set R. co_parentId c \<noteq> None \<longrightarrow> (\<exists>d \<in> set R. answers c d))"

definition comment_in_org :: "Workflow list \<Rightarrow> string \<Rightarrow> Comment \<Rightarrow> bool" where
  "comment_in_org W g c \<longleftrightarrow> (\<exists>x \<in> set W. wf_id x = co_workflowId c \<and> wf_orgId x = g)"

definition discussion :: "world \<Rightarrow> Workflow list \<times> Comment list" where
  "discussion w = (workflowRows w, commentRows w)"

definition comment_step :: "string \<Rightarrow> Workflow list \<times> Comment list \<Rightarrow> Workflow list \<times> Comment list \<Rightarrow> bool" where
  "comment_step g = (\<lambda>(W, R) (X, S). X = W \<and>
     ((\<exists>d e. d \<in> set R \<and> comment_in_org W g d \<and> comment_key e = comment_key d \<and> S = save_row co_id e R) \<or>
      (\<exists>d. S = R @ [d] \<and> co_id d \<notin> co_id ` set R \<and> comment_in_org W g d \<and>
         (co_parentId d \<noteq> None \<longrightarrow> (\<exists>c \<in> set R. answers d c)))))"

lemma comment_step_keeps:
  assumes "comment_step g (W, R) (X, S)" "comments_ok R"
  shows "X = W \<and> comments_ok S \<and> prefix (map comment_key R) (map comment_key S) \<and>
    filter (\<lambda>c. \<not> comment_in_org W g c) S = filter (\<lambda>c. \<not> comment_in_org W g c) R"
proof -
  have X: "X = W" using assms(1) by (simp add: comment_step_def)
  have distinct: "distinct (map co_id R)" using assms(2) by (simp add: comments_ok_def)
  consider (new) d where "S = R @ [d]" "co_id d \<notin> co_id ` set R" "comment_in_org W g d"
      "co_parentId d \<noteq> None \<longrightarrow> (\<exists>c \<in> set R. answers d c)"
    | (old) d e where "d \<in> set R" "comment_in_org W g d" "comment_key e = comment_key d" "S = save_row co_id e R"
    using assms(1) by (auto simp: comment_step_def)
  then show ?thesis
  proof cases
    case new
    then show ?thesis using X assms(2) by (auto simp: comments_ok_def)
  next
    case old
    let ?f = "\<lambda>r. if co_id r = co_id e then e else r"
    have e: "co_id e = co_id d" using old(3) by (simp add: comment_key_def)
    have S: "S = map ?f R" using old(1,4) e by (auto simp: save_row_def image_iff)
    have same: "comment_key (?f r) = comment_key r" "comment_in_org W g (?f r) = comment_in_org W g r"
      "\<not> comment_in_org W g r \<Longrightarrow> ?f r = r" if "r \<in> set R" for r
    proof -
      have "r = d" if "co_id r = co_id e" using distinct old(1) \<open>r \<in> set R\<close> that e by (metis distinct_map inj_onD)
      then show "comment_key (?f r) = comment_key r" "comment_in_org W g (?f r) = comment_in_org W g r"
        "\<not> comment_in_org W g r \<Longrightarrow> ?f r = r"
        using old(2,3) by (auto simp: comment_key_def comment_in_org_def)
    qed
    have keys: "map comment_key S = map comment_key R" using same(1) S by simp
    have others: "filter (\<lambda>c. \<not> comment_in_org W g c) S = filter (\<lambda>c. \<not> comment_in_org W g c) R"
      unfolding S by (rule filter_map_fixed) (use same(2,3) in blast)
    have answered: "answers c d = answers c' d'" if "comment_key c = comment_key c'" "comment_key d = comment_key d'" for c d c' d'
      using that by (simp add: answers_def comment_key_def)
    have "comments_ok S"
      unfolding comments_ok_def
    proof
      show "distinct (map co_id S)"
      proof -
        have "map co_id T = map fst (map comment_key T)" for T by (simp add: comment_key_def)
        then show ?thesis using distinct keys by metis
      qed
      show "\<forall>c \<in> set S. co_parentId c \<noteq> None \<longrightarrow> (\<exists>d \<in> set S. answers c d)"
      proof (intro ballI impI)
        fix c assume c: "c \<in> set S" "co_parentId c \<noteq> None"
        then obtain r where r: "r \<in> set R" "c = ?f r" using S by auto
        have "comment_key c = comment_key r" using same(1) r by simp
        then have "co_parentId r \<noteq> None" using c(2) by (simp add: comment_key_def)
        then obtain p where p: "p \<in> set R" "answers r p" using assms(2) r(1) by (auto simp: comments_ok_def)
        have "answers c (?f p)" using answered [of c r "?f p" p] \<open>comment_key c = comment_key r\<close> same(1) [OF p(1)] p(2) by simp
        moreover have "?f p \<in> set S" unfolding S using p(1) by (simp only: set_map) (rule imageI)
        ultimately show "\<exists>d \<in> set S. answers c d" by blast
      qed
    qed
    then show ?thesis using X keys others by simp
  qed
qed

lemma untouched_discussion [untouched_intros]:
  "untouched discussion (findWorkflowInOrgOrThrow i g m)" "untouched discussion (logUserAudit i u e el b a)"
  "untouched discussion (emitToSession s e p)" "untouched discussion (assertAuthorOrAdmin c caller m)"
proof -
  show "untouched discussion (findWorkflowInOrgOrThrow i g m)"
    unfolding findWorkflowInOrgOrThrow_def by (intro untouched_intros)
  show "untouched discussion (logUserAudit i u e el b a)"
    unfolding logUserAudit_def by (intro untouched_intros) (simp_all add: discussion_def)
  show "untouched discussion (emitToSession s e p)"
    unfolding emitToSession_def by (intro untouched_intros) (simp add: discussion_def)
  show "untouched discussion (assertAuthorOrAdmin c caller m)"
    unfolding assertAuthorOrAdmin_def by (intro untouched_intros)
qed

lemma untouched_findComment [untouched_intros]: "untouched discussion (findCommentWithWorkflow i g)"
  unfolding findCommentWithWorkflow_def by (intro untouched_intros)

lemma writes_found_comment:
  "(\<And>d. writes discussion (\<lambda>D E. d \<in> set (snd D) \<and> comment_in_org (fst D) g d \<longrightarrow> A D E) (k d)) \<Longrightarrow>
     writes discussion A (andThen (findCommentWithWorkflow i g) k)"
proof (rule writes_fact [where Q = "\<lambda>d D. d \<in> set (snd D) \<and> comment_in_org (fst D) g d"])
  show "x \<in> set (snd (discussion w)) \<and> comment_in_org (fst (discussion w)) g x"
    if "findCommentWithWorkflow i g w = (Inr x, v)" for w x v
    using that by (auto simp: findCommentWithWorkflow_def findWorkflowInOrgOrThrow_def run_iffs discussion_def
        comment_in_org_def dest!: find_Some_set find_row_Some)
qed (intro untouched_intros)

lemma save_comment_writes:
  "comment_key e = comment_key d \<Longrightarrow>
     writes discussion (\<lambda>D E. d \<in> set (snd D) \<and> comment_in_org (fst D) g d \<longrightarrow> comment_step g D E) (save_comment e)"
  by (auto simp: writes_def discussion_def save_comment_def andThen_def constraint_run writing_def comment_step_def)

lemma insert_comment_writes:
  "writes discussion (\<lambda>D E. E = (fst D, snd D @ [d]) \<and> co_id d \<notin> co_id ` set (snd D)) (insert_comment d)"
  by (auto simp: writes_def discussion_def insert_comment_def save_comment_def andThen_def constraint_run writing_def
      save_row_new)

lemmas comment_writes = writes_found_comment writes_pre [OF untouched_discussion(4)] writes_check writes_reading
  writes_pre [OF untouched_lookup]

lemma edit_writes:
  "writes discussion (comment_step (rq_orgId caller)) (updateComment i t caller)"
  "writes discussion (comment_step (rq_orgId caller)) (deleteComment i caller)"
  "writes discussion (comment_step (rq_orgId caller)) (resolveComment i n caller)"
  "writes discussion (comment_step (rq_orgId caller)) (assignComment i u caller)"
proof -
  show "writes discussion (comment_step (rq_orgId caller)) (updateComment i t caller)"
    unfolding updateComment_def Let_def
    by (intro comment_writes writes_post save_comment_writes untouched_intros) (simp add: comment_key_def)
  show "writes discussion (comment_step (rq_orgId caller)) (deleteComment i caller)"
    unfolding deleteComment_def Let_def
    by (intro comment_writes writes_post save_comment_writes untouched_intros) (simp add: comment_key_def resolved_by_def)
  show "writes discussion (comment_step (rq_orgId caller)) (resolveComment i n caller)"
    unfolding resolveComment_def Let_def
    by (intro comment_writes writes_post save_comment_writes untouched_intros) (simp add: comment_key_def resolved_by_def)
  show "writes discussion (comment_step (rq_orgId caller)) (assignComment i u caller)"
    unfolding assignComment_def Let_def
    by (intro comment_writes writes_post save_comment_writes untouched_intros) (simp add: comment_key_def)
qed

lemma post_writes: "writes discussion (comment_step (rq_orgId caller)) (createComment i dto caller)"
  unfolding createComment_def
proof (rule writes_fact [where Q = "\<lambda>x D. x \<in> set (fst D) \<and> wf_id x = i \<and> wf_orgId x = rq_orgId caller"], goal_cases)
  case (1 w x v)
  then show ?case by (auto simp: findWorkflowInOrgOrThrow_def run_iffs discussion_def dest: find_Some_set)
next
  case (3 x)
  have "writes discussion (\<lambda>D E. x \<in> set (fst D) \<and> wf_id x = i \<and> wf_orgId x = rq_orgId caller \<longrightarrow> comment_step (rq_orgId caller) D E)
      (insert_comment (new_comment i dto u None n t))" for u n t
    by (rule writes_mono [OF insert_comment_writes])
      (auto simp: comment_step_def comment_in_org_def new_comment_def case_prod_beta)
  then show ?case
    by (intro writes_check writes_pre [where m = new_id] writes_reading writes_post untouched_intros) (simp_all add: discussion_def)
qed (intro untouched_intros)

lemma reply_writes: "writes discussion (comment_step (rq_orgId caller)) (createReply i t caller)"
  unfolding createReply_def
proof (rule writes_found_comment, goal_cases)
  case (1 d)
  have "writes discussion (\<lambda>D E. d \<in> set (snd D) \<and> comment_in_org (fst D) (rq_orgId caller) d \<longrightarrow> comment_step (rq_orgId caller) D E)
      (insert_comment (new_comment (co_workflowId d) \<lparr>cc_element_id = co_elementId d, cc_type = co_type d, cc_content = t\<rparr> u
        (Some (co_id d)) n now))" for u n now
    by (rule writes_mono [OF insert_comment_writes])
      (auto simp: comment_step_def comment_in_org_def new_comment_def answers_def case_prod_beta)
  then show ?case
    by (intro writes_check writes_pre [where m = new_id] writes_reading writes_post untouched_intros) (simp_all add: discussion_def)
qed

lemma perform_comment_writes: "writes discussion (comment_step (rq_orgId caller)) (perform_comment c caller)"
proof -
  have forgotten: "writes f A (forget m)" if "writes f A m" for f :: "world \<Rightarrow> Workflow list \<times> Comment list" and A and m :: "'x service"
    using that by (simp add: writes_def)
  show ?thesis
    by (cases c) (simp_all add: forgotten post_writes reply_writes edit_writes)
qed


definition sample_comment :: Comment where
  "sample_comment = new_comment ''w1'' \<lparr>cc_element_id = Some ''e1'', cc_type = CommentType.QUESTION, cc_content = ''why?''\<rparr>
     ''u1'' None ''c1'' 0"

definition sample_reviewer :: RequestUser where
  "sample_reviewer = \<lparr>rq_id = ''u2'', rq_orgId = ''o1'', rq_role = ''reviewer''\<rparr>"

definition discussed_world :: world where
  "discussed_world = sample_world\<lparr>commentRows := [sample_comment]\<rparr>"

lemma discussed_ok: "comments_ok (commentRows discussed_world)"
  by (simp add: comments_ok_def discussed_world_def sample_comment_def new_comment_def)


section \<open>Approving elements\<close>

lemma map_of_set_value:
  "map_of (map (\<lambda>(j, x). (j, if j = k then v else x)) kvs) j = (if j = k then map_option (\<lambda>_. v) (map_of kvs k) else map_of kvs j)"
  by (induction kvs) auto

lemma get_prop_put: "get_prop (put_prop k v kvs) j = (if j = k then Some v else get_prop kvs j)"
proof (cases "k \<in> fst ` set kvs")
  case True
  then have "map_of kvs k \<noteq> None" by (simp add: map_of_eq_None_iff)
  then show ?thesis using True by (auto simp: put_prop_def get_prop_def map_of_set_value)
next
  case False
  then have "map_of kvs k = None" by (simp add: map_of_eq_None_iff)
  then show ?thesis using False by (auto simp: put_prop_def get_prop_def map_add_def split: option.splits)
qed

lemma get_prop_Nil: "get_prop [] k = None"
  by (simp add: get_prop_def)

lemma field_approved:
  "field (approved_element u now e) k =
     (if k = ''approved_at'' then Some (JStr (toISOString now)) else if k = ''approved_by'' then Some (JStr u)
      else if k = ''approved'' then Some (JBool True) else field e k)"
  by (cases e) (simp_all add: approved_element_def get_prop_put get_prop_Nil)

lemma max_by_map: "(\<And>x. f (g x) = f x) \<Longrightarrow> max_by f (map g xs) = map_option g (max_by f xs)"
  by (induction xs) (auto split: option.splits)

lemma latest_updated:
  assumes "findLatestVersion i w = Some ver"
  shows "findLatestVersion i (versionRows_update (map (\<lambda>v. if wv_id v = wv_id ver then v\<lparr>wv_elementsJson := e\<rparr> else v)) w) =
     Some (ver\<lparr>wv_elementsJson := e\<rparr>)"
proof -
  let ?g = "\<lambda>v. if wv_id v = wv_id ver then v\<lparr>wv_elementsJson := e\<rparr> else v"
  have "filter (\<lambda>v. wv_workflowId v = i) (map ?g (versionRows w)) = map ?g (filter (\<lambda>v. wv_workflowId v = i) (versionRows w))"
    by (induction "versionRows w") (simp_all add: filter_map comp_def)
  then show ?thesis using assms by (simp add: findLatestVersion_def max_by_map)
qed

lemma untouched_versions_audit: "untouched (\<lambda>w. (workflowRows w, versionRows w)) (logUserAudit i u e el b a)"
  unfolding logUserAudit_def by (intro untouched_intros) simp_all

lemma logUserAudit_run:
  assumes "workflowExists i w"
  shows "\<exists>a v. logUserAudit i u e el b s w = (Inr a, v) \<and> workflowRows v = workflowRows w \<and> versionRows v = versionRows w \<and>
    auditRows v = auditRows w @ [a] \<and> au_eventType a = e"
  using assms by (simp add: logUserAudit_def audit_log_def audit_entry_def andThen_def check_def new_id_def
      reading_def Let_def ret_def insert_audit_run workflowExists_def)


definition reviewed_version :: WorkflowVersion where
  "reviewed_version = version_row ''v1'' ''w1'' 1 (JArr [JObj [(''id'', JStr ''e1'')], JObj [(''id'', JStr ''e2''), (''archived'', JBool True)]])
     None ''u1'' 0"

definition reviewed_world :: world where
  "reviewed_world = sample_world\<lparr>versionRows := [reviewed_version]\<rparr>"

definition sample_process_owner :: RequestUser where
  "sample_process_owner = \<lparr>rq_id = ''u1'', rq_orgId = ''o1'', rq_role = ''process_owner''\<rparr>"


text \<open>Approving an element that does not exist succeeds and changes nothing but the audit log; a workflow without saved
elements, whose latest version holds an empty object, has no review progress.\<close>

lemma approve_unknown_succeeds:
  assumes "findWorkflowInOrgOrThrow i (rq_orgId caller) ''Workflow not found'' w = (Inr x, w)"
    and "findLatestVersion i w = Some ver" "wv_elementsJson ver = JArr xs" "JNull \<notin> set xs"
    and "\<forall>e \<in> set xs. field e ''id'' \<noteq> Some (JStr el)"
    and "\<forall>v \<in> set (versionRows w). wv_id v = wv_id ver \<longrightarrow> v = ver"
  shows "\<exists>v. approveElement i el caller w = (Inr (JObj [(''success'', JBool True)]), v) \<and> versionRows v = versionRows w"
proof -
  have xs: "map (\<lambda>e. if field e ''id'' = Some (JStr el) then approved_element (rq_id caller) (new_Date w) e else e) xs = xs"
    using assms(5) by (auto intro: map_idI)
  have rows: "versionRows_update (map (\<lambda>v. if wv_id v = wv_id ver then v\<lparr>wv_elementsJson := JArr xs\<rparr> else v)) w = w"
  proof -
    have "map (\<lambda>v. if wv_id v = wv_id ver then v\<lparr>wv_elementsJson := JArr xs\<rparr> else v) (versionRows w) = versionRows w"
      by (rule map_idI) (use assms(3,6) in auto)
    then show ?thesis by simp
  qed
  have "workflowExists i w" using assms(1) by (auto simp: findWorkflowInOrgOrThrow_def run_iffs workflowExists_def dest: find_Some_set)
  then obtain a v where "logUserAudit i (rq_id caller) ''ELEMENT_APPROVED'' (Some el) None None w = (Inr a, v)" "versionRows v = versionRows w"
    using logUserAudit_run by blast
  then show ?thesis
    using assms(1-4) by (simp add: approveElement_def run_simps as_array_def update_version_elements_def xs rows cong del: if_weak_cong)
qed

lemma fresh_workflow_has_no_progress:
  assumes "findWorkflowInOrgOrThrow i g ''Workflow not found'' w = (Inr x, w)"
    and "findLatestVersion i w = Some ver" "wv_elementsJson ver = JObj []"
  shows "\<exists>e. getReviewProgress percent i g w = (Inl e, w) \<and> getStatus e = 500"
  using assms by (simp add: getReviewProgress_def run_simps as_array_def)

section \<open>Requests that cannot work\<close>

text \<open>Injecting a comment fails for every comment and caller, before anything is written: the lookup of the session names
a relation the entity does not have.\<close>

lemma injection_never_works:
  "\<exists>e. injectToAi i caller w = (Inl e, w) \<and>
     (getStatus e = 404 \<or> getStatus e = 500 \<or> getStatus e = 401 \<and> \<not> canUserInjectToAi (rq_role caller))"
proof (cases "findCommentWithWorkflow i (rq_orgId caller) w")
  case (Pair r v)
  then have v: "v = w \<and> (\<forall>e. r = Inl e \<longrightarrow> getStatus e = 404)"
    by (cases r) (auto simp: findCommentWithWorkflow_def findWorkflowInOrgOrThrow_def run_iffs)
  then show ?thesis
    using Pair by (cases r; cases "canUserInjectToAi (rq_role caller)")
      (simp_all add: injectToAi_def run_simps session_for_comment_def check_relations_def session_relations_def)
qed

text \<open>The notification of an assignee goes to a session room named after the user; unless a session has the same id, no
socket is ever in it.\<close>

lemma assignment_unheard:
  assumes "ws_reach verify dev w" "u \<notin> se_id ` set (sessionRows w)"
  shows "ws_to (last (emitted (snd (emitToSession u ''notification.review_request'' p w)))) = []"
proof -
  have "\<not> may_read w v g r (session_room u)" for v g r
    using assms(2) by (auto simp: may_read_def room_defs session_org_def find_row_None [symmetric])
  then have "room_members (session_room u) w = []"
    by (rule nobody_in_room [OF ws_reach_entitled [OF assms(1)]])
  then show ?thesis by (simp add: emitToSession_def emitToRoom_run)
qed

end
