(* ===== verification/Skills.thy ===== *)
theory Skills
  imports Sessions Workflows
begin

text \<open>
  Skills: \<open>src/modules/skills/services/skills.service.ts\<close> and the routes in front of it.

  Parameters: the embedding service (\<open>embedText\<close>, \<open>embed_batch\<close>: \<open>None\<close> when the request fails, the embedding of the answer
  otherwise, \<open>None\<close> in it when it has none), and floating-point arithmetic: the mean of a list of numbers (\<open>mean\<close>) and
  the quotient of the dot product by the magnitudes (\<open>ratio\<close>, with \<open>flat\<close> for vectors of magnitude zero).
\<close>

record CreateSkillDto =
  ck_name :: string
  ck_description :: "string option"
  ck_skillType :: SkillType
  ck_content :: string
  ck_appliesToDomains :: "string list option"
  ck_appliesToAgents :: "AgentType list option"
  ck_isMandatory :: "bool option"

record UpdateSkillDto =
  uk_name :: "string option"
  uk_description :: "string option"
  uk_content :: "string option"
  uk_appliesToDomains :: "string list option"
  uk_appliesToAgents :: "AgentType list option"
  uk_isMandatory :: "bool option"
  uk_isActive :: "bool option"

record 'r SemanticSearchDto =
  ss_queryText :: string
  ss_topK :: nat
  ss_filterTypes :: "SkillType list option"
  ss_minSimilarity :: 'r

section \<open>Helpers\<close>

definition assertCanModify :: "string \<Rightarrow> unit service" where
  "assertCanModify role =
     check (role = user_role_str UserRole.ADMIN \<or> role = user_role_str UserRole.BUSINESS_ANALYST)
       (ForbiddenException (JStr ''Only Admin and Business Analyst can modify skills''))"

definition findSkillByIdAndOrg :: "string \<Rightarrow> string \<Rightarrow> Skill service" where
  "findSkillByIdAndOrg i orgId w =
     orThrow (find (\<lambda>s. sk_id s = i \<and> sk_orgId s = orgId) (skillRows w)) (NotFoundException (JStr ''Skill not found'')) w"

definition active_catalog :: "string \<Rightarrow> world \<Rightarrow> bool" where
  "active_catalog orgId w \<longleftrightarrow>
     (\<exists>s \<in> set (skillRows w). sk_orgId s = orgId \<and> sk_skillType s = SkillType.ACTOR_CATALOG \<and> sk_isActive s)"

definition validateActorCatalogUniqueness :: "string \<Rightarrow> unit service" where
  "validateActorCatalogUniqueness orgId w =
     check (\<not> active_catalog orgId w)
       (ConflictException (JObj [(''code'', JStr ''ACTOR_CATALOG_EXISTS''),
         (''message'', JStr ''An ACTOR_CATALOG skill already exists. Deactivate it first.'')])) w"

definition prepareContentForEmbedding :: "string \<Rightarrow> string \<Rightarrow> string" where
  "prepareContentForEmbedding name content = ''Skill: '' @ name @ ''. Content: '' @ content"

definition full_content :: "string \<Rightarrow> json" where
  "full_content c = JObj [(''full'', JStr c)]"

definition strings_json :: "string list option \<Rightarrow> json" where
  "strings_json = json_of_option (\<lambda>xs. JArr (map JStr xs))"

definition agents_json :: "AgentType list option \<Rightarrow> json" where
  "agents_json = json_of_option (\<lambda>xs. JArr (map (\<lambda>a. JStr (agent_type_str a)) xs))"

definition skill_json :: "Skill \<Rightarrow> json" where
  "skill_json s =
     JObj [(''id'', JStr (sk_id s)), (''orgId'', JStr (sk_orgId s)), (''name'', JStr (sk_name s)),
       (''description'', json_of_option JStr (sk_description s)), (''skillType'', JStr (skill_type_str (sk_skillType s))),
       (''content'', sk_content s), (''embedding'', json_of_option (\<lambda>e. JArr (map JNum e)) (sk_embedding s)),
       (''appliesToDomains'', strings_json (sk_appliesToDomains s)), (''appliesToAgents'', agents_json (sk_appliesToAgents s)),
       (''isActive'', JBool (sk_isActive s)), (''isMandatory'', JBool (sk_isMandatory s)),
       (''usageCount'', json_int (sk_usageCount s)), (''version'', json_int (sk_version s)),
       (''createdBy'', JStr (sk_createdBy s)), (''createdAt'', JStr (toISOString (sk_createdAt s))),
       (''updatedAt'', JStr (toISOString (sk_updatedAt s)))]"

definition toResponseDto :: "Skill \<Rightarrow> (string \<times> json) list" where
  "toResponseDto s =
     [(''id'', JStr (sk_id s)), (''name'', JStr (sk_name s)), (''description'', json_of_option JStr (sk_description s)),
      (''skillType'', JStr (skill_type_str (sk_skillType s))),
      (''content'', nullish (field (sk_content s) ''full'') (JStr [])),
      (''appliesToDomains'', strings_json (sk_appliesToDomains s)), (''appliesToAgents'', agents_json (sk_appliesToAgents s)),
      (''isActive'', JBool (sk_isActive s)), (''isMandatory'', JBool (sk_isMandatory s)),
      (''usageCount'', json_int (sk_usageCount s)), (''version'', json_int (sk_version s)),
      (''createdAt'', JStr (toISOString (sk_createdAt s))), (''updatedAt'', JStr (toISOString (sk_updatedAt s)))]"

text \<open>The audit entry of a skill names the skill as its workflow.\<close>

definition logSkillChange :: "string \<Rightarrow> string \<Rightarrow> json option \<Rightarrow> json option \<Rightarrow> string \<Rightarrow> unit service" where
  "logSkillChange skillId actorId before after eventType =
     andThen (audit_log (audit_entry (Some skillId) (Some actorId) ActorType.USER eventType None before after)) (\<lambda>_. ret ())"

text \<open>Writing a row: the vector has 768 components or is null, the version is a smallint.\<close>

definition vector_column :: "number list option \<Rightarrow> unit service" where
  "vector_column e =
     (case e of
        None \<Rightarrow> ret ()
      | Some v \<Rightarrow> check (length v = 768) (PlainError (''vector length '' @ nat_digits (length v) @ '' != expected 768'')))"

definition insert_skill :: "Skill \<Rightarrow> unit service" where
  "insert_skill s w =
     andThen (vector_column (sk_embedding s)) (\<lambda>_.
     andThen (constraint (sk_id s \<notin> sk_id ` set (skillRows w)) ''skill_pkey'') (\<lambda>_.
     writing (skillRows_update (\<lambda>rs. rs @ [s])))) w"

definition update_skill :: "Skill \<Rightarrow> Skill service" where
  "update_skill s =
     andThen (vector_column (sk_embedding s)) (\<lambda>_.
     andThen (constraint (smallint (sk_version s)) ''smallint out of range'') (\<lambda>_. save_skill s))"

section \<open>Operations\<close>

definition new_skill :: "CreateSkillDto \<Rightarrow> bool \<Rightarrow> number list option \<Rightarrow> RequestUser \<Rightarrow> string \<Rightarrow> time \<Rightarrow> Skill" where
  "new_skill dto isMandatory embedding caller i now =
     \<lparr>sk_id = i, sk_orgId = rq_orgId caller, sk_name = ck_name dto, sk_description = ck_description dto,
      sk_skillType = ck_skillType dto, sk_content = full_content (ck_content dto), sk_embedding = embedding,
      sk_appliesToDomains = ck_appliesToDomains dto, sk_appliesToAgents = ck_appliesToAgents dto, sk_isActive = True,
      sk_isMandatory = isMandatory, sk_usageCount = 0, sk_version = 1, sk_createdBy = rq_id caller,
      sk_createdAt = now, sk_updatedAt = now\<rparr>"

definition wanted_mandatory :: "CreateSkillDto \<Rightarrow> bool" where
  "wanted_mandatory dto \<longleftrightarrow> ck_skillType dto = SkillType.ACTOR_CATALOG \<or> ck_isMandatory dto = Some True"

definition createSkill :: "(string \<Rightarrow> number list option option) \<Rightarrow> CreateSkillDto \<Rightarrow> RequestUser \<Rightarrow> json service" where
  "createSkill embedText dto caller =
     andThen (assertCanModify (rq_role caller)) (\<lambda>_.
     andThen (unless (ck_skillType dto \<noteq> SkillType.ACTOR_CATALOG) (validateActorCatalogUniqueness (rq_orgId caller))) (\<lambda>_.
     andThen (orThrow (embedText (prepareContentForEmbedding (ck_name dto) (ck_content dto)))
       (InternalServerErrorException (JStr ''Failed to generate skill embedding''))) (\<lambda>embedding.
     andThen new_id (\<lambda>i.
     andThen (reading (\<lambda>w. new_skill dto (wanted_mandatory dto) embedding caller i (clock w))) (\<lambda>saved.
     andThen (insert_skill saved) (\<lambda>_.
     andThen (logSkillChange (sk_id saved) (rq_id caller) None (Some (skill_json saved)) ''SKILL_CREATED'') (\<lambda>_.
     ret (JObj (toResponseDto saved)))))))))"

text \<open>The route passes \<open>isActive === 'true'\<close>: without the parameter the list is that of the inactive skills.\<close>

definition skill_types :: "SkillType list" where
  "skill_types = [SkillType.VOCABULARY, SkillType.ARCHETYPE, SkillType.FEW_SHOT_EXAMPLE, SkillType.DOMAIN_KNOWLEDGE,
     SkillType.ACTOR_CATALOG, SkillType.PROMPT_TEMPLATE]"

definition findAllSkills :: "string option \<Rightarrow> bool option \<Rightarrow> string \<Rightarrow> (json list \<times> nat) service" where
  "findAllSkills type isActive orgId =
     andThen (check (optionally (\<lambda>t. \<exists>k \<in> set skill_types. skill_type_str k = t) type)
       (QueryFailedError ''invalid input value for enum skill_type_enum'')) (\<lambda>_.
     reading (\<lambda>w.
       let skills = sort_desc sk_createdAt (filter (\<lambda>s. sk_orgId s = orgId \<and>
         optionally (\<lambda>t. skill_type_str (sk_skillType s) = t) type \<and> optionally (\<lambda>b. sk_isActive s = b) isActive) (skillRows w))
       in (map (\<lambda>s. JObj (toResponseDto s)) skills, length skills)))"

definition findAllSkillsRoute :: "string option \<Rightarrow> string option \<Rightarrow> RequestUser \<Rightarrow> (json list \<times> nat) service" where
  "findAllSkillsRoute type isActive caller = findAllSkills type (Some (isActive = Some ''true'')) (rq_orgId caller)"

definition getUsageStats :: "(number list \<Rightarrow> number) \<Rightarrow> string \<Rightarrow> world \<Rightarrow> nat \<times> number option" where
  "getUsageStats mean skillId w =
     (let apps = filter (\<lambda>a. sa_skillId a = skillId) (skillApplicationRows w) in
      (length apps, if apps = [] then None else Some (mean (map (\<lambda>a. case sa_similarityScore a of None \<Rightarrow> ''0'' | Some s \<Rightarrow> s) apps))))"

definition findSkill :: "(number list \<Rightarrow> number) \<Rightarrow> string \<Rightarrow> RequestUser \<Rightarrow> json service" where
  "findSkill mean i caller =
     andThen (findSkillByIdAndOrg i (rq_orgId caller)) (\<lambda>skill.
     andThen (reading (getUsageStats mean i)) (\<lambda>(n, avg).
     ret (JObj (toResponseDto skill @ [(''applicationCount'', json_int (int n)), (''avgSimilarityScore'', json_of_option JNum avg)]))))"

definition or_keep :: "'a option \<Rightarrow> 'a \<Rightarrow> 'a" where
  "or_keep x y = (case x of None \<Rightarrow> y | Some z \<Rightarrow> z)"

definition patch_skill :: "UpdateSkillDto \<Rightarrow> Skill \<Rightarrow> Skill" where
  "patch_skill dto s =
     s\<lparr>sk_name := or_keep (uk_name dto) (sk_name s),
       sk_description := (if uk_description dto = None then sk_description s else uk_description dto),
       sk_content := (case uk_content dto of None \<Rightarrow> sk_content s | Some c \<Rightarrow> full_content c),
       sk_appliesToDomains := (if uk_appliesToDomains dto = None then sk_appliesToDomains s else uk_appliesToDomains dto),
       sk_appliesToAgents := (if uk_appliesToAgents dto = None then sk_appliesToAgents s else uk_appliesToAgents dto),
       sk_isActive := or_keep (uk_isActive dto) (sk_isActive s)\<rparr>"

definition content_changed :: "UpdateSkillDto \<Rightarrow> Skill \<Rightarrow> bool" where
  "content_changed dto s \<longleftrightarrow>
     (case uk_content dto of None \<Rightarrow> False | Some c \<Rightarrow> field (sk_content s) ''full'' \<noteq> Some (JStr c))"

definition updateSkill :: "(string \<Rightarrow> number list option option) \<Rightarrow> string \<Rightarrow> UpdateSkillDto \<Rightarrow> RequestUser \<Rightarrow> json service" where
  "updateSkill embedText i dto caller =
     andThen (findSkillByIdAndOrg i (rq_orgId caller)) (\<lambda>skill.
     andThen (assertCanModify (rq_role caller)) (\<lambda>_.
     let patched = patch_skill dto skill in
     andThen (check (\<not> (sk_skillType skill = SkillType.ACTOR_CATALOG \<and> uk_isMandatory dto = Some False))
       (ForbiddenException (JStr ''ACTOR_CATALOG skills must always be mandatory''))) (\<lambda>_.
     andThen (if content_changed dto skill
       then andThen (orThrow (embedText (prepareContentForEmbedding (sk_name patched) (the (uk_content dto))))
              (InternalServerErrorException (JStr ''Failed to regenerate skill embedding''))) (\<lambda>e.
            ret (patched\<lparr>sk_version := sk_version patched + 1,
              sk_embedding := (if e = None then sk_embedding patched else e)\<rparr>))
       else ret patched) (\<lambda>changed.
     andThen (update_skill changed) (\<lambda>updated.
     andThen (logSkillChange i (rq_id caller) (Some (skill_json skill)) (Some (skill_json updated)) ''SKILL_UPDATED'') (\<lambda>_.
     ret (JObj (toResponseDto updated))))))))"

definition removeSkill :: "string \<Rightarrow> RequestUser \<Rightarrow> unit service" where
  "removeSkill i caller =
     andThen (findSkillByIdAndOrg i (rq_orgId caller)) (\<lambda>skill.
     andThen (assertCanModify (rq_role caller)) (\<lambda>_.
     andThen (check (\<not> (sk_skillType skill = SkillType.ACTOR_CATALOG \<and> sk_isMandatory skill))
       (ForbiddenException (JStr ''Cannot delete mandatory ACTOR_CATALOG skill''))) (\<lambda>_.
     andThen (update_skill (skill\<lparr>sk_isActive := False\<rparr>)) (\<lambda>_.
     logSkillChange i (rq_id caller) (Some (JObj [(''isActive'', JBool True)])) (Some (JObj [(''isActive'', JBool False)]))
       ''SKILL_DELETED''))))"

section \<open>Search\<close>

definition cosineSimilarity ::
  "(number list \<Rightarrow> bool) \<Rightarrow> (number list \<Rightarrow> number list \<Rightarrow> 'r::{zero,linorder}) \<Rightarrow> number list \<Rightarrow> number list \<Rightarrow> 'r" where
  "cosineSimilarity flat ratio a b =
     (if length a \<noteq> length b then 0 else if flat a \<or> flat b then 0 else ratio a b)"

text \<open>The given embedding against those of the skills that have one, best first; equal scores keep the order of the rows.\<close>

definition scored_skills ::
  "(number list \<Rightarrow> number list \<Rightarrow> 'r::linorder) \<Rightarrow> number list \<Rightarrow> Skill list \<Rightarrow> (Skill \<times> 'r) list" where
  "scored_skills sim q skills =
     List.map_filter (\<lambda>s. map_option (\<lambda>e. (s, sim q e)) (sk_embedding s)) skills"

definition content_preview :: "Skill \<Rightarrow> error + string" where
  "content_preview s =
     (case nullish (field (sk_content s) ''full'') (JStr []) of
        JStr t \<Rightarrow> Inr (take 200 t)
      | _ \<Rightarrow> Inl (TypeError ''substring is not a function''))"

record 'r SemanticSearchResult =
  sr_id :: string
  sr_name :: string
  sr_skillType :: SkillType
  sr_similarityScore :: 'r
  sr_contentPreview :: string

definition search_result :: "Skill \<times> 'r \<Rightarrow> error + 'r SemanticSearchResult" where
  "search_result = (\<lambda>(s, r). map_sum id (\<lambda>t. \<lparr>sr_id = sk_id s, sr_name = sk_name s, sr_skillType = sk_skillType s,
     sr_similarityScore = r, sr_contentPreview = t\<rparr>) (content_preview s))"

fun all_results :: "('e + 'x) list \<Rightarrow> 'e + 'x list" where
  "all_results [] = Inr []"
| "all_results (Inl e # rs) = Inl e"
| "all_results (Inr x # rs) = map_sum id (\<lambda>xs. x # xs) (all_results rs)"

definition search_pool :: "string \<Rightarrow> world \<Rightarrow> Skill list" where
  "search_pool orgId w = sort_desc sk_usageCount (filter (\<lambda>s. sk_orgId s = orgId \<and> sk_isActive s) (skillRows w))"

text \<open>A list of types is compared with the enum column as one value, which the database refuses.\<close>

definition semanticSearch ::
  "(string \<Rightarrow> number list option option) \<Rightarrow> (number list \<Rightarrow> bool) \<Rightarrow>
   (number list \<Rightarrow> number list \<Rightarrow> 'r::{zero,linorder}) \<Rightarrow> 'r SemanticSearchDto \<Rightarrow>
   RequestUser \<Rightarrow> 'r SemanticSearchResult list service" where
  "semanticSearch embedText flat ratio dto caller =
     andThen (orThrow (embedText (ss_queryText dto)) (InternalServerErrorException (JStr ''Failed to process search query''))) (\<lambda>q.
     andThen (check (ss_filterTypes dto = None \<or> ss_filterTypes dto = Some [])
       (QueryFailedError ''invalid input value for enum skill_type_enum'')) (\<lambda>_.
     andThen (reading (search_pool (rq_orgId caller))) (\<lambda>skills.
     andThen (check (q \<noteq> None \<or> (\<forall>s \<in> set skills. sk_embedding s = None))
       (TypeError ''Cannot read properties of undefined'')) (\<lambda>_.
     liftSum (all_results (map search_result (take (ss_topK dto) (sort_desc snd
       (filter (\<lambda>(s, r). ss_minSimilarity dto \<le> r) (scored_skills (cosineSimilarity flat ratio) (the q) skills))))))))))"

definition retrieveTopKSkills ::
  "(number list \<Rightarrow> bool) \<Rightarrow> (number list \<Rightarrow> number list \<Rightarrow> 'r::{zero,linorder}) \<Rightarrow>
   string \<Rightarrow> number list \<Rightarrow> nat \<Rightarrow> world \<Rightarrow> Skill list" where
  "retrieveTopKSkills flat ratio orgId contextEmbedding topK w =
     map fst (take topK (sort_desc snd (scored_skills (cosineSimilarity flat ratio) contextEmbedding
       (filter (\<lambda>s. sk_orgId s = orgId \<and> sk_isActive s) (skillRows w)))))"

definition listMandatorySkills :: "string \<Rightarrow> world \<Rightarrow> Skill list" where
  "listMandatorySkills orgId w = filter (\<lambda>s. sk_orgId s = orgId \<and> sk_isMandatory s \<and> sk_isActive s) (skillRows w)"

section \<open>Import and export\<close>

text \<open>The import checks every entry, asks for the embeddings of those that passed, and stores as many rows, in a
transaction: row \<open>i\<close> from entry \<open>i\<close> of the request and embedding \<open>i\<close> of the answer.\<close>

definition import_rejected :: "string \<Rightarrow> world \<Rightarrow> CreateSkillDto \<Rightarrow> bool" where
  "import_rejected orgId w dto \<longleftrightarrow> ck_skillType dto = SkillType.ACTOR_CATALOG \<and> active_catalog orgId w"

fun insert_imported :: "RequestUser \<Rightarrow> (CreateSkillDto \<times> number list option) list \<Rightarrow> unit service" where
  "insert_imported caller [] = ret ()"
| "insert_imported caller ((dto, embedding) # rest) =
     andThen new_id (\<lambda>i.
     andThen (reading (\<lambda>w. new_skill dto (wanted_mandatory dto) embedding caller i (clock w))) (\<lambda>skill.
     andThen (insert_skill skill) (\<lambda>_. insert_imported caller rest)))"

definition importSkills ::
  "(string list \<Rightarrow> number list option list option) \<Rightarrow> CreateSkillDto list \<Rightarrow> RequestUser \<Rightarrow>
   (nat \<times> (nat \<times> string) list) service" where
  "importSkills embed_batch skills caller =
     andThen (assertCanModify (rq_role caller)) (\<lambda>_.
     andThen (check (length skills \<le> 200) (BadRequestException (JStr ''Maximum 200 skills per import''))) (\<lambda>_.
     andThen (reading (\<lambda>w. (filter (\<lambda>dto. \<not> import_rejected (rq_orgId caller) w dto) skills,
       map (\<lambda>(i, dto). (i, ''ACTOR_CATALOG already exists for org''))
         (filter (\<lambda>(i, dto). import_rejected (rq_orgId caller) w dto) (List.enumerate 0 skills))))) (\<lambda>(items, failed).
     andThen (orThrow (embed_batch (map (\<lambda>dto. prepareContentForEmbedding (ck_name dto) (ck_content dto)) items))
       (InternalServerErrorException (JStr ''Failed to generate embeddings for import''))) (\<lambda>embeddings.
     andThen (in_transaction (insert_imported caller (map (\<lambda>i. (skills ! i, if i < length embeddings then embeddings ! i else None))
       [0..<length items]))) (\<lambda>_.
     ret (length items, failed))))))"

definition skill_export :: "Skill \<Rightarrow> json" where
  "skill_export s =
     JObj [(''id'', JStr (sk_id s)), (''name'', JStr (sk_name s)), (''description'', json_of_option JStr (sk_description s)),
       (''skillType'', JStr (skill_type_str (sk_skillType s))), (''content'', nullish (field (sk_content s) ''full'') (JStr [])),
       (''appliesToDomains'', strings_json (sk_appliesToDomains s)), (''appliesToAgents'', agents_json (sk_appliesToAgents s)),
       (''isActive'', JBool (sk_isActive s)), (''isMandatory'', JBool (sk_isMandatory s)), (''version'', json_int (sk_version s)),
       (''createdAt'', JStr (toISOString (sk_createdAt s))), (''updatedAt'', JStr (toISOString (sk_updatedAt s)))]"

definition exportSkills :: "RequestUser \<Rightarrow> world \<Rightarrow> json list" where
  "exportSkills caller w = map skill_export (filter (\<lambda>s. sk_orgId s = rq_orgId caller \<and> sk_isActive s) (skillRows w))"

section \<open>Applications and analytics\<close>

definition application_json :: "SkillApplication \<Rightarrow> json" where
  "application_json a =
     JObj [(''id'', JStr (sa_id a)), (''skillId'', JStr (sa_skillId a)), (''agentExecutionId'', JStr (sa_agentExecutionId a)),
       (''retrievalRank'', json_of_option json_int (sa_retrievalRank a)), (''similarityScore'', json_of_option JNum (sa_similarityScore a)),
       (''injectedTokens'', json_int (sa_injectedTokens a)), (''wasMandatory'', JBool (sa_wasMandatory a)),
       (''createdAt'', JStr (toISOString (sa_createdAt a)))]"

text \<open>The page and the limit are numbers or NaN (\<open>None\<close>): NaN is refused by the query builder, a negative offset or limit by
the database, and a limit of zero is no limit.\<close>

definition find_page :: "int option \<Rightarrow> int option \<Rightarrow> 'a list \<Rightarrow> error + 'a list" where
  "find_page page limit rows =
     (case (page, limit) of
        (Some p, Some l) \<Rightarrow>
          if 0 \<le> (p - 1) * l \<and> 0 \<le> l
          then let rest = drop (nat ((p - 1) * l)) rows in Inr (if l = 0 then rest else take (nat l) rest)
          else Inl (QueryFailedError ''LIMIT and OFFSET must not be negative'')
      | _ \<Rightarrow> Inl (PlainError ''Provided value is not a number. Please provide a numeric value.''))"

definition findApplications :: "string \<Rightarrow> RequestUser \<Rightarrow> int option \<Rightarrow> int option \<Rightarrow> json list service" where
  "findApplications skillId caller page limit =
     andThen (findSkillByIdAndOrg skillId (rq_orgId caller)) (\<lambda>_.
     andThen (reading (\<lambda>w. sort_desc sa_createdAt (filter (\<lambda>a. sa_skillId a = skillId) (skillApplicationRows w)))) (\<lambda>apps.
     liftSum (map_sum id (map application_json) (find_page page limit apps))))"

text \<open>\<open>ORDER BY retrieval_rank ASC\<close> puts the rows without a rank last.\<close>

definition findApplicationsByExecution :: "string \<Rightarrow> world \<Rightarrow> json list" where
  "findApplicationsByExecution agentExecutionId w =
     map application_json (sort_key (\<lambda>a. case sa_retrievalRank a of None \<Rightarrow> (1 :: nat, 0) | Some r \<Rightarrow> (0, r))
       (filter (\<lambda>a. sa_agentExecutionId a = agentExecutionId) (skillApplicationRows w)))"

definition getAnalytics :: "(number list \<Rightarrow> number) \<Rightarrow> RequestUser \<Rightarrow> json list service" where
  "getAnalytics mean caller =
     andThen (check (rq_role caller = user_role_str UserRole.ADMIN) (ForbiddenException (JStr ''Admin only''))) (\<lambda>_.
     reading (\<lambda>w. map (\<lambda>s.
       let (n, avg) = getUsageStats mean (sk_id s) w;
           apps = filter (\<lambda>a. sa_skillId a = sk_id s) (skillApplicationRows w) in
       JObj [(''id'', JStr (sk_id s)), (''name'', JStr (sk_name s)), (''applicationCount'', json_int (int n)),
         (''avgSimilarity'', json_of_option JNum avg),
         (''avgTokens'', if apps = [] then JNull else JNum (mean (map (\<lambda>a. int_str (sa_injectedTokens a)) apps))),
         (''avgConfidenceDelta'', JNull)])
       (sort_desc sk_usageCount (filter (\<lambda>s. sk_orgId s = rq_orgId caller) (skillRows w)))))"

end
