(* ===== verification/Skills_Correct.thy ===== *)
theory Skills_Correct
  imports Skills
begin

text \<open>
  Skills: the outcome of every change, the import of a list with a rejected entry, and the results of a search.
\<close>

section \<open>Every change is answered with a failure\<close>

datatype SkillCommand =
    Create CreateSkillDto
  | Update string UpdateSkillDto
  | Remove string

fun perform_skill :: "(string \<Rightarrow> number list option option) \<Rightarrow> SkillCommand \<Rightarrow> RequestUser \<Rightarrow> unit service" where
  "perform_skill embedText (Create dto) caller = forget (createSkill embedText dto caller)"
| "perform_skill embedText (Update i dto) caller = forget (updateSkill embedText i dto caller)"
| "perform_skill embedText (Remove i) caller = removeSkill i caller"

definition can_modify :: "RequestUser \<Rightarrow> bool" where
  "can_modify caller \<longleftrightarrow> rq_role caller = ''admin'' \<or> rq_role caller = ''business_analyst''"

lemma can_modify_run: "assertCanModify (rq_role caller) w =
    (if can_modify caller then Inr () else Inl (ForbiddenException (JStr ''Only Admin and Business Analyst can modify skills'')), w)"
  by (simp add: assertCanModify_def can_modify_def check_def)

abbreviation refused :: error where
  "refused \<equiv> QueryFailedError ''audit_log_workflow_id_fkey''"

lemma audit_refused:
  "i \<notin> wf_id ` set (workflowRows w) \<Longrightarrow>
     logSkillChange i a b s e w = (Inl refused, w\<lparr>idNext := Suc (idNext w)\<rparr>)"
  by (simp add: logSkillChange_def audit_log_def audit_entry_def run_simps Let_def insert_audit_def workflowExists_def)

lemma vector_column_run:
  "vector_column e w = (if \<forall>v. e = Some v \<longrightarrow> length v = 768 then Inr ()
     else Inl (PlainError (''vector length '' @ nat_digits (length (the e)) @ '' != expected 768'')), w)"
  by (cases e) (simp_all add: vector_column_def run_simps)

lemma insert_skill_cases:
  obtains (bad) e where "insert_skill s w = (Inl e, w)"
  | (ok) "insert_skill s w = (Inr (), w\<lparr>skillRows := skillRows w @ [s]\<rparr>)"
proof (cases "(\<forall>v. sk_embedding s = Some v \<longrightarrow> length v = 768) \<and> sk_id s \<notin> sk_id ` set (skillRows w)")
  case True
  then have "insert_skill s w = (Inr (), w\<lparr>skillRows := skillRows w @ [s]\<rparr>)"
    by (simp add: insert_skill_def vector_column_run run_simps)
  then show ?thesis by (rule ok)
next
  case False
  then have "\<exists>e. insert_skill s w = (Inl e, w)"
    by (cases "\<forall>v. sk_embedding s = Some v \<longrightarrow> length v = 768") (auto simp: insert_skill_def vector_column_run run_simps)
  then show ?thesis using bad by blast
qed

lemma update_skill_cases:
  obtains (bad) e where "update_skill s w = (Inl e, w)"
  | (ok) t where "update_skill s w = (Inr t, w\<lparr>skillRows := save_row sk_id t (skillRows w)\<rparr>)"
      "t = s \<or> t = s\<lparr>sk_updatedAt := clock w\<rparr>"
proof (cases "(\<forall>v. sk_embedding s = Some v \<longrightarrow> length v = 768) \<and> smallint (sk_version s)")
  case True
  let ?t = "if find_row sk_id (sk_id s) (skillRows w) = Some s then s else s\<lparr>sk_updatedAt := clock w\<rparr>"
  have "update_skill s w = (Inr ?t, w\<lparr>skillRows := save_row sk_id ?t (skillRows w)\<rparr>)"
    using True by (simp add: update_skill_def vector_column_run run_simps save_skill_def Let_def)
  then show ?thesis by (rule ok) simp
next
  case False
  then have "\<exists>e. update_skill s w = (Inl e, w)"
    by (cases "\<forall>v. sk_embedding s = Some v \<longrightarrow> length v = 768") (auto simp: update_skill_def vector_column_run run_simps)
  then show ?thesis using bad by blast
qed

text \<open>Whatever follows the refused audit entry never happens: the row is stored, the request fails.\<close>

lemma stored_then_refused:
  assumes "i \<notin> wf_id ` set (workflowRows w)"
  shows "andThen (logSkillChange i a b s e) k w = (Inl refused, w\<lparr>idNext := Suc (idNext w)\<rparr>)"
  by (simp add: audit_refused [OF assms] andThen_def)

lemma create_outcome:
  assumes "idSupply w (idNext w) \<notin> wf_id ` set (workflowRows w)"
  shows "\<exists>e v. createSkill embedText dto caller w = (Inl e, v) \<and> auditRows v = auditRows w \<and>
    (e \<noteq> refused \<or> (\<exists>s. skillRows v = skillRows w @ [s] \<and> sk_name s = ck_name dto \<and> sk_isActive s))"
proof -
  let ?u = "w\<lparr>idNext := Suc (idNext w)\<rparr>"
  consider "\<not> can_modify caller"
    | "can_modify caller" "ck_skillType dto = SkillType.ACTOR_CATALOG" "active_catalog (rq_orgId caller) w"
    | (passed) "can_modify caller"
      "unless (ck_skillType dto \<noteq> SkillType.ACTOR_CATALOG) (validateActorCatalogUniqueness (rq_orgId caller)) w = (Inr (), w)"
    by (cases "ck_skillType dto = SkillType.ACTOR_CATALOG"; cases "active_catalog (rq_orgId caller) w")
      (auto simp: unless_def validateActorCatalogUniqueness_def check_def)
  then show ?thesis
  proof cases
    case passed
    note start = createSkill_def can_modify_run andThen_run(1) [of "assertCanModify r" w] run_simps passed
    show ?thesis
    proof (cases "embedText (prepareContentForEmbedding (ck_name dto) (ck_content dto))")
      case None
      then show ?thesis by (simp add: start)
    next
      case (Some e)
      let ?s = "new_skill dto (wanted_mandatory dto) e caller (idSupply w (idNext w)) (clock w)"
      show ?thesis
      proof (cases ?s ?u rule: insert_skill_cases)
        case (bad f)
        then have "f \<noteq> refused"
          by (auto simp: insert_skill_def vector_column_run run_iffs split: if_splits)
        then show ?thesis using bad Some by (simp add: start)
      next
        case ok
        let ?v = "?u\<lparr>skillRows := skillRows w @ [?s]\<rparr>"
        have id: "sk_id ?s = idSupply w (idNext w)" "sk_name ?s = ck_name dto" "sk_isActive ?s" by (simp_all add: new_skill_def)
        have "idSupply w (idNext w) \<notin> wf_id ` set (workflowRows ?v)" using assms by simp
        then have "logSkillChange (sk_id ?s) (rq_id caller) None (Some (skill_json ?s)) ''SKILL_CREATED'' ?v =
            (Inl refused, ?v\<lparr>idNext := Suc (idNext ?v)\<rparr>)" unfolding id(1) by (rule audit_refused)
        then show ?thesis using ok Some id by (simp add: start)
      qed
    qed
  qed (simp_all add: createSkill_def can_modify_run run_simps validateActorCatalogUniqueness_def)
qed

lemma change_outcome:
  assumes "i \<notin> wf_id ` set (workflowRows w)"
  shows "\<exists>e v. andThen (update_skill t) (\<lambda>u. andThen (logSkillChange i a (b u) (c u) ev) (k u)) w = (Inl e, v) \<and>
    auditRows v = auditRows w \<and> (e \<noteq> refused \<or> (\<exists>s \<in> set (skillRows v). s = t \<or> s = t\<lparr>sk_updatedAt := clock w\<rparr>))"
proof (cases t w rule: update_skill_cases)
  case (bad e)
  then have "e \<noteq> refused" by (auto simp: update_skill_def vector_column_run run_iffs save_skill_def Let_def split: if_splits)
  then show ?thesis using bad by (simp add: run_simps)
next
  case (ok s)
  let ?v = "w\<lparr>skillRows := save_row sk_id s (skillRows w)\<rparr>"
  have "i \<notin> wf_id ` set (workflowRows ?v)" using assms by simp
  from stored_then_refused [OF this, of a "b s" "c s" ev "k s"] show ?thesis using ok by (auto simp: andThen_run set_save_row)
qed

lemma update_outcome:
  assumes "i \<notin> wf_id ` set (workflowRows w)"
  shows "\<exists>e v. updateSkill embedText i dto caller w = (Inl e, v) \<and> auditRows v = auditRows w"
proof (cases "find (\<lambda>s. sk_id s = i \<and> sk_orgId s = rq_orgId caller) (skillRows w)")
  case None
  then show ?thesis by (simp add: updateSkill_def findSkillByIdAndOrg_def run_simps)
next
  case (Some s)
  let ?tail = "\<lambda>t. andThen (update_skill t) (\<lambda>updated.
     andThen (logSkillChange i (rq_id caller) (Some (skill_json s)) (Some (skill_json updated)) ''SKILL_UPDATED'') (\<lambda>_.
     ret (JObj (toResponseDto updated))))"
  have kept: "\<exists>e v. ?tail t w = (Inl e, v) \<and> auditRows v = auditRows w" for t
    using change_outcome [OF assms, of t "rq_id caller" "\<lambda>_. Some (skill_json s)" "\<lambda>u. Some (skill_json u)" "''SKILL_UPDATED''"
        "\<lambda>u _. ret (JObj (toResponseDto u))"] by blast
  let ?embedding = "embedText (prepareContentForEmbedding (sk_name (patch_skill dto s)) (the (uk_content dto)))"
  consider "\<not> can_modify caller" | "can_modify caller" "sk_skillType s = SkillType.ACTOR_CATALOG" "uk_isMandatory dto = Some False"
    | "can_modify caller" "\<not> (sk_skillType s = SkillType.ACTOR_CATALOG \<and> uk_isMandatory dto = Some False)"
    by blast
  then show ?thesis
  proof cases
    case 3
    then have "updateSkill embedText i dto caller w =
       (if content_changed dto s
        then (case ?embedding of
                None \<Rightarrow> (Inl (InternalServerErrorException (JStr ''Failed to regenerate skill embedding'')), w)
              | Some e \<Rightarrow> ?tail ((patch_skill dto s)\<lparr>sk_version := sk_version (patch_skill dto s) + 1,
                  sk_embedding := (if e = None then sk_embedding (patch_skill dto s) else e)\<rparr>) w)
        else ?tail (patch_skill dto s) w)"
      using Some by (simp add: updateSkill_def findSkillByIdAndOrg_def run_simps can_modify_run Let_def split: option.split)
    then show ?thesis using kept by (cases "content_changed dto s"; cases ?embedding) simp_all
  qed (use Some in \<open>simp_all add: updateSkill_def findSkillByIdAndOrg_def run_simps can_modify_run Let_def\<close>)
qed

lemma remove_outcome:
  assumes "i \<notin> wf_id ` set (workflowRows w)"
  shows "\<exists>e v. removeSkill i caller w = (Inl e, v) \<and> auditRows v = auditRows w \<and>
    (e = refused \<longrightarrow> (\<exists>s \<in> set (skillRows v). sk_id s = i \<and> \<not> sk_isActive s))"
proof (cases "find (\<lambda>s. sk_id s = i \<and> sk_orgId s = rq_orgId caller) (skillRows w)")
  case None
  then show ?thesis by (simp add: removeSkill_def findSkillByIdAndOrg_def run_simps)
next
  case (Some s)
  let ?t = "s\<lparr>sk_isActive := False\<rparr>"
  have i: "sk_id s = i" using find_Some_set [OF Some] by simp
  consider "\<not> can_modify caller" | "can_modify caller" "sk_skillType s = SkillType.ACTOR_CATALOG \<and> sk_isMandatory s"
    | (allowed) "can_modify caller" "\<not> (sk_skillType s = SkillType.ACTOR_CATALOG \<and> sk_isMandatory s)"
    by blast
  then show ?thesis
  proof cases
    case allowed
    note start = removeSkill_def findSkillByIdAndOrg_def can_modify_run run_simps
    show ?thesis
    proof (cases ?t w rule: update_skill_cases)
      case (bad e)
      then have "e \<noteq> refused" by (auto simp: update_skill_def vector_column_run run_iffs save_skill_def Let_def split: if_splits)
      then show ?thesis using bad allowed Some by (auto simp: start)
    next
      case (ok t)
      let ?v = "w\<lparr>skillRows := save_row sk_id t (skillRows w)\<rparr>"
      have "i \<notin> wf_id ` set (workflowRows ?v)" using assms by simp
      note log = audit_refused [OF this]
      have t: "sk_id t = i" "\<not> sk_isActive t" using ok(2) i by auto
      then have "\<exists>s \<in> set (skillRows ?v). sk_id s = i \<and> \<not> sk_isActive s" by (auto simp: set_save_row)
      then show ?thesis using ok(1) allowed Some log by (auto simp: start)
    qed
  qed (use Some in \<open>auto simp: removeSkill_def findSkillByIdAndOrg_def can_modify_run run_simps\<close>)
qed

text \<open>C35. No change of a skill is ever answered with success: the audit entry names the skill as its workflow, which the
database refuses because no workflow has that id. The audit log records nothing, but a creation or removal that got as
far as the audit entry is stored: the new skill is there, the removed skill inactive, and the caller sees a 500.\<close>

theorem skill_changes_report_failure:
  assumes ids: "sk_id ` set (skillRows w) \<inter> wf_id ` set (workflowRows w) = {}"
      "idSupply w (idNext w) \<notin> wf_id ` set (workflowRows w)"
    and run: "perform_skill embedText c caller w = (r, v)"
  shows "\<exists>e. r = Inl e \<and> auditRows v = auditRows w \<and>
    (e = refused \<longrightarrow> (case c of
        Create dto \<Rightarrow> \<exists>s. skillRows v = skillRows w @ [s] \<and> sk_name s = ck_name dto \<and> sk_isActive s
      | Update i dto \<Rightarrow> True
      | Remove i \<Rightarrow> \<exists>s \<in> set (skillRows v). sk_id s = i \<and> \<not> sk_isActive s))"
proof (cases c)
  case (Create dto)
  then show ?thesis using create_outcome [OF ids(2), of embedText dto caller] run by (auto simp: forget_run)
next
  case (Update i dto)
  have "\<exists>e u. updateSkill embedText i dto caller w = (Inl e, u) \<and> auditRows u = auditRows w"
  proof (cases "find (\<lambda>s. sk_id s = i \<and> sk_orgId s = rq_orgId caller) (skillRows w)")
    case None
    then show ?thesis by (simp add: updateSkill_def findSkillByIdAndOrg_def run_simps)
  next
    case (Some s)
    then have "i \<notin> wf_id ` set (workflowRows w)" using ids(1) find_Some_set [OF Some] by blast
    then show ?thesis by (rule update_outcome)
  qed
  then show ?thesis using Update run by (auto simp: forget_run)
next
  case (Remove i)
  show ?thesis
  proof (cases "find (\<lambda>s. sk_id s = i \<and> sk_orgId s = rq_orgId caller) (skillRows w)")
    case None
    then have "removeSkill i caller w = (Inl (NotFoundException (JStr ''Skill not found'')), w)"
      by (simp add: removeSkill_def findSkillByIdAndOrg_def run_simps)
    then show ?thesis using Remove run by auto
  next
    case (Some s)
    then have "i \<notin> wf_id ` set (workflowRows w)" using ids(1) find_Some_set [OF Some] by blast
    then show ?thesis using remove_outcome [of i w caller] Remove run by auto
  qed
qed

definition sample_skill_dto :: CreateSkillDto where
  "sample_skill_dto = \<lparr>ck_name = ''Glossary'', ck_description = None, ck_skillType = SkillType.VOCABULARY, ck_content = ''...'',
     ck_appliesToDomains = None, ck_appliesToAgents = None, ck_isMandatory = None\<rparr>"

definition sample_analyst :: RequestUser where
  "sample_analyst = \<lparr>rq_id = ''u1'', rq_orgId = ''o1'', rq_role = ''business_analyst''\<rparr>"

theorem skill_changes_report_failure_witness:
  "fst (perform_skill (\<lambda>_. Some None) (Create sample_skill_dto) sample_analyst sample_world) = Inl refused \<and>
   length (skillRows (snd (perform_skill (\<lambda>_. Some None) (Create sample_skill_dto) sample_analyst sample_world))) = 1"
proof -
  let ?run = "perform_skill (\<lambda>_. Some None) (Create sample_skill_dto) sample_analyst sample_world"
  have e: "fst ?run = Inl refused"
    by (simp add: createSkill_def assertCanModify_def sample_analyst_def run_simps sample_skill_dto_def
        insert_skill_def vector_column_def new_skill_def sample_defs logSkillChange_def audit_log_def audit_entry_def
        insert_audit_def workflowExists_def Let_def forget_def)
  have ids: "sk_id ` set (skillRows sample_world) \<inter> wf_id ` set (workflowRows sample_world) = {}"
    "idSupply sample_world (idNext sample_world) \<notin> wf_id ` set (workflowRows sample_world)"
    by (simp_all add: sample_defs)
  have "?run = (fst ?run, snd ?run)" by (rule prod.collapse [symmetric])
  from skill_changes_report_failure [OF ids this] e show ?thesis by (auto simp: sample_defs)
qed

section \<open>Importing\<close>

text \<open>With one rejected entry the import stores the wrong ones: here the rejected actor catalogue is stored, with the embedding
of the other entry, and the accepted entry is dropped, while the answer reports one import and the rejection.\<close>

definition catalog_dto :: CreateSkillDto where
  "catalog_dto = sample_skill_dto\<lparr>ck_name := ''Actors'', ck_skillType := SkillType.ACTOR_CATALOG\<rparr>"

definition catalog_world :: world where
  "catalog_world = sample_world\<lparr>skillRows := [new_skill catalog_dto True None sample_analyst ''k1'' 0]\<rparr>"

lemma catalog_checked:
  "assertCanModify (rq_role sample_analyst) catalog_world = (Inr (), catalog_world)"
  "import_rejected ''o1'' catalog_world catalog_dto" "\<not> import_rejected ''o1'' catalog_world sample_skill_dto"
  "rq_orgId sample_analyst = ''o1''"
  by (simp_all add: assertCanModify_def run_simps import_rejected_def active_catalog_def catalog_world_def new_skill_def
      catalog_dto_def sample_skill_dto_def sample_analyst_def)

lemma catalog_inserted:
  "\<exists>v s. insert_imported sample_analyst [(catalog_dto, None)] catalog_world = (Inr (), v) \<and>
     skillRows v = skillRows catalog_world @ [s] \<and> sk_name s = ''Actors'' \<and> sk_skillType s = SkillType.ACTOR_CATALOG"
  by (simp add: run_simps insert_skill_def vector_column_def catalog_world_def sample_defs new_skill_def wanted_mandatory_def
      catalog_dto_def sample_skill_dto_def sample_analyst_def)

lemma import_stores_rejected:
  "\<exists>v s. importSkills (\<lambda>_. Some [None]) [catalog_dto, sample_skill_dto] sample_analyst catalog_world =
      (Inr (1, [(0, ''ACTOR_CATALOG already exists for org'')]), v) \<and>
     skillRows v = skillRows catalog_world @ [s] \<and> sk_name s = ''Actors'' \<and> sk_skillType s = SkillType.ACTOR_CATALOG"
  using catalog_inserted catalog_checked(2,3)
  by (auto simp: importSkills_def run_simps catalog_checked(1,4) in_transaction_def simp del: insert_imported.simps)

section \<open>Searching\<close>

lemma all_results_Inr: "all_results rs = Inr xs \<Longrightarrow> rs = map Inr xs"
proof (induction rs arbitrary: xs)
  case (Cons r rs)
  show ?case
  proof (cases r)
    case (Inl e)
    then show ?thesis using Cons.prems by simp
  next
    case (Inr x)
    then obtain ys where "all_results rs = Inr ys" "xs = x # ys" using Cons.prems by (cases "all_results rs") simp_all
    then show ?thesis using Cons.IH [of ys] Inr by simp
  qed
qed simp

lemma in_take_sort_desc: "x \<in> set (take n (sort_desc f xs)) \<Longrightarrow> x \<in> set xs"
  by (drule in_set_takeD) simp

lemma search_result_score: "search_result p = Inr x \<Longrightarrow> sr_similarityScore x = snd p \<and> sr_id x = sk_id (fst p)"
  by (cases p; cases "content_preview (fst p)") (auto simp: search_result_def)

text \<open>The results of a search are the best ones first, at most as many as asked for, none below the threshold, and each the
score of an active skill of the caller's organization.\<close>

lemma search_results:
  assumes "semanticSearch embedText flat ratio dto caller w = (Inr xs, v)"
  shows "v = w \<and> length xs \<le> ss_topK dto \<and> sorted_wrt (\<lambda>x y. sr_similarityScore y \<le> sr_similarityScore x) xs \<and>
    (\<forall>x \<in> set xs. ss_minSimilarity dto \<le> sr_similarityScore x \<and>
      (\<exists>s \<in> set (skillRows w). sk_id s = sr_id x \<and> sk_orgId s = rq_orgId caller \<and> sk_isActive s))"
proof -
  let ?pool = "search_pool (rq_orgId caller) w"
  obtain q where q: "all_results (map search_result (take (ss_topK dto) (sort_desc snd
       (filter (\<lambda>(s, r). ss_minSimilarity dto \<le> r) (scored_skills (cosineSimilarity flat ratio) q ?pool))))) = Inr xs" "v = w"
  proof (cases "embedText (ss_queryText dto)")
    case None
    then show ?thesis using assms by (simp add: semanticSearch_def run_simps)
  next
    case (Some q)
    let ?types = "ss_filterTypes dto = None \<or> ss_filterTypes dto = Some []"
    let ?usable = "q \<noteq> None \<or> (\<forall>s \<in> set ?pool. sk_embedding s = None)"
    let ?found = "all_results (map search_result (take (ss_topK dto) (sort_desc snd
       (filter (\<lambda>(s, r). ss_minSimilarity dto \<le> r) (scored_skills (cosineSimilarity flat ratio) (the q) ?pool)))))"
    have "semanticSearch embedText flat ratio dto caller w =
       (if \<not> ?types then (Inl (QueryFailedError ''invalid input value for enum skill_type_enum''), w)
        else if \<not> ?usable then (Inl (TypeError ''Cannot read properties of undefined''), w) else (?found, w))"
      unfolding semanticSearch_def andThen_def check_def orThrow_def reading_def liftSum_def Some
      by (cases ?types; cases ?usable) auto
    then have "?found = Inr xs \<and> v = w" using assms by (auto split: if_splits)
    then show ?thesis using that by blast
  qed
  let ?ps = "take (ss_topK dto) (sort_desc snd (filter (\<lambda>(s, r). ss_minSimilarity dto \<le> r) (scored_skills (cosineSimilarity flat ratio) q ?pool)))"
  have m: "map search_result ?ps = map Inr xs" using q(1) by (rule all_results_Inr)
  then have len: "length xs = length ?ps" by (metis length_map)
  have each: "sr_similarityScore (xs ! k) = snd (?ps ! k) \<and> sr_id (xs ! k) = sk_id (fst (?ps ! k))" if "k < length xs" for k
  proof -
    have "search_result (?ps ! k) = Inr (xs ! k)"
      using arg_cong [OF m, of "\<lambda>zs. zs ! k"] that len by (simp only: nth_map)
    then show ?thesis by (rule search_result_score)
  qed
  have "sorted_wrt (\<lambda>x y. snd y \<le> snd x) ?ps" by (intro sorted_wrt_take sorted_sort_desc)
  then have sorted: "sorted_wrt (\<lambda>x y. sr_similarityScore y \<le> sr_similarityScore x) xs"
    by (auto simp: sorted_wrt_iff_nth_less each len)
  have "ss_minSimilarity dto \<le> sr_similarityScore x \<and>
      (\<exists>s \<in> set (skillRows w). sk_id s = sr_id x \<and> sk_orgId s = rq_orgId caller \<and> sk_isActive s)" if x: "x \<in> set xs" for x
  proof -
    obtain k where k: "k < length xs" "xs ! k = x" using x unfolding in_set_conv_nth by blast
    then have "?ps ! k \<in> set ?ps" unfolding len by (rule_tac nth_mem)
    then have "?ps ! k \<in> set (filter (\<lambda>(s, r). ss_minSimilarity dto \<le> r) (scored_skills (cosineSimilarity flat ratio) q ?pool))"
      by (rule in_take_sort_desc)
    then have "ss_minSimilarity dto \<le> snd (?ps ! k)" "fst (?ps ! k) \<in> set ?pool"
      by (auto simp: scored_skills_def List.map_filter_def)
    then show ?thesis using each [OF k(1)] k(2) by (auto simp: search_pool_def)
  qed
  then show ?thesis using q(2) sorted len by auto
qed

end
