(* ===== verification/Http.thy ===== *)
theory Http
  imports Sessions Organizations Workflows
begin

text \<open>
  What every request passes on its way to a service and back (\<open>src/core\<close>, registered in \<open>main.ts\<close> and
  \<open>app.module.ts\<close>): the request context, the global guards, the interceptors, the exception filter.

  The framework is a parameter (\<open>framework\<close>): the user the named passport strategy finds in a request (or its error), the
  body of an exception, the throttler, and the test of the uuid pipe. The log output is computed but not stored.
\<close>

section \<open>Requests, responses and the request context\<close>

datatype HeaderValue = NoHeader | OneHeader string | ManyHeaders "string list"

record HttpUser =
  hu_id :: "string option"
  hu_sub :: "string option"
  hu_orgId :: "string option"
  hu_org_id :: "string option"
  hu_role :: "string option"

datatype HttpMethod = GET | POST | PATCH | DELETE | HEAD | OTHER

record HttpRequest =
  ht_method :: HttpMethod
  ht_url :: string
  ht_path :: "string list"
  ht_params :: "(string \<times> string) list"
  ht_correlation :: HeaderValue
  ht_authorization :: "string option"
  ht_user :: "HttpUser option"
  ht_correlationId :: "string option"

record HttpResponse =
  re_status :: int
  re_correlation :: "string option"
  re_body :: json

record framework =
  passport :: "string \<Rightarrow> HttpRequest \<Rightarrow> error + HttpUser option"
  getResponse :: "error \<Rightarrow> json"
  throttle :: "HttpRequest \<Rightarrow> error option"
  pipeUUID :: "string \<Rightarrow> bool"

text \<open>The context of a request lives in asynchronous local storage: without a store \<open>setContext\<close> changes nothing.\<close>

record RequestContext =
  rc_userId :: "string option"
  rc_orgId :: "string option"
  rc_correlationId :: string
  rc_role :: "string option"

definition setContext :: "(RequestContext \<Rightarrow> RequestContext) \<Rightarrow> RequestContext option \<Rightarrow> RequestContext option" where
  "setContext patch store = map_option patch store"

definition getOrgId :: "RequestContext option \<Rightarrow> string option" where
  "getOrgId store = Option.bind store rc_orgId"

definition getUserId :: "RequestContext option \<Rightarrow> string option" where
  "getUserId store = Option.bind store rc_userId"

definition orElse :: "'a option \<Rightarrow> 'a option \<Rightarrow> 'a option" where
  "orElse x y = (case x of None \<Rightarrow> y | Some z \<Rightarrow> Some z)"

section \<open>Guards\<close>

text \<open>The metadata of the method wins over that of the class.\<close>

definition getAllAndOverride :: "'a option \<Rightarrow> 'a option \<Rightarrow> 'a option" where
  "getAllAndOverride ofMethod ofClass = orElse ofMethod ofClass"

text \<open>\<open>AuthGuard(strategy)\<close> stores the user the strategy found; no user and no error is an \<open>UnauthorizedException\<close>.\<close>

definition handleRequest :: "error + HttpUser option \<Rightarrow> error + HttpUser" where
  "handleRequest r =
     (case r of
        Inl err \<Rightarrow> Inl err
      | Inr None \<Rightarrow> Inl (UnauthorizedException JNull)
      | Inr (Some user) \<Rightarrow> Inr user)"

definition authGuard :: "framework \<Rightarrow> string \<Rightarrow> HttpRequest \<Rightarrow> error + HttpRequest" where
  "authGuard fw strategy request =
     map_sum id (\<lambda>user. request\<lparr>ht_user := Some user\<rparr>) (handleRequest (passport fw strategy request))"

definition dev_user :: HttpUser where
  "dev_user = \<lparr>hu_id = Some ''00000000-0000-0000-0000-000000000001'', hu_sub = None,
     hu_orgId = Some ''00000000-0000-0000-0000-00000000a000'', hu_org_id = None, hu_role = Some ''admin''\<rparr>"

definition jwtAuthGuard :: "framework \<Rightarrow> bool \<Rightarrow> bool \<Rightarrow> HttpRequest \<Rightarrow> error + HttpRequest" where
  "jwtAuthGuard fw bypassAuth isPublic request =
     (if isPublic then Inr request
      else if bypassAuth \<and> \<not> truthy (ht_authorization request) then Inr (request\<lparr>ht_user := Some dev_user\<rparr>)
      else authGuard fw ''jwt-access'' request)"

definition rolesGuard :: "string list option \<Rightarrow> HttpRequest \<Rightarrow> error + HttpRequest" where
  "rolesGuard requiredRoles request =
     (case requiredRoles of
        None \<Rightarrow> Inr request
      | Some roles \<Rightarrow>
          if (\<exists>user r. ht_user request = Some user \<and> hu_role user = Some r \<and> r \<in> set roles) then Inr request
          else Inl (ForbiddenException (JStr ''You do not have the required role to access this resource'')))"

section \<open>Interceptors\<close>

text \<open>The correlation id is that of the request, or a fresh one; the first of several headers is taken as it is.\<close>

definition incoming_id :: "HeaderValue \<Rightarrow> string option" where
  "incoming_id h =
     (case h of
        NoHeader \<Rightarrow> None
      | OneHeader c \<Rightarrow> if c = [] then None else Some c
      | ManyHeaders cs \<Rightarrow> if cs = [] then None else Some (hd cs))"

definition correlationIdInterceptor :: "HttpRequest \<Rightarrow> (HttpRequest \<times> RequestContext) service" where
  "correlationIdInterceptor request =
     andThen (case incoming_id (ht_correlation request) of Some c \<Rightarrow> ret c | None \<Rightarrow> new_id) (\<lambda>correlationId.
     ret (request\<lparr>ht_correlationId := Some correlationId\<rparr>,
       \<lparr>rc_userId = Option.bind (ht_user request) (\<lambda>u. orElse (hu_id u) (hu_sub u)),
        rc_orgId = Option.bind (ht_user request) (\<lambda>u. orElse (hu_orgId u) (hu_org_id u)),
        rc_correlationId = correlationId, rc_role = Option.bind (ht_user request) hu_role\<rparr>))"

text \<open>The handler runs inside the context; what it sees of it is the correlation id.\<close>

definition run_in_context :: "RequestContext \<Rightarrow> 'a service \<Rightarrow> 'a service" where
  "run_in_context context handler w =
     (case handler (w\<lparr>correlationId := Some (rc_correlationId context)\<rparr>) of
        (r, v) \<Rightarrow> (r, v\<lparr>correlationId := correlationId w\<rparr>))"

text \<open>The organization scope, an interceptor that is registered nowhere: it refuses a user without organization.\<close>

definition orgScopeInterceptor ::
  "bool \<Rightarrow> HttpRequest \<Rightarrow> RequestContext option \<Rightarrow> error + string option \<times> RequestContext option" where
  "orgScopeInterceptor isPublic request store =
     (if isPublic then Inr (None, store)
      else
        (let orgId = Option.bind (ht_user request) (\<lambda>u. orElse (hu_orgId u) (hu_org_id u)) in
         if ht_user request \<noteq> None \<and> \<not> truthy orgId
         then Inl (ForbiddenException (JStr ''Organization scope is required''))
         else if truthy orgId then Inr (orgId, setContext (\<lambda>c. c\<lparr>rc_orgId := orgId\<rparr>) store)
         else Inr (None, store)))"

text \<open>What the logging interceptor writes: a failure carries the status of the exception if it has one, and otherwise the
status the response had at that moment, which is the one of success.\<close>

fun isHttpException :: "error \<Rightarrow> bool" where
  "isHttpException (PlainError m) = False"
| "isHttpException (TypeError m) = False"
| "isHttpException (QueryFailedError m) = False"
| "isHttpException NatsError = False"
| "isHttpException e = True"

definition method_name :: "HttpMethod \<Rightarrow> string" where
  "method_name m = (case m of GET \<Rightarrow> ''GET'' | POST \<Rightarrow> ''POST'' | PATCH \<Rightarrow> ''PATCH'' | DELETE \<Rightarrow> ''DELETE'' | HEAD \<Rightarrow> ''HEAD''
     | OTHER \<Rightarrow> ''OPTIONS'')"

definition log_entry :: "HttpRequest \<Rightarrow> int \<Rightarrow> nat \<Rightarrow> error + json \<Rightarrow> json" where
  "log_entry request responseStatus duration outcome =
     obj [(''msg'', Some (JStr (case outcome of Inr x \<Rightarrow> ''request completed'' | Inl e \<Rightarrow> ''request failed''))),
       (''method'', Some (JStr (method_name (ht_method request)))), (''path'', Some (JStr (ht_url request))),
       (''statusCode'', Some (json_int (case outcome of
          Inr x \<Rightarrow> responseStatus | Inl e \<Rightarrow> if isHttpException e then getStatus e else responseStatus))),
       (''duration_ms'', Some (json_int (int duration))),
       (''user_id'', map_option JStr (Option.bind (ht_user request) (\<lambda>u. orElse (hu_id u) (hu_sub u)))),
       (''org_id'', map_option JStr (Option.bind (ht_user request) (\<lambda>u. orElse (hu_orgId u) (hu_org_id u)))),
       (''correlationId'', map_option JStr (ht_correlationId request)),
       (''error'', (case outcome of Inr x \<Rightarrow> None | Inl e \<Rightarrow> Some (JStr (error_message e))))]"

section \<open>The exception filter\<close>

definition errorNameForStatus :: "int \<Rightarrow> string" where
  "errorNameForStatus status =
     (if status = 400 then ''ValidationError'' else if status = 401 then ''Unauthorized''
      else if status = 403 then ''Forbidden'' else if status = 404 then ''NotFound'' else if status = 409 then ''Conflict''
      else if status = 422 then ''UnprocessableEntity'' else if status = 429 then ''TooManyRequests''
      else if 500 \<le> status then ''InternalServerError'' else ''HttpError'')"

definition normalizeResponse :: "json \<Rightarrow> int \<Rightarrow> json \<times> json" where
  "normalizeResponse exceptionResponse status =
     (case exceptionResponse of
        JStr m \<Rightarrow> (JStr (errorNameForStatus status), JStr m)
      | response \<Rightarrow>
          (let error = (if status = 400 then JStr ''ValidationError''
                        else nullish (field response ''error'') (JStr (errorNameForStatus status)));
               structured = filter (\<lambda>(k, v). k \<noteq> ''error'') (case response of JObj fs \<Rightarrow> fs | _ \<Rightarrow> [])
           in (error, case field response ''message'' of
                 Some m \<Rightarrow> m
               | None \<Rightarrow> if structured \<noteq> [] then JObj structured else JStr (errorNameForStatus status))))"

definition filter_correlation :: "HttpRequest \<Rightarrow> string option" where
  "filter_correlation request =
     (let header = (case ht_correlation request of NoHeader \<Rightarrow> None | OneHeader c \<Rightarrow> Some c
                    | ManyHeaders cs \<Rightarrow> if cs = [] then None else Some (hd cs))
      in if truthy (ht_correlationId request) then ht_correlationId request
         else if truthy header then header else None)"

definition catchException :: "framework \<Rightarrow> error \<Rightarrow> HttpRequest \<Rightarrow> world \<Rightarrow> HttpResponse \<times> world" where
  "catchException fw exception request w =
     (let status = (if isHttpException exception then getStatus exception else 500);
          response = (if isHttpException exception then getResponse fw exception else JStr ''Internal server error'');
          (error, message) = normalizeResponse response status;
          (correlation, v) = (case filter_correlation request of
             Some c \<Rightarrow> (c, w)
           | None \<Rightarrow> (idSupply w (idNext w), w\<lparr>idNext := Suc (idNext w)\<rparr>))
      in (\<lparr>re_status = status, re_correlation = Some correlation,
           re_body = JObj [(''statusCode'', json_int status), (''error'', error), (''message'', message),
             (''correlationId'', JStr correlation), (''path'', JStr (ht_url request)),
             (''timestamp'', JStr (toISOString (new_Date w)))]\<rparr>, v))"

end
