(* ===== verification/Routes.thy ===== *)
theory Routes
  imports Http
begin

text \<open>
  The routes: the decorators of every controller under \<open>src/modules\<close> as a table, the dispatch of a request to the first
  route that matches, and the whole way of a request from the dispatch to the answer.

  Routing and the order of guards, interceptors and pipes are those the framework documents: the first registered route that
  matches wins; global guards run before those of the class and these before those of the method; pipes run last.

  What a handler does is a parameter here (\<open>handler\<close>, applied to the names of controller and method and to the request);
  the services behind the handlers are the other theories. Body and query validation and the file upload belong to it.
\<close>

datatype Guard = JwtAuthGuard | PassportJwt | SessionOrgGuard | OrgMemberGuard | ThrottlerGuard

record Route =
  rt_method :: HttpMethod
  rt_path :: string
  rt_handler :: string
  rt_public :: bool
  rt_roles :: "string list option"
  rt_guards :: "Guard list"
  rt_uuids :: "string list"
  rt_status :: int

record Controller =
  co_name :: string
  co_prefix :: string
  co_guards :: "Guard list"
  co_roles :: "string list option"
  co_routes :: "Route list"

definition endpoint :: "HttpMethod \<Rightarrow> string \<Rightarrow> string \<Rightarrow> Route" where
  "endpoint m path name =
     \<lparr>rt_method = m, rt_path = path, rt_handler = name, rt_public = False, rt_roles = None, rt_guards = [], rt_uuids = [],
      rt_status = (if m = POST then 201 else 200)\<rparr>"

definition rule_roles :: "string list" where
  "rule_roles = [user_role_str UserRole.ADMIN, user_role_str UserRole.BUSINESS_ANALYST]"

definition audit_roles :: "string list" where
  "audit_roles = [user_role_str UserRole.ADMIN, user_role_str UserRole.PROCESS_OWNER, user_role_str UserRole.BUSINESS_ANALYST]"

section \<open>The table\<close>

definition health_controller :: Controller where
  "health_controller = \<lparr>co_name = ''HealthController'', co_prefix = ''health'', co_guards = [],
     co_roles = None, co_routes =
      [(endpoint GET [] ''check'')\<lparr>rt_public := True\<rparr>,
       (endpoint GET ''details'' ''checkDetails'')\<lparr>rt_roles := Some [''Admin'']\<rparr>,
       (endpoint GET ''ai-service'' ''checkAiService'')\<lparr>rt_roles := Some [''Admin'']\<rparr>,
       (endpoint GET ''ollama'' ''checkOllama'')\<lparr>rt_roles := Some [''Admin'']\<rparr>,
       (endpoint GET ''pgvector'' ''checkPgVector'')\<lparr>rt_roles := Some [''Admin'']\<rparr>,
       (endpoint GET ''nats'' ''checkNatsStats'')\<lparr>rt_roles := Some [''Admin'']\<rparr>,
       (endpoint GET ''ping'' ''ping'')\<lparr>rt_public := True\<rparr>]\<rparr>"

definition documents_controller :: Controller where
  "documents_controller = \<lparr>co_name = ''DocumentsController'', co_prefix = ''documents'', co_guards = [JwtAuthGuard],
     co_roles = None, co_routes =
      [endpoint POST ''upload'' ''uploadDocument'',
       (endpoint GET '':id'' ''getDocument'')\<lparr>rt_uuids := [''id'']\<rparr>,
       (endpoint GET '':id/extracted-text'' ''getExtractedText'')\<lparr>rt_uuids := [''id'']\<rparr>,
       (endpoint PATCH '':id/extracted-text'' ''updateExtractedText'')\<lparr>rt_uuids := [''id'']\<rparr>,
       (endpoint POST '':id/reprocess'' ''reprocessDocument'')\<lparr>rt_uuids := [''id''], rt_status := 202\<rparr>,
       (endpoint DELETE '':id'' ''deleteDocument'')\<lparr>rt_uuids := [''id''], rt_status := 204\<rparr>]\<rparr>"

definition workflow_documents_controller :: Controller where
  "workflow_documents_controller = \<lparr>co_name = ''WorkflowDocumentsController'', co_prefix = ''workflows'', co_guards = [JwtAuthGuard],
     co_roles = None, co_routes =
      [(endpoint GET '':workflowId/documents'' ''listDocuments'')\<lparr>rt_uuids := [''workflowId'']\<rparr>]\<rparr>"

definition messages_controller :: Controller where
  "messages_controller = \<lparr>co_name = ''MessagesController'', co_prefix = ''messages'', co_guards = [],
     co_roles = None, co_routes =
      [(endpoint GET '':id'' ''getMessage'')\<lparr>rt_uuids := [''id'']\<rparr>]\<rparr>"

definition session_messages_controller :: Controller where
  "session_messages_controller = \<lparr>co_name = ''SessionMessagesController'', co_prefix = ''sessions/:sessionId/messages'', co_guards = [],
     co_roles = None, co_routes =
      [(endpoint POST [] ''createMessage'')\<lparr>rt_uuids := [''sessionId'']\<rparr>,
       (endpoint GET [] ''listMessages'')\<lparr>rt_uuids := [''sessionId'']\<rparr>,
       (endpoint GET ''export'' ''exportMessages'')\<lparr>rt_uuids := [''sessionId'']\<rparr>]\<rparr>"

definition organizations_controller :: Controller where
  "organizations_controller = \<lparr>co_name = ''OrganizationsController'', co_prefix = ''org'', co_guards = [],
     co_roles = Some [user_role_str UserRole.ADMIN], co_routes =
      [endpoint POST ''invite'' ''invite'',
       (endpoint PATCH ''users/:id/role'' ''updateRole'')\<lparr>rt_guards := [OrgMemberGuard]\<rparr>,
       (endpoint DELETE ''users/:id'' ''revoke'')\<lparr>rt_guards := [OrgMemberGuard]\<rparr>]\<rparr>"

definition projects_controller :: Controller where
  "projects_controller = \<lparr>co_name = ''ProjectsController'', co_prefix = ''projects'', co_guards = [],
     co_roles = None, co_routes =
      [endpoint POST [] ''create'',
       endpoint GET [] ''findAll'',
       (endpoint GET '':id'' ''findOne'')\<lparr>rt_uuids := [''id'']\<rparr>,
       (endpoint GET '':id/workflows'' ''findWorkflows'')\<lparr>rt_uuids := [''id'']\<rparr>,
       (endpoint DELETE '':id'' ''delete'')\<lparr>rt_uuids := [''id''], rt_status := 204\<rparr>]\<rparr>"

definition rules_controller :: Controller where
  "rules_controller = \<lparr>co_name = ''RulesController'', co_prefix = [], co_guards = [],
     co_roles = None, co_routes =
      [(endpoint POST ''rules'' ''create'')\<lparr>rt_roles := Some rule_roles\<rparr>,
       endpoint GET ''rules'' ''findAll'',
       endpoint GET ''rules/export'' ''exportRules'',
       (endpoint POST ''rules/import'' ''importRules'')\<lparr>rt_roles := Some rule_roles\<rparr>,
       (endpoint GET ''rules/:id'' ''findOne'')\<lparr>rt_uuids := [''id'']\<rparr>,
       (endpoint PATCH ''rules/:id'' ''update'')\<lparr>rt_roles := Some rule_roles, rt_uuids := [''id'']\<rparr>,
       (endpoint POST ''rules/:id/activate'' ''activate'')\<lparr>rt_roles := Some rule_roles, rt_uuids := [''id'']\<rparr>,
       (endpoint POST ''rules/:id/deactivate'' ''deactivate'')\<lparr>rt_roles := Some rule_roles, rt_uuids := [''id'']\<rparr>,
       (endpoint DELETE ''rules/:id'' ''softDelete'')\<lparr>rt_roles := Some rule_roles, rt_uuids := [''id''], rt_status := 204\<rparr>,
       (endpoint POST ''rules/:id/test'' ''testRule'')\<lparr>rt_roles := Some rule_roles, rt_uuids := [''id'']\<rparr>,
       (endpoint GET ''sessions/:id/rules/preview'' ''previewSessionRules'')\<lparr>rt_uuids := [''id'']\<rparr>,
       (endpoint GET ''agent-executions/:id/rules'' ''listAgentExecutionRules'')\<lparr>rt_uuids := [''id'']\<rparr>]\<rparr>"

definition comments_controller :: Controller where
  "comments_controller = \<lparr>co_name = ''CommentsController'', co_prefix = ''workflows/:workflowId/comments'', co_guards = [PassportJwt],
     co_roles = None, co_routes =
      [(endpoint POST [] ''create'')\<lparr>rt_uuids := [''workflowId'']\<rparr>,
       (endpoint GET [] ''list'')\<lparr>rt_uuids := [''workflowId'']\<rparr>]\<rparr>"

definition comment_operations_controller :: Controller where
  "comment_operations_controller = \<lparr>co_name = ''CommentOperationsController'', co_prefix = ''comments'', co_guards = [PassportJwt],
     co_roles = None, co_routes =
      [(endpoint PATCH '':id'' ''update'')\<lparr>rt_uuids := [''id'']\<rparr>,
       (endpoint DELETE '':id'' ''delete'')\<lparr>rt_uuids := [''id''], rt_status := 204\<rparr>,
       (endpoint POST '':id/reply'' ''reply'')\<lparr>rt_uuids := [''id'']\<rparr>,
       (endpoint POST '':id/resolve'' ''resolve'')\<lparr>rt_uuids := [''id'']\<rparr>,
       (endpoint POST '':id/inject-to-ai'' ''injectToAi'')\<lparr>rt_uuids := [''id'']\<rparr>,
       (endpoint PATCH '':id/assign'' ''assign'')\<lparr>rt_uuids := [''id'']\<rparr>]\<rparr>"

definition comments_assigned_controller :: Controller where
  "comments_assigned_controller = \<lparr>co_name = ''CommentsAssignedController'', co_prefix = ''comments'', co_guards = [PassportJwt],
     co_roles = None, co_routes =
      [endpoint GET ''assigned-to-me'' ''getAssignedToMe'']\<rparr>"

definition element_review_controller :: Controller where
  "element_review_controller = \<lparr>co_name = ''ElementReviewController'', co_prefix = ''workflows/:workflowId/elements'', co_guards = [PassportJwt],
     co_roles = None, co_routes =
      [(endpoint PATCH '':elemId/approve'' ''approveElement'')\<lparr>rt_uuids := [''workflowId'']\<rparr>,
       (endpoint POST ''approve-all'' ''bulkApprove'')\<lparr>rt_uuids := [''workflowId'']\<rparr>]\<rparr>"

definition review_progress_controller :: Controller where
  "review_progress_controller = \<lparr>co_name = ''ReviewProgressController'', co_prefix = ''workflows/:workflowId'', co_guards = [PassportJwt],
     co_roles = None, co_routes =
      [(endpoint GET ''review-progress'' ''getReviewProgress'')\<lparr>rt_uuids := [''workflowId'']\<rparr>]\<rparr>"

definition sessions_controller :: Controller where
  "sessions_controller = \<lparr>co_name = ''SessionsController'', co_prefix = ''sessions'', co_guards = [],
     co_roles = None, co_routes =
      [endpoint POST [] ''create'',
       (endpoint GET '':id'' ''get'')\<lparr>rt_guards := [SessionOrgGuard], rt_uuids := [''id'']\<rparr>,
       (endpoint GET ''workflow/:workflowId'' ''getByWorkflowId'')\<lparr>rt_uuids := [''workflowId'']\<rparr>,
       (endpoint PATCH '':id/mode'' ''updateMode'')\<lparr>rt_guards := [SessionOrgGuard], rt_uuids := [''id'']\<rparr>,
       (endpoint POST '':id/finalize'' ''finalize'')\<lparr>rt_guards := [SessionOrgGuard], rt_uuids := [''id'']\<rparr>,
       (endpoint GET '':id/workflow-state'' ''getWorkflowState'')\<lparr>rt_guards := [SessionOrgGuard], rt_uuids := [''id'']\<rparr>,
       (endpoint GET '':id/progress'' ''getProgress'')\<lparr>rt_guards := [SessionOrgGuard], rt_uuids := [''id'']\<rparr>,
       (endpoint DELETE '':id'' ''archive'')\<lparr>rt_guards := [SessionOrgGuard], rt_uuids := [''id'']\<rparr>,
       (endpoint PATCH '':id/status'' ''overrideStatus'')\<lparr>rt_roles := Some [user_role_str UserRole.ADMIN], rt_guards := [SessionOrgGuard], rt_uuids := [''id'']\<rparr>]\<rparr>"

definition skills_controller :: Controller where
  "skills_controller = \<lparr>co_name = ''SkillsController'', co_prefix = ''skills'', co_guards = [PassportJwt],
     co_roles = None, co_routes =
      [endpoint POST [] ''create'',
       endpoint GET [] ''findAll'',
       (endpoint GET '':id'' ''findOne'')\<lparr>rt_uuids := [''id'']\<rparr>,
       (endpoint PATCH '':id'' ''update'')\<lparr>rt_uuids := [''id'']\<rparr>,
       (endpoint DELETE '':id'' ''remove'')\<lparr>rt_uuids := [''id''], rt_status := 204\<rparr>,
       endpoint POST ''search'' ''search'',
       endpoint POST ''import'' ''import'',
       endpoint GET ''export'' ''export'',
       (endpoint GET '':id/applications'' ''findApplications'')\<lparr>rt_uuids := [''id'']\<rparr>]\<rparr>"

definition admin_skills_controller :: Controller where
  "admin_skills_controller = \<lparr>co_name = ''AdminSkillsController'', co_prefix = ''admin/skills'', co_guards = [PassportJwt],
     co_roles = None, co_routes =
      [(endpoint GET ''analytics'' ''getAnalytics'')\<lparr>rt_roles := Some [user_role_str UserRole.ADMIN]\<rparr>]\<rparr>"

definition agent_execution_skills_controller :: Controller where
  "agent_execution_skills_controller = \<lparr>co_name = ''AgentExecutionsSkillsController'', co_prefix = ''agent-executions'', co_guards = [PassportJwt],
     co_roles = None, co_routes =
      [endpoint GET '':id/skills'' ''getExecutionSkills'']\<rparr>"

definition workflows_controller :: Controller where
  "workflows_controller = \<lparr>co_name = ''WorkflowsController'', co_prefix = ''workflows'', co_guards = [],
     co_roles = None, co_routes =
      [endpoint POST [] ''create'',
       endpoint GET [] ''findAll'',
       (endpoint GET '':id'' ''findOne'')\<lparr>rt_uuids := [''id'']\<rparr>,
       (endpoint PATCH '':id'' ''update'')\<lparr>rt_uuids := [''id'']\<rparr>,
       (endpoint POST '':id/versions'' ''createVersion'')\<lparr>rt_uuids := [''id'']\<rparr>,
       (endpoint GET '':id/versions'' ''findVersions'')\<lparr>rt_uuids := [''id'']\<rparr>,
       (endpoint GET '':id/versions/:versionNumber'' ''findVersion'')\<lparr>rt_uuids := [''id'', ''versionNumber'']\<rparr>,
       (endpoint GET '':id/diff/:v1/:v2'' ''computeDiff'')\<lparr>rt_uuids := [''id'']\<rparr>,
       (endpoint POST '':id/duplicate'' ''duplicate'')\<lparr>rt_uuids := [''id'']\<rparr>,
       (endpoint GET '':id/diagram-data'' ''getDiagramData'')\<lparr>rt_uuids := [''id'']\<rparr>,
       (endpoint DELETE '':id'' ''archive'')\<lparr>rt_uuids := [''id''], rt_status := 204\<rparr>,
       (endpoint GET '':id/audit-log'' ''getAuditLog'')\<lparr>rt_roles := Some audit_roles, rt_uuids := [''id'']\<rparr>,
       (endpoint GET '':id/decision-log'' ''getDecisionLog'')\<lparr>rt_roles := Some audit_roles, rt_uuids := [''id'']\<rparr>,
       (endpoint POST '':id/audit-log/export'' ''exportAuditLog'')\<lparr>rt_roles := Some audit_roles, rt_guards := [ThrottlerGuard], rt_uuids := [''id'']\<rparr>,
       (endpoint POST '':id/export/elsa'' ''exportToElsa'')\<lparr>rt_uuids := [''id''], rt_status := 200\<rparr>,
       (endpoint POST '':id/export/bpmn'' ''exportToBpmn'')\<lparr>rt_uuids := [''id''], rt_status := 202\<rparr>,
       (endpoint POST '':id/export/pdf'' ''exportToPdf'')\<lparr>rt_uuids := [''id''], rt_status := 202\<rparr>]\<rparr>"

definition share_workflow_controller :: Controller where
  "share_workflow_controller = \<lparr>co_name = ''ShareWorkflowController'', co_prefix = [], co_guards = [],
     co_roles = None, co_routes =
      [endpoint POST ''workflows/:id/share'' ''createShare'',
       endpoint GET ''workflows/shared/:token'' ''getSharedWorkflow'']\<rparr>"

text \<open>In the order the modules are registered.\<close>

definition controllers :: "Controller list" where
  "controllers =
    [health_controller, documents_controller, workflow_documents_controller, messages_controller,
     session_messages_controller, organizations_controller, projects_controller, rules_controller,
     comments_controller, comment_operations_controller, comments_assigned_controller,
     element_review_controller, review_progress_controller, sessions_controller, skills_controller,
     admin_skills_controller, agent_execution_skills_controller, workflows_controller,
     share_workflow_controller]"

lemmas controller_defs = health_controller_def documents_controller_def workflow_documents_controller_def messages_controller_def
  session_messages_controller_def organizations_controller_def projects_controller_def rules_controller_def
  comments_controller_def comment_operations_controller_def comments_assigned_controller_def
  element_review_controller_def review_progress_controller_def sessions_controller_def skills_controller_def
  admin_skills_controller_def agent_execution_skills_controller_def workflows_controller_def
  share_workflow_controller_def

section \<open>Dispatch\<close>

text \<open>A path template is split at the slashes; a segment that starts with a colon names a parameter. Literals are compared
without case.\<close>

fun segments_from :: "string \<Rightarrow> string \<Rightarrow> string list" where
  "segments_from acc [] = (if acc = [] then [] else [rev acc])"
| "segments_from acc (c # cs) =
     (if c = CHR 0x2F then (if acc = [] then [] else [rev acc]) @ segments_from [] cs else segments_from (c # acc) cs)"

definition segments :: "string \<Rightarrow> string list" where
  "segments path = segments_from [] path"

fun match_path :: "string list \<Rightarrow> string list \<Rightarrow> (string \<times> string) list option" where
  "match_path [] [] = Some []"
| "match_path (t # ts) (p # ps) =
     (if js_startsWith t '':''
      then (if p = [] then None else map_option (\<lambda>xs. (tl t, p) # xs) (match_path ts ps))
      else if js_toLowerCase t = js_toLowerCase p then match_path ts ps else None)"
| "match_path _ _ = None"

definition route_template :: "Controller \<Rightarrow> Route \<Rightarrow> string list" where
  "route_template c r = segments ''api'' @ segments (co_prefix c) @ segments (rt_path r)"

definition accepts :: "Route \<Rightarrow> HttpMethod \<Rightarrow> bool" where
  "accepts r m \<longleftrightarrow> rt_method r = m \<or> rt_method r = GET \<and> m = HEAD"

fun first_match :: "(Controller \<times> Route) list \<Rightarrow> HttpMethod \<Rightarrow> string list \<Rightarrow> (Controller \<times> Route \<times> (string \<times> string) list) option" where
  "first_match [] m path = None"
| "first_match ((c, r) # rest) m path =
     (if accepts r m
      then (case match_path (route_template c r) path of Some ps \<Rightarrow> Some (c, r, ps) | None \<Rightarrow> first_match rest m path)
      else first_match rest m path)"

definition routes :: "(Controller \<times> Route) list" where
  "routes = concat (map (\<lambda>c. map (Pair c) (co_routes c)) controllers)"

definition dispatch :: "HttpMethod \<Rightarrow> string list \<Rightarrow> (Controller \<times> Route \<times> (string \<times> string) list) option" where
  "dispatch m path = first_match routes m path"

section \<open>From the request to the answer\<close>

definition request_user :: "HttpRequest \<Rightarrow> RequestUser option" where
  "request_user request =
     map_option (\<lambda>u. \<lparr>rq_id = (case hu_id u of None \<Rightarrow> [] | Some i \<Rightarrow> i), rq_orgId = (case hu_orgId u of None \<Rightarrow> [] | Some i \<Rightarrow> i),
       rq_role = (case hu_role u of None \<Rightarrow> [] | Some i \<Rightarrow> i)\<rparr>) (ht_user request)"

fun runGuard :: "framework \<Rightarrow> bool \<Rightarrow> (string \<Rightarrow> bool) \<Rightarrow> bool \<Rightarrow> Guard \<Rightarrow> HttpRequest \<Rightarrow> HttpRequest service" where
  "runGuard fw bypassAuth isUUID isPublic JwtAuthGuard request = liftSum (jwtAuthGuard fw bypassAuth isPublic request)"
| "runGuard fw bypassAuth isUUID isPublic PassportJwt request = liftSum (authGuard fw ''jwt'' request)"
| "runGuard fw bypassAuth isUUID isPublic SessionOrgGuard request =
     andThen (sessionOrgGuard isUUID (request_user request) (map_of (ht_params request) ''id'')) (\<lambda>_. ret request)"
| "runGuard fw bypassAuth isUUID isPublic OrgMemberGuard request =
     andThen (orgMemberGuard (request_user request) (map_of (ht_params request) ''id'')) (\<lambda>_. ret request)"
| "runGuard fw bypassAuth isUUID isPublic ThrottlerGuard request =
     (case throttle fw request of None \<Rightarrow> ret request | Some e \<Rightarrow> throw e)"

fun runGuards :: "framework \<Rightarrow> bool \<Rightarrow> (string \<Rightarrow> bool) \<Rightarrow> bool \<Rightarrow> Guard list \<Rightarrow> HttpRequest \<Rightarrow> HttpRequest service" where
  "runGuards fw bypassAuth isUUID isPublic [] request = ret request"
| "runGuards fw bypassAuth isUUID isPublic (g # gs) request =
     andThen (runGuard fw bypassAuth isUUID isPublic g request) (runGuards fw bypassAuth isUUID isPublic gs)"

text \<open>The global guards come first, then those of the class and of the method.\<close>

definition admit :: "framework \<Rightarrow> bool \<Rightarrow> (string \<Rightarrow> bool) \<Rightarrow> Controller \<Rightarrow> Route \<Rightarrow> HttpRequest \<Rightarrow> HttpRequest service" where
  "admit fw bypassAuth isUUID c r request =
     andThen (liftSum (jwtAuthGuard fw bypassAuth (rt_public r) request)) (\<lambda>identified.
     andThen (liftSum (rolesGuard (getAllAndOverride (rt_roles r) (co_roles c)) identified)) (\<lambda>permitted.
     runGuards fw bypassAuth isUUID (rt_public r) (co_guards c @ rt_guards r) permitted))"

definition parseUUIDs :: "framework \<Rightarrow> string list \<Rightarrow> HttpRequest \<Rightarrow> unit service" where
  "parseUUIDs fw names request =
     check (\<forall>n \<in> set names. \<exists>x. map_of (ht_params request) n = Some x \<and> pipeUUID fw x)
       (BadRequestException (JStr ''Validation failed (uuid is expected)''))"

definition handleHttp ::
  "framework \<Rightarrow> bool \<Rightarrow> (string \<Rightarrow> bool) \<Rightarrow> (string \<Rightarrow> string \<Rightarrow> HttpRequest \<Rightarrow> json service) \<Rightarrow>
   HttpRequest \<Rightarrow> world \<Rightarrow> HttpResponse \<times> world" where
  "handleHttp fw bypassAuth isUUID handler request w =
     (case dispatch (ht_method request) (ht_path request) of
        None \<Rightarrow> catchException fw
          (NotFoundException (JStr (''Cannot '' @ method_name (ht_method request) @ '' '' @ ht_url request))) request w
      | Some (c, r, ps) \<Rightarrow>
          (case admit fw bypassAuth isUUID c r (request\<lparr>ht_params := ps\<rparr>) w of
             (Inl e, u) \<Rightarrow> catchException fw e request u
           | (Inr admitted, u) \<Rightarrow>
               (case correlationIdInterceptor admitted u of
                  (Inl e, u') \<Rightarrow> catchException fw e admitted u'
                | (Inr (tagged, context), u') \<Rightarrow>
                    (case run_in_context context
                        (andThen (parseUUIDs fw (rt_uuids r) tagged) (\<lambda>_. handler (co_name c) (rt_handler r) tagged)) u' of
                       (Inl e, v) \<Rightarrow> catchException fw e tagged v
                     | (Inr body, v) \<Rightarrow>
                         (\<lparr>re_status = rt_status r, re_correlation = ht_correlationId tagged, re_body = body\<rparr>, v)))))"

end
