(* ===== verification/Routes_Correct.thy ===== *)
theory Routes_Correct
  imports Routes
begin

text \<open>
  The request pipeline: who may cause an effect, what a failure looks like, and which routes are closed.
\<close>

section \<open>Dispatch\<close>

lemma first_match_sound:
  "first_match rs m path = Some (c, r, ps) \<Longrightarrow>
     (c, r) \<in> set rs \<and> accepts r m \<and> match_path (route_template c r) path = Some ps"
  by (induction rs m path rule: first_match.induct) (auto split: if_splits option.splits)

lemma dispatch_sound:
  "dispatch m path = Some (c, r, ps) \<Longrightarrow> (c, r) \<in> set routes \<and> match_path (route_template c r) path = Some ps"
  unfolding dispatch_def using first_match_sound by blast

lemma routes_public:
  "list_all (\<lambda>(c, r). rt_public r \<longrightarrow> co_name c = ''HealthController'' \<and> (rt_handler r = ''check'' \<or> rt_handler r = ''ping'')) routes"
  by code_simp

lemma routes_status: "list_all (\<lambda>(c, r). rt_status r < 400) routes"
  by code_simp

lemma public_route:
  "(c, r) \<in> set routes \<Longrightarrow> rt_public r \<Longrightarrow>
     co_name c = ''HealthController'' \<and> (rt_handler r = ''check'' \<or> rt_handler r = ''ping'')"
  using routes_public by (auto simp: list_all_iff)

lemma route_status: "(c, r) \<in> set routes \<Longrightarrow> rt_status r < 400"
  using routes_status by (auto simp: list_all_iff)

section \<open>The exception filter\<close>

lemma getStatus_error: "400 \<le> getStatus e"
  by (cases e) simp_all

lemma catch_status: "catchException fw e request w = (resp, v) \<Longrightarrow> 400 \<le> re_status resp"
  using getStatus_error [of e] by (auto simp: catchException_def Let_def split: prod.splits option.splits)

lemma catch_state: "catchException fw e request w = (resp, v) \<Longrightarrow> v = w\<lparr>idNext := idNext v\<rparr>"
  by (auto simp: catchException_def Let_def split: prod.splits option.splits)

text \<open>The answer to an internal failure does not depend on what failed.\<close>

lemma internal_errors_are_hidden:
  "\<not> isHttpException e \<Longrightarrow> \<not> isHttpException f \<Longrightarrow> catchException fw e = catchException fw f"
  by (simp add: catchException_def fun_eq_iff)

definition envelope :: "HttpRequest \<Rightarrow> HttpResponse \<Rightarrow> bool" where
  "envelope request resp \<longleftrightarrow>
     (\<exists>error message c t. re_correlation resp = Some c \<and>
        re_body resp = JObj [(''statusCode'', json_int (re_status resp)), (''error'', error), (''message'', message),
          (''correlationId'', JStr c), (''path'', JStr (ht_url request)), (''timestamp'', JStr t)] \<and>
        (\<forall>x. incoming_id (ht_correlation request) = Some x \<and> x \<noteq> [] \<longrightarrow> c = x))"

lemma catch_envelope:
  assumes "catchException fw e request w = (resp, v)"
    and "ht_correlationId request = None \<or> ht_correlationId request = incoming_id (ht_correlation request) \<or>
      incoming_id (ht_correlation request) = None"
  shows "envelope request resp"
  using assms
  by (auto simp: envelope_def catchException_def Let_def filter_correlation_def incoming_id_def truthy_def
      split: prod.splits option.splits HeaderValue.splits if_splits)

section \<open>Guards only look\<close>

lemma session_guard_state: "sessionOrgGuard isUUID u i w = (x, v) \<Longrightarrow> v = w"
  by (auto simp: sessionOrgGuard_def andThen_def check_def orThrow_def ret_def split: option.splits if_splits sum.splits prod.splits)

lemma member_guard_state: "orgMemberGuard u i w = (x, v) \<Longrightarrow> v = w"
  by (auto simp: orgMemberGuard_def andThen_def check_def orThrow_def ret_def throw_def
      split: option.splits if_splits sum.splits prod.splits)

lemma authGuard_user: "authGuard fw strategy request = Inr a \<Longrightarrow> \<exists>u. a = request\<lparr>ht_user := u\<rparr>"
  by (cases "handleRequest (passport fw strategy request)") (auto simp: authGuard_def)

lemma same_user: "\<exists>u. request = request\<lparr>ht_user := u\<rparr>"
  by (rule exI [of _ "ht_user request"]) simp

lemma jwtAuthGuard_user: "jwtAuthGuard fw bypassAuth isPublic request = Inr a \<Longrightarrow> \<exists>u. a = request\<lparr>ht_user := u\<rparr>"
  by (auto simp: jwtAuthGuard_def same_user dest: authGuard_user split: if_splits)

lemma runGuard_effect:
  assumes "runGuard fw bypassAuth isUUID isPublic g request w = (x, v)"
  shows "v = w \<and> (\<forall>a. x = Inr a \<longrightarrow> (\<exists>u. a = request\<lparr>ht_user := u\<rparr>))"
proof -
  note self = same_user [of request]
  show ?thesis
  proof (cases g)
    case SessionOrgGuard
    then show ?thesis using assms self
      by (auto simp: andThen_def ret_def dest: session_guard_state split: prod.splits sum.splits)
  next
    case OrgMemberGuard
    then show ?thesis using assms self
      by (auto simp: andThen_def ret_def dest: member_guard_state split: prod.splits sum.splits)
  next
    case ThrottlerGuard
    then show ?thesis using assms self by (auto simp: throw_def ret_def split: option.splits)
  qed (use assms authGuard_user jwtAuthGuard_user in \<open>auto simp: liftSum_def\<close>)
qed

lemma runGuards_effect:
  assumes "runGuards fw bypassAuth isUUID isPublic gs request w = (x, v)"
  shows "v = w \<and> (\<forall>a. x = Inr a \<longrightarrow> (\<exists>u. a = request\<lparr>ht_user := u\<rparr>))"
  using assms
proof (induction gs arbitrary: request)
  case Nil
  then show ?case by (auto simp: ret_def intro: exI [of _ "ht_user request"])
next
  case (Cons g gs)
  obtain y t where y: "runGuard fw bypassAuth isUUID isPublic g request w = (y, t)" by (metis surj_pair)
  note effect = runGuard_effect [OF y]
  show ?case
  proof (cases y)
    case (Inl e)
    then show ?thesis using Cons.prems y effect by (auto simp: andThen_def)
  next
    case (Inr a)
    then obtain u where a: "a = request\<lparr>ht_user := u\<rparr>" "t = w" using effect by blast
    then have "runGuards fw bypassAuth isUUID isPublic gs a w = (x, v)" using Cons.prems y Inr by (simp add: andThen_def)
    then show ?thesis using Cons.IH a(1) by fastforce
  qed
qed

text \<open>The user the first guard identified, and the roles a route asks for.\<close>

definition identified :: "framework \<Rightarrow> bool \<Rightarrow> HttpRequest \<Rightarrow> HttpUser \<Rightarrow> bool" where
  "identified fw bypassAuth request u \<longleftrightarrow>
     (if bypassAuth \<and> \<not> truthy (ht_authorization request) then u = dev_user
      else passport fw ''jwt-access'' request = Inr (Some u))"

definition permitted :: "Controller \<Rightarrow> Route \<Rightarrow> HttpUser \<Rightarrow> bool" where
  "permitted c r u \<longleftrightarrow>
     (\<forall>roles. getAllAndOverride (rt_roles r) (co_roles c) = Some roles \<longrightarrow> (\<exists>x \<in> set roles. hu_role u = Some x))"

lemma jwtAuthGuard_identified:
  "jwtAuthGuard fw bypassAuth False request = Inr a \<Longrightarrow> \<exists>u. identified fw bypassAuth request u \<and> a = request\<lparr>ht_user := Some u\<rparr>"
  by (auto simp: jwtAuthGuard_def identified_def authGuard_def handleRequest_def split: if_splits sum.splits option.splits)

lemma rolesGuard_iff:
  "rolesGuard roles request = Inr a \<longleftrightarrow> a = request \<and>
     (\<forall>rs. roles = Some rs \<longrightarrow> (\<exists>u x. ht_user request = Some u \<and> hu_role u = Some x \<and> x \<in> set rs))"
  by (auto simp: rolesGuard_def split: option.splits)

lemma admit_effect:
  assumes "admit fw bypassAuth isUUID c r request w = (x, v)"
  shows "v = w \<and> (\<forall>a. x = Inr a \<longrightarrow> (\<exists>u. a = request\<lparr>ht_user := u\<rparr>) \<and>
    (rt_public r \<or> (\<exists>u. identified fw bypassAuth request u \<and> permitted c r u)))"
proof (cases "jwtAuthGuard fw bypassAuth (rt_public r) request")
  case (Inl e)
  then show ?thesis using assms by (auto simp: admit_def andThen_def liftSum_def)
next
  case (Inr a)
  note jwt = Inr
  obtain u where a: "a = request\<lparr>ht_user := u\<rparr>" using jwt jwtAuthGuard_user by blast
  show ?thesis
  proof (cases "rolesGuard (getAllAndOverride (rt_roles r) (co_roles c)) a")
    case (Inl e)
    then show ?thesis using assms jwt by (auto simp: admit_def andThen_def liftSum_def)
  next
    case (Inr b)
    then have b: "b = a" using rolesGuard_iff by blast
    have "runGuards fw bypassAuth isUUID (rt_public r) (co_guards c @ rt_guards r) a w = (x, v)"
      using assms jwt Inr b by (simp add: admit_def andThen_def liftSum_def)
    then have "v = w \<and> (\<forall>d. x = Inr d \<longrightarrow> (\<exists>u. d = request\<lparr>ht_user := u\<rparr>))" using runGuards_effect a by fastforce
    moreover have "rt_public r \<or> (\<exists>u. identified fw bypassAuth request u \<and> permitted c r u)"
    proof (cases "rt_public r")
      case False
      then have "jwtAuthGuard fw bypassAuth False request = Inr a" using jwt by simp
      from jwtAuthGuard_identified [OF this] obtain u
        where u: "identified fw bypassAuth request u" "a = request\<lparr>ht_user := Some u\<rparr>" by blast
      then have "permitted c r u" using Inr unfolding rolesGuard_iff permitted_def by auto
      then show ?thesis using u(1) by blast
    qed simp
    ultimately show ?thesis by blast
  qed
qed

section \<open>The whole way of a request\<close>

lemma ids_trans: "u = w\<lparr>idNext := n\<rparr> \<Longrightarrow> v = u\<lparr>idNext := m\<rparr> \<Longrightarrow> v = w\<lparr>idNext := m\<rparr>"
  by simp

lemma andThen_ret: "andThen (ret x) k = k x"
  by (simp add: fun_eq_iff andThen_def ret_def)

lemma andThen_throw: "andThen (throw e) k = throw e"
  by (simp add: fun_eq_iff andThen_def throw_def)

lemma interceptor_run:
  "\<exists>c v. correlationIdInterceptor request w = (Inr (request\<lparr>ht_correlationId := Some c\<rparr>,
      \<lparr>rc_userId = Option.bind (ht_user request) (\<lambda>u. orElse (hu_id u) (hu_sub u)),
        rc_orgId = Option.bind (ht_user request) (\<lambda>u. orElse (hu_orgId u) (hu_org_id u)),
        rc_correlationId = c, rc_role = Option.bind (ht_user request) hu_role\<rparr>), v) \<and> v = w\<lparr>idNext := idNext v\<rparr> \<and>
     (\<forall>x. incoming_id (ht_correlation request) = Some x \<longrightarrow> c = x)"
  by (cases "incoming_id (ht_correlation request)") (simp_all add: correlationIdInterceptor_def run_simps)

text \<open>The four ways a request can go: unknown path, refused by a guard, refused by a pipe, handled.\<close>

lemma handleHttp_cases:
  assumes run: "handleHttp fw bypassAuth isUUID handler request w = (resp, v)"
  obtains
    (unknown) e where "dispatch (ht_method request) (ht_path request) = None" "catchException fw e request w = (resp, v)"
  | (refused) c r ps e where "dispatch (ht_method request) (ht_path request) = Some (c, r, ps)"
      "catchException fw e request w = (resp, v)"
  | (malformed) c r ps tagged e u where "dispatch (ht_method request) (ht_path request) = Some (c, r, ps)"
      "ht_correlation tagged = ht_correlation request" "ht_url tagged = ht_url request"
      "incoming_id (ht_correlation request) = None \<or> ht_correlationId tagged = incoming_id (ht_correlation request)"
      "u = w\<lparr>idNext := idNext u\<rparr>" "catchException fw e tagged u = (resp, v)"
  | (handled) c r ps tagged ctx u x v' where "dispatch (ht_method request) (ht_path request) = Some (c, r, ps)"
      "rt_public r \<or> (\<exists>t. identified fw bypassAuth (request\<lparr>ht_params := ps\<rparr>) t \<and> permitted c r t)"
      "\<forall>n \<in> set (rt_uuids r). \<exists>i. map_of ps n = Some i \<and> pipeUUID fw i"
      "ht_correlation tagged = ht_correlation request" "ht_url tagged = ht_url request" "ht_params tagged = ps"
      "incoming_id (ht_correlation request) = None \<or> ht_correlationId tagged = incoming_id (ht_correlation request)"
      "u = w\<lparr>idNext := idNext u\<rparr>" "ht_correlationId tagged \<noteq> None"
      "run_in_context ctx (handler (co_name c) (rt_handler r) tagged) u = (x, v')"
      "case x of Inl e \<Rightarrow> catchException fw e tagged v' = (resp, v)
       | Inr body \<Rightarrow> v = v' \<and> resp = \<lparr>re_status = rt_status r, re_correlation = ht_correlationId tagged, re_body = body\<rparr>"
proof (cases "dispatch (ht_method request) (ht_path request)")
  case None
  then show ?thesis using run unknown by (simp add: handleHttp_def)
next
  case (Some found)
  obtain c r ps where found: "found = (c, r, ps)" by (cases found) blast
  let ?request = "request\<lparr>ht_params := ps\<rparr>"
  obtain x u where admit: "admit fw bypassAuth isUUID c r ?request w = (x, u)" by (metis surj_pair)
  note effect = admit_effect [OF admit]
  show ?thesis
  proof (cases x)
    case (Inl e)
    then show ?thesis using run Some found admit effect refused by (simp add: handleHttp_def)
  next
    case (Inr a)
    then obtain user where a: "a = ?request\<lparr>ht_user := user\<rparr>" using effect by blast
    obtain i u' ctx where i: "correlationIdInterceptor a u = (Inr (a\<lparr>ht_correlationId := Some i\<rparr>, ctx), u')"
        "u' = u\<lparr>idNext := idNext u'\<rparr>" "\<forall>x. incoming_id (ht_correlation a) = Some x \<longrightarrow> i = x"
      using interceptor_run [of a u] by blast
    let ?tagged = "a\<lparr>ht_correlationId := Some i\<rparr>"
    have tagged: "ht_correlation ?tagged = ht_correlation request" "ht_url ?tagged = ht_url request" "ht_params ?tagged = ps"
      "incoming_id (ht_correlation request) = None \<or> ht_correlationId ?tagged = incoming_id (ht_correlation request)"
      "u' = w\<lparr>idNext := idNext u'\<rparr>" "ht_correlationId ?tagged \<noteq> None"
      using a i(2,3) effect by (cases "incoming_id (ht_correlation request)"; auto)+
    show ?thesis
    proof (cases "\<forall>n \<in> set (rt_uuids r). \<exists>i. map_of ps n = Some i \<and> pipeUUID fw i")
      case True
      then have pipes: "parseUUIDs fw (rt_uuids r) ?tagged = ret ()"
        using a by (auto simp: parseUUIDs_def check_def ret_def fun_eq_iff)
      obtain y v' where y: "run_in_context ctx (handler (co_name c) (rt_handler r) ?tagged) u' = (y, v')" by (metis surj_pair)
      have "case y of Inl e \<Rightarrow> catchException fw e ?tagged v' = (resp, v)
         | Inr body \<Rightarrow> v = v' \<and> resp = \<lparr>re_status = rt_status r, re_correlation = ht_correlationId ?tagged, re_body = body\<rparr>"
        using run Some found admit Inr i(1) pipes y by (cases y) (simp_all add: handleHttp_def andThen_ret)
      with handled [OF Some [unfolded found] _ True tagged(1-6) y] effect Inr show ?thesis by blast
    next
      case False
      then have "parseUUIDs fw (rt_uuids r) ?tagged = throw (BadRequestException (JStr ''Validation failed (uuid is expected)''))"
        using a by (auto simp: parseUUIDs_def check_def throw_def fun_eq_iff)
      then have "catchException fw (BadRequestException (JStr ''Validation failed (uuid is expected)'')) ?tagged
          (u'\<lparr>correlationId := correlationId u'\<rparr>) = (resp, v)"
        using run Some found admit Inr i(1) by (simp add: handleHttp_def andThen_throw run_in_context_def) (simp add: throw_def)
      with malformed [OF Some [unfolded found] tagged(1,2,4,5)] show ?thesis by simp
    qed
  qed
qed


definition sample_user :: HttpUser where
  "sample_user = \<lparr>hu_id = Some ''u1'', hu_sub = None, hu_orgId = Some ''o1'', hu_org_id = None, hu_role = Some ''reviewer''\<rparr>"

text \<open>A framework that knows one strategy, and one token.\<close>

definition sample_framework :: framework where
  "sample_framework = \<lparr>
     passport = (\<lambda>strategy q. if strategy = ''jwt-access''
       then Inr (if ht_authorization q = Some ''token'' then Some sample_user else None)
       else Inl (PlainError ''Unknown authentication strategy'')),
     getResponse = (\<lambda>e. JStr (error_message e)), throttle = (\<lambda>q. None), pipeUUID = (\<lambda>s. s = ''5'')\<rparr>"

definition sample_request :: "string list \<Rightarrow> HttpRequest" where
  "sample_request path = \<lparr>ht_method = GET, ht_url = ''/'', ht_path = path, ht_params = [], ht_correlation = OneHeader ''c1'',
     ht_authorization = Some ''token'', ht_user = None, ht_correlationId = None\<rparr>"

definition sample_handler :: "string \<Rightarrow> string \<Rightarrow> HttpRequest \<Rightarrow> json service" where
  "sample_handler c m q = ret (JStr m)"

lemma sample_dispatch:
  "dispatch GET [''api'', ''projects''] = Some (projects_controller, endpoint GET [] ''findAll'', [])"
  "dispatch GET [''api'', ''skills''] = Some (skills_controller, endpoint GET [] ''findAll'', [])"
  by code_simp+

lemmas sample_run = handleHttp_def sample_dispatch sample_request_def sample_handler_def sample_framework_def admit_def
  jwtAuthGuard_def authGuard_def handleRequest_def rolesGuard_def getAllAndOverride_def orElse_def truthy_def endpoint_def
  correlationIdInterceptor_def incoming_id_def run_in_context_def parseUUIDs_def andThen_def liftSum_def ret_def check_def
  projects_controller_def skills_controller_def sample_user_def


text \<open>C16. Every failure has one shape: whatever went wrong, in the dispatch, a guard, a pipe or the handler, an answer with
an error status has the standard envelope with that status, the path and a correlation id, which is also in the header
and is the one the client sent, if it sent one.\<close>

theorem failures_have_one_shape:
  assumes run: "handleHttp fw bypassAuth isUUID handler request w = (resp, v)"
    and fresh: "ht_correlationId request = None" and failed: "400 \<le> re_status resp"
  shows "\<exists>error message c t. re_correlation resp = Some c \<and>
        re_body resp = JObj [(''statusCode'', json_int (re_status resp)), (''error'', error), (''message'', message),
          (''correlationId'', JStr c), (''path'', JStr (ht_url request)), (''timestamp'', JStr t)] \<and>
        (\<forall>x. incoming_id (ht_correlation request) = Some x \<and> x \<noteq> [] \<longrightarrow> c = x)"
proof -
  have "envelope request resp"
    using run
  proof (cases rule: handleHttp_cases)
    case (unknown e)
    then show ?thesis using fresh by (intro catch_envelope) auto
  next
    case (refused c r ps e)
    then show ?thesis using fresh by (intro catch_envelope) auto
  next
    case (malformed c r ps tagged e u)
    have "envelope tagged resp" by (rule catch_envelope [OF malformed(6)]) (use malformed in auto)
    then show ?thesis using malformed by (simp add: envelope_def)
  next
    case (handled c r ps tagged ctx u x v')
    have "rt_status r < 400" using dispatch_sound [OF handled(1)] route_status by blast
    then obtain e where "catchException fw e tagged v' = (resp, v)" using handled(11) failed by (cases x) auto
    then have "envelope tagged resp" by (rule catch_envelope) (use handled in auto)
    then show ?thesis using handled by (simp add: envelope_def)
  qed
  then show ?thesis by (simp add: envelope_def)
qed

theorem failures_have_one_shape_witness:
  "\<exists>resp v error message t. handleHttp sample_framework False (\<lambda>_. True) sample_handler (sample_request [''api'', ''skills'']) sample_world =
      (resp, v) \<and> re_status resp = 500 \<and> re_correlation resp = Some ''c1'' \<and>
      re_body resp = JObj [(''statusCode'', json_int 500), (''error'', error), (''message'', message),
          (''correlationId'', JStr ''c1''), (''path'', JStr ''/''), (''timestamp'', JStr t)]"
proof -
  let ?request = "sample_request [''api'', ''skills'']"
  let ?run = "handleHttp sample_framework False (\<lambda>_. True) sample_handler ?request sample_world"
  obtain resp v where run: "?run = (resp, v)" by (cases ?run)
  have failed: "re_status resp = 500"
    using run by (simp add: sample_run catchException_def Let_def split: prod.splits option.splits) auto
  have "ht_correlationId ?request = None" "400 \<le> re_status resp" using failed by (simp_all add: sample_request_def)
  from failures_have_one_shape [OF run this] failed run show ?thesis
    by (auto simp: sample_request_def incoming_id_def)
qed

lemma refused_by_guard:
  assumes run: "handleHttp fw bypassAuth isUUID handler request w = (resp, v)"
    and route: "dispatch (ht_method request) (ht_path request) = Some (c, r, ps)"
    and refuses: "\<And>x u. admit fw bypassAuth isUUID c r (request\<lparr>ht_params := ps\<rparr>) w = (x, u) \<Longrightarrow> \<exists>e. x = Inl e"
  shows "400 \<le> re_status resp \<and> v = w\<lparr>idNext := idNext v\<rparr>"
proof -
  obtain x u where admit: "admit fw bypassAuth isUUID c r (request\<lparr>ht_params := ps\<rparr>) w = (x, u)" by (metis surj_pair)
  then obtain e where "x = Inl e" using refuses by blast
  moreover have "u = w" using admit_effect [OF admit] by blast
  ultimately have "catchException fw e request w = (resp, v)" using run route admit by (simp add: handleHttp_def)
  then show ?thesis using catch_status catch_state by blast
qed

lemma admit_guards:
  "admit fw bypassAuth isUUID c r request w = (Inr a, u) \<Longrightarrow>
     \<exists>b. runGuards fw bypassAuth isUUID (rt_public r) (co_guards c @ rt_guards r) b w = (Inr a, u)"
  by (auto simp: admit_def run_iffs)

lemma missing_strategy:
  assumes "\<And>q. passport fw ''jwt'' q = Inl m" and "PassportJwt \<in> set gs"
    and "runGuards fw bypassAuth isUUID isPublic gs request w = (x, v)"
  shows "\<exists>e. x = Inl e"
  using assms(2,3)
proof (induction gs arbitrary: request w)
  case (Cons g gs)
  obtain y t where y: "runGuard fw bypassAuth isUUID isPublic g request w = (y, t)" by (metis surj_pair)
  show ?case
  proof (cases "\<exists>e. y = Inl e")
    case True
    then show ?thesis using Cons.prems(2) y by (auto simp: andThen_def)
  next
    case False
    then obtain a where a: "y = Inr a" by (cases y) auto
    then have "g \<noteq> PassportJwt" using y assms(1) by (auto simp: liftSum_def authGuard_def handleRequest_def)
    then show ?thesis using Cons y a by (auto simp: andThen_def)
  qed
qed simp

text \<open>C38. Closed routes: the passport strategy \<open>jwt\<close>, which the controllers of the skills and comments name, is registered
nowhere, and the role \<open>Admin\<close>, which the detailed health routes ask for, is the role of nobody. Every request to one of
these routes is refused, whoever sends it, and changes nothing.\<close>

theorem closed_routes:
  assumes strategies: "\<And>q. passport fw ''jwt'' q = Inl (PlainError m)"
    and users: "\<forall>q u. passport fw ''jwt-access'' q = Inr (Some u) \<longrightarrow> (\<exists>role. hu_role u = Some (user_role_str role))"
    and route: "dispatch (ht_method request) (ht_path request) = Some (c, r, ps)"
    and closed: "PassportJwt \<in> set (co_guards c) \<or> rt_roles r = Some [''Admin''] \<and> \<not> rt_public r"
    and run: "handleHttp fw bypassAuth isUUID handler request w = (resp, v)"
  shows "400 \<le> re_status resp \<and> v = w\<lparr>idNext := idNext v\<rparr>"
proof (rule refused_by_guard [OF run route])
  fix x u
  assume admit: "admit fw bypassAuth isUUID c r (request\<lparr>ht_params := ps\<rparr>) w = (x, u)"
  show "\<exists>e. x = Inl e"
    using closed
  proof
    assume "PassportJwt \<in> set (co_guards c)"
    then have "PassportJwt \<in> set (co_guards c @ rt_guards r)" by simp
    from missing_strategy [OF strategies this] admit_guards admit show ?thesis by (cases x) fastforce+
  next
    assume health: "rt_roles r = Some [''Admin''] \<and> \<not> rt_public r"
    have "\<not> permitted c r user" if "identified fw bypassAuth (request\<lparr>ht_params := ps\<rparr>) user" for user
    proof
      assume "permitted c r user"
      then have "hu_role user = Some ''Admin''" using health by (simp add: permitted_def getAllAndOverride_def orElse_def)
      moreover have "user_role_str role \<noteq> ''Admin''" for role by (cases role) simp_all
      moreover have "\<exists>role. hu_role user = Some (user_role_str role)"
      proof (cases "user = dev_user")
        case True
        then show ?thesis by (intro exI [of _ UserRole.ADMIN]) (simp add: dev_user_def)
      next
        case False
        then show ?thesis using that users by (auto simp: identified_def split: if_splits)
      qed
      ultimately show False by (metis option.inject)
    qed
    then show ?thesis using admit_effect [OF admit] health by (cases x) auto
  qed
qed

theorem closed_routes_witness:
  "\<exists>resp v. handleHttp sample_framework False (\<lambda>_. True) sample_handler (sample_request [''api'', ''skills'']) sample_world =
      (resp, v) \<and> 400 \<le> re_status resp \<and> skillRows v = []"
proof -
  let ?run = "handleHttp sample_framework False (\<lambda>_. True) sample_handler (sample_request [''api'', ''skills'']) sample_world"
  obtain resp v where run: "?run = (resp, v)" by (cases ?run)
  have strategies: "\<And>q. passport sample_framework ''jwt'' q = Inl (PlainError ''Unknown authentication strategy'')"
    by (simp add: sample_framework_def)
  have users: "\<forall>q u. passport sample_framework ''jwt-access'' q = Inr (Some u) \<longrightarrow> (\<exists>role. hu_role u = Some (user_role_str role))"
    by (auto simp: sample_framework_def sample_user_def intro!: exI [of _ UserRole.REVIEWER] split: if_splits)
  have route: "dispatch (ht_method (sample_request [''api'', ''skills''])) (ht_path (sample_request [''api'', ''skills''])) =
      Some (skills_controller, endpoint GET [] ''findAll'', [])"
    by (simp add: sample_request_def sample_dispatch)
  have closed: "PassportJwt \<in> set (co_guards skills_controller) \<or>
      rt_roles (endpoint GET [] ''findAll'') = Some [''Admin''] \<and> \<not> rt_public (endpoint GET [] ''findAll'')"
    by (simp add: skills_controller_def)
  note outcome = closed_routes [OF strategies users route closed run]
  then have "skillRows v = skillRows (sample_world\<lparr>idNext := idNext v\<rparr>)" by (intro arg_cong [of _ _ skillRows]) blast
  then show ?thesis using outcome run by (simp add: sample_defs)
qed

text \<open>A share link is not public: without a user it is refused like any other request.\<close>

lemma shared_link_needs_login:
  assumes route: "dispatch (ht_method request) (ht_path request) = Some (c, r, ps)" and shared: "rt_handler r = ''getSharedWorkflow''"
    and anonymous: "\<And>u. \<not> identified fw bypassAuth (request\<lparr>ht_params := ps\<rparr>) u"
    and run: "handleHttp fw bypassAuth isUUID handler request w = (resp, v)"
  shows "400 \<le> re_status resp \<and> v = w\<lparr>idNext := idNext v\<rparr>"
proof (rule refused_by_guard [OF run route])
  fix x u
  assume admit: "admit fw bypassAuth isUUID c r (request\<lparr>ht_params := ps\<rparr>) w = (x, u)"
  have "\<not> rt_public r" using public_route dispatch_sound [OF route] shared by force
  then show "\<exists>e. x = Inl e" using admit_effect [OF admit] anonymous by (cases x) auto
qed

end
