(* ===== verification/Routes_Reachable.thy ===== *)
theory Routes_Reachable
  imports Routes_Correct
begin

text \<open>
  Which routes can be reached: the table is evaluated once, for the sample path of every route.
\<close>

section \<open>Reachability\<close>

text \<open>For the evaluation of the table: a capital is a letter between 65 and 90, read off its bits.\<close>

lemma ascii_lower_code [code]:
  "ascii_lower (Char b0 b1 b2 b3 b4 b5 b6 b7) =
     (if b6 \<and> \<not> b7 \<and> \<not> b5 \<and> (b0 \<or> b1 \<or> b2 \<or> b3 \<or> b4) \<and> \<not> (b4 \<and> b3 \<and> (b2 \<or> b1 \<and> b0))
      then Char b0 b1 b2 b3 b4 True b6 b7 else Char b0 b1 b2 b3 b4 b5 b6 b7)"
  by (cases b0; cases b1; cases b2; cases b3; cases b4; cases b5; cases b6; cases b7)
    (simp_all add: ascii_lower_def char_of_def bit_0)

text \<open>A path for every route: its template with \<open>5\<close> for every parameter.\<close>

definition sample_path :: "Controller \<Rightarrow> Route \<Rightarrow> string list" where
  "sample_path c r = map (\<lambda>s. if js_startsWith s '':'' then ''5'' else s) (route_template c r)"

text \<open>The routes as methods and lower-case templates, and the test that no earlier one takes the sample of a later one.\<close>

definition key :: "Controller \<times> Route \<Rightarrow> HttpMethod \<times> string list" where
  "key = (\<lambda>(c, r). (rt_method r, map js_toLowerCase (route_template c r)))"

definition sample :: "string \<Rightarrow> string" where
  "sample s = (if js_startsWith s '':'' then ''5'' else s)"

fun covers :: "string list \<Rightarrow> string list \<Rightarrow> bool" where
  "covers [] [] = True"
| "covers (t # ts) (p # ps) \<longleftrightarrow> (if js_startsWith t '':'' then p \<noteq> [] else t = p) \<and> covers ts ps"
| "covers _ _ = False"

fun taken :: "(HttpMethod \<times> string list) list \<Rightarrow> HttpMethod \<Rightarrow> string list \<Rightarrow> bool" where
  "taken [] m path = False"
| "taken ((n, t) # ks) m path \<longleftrightarrow> n = m \<and> covers t path \<or> taken ks m path"

fun clashes :: "(HttpMethod \<times> string list) list \<Rightarrow> (HttpMethod \<times> string list) list \<Rightarrow> (HttpMethod \<times> string list) list" where
  "clashes seen [] = []"
| "clashes seen ((m, t) # ks) = (if taken seen m (map sample t) then [(m, t)] else []) @ clashes ((m, t) # seen) ks"

lemma only_clash: "clashes [] (map key routes) = [(GET, [''api'', ''skills'', ''export''])]"
  by code_simp

definition export_key :: "HttpMethod \<times> string list" where
  "export_key = (GET, [''api'', ''skills'', ''export''])"

lemma export_route: "map (\<lambda>(c, r). (co_name c, rt_handler r)) (filter (\<lambda>x. key x = export_key) routes) =
   [(''SkillsController'', ''export'')]"
  by code_simp

lemma export_name:
  "list_all (\<lambda>(c, r). co_name c = ''SkillsController'' \<and> rt_handler r = ''export'' \<longrightarrow> key (c, r) = export_key) routes"
  by code_simp

lemma no_head_routes: "list_all (\<lambda>(c, r). rt_method r \<noteq> HEAD) routes"
  by code_simp

lemma lower_colon [simp]: "js_startsWith (js_toLowerCase t) '':'' \<longleftrightarrow> js_startsWith t '':''"
proof (cases t)
  case (Cons c cs)
  have "ascii_lower c = CHR 0x3A \<longleftrightarrow> c = CHR 0x3A"
    by (auto simp: ascii_lower_def Let_def of_char_eq_iff dest: arg_cong [of _ _ "of_char :: char \<Rightarrow> nat"])
  then show ?thesis using Cons by (simp add: js_startsWith_def js_toLowerCase_def)
qed (simp add: js_startsWith_def js_toLowerCase_def)

lemma lower_Nil [simp]: "js_toLowerCase t = [] \<longleftrightarrow> t = []"
  by (simp add: js_toLowerCase_def)

lemma match_covers: "match_path ts ps \<noteq> None \<longleftrightarrow> covers (map js_toLowerCase ts) (map js_toLowerCase ps)"
  by (induction ts ps rule: match_path.induct) auto

lemma lower_sample_path: "map js_toLowerCase (sample_path c r) = map sample (snd (key (c, r)))"
  by (simp add: sample_path_def key_def sample_def) (simp add: js_toLowerCase_def ascii_lower_def)

lemma covers_own_sample: "covers ts (map sample ts)"
  by (induction ts) (auto simp: sample_def)

lemma taken_iff: "taken ks m path \<longleftrightarrow> (\<exists>t. (m, t) \<in> set ks \<and> covers t path)"
  by (induction ks m path rule: taken.induct) auto

lemma clashes_append: "clashes seen (xs @ ys) = clashes seen xs @ clashes (rev xs @ seen) ys"
  by (induction xs arbitrary: seen) (auto split: prod.splits)

lemma clashes_subset: "set (clashes seen ks) \<subseteq> set ks"
  by (induction seen ks rule: clashes.induct) auto

lemma first_match_position:
  "first_match rs m path = Some (c, r, ps) \<Longrightarrow>
     \<exists>xs ys. rs = xs @ (c, r) # ys \<and> (\<forall>(d, s) \<in> set xs. \<not> (accepts s m \<and> match_path (route_template d s) path \<noteq> None))"
proof (induction rs)
  case (Cons x rest)
  obtain d s where x: "x = (d, s)" by (cases x)
  show ?case
  proof (cases "accepts s m \<and> match_path (route_template d s) path \<noteq> None")
    case True
    then have "x = (c, r)" using Cons.prems x by auto
    then show ?thesis by (intro exI [of _ "[]"] exI [of _ rest]) auto
  next
    case False
    then have "first_match rest m path = Some (c, r, ps)" using Cons.prems x by (auto split: if_splits option.splits)
    then obtain xs ys where "rest = xs @ (c, r) # ys"
        "\<forall>(d, s) \<in> set xs. \<not> (accepts s m \<and> match_path (route_template d s) path \<noteq> None)"
      using Cons.IH by blast
    then show ?thesis using False x by (intro exI [of _ "x # xs"] exI [of _ ys]) auto
  qed
qed simp

lemma first_match_skips:
  "(\<forall>(d, s) \<in> set xs. \<not> (accepts s m \<and> match_path (route_template d s) path \<noteq> None)) \<Longrightarrow>
     first_match (xs @ ys) m path = first_match ys m path"
  by (induction xs) (auto split: prod.splits)

lemma key_in:
  "(m, t) \<in> set (rev (map key xs)) \<longleftrightarrow> (\<exists>(d, s) \<in> set xs. rt_method s = m \<and> t = map js_toLowerCase (route_template d s))"
  by (force simp: key_def)

lemma covers_literal: "list_all (\<lambda>t. \<not> js_startsWith t '':'') ts \<Longrightarrow> covers ts ps \<longleftrightarrow> ps = ts"
  by (induction ts ps rule: covers.induct) auto

lemma earlier_takes:
  assumes "rt_method r \<noteq> HEAD"
  shows "taken (rev (map key xs)) (rt_method r) (map js_toLowerCase path) \<longleftrightarrow>
    (\<exists>(d, s) \<in> set xs. accepts s (rt_method r) \<and> match_path (route_template d s) path \<noteq> None)"
proof -
  have "accepts s (rt_method r) \<longleftrightarrow> rt_method s = rt_method r" for s using assms by (auto simp: accepts_def)
  then show ?thesis unfolding taken_iff match_covers key_in by blast
qed

lemma unclashed_reached:
  assumes route: "(c, r) \<in> set routes" and free: "key (c, r) \<noteq> export_key"
  shows "\<exists>ps. dispatch (rt_method r) (sample_path c r) = Some (c, r, ps)"
proof -
  obtain xs ys where split: "routes = xs @ (c, r) # ys" using route by (meson split_list)
  have get: "rt_method r \<noteq> HEAD" using no_head_routes route by (auto simp: list_all_iff)
  have own: "match_path (route_template c r) (sample_path c r) \<noteq> None"
    using covers_own_sample [of "snd (key (c, r))"] unfolding match_covers lower_sample_path by (simp add: key_def)
  have "\<not> taken (rev (map key xs)) (rt_method r) (map js_toLowerCase (sample_path c r))"
  proof
    assume "taken (rev (map key xs)) (rt_method r) (map js_toLowerCase (sample_path c r))"
    then have "key (c, r) \<in> set (clashes [] (map key routes))"
      unfolding split lower_sample_path by (simp add: clashes_append key_def)
    then show False using free by (simp add: only_clash export_key_def)
  qed
  then have "first_match routes (rt_method r) (sample_path c r) = first_match ((c, r) # ys) (rt_method r) (sample_path c r)"
    unfolding split earlier_takes [OF get] by (intro first_match_skips) auto
  then show ?thesis using own by (auto simp: dispatch_def accepts_def)
qed

lemma export_unreached:
  assumes found: "dispatch m path = Some (c, r, ps)"
  shows "key (c, r) \<noteq> export_key"
proof
  assume key: "key (c, r) = export_key"
  obtain xs ys where split: "routes = xs @ (c, r) # ys"
      and skipped: "\<forall>(d, s) \<in> set xs. \<not> (accepts s m \<and> match_path (route_template d s) path \<noteq> None)"
    using first_match_position [OF found [unfolded dispatch_def]] by blast
  have "filter (\<lambda>x. key x = export_key) xs = []" "filter (\<lambda>x. key x = export_key) ys = []"
    using export_route key unfolding split by (auto simp: filter_empty_conv append_eq_Cons_conv dest: arg_cong [of _ _ length])
  then have others: "export_key \<notin> set (map key xs)" "export_key \<notin> set (map key ys)"
    by (auto simp: filter_empty_conv)
  have "export_key \<in> set (clashes [] (map key routes))" by (simp add: only_clash export_key_def)
  then have "export_key \<in> set (clashes [] (map key xs)) \<or> taken (rev (map key xs)) GET (map sample (snd export_key)) \<or>
      export_key \<in> set (clashes (export_key # rev (map key xs)) (map key ys))"
    using key unfolding split by (auto simp: clashes_append export_key_def split: if_splits)
  then have "taken (rev (map key xs)) GET (map sample (snd export_key))" using others clashes_subset by blast
  moreover have "map sample (snd export_key) = map js_toLowerCase path"
  proof -
    have "snd export_key = map js_toLowerCase (route_template c r)" using arg_cong [OF key, of snd] by (simp add: key_def)
    then have "covers (snd export_key) (map js_toLowerCase path)"
      using dispatch_sound [OF found] match_covers [of "route_template c r" path] by simp
    then have "map js_toLowerCase path = snd export_key"
      by (subst (asm) covers_literal) (simp_all add: export_key_def js_startsWith_def)
    then show ?thesis by (simp add: export_key_def sample_def js_startsWith_def)
  qed
  moreover have "rt_method r = GET" using key by (simp add: key_def export_key_def)
  ultimately have "\<exists>(d, s) \<in> set xs. accepts s GET \<and> match_path (route_template d s) path \<noteq> None"
    using earlier_takes [of r xs path] by simp
  moreover have "accepts r m" using found first_match_sound unfolding dispatch_def by blast
  ultimately show False using skipped \<open>rt_method r = GET\<close> by (auto simp: accepts_def)
qed

text \<open>Every route but one can be reached: the export of the skills is declared behind \<open>GET skills/:id\<close>, which takes all
its requests (and refuses them, as \<open>export\<close> is no uuid); every other route of the table, and nothing else, is the first
match of some path.\<close>

theorem skills_export_is_shadowed:
  "(\<exists>m path ps. dispatch m path = Some (c, r, ps)) \<longleftrightarrow>
     (c, r) \<in> set routes \<and> \<not> (co_name c = ''SkillsController'' \<and> rt_handler r = ''export'')"
proof -
  have "key (c, r) = export_key \<longleftrightarrow> co_name c = ''SkillsController'' \<and> rt_handler r = ''export''" if "(c, r) \<in> set routes"
  proof
    assume "key (c, r) = export_key"
    then have "(co_name c, rt_handler r) \<in> set (map (\<lambda>(c, r). (co_name c, rt_handler r)) (filter (\<lambda>x. key x = export_key) routes))"
      using that by force
    then show "co_name c = ''SkillsController'' \<and> rt_handler r = ''export''" unfolding export_route by simp
  qed (use export_name that in \<open>auto simp: list_all_iff\<close>)
  then show ?thesis using unclashed_reached export_unreached dispatch_sound by blast
qed

end
