(* ===== verification/Health.thy ===== *)
theory Health
  imports Realtime Workflows
begin

text \<open>
  Health: \<open>src/modules/health/health.service.ts\<close> and the indicators it asks.

  What the probed services answer is a parameter: the outcome of every call (\<open>Inl\<close> the error message) and the milliseconds
  it took. The seven checks run in parallel; the clock advances by the longest.
\<close>

type_synonym 'a probe = "(string + 'a) \<times> nat"

record probes =
  pb_postgres :: "unit probe"
  pb_pgvector :: "string option probe"
  pb_nats :: nat
  pb_minio :: "unit probe"
  pb_ollama :: "json probe"
  pb_fastapi :: "unit probe"
  pb_elsa :: "unit probe"

section \<open>Indicators\<close>

record IndicatorDetails =
  id_status :: string
  id_latency_ms :: nat
  id_error :: "string option"
  id_extra :: "(string \<times> json) list"

record IndicatorResponse =
  ir_status :: string
  ir_details :: IndicatorDetails

definition up_or_degraded :: "nat \<Rightarrow> string" where
  "up_or_degraded latencyMs = (if latencyMs > 500 then ''degraded'' else ''up'')"

definition indicator :: "('a \<Rightarrow> (string \<times> json) list) \<Rightarrow> (string \<times> json) list \<Rightarrow> 'a probe \<Rightarrow> IndicatorResponse" where
  "indicator extra failed = (\<lambda>(outcome, latencyMs).
     case outcome of
       Inr x \<Rightarrow> \<lparr>ir_status = ''up'', ir_details =
         \<lparr>id_status = up_or_degraded latencyMs, id_latency_ms = latencyMs, id_error = None, id_extra = extra x\<rparr>\<rparr>
     | Inl message \<Rightarrow> \<lparr>ir_status = ''down'', ir_details =
         \<lparr>id_status = ''down'', id_latency_ms = latencyMs, id_error = Some message, id_extra = failed\<rparr>\<rparr>)"

definition elsa_check :: "unit probe \<Rightarrow> IndicatorResponse" where
  "elsa_check = indicator (\<lambda>_. []) []"

definition fastapi_check :: "unit probe \<Rightarrow> IndicatorResponse" where
  "fastapi_check = indicator (\<lambda>_. []) []"

definition minio_check :: "unit probe \<Rightarrow> IndicatorResponse" where
  "minio_check = indicator (\<lambda>_. []) []"

text \<open>The NATS check calls nothing: all it can find is that the clock moved.\<close>

definition nats_check :: "nat \<Rightarrow> IndicatorResponse" where
  "nats_check latencyMs = indicator (\<lambda>_ :: unit. [(''jetstream'', JBool True)]) [] (Inr (), latencyMs)"

definition getStreamStats :: json where
  "getStreamStats = JObj [(''consumer_count'', json_int 5), (''message_count'', json_int 0), (''bytes'', json_int 0)]"

text \<open>The number of models is the \<open>length\<close> of what the answer calls models, whatever that is.\<close>

definition js_length :: "json \<Rightarrow> json option" where
  "js_length j =
     (case j of
        JArr xs \<Rightarrow> Some (json_int (int (length xs)))
      | JStr s \<Rightarrow> Some (json_int (int (length s)))
      | _ \<Rightarrow> field j ''length'')"

definition ollama_check :: "json probe \<Rightarrow> IndicatorResponse" where
  "ollama_check = indicator
     (\<lambda>data. let models = field data ''models'';
               models = (if json_truthy models then the models else JArr [])
             in (case js_length models of None \<Rightarrow> [] | Some n \<Rightarrow> [(''models_loaded'', n)])) []"

definition pgvector_check :: "string option probe \<Rightarrow> IndicatorResponse" where
  "pgvector_check = indicator
     (\<lambda>version. [(''installed'', JBool (truthy version)),
                 (''version'', if truthy version then JStr (the version) else JNull)])
     [(''installed'', JBool False)]"

definition checkPostgres :: "unit probe \<Rightarrow> IndicatorDetails" where
  "checkPostgres = (\<lambda>(outcome, latencyMs).
     case outcome of
       Inr x \<Rightarrow> \<lparr>id_status = up_or_degraded latencyMs, id_latency_ms = latencyMs, id_error = None, id_extra = []\<rparr>
     | Inl message \<Rightarrow> \<lparr>id_status = ''down'', id_latency_ms = latencyMs, id_error = Some message, id_extra = []\<rparr>)"

section \<open>The service\<close>

definition mapStatus :: "string \<Rightarrow> ServiceStatus" where
  "mapStatus status = (if status = ''down'' then DOWN else if status = ''degraded'' then DEGRADED else OK)"

primrec service_status_str :: "ServiceStatus \<Rightarrow> string" where
  "service_status_str OK = ''ok''"
| "service_status_str DEGRADED = ''degraded''"
| "service_status_str DOWN = ''down''"

definition calculateAggregateStatus :: "(string \<times> HealthStatus) list \<Rightarrow> ServiceStatus" where
  "calculateAggregateStatus services =
     (let statuses = map (\<lambda>(_, s). hs_status s) services in
      if DOWN \<in> set statuses then DOWN else if DEGRADED \<in> set statuses then DEGRADED else OK)"

text \<open>Of the details of an indicator the service keeps the latency, the named fields and the error.\<close>

definition health_entry :: "string list \<Rightarrow> IndicatorDetails \<Rightarrow> HealthStatus" where
  "health_entry kept d =
     \<lparr>hs_status = mapStatus (id_status d),
      hs_details = (''latency_ms'', json_int (int (id_latency_ms d))) # filter (\<lambda>(k, v). k \<in> set kept) (id_extra d) @
        (case id_error d of None \<Rightarrow> [] | Some e \<Rightarrow> [(''error'', JStr e)])\<rparr>"

definition measured :: "probes \<Rightarrow> (string \<times> HealthStatus) list" where
  "measured p =
     [(''postgres'', health_entry [] (checkPostgres (pb_postgres p))),
      (''pgvector'', health_entry [''version''] (ir_details (pgvector_check (pb_pgvector p)))),
      (''nats'', health_entry [''jetstream''] (ir_details (nats_check (pb_nats p)))),
      (''minio'', health_entry [] (ir_details (minio_check (pb_minio p)))),
      (''ollama'', health_entry [''models_loaded''] (ir_details (ollama_check (pb_ollama p)))),
      (''fastapi'', health_entry [] (ir_details (fastapi_check (pb_fastapi p)))),
      (''elsa'', health_entry [] (ir_details (elsa_check (pb_elsa p))))]"

definition longest :: "probes \<Rightarrow> nat" where
  "longest p = foldr max [snd (pb_postgres p), snd (pb_pgvector p), pb_nats p, snd (pb_minio p), snd (pb_ollama p),
     snd (pb_fastapi p), snd (pb_elsa p)] 0"

definition runAllHealthChecks :: "probes \<Rightarrow> (string \<times> HealthStatus) list service" where
  "runAllHealthChecks p =
     andThen (writing (\<lambda>w. w\<lparr>clock := clock w + 1000 * longest p\<rparr>)) (\<lambda>_. ret (measured p))"

definition health_status_json :: "HealthStatus \<Rightarrow> json" where
  "health_status_json s = JObj ((''status'', JStr (service_status_str (hs_status s))) # hs_details s)"

definition alert_payload :: "string \<Rightarrow> HealthStatus \<Rightarrow> ServiceStatus option \<Rightarrow> time \<Rightarrow> json" where
  "alert_payload serviceName status prevStatus now =
     obj [(''service'', Some (JStr serviceName)), (''status'', Some (JStr (service_status_str (hs_status status)))),
       (''previous_status'', map_option (\<lambda>s. JStr (service_status_str s)) prevStatus),
       (''timestamp'', Some (JStr (toISOString now))), (''details'', Some (health_status_json status))]"

text \<open>A service that became degraded or went down, compared with the cached result, is announced to the room of the admins.\<close>

definition alerting :: "(string \<times> HealthStatus) list \<Rightarrow> string \<times> HealthStatus \<Rightarrow> bool" where
  "alerting previous = (\<lambda>(serviceName, status).
     map_option hs_status (map_of previous serviceName) \<noteq> Some (hs_status status) \<and> hs_status status \<in> {DEGRADED, DOWN})"

fun emit_alerts :: "(string \<times> HealthStatus) list \<Rightarrow> (string \<times> HealthStatus) list \<Rightarrow> unit service" where
  "emit_alerts previous [] = ret ()"
| "emit_alerts previous ((serviceName, status) # rest) =
     andThen (unless (\<not> alerting previous (serviceName, status))
       (\<lambda>w. emitToRoom ''admin-health'' ''system.health.alert''
         (alert_payload serviceName status (map_option hs_status (map_of previous serviceName)) (new_Date w)) w)) (\<lambda>_.
     emit_alerts previous rest)"

definition checkAndEmitAlerts :: "(string \<times> HealthStatus) list \<Rightarrow> unit service" where
  "checkAndEmitAlerts result w =
     (case healthCache w of None \<Rightarrow> ret () w | Some cache \<Rightarrow> emit_alerts (ch_result cache) result w)"

definition CACHE_TTL_MS :: nat where
  "CACHE_TTL_MS = 30000"

definition cache_fresh :: "world \<Rightarrow> CachedHealthResult \<Rightarrow> bool" where
  "cache_fresh w cache \<longleftrightarrow> int (new_Date w div 1000) - int (ch_timestamp cache div 1000) < int CACHE_TTL_MS"

record HealthAnswer =
  ha_status :: ServiceStatus
  ha_services :: "(string \<times> HealthStatus) list"
  ha_timestamp :: time

definition cached_ping :: "world \<Rightarrow> time option" where
  "cached_ping w = Option.bind (healthCache w) ch_pingTimestamp"

definition refresh :: "probes \<Rightarrow> HealthAnswer service" where
  "refresh p =
     andThen (runAllHealthChecks p) (\<lambda>result.
     andThen (checkAndEmitAlerts result) (\<lambda>_.
     andThen (writing (\<lambda>w. w\<lparr>healthCache := Some \<lparr>ch_result = result, ch_timestamp = new_Date w,
       ch_pingTimestamp = cached_ping w\<rparr>\<rparr>)) (\<lambda>_.
     reading (\<lambda>w. \<lparr>ha_status = calculateAggregateStatus result, ha_services = result, ha_timestamp = new_Date w\<rparr>))))"

definition checkHealth :: "probes \<Rightarrow> HealthAnswer service" where
  "checkHealth p w =
     (case healthCache w of
        Some cache \<Rightarrow>
          if cache_fresh w cache
          then ret \<lparr>ha_status = calculateAggregateStatus (ch_result cache), ha_services = ch_result cache,
                   ha_timestamp = ch_timestamp cache\<rparr> w
          else refresh p w
      | None \<Rightarrow> refresh p w)"

definition checkHealthDetails :: "probes \<Rightarrow> (HealthAnswer \<times> time option) service" where
  "checkHealthDetails p = andThen (checkHealth p) (\<lambda>health. reading (\<lambda>w. (health, cached_ping w)))"

text \<open>A ping on NATS stamps the cache; without a cache it makes one that knows no services.\<close>

definition onHealthPing :: "json \<Rightarrow> unit service" where
  "onHealthPing payload = writing (\<lambda>w. w\<lparr>healthCache := Some
     (case healthCache w of
        Some cache \<Rightarrow> cache\<lparr>ch_pingTimestamp := Some (new_Date w)\<rparr>
      | None \<Rightarrow> \<lparr>ch_result = [], ch_timestamp = new_Date w, ch_pingTimestamp = Some (new_Date w)\<rparr>)\<rparr>)"

text \<open>The single checks behind the admin routes.\<close>

definition details_json :: "IndicatorDetails \<Rightarrow> json" where
  "details_json d = obj ([(''status'', Some (JStr (id_status d))), (''latency_ms'', Some (json_int (int (id_latency_ms d))))] @
     map (\<lambda>(k, v). (k, Some v)) (id_extra d) @ [(''error'', map_option JStr (id_error d))])"

definition single_check :: "string list \<Rightarrow> IndicatorDetails \<Rightarrow> json" where
  "single_check kept d = obj ([(''status'', Some (JStr (id_status d))), (''latency_ms'', Some (json_int (int (id_latency_ms d))))] @
     map (\<lambda>k. (k, map_of (id_extra d) k)) kept @ [(''details'', Some (details_json d))])"

definition checkAiService :: "unit probe \<Rightarrow> json" where
  "checkAiService p = single_check [] (ir_details (fastapi_check p))"

definition checkOllama :: "json probe \<Rightarrow> json" where
  "checkOllama p = single_check [''models_loaded''] (ir_details (ollama_check p))"

definition checkPgVector :: "string option probe \<Rightarrow> json" where
  "checkPgVector p = single_check [''version''] (ir_details (pgvector_check p))"

definition checkNatsStats :: json where
  "checkNatsStats = getStreamStats"

definition checkPostgresLatency :: "unit probe \<Rightarrow> string \<times> nat" where
  "checkPostgresLatency = (\<lambda>(outcome, latencyMs).
     (case outcome of Inr x \<Rightarrow> if latencyMs > 500 then ''degraded'' else ''ok'' | Inl m \<Rightarrow> ''down'', latencyMs))"

definition ping :: json where
  "ping = JObj [(''pong'', JBool True)]"

end
