(* ===== verification/Health_Correct.thy ===== *)
theory Health_Correct
  imports Health
begin

text \<open>
  How old a health answer can be, which alerts are sent, and what the checks cannot see.
\<close>

section \<open>One check\<close>

lemma emit_alerts_run:
  "emit_alerts previous result w = (Inr (), w\<lparr>emitted := emitted w @
     map (\<lambda>(n, s). \<lparr>ws_room = ''admin-health'', ws_event = ''system.health.alert'',
         ws_payload = alert_payload n s (map_option hs_status (map_of previous n)) (new_Date w),
         ws_to = room_members ''admin-health'' w\<rparr>)
       (filter (alerting previous) result)\<rparr>)"
proof (induction previous result arbitrary: w rule: emit_alerts.induct)
  case (2 previous n s rest)
  have "new_Date (emitted_update f u) = new_Date u" "room_members r (emitted_update f u) = room_members r u" for f r u
    by (simp_all add: new_Date_def room_members_def)
  then show ?case using 2 by (simp add: andThen_def unless_def emitToRoom_run)
qed (simp add: ret_def)

definition alert_emissions :: "probes \<Rightarrow> world \<Rightarrow> ws_emission list" where
  "alert_emissions p w =
     (case healthCache w of
        None \<Rightarrow> []
      | Some cache \<Rightarrow> map (\<lambda>(n, s). \<lparr>ws_room = ''admin-health'', ws_event = ''system.health.alert'',
            ws_payload = alert_payload n s (map_option hs_status (map_of (ch_result cache) n)) (new_Date w),
            ws_to = room_members ''admin-health'' w\<rparr>)
          (filter (alerting (ch_result cache)) (measured p)))"

definition after_checks :: "probes \<Rightarrow> world \<Rightarrow> world" where
  "after_checks p w = w\<lparr>clock := clock w + 1000 * longest p\<rparr>"

lemma refresh_run:
  "refresh p w = (Inr \<lparr>ha_status = calculateAggregateStatus (measured p), ha_services = measured p,
      ha_timestamp = new_Date (after_checks p w)\<rparr>,
    (after_checks p w)\<lparr>emitted := emitted w @ alert_emissions p (after_checks p w),
      healthCache := Some \<lparr>ch_result = measured p, ch_timestamp = new_Date (after_checks p w),
        ch_pingTimestamp = cached_ping w\<rparr>\<rparr>)"
  by (cases "healthCache w")
    (simp_all add: refresh_def runAllHealthChecks_def checkAndEmitAlerts_def andThen_def writing_def reading_def ret_def
      emit_alerts_run alert_emissions_def after_checks_def cached_ping_def new_Date_def)

lemma checkHealth_cached:
  "healthCache w = Some cache \<Longrightarrow> cache_fresh w cache \<Longrightarrow>
     checkHealth p w = (Inr \<lparr>ha_status = calculateAggregateStatus (ch_result cache), ha_services = ch_result cache,
       ha_timestamp = ch_timestamp cache\<rparr>, w)"
  by (simp add: checkHealth_def ret_def)

lemma checkHealth_refreshed:
  "\<forall>cache. healthCache w = Some cache \<longrightarrow> \<not> cache_fresh w cache \<Longrightarrow> checkHealth p w = refresh p w"
  by (simp add: checkHealth_def split: option.split)

text \<open>The NATS check cannot fail, and a missing vector extension is up.\<close>

lemma nats_never_down: "map_option hs_status (map_of (measured p) ''nats'') \<noteq> Some DOWN"
  by (simp add: measured_def health_entry_def nats_check_def indicator_def mapStatus_def up_or_degraded_def)

lemma missing_extension_is_up:
  "pb_pgvector p = (Inr None, 0) \<Longrightarrow> map_option hs_status (map_of (measured p) ''pgvector'') = Some OK"
  by (simp add: measured_def health_entry_def pgvector_check_def indicator_def mapStatus_def up_or_degraded_def)

section \<open>Sequences of requests, pings and waiting\<close>

text \<open>The history lists every measurement with the time its answer carries.\<close>

inductive monitored :: "(time \<times> (string \<times> HealthStatus) list) list \<Rightarrow> world \<Rightarrow> bool" where
  start: "healthCache w = None \<Longrightarrow> monitored [] w"
| cached: "monitored h w \<Longrightarrow> healthCache w = Some cache \<Longrightarrow> cache_fresh w cache \<Longrightarrow> checkHealth p w = (x, v) \<Longrightarrow>
    monitored h v"
| checked: "monitored h w \<Longrightarrow> \<forall>cache. healthCache w = Some cache \<longrightarrow> \<not> cache_fresh w cache \<Longrightarrow>
    checkHealth p w = (x, v) \<Longrightarrow> monitored (h @ [(new_Date v, measured p)]) v"
| pinged: "monitored h w \<Longrightarrow> onHealthPing payload w = (x, v) \<Longrightarrow> monitored h v"
| waited: "monitored h w \<Longrightarrow> monitored h (w\<lparr>clock := clock w + d\<rparr>)"

definition holds_last :: "(time \<times> (string \<times> HealthStatus) list) list \<Rightarrow> world \<Rightarrow> bool" where
  "holds_last h w \<longleftrightarrow>
     (case healthCache w of
        None \<Rightarrow> h = []
      | Some cache \<Rightarrow> h = [] \<and> ch_result cache = [] \<and> ch_pingTimestamp cache \<noteq> None \<or> h \<noteq> [] \<and> last h = (ch_timestamp cache, ch_result cache))"

lemma monitored_holds_last: "monitored h w \<Longrightarrow> holds_last h w"
proof (induction rule: monitored.induct)
  case (cached h w cache p x v)
  then show ?case by (simp add: checkHealth_cached)
next
  case (checked h w p x v)
  then show ?case by (auto simp: checkHealth_refreshed refresh_run holds_last_def after_checks_def new_Date_def)
next
  case (pinged h w payload x v)
  then show ?case by (auto simp: onHealthPing_def writing_def holds_last_def split: option.splits)
qed (simp_all add: holds_last_def)

text \<open>C37. After any sequence of requests, pings and pauses a health request succeeds, with the aggregate of the services it
reports. They are what the probes say now, or what the last measurement said, less than thirty seconds ago; or, where nothing
has been measured but a ping arrived less than thirty seconds ago, there are no services and the answer is that all is well.\<close>

theorem health_answers_are_fresh:
  assumes past: "monitored h w" and run: "checkHealth p w = (x, v)"
  shows "\<exists>a. x = Inr a \<and> ha_status a = calculateAggregateStatus (ha_services a) \<and>
    (ha_services a = measured p \<and> ha_timestamp a = new_Date v \<or>
     int (new_Date w div 1000) - int (ha_timestamp a div 1000) < 30000 \<and>
       (h \<noteq> [] \<and> (ha_timestamp a, ha_services a) = last h \<or>
        h = [] \<and> ha_services a = [] \<and> ha_status a = OK \<and> cached_ping w \<noteq> None))"
proof (cases "\<exists>cache. healthCache w = Some cache \<and> cache_fresh w cache")
  case True
  then obtain cache where cache: "healthCache w = Some cache" "cache_fresh w cache" by blast
  then have "x = Inr \<lparr>ha_status = calculateAggregateStatus (ch_result cache), ha_services = ch_result cache,
      ha_timestamp = ch_timestamp cache\<rparr>"
    using run by (simp add: checkHealth_cached)
  moreover have "holds_last h w" using past by (rule monitored_holds_last)
  ultimately show ?thesis using cache
    by (auto simp: holds_last_def cache_fresh_def CACHE_TTL_MS_def calculateAggregateStatus_def cached_ping_def)
next
  case False
  then have "checkHealth p w = refresh p w" by (intro checkHealth_refreshed) blast
  then show ?thesis using run by (auto simp: refresh_run after_checks_def new_Date_def)
qed

text \<open>Everything is down, but a ping came before the first request.\<close>

definition outage :: probes where
  "outage = (let down = (Inl ''refused'', 5) in \<lparr>pb_postgres = down, pb_pgvector = (Inl ''refused'', 5), pb_nats = 0, pb_minio = down,
     pb_ollama = (Inl ''refused'', 5), pb_fastapi = down, pb_elsa = down\<rparr>)"

definition pinged_world :: world where
  "pinged_world = sample_world\<lparr>healthCache := Some \<lparr>ch_result = [], ch_timestamp = new_Date sample_world,
     ch_pingTimestamp = Some (new_Date sample_world)\<rparr>\<rparr>"

theorem health_answers_are_fresh_witness:
  "\<exists>a v. checkHealth outage pinged_world = (Inr a, v) \<and> ha_status a = OK \<and> ha_services a = []"
proof -
  have cache: "healthCache sample_world = None" by (simp add: sample_defs)
  have "onHealthPing JNull sample_world = (Inr (), pinged_world)"
    by (simp add: onHealthPing_def writing_def pinged_world_def cache)
  with start [OF cache] have past: "monitored [] pinged_world" by (rule pinged)
  obtain x v where run: "checkHealth outage pinged_world = (x, v)" by (metis surj_pair)
  let ?cache = "\<lparr>ch_result = [], ch_timestamp = new_Date sample_world, ch_pingTimestamp = Some (new_Date sample_world)\<rparr>"
  have "healthCache pinged_world = Some ?cache" "cache_fresh pinged_world ?cache"
    by (simp_all add: pinged_world_def cache_fresh_def CACHE_TTL_MS_def new_Date_def)
  from checkHealth_cached [OF this, of outage]
  have "checkHealth outage pinged_world = (Inr \<lparr>ha_status = OK, ha_services = [], ha_timestamp = new_Date sample_world\<rparr>, pinged_world)"
    by (simp add: calculateAggregateStatus_def)
  with health_answers_are_fresh [OF past run] run show ?thesis by auto
qed

end
