(* ===== verification/Seeds.thy ===== *)
theory Seeds
  imports Ai_Handlers
begin

text \<open>
  The rows every installation starts with: the agent definitions and process patterns that the migration
  \<open>src/database/migrations/1700000001000-SeedAgentDefinitions.ts\<close> inserts or refreshes, and its reversal.
\<close>

section \<open>The data\<close>

definition agents :: "(string \<times> AgentType \<times> (string \<times> json) list) list" where
  "agents =
    [(''Orchestrator Agent v1'', AgentType.ORCHESTRATOR, []),
     (''Intake Agent v1'', AgentType.INTAKE, []),
     (''Extraction Agent v1'', AgentType.EXTRACTION,
       [(''temperature'', JNum ''0.1''), (''max_tokens'', JNum ''2048''), (''output_schema_version'', JStr ''v1''),
        (''confidence_minimum'', JNum ''0.5'')]),
     (''Pattern Agent v1'', AgentType.PATTERN,
       [(''similarity_threshold'', JNum ''0.72''), (''max_candidates'', JNum ''5''), (''fallback_to_generic'', JBool True)]),
     (''Gap Detection Agent v1'', AgentType.GAP_DETECTION, [(''critical_gap_auto_block'', JBool False)]),
     (''Qa Agent v1'', AgentType.QA,
       [(''max_rounds'', JNum ''5''), (''max_questions_per_round'', JNum ''3''), (''skip_allowed'', JBool True)]),
     (''Validation Agent v1'', AgentType.VALIDATION,
       [(''confidence_exit_threshold'', JNum ''0.85''), (''require_all_critical_resolved'', JBool True)]),
     (''Export Agent v1'', AgentType.EXPORT,
       [(''default_formats'', JArr [JStr ''elsa'', JStr ''bpmn'']), (''include_decision_log_in_pdf'', JBool True)]),
     (''Divergence Agent v1'', AgentType.DIVERGENCE,
       [(''similarity_threshold'', JNum ''0.85''), (''path_depth_limit'', JNum ''12''), (''reconciliation_llm'', JBool True)]),
     (''Rules Skills Loader Agent v1'', AgentType.RULES_SKILLS_LOADER,
       [(''top_k_skills'', JNum ''3''), (''mandatory_actor_catalog'', JBool True)])]"

definition node :: "string \<Rightarrow> string \<Rightarrow> json" where
  "node kind label = JObj [(''type'', JStr kind), (''label'', JStr label)]"

definition edge :: "int \<Rightarrow> int \<Rightarrow> json" where
  "edge a b = JObj [(''from'', json_int a), (''to'', json_int b)]"

definition graph :: "json list \<Rightarrow> json list \<Rightarrow> json" where
  "graph nodes edges = JObj [(''nodes'', JArr nodes), (''edges'', JArr edges)]"

definition processPatterns :: "(string \<times> string \<times> string \<times> json \<times> string list) list" where
  "processPatterns =
    [(''Approval'', ''approval'', ''Routes work to an approver before continuing.'',
       graph [node ''task'' ''Submit'', node ''approval'' ''Approve''] [edge 0 1],
       [''requester'', ''approver'', ''approval_decision'']),
     (''Escalation'', ''escalation'', ''Escalates unresolved or overdue work to a higher authority.'',
       graph [node ''task'' ''Review'', node ''timer'' ''SLA Breach'', node ''task'' ''Escalate''] [edge 0 1, edge 1 2],
       [''owner'', ''escalation_target'', ''sla'']),
     (''Parallel Review'', ''parallel_review'', ''Runs multiple review branches before joining the result.'',
       graph [node ''split'' ''Start Reviews'', node ''task'' ''Review A'', node ''task'' ''Review B'', node ''join'' ''Consolidate'']
         [edge 0 1, edge 0 2, edge 1 3, edge 2 3],
       [''reviewers'', ''join_condition'']),
     (''Notification'', ''notification'', ''Notifies an actor or system when a business event occurs.'',
       graph [node ''event'' ''Event Occurs'', node ''notification'' ''Notify Stakeholder''] [edge 0 1],
       [''recipient'', ''channel'', ''message'']),
     (''Periodic Execution'', ''periodic_execution'', ''Runs a process on a recurring schedule.'',
       graph [node ''timer'' ''Schedule'', node ''task'' ''Execute Job''] [edge 0 1],
       [''schedule'', ''executor'']),
     (''Onboarding'', ''onboarding'',
       ''Collects information, provisions access, and confirms completion for a new participant.'',
       graph [node ''task'' ''Collect Details'', node ''task'' ''Provision Access'', node ''task'' ''Confirm Completion'']
         [edge 0 1, edge 1 2],
       [''participant'', ''access_owner'', ''completion_criteria''])]"

section \<open>The migration\<close>

text \<open>\<open>INSERT ... ON CONFLICT (name) DO UPDATE\<close>: the row with the name is refreshed, or a row with a fresh id added. Names are
unique in both tables.\<close>

definition upsert :: "('r \<Rightarrow> string) \<Rightarrow> string \<Rightarrow> ('r \<Rightarrow> 'r) \<Rightarrow> (string \<Rightarrow> 'r) \<Rightarrow> (nat \<Rightarrow> string) \<Rightarrow> nat \<Rightarrow> 'r list \<Rightarrow> 'r list \<times> nat" where
  "upsert key name refresh create ids n rows =
     (if name \<in> key ` set rows then (map (\<lambda>r. if key r = name then refresh r else r) rows, n)
      else (rows @ [create (ids n)], Suc n))"

definition upsert_agent :: "string \<times> AgentType \<times> (string \<times> json) list \<Rightarrow> world \<Rightarrow> world" where
  "upsert_agent = (\<lambda>(name, agentType, config) w.
     let (rows, n) = upsert ad_name name
           (\<lambda>r. r\<lparr>ad_defaultConfig := JObj config, ad_agentType := agentType, ad_updatedAt := clock w\<rparr>)
           (\<lambda>i. \<lparr>ad_id = i, ad_name = name, ad_agentType = agentType, ad_version = ''1.0.0'', ad_description = None,
              ad_capabilities = JArr [], ad_defaultConfig = JObj config, ad_isActive = True, ad_createdAt = clock w,
              ad_updatedAt = clock w\<rparr>)
           (idSupply w) (idNext w) (agentDefinitionRows w)
     in w\<lparr>agentDefinitionRows := rows, idNext := n\<rparr>)"

definition upsert_pattern :: "string \<times> string \<times> string \<times> json \<times> string list \<Rightarrow> world \<Rightarrow> world" where
  "upsert_pattern = (\<lambda>(name, archetypeType, description, templateJson, slots) w.
     let (rows, n) = upsert pp_name name
           (\<lambda>r. r\<lparr>pp_archetypeType := archetypeType, pp_description := Some description, pp_templateJson := templateJson,
              pp_requiredSlots := slots\<rparr>)
           (\<lambda>i. \<lparr>pp_id = i, pp_name = name, pp_archetypeType = archetypeType, pp_description = Some description,
              pp_templateJson = templateJson, pp_requiredSlots = slots, pp_embedding = None, pp_createdAt = clock w\<rparr>)
           (idSupply w) (idNext w) (processPatternRows w)
     in w\<lparr>processPatternRows := rows, idNext := n\<rparr>)"

definition seed_up :: "world \<Rightarrow> world" where
  "seed_up w = fold upsert_pattern processPatterns (fold upsert_agent agents w)"

text \<open>Reverting deletes the seeded rows, in one transaction; an execution that refers to a seeded definition prevents it.\<close>

definition seeded_agent_row :: "AgentDefinition \<Rightarrow> bool" where
  "seeded_agent_row d \<longleftrightarrow> ad_name d \<in> set (map fst agents)"

definition seeded_pattern_row :: "ProcessPattern \<Rightarrow> bool" where
  "seeded_pattern_row r \<longleftrightarrow> pp_name r \<in> set (map fst processPatterns)"

definition seeds_used :: "world \<Rightarrow> bool" where
  "seeds_used w \<longleftrightarrow>
     (\<exists>a \<in> set (agentExecutionRows w). \<exists>d \<in> set (agentDefinitionRows w).
        seeded_agent_row d \<and> ad_id d = ae_agentDefinitionId a)"

definition seed_down :: "unit service" where
  "seed_down w =
     (if seeds_used w then (Inl (QueryFailedError ''agent_execution_agent_definition_id_fkey''), w)
      else (Inr (), w\<lparr>processPatternRows := filter (\<lambda>r. \<not> seeded_pattern_row r) (processPatternRows w),
                      agentDefinitionRows := filter (\<lambda>d. \<not> seeded_agent_row d) (agentDefinitionRows w)\<rparr>))"

end
