(* ===== verification/Stream_Token.thy ===== *)
theory Stream_Token
  imports Seeds
begin

text \<open>
  \<open>src/modules/ai-gateway/handlers/stream-token.handler.ts\<close>: the progress of an agent, with its execution row, its log line
  and the totals of the pipeline run. The subscriber constructs the handler but relays progress messages without it.
\<close>

text \<open>A text stored in an enum column has to be one of its values.\<close>

definition agent_types :: "AgentType list" where
  "agent_types = [AgentType.ORCHESTRATOR, AgentType.INTAKE, AgentType.EXTRACTION, AgentType.PATTERN, AgentType.GAP_DETECTION,
     AgentType.QA, AgentType.VALIDATION, AgentType.EXPORT, AgentType.DIVERGENCE, AgentType.RULES_SKILLS_LOADER]"

definition execution_statuses :: "AgentExecutionStatus list" where
  "execution_statuses = [AgentExecutionStatus.PENDING, AgentExecutionStatus.RUNNING, AgentExecutionStatus.COMPLETED,
     AgentExecutionStatus.FAILED, AgentExecutionStatus.SKIPPED]"

definition log_levels :: "LogLevel list" where
  "log_levels = [LogLevel.DEBUG, LogLevel.INFO, LogLevel.WARNING, LogLevel.ERROR]"

definition enum_value :: "('a \<Rightarrow> string) \<Rightarrow> 'a list \<Rightarrow> string \<Rightarrow> 'a service" where
  "enum_value str values s = orThrow (find (\<lambda>v. str v = s) values) (QueryFailedError ''invalid input value for enum'')"

text \<open>\<open>new Date\<close> on a text is a parameter; the database refuses the date of a text that is none.\<close>

definition payload_date :: "(string \<Rightarrow> time option) \<Rightarrow> string option \<Rightarrow> time option service" where
  "payload_date date_of s =
     (if \<not> truthy s then ret None
      else orThrow (map_option Some (Option.bind s date_of)) (QueryFailedError ''invalid input syntax for type timestamp''))"

definition int4 :: "int \<Rightarrow> bool" where
  "int4 n \<longleftrightarrow> - 2147483648 \<le> n \<and> n \<le> 2147483647"

definition resolveAgentDefinitionId :: "string \<Rightarrow> string service" where
  "resolveAgentDefinitionId agentType =
     andThen (enum_value agent_type_str agent_types agentType) (\<lambda>t.
     andThen (reading (\<lambda>w. filter (\<lambda>d. ad_agentType d = t) (sort_key ad_createdAt (agentDefinitionRows w)))) (\<lambda>found.
     case found of
       [] \<Rightarrow> throw (PlainError (''Agent definition missing for '' @ agentType))
     | d # _ \<Rightarrow> ret (ad_id d)))"

definition assertOrgMatch :: "string option \<Rightarrow> string \<Rightarrow> unit service" where
  "assertOrgMatch orgId sessionId =
     (if \<not> truthy orgId then ret ()
      else
        andThen (\<lambda>w. orThrow (find_row se_id sessionId (sessionRows w)) (PlainError ''Session not found for org validation'') w)
          (\<lambda>session.
        andThen (\<lambda>w. orThrow (find_row wf_id (se_workflowId session) (workflowRows w))
          (PlainError ''Workflow not found for org validation'') w) (\<lambda>workflow.
        check (Some (wf_orgId workflow) = orgId) (PlainError ''org_id mismatch in NATS payload''))))"

definition new_execution ::
  "AiTaskProgressEvent \<Rightarrow> string \<Rightarrow> AgentExecutionStatus \<Rightarrow> time option \<Rightarrow> time option \<Rightarrow> time \<Rightarrow> AgentExecution" where
  "new_execution p definitionId status startedAt completedAt now =
     \<lparr>ae_id = ap_agent_execution_id p, ae_pipelineExecutionId = ap_pipeline_execution_id p,
      ae_agentDefinitionId = definitionId, ae_status = status, ae_orderIndex = ap_order_index p, ae_inputSnapshot = None,
      ae_outputSnapshot = None, ae_confidenceInput = ap_confidence_input p, ae_confidenceOutput = ap_confidence_output p,
      ae_llmCallsCount = 0, ae_tokensConsumed = 0, ae_errorMessage = ap_error_message p, ae_durationMs = None,
      ae_startedAt = startedAt, ae_completedAt = completedAt,
      ae_createdAt = now\<rparr>"

definition add_delta :: "int \<Rightarrow> int option \<Rightarrow> int" where
  "add_delta n delta = (case delta of None \<Rightarrow> n | Some d \<Rightarrow> max 0 (n + d))"

definition progressed ::
  "AiTaskProgressEvent \<Rightarrow> AgentExecutionStatus \<Rightarrow> time option \<Rightarrow> time option \<Rightarrow> AgentExecution \<Rightarrow> AgentExecution" where
  "progressed p status startedAt completedAt a =
     a\<lparr>ae_status := status, ae_orderIndex := ap_order_index p,
       ae_confidenceInput := or_else (ap_confidence_input p) (ae_confidenceInput a),
       ae_confidenceOutput := or_else (ap_confidence_output p) (ae_confidenceOutput a),
       ae_llmCallsCount := add_delta (ae_llmCallsCount a) (ap_llm_calls_delta p),
       ae_tokensConsumed := add_delta (ae_tokensConsumed a) (ap_tokens_delta p),
       ae_startedAt := or_else startedAt (ae_startedAt a),
       ae_completedAt := or_else completedAt (ae_completedAt a),
       ae_errorMessage := (if truthy (ap_error_message p) then ap_error_message p else ae_errorMessage a)\<rparr>"

definition checkpointed :: "AiTaskProgressEvent \<Rightarrow> AgentType \<Rightarrow> AgentExecutionStatus \<Rightarrow> time \<Rightarrow> PipelineExecution \<Rightarrow> PipelineExecution" where
  "checkpointed p agentType status now r =
     r\<lparr>pe_totalLlmCalls := add_delta (pe_totalLlmCalls r) (ap_llm_calls_delta p),
       pe_totalTokensConsumed := add_delta (pe_totalTokensConsumed r) (ap_tokens_delta p),
       pe_lastCheckpointAgent := Some agentType,
       pe_status := (if status = AgentExecutionStatus.FAILED then PipelineStatus.PAUSED else PipelineStatus.RUNNING),
       pe_startedAt := or_else (pe_startedAt r) (Some now),
       pe_completedAt := (if status \<in> {AgentExecutionStatus.COMPLETED, AgentExecutionStatus.FAILED} then None else pe_completedAt r)\<rparr>"

definition log_progress :: "string \<Rightarrow> AgentLog option \<Rightarrow> unit service" where
  "log_progress executionId log =
     (case log of
        None \<Rightarrow> ret ()
      | Some l \<Rightarrow>
          andThen (enum_value log_level_str log_levels (al_level l)) (\<lambda>level.
          andThen new_id (\<lambda>i.
          andThen (reading clock) (\<lambda>now.
          insert_agent_log \<lparr>lg_id = i, lg_agentExecutionId = executionId, lg_logLevel = level, lg_message = al_message l,
            lg_metadata = (case al_metadata l of None \<Rightarrow> JObj [] | Some m \<Rightarrow> m), lg_createdAt = now\<rparr>))))"

definition progress_payload :: "AiTaskProgressEvent \<Rightarrow> json" where
  "progress_payload p =
     JObj [(''pipelineExecutionId'', JStr (ap_pipeline_execution_id p)), (''agentExecutionId'', JStr (ap_agent_execution_id p)),
       (''agentType'', JStr (ap_agent_type p)), (''status'', JStr (ap_status p)), (''progressPct'', JNum (ap_progress_pct p))]"

text \<open>The definition of the agent is looked up even when the execution exists; the execution is saved before the run.\<close>

definition handleStreamToken :: "(string \<Rightarrow> time option) \<Rightarrow> AiTaskProgressEvent \<Rightarrow> string option \<Rightarrow> unit service" where
  "handleStreamToken date_of p msgId w =
     (let key = idempotencyKey msgId (ap_correlation_id p) ''ai.tasks.progress'' in
      if key \<in> set (progressIds w) then (Inr (), w)
      else
        andThen (assertOrgMatch (ap_org_id p) (ap_session_id p)) (\<lambda>_.
        andThen (\<lambda>w. orThrow (find (\<lambda>r. pe_id r = ap_pipeline_execution_id p \<and> pe_sessionId r = ap_session_id p) (pipelineRows w))
          (PlainError ''Pipeline execution not found for ai.tasks.progress'') w) (\<lambda>run.
        andThen (reading (\<lambda>w. find (\<lambda>a. ae_id a = ap_agent_execution_id p \<and>
          ae_pipelineExecutionId a = ap_pipeline_execution_id p) (agentExecutionRows w))) (\<lambda>existing.
        andThen (resolveAgentDefinitionId (ap_agent_type p)) (\<lambda>definitionId.
        andThen (enum_value agent_type_str agent_types (ap_agent_type p)) (\<lambda>agentType.
        andThen (enum_value agent_execution_status_str execution_statuses (ap_status p)) (\<lambda>status.
        andThen (payload_date date_of (ap_started_at p)) (\<lambda>startedAt.
        andThen (payload_date date_of (ap_completed_at p)) (\<lambda>completedAt.
        andThen (reading (\<lambda>w. progressed p status startedAt completedAt
          (case existing of Some a \<Rightarrow> a
           | None \<Rightarrow> new_execution p definitionId status startedAt completedAt (clock w)))) (\<lambda>execution.
        andThen (constraint (int4 (ae_tokensConsumed execution)) ''integer out of range'') (\<lambda>_.
        andThen (save_agent_execution execution) (\<lambda>_.
        andThen (log_progress (ae_id execution) (ap_log p)) (\<lambda>_.
        andThen (reading (\<lambda>w. checkpointed p agentType status (new_Date w) run)) (\<lambda>saved.
        andThen (constraint (int4 (pe_totalLlmCalls saved) \<and> int4 (pe_totalTokensConsumed saved)) ''integer out of range'') (\<lambda>_.
        andThen (save_pipeline saved) (\<lambda>_.
        andThen (emitToSession (ap_session_id p) ''pipeline.progress'' (progress_payload p)) (\<lambda>_.
        writing (progressIds_update (markHandled key)))))))))))))))))) w)"

end
