(* ===== verification/Seeds_Correct.thy ===== *)
theory Seeds_Correct
  imports Stream_Token Ai_Correct
begin

text \<open>
  What the seed migration leaves behind, and what the progress handler counts.
\<close>

section \<open>The seed migration\<close>

text \<open>A seed is settled when its row is there and a refresh would not change it.\<close>

definition settled :: "('r \<Rightarrow> string) \<Rightarrow> string \<Rightarrow> ('r \<Rightarrow> 'r) \<Rightarrow> 'r list \<Rightarrow> bool" where
  "settled key name refresh rows \<longleftrightarrow> name \<in> key ` set rows \<and> (\<forall>r \<in> set rows. key r = name \<longrightarrow> refresh r = r)"

lemma upsert_settled: "settled key name refresh rows \<Longrightarrow> upsert key name refresh create ids n rows = (rows, n)"
  by (auto simp: upsert_def settled_def intro: map_idI)

lemma settled_upsert:
  assumes "\<And>r. key (refresh r) = key r" "\<And>r. refresh (refresh r) = refresh r" "\<And>i. refresh (create i) = create i"
    "\<And>i. key (create i) = name"
  shows "settled key name refresh (fst (upsert key name refresh create ids n rows))"
proof (cases "name \<in> key ` set rows")
  case True
  then obtain r where "r \<in> set rows" "key r = name" by blast
  then have "name \<in> key ` set (map (\<lambda>r. if key r = name then refresh r else r) rows)"
    using assms(1) by (intro image_eqI [of _ _ "refresh r"]) auto
  then show ?thesis using True assms(1,2) by (auto simp: settled_def upsert_def)
next
  case False
  then show ?thesis using assms(3,4) by (auto simp: settled_def upsert_def)
qed

lemma settled_other:
  assumes "settled key name refresh rows" "other \<noteq> name" "\<And>r. key (refresh' r) = key r" "\<And>i. key (create i) = other"
  shows "settled key name refresh (fst (upsert key other refresh' create ids n rows))"
  using assms by (auto simp: settled_def upsert_def image_image)

lemma upsert_filter:
  assumes "name \<in> N" "\<And>r. key (refresh r) = key r" "\<And>i. key (create i) = name"
  shows "filter (\<lambda>r. key r \<notin> N) (fst (upsert key name refresh create ids n rows)) = filter (\<lambda>r. key r \<notin> N) rows"
proof -
  have "filter (\<lambda>r. key r \<notin> N) (map (\<lambda>r. if key r = name then refresh r else r) rows) = filter (\<lambda>r. key r \<notin> N) rows"
    using assms(1,2) by (induction rows) auto
  then show ?thesis using assms(1,3) by (simp add: upsert_def)
qed

definition agent_settled :: "string \<times> AgentType \<times> (string \<times> json) list \<Rightarrow> world \<Rightarrow> bool" where
  "agent_settled = (\<lambda>(name, agentType, config) w. settled ad_name name
     (\<lambda>r. r\<lparr>ad_defaultConfig := JObj config, ad_agentType := agentType, ad_updatedAt := clock w\<rparr>) (agentDefinitionRows w))"

definition pattern_settled :: "string \<times> string \<times> string \<times> json \<times> string list \<Rightarrow> world \<Rightarrow> bool" where
  "pattern_settled = (\<lambda>(name, archetypeType, description, templateJson, slots) w. settled pp_name name
     (\<lambda>r. r\<lparr>pp_archetypeType := archetypeType, pp_description := Some description, pp_templateJson := templateJson,
        pp_requiredSlots := slots\<rparr>) (processPatternRows w))"

lemma upsert_agent_rows:
  "agentDefinitionRows (upsert_agent (name, t, c) w) = fst (upsert ad_name name
     (\<lambda>r. r\<lparr>ad_defaultConfig := JObj c, ad_agentType := t, ad_updatedAt := clock w\<rparr>)
     (\<lambda>i. \<lparr>ad_id = i, ad_name = name, ad_agentType = t, ad_version = ''1.0.0'', ad_description = None,
        ad_capabilities = JArr [], ad_defaultConfig = JObj c, ad_isActive = True, ad_createdAt = clock w,
        ad_updatedAt = clock w\<rparr>) (idSupply w) (idNext w) (agentDefinitionRows w))"
  "clock (upsert_agent x w) = clock w" "processPatternRows (upsert_agent x w) = processPatternRows w"
  by (simp_all add: upsert_agent_def split: prod.splits)

lemma upsert_pattern_rows:
  "processPatternRows (upsert_pattern (name, a, d, j, s) w) = fst (upsert pp_name name
     (\<lambda>r. r\<lparr>pp_archetypeType := a, pp_description := Some d, pp_templateJson := j, pp_requiredSlots := s\<rparr>)
     (\<lambda>i. \<lparr>pp_id = i, pp_name = name, pp_archetypeType = a, pp_description = Some d, pp_templateJson = j,
        pp_requiredSlots = s, pp_embedding = None, pp_createdAt = clock w\<rparr>) (idSupply w) (idNext w) (processPatternRows w))"
  "clock (upsert_pattern y w) = clock w" "agentDefinitionRows (upsert_pattern y w) = agentDefinitionRows w"
  by (simp_all add: upsert_pattern_def split: prod.splits)

lemma agent_settles: "agent_settled x (upsert_agent x w)"
proof (cases x)
  case (fields name t c)
  show ?thesis unfolding fields agent_settled_def prod.case upsert_agent_rows by (rule settled_upsert) simp_all
qed

lemma agent_stays: "agent_settled x w \<Longrightarrow> fst y \<noteq> fst x \<Longrightarrow> agent_settled x (upsert_agent y w)"
proof (cases x; cases y)
  fix name t c other t' c'
  assume "agent_settled x w" "fst y \<noteq> fst x" and x: "x = (name, t, c)" and y: "y = (other, t', c')"
  then show ?thesis
    unfolding x y agent_settled_def prod.case upsert_agent_rows by (intro settled_other) simp_all
qed

lemma agent_settled_id: "agent_settled x w \<Longrightarrow> upsert_agent x w = w"
  by (cases x) (simp add: agent_settled_def upsert_agent_def upsert_settled)

lemma pattern_settles: "pattern_settled x (upsert_pattern x w)"
proof (cases x)
  case (fields name a d j s)
  show ?thesis unfolding fields pattern_settled_def prod.case upsert_pattern_rows by (rule settled_upsert) simp_all
qed

lemma pattern_stays: "pattern_settled x w \<Longrightarrow> fst y \<noteq> fst x \<Longrightarrow> pattern_settled x (upsert_pattern y w)"
proof (cases x; cases y)
  fix name a d j s other a' d' j' s'
  assume "pattern_settled x w" "fst y \<noteq> fst x" and x: "x = (name, a, d, j, s)" and y: "y = (other, a', d', j', s')"
  then show ?thesis
    unfolding x y pattern_settled_def prod.case upsert_pattern_rows by (intro settled_other) simp_all
qed

lemma pattern_settled_id: "pattern_settled x w \<Longrightarrow> upsert_pattern x w = w"
  by (cases x) (simp add: pattern_settled_def upsert_pattern_def upsert_settled)

lemma settled_fold:
  assumes "distinct (map fst xs)" "\<And>x w. P x (f x w)" "\<And>x y w. P x w \<Longrightarrow> fst y \<noteq> fst x \<Longrightarrow> P x (f y w)" "x \<in> set xs"
  shows "P x (fold f xs w)"
  using assms(1,4)
proof (induction xs arbitrary: w rule: rev_induct)
  case (snoc y ys)
  show ?case
  proof (cases "x = y")
    case True
    then show ?thesis using assms(2) by simp
  next
    case False
    then have "x \<in> set ys" "fst y \<noteq> fst x" using snoc.prems by (auto simp: image_iff)
    then show ?thesis using snoc assms(3) by simp
  qed
qed simp

lemma fold_settled_id: "(\<And>x. x \<in> set xs \<Longrightarrow> P x w) \<Longrightarrow> (\<And>x. P x w \<Longrightarrow> f x w = w) \<Longrightarrow> fold f xs w = w"
  by (induction xs) auto

lemma fold_keeps: "(\<And>x w. g (f x w) = g w) \<Longrightarrow> g (fold f xs w) = g w"
  by (induction xs arbitrary: w) simp_all

lemma distinct_seeds: "distinct (map fst agents)" "distinct (map fst processPatterns)"
  by (simp_all add: agents_def processPatterns_def)

lemma seeded_agent: "x \<in> set agents \<Longrightarrow> agent_settled x (seed_up w)"
proof -
  assume x: "x \<in> set agents"
  let ?v = "fold upsert_agent agents w"
  have "agent_settled x ?v" 
    by (rule settled_fold [where P = agent_settled and f = upsert_agent, OF distinct_seeds(1)])
      (simp_all add: agent_settles agent_stays x)
  moreover have "agentDefinitionRows (seed_up w) = agentDefinitionRows ?v" "clock (seed_up w) = clock ?v"
    unfolding seed_up_def by (rule fold_keeps, simp add: upsert_pattern_rows)+
  ultimately show ?thesis by (simp add: agent_settled_def split: prod.splits)
qed

lemma seeded_pattern: "x \<in> set processPatterns \<Longrightarrow> pattern_settled x (seed_up w)"
  unfolding seed_up_def
  by (rule settled_fold [where P = pattern_settled and f = upsert_pattern, OF distinct_seeds(2)])
    (simp_all add: pattern_settles pattern_stays)

text \<open>The rows of other names are untouched by the migration and by its reversal.\<close>

lemma seeding_filters:
  "filter (\<lambda>r. \<not> seeded_agent_row r) (agentDefinitionRows (seed_up w)) =
     filter (\<lambda>r. \<not> seeded_agent_row r) (agentDefinitionRows w)"
  "filter (\<lambda>r. \<not> seeded_pattern_row r) (processPatternRows (seed_up w)) =
     filter (\<lambda>r. \<not> seeded_pattern_row r) (processPatternRows w)"
proof -
  let ?N = "set (map fst agents)" and ?M = "set (map fst processPatterns)"
  have a: "set xs \<subseteq> set agents \<Longrightarrow> filter (\<lambda>r. \<not> seeded_agent_row r) (agentDefinitionRows (fold upsert_agent xs w)) =
      filter (\<lambda>r. \<not> seeded_agent_row r) (agentDefinitionRows w)" for xs w
  proof (induction xs arbitrary: w)
    case (Cons x xs)
    obtain name t c where x: "x = (name, t, c)" by (cases x) auto
    then have "name \<in> ?N" using Cons.prems by force
    then show ?case using Cons by (simp add: x upsert_agent_rows upsert_filter seeded_agent_row_def)
  qed simp
  have p: "set xs \<subseteq> set processPatterns \<Longrightarrow> filter (\<lambda>r. \<not> seeded_pattern_row r) (processPatternRows (fold upsert_pattern xs w)) =
      filter (\<lambda>r. \<not> seeded_pattern_row r) (processPatternRows w)" for xs w
  proof (induction xs arbitrary: w)
    case (Cons x xs)
    obtain name a d j s where x: "x = (name, a, d, j, s)" by (cases x) auto
    then have "name \<in> ?M" using Cons.prems by force
    then show ?case using Cons by (simp add: x upsert_pattern_rows upsert_filter seeded_pattern_row_def)
  qed simp
  have "agentDefinitionRows (seed_up w) = agentDefinitionRows (fold upsert_agent agents w)"
    "processPatternRows (fold upsert_agent agents w) = processPatternRows w"
    unfolding seed_up_def by (rule fold_keeps, simp add: upsert_pattern_rows upsert_agent_rows)+
  then show "filter (\<lambda>r. \<not> seeded_agent_row r) (agentDefinitionRows (seed_up w)) = filter (\<lambda>r. \<not> seeded_agent_row r) (agentDefinitionRows w)"
    "filter (\<lambda>r. \<not> seeded_pattern_row r) (processPatternRows (seed_up w)) = filter (\<lambda>r. \<not> seeded_pattern_row r) (processPatternRows w)"
    using a [of agents w] p [of processPatterns "fold upsert_agent agents w"] by (simp_all add: seed_up_def)
qed

lemma agent_settled_row: "agent_settled (name, t, c) w \<Longrightarrow> \<exists>d \<in> set (agentDefinitionRows w). ad_agentType d = t"
proof -
  assume settled: "agent_settled (name, t, c) w"
  then obtain d where d: "d \<in> set (agentDefinitionRows w)" "ad_name d = name"
    by (auto simp: agent_settled_def settled_def)
  then have "d\<lparr>ad_defaultConfig := JObj c, ad_agentType := t, ad_updatedAt := clock w\<rparr> = d"
    using settled by (simp add: agent_settled_def settled_def)
  then have "ad_agentType d = t" by (metis AgentDefinition.select_convs(3) AgentDefinition.surjective AgentDefinition.update_convs)
  then show ?thesis using d(1) by blast
qed

lemma agent_seed: "\<exists>name c. (name, t, c) \<in> set agents"
  by (cases t) (simp_all add: agents_def)

lemma agent_type_listed: "find (\<lambda>v. agent_type_str v = agent_type_str t) agent_types = Some t"
  by (cases t) (simp_all add: agent_types_def)

text \<open>C25. The seed migration can be run again and again: a second run changes nothing but the update times.
After it every agent type has a
definition, so the progress of every agent finds one. Reverting it leaves exactly the rows that do not have a seeded name, as they
were before, unless an execution refers to a seeded definition: then nothing changes.\<close>

theorem seeding_settles:
  "seed_up (seed_up w) = seed_up w \<and>
   (\<exists>i. resolveAgentDefinitionId (agent_type_str t) (seed_up w) = (Inr i, seed_up w)) \<and>
   seed_down (seed_up w) =
     (if seeds_used (seed_up w) then (Inl (QueryFailedError ''agent_execution_agent_definition_id_fkey''), seed_up w)
      else (Inr (), (seed_up w)\<lparr>processPatternRows := filter (\<lambda>r. \<not> seeded_pattern_row r) (processPatternRows w),
                               agentDefinitionRows := filter (\<lambda>d. \<not> seeded_agent_row d) (agentDefinitionRows w)\<rparr>))"
proof (intro conjI)
  have "fold upsert_agent agents (seed_up w) = seed_up w"
    by (rule fold_settled_id [where P = agent_settled]) (simp_all add: seeded_agent agent_settled_id)
  moreover have "fold upsert_pattern processPatterns (seed_up w) = seed_up w"
    by (rule fold_settled_id [where P = pattern_settled]) (simp_all add: seeded_pattern pattern_settled_id)
  ultimately show "seed_up (seed_up w) = seed_up w" by (subst seed_up_def) simp
  obtain name c where "(name, t, c) \<in> set agents" using agent_seed by blast
  then obtain d where "d \<in> set (agentDefinitionRows (seed_up w))" "ad_agentType d = t"
    using seeded_agent agent_settled_row by blast
  then have "filter (\<lambda>d. ad_agentType d = t) (sort_key ad_createdAt (agentDefinitionRows (seed_up w))) \<noteq> []"
    by (auto simp: filter_empty_conv)
  then show "\<exists>i. resolveAgentDefinitionId (agent_type_str t) (seed_up w) = (Inr i, seed_up w)"
    by (auto simp: resolveAgentDefinitionId_def enum_value_def agent_type_listed run_simps neq_Nil_conv)
qed (simp_all add: seed_down_def seeding_filters del: set_map)

section \<open>The progress of an agent\<close>

text \<open>A progress message that is handled adds its deltas to the totals of the run, never below zero, and relays one event to
the session; delivering it again changes nothing.\<close>

lemma log_progress_ids: "log_progress i l w = (Inr (), v) \<Longrightarrow> progressIds v = progressIds w \<and> pipelineRows v = pipelineRows w \<and>
    emitted v = emitted w"
  by (auto simp: log_progress_def returned_iffs insert_agent_log_def enum_value_def split: option.splits)

lemma assertOrgMatch_same: "assertOrgMatch i j w = (r, v) \<Longrightarrow> v = w"
  by (auto simp: assertOrgMatch_def run_simps andThen_def orThrow_def check_def ret_def throw_def split: if_splits option.splits)

lemma resolve_same: "resolveAgentDefinitionId t w = (r, v) \<Longrightarrow> v = w"
  by (auto simp: resolveAgentDefinitionId_def enum_value_def andThen_def orThrow_def reading_def ret_def throw_def
      split: option.splits list.splits)

lemma find_str: "find (\<lambda>v. str v = s) vs = Some v \<Longrightarrow> str v = s"
  by (simp add: find_Some_iff) blast

lemma payload_date_same: "payload_date date_of s w = (r, v) \<Longrightarrow> v = w"
  by (auto simp: payload_date_def orThrow_def ret_def throw_def split: if_splits option.splits)

lemma progress_effect:
  assumes "handleStreamToken date_of p m w = (Inr (), v)" "idempotencyKey m (ap_correlation_id p) ''ai.tasks.progress'' \<notin> set (progressIds w)"
  shows "\<exists>run t st now e. find (\<lambda>r. pe_id r = ap_pipeline_execution_id p \<and> pe_sessionId r = ap_session_id p) (pipelineRows w) = Some run \<and>
    agent_type_str t = ap_agent_type p \<and> agent_execution_status_str st = ap_status p \<and>
    pipelineRows v = save_row pe_id (checkpointed p t st now run) (pipelineRows w) \<and>
    emitted v = emitted w @ [e] \<and> ws_room e = session_room (ap_session_id p) \<and> ws_payload e = progress_payload p \<and>
    progressIds v = markHandled (idempotencyKey m (ap_correlation_id p) ''ai.tasks.progress'') (progressIds w)"
  using assms
  by (auto simp: handleStreamToken_def Let_def returned_iffs enum_value_def save_agent_execution_def save_pipeline_def
      emit_defs emitToRoom_def dest!: assertOrgMatch_same resolve_same payload_date_same log_progress_ids find_str) blast

lemma progress_once:
  assumes "handleStreamToken date_of p m w = (Inr (), v)"
  shows "handleStreamToken date_of p m v = (Inr (), v)"
proof (cases "idempotencyKey m (ap_correlation_id p) ''ai.tasks.progress'' \<in> set (progressIds w)")
  case True
  then show ?thesis using assms by (simp add: handleStreamToken_def)
next
  case False
  then show ?thesis using progress_effect [OF assms False] markHandled_in [OF False] by (auto simp: handleStreamToken_def)
qed

end
