(* ===== verification/Schema.thy ===== *)
theory Schema
  imports FF_Prelude
begin

text \<open>
  The statements of the migrations under \<open>src/database/migrations\<close> and what PostgreSQL makes of them: enumerated types,
  tables with their columns, keys and references, indexes, trigger functions, triggers and privileges. A statement that the
  database refuses is an error. A column keeps what the migrations write of it: its type, whether it may be null, its default,
  whether it is unique, the values a check allows and the table it refers to.
\<close>

section \<open>Schemas\<close>

datatype sql_type =
    Ty_uuid | Ty_text | Ty_citext | Ty_varchar nat | Ty_boolean | Ty_timestamptz | Ty_integer | Ty_smallint | Ty_float
  | Ty_jsonb | Ty_inet | Ty_vector nat | Ty_named string | Ty_array sql_type

text \<open>\<open>REFERENCES t(id)\<close>, with \<open>True\<close> for \<open>ON DELETE CASCADE\<close>.\<close>

record column =
  cl_name :: string
  cl_type :: sql_type
  cl_notnull :: bool
  cl_default :: "string option"
  cl_unique :: bool
  cl_references :: "(string \<times> bool) option"
  cl_check :: "string list option"

record table =
  tb_name :: string
  tb_columns :: "column list"
  tb_uniques :: "string list list"

text \<open>An index rests on the columns of its keys and of its predicate.\<close>

record index =
  ix_name :: string
  ix_table :: string
  ix_columns :: "string list"
  ix_unique :: bool

record trigger =
  tg_name :: string
  tg_table :: string
  tg_events :: "string list"
  tg_columns :: "string list"
  tg_function :: string

text \<open>A grant gives a role a privilege on a table; the owner of a table starts with all of them.\<close>

type_synonym grant = "string \<times> string \<times> string"

record schema =
  sc_extensions :: "string list"
  sc_types :: "(string \<times> string list) list"
  sc_tables :: "table list"
  sc_indexes :: "index list"
  sc_functions :: "string list"
  sc_triggers :: "trigger list"
  sc_grants :: "grant list"

definition empty_schema :: schema where
  "empty_schema = \<lparr>sc_extensions = [], sc_types = [], sc_tables = [], sc_indexes = [], sc_functions = [], sc_triggers = [],
     sc_grants = []\<rparr>"

definition find_table :: "string \<Rightarrow> schema \<Rightarrow> table option" where
  "find_table t sc = find (\<lambda>x. tb_name x = t) (sc_tables sc)"

definition column_names :: "table \<Rightarrow> string list" where
  "column_names t = map cl_name (tb_columns t)"

definition table_names :: "schema \<Rightarrow> string list" where
  "table_names sc = map tb_name (sc_tables sc)"

text \<open>Tables and indexes share their names.\<close>

definition relation_names :: "schema \<Rightarrow> string list" where
  "relation_names sc = table_names sc @ map ix_name (sc_indexes sc)"

text \<open>\<open>vector\<close> and \<open>citext\<close> come with their extensions.\<close>

fun type_known :: "schema \<Rightarrow> sql_type \<Rightarrow> bool" where
  "type_known sc (Ty_named n) = (n \<in> set (map fst (sc_types sc)))"
| "type_known sc (Ty_array t) = type_known sc t"
| "type_known sc (Ty_vector n) = (''vector'' \<in> set (sc_extensions sc))"
| "type_known sc Ty_citext = (''citext'' \<in> set (sc_extensions sc))"
| "type_known sc _ = True"

fun type_uses :: "string \<Rightarrow> sql_type \<Rightarrow> bool" where
  "type_uses n (Ty_named m) = (m = n)"
| "type_uses n (Ty_array t) = type_uses n t"
| "type_uses n _ = False"

text \<open>A reference needs a unique column \<open>id\<close> in the table it names.\<close>

definition has_key :: "table \<Rightarrow> bool" where
  "has_key t \<longleftrightarrow> (\<exists>c \<in> set (tb_columns t). cl_name c = ''id'' \<and> cl_unique c)"

definition refers_ok :: "table list \<Rightarrow> column \<Rightarrow> bool" where
  "refers_ok ts c \<longleftrightarrow>
     (case cl_references c of None \<Rightarrow> True | Some (t, _) \<Rightarrow> (\<exists>x \<in> set ts. tb_name x = t \<and> has_key x))"

section \<open>Statements\<close>

text \<open>\<open>True\<close> as first argument of a creation stands for \<open>IF NOT EXISTS\<close>; every \<open>DROP\<close> of the migrations has \<open>IF EXISTS\<close>, and the second
argument of \<open>Drop_Table\<close> stands for \<open>CASCADE\<close>.\<close>

datatype statement =
    Create_Extension string
  | Create_Type string "string list"
  | Create_Table bool table
  | Add_Column bool string column
  | Create_Index bool index
  | Create_Function string
  | Create_Trigger trigger
  | Drop_Trigger string string
  | Drop_Function string
  | Drop_Table string bool
  | Drop_Type string
  | Drop_Index string
  | Drop_Column string string
  | Grant string "string list" string
  | Revoke string "string list" string

definition new_grants :: "string \<Rightarrow> grant list" where
  "new_grants t = map (\<lambda>p. (''current_user'', t, p)) [''SELECT'', ''INSERT'', ''UPDATE'', ''DELETE'']"

text \<open>Dropping columns drops what rests on them: keys, indexes, triggers on them, and references to a table that loses its key.\<close>

definition lost :: "(string \<Rightarrow> column \<Rightarrow> bool) \<Rightarrow> schema \<Rightarrow> string \<Rightarrow> string list \<Rightarrow> bool" where
  "lost gone sc t cs \<longleftrightarrow>
     (\<exists>x \<in> set (sc_tables sc). tb_name x = t \<and> (\<exists>c \<in> set (tb_columns x). gone t c \<and> cl_name c \<in> set cs))"

definition refers_to :: "string \<Rightarrow> column \<Rightarrow> bool" where
  "refers_to t c \<longleftrightarrow> map_option fst (cl_references c) = Some t"

definition unrefer :: "(string \<Rightarrow> bool) \<Rightarrow> column \<Rightarrow> column" where
  "unrefer p c = (case cl_references c of Some (t, _) \<Rightarrow> if p t then c\<lparr>cl_references := None\<rparr> else c | None \<Rightarrow> c)"

definition drop_columns :: "(string \<Rightarrow> column \<Rightarrow> bool) \<Rightarrow> schema \<Rightarrow> schema" where
  "drop_columns gone sc =
     sc\<lparr>sc_tables := map (\<lambda>x. x\<lparr>
            tb_columns := map (unrefer (\<lambda>t. lost gone sc t [''id''])) (filter (\<lambda>c. \<not> gone (tb_name x) c) (tb_columns x)),
            tb_uniques := filter (\<lambda>cs. \<not> lost gone sc (tb_name x) cs) (tb_uniques x)\<rparr>) (sc_tables sc),
        sc_indexes := filter (\<lambda>i. \<not> lost gone sc (ix_table i) (ix_columns i)) (sc_indexes sc),
        sc_triggers := filter (\<lambda>g. \<not> lost gone sc (tg_table g) (tg_columns g)) (sc_triggers sc)\<rparr>"

definition drop_table :: "string \<Rightarrow> schema \<Rightarrow> schema" where
  "drop_table t sc =
     sc\<lparr>sc_tables := map (\<lambda>x. x\<lparr>tb_columns := map (unrefer (\<lambda>u. u = t)) (tb_columns x)\<rparr>)
                       (filter (\<lambda>x. tb_name x \<noteq> t) (sc_tables sc)),
        sc_indexes := filter (\<lambda>i. ix_table i \<noteq> t) (sc_indexes sc),
        sc_triggers := filter (\<lambda>g. tg_table g \<noteq> t) (sc_triggers sc),
        sc_grants := filter (\<lambda>(_, x, _). x \<noteq> t) (sc_grants sc)\<rparr>"

definition referred :: "string \<Rightarrow> schema \<Rightarrow> bool" where
  "referred t sc \<longleftrightarrow> (\<exists>x \<in> set (sc_tables sc). tb_name x \<noteq> t \<and> (\<exists>c \<in> set (tb_columns x). refers_to t c))"

text \<open>Without \<open>CASCADE\<close> a column with a dependent trigger stays, and so does a key that a reference needs.\<close>

definition column_needed :: "string \<Rightarrow> string \<Rightarrow> schema \<Rightarrow> bool" where
  "column_needed t c sc \<longleftrightarrow>
     (\<exists>g \<in> set (sc_triggers sc). tg_table g = t \<and> c \<in> set (tg_columns g)) \<or>
     (c = ''id'' \<and> (\<exists>x \<in> set (sc_tables sc). \<exists>d \<in> set (tb_columns x). refers_to t d))"

definition has_columns :: "table \<Rightarrow> string list \<Rightarrow> bool" where
  "has_columns t cs \<longleftrightarrow> set cs \<subseteq> set (column_names t)"

definition add_type :: "string \<times> string list \<Rightarrow> schema \<Rightarrow> schema" where
  "add_type x sc = sc\<lparr>sc_types := sc_types sc @ [x]\<rparr>"

definition add_table :: "table \<Rightarrow> schema \<Rightarrow> schema" where
  "add_table x sc = sc\<lparr>sc_tables := sc_tables sc @ [x], sc_grants := sc_grants sc @ new_grants (tb_name x)\<rparr>"

definition with_column :: "string \<Rightarrow> column \<Rightarrow> table \<Rightarrow> table" where
  "with_column t c x = (if tb_name x = t then x\<lparr>tb_columns := tb_columns x @ [c]\<rparr> else x)"

definition add_column :: "string \<Rightarrow> column \<Rightarrow> schema \<Rightarrow> schema" where
  "add_column t c sc = sc\<lparr>sc_tables := map (with_column t c) (sc_tables sc)\<rparr>"

definition add_index :: "index \<Rightarrow> schema \<Rightarrow> schema" where
  "add_index i sc = sc\<lparr>sc_indexes := sc_indexes sc @ [i]\<rparr>"

definition add_trigger :: "trigger \<Rightarrow> schema \<Rightarrow> schema" where
  "add_trigger g sc = sc\<lparr>sc_triggers := sc_triggers sc @ [g]\<rparr>"

fun exec :: "statement \<Rightarrow> schema \<Rightarrow> string + schema" where
  "exec (Create_Extension e) sc =
     Inr (if e \<in> set (sc_extensions sc) then sc else sc\<lparr>sc_extensions := sc_extensions sc @ [e]\<rparr>)"
| "exec (Create_Type n vs) sc =
     (if n \<in> set (map fst (sc_types sc)) \<or> n \<in> set (table_names sc) then Inl ''type already exists''
      else if \<not> distinct vs then Inl ''duplicate key value''
      else Inr (add_type (n, vs) sc))"
| "exec (Create_Table ifne x) sc =
     (if tb_name x \<in> set (relation_names sc) then (if ifne then Inr sc else Inl ''relation already exists'')
      else if tb_name x \<in> set (map fst (sc_types sc)) then Inl ''type already exists''
      else if \<not> distinct (column_names x) then Inl ''column specified more than once''
      else if \<not> (\<forall>c \<in> set (tb_columns x). type_known sc (cl_type c)) then Inl ''type does not exist''
      else if \<not> (\<forall>c \<in> set (tb_columns x). refers_ok (x # sc_tables sc) c) then Inl ''relation does not exist''
      else if \<not> (\<forall>u \<in> set (tb_uniques x). has_columns x u) then Inl ''column does not exist''
      else Inr (add_table x sc))"
| "exec (Add_Column ifne t c) sc =
     (case find_table t sc of
        None \<Rightarrow> Inl ''relation does not exist''
      | Some x \<Rightarrow>
          if cl_name c \<in> set (column_names x) then (if ifne then Inr sc else Inl ''column already exists'')
          else if \<not> type_known sc (cl_type c) then Inl ''type does not exist''
          else if \<not> refers_ok (sc_tables sc) c then Inl ''relation does not exist''
          else Inr (add_column t c sc))"
| "exec (Create_Index ifne i) sc =
     (if ix_name i \<in> set (relation_names sc) then (if ifne then Inr sc else Inl ''relation already exists'')
      else case find_table (ix_table i) sc of
        None \<Rightarrow> Inl ''relation does not exist''
      | Some x \<Rightarrow> if \<not> has_columns x (ix_columns i) then Inl ''column does not exist'' else Inr (add_index i sc))"
| "exec (Create_Function f) sc =
     Inr (if f \<in> set (sc_functions sc) then sc else sc\<lparr>sc_functions := sc_functions sc @ [f]\<rparr>)"
| "exec (Create_Trigger g) sc =
     (case find_table (tg_table g) sc of
        None \<Rightarrow> Inl ''relation does not exist''
      | Some x \<Rightarrow>
          if (\<exists>h \<in> set (sc_triggers sc). tg_name h = tg_name g \<and> tg_table h = tg_table g) then Inl ''trigger already exists''
          else if \<not> has_columns x (tg_columns g) then Inl ''column does not exist''
          else if tg_function g \<notin> set (sc_functions sc) then Inl ''function does not exist''
          else Inr (add_trigger g sc))"
| "exec (Drop_Trigger g t) sc = Inr (sc\<lparr>sc_triggers := filter (\<lambda>h. \<not> (tg_name h = g \<and> tg_table h = t)) (sc_triggers sc)\<rparr>)"
| "exec (Drop_Function f) sc =
     (if \<exists>h \<in> set (sc_triggers sc). tg_function h = f then Inl ''other objects depend on it''
      else Inr (sc\<lparr>sc_functions := removeAll f (sc_functions sc)\<rparr>))"
| "exec (Drop_Table t cascade) sc =
     (if \<not> cascade \<and> referred t sc then Inl ''other objects depend on it'' else Inr (drop_table t sc))"
| "exec (Drop_Type n) sc =
     Inr ((drop_columns (\<lambda>_ c. type_uses n (cl_type c)) sc)\<lparr>sc_types := filter (\<lambda>x. fst x \<noteq> n) (sc_types sc)\<rparr>)"
| "exec (Drop_Index n) sc = Inr (sc\<lparr>sc_indexes := filter (\<lambda>i. ix_name i \<noteq> n) (sc_indexes sc)\<rparr>)"
| "exec (Drop_Column t c) sc =
     (if t \<notin> set (table_names sc) then Inl ''relation does not exist''
      else if column_needed t c sc then Inl ''other objects depend on it''
      else Inr (drop_columns (\<lambda>u d. u = t \<and> cl_name d = c) sc))"
| "exec (Grant r ps t) sc =
     (if t \<notin> set (table_names sc) then Inl ''relation does not exist''
      else Inr (sc\<lparr>sc_grants := sc_grants sc @ filter (\<lambda>g. g \<notin> set (sc_grants sc)) (map (\<lambda>p. (r, t, p)) ps)\<rparr>))"
| "exec (Revoke r ps t) sc =
     (if t \<notin> set (table_names sc) then Inl ''relation does not exist''
      else Inr (sc\<lparr>sc_grants := filter (\<lambda>(s, x, p). \<not> (s = r \<and> x = t \<and> p \<in> set ps)) (sc_grants sc)\<rparr>))"

fun exec_all :: "statement list \<Rightarrow> schema \<Rightarrow> string + schema" where
  "exec_all [] sc = Inr sc"
| "exec_all (s # ss) sc = (case exec s sc of Inl e \<Rightarrow> Inl e | Inr sc' \<Rightarrow> exec_all ss sc')"

section \<open>Rows\<close>

text \<open>An \<open>INSERT\<close> names columns of its table, and each that may not be null and has no default.\<close>

definition insert_accepted :: "schema \<Rightarrow> string \<Rightarrow> string list \<Rightarrow> bool" where
  "insert_accepted sc t cs \<longleftrightarrow>
     (case find_table t sc of
        None \<Rightarrow> False
      | Some x \<Rightarrow> has_columns x cs \<and>
          (\<forall>c \<in> set (tb_columns x). cl_notnull c \<and> cl_default c = None \<longrightarrow> cl_name c \<in> set cs))"

end
