(* ===== verification/Migrations.thy ===== *)
theory Migrations
  imports Schema
begin

text \<open>
  The migrations of \<open>src/database/migrations\<close>, statement by statement,
    with what reverts each of them. The seed migration
  changes rows only and is modelled in \<open>Seeds\<close>.
\<close>

section \<open>Columns as they are written\<close>

datatype column_option =
    Primary_Key | Not_Null | Default string | Unique | References string | Cascades string | Check_In "string list"

fun with_option :: "column \<Rightarrow> column_option \<Rightarrow> column" where
  "with_option c Primary_Key = c\<lparr>cl_notnull := True, cl_unique := True\<rparr>"
| "with_option c Not_Null = c\<lparr>cl_notnull := True\<rparr>"
| "with_option c (Default d) = c\<lparr>cl_default := Some d\<rparr>"
| "with_option c Unique = c\<lparr>cl_unique := True\<rparr>"
| "with_option c (References t) = c\<lparr>cl_references := Some (t, False)\<rparr>"
| "with_option c (Cascades t) = c\<lparr>cl_references := Some (t, True)\<rparr>"
| "with_option c (Check_In vs) = c\<lparr>cl_check := Some vs\<rparr>"

definition col :: "string \<Rightarrow> sql_type \<Rightarrow> column_option list \<Rightarrow> column" where
  "col n t os = foldl with_option
     \<lparr>cl_name = n, cl_type = t, cl_notnull = False, cl_default = None, cl_unique = False, cl_references = None,
      cl_check = None\<rparr> os"

definition plain_index :: "string \<Rightarrow> string \<Rightarrow> string list \<Rightarrow> index" where
  "plain_index n t cs = \<lparr>ix_name = n, ix_table = t, ix_columns = cs, ix_unique = False\<rparr>"

definition unique_index :: "string \<Rightarrow> string \<Rightarrow> string list \<Rightarrow> index" where
  "unique_index n t cs = \<lparr>ix_name = n, ix_table = t, ix_columns = cs, ix_unique = True\<rparr>"

record migration =
  mg_name :: string
  mg_timestamp :: nat
  mg_up :: "statement list"
  mg_down :: "statement list"


section \<open>The first migration\<close>

definition init_extensions :: "statement list" where
  "init_extensions =
    [Create_Extension ''vector'',
     Create_Extension ''pgcrypto'',
     Create_Extension ''citext'']"

definition enum_types :: "(string \<times> string list) list" where
  "enum_types =
    [(''user_role_enum'',
       [''admin'', ''process_owner'', ''business_analyst'', ''reviewer'', ''viewer'']),
     (''workflow_status_enum'',
       [''draft'', ''in_elicitation'', ''pending_review'', ''validated'', ''exported'', ''archived'']),
     (''session_mode_enum'',
       [''auto'', ''interactive'']),
     (''session_status_enum'',
       [''created'', ''awaiting_input'', ''processing'', ''in_elicitation'', ''draft_ready'', ''needs_reconciliation'',
          ''in_review'', ''validated'', ''exported'', ''archived'', ''error'']),
     (''message_role_enum'',
       [''user'', ''ai'', ''system'']),
     (''message_type_enum'',
       [''user_input'', ''ai_question'', ''ai_response'', ''ai_summary'', ''ai_update'', ''ai_confidence_report'',
          ''system_note'', ''system_status'']),
     (''comment_type_enum'',
       [''question'', ''correction'', ''approval'', ''suggestion'', ''escalation'']),
     (''actor_type_enum'',
       [''user'', ''ai_agent'', ''system'']),
     (''agent_type_enum'',
       [''ORCHESTRATOR'', ''INTAKE'', ''EXTRACTION'', ''PATTERN'', ''GAP_DETECTION'', ''QA'', ''VALIDATION'', ''EXPORT'',
          ''DIVERGENCE'', ''RULES_SKILLS_LOADER'']),
     (''pipeline_task_type_enum'',
       [''FULL_PIPELINE'', ''SCOPED_REPROCESS'', ''EXPORT_ONLY'', ''QA_ROUND'']),
     (''pipeline_status_enum'',
       [''PENDING'', ''RUNNING'', ''PAUSED'', ''COMPLETED'', ''FAILED'', ''CANCELLED'']),
     (''agent_execution_status_enum'',
       [''PENDING'', ''RUNNING'', ''COMPLETED'', ''FAILED'', ''SKIPPED'']),
     (''log_level_enum'',
       [''DEBUG'', ''INFO'', ''WARNING'', ''ERROR'']),
     (''config_override_scope_enum'',
       [''ORG'', ''SESSION'']),
     (''graph_type_enum'',
       [''INTENT'', ''GENERATED'', ''EXECUTED'', ''RECONCILED'']),
     (''graph_source_enum'',
       [''AI_EXTRACTION'', ''AI_GENERATION'', ''ELSA_IMPORT'', ''MANUAL_MERGE'']),
     (''comparison_type_enum'',
       [''INTENT_VS_GENERATED'', ''GENERATED_VS_EXECUTED'', ''INTENT_VS_EXECUTED'']),
     (''divergence_severity_enum'',
       [''NONE'', ''LOW'', ''MEDIUM'', ''HIGH'', ''CRITICAL'']),
     (''divergence_report_status_enum'',
       [''PENDING'', ''RUNNING'', ''COMPLETED'', ''FAILED'']),
     (''divergence_point_type_enum'',
       [''MISSING_NODE'', ''EXTRA_NODE'', ''MODIFIED_NODE'', ''ACTOR_MISMATCH'', ''CONDITION_MISMATCH'', ''MISSING_EDGE'',
          ''EXTRA_EDGE'', ''REORDERED_SEQUENCE'', ''LOOP_DIFFERENCE'', ''MISSING_PATH'', ''PARALLELISM_CHANGE'']),
     (''point_severity_enum'',
       [''INFO'', ''LOW'', ''MEDIUM'', ''HIGH'', ''CRITICAL'']),
     (''reconciliation_action_type_enum'',
       [''ACCEPT_A'', ''ACCEPT_B'', ''AI_SUGGEST_APPLY'', ''MANUAL_EDIT'', ''SKIP'']),
     (''rule_type_enum'',
       [''EXTRACTION'', ''ACTOR_MAPPING'', ''STRUCTURAL_CONSTRAINT'', ''VALIDATION'', ''NAMING_CONVENTION'',
          ''PROMPT_INJECTION'']),
     (''rule_scope_enum'',
       [''ORG'', ''WORKFLOW'', ''AGENT'']),
     (''skill_type_enum'',
       [''VOCABULARY'', ''ARCHETYPE'', ''FEW_SHOT_EXAMPLE'', ''DOMAIN_KNOWLEDGE'', ''ACTOR_CATALOG'', ''PROMPT_TEMPLATE''])]"

definition table_organization :: table where
  "table_organization = \<lparr>tb_name = ''organization'', tb_columns =
    [col ''id'' Ty_uuid [Primary_Key, Default ''gen_random_uuid()''],
     col ''name'' Ty_text [Not_Null, Unique],
     col ''plan'' Ty_text [Not_Null, Default ''free''],
     col ''created_at'' Ty_timestamptz [Not_Null, Default ''now()''],
     col ''updated_at'' Ty_timestamptz [Not_Null, Default ''now()'']],
    tb_uniques = []\<rparr>"

definition table_user :: table where
  "table_user = \<lparr>tb_name = ''user'', tb_columns =
    [col ''id'' Ty_uuid [Primary_Key, Default ''gen_random_uuid()''],
     col ''email'' Ty_citext [Not_Null, Unique],
     col ''password_hash'' Ty_text [Not_Null],
     col ''role'' (Ty_named ''user_role_enum'') [Not_Null, Default ''viewer''],
     col ''org_id'' Ty_uuid [Not_Null, Cascades ''organization''],
     col ''is_verified'' Ty_boolean [Not_Null, Default ''false''],
     col ''locked_until'' Ty_timestamptz [],
     col ''created_at'' Ty_timestamptz [Not_Null, Default ''now()''],
     col ''updated_at'' Ty_timestamptz [Not_Null, Default ''now()'']],
    tb_uniques = []\<rparr>"

definition table_login_history :: table where
  "table_login_history = \<lparr>tb_name = ''login_history'', tb_columns =
    [col ''id'' Ty_uuid [Primary_Key, Default ''gen_random_uuid()''],
     col ''user_id'' Ty_uuid [Cascades ''user''],
     col ''ip_address'' Ty_inet [],
     col ''user_agent'' Ty_text [],
     col ''success'' Ty_boolean [Not_Null],
     col ''created_at'' Ty_timestamptz [Not_Null, Default ''now()'']],
    tb_uniques = []\<rparr>"

definition table_refresh_token :: table where
  "table_refresh_token = \<lparr>tb_name = ''refresh_token'', tb_columns =
    [col ''id'' Ty_uuid [Primary_Key, Default ''gen_random_uuid()''],
     col ''user_id'' Ty_uuid [Not_Null, Cascades ''user''],
     col ''token_hash'' Ty_text [Not_Null, Unique],
     col ''expires_at'' Ty_timestamptz [Not_Null],
     col ''revoked'' Ty_boolean [Not_Null, Default ''false''],
     col ''created_at'' Ty_timestamptz [Not_Null, Default ''now()'']],
    tb_uniques = []\<rparr>"

definition table_workflow :: table where
  "table_workflow = \<lparr>tb_name = ''workflow'', tb_columns =
    [col ''id'' Ty_uuid [Primary_Key, Default ''gen_random_uuid()''],
     col ''title'' Ty_text [Not_Null],
     col ''description'' Ty_text [],
     col ''status'' (Ty_named ''workflow_status_enum'') [Not_Null, Default ''draft''],
     col ''current_version'' Ty_integer [Not_Null, Default ''0''],
     col ''org_id'' Ty_uuid [Not_Null, Cascades ''organization''],
     col ''owner_id'' Ty_uuid [Not_Null, References ''user''],
     col ''domain'' Ty_text [],
     col ''tags'' (Ty_array Ty_text) [Not_Null, Default ''{}''],
     col ''created_at'' Ty_timestamptz [Not_Null, Default ''now()''],
     col ''updated_at'' Ty_timestamptz [Not_Null, Default ''now()'']],
    tb_uniques = []\<rparr>"

definition table_workflow_version :: table where
  "table_workflow_version = \<lparr>tb_name = ''workflow_version'', tb_columns =
    [col ''id'' Ty_uuid [Primary_Key, Default ''gen_random_uuid()''],
     col ''workflow_id'' Ty_uuid [Not_Null, Cascades ''workflow''],
     col ''version_number'' Ty_integer [Not_Null],
     col ''elements_json'' Ty_jsonb [Not_Null],
     col ''elsa_json'' Ty_jsonb [],
     col ''confidence_score'' Ty_float [],
     col ''created_by'' Ty_uuid [References ''user''],
     col ''created_at'' Ty_timestamptz [Not_Null, Default ''now()'']],
    tb_uniques = [[''workflow_id'', ''version_number'']]\<rparr>"

definition table_session :: table where
  "table_session = \<lparr>tb_name = ''session'', tb_columns =
    [col ''id'' Ty_uuid [Primary_Key, Default ''gen_random_uuid()''],
     col ''workflow_id'' Ty_uuid [Not_Null, Cascades ''workflow''],
     col ''user_id'' Ty_uuid [Not_Null, References ''user''],
     col ''mode'' (Ty_named ''session_mode_enum'') [Not_Null],
     col ''status'' (Ty_named ''session_status_enum'') [Not_Null, Default ''created''],
     col ''confidence_score'' Ty_float [Not_Null, Default ''0''],
     col ''created_at'' Ty_timestamptz [Not_Null, Default ''now()''],
     col ''finalized_at'' Ty_timestamptz []],
    tb_uniques = []\<rparr>"

definition table_message :: table where
  "table_message = \<lparr>tb_name = ''message'', tb_columns =
    [col ''id'' Ty_uuid [Primary_Key, Default ''gen_random_uuid()''],
     col ''session_id'' Ty_uuid [Not_Null, Cascades ''session''],
     col ''role'' (Ty_named ''message_role_enum'') [Not_Null],
     col ''type'' (Ty_named ''message_type_enum'') [Not_Null],
     col ''content'' Ty_text [Not_Null],
     col ''metadata'' Ty_jsonb [Not_Null, Default ''{}''],
     col ''created_at'' Ty_timestamptz [Not_Null, Default ''now()'']],
    tb_uniques = []\<rparr>"

definition table_document :: table where
  "table_document = \<lparr>tb_name = ''document'', tb_columns =
    [col ''id'' Ty_uuid [Primary_Key, Default ''gen_random_uuid()''],
     col ''workflow_id'' Ty_uuid [Cascades ''workflow''],
     col ''session_id'' Ty_uuid [Cascades ''session''],
     col ''filename'' Ty_text [Not_Null],
     col ''file_type'' Ty_text [Not_Null],
     col ''storage_url'' Ty_text [Not_Null],
     col ''extracted_text'' Ty_text [],
     col ''preprocessing_confidence'' Ty_float [],
     col ''doc_version'' Ty_integer [Not_Null, Default ''1''],
     col ''created_at'' Ty_timestamptz [Not_Null, Default ''now()'']],
    tb_uniques = []\<rparr>"

definition table_comment :: table where
  "table_comment = \<lparr>tb_name = ''comment'', tb_columns =
    [col ''id'' Ty_uuid [Primary_Key, Default ''gen_random_uuid()''],
     col ''workflow_id'' Ty_uuid [Not_Null, Cascades ''workflow''],
     col ''element_id'' Ty_text [],
     col ''author_id'' Ty_uuid [Not_Null, References ''user''],
     col ''type'' (Ty_named ''comment_type_enum'') [Not_Null],
     col ''content'' Ty_text [Not_Null],
     col ''resolved'' Ty_boolean [Not_Null, Default ''false''],
     col ''resolved_at'' Ty_timestamptz [],
     col ''resolved_by'' Ty_uuid [References ''user''],
     col ''parent_id'' Ty_uuid [Cascades ''comment''],
     col ''created_at'' Ty_timestamptz [Not_Null, Default ''now()'']],
    tb_uniques = []\<rparr>"

definition table_audit_log :: table where
  "table_audit_log = \<lparr>tb_name = ''audit_log'', tb_columns =
    [col ''id'' Ty_uuid [Primary_Key, Default ''gen_random_uuid()''],
     col ''workflow_id'' Ty_uuid [Cascades ''workflow''],
     col ''actor_id'' Ty_uuid [],
     col ''actor_type'' (Ty_named ''actor_type_enum'') [Not_Null],
     col ''event_type'' (Ty_varchar 128) [Not_Null],
     col ''element_id'' Ty_text [],
     col ''before_state'' Ty_jsonb [],
     col ''after_state'' Ty_jsonb [],
     col ''created_at'' Ty_timestamptz [Not_Null, Default ''now()'']],
    tb_uniques = []\<rparr>"

definition table_kg_node :: table where
  "table_kg_node = \<lparr>tb_name = ''kg_node'', tb_columns =
    [col ''id'' Ty_uuid [Primary_Key, Default ''gen_random_uuid()''],
     col ''session_id'' Ty_uuid [Not_Null, Cascades ''session''],
     col ''type'' (Ty_varchar 64) [Not_Null],
     col ''label'' (Ty_varchar 256) [Not_Null],
     col ''properties'' Ty_jsonb [Not_Null, Default ''{}''],
     col ''confidence'' Ty_float [],
     col ''embedding'' (Ty_vector 768) [],
     col ''inferred'' Ty_boolean [Not_Null, Default ''false''],
     col ''created_at'' Ty_timestamptz [Not_Null, Default ''now()'']],
    tb_uniques = []\<rparr>"

definition table_kg_edge :: table where
  "table_kg_edge = \<lparr>tb_name = ''kg_edge'', tb_columns =
    [col ''id'' Ty_uuid [Primary_Key, Default ''gen_random_uuid()''],
     col ''session_id'' Ty_uuid [Not_Null, Cascades ''session''],
     col ''from_node_id'' Ty_uuid [Not_Null, Cascades ''kg_node''],
     col ''to_node_id'' Ty_uuid [Not_Null, Cascades ''kg_node''],
     col ''relation_type'' (Ty_varchar 64) [Not_Null],
     col ''condition'' (Ty_varchar 512) [],
     col ''properties'' Ty_jsonb [Not_Null, Default ''{}''],
     col ''confidence'' Ty_float [],
     col ''created_at'' Ty_timestamptz [Not_Null, Default ''now()'']],
    tb_uniques = []\<rparr>"

definition table_process_pattern :: table where
  "table_process_pattern = \<lparr>tb_name = ''process_pattern'', tb_columns =
    [col ''id'' Ty_uuid [Primary_Key, Default ''gen_random_uuid()''],
     col ''name'' Ty_text [Not_Null, Unique],
     col ''archetype_type'' Ty_text [Not_Null],
     col ''description'' Ty_text [],
     col ''template_json'' Ty_jsonb [Not_Null],
     col ''required_slots'' (Ty_array Ty_text) [Not_Null, Default ''{}''],
     col ''embedding'' (Ty_vector 768) [],
     col ''created_at'' Ty_timestamptz [Not_Null, Default ''now()'']],
    tb_uniques = []\<rparr>"

definition table_agent_definition :: table where
  "table_agent_definition = \<lparr>tb_name = ''agent_definition'', tb_columns =
    [col ''id'' Ty_uuid [Primary_Key, Default ''gen_random_uuid()''],
     col ''name'' (Ty_varchar 128) [Not_Null, Unique],
     col ''agent_type'' (Ty_named ''agent_type_enum'') [Not_Null],
     col ''version'' (Ty_varchar 32) [Not_Null, Default ''1.0.0''],
     col ''description'' Ty_text [],
     col ''capabilities'' Ty_jsonb [Not_Null, Default ''[]''],
     col ''default_config'' Ty_jsonb [Not_Null, Default ''{}''],
     col ''is_active'' Ty_boolean [Not_Null, Default ''true''],
     col ''created_at'' Ty_timestamptz [Not_Null, Default ''now()''],
     col ''updated_at'' Ty_timestamptz [Not_Null, Default ''now()'']],
    tb_uniques = []\<rparr>"

definition table_pipeline_execution :: table where
  "table_pipeline_execution = \<lparr>tb_name = ''pipeline_execution'', tb_columns =
    [col ''id'' Ty_uuid [Primary_Key, Default ''gen_random_uuid()''],
     col ''session_id'' Ty_uuid [Not_Null, Cascades ''session''],
     col ''task_type'' (Ty_named ''pipeline_task_type_enum'') [Not_Null],
     col ''mode'' (Ty_varchar 16) [Not_Null, Check_In [''auto'', ''interactive'']],
     col ''status'' (Ty_named ''pipeline_status_enum'') [Not_Null, Default ''PENDING''],
     col ''input_payload'' Ty_jsonb [Not_Null, Default ''{}''],
     col ''retry_count'' Ty_smallint [Not_Null, Default ''0''],
     col ''last_checkpoint_agent'' (Ty_named ''agent_type_enum'') [],
     col ''triggered_by'' Ty_uuid [References ''user''],
     col ''nats_message_id'' (Ty_varchar 256) [],
     col ''started_at'' Ty_timestamptz [],
     col ''completed_at'' Ty_timestamptz [],
     col ''total_duration_ms'' Ty_integer [],
     col ''total_llm_calls'' Ty_integer [Not_Null, Default ''0''],
     col ''total_tokens_consumed'' Ty_integer [Not_Null, Default ''0''],
     col ''final_confidence'' Ty_float [],
     col ''error_summary'' Ty_text [],
     col ''created_at'' Ty_timestamptz [Not_Null, Default ''now()'']],
    tb_uniques = []\<rparr>"

definition table_agent_execution :: table where
  "table_agent_execution = \<lparr>tb_name = ''agent_execution'', tb_columns =
    [col ''id'' Ty_uuid [Primary_Key, Default ''gen_random_uuid()''],
     col ''pipeline_execution_id'' Ty_uuid [Not_Null, Cascades ''pipeline_execution''],
     col ''agent_definition_id'' Ty_uuid [Not_Null, References ''agent_definition''],
     col ''status'' (Ty_named ''agent_execution_status_enum'') [Not_Null, Default ''PENDING''],
     col ''order_index'' Ty_smallint [Not_Null],
     col ''input_snapshot'' Ty_jsonb [],
     col ''output_snapshot'' Ty_jsonb [],
     col ''confidence_input'' Ty_float [],
     col ''confidence_output'' Ty_float [],
     col ''llm_calls_count'' Ty_smallint [Not_Null, Default ''0''],
     col ''tokens_consumed'' Ty_integer [Not_Null, Default ''0''],
     col ''error_message'' Ty_text [],
     col ''duration_ms'' Ty_integer [],
     col ''started_at'' Ty_timestamptz [],
     col ''completed_at'' Ty_timestamptz [],
     col ''created_at'' Ty_timestamptz [Not_Null, Default ''now()'']],
    tb_uniques = []\<rparr>"

definition table_agent_log :: table where
  "table_agent_log = \<lparr>tb_name = ''agent_log'', tb_columns =
    [col ''id'' Ty_uuid [Primary_Key, Default ''gen_random_uuid()''],
     col ''agent_execution_id'' Ty_uuid [Not_Null, Cascades ''agent_execution''],
     col ''log_level'' (Ty_named ''log_level_enum'') [Not_Null, Default ''INFO''],
     col ''message'' Ty_text [Not_Null],
     col ''metadata'' Ty_jsonb [Not_Null, Default ''{}''],
     col ''created_at'' Ty_timestamptz [Not_Null, Default ''now()'']],
    tb_uniques = []\<rparr>"

definition table_agent_config_override :: table where
  "table_agent_config_override = \<lparr>tb_name = ''agent_config_override'', tb_columns =
    [col ''id'' Ty_uuid [Primary_Key, Default ''gen_random_uuid()''],
     col ''agent_definition_id'' Ty_uuid [Not_Null, Cascades ''agent_definition''],
     col ''scope_type'' (Ty_named ''config_override_scope_enum'') [Not_Null],
     col ''scope_id'' Ty_uuid [Not_Null],
     col ''config_patch'' Ty_jsonb [Not_Null],
     col ''description'' Ty_text [],
     col ''created_by'' Ty_uuid [Not_Null, References ''user''],
     col ''created_at'' Ty_timestamptz [Not_Null, Default ''now()'']],
    tb_uniques = [[''agent_definition_id'', ''scope_type'', ''scope_id'']]\<rparr>"

definition table_workflow_graph_snapshot :: table where
  "table_workflow_graph_snapshot = \<lparr>tb_name = ''workflow_graph_snapshot'', tb_columns =
    [col ''id'' Ty_uuid [Primary_Key, Default ''gen_random_uuid()''],
     col ''workflow_id'' Ty_uuid [Not_Null, Cascades ''workflow''],
     col ''workflow_version_id'' Ty_uuid [References ''workflow_version''],
     col ''session_id'' Ty_uuid [References ''session''],
     col ''graph_type'' (Ty_named ''graph_type_enum'') [Not_Null],
     col ''source'' (Ty_named ''graph_source_enum'') [Not_Null],
     col ''nodes'' Ty_jsonb [Not_Null, Default ''[]''],
     col ''edges'' Ty_jsonb [Not_Null, Default ''[]''],
     col ''node_count'' Ty_smallint [Not_Null, Default ''0''],
     col ''edge_count'' Ty_smallint [Not_Null, Default ''0''],
     col ''graph_embedding'' (Ty_vector 768) [],
     col ''created_by'' Ty_uuid [References ''user''],
     col ''created_at'' Ty_timestamptz [Not_Null, Default ''now()'']],
    tb_uniques = []\<rparr>"

definition table_divergence_report :: table where
  "table_divergence_report = \<lparr>tb_name = ''divergence_report'', tb_columns =
    [col ''id'' Ty_uuid [Primary_Key, Default ''gen_random_uuid()''],
     col ''workflow_id'' Ty_uuid [Not_Null, Cascades ''workflow''],
     col ''graph_a_id'' Ty_uuid [Not_Null, References ''workflow_graph_snapshot''],
     col ''graph_b_id'' Ty_uuid [Not_Null, References ''workflow_graph_snapshot''],
     col ''comparison_type'' (Ty_named ''comparison_type_enum'') [Not_Null],
     col ''status'' (Ty_named ''divergence_report_status_enum'') [Not_Null, Default ''PENDING''],
     col ''overall_similarity'' Ty_float [],
     col ''severity'' (Ty_named ''divergence_severity_enum'') [],
     col ''algorithm_used'' (Ty_varchar 64) [],
     col ''total_points'' Ty_smallint [Not_Null, Default ''0''],
     col ''critical_count'' Ty_smallint [Not_Null, Default ''0''],
     col ''high_count'' Ty_smallint [Not_Null, Default ''0''],
     col ''medium_count'' Ty_smallint [Not_Null, Default ''0''],
     col ''low_count'' Ty_smallint [Not_Null, Default ''0''],
     col ''auto_triggered'' Ty_boolean [Not_Null, Default ''false''],
     col ''triggered_by'' Ty_uuid [References ''user''],
     col ''pipeline_execution_id'' Ty_uuid [References ''pipeline_execution''],
     col ''completed_at'' Ty_timestamptz [],
     col ''created_at'' Ty_timestamptz [Not_Null, Default ''now()'']],
    tb_uniques = []\<rparr>"

definition table_divergence_point :: table where
  "table_divergence_point = \<lparr>tb_name = ''divergence_point'', tb_columns =
    [col ''id'' Ty_uuid [Primary_Key, Default ''gen_random_uuid()''],
     col ''report_id'' Ty_uuid [Not_Null, Cascades ''divergence_report''],
     col ''point_type'' (Ty_named ''divergence_point_type_enum'') [Not_Null],
     col ''severity'' (Ty_named ''point_severity_enum'') [Not_Null],
     col ''element_id_in_a'' (Ty_varchar 128) [],
     col ''element_id_in_b'' (Ty_varchar 128) [],
     col ''element_label_a'' (Ty_varchar 256) [],
     col ''element_label_b'' (Ty_varchar 256) [],
     col ''description'' Ty_text [Not_Null],
     col ''ai_suggestion'' Ty_text [],
     col ''auto_fixable'' Ty_boolean [Not_Null, Default ''false''],
     col ''resolved'' Ty_boolean [Not_Null, Default ''false''],
     col ''resolved_at'' Ty_timestamptz [],
     col ''resolved_by'' Ty_uuid [References ''user''],
     col ''created_at'' Ty_timestamptz [Not_Null, Default ''now()'']],
    tb_uniques = []\<rparr>"

definition table_reconciliation_action :: table where
  "table_reconciliation_action = \<lparr>tb_name = ''reconciliation_action'', tb_columns =
    [col ''id'' Ty_uuid [Primary_Key, Default ''gen_random_uuid()''],
     col ''divergence_point_id'' Ty_uuid [Not_Null, Cascades ''divergence_point''],
     col ''action_type'' (Ty_named ''reconciliation_action_type_enum'') [Not_Null],
     col ''applied_by_user'' Ty_uuid [References ''user''],
     col ''applied_by_agent'' (Ty_varchar 64) [],
     col ''result_graph_snapshot_id'' Ty_uuid [References ''workflow_graph_snapshot''],
     col ''notes'' Ty_text [],
     col ''created_at'' Ty_timestamptz [Not_Null, Default ''now()'']],
    tb_uniques = []\<rparr>"

definition table_rule :: table where
  "table_rule = \<lparr>tb_name = ''rule'', tb_columns =
    [col ''id'' Ty_uuid [Primary_Key, Default ''gen_random_uuid()''],
     col ''org_id'' Ty_uuid [Not_Null, Cascades ''organization''],
     col ''workflow_id'' Ty_uuid [References ''workflow''],
     col ''name'' (Ty_varchar 256) [Not_Null],
     col ''description'' Ty_text [],
     col ''rule_type'' (Ty_named ''rule_type_enum'') [Not_Null],
     col ''scope'' (Ty_named ''rule_scope_enum'') [Not_Null, Default ''ORG''],
     col ''target_agent'' (Ty_named ''agent_type_enum'') [],
     col ''condition'' Ty_jsonb [],
     col ''instruction'' Ty_text [Not_Null],
     col ''priority'' Ty_smallint [Not_Null, Default ''100''],
     col ''version'' Ty_smallint [Not_Null, Default ''1''],
     col ''is_active'' Ty_boolean [Not_Null, Default ''true''],
     col ''created_by'' Ty_uuid [Not_Null, References ''user''],
     col ''created_at'' Ty_timestamptz [Not_Null, Default ''now()''],
     col ''updated_at'' Ty_timestamptz [Not_Null, Default ''now()'']],
    tb_uniques = []\<rparr>"

definition table_rule_version :: table where
  "table_rule_version = \<lparr>tb_name = ''rule_version'', tb_columns =
    [col ''id'' Ty_uuid [Primary_Key, Default ''gen_random_uuid()''],
     col ''rule_id'' Ty_uuid [Not_Null, Cascades ''rule''],
     col ''version'' Ty_smallint [Not_Null],
     col ''instruction'' Ty_text [Not_Null],
     col ''condition'' Ty_jsonb [],
     col ''changed_by'' Ty_uuid [Not_Null, References ''user''],
     col ''created_at'' Ty_timestamptz [Not_Null, Default ''now()'']],
    tb_uniques = []\<rparr>"

definition table_skill :: table where
  "table_skill = \<lparr>tb_name = ''skill'', tb_columns =
    [col ''id'' Ty_uuid [Primary_Key, Default ''gen_random_uuid()''],
     col ''org_id'' Ty_uuid [Not_Null, Cascades ''organization''],
     col ''name'' (Ty_varchar 256) [Not_Null],
     col ''description'' Ty_text [],
     col ''skill_type'' (Ty_named ''skill_type_enum'') [Not_Null],
     col ''content'' Ty_jsonb [Not_Null],
     col ''embedding'' (Ty_vector 768) [],
     col ''applies_to_domains'' (Ty_array Ty_text) [],
     col ''applies_to_agents'' (Ty_array (Ty_named ''agent_type_enum'')) [],
     col ''is_active'' Ty_boolean [Not_Null, Default ''true''],
     col ''is_mandatory'' Ty_boolean [Not_Null, Default ''false''],
     col ''usage_count'' Ty_integer [Not_Null, Default ''0''],
     col ''version'' Ty_smallint [Not_Null, Default ''1''],
     col ''created_by'' Ty_uuid [Not_Null, References ''user''],
     col ''created_at'' Ty_timestamptz [Not_Null, Default ''now()''],
     col ''updated_at'' Ty_timestamptz [Not_Null, Default ''now()'']],
    tb_uniques = []\<rparr>"

definition table_rule_application :: table where
  "table_rule_application = \<lparr>tb_name = ''rule_application'', tb_columns =
    [col ''id'' Ty_uuid [Primary_Key, Default ''gen_random_uuid()''],
     col ''rule_id'' Ty_uuid [Not_Null, Cascades ''rule''],
     col ''rule_version'' Ty_smallint [Not_Null],
     col ''agent_execution_id'' Ty_uuid [Not_Null, Cascades ''agent_execution''],
     col ''triggered'' Ty_boolean [Not_Null],
     col ''impact_description'' Ty_text [],
     col ''created_at'' Ty_timestamptz [Not_Null, Default ''now()'']],
    tb_uniques = []\<rparr>"

definition table_skill_application :: table where
  "table_skill_application = \<lparr>tb_name = ''skill_application'', tb_columns =
    [col ''id'' Ty_uuid [Primary_Key, Default ''gen_random_uuid()''],
     col ''skill_id'' Ty_uuid [Not_Null, Cascades ''skill''],
     col ''agent_execution_id'' Ty_uuid [Not_Null, Cascades ''agent_execution''],
     col ''retrieval_rank'' Ty_smallint [],
     col ''similarity_score'' Ty_float [],
     col ''injected_tokens'' Ty_smallint [Not_Null, Default ''0''],
     col ''was_mandatory'' Ty_boolean [Not_Null, Default ''false''],
     col ''created_at'' Ty_timestamptz [Not_Null, Default ''now()'']],
    tb_uniques = []\<rparr>"

definition init_indexes :: "index list" where
  "init_indexes =
    [plain_index ''idx_user_org_id'' ''user'' [''org_id''],
     plain_index ''idx_login_history_user_created'' ''login_history'' [''user_id'', ''created_at''],
     plain_index ''idx_refresh_token_user_revoked'' ''refresh_token'' [''user_id'', ''revoked''],
     plain_index ''idx_workflow_org_status'' ''workflow'' [''org_id'', ''status''],
     plain_index ''idx_workflow_owner'' ''workflow'' [''owner_id''],
     plain_index ''idx_workflow_tags'' ''workflow'' [''tags''],
     plain_index ''idx_workflow_version_workflow_number'' ''workflow_version'' [''workflow_id'', ''version_number''],
     plain_index ''idx_session_workflow_created'' ''session'' [''workflow_id'', ''created_at''],
     plain_index ''idx_session_user'' ''session'' [''user_id''],
     plain_index ''idx_message_session_created'' ''message'' [''session_id'', ''created_at''],
     plain_index ''idx_audit_log_workflow_created'' ''audit_log'' [''workflow_id'', ''created_at''],
     plain_index ''idx_kg_node_session_type'' ''kg_node'' [''session_id'', ''type''],
     plain_index ''idx_kg_node_embedding'' ''kg_node'' [''embedding''],
     plain_index ''idx_kg_edge_session'' ''kg_edge'' [''session_id''],
     plain_index ''idx_process_pattern_embedding'' ''process_pattern'' [''embedding''],
     plain_index ''idx_comment_workflow_resolved'' ''comment'' [''workflow_id'', ''resolved''],
     plain_index ''idx_pipeline_execution_session_created'' ''pipeline_execution'' [''session_id'', ''created_at''],
     plain_index ''idx_pipeline_execution_status'' ''pipeline_execution'' [''status''],
     plain_index ''idx_agent_execution_pipeline_order'' ''agent_execution'' [''pipeline_execution_id'', ''order_index''],
     plain_index ''idx_agent_execution_definition_status'' ''agent_execution'' [''agent_definition_id'', ''status''],
     plain_index ''idx_agent_execution_status_created'' ''agent_execution'' [''status'', ''created_at''],
     plain_index ''idx_agent_execution_definition_created'' ''agent_execution'' [''agent_definition_id'', ''created_at''],
     plain_index ''idx_agent_log_execution_created'' ''agent_log'' [''agent_execution_id'', ''created_at''],
     plain_index ''idx_agent_config_override_lookup'' ''agent_config_override'' [''agent_definition_id'', ''scope_type'',
       ''scope_id''],
     plain_index ''idx_workflow_graph_snapshot_workflow_type'' ''workflow_graph_snapshot'' [''workflow_id'', ''graph_type''],
     plain_index ''idx_workflow_graph_snapshot_session'' ''workflow_graph_snapshot'' [''session_id''],
     plain_index ''idx_workflow_graph_snapshot_embedding'' ''workflow_graph_snapshot'' [''graph_embedding''],
     plain_index ''idx_divergence_report_workflow_created'' ''divergence_report'' [''workflow_id'', ''created_at''],
     plain_index ''idx_divergence_report_status'' ''divergence_report'' [''status''],
     plain_index ''idx_divergence_point_report_severity'' ''divergence_point'' [''report_id'', ''severity''],
     plain_index ''idx_divergence_point_report_resolved'' ''divergence_point'' [''report_id'', ''resolved''],
     plain_index ''idx_reconciliation_action_point'' ''reconciliation_action'' [''divergence_point_id''],
     plain_index ''idx_rule_org_active_scope'' ''rule'' [''org_id'', ''is_active'', ''scope''],
     plain_index ''idx_rule_org_target_active'' ''rule'' [''org_id'', ''target_agent'', ''is_active''],
     plain_index ''idx_rule_workflow_partial'' ''rule'' [''workflow_id''],
     plain_index ''idx_skill_org_active_type'' ''skill'' [''org_id'', ''is_active'', ''skill_type''],
     plain_index ''idx_skill_org_mandatory'' ''skill'' [''org_id'', ''is_mandatory''],
     plain_index ''idx_skill_embedding'' ''skill'' [''embedding''],
     plain_index ''idx_rule_application_agent_execution'' ''rule_application'' [''agent_execution_id''],
     plain_index ''idx_rule_application_rule_created'' ''rule_application'' [''rule_id'', ''created_at''],
     plain_index ''idx_skill_application_agent_execution'' ''skill_application'' [''agent_execution_id''],
     plain_index ''idx_skill_application_skill_created'' ''skill_application'' [''skill_id'', ''created_at'']]"

definition init_triggers :: "statement list" where
  "init_triggers =
    [Create_Function ''prevent_audit_log_mutation'',
     Create_Trigger \<lparr>tg_name = ''trg_prevent_audit_log_update'', tg_table = ''audit_log'', tg_events = [''UPDATE''],
       tg_columns = [],
        tg_function = ''prevent_audit_log_mutation''\<rparr>,
     Create_Trigger \<lparr>tg_name = ''trg_prevent_audit_log_delete'', tg_table = ''audit_log'', tg_events = [''DELETE''],
       tg_columns = [],
        tg_function = ''prevent_audit_log_mutation''\<rparr>,
     Create_Function ''enforce_workflow_current_version'',
     Create_Trigger \<lparr>tg_name = ''trg_enforce_workflow_current_version'', tg_table = ''workflow'',
       tg_events = [''INSERT'', ''UPDATE''], tg_columns = [''current_version''],
        tg_function = ''enforce_workflow_current_version''\<rparr>]"

definition init_tables :: "table list" where
  "init_tables =
    [table_organization, table_user, table_login_history, table_refresh_token, table_workflow, 
     table_workflow_version, table_session, table_message, table_document, table_comment, 
     table_audit_log, table_kg_node, table_kg_edge, table_process_pattern, table_agent_definition, 
     table_pipeline_execution, table_agent_execution, table_agent_log, table_agent_config_override, 
     table_workflow_graph_snapshot, table_divergence_report, table_divergence_point, 
     table_reconciliation_action, table_rule, table_rule_version, table_skill, 
     table_rule_application, table_skill_application]"

definition drop_triggers :: "statement list" where
  "drop_triggers =
    [Drop_Trigger ''trg_enforce_workflow_current_version'' ''workflow'',
     Drop_Function ''enforce_workflow_current_version'',
     Drop_Trigger ''trg_prevent_audit_log_delete'' ''audit_log'',
     Drop_Trigger ''trg_prevent_audit_log_update'' ''audit_log'',
     Drop_Function ''prevent_audit_log_mutation'']"

definition drop_tables :: "statement list" where
  "drop_tables =
    [Drop_Table ''skill_application'' True,
     Drop_Table ''rule_application'' True,
     Drop_Table ''skill'' True,
     Drop_Table ''rule_version'' True,
     Drop_Table ''rule'' True,
     Drop_Table ''reconciliation_action'' True,
     Drop_Table ''divergence_point'' True,
     Drop_Table ''divergence_report'' True,
     Drop_Table ''workflow_graph_snapshot'' True,
     Drop_Table ''agent_config_override'' True,
     Drop_Table ''agent_log'' True,
     Drop_Table ''agent_execution'' True,
     Drop_Table ''pipeline_execution'' True,
     Drop_Table ''agent_definition'' True,
     Drop_Table ''process_pattern'' True,
     Drop_Table ''kg_edge'' True,
     Drop_Table ''kg_node'' True,
     Drop_Table ''audit_log'' True,
     Drop_Table ''comment'' True,
     Drop_Table ''document'' True,
     Drop_Table ''message'' True,
     Drop_Table ''session'' True,
     Drop_Table ''workflow_version'' True,
     Drop_Table ''workflow'' True,
     Drop_Table ''refresh_token'' True,
     Drop_Table ''login_history'' True,
     Drop_Table ''user'' True,
     Drop_Table ''organization'' True]"

definition drop_types :: "statement list" where
  "drop_types =
    [Drop_Type ''skill_type_enum'',
     Drop_Type ''rule_scope_enum'',
     Drop_Type ''rule_type_enum'',
     Drop_Type ''reconciliation_action_type_enum'',
     Drop_Type ''point_severity_enum'',
     Drop_Type ''divergence_point_type_enum'',
     Drop_Type ''divergence_report_status_enum'',
     Drop_Type ''divergence_severity_enum'',
     Drop_Type ''comparison_type_enum'',
     Drop_Type ''graph_source_enum'',
     Drop_Type ''graph_type_enum'',
     Drop_Type ''config_override_scope_enum'',
     Drop_Type ''log_level_enum'',
     Drop_Type ''agent_execution_status_enum'',
     Drop_Type ''pipeline_status_enum'',
     Drop_Type ''pipeline_task_type_enum'',
     Drop_Type ''agent_type_enum'',
     Drop_Type ''actor_type_enum'',
     Drop_Type ''comment_type_enum'',
     Drop_Type ''message_type_enum'',
     Drop_Type ''message_role_enum'',
     Drop_Type ''session_status_enum'',
     Drop_Type ''session_mode_enum'',
     Drop_Type ''workflow_status_enum'',
     Drop_Type ''user_role_enum'']"

definition InitDatabaseSchema :: migration where
  "InitDatabaseSchema = \<lparr>mg_name = ''InitDatabaseSchema1700000000000'', mg_timestamp = 1700000000000,
     mg_up = init_extensions @ map (\<lambda>(n, vs). Create_Type n vs) enum_types @ map (Create_Table False) init_tables @
       map (Create_Index False) init_indexes @ init_triggers,
     mg_down = drop_triggers @ drop_tables @ drop_types\<rparr>"

section \<open>The later migrations\<close>

definition AddDocumentStorageFields :: migration where
  "AddDocumentStorageFields = \<lparr>mg_name = ''AddDocumentStorageFields1700000002000'', mg_timestamp = 1700000002000,
   mg_up =
     [Add_Column False ''document'' (col ''file_size_bytes'' Ty_integer [Not_Null, Default ''0'']),
      Add_Column False ''document'' (col ''deleted_at'' Ty_timestamptz []),
      Create_Index False (plain_index ''idx_document_session_filename_version'' ''document'' [''session_id'', ''filename'',
        ''doc_version'']),
      Create_Index False (plain_index ''idx_document_workflow_active_created_at'' ''document'' [''workflow_id'',
        ''created_at'', ''deleted_at''])],
   mg_down =
     [Drop_Index ''idx_document_workflow_active_created_at'',
      Drop_Index ''idx_document_session_filename_version'',
      Drop_Column ''document'' ''deleted_at'',
      Drop_Column ''document'' ''file_size_bytes'']\<rparr>"

definition AddOrganizationInviteFields :: migration where
  "AddOrganizationInviteFields = \<lparr>mg_name = ''AddOrganizationInviteFields1700000002000'', mg_timestamp = 1700000002000,
   mg_up =
     [Add_Column True ''user'' (col ''is_active'' Ty_boolean [Not_Null, Default ''true'']),
      Add_Column True ''user'' (col ''invite_token_hash'' Ty_text []),
      Add_Column True ''user'' (col ''invite_expires_at'' Ty_timestamptz []),
      Create_Index True (plain_index ''idx_user_org_active'' ''user'' [''org_id'', ''is_active'']),
      Create_Index True (plain_index ''idx_user_invite_token_hash'' ''user'' [''invite_token_hash''])],
   mg_down =
     [Drop_Index ''idx_user_invite_token_hash'',
      Drop_Index ''idx_user_org_active'',
      Drop_Column ''user'' ''invite_expires_at'',
      Drop_Column ''user'' ''invite_token_hash'',
      Drop_Column ''user'' ''is_active'']\<rparr>"

definition AddSessionArchiveFields :: migration where
  "AddSessionArchiveFields = \<lparr>mg_name = ''AddSessionArchiveFields1700000003000'', mg_timestamp = 1700000003000,
   mg_up =
     [Add_Column True ''session'' (col ''archived_at'' Ty_timestamptz []),
      Add_Column True ''message'' (col ''archived_at'' Ty_timestamptz []),
      Add_Column True ''document'' (col ''archived_at'' Ty_timestamptz []),
      Add_Column True ''pipeline_execution'' (col ''archived_at'' Ty_timestamptz []),
      Create_Index True (plain_index ''idx_session_archived_at'' ''session'' [''archived_at'']),
      Create_Index True (plain_index ''idx_message_session_archived'' ''message'' [''session_id'', ''archived_at'']),
      Create_Index True (plain_index ''idx_document_session_archived'' ''document'' [''session_id'', ''archived_at'']),
      Create_Index True (plain_index ''idx_pipeline_session_archived'' ''pipeline_execution'' [''session_id'',
        ''archived_at''])],
   mg_down =
     [Drop_Index ''idx_pipeline_session_archived'',
      Drop_Index ''idx_document_session_archived'',
      Drop_Index ''idx_message_session_archived'',
      Drop_Index ''idx_session_archived_at'',
      Drop_Column ''pipeline_execution'' ''archived_at'',
      Drop_Column ''document'' ''archived_at'',
      Drop_Column ''message'' ''archived_at'',
      Drop_Column ''session'' ''archived_at'']\<rparr>"

definition table_dead_letter :: table where
  "table_dead_letter = \<lparr>tb_name = ''dead_letter'', tb_columns =
    [col ''id'' Ty_uuid [Primary_Key, Default ''gen_random_uuid()''],
     col ''subject'' (Ty_varchar 255) [Not_Null],
     col ''payload'' Ty_jsonb [Not_Null],
     col ''reason'' Ty_text [Not_Null],
     col ''delivery_count'' Ty_smallint [Not_Null],
     col ''last_error'' Ty_text [],
     col ''created_at'' Ty_timestamptz [Not_Null, Default ''now()'']],
    tb_uniques = []\<rparr>"

definition AddDeadLetterTable :: migration where
  "AddDeadLetterTable = \<lparr>mg_name = ''AddDeadLetterTable1700000004000'', mg_timestamp = 1700000004000,
   mg_up =
     [Create_Table True table_dead_letter,
      Create_Index True (plain_index ''idx_dead_letter_subject_created'' ''dead_letter'' [''subject'', ''created_at''])],
   mg_down =
     [Drop_Index ''idx_dead_letter_subject_created'',
      Drop_Table ''dead_letter'' False]\<rparr>"

definition AddMessageSearchIndexes :: migration where
  "AddMessageSearchIndexes = \<lparr>mg_name = ''AddMessageSearchIndexes1700000005000'', mg_timestamp = 1700000005000,
   mg_up =
     [Create_Index True (plain_index ''idx_message_session_created_id'' ''message'' [''session_id'', ''created_at'',
        ''id'', ''archived_at'']),
      Create_Index True (plain_index ''idx_message_content_fts'' ''message'' [''content''])],
   mg_down =
     [Drop_Index ''idx_message_content_fts'',
      Drop_Index ''idx_message_session_created_id'']\<rparr>"

definition AddCommentAssignedToAndResolutionNote :: migration where
  "AddCommentAssignedToAndResolutionNote = \<lparr>mg_name = ''AddCommentAssignedToAndResolutionNote1700000006000'',
    mg_timestamp = 1700000006000,
   mg_up =
     [Add_Column True ''comment'' (col ''assigned_to'' Ty_uuid [References ''user'']),
      Add_Column True ''comment'' (col ''resolution_note'' Ty_text []),
      Create_Index True (plain_index ''idx_comment_assigned_resolved'' ''comment'' [''assigned_to'', ''resolved''])],
   mg_down =
     [Drop_Index ''idx_comment_assigned_resolved'',
      Drop_Column ''comment'' ''resolution_note'',
      Drop_Column ''comment'' ''assigned_to'']\<rparr>"

definition AddRuleVersionStateFields :: migration where
  "AddRuleVersionStateFields = \<lparr>mg_name = ''AddRuleVersionStateFields1700000007000'', mg_timestamp = 1700000007000,
   mg_up =
     [Add_Column True ''rule_version'' (col ''priority'' Ty_smallint [Not_Null, Default ''100'']),
      Add_Column True ''rule_version'' (col ''is_active'' Ty_boolean [Not_Null, Default ''true''])],
   mg_down =
     [Drop_Column ''rule_version'' ''is_active'',
      Drop_Column ''rule_version'' ''priority'']\<rparr>"

definition HardenAuditLogAccess :: migration where
  "HardenAuditLogAccess = \<lparr>mg_name = ''HardenAuditLogAccess1700000008000'', mg_timestamp = 1700000008000,
   mg_up =
     [Create_Index True (plain_index ''idx_audit_log_workflow_event_created'' ''audit_log'' [''workflow_id'',
        ''event_type'', ''created_at'']),
      Create_Index True (plain_index ''idx_audit_log_workflow_actor_created'' ''audit_log'' [''workflow_id'', ''actor_id'',
        ''created_at'']),
      Revoke ''PUBLIC'' [''UPDATE'', ''DELETE''] ''audit_log'',
      Revoke ''current_user'' [''UPDATE'', ''DELETE''] ''audit_log'',
      Grant ''current_user'' [''SELECT'', ''INSERT''] ''audit_log''],
   mg_down =
     [Drop_Index ''idx_audit_log_workflow_actor_created'',
      Drop_Index ''idx_audit_log_workflow_event_created'',
      Grant ''PUBLIC'' [''UPDATE'', ''DELETE''] ''audit_log'',
      Grant ''current_user'' [''UPDATE'', ''DELETE''] ''audit_log'']\<rparr>"

definition table_project :: table where
  "table_project = \<lparr>tb_name = ''project'', tb_columns =
    [col ''id'' Ty_uuid [Primary_Key, Default ''gen_random_uuid()''],
     col ''name'' (Ty_varchar 255) [Not_Null],
     col ''org_id'' Ty_uuid [Not_Null],
     col ''owner_id'' Ty_uuid [Not_Null],
     col ''created_at'' Ty_timestamptz [Not_Null, Default ''now()''],
     col ''updated_at'' Ty_timestamptz [Not_Null, Default ''now()'']],
    tb_uniques = []\<rparr>"

definition AddProjectsTable :: migration where
  "AddProjectsTable = \<lparr>mg_name = ''AddProjectsTable1700000009000'', mg_timestamp = 1700000009000,
   mg_up =
     [Create_Table True table_project,
      Create_Index True (plain_index ''idx_project_org_id'' ''project'' [''org_id'']),
      Create_Index True (unique_index ''idx_project_name_org'' ''project'' [''name'', ''org_id''])],
   mg_down =
     [Drop_Index ''idx_project_name_org'',
      Drop_Index ''idx_project_org_id'',
      Drop_Table ''project'' False]\<rparr>"

definition AddProjectIdToWorkflow :: migration where
  "AddProjectIdToWorkflow = \<lparr>mg_name = ''AddProjectIdToWorkflow1700000010000'', mg_timestamp = 1700000010000,
   mg_up =
     [Add_Column True ''workflow'' (col ''project_id'' Ty_uuid []),
      Create_Index True (plain_index ''idx_workflow_project_id'' ''workflow'' [''project_id''])],
   mg_down =
     [Drop_Index ''idx_workflow_project_id'',
      Drop_Column ''workflow'' ''project_id'']\<rparr>"

definition AddProjectsTableAgain :: migration where
  "AddProjectsTableAgain = \<lparr>mg_name = ''AddProjectsTable1700000010000'', mg_timestamp = 1700000010000,
   mg_up =
     [Create_Table True table_project,
      Create_Index True (plain_index ''idx_project_org_id'' ''project'' [''org_id'']),
      Create_Index True (unique_index ''idx_project_name_org'' ''project'' [''name'', ''org_id'']),
      Add_Column True ''workflow'' (col ''project_id'' Ty_uuid []),
      Create_Index True (plain_index ''idx_workflow_project_id'' ''workflow'' [''project_id''])],
   mg_down =
     [Drop_Index ''idx_workflow_project_id'',
      Drop_Column ''workflow'' ''project_id'',
      Drop_Index ''idx_project_name_org'',
      Drop_Index ''idx_project_org_id'',
      Drop_Table ''project'' False]\<rparr>"

text \<open>TypeORM loads the files in the order of their names and runs the migrations by their timestamps; those with one timestamp
keep the order of the files. All pending migrations share one transaction, so an error leaves the schema as it was. Reverting
undoes the last one.\<close>

definition migrations :: "migration list" where
  "migrations = [InitDatabaseSchema, AddDocumentStorageFields, AddOrganizationInviteFields, AddSessionArchiveFields,
    AddDeadLetterTable, AddMessageSearchIndexes, AddCommentAssignedToAndResolutionNote, AddRuleVersionStateFields,
      HardenAuditLogAccess, AddProjectsTable, AddProjectIdToWorkflow, AddProjectsTableAgain]"

definition in_order :: "migration list \<Rightarrow> migration list" where
  "in_order ms = sort_key mg_timestamp ms"

definition migrate :: "migration list \<Rightarrow> schema \<Rightarrow> string + schema" where
  "migrate ms sc = exec_all (concat (map mg_up (in_order ms))) sc"

definition revert :: "migration \<Rightarrow> schema \<Rightarrow> string + schema" where
  "revert m sc = exec_all (mg_down m) sc"

end
