(* ===== verification/Schema_Correct.thy ===== *)
theory Schema_Correct
  imports Migrations
begin

text \<open>
  What the migrations make of an empty database, and what any sequence of their statements keeps: names are unique and
  everything a table, an index, a trigger or a grant refers to exists.
\<close>

section \<open>Schemas without dangling names\<close>

definition column_ok :: "schema \<Rightarrow> column \<Rightarrow> bool" where
  "column_ok sc c \<longleftrightarrow> type_known sc (cl_type c) \<and> refers_ok (sc_tables sc) c"

definition table_ok :: "schema \<Rightarrow> table \<Rightarrow> bool" where
  "table_ok sc x \<longleftrightarrow>
     distinct (column_names x) \<and> (\<forall>c \<in> set (tb_columns x). column_ok sc c) \<and> (\<forall>u \<in> set (tb_uniques x). has_columns x u)"

definition columns_exist :: "schema \<Rightarrow> string \<Rightarrow> string list \<Rightarrow> bool" where
  "columns_exist sc t cs \<longleftrightarrow> (\<exists>x \<in> set (sc_tables sc). tb_name x = t \<and> has_columns x cs)"

definition names_ok :: "schema \<Rightarrow> bool" where
  "names_ok sc \<longleftrightarrow>
     distinct (relation_names sc) \<and> distinct (map fst (sc_types sc)) \<and> set (map fst (sc_types sc)) \<inter> set (table_names sc) = {}"

definition schema_ok :: "schema \<Rightarrow> bool" where
  "schema_ok sc \<longleftrightarrow>
     names_ok sc \<and> (\<forall>x \<in> set (sc_tables sc). table_ok sc x) \<and>
     (\<forall>i \<in> set (sc_indexes sc). columns_exist sc (ix_table i) (ix_columns i)) \<and>
     (\<forall>g \<in> set (sc_triggers sc). columns_exist sc (tg_table g) (tg_columns g) \<and> tg_function g \<in> set (sc_functions sc)) \<and>
     (\<forall>(r, t, p) \<in> set (sc_grants sc). t \<in> set (table_names sc))"

lemma empty_schema_ok: "schema_ok empty_schema"
  by (simp add: schema_ok_def names_ok_def empty_schema_def relation_names_def table_names_def)

lemma find_table_Some: "find_table t sc = Some x \<Longrightarrow> x \<in> set (sc_tables sc) \<and> tb_name x = t"
  by (auto simp: find_table_def find_Some_iff)

lemma find_table_None: "find_table t sc = None \<longleftrightarrow> t \<notin> set (table_names sc)"
  by (auto simp: find_table_def find_None_iff table_names_def)

lemma type_known_mono:
  "type_known sc t \<Longrightarrow> set (sc_extensions sc) \<subseteq> set (sc_extensions sd) \<Longrightarrow> set (sc_types sc) \<subseteq> set (sc_types sd) \<Longrightarrow>
    type_known sd t"
  by (induction sc t rule: type_known.induct) auto

lemma type_known_cong: "sc_extensions sd = sc_extensions sc \<Longrightarrow> sc_types sd = sc_types sc \<Longrightarrow> type_known sd t = type_known sc t"
  by (induction sc t rule: type_known.induct) auto

lemma type_known_dropped:
  "type_known sc t \<Longrightarrow> \<not> type_uses n t \<Longrightarrow> sc_extensions sd = sc_extensions sc \<Longrightarrow>
    sc_types sd = filter (\<lambda>x. fst x \<noteq> n) (sc_types sc) \<Longrightarrow> type_known sd t"
  by (induction sc t rule: type_known.induct) auto

section \<open>Statements that keep the columns\<close>

text \<open>In \<open>sd\<close> every table of \<open>sc\<close> is still there with its columns.\<close>

definition extends :: "schema \<Rightarrow> schema \<Rightarrow> bool" where
  "extends sc sd \<longleftrightarrow>
     set (sc_extensions sc) \<subseteq> set (sc_extensions sd) \<and> set (sc_types sc) \<subseteq> set (sc_types sd) \<and>
     (\<forall>x \<in> set (sc_tables sc). \<exists>y \<in> set (sc_tables sd). tb_name y = tb_name x \<and> set (tb_columns x) \<subseteq> set (tb_columns y))"

lemma extends_same: "sc_extensions sd = sc_extensions sc \<Longrightarrow> set (sc_types sc) \<subseteq> set (sc_types sd) \<Longrightarrow>
    sc_tables sd = sc_tables sc \<Longrightarrow> extends sc sd"
  by (auto simp: extends_def)

lemma extends_table: "extends sc sd \<Longrightarrow> x \<in> set (sc_tables sc) \<Longrightarrow>
    \<exists>y \<in> set (sc_tables sd). tb_name y = tb_name x \<and> set (tb_columns x) \<subseteq> set (tb_columns y)"
  by (simp add: extends_def)

lemma columns_exist_extends: "extends sc sd \<Longrightarrow> columns_exist sc t cs \<Longrightarrow> columns_exist sd t cs"
proof -
  assume e: "extends sc sd" and "columns_exist sc t cs"
  then obtain x where x: "x \<in> set (sc_tables sc)" "tb_name x = t" "has_columns x cs" by (auto simp: columns_exist_def)
  obtain y where y: "y \<in> set (sc_tables sd)" "tb_name y = tb_name x" "set (tb_columns x) \<subseteq> set (tb_columns y)"
    using extends_table [OF e x(1)] by blast
  then have "has_columns y cs"
    using x(3) image_mono [OF y(3), of cl_name] by (simp add: has_columns_def column_names_def)
  then show ?thesis using x(2) y(1,2) by (auto simp: columns_exist_def)
qed

lemma refers_ok_extends: "extends sc sd \<Longrightarrow> refers_ok (sc_tables sc) c \<Longrightarrow> refers_ok (sc_tables sd) c"
  by (fastforce simp: extends_def refers_ok_def has_key_def split: option.splits)

lemma table_ok_extends: "extends sc sd \<Longrightarrow> table_ok sc x \<Longrightarrow> table_ok sd x"
  using refers_ok_extends [of sc sd] type_known_mono [of sc _ sd] by (simp add: table_ok_def column_ok_def extends_def)

lemma grants_kept:
  assumes "\<forall>(r, t, p) \<in> set (sc_grants sc). t \<in> set (table_names sc)" "set (table_names sc) \<subseteq> set (table_names sd)"
    "\<And>x. x \<in> set gs \<Longrightarrow> x \<in> set (sc_grants sc) \<or> fst (snd x) \<in> set (table_names sd)"
  shows "\<forall>(r, t, p) \<in> set gs. t \<in> set (table_names sd)"
  using assms by fastforce

lemma schema_ok_extends:
  assumes "schema_ok sc" "extends sc sd" "names_ok sd"
    "\<And>y. y \<in> set (sc_tables sd) \<Longrightarrow> y \<in> set (sc_tables sc) \<or> table_ok sd y"
    "\<And>i. i \<in> set (sc_indexes sd) \<Longrightarrow> i \<in> set (sc_indexes sc) \<or> columns_exist sd (ix_table i) (ix_columns i)"
    "\<And>g. g \<in> set (sc_triggers sd) \<Longrightarrow> (g \<in> set (sc_triggers sc) \<or> columns_exist sd (tg_table g) (tg_columns g)) \<and>
       tg_function g \<in> set (sc_functions sd)"
    "\<And>x. x \<in> set (sc_grants sd) \<Longrightarrow> x \<in> set (sc_grants sc) \<or> fst (snd x) \<in> set (table_names sd)"
  shows "schema_ok sd"
proof -
  have "set (table_names sc) \<subseteq> set (table_names sd)"
  proof
    fix t assume "t \<in> set (table_names sc)"
    then obtain x where "x \<in> set (sc_tables sc)" "tb_name x = t" by (auto simp: table_names_def)
    then obtain y where "y \<in> set (sc_tables sd)" "tb_name y = t" using extends_table [OF assms(2)] by blast
    then show "t \<in> set (table_names sd)" by (auto simp: table_names_def)
  qed
  then have "\<forall>(r, t, p) \<in> set (sc_grants sd). t \<in> set (table_names sd)"
    using grants_kept [of sc sd "sc_grants sd"] assms(1,7) by (simp add: schema_ok_def)
  moreover have "\<forall>y \<in> set (sc_tables sd). table_ok sd y"
    using assms(1,4) table_ok_extends [OF assms(2)] by (auto simp: schema_ok_def)
  moreover have "\<forall>i \<in> set (sc_indexes sd). columns_exist sd (ix_table i) (ix_columns i)"
    using assms(1,5) columns_exist_extends [OF assms(2)] unfolding schema_ok_def by blast
  moreover have "\<forall>g \<in> set (sc_triggers sd). columns_exist sd (tg_table g) (tg_columns g) \<and> tg_function g \<in> set (sc_functions sd)"
    using assms(1,6) columns_exist_extends [OF assms(2)] unfolding schema_ok_def by blast
  ultimately show ?thesis using assms(3) by (simp add: schema_ok_def)
qed

lemmas names_simps = names_ok_def relation_names_def table_names_def

lemma add_table_ok:
  assumes "schema_ok sc" "tb_name x \<notin> set (relation_names sc)" "tb_name x \<notin> set (map fst (sc_types sc))"
    "distinct (column_names x)" "\<forall>c \<in> set (tb_columns x). type_known sc (cl_type c)"
    "\<forall>c \<in> set (tb_columns x). refers_ok (x # sc_tables sc) c" "\<forall>u \<in> set (tb_uniques x). has_columns x u"
  shows "schema_ok (add_table x sc)"
proof (rule schema_ok_extends [OF assms(1)])
  show "extends sc (add_table x sc)" by (auto simp: extends_def add_table_def)
  show "names_ok (add_table x sc)" using assms(1-3) by (auto simp: schema_ok_def names_simps add_table_def)
  have "refers_ok (sc_tables (add_table x sc)) c" if "refers_ok (x # sc_tables sc) c" for c
    using that by (auto simp: refers_ok_def add_table_def split: option.splits)
  moreover have "type_known (add_table x sc) t = type_known sc t" for t
    by (rule type_known_cong) (simp_all add: add_table_def)
  ultimately show "y \<in> set (sc_tables sc) \<or> table_ok (add_table x sc) y" if "y \<in> set (sc_tables (add_table x sc))" for y
    using that assms(4-7) by (auto simp: add_table_def [of x sc] table_ok_def column_ok_def)
qed (use assms(1) in \<open>auto simp: add_table_def schema_ok_def new_grants_def table_names_def\<close>)

lemma add_column_ok:
  assumes "schema_ok sc" "find_table t sc = Some x" "cl_name c \<notin> set (column_names x)" "type_known sc (cl_type c)"
    "refers_ok (sc_tables sc) c"
  shows "schema_ok (add_column t c sc)"
proof (rule schema_ok_extends [OF assms(1)])
  let ?sd = "add_column t c sc"
  have "\<forall>x \<in> set (sc_tables sc). tb_name (with_column t c x) = tb_name x \<and>
      set (tb_columns x) \<subseteq> set (tb_columns (with_column t c x))"
    by (auto simp: with_column_def)
  then show e: "extends sc ?sd" unfolding extends_def by (auto simp: add_column_def)
  have n: "table_names ?sd = table_names sc" by (simp add: add_column_def table_names_def with_column_def)
  then show "names_ok ?sd" using assms(1) by (simp add: schema_ok_def names_ok_def relation_names_def add_column_def)
  have only: "y = x" if "y \<in> set (sc_tables sc)" "tb_name y = t" for y
    using that assms(1) find_table_Some [OF assms(2)]
    by (auto simp: schema_ok_def names_simps distinct_map dest: inj_onD)
  have new: "column_ok ?sd c"
    using assms(4,5) refers_ok_extends [OF e] type_known_cong [of ?sd sc] by (simp add: column_ok_def add_column_def)
  show "y \<in> set (sc_tables sc) \<or> table_ok ?sd y" if "y \<in> set (sc_tables ?sd)" for y
  proof -
    obtain z where z: "z \<in> set (sc_tables sc)" "y = with_column t c z" using \<open>y \<in> set (sc_tables ?sd)\<close> by (auto simp: add_column_def)
    then have ok: "table_ok ?sd z" using assms(1) table_ok_extends [OF e] by (simp add: schema_ok_def)
    show ?thesis
    proof (cases "tb_name z = t")
      case True
      then have "z = x" using only z by blast
      then have "table_ok ?sd y"
        using ok new z(2) True assms(3) by (auto simp: table_ok_def with_column_def column_names_def has_columns_def)
      then show ?thesis by blast
    qed (use z ok in \<open>simp add: with_column_def\<close>)
  qed
qed (use assms(1) in \<open>auto simp: add_column_def schema_ok_def\<close>)

lemma find_table_exists: "find_table t sc = Some x \<Longrightarrow> has_columns x cs \<Longrightarrow> columns_exist sc t cs"
  using find_table_Some by (auto simp: columns_exist_def)

lemma columns_exist_cong: "sc_tables sd = sc_tables sc \<Longrightarrow> columns_exist sd t cs = columns_exist sc t cs"
  by (simp add: columns_exist_def)

section \<open>Statements that remove\<close>

lemma unrefer_simps [simp]:
  "cl_name (unrefer p c) = cl_name c" "cl_type (unrefer p c) = cl_type c" "cl_unique (unrefer p c) = cl_unique c"
  by (simp_all add: unrefer_def split: option.splits)

lemma column_names_unrefer [simp]: "map (cl_name \<circ> unrefer p) cs = map cl_name cs"
  by simp

text \<open>A reference is dropped with the key it needs, and any other finds its table.\<close>

lemma refers_ok_unrefer:
  assumes "refers_ok ts c" "\<And>x. x \<in> set ts \<Longrightarrow> has_key x \<Longrightarrow> \<not> p (tb_name x) \<Longrightarrow> \<exists>y \<in> set us. tb_name y = tb_name x \<and> has_key y"
  shows "refers_ok us (unrefer p c)"
  using assms by (fastforce simp: refers_ok_def unrefer_def split: option.splits prod.splits)

lemma drop_table_ok:
  assumes "schema_ok sc"
  shows "schema_ok (drop_table t sc)"
proof -
  let ?sd = "drop_table t sc" and ?u = "\<lambda>x. x\<lparr>tb_columns := map (unrefer (\<lambda>u. u = t)) (tb_columns x)\<rparr>"
  have tables: "set (sc_tables ?sd) = ?u ` {x \<in> set (sc_tables sc). tb_name x \<noteq> t}" by (auto simp: drop_table_def)
  have names: "table_names ?sd = filter (\<lambda>n. n \<noteq> t) (table_names sc)"
    by (simp add: table_names_def drop_table_def filter_map o_def)
  have keep: "columns_exist ?sd u cs" if exist: "columns_exist sc u cs" and u: "u \<noteq> t" for u cs
  proof -
    obtain x where "x \<in> set (sc_tables sc)" "tb_name x = u" "has_columns x cs" using exist by (auto simp: columns_exist_def)
    then have "?u x \<in> set (sc_tables ?sd)" "tb_name (?u x) = u" "has_columns (?u x) cs"
      using u by (auto simp: tables has_columns_def column_names_def image_image)
    then show ?thesis unfolding columns_exist_def by blast
  qed
  have known: "type_known ?sd ty = type_known sc ty" for ty by (rule type_known_cong) (simp_all add: drop_table_def)
  have refers: "refers_ok (sc_tables ?sd) (unrefer (\<lambda>u. u = t) c)" if "refers_ok (sc_tables sc) c" for c
  proof (rule refers_ok_unrefer [OF that])
    fix x assume "x \<in> set (sc_tables sc)" "has_key x" "tb_name x \<noteq> t"
    then have "?u x \<in> set (sc_tables ?sd)" "has_key (?u x)" by (auto simp: tables has_key_def)
    then show "\<exists>y \<in> set (sc_tables ?sd). tb_name y = tb_name x \<and> has_key y" by (intro bexI [of _ "?u x"]) simp_all
  qed
  have "table_ok ?sd (?u x)" if "x \<in> set (sc_tables sc)" for x
    using that assms refers known
    by (auto simp: schema_ok_def table_ok_def column_ok_def column_names_def has_columns_def)
  moreover have "names_ok ?sd"
    using assms by (auto simp: schema_ok_def names_ok_def relation_names_def names) (auto simp: drop_table_def distinct_map_filter)
  ultimately show ?thesis
    using assms keep unfolding schema_ok_def
    by (auto simp: tables names) (auto simp: drop_table_def)
qed

text \<open>\<open>sd\<close> is \<open>sc\<close> without the columns that are gone, and perhaps without a type that no other column has.\<close>

lemma drop_columns_ok:
  assumes "schema_ok sc" "\<And>x c. x \<in> set (sc_tables sc) \<Longrightarrow> c \<in> set (tb_columns x) \<Longrightarrow> \<not> gone (tb_name x) c \<Longrightarrow>
      type_known sc (cl_type c) \<Longrightarrow> type_known (drop_columns gone sc\<lparr>sc_types := filter keep (sc_types sc)\<rparr>) (cl_type c)"
  shows "schema_ok (drop_columns gone sc\<lparr>sc_types := filter keep (sc_types sc)\<rparr>)"
proof -
  let ?sd = "drop_columns gone sc\<lparr>sc_types := filter keep (sc_types sc)\<rparr>"
  let ?p = "\<lambda>t. lost gone sc t [''id'']"
  let ?u = "\<lambda>x. x\<lparr>tb_columns := map (unrefer ?p) (filter (\<lambda>c. \<not> gone (tb_name x) c) (tb_columns x)),
            tb_uniques := filter (\<lambda>cs. \<not> lost gone sc (tb_name x) cs) (tb_uniques x)\<rparr>"
  have tables: "sc_tables ?sd = map ?u (sc_tables sc)" by (simp add: drop_columns_def)
  have names: "table_names ?sd = table_names sc" by (simp add: table_names_def tables o_def)
  have remain: "has_columns (?u x) cs"
    if "x \<in> set (sc_tables sc)" "has_columns x cs" "\<not> lost gone sc (tb_name x) cs" for x cs
    using that by (fastforce simp: has_columns_def column_names_def lost_def)
  have keep: "columns_exist ?sd u cs" if exist: "columns_exist sc u cs" and u: "\<not> lost gone sc u cs" for u cs
  proof -
    obtain x where "x \<in> set (sc_tables sc)" "tb_name x = u" "has_columns x cs" using exist by (auto simp: columns_exist_def)
    moreover from this have "?u x \<in> set (sc_tables ?sd)" unfolding tables set_map by (intro imageI)
    moreover have "tb_name (?u x) = tb_name x" by simp
    ultimately show ?thesis using remain [of x cs] u unfolding columns_exist_def by metis
  qed
  have refers: "refers_ok (sc_tables ?sd) (unrefer ?p c)" if "refers_ok (sc_tables sc) c" for c
  proof (rule refers_ok_unrefer [OF that])
    fix x assume x: "x \<in> set (sc_tables sc)" "has_key x" "\<not> ?p (tb_name x)"
    then have "has_key (?u x)" by (fastforce simp: has_key_def lost_def)
    then show "\<exists>y \<in> set (sc_tables ?sd). tb_name y = tb_name x \<and> has_key y"
      using x(1) unfolding tables by (intro bexI [of _ "?u x"]) simp_all
  qed
  have "table_ok ?sd (?u x)" if x: "x \<in> set (sc_tables sc)" for x
  proof -
    have ok: "table_ok sc x" using assms(1) x by (simp add: schema_ok_def)
    then have "column_ok ?sd (unrefer ?p c)" if "c \<in> set (tb_columns x)" "\<not> gone (tb_name x) c" for c
      using that refers assms(2) [OF x that] by (simp add: table_ok_def column_ok_def)
    moreover have "distinct (column_names (?u x))"
      using ok by (simp add: table_ok_def column_names_def distinct_map_filter)
    ultimately show ?thesis using ok remain [OF x] by (auto simp: table_ok_def)
  qed
  moreover have "names_ok ?sd"
    using assms(1) by (auto simp: schema_ok_def names_ok_def relation_names_def names) (auto simp: drop_columns_def distinct_map_filter)
  moreover have "sc_functions ?sd = sc_functions sc" "sc_grants ?sd = sc_grants sc" by (simp_all add: drop_columns_def)
  moreover have "set (sc_indexes ?sd) = {i \<in> set (sc_indexes sc). \<not> lost gone sc (ix_table i) (ix_columns i)}"
    "set (sc_triggers ?sd) = {g \<in> set (sc_triggers sc). \<not> lost gone sc (tg_table g) (tg_columns g)}"
    by (auto simp: drop_columns_def)
  ultimately show ?thesis using assms(1) keep unfolding schema_ok_def names by (auto simp: tables)
qed

section \<open>Every statement\<close>

lemma names_ok_cong: "sc_tables sd = sc_tables sc \<Longrightarrow> sc_types sd = sc_types sc \<Longrightarrow> sc_indexes sd = sc_indexes sc \<Longrightarrow>
    names_ok sd = names_ok sc"
  by (simp add: names_simps)

text \<open>Statements that leave tables, types and extensions alone.\<close>

lemma schema_ok_items:
  assumes "schema_ok sc" "sc_extensions sd = sc_extensions sc" "sc_types sd = sc_types sc" "sc_tables sd = sc_tables sc"
    "distinct (map ix_name (sc_indexes sd))" "\<And>i. i \<in> set (sc_indexes sd) \<Longrightarrow> ix_name i \<notin> set (table_names sc)"
    "\<And>i. i \<in> set (sc_indexes sd) \<Longrightarrow> i \<in> set (sc_indexes sc) \<or> columns_exist sc (ix_table i) (ix_columns i)"
    "\<And>g. g \<in> set (sc_triggers sd) \<Longrightarrow> (g \<in> set (sc_triggers sc) \<or> columns_exist sc (tg_table g) (tg_columns g)) \<and>
       tg_function g \<in> set (sc_functions sd)"
    "\<And>x. x \<in> set (sc_grants sd) \<Longrightarrow> x \<in> set (sc_grants sc) \<or> fst (snd x) \<in> set (table_names sc)"
  shows "schema_ok sd"
proof (rule schema_ok_extends [OF assms(1)])
  show "extends sc sd" using assms(2-4) by (intro extends_same) simp_all
  have "set (table_names sc) \<inter> set (map ix_name (sc_indexes sd)) = {}" using assms(6) by auto
  then show "names_ok sd" using assms(1-5) by (auto simp: schema_ok_def names_simps)
qed (use assms(4,7-9) columns_exist_cong [OF assms(4)] in \<open>auto simp: table_names_def\<close>)

lemma schema_parts:
  assumes "schema_ok sc"
  shows "distinct (map ix_name (sc_indexes sc))" "i \<in> set (sc_indexes sc) \<Longrightarrow> ix_name i \<notin> set (table_names sc)"
    "g \<in> set (sc_triggers sc) \<Longrightarrow> tg_function g \<in> set (sc_functions sc)"
  using assms by (auto simp: schema_ok_def names_simps)

lemma exec_ok: "schema_ok sc \<Longrightarrow> exec s sc = Inr sd \<Longrightarrow> schema_ok sd"
proof (induction s sc rule: exec.induct)
  case (1 e sc)
  then have sd: "sd = sc \<or> sd = sc\<lparr>sc_extensions := sc_extensions sc @ [e]\<rparr>" by auto
  have "schema_ok (sc\<lparr>sc_extensions := sc_extensions sc @ [e]\<rparr>)"
    by (rule schema_ok_extends [OF 1(1)]) (use 1(1) in \<open>auto simp: extends_def schema_ok_def names_simps\<close>)
  then show ?case using sd 1(1) by blast
next
  case (2 n vs sc)
  then have sd: "sd = add_type (n, vs) sc" "n \<notin> set (map fst (sc_types sc))" "n \<notin> set (table_names sc)" by (auto split: if_splits)
  show ?case unfolding sd(1)
  proof (rule schema_ok_extends [OF 2(1)])
    show "names_ok (add_type (n, vs) sc)" using 2(1) sd(2,3) by (simp add: schema_ok_def names_simps add_type_def)
  qed (use 2(1) in \<open>auto simp: extends_def add_type_def schema_ok_def\<close>)
next
  case (3 ifne x sc)
  then show ?case by (auto intro!: add_table_ok split: if_splits)
next
  case (4 ifne t c sc)
  then show ?case by (auto intro!: add_column_ok split: if_splits option.splits)
next
  case (5 ifne i sc)
  then show ?case
  proof (cases "ix_name i \<in> set (relation_names sc)")
    case False
    then have "sd = add_index i sc" "columns_exist sc (ix_table i) (ix_columns i)"
      using 5 by (auto split: if_splits option.splits intro: find_table_exists)
    then show ?thesis using 5(1) False schema_parts [OF 5(1)]
      by (intro schema_ok_items [OF 5(1)]) (auto simp: add_index_def relation_names_def schema_ok_def)
  qed (auto split: if_splits)
next
  case (6 f sc)
  then show ?case using schema_parts [OF 6(1)] by (intro schema_ok_items [OF 6(1)]) (auto split: if_splits)
next
  case (7 g sc)
  then have "sd = add_trigger g sc" "columns_exist sc (tg_table g) (tg_columns g)" "tg_function g \<in> set (sc_functions sc)"
    by (auto split: if_splits option.splits intro: find_table_exists)
  then show ?case using schema_parts [OF 7(1)] by (intro schema_ok_items [OF 7(1)]) (auto simp: add_trigger_def)
next
  case (8 g t sc)
  then show ?case using schema_parts [OF 8(1)] by (intro schema_ok_items [OF 8(1)]) auto
next
  case (9 f sc)
  then show ?case using schema_parts [OF 9(1)] by (intro schema_ok_items [OF 9(1)]) (auto split: if_splits)
next
  case (10 t cascade sc)
  then show ?case using drop_table_ok by (auto split: if_splits)
next
  case (11 n sc)
  have "type_known (drop_columns g sc\<lparr>sc_types := filter (\<lambda>x. fst x \<noteq> n) (sc_types sc)\<rparr>) t"
    if "type_known sc t" "\<not> type_uses n t" for g t
    using that by (rule type_known_dropped) (simp_all add: drop_columns_def)
  then show ?case using 11 drop_columns_ok [OF 11(1), of "\<lambda>_ c. type_uses n (cl_type c)" "\<lambda>x. fst x \<noteq> n"] by auto
next
  case (12 n sc)
  then show ?case using schema_parts [OF 12(1)]
    by (intro schema_ok_items [OF 12(1)]) (auto simp: distinct_map_filter)
next
  case (13 t c sc)
  let ?g = "\<lambda>u d. u = t \<and> cl_name d = c"
  have "drop_columns ?g sc\<lparr>sc_types := filter (\<lambda>_. True) (sc_types sc)\<rparr> = drop_columns ?g sc" by (simp add: drop_columns_def)
  moreover have "type_known (drop_columns ?g sc) ty = type_known sc ty" for ty
    by (rule type_known_cong) (simp_all add: drop_columns_def)
  ultimately have "schema_ok (drop_columns ?g sc)" using drop_columns_ok [OF 13(1), of ?g "\<lambda>_. True"] by simp
  then show ?case using 13(2) by (auto split: if_splits)
next
  case (14 r ps t sc)
  then show ?case using schema_parts [OF 14(1)] by (intro schema_ok_items [OF 14(1)]) (auto split: if_splits)
next
  case (15 r ps t sc)
  then show ?case using schema_parts [OF 15(1)] by (intro schema_ok_items [OF 15(1)]) (auto split: if_splits)
qed

lemma exec_all_ok: "schema_ok sc \<Longrightarrow> exec_all ss sc = Inr sd \<Longrightarrow> schema_ok sd"
  by (induction ss arbitrary: sc) (auto split: sum.splits dest: exec_ok)

section \<open>Many statements of one kind\<close>

lemma exec_all_append: "exec_all (ss @ ts) sc = (case exec_all ss sc of Inl e \<Rightarrow> Inl e | Inr sd \<Rightarrow> exec_all ts sd)"
  by (induction ss arbitrary: sc) (auto split: sum.splits)

lemma exec_types:
  "distinct (map fst (sc_types sc @ ts)) \<Longrightarrow> sc_tables sc = [] \<Longrightarrow> \<forall>t \<in> set ts. distinct (snd t) \<Longrightarrow>
    exec_all (map (\<lambda>(n, vs). Create_Type n vs) ts) sc = Inr (sc\<lparr>sc_types := sc_types sc @ ts\<rparr>)"
proof (induction ts arbitrary: sc)
  case (Cons t ts)
  obtain n vs where t: "t = (n, vs)" by (cases t)
  have "exec_all (map (\<lambda>(n, vs). Create_Type n vs) ts) (add_type (n, vs) sc) = Inr (sc\<lparr>sc_types := sc_types sc @ t # ts\<rparr>)"
    using Cons.prems by (subst Cons.IH) (simp_all add: add_type_def t)
  then show ?case using Cons.prems by (auto simp: t table_names_def)
qed simp

text \<open>Each table refers to itself or to tables that come before it.\<close>

fun refers_in_order :: "table list \<Rightarrow> table list \<Rightarrow> bool" where
  "refers_in_order before [] = True"
| "refers_in_order before (x # xs) = ((\<forall>c \<in> set (tb_columns x). refers_ok (x # before) c) \<and> refers_in_order (x # before) xs)"

definition table_plain :: "schema \<Rightarrow> table \<Rightarrow> bool" where
  "table_plain sc x \<longleftrightarrow>
     distinct (column_names x) \<and> (\<forall>c \<in> set (tb_columns x). type_known sc (cl_type c)) \<and> (\<forall>u \<in> set (tb_uniques x). has_columns x u)"

lemma refers_ok_set: "set ts = set us \<Longrightarrow> refers_ok ts c = refers_ok us c"
  by (auto simp: refers_ok_def split: option.split)

lemma refers_in_order_set: "set before = set before' \<Longrightarrow> refers_in_order before xs = refers_in_order before' xs"
proof (induction xs arbitrary: before before')
  case (Cons x xs)
  then have "set (x # before) = set (x # before')" by simp
  then show ?case using Cons.IH [of "x # before" "x # before'"] refers_ok_set [of "x # before" "x # before'"] by simp
qed simp

lemma exec_tables:
  "distinct (table_names sc @ map tb_name ts) \<Longrightarrow> sc_indexes sc = [] \<Longrightarrow>
    set (map tb_name ts) \<inter> set (map fst (sc_types sc)) = {} \<Longrightarrow> \<forall>x \<in> set ts. table_plain sc x \<Longrightarrow>
    refers_in_order (sc_tables sc) ts \<Longrightarrow>
    exec_all (map (Create_Table False) ts) sc =
      Inr (sc\<lparr>sc_tables := sc_tables sc @ ts, sc_grants := sc_grants sc @ concat (map (\<lambda>x. new_grants (tb_name x)) ts)\<rparr>)"
proof (induction ts arbitrary: sc)
  case (Cons x xs)
  have known: "type_known (add_table x sc) t = type_known sc t" for t by (rule type_known_cong) (simp_all add: add_table_def)
  have "refers_in_order (sc_tables (add_table x sc)) xs"
    using Cons.prems(5) refers_in_order_set [of "x # sc_tables sc" "sc_tables (add_table x sc)" xs] by (simp add: add_table_def)
  then have "exec_all (map (Create_Table False) xs) (add_table x sc) =
      Inr ((add_table x sc)\<lparr>sc_tables := sc_tables (add_table x sc) @ xs,
        sc_grants := sc_grants (add_table x sc) @ concat (map (\<lambda>x. new_grants (tb_name x)) xs)\<rparr>)"
    using Cons.prems known by (intro Cons.IH) (auto simp: add_table_def table_names_def table_plain_def)
  moreover have "exec (Create_Table False x) sc = Inr (add_table x sc)"
    using Cons.prems by (auto simp: relation_names_def table_names_def table_plain_def)
  ultimately show ?case by (simp add: add_table_def del: exec.simps)
qed simp

definition index_fits :: "table list \<Rightarrow> index \<Rightarrow> bool" where
  "index_fits ts i \<longleftrightarrow> (case find (\<lambda>x. tb_name x = ix_table i) ts of None \<Rightarrow> False | Some x \<Rightarrow> has_columns x (ix_columns i))"

lemma exec_indexes:
  "distinct (relation_names sc @ map ix_name is) \<Longrightarrow> \<forall>i \<in> set is. index_fits (sc_tables sc) i \<Longrightarrow>
    exec_all (map (Create_Index False) is) sc = Inr (sc\<lparr>sc_indexes := sc_indexes sc @ is\<rparr>)"
proof (induction "is" arbitrary: sc)
  case (Cons i js)
  have "exec_all (map (Create_Index False) js) (add_index i sc) =
      Inr ((add_index i sc)\<lparr>sc_indexes := sc_indexes (add_index i sc) @ js\<rparr>)"
    using Cons.prems by (intro Cons.IH) (auto simp: add_index_def relation_names_def table_names_def)
  moreover have "exec (Create_Index False i) sc = Inr (add_index i sc)"
    using Cons.prems by (auto simp: index_fits_def find_table_def split: option.splits)
  ultimately show ?case by (simp add: add_index_def del: exec.simps)
qed simp

end
