(* ===== verification/Schema_Init.thy ===== *)
theory Schema_Init
  imports Schema_Correct
begin

text \<open>
  The first migration run on an empty database, and the schema it leaves.
\<close>

section \<open>The first migration\<close>

lemmas init_table_defs = table_organization_def table_user_def table_login_history_def table_refresh_token_def
  table_workflow_def table_workflow_version_def table_session_def table_message_def table_document_def table_comment_def
  table_audit_log_def table_kg_node_def table_kg_edge_def table_process_pattern_def table_agent_definition_def
  table_pipeline_execution_def table_agent_execution_def table_agent_log_def table_agent_config_override_def
  table_workflow_graph_snapshot_def table_divergence_report_def table_divergence_point_def table_reconciliation_action_def
  table_rule_def table_rule_version_def table_skill_def table_rule_application_def table_skill_application_def

definition extended_schema :: schema where
  "extended_schema = empty_schema\<lparr>sc_extensions := [''vector'', ''pgcrypto'', ''citext'']\<rparr>"

definition typed_schema :: schema where
  "typed_schema = extended_schema\<lparr>sc_types := enum_types\<rparr>"

definition core_grants :: "grant list" where
  "core_grants = concat (map (\<lambda>x. new_grants (tb_name x)) init_tables)"

definition core_triggers :: "trigger list" where
  "core_triggers =
    [\<lparr>tg_name = ''trg_prevent_audit_log_update'', tg_table = ''audit_log'', tg_events = [''UPDATE''], tg_columns = [],
      tg_function = ''prevent_audit_log_mutation''\<rparr>,
     \<lparr>tg_name = ''trg_prevent_audit_log_delete'', tg_table = ''audit_log'', tg_events = [''DELETE''], tg_columns = [],
      tg_function = ''prevent_audit_log_mutation''\<rparr>,
     \<lparr>tg_name = ''trg_enforce_workflow_current_version'', tg_table = ''workflow'', tg_events = [''INSERT'', ''UPDATE''],
      tg_columns = [''current_version''], tg_function = ''enforce_workflow_current_version''\<rparr>]"

definition core_schema :: schema where
  "core_schema = typed_schema\<lparr>sc_tables := init_tables, sc_grants := core_grants, sc_indexes := init_indexes,
     sc_functions := [''prevent_audit_log_mutation'', ''enforce_workflow_current_version''], sc_triggers := core_triggers\<rparr>"

lemma run_extensions: "exec_all init_extensions empty_schema = Inr extended_schema"
  by (simp add: init_extensions_def extended_schema_def empty_schema_def)

lemma types_distinct: "distinct (map fst enum_types)" "list_all (\<lambda>t. distinct (snd t)) enum_types"
  by code_simp+

lemma run_types: "exec_all (map (\<lambda>(n, vs). Create_Type n vs) enum_types) extended_schema = Inr typed_schema"
  using exec_types [of extended_schema enum_types] types_distinct
  by (simp add: extended_schema_def empty_schema_def typed_schema_def list_all_iff)

lemma tables_distinct: "distinct (map tb_name init_tables)"
  by code_simp

lemma tables_plain: "list_all (table_plain typed_schema) init_tables"
  by code_simp

lemma tables_refer: "refers_in_order [] init_tables"
  by code_simp

lemma tables_apart: "list_all (\<lambda>x. tb_name x \<notin> set (map fst enum_types)) init_tables"
  by code_simp

lemma indexes_fit: "list_all (index_fits init_tables) init_indexes"
  by code_simp

lemma index_names_distinct: "distinct (map ix_name init_indexes)"
  by code_simp

lemma index_names_apart: "list_all (\<lambda>i. ix_name i \<notin> set (map tb_name init_tables)) init_indexes"
  by code_simp

definition tabled_schema :: schema where
  "tabled_schema = typed_schema\<lparr>sc_tables := init_tables, sc_grants := core_grants\<rparr>"

lemma run_tables: "exec_all (map (Create_Table False) init_tables) typed_schema = Inr tabled_schema"
proof -
  have "sc_tables typed_schema = []" "sc_indexes typed_schema = []" "sc_types typed_schema = enum_types" "sc_grants typed_schema = []"
    by (simp_all add: typed_schema_def extended_schema_def empty_schema_def)
  moreover have "set (map tb_name init_tables) \<inter> set (map fst enum_types) = {}" using tables_apart by (auto simp: list_all_iff)
  ultimately show ?thesis
    using exec_tables [of typed_schema init_tables] tables_distinct tables_plain tables_refer
    by (simp add: table_names_def list_all_iff tabled_schema_def core_grants_def)
qed

lemma run_indexes:
  "exec_all (map (Create_Index False) init_indexes) tabled_schema = Inr (tabled_schema\<lparr>sc_indexes := init_indexes\<rparr>)"
proof -
  have "sc_tables tabled_schema = init_tables" "sc_indexes tabled_schema = []"
    by (simp_all add: tabled_schema_def typed_schema_def extended_schema_def empty_schema_def)
  moreover have "set (map tb_name init_tables) \<inter> set (map ix_name init_indexes) = {}"
    using index_names_apart by (simp add: list_all_iff disjoint_iff) (metis image_iff)
  ultimately show ?thesis
    using exec_indexes [of tabled_schema init_indexes] tables_distinct index_names_distinct indexes_fit
    by (simp add: relation_names_def table_names_def list_all_iff)
qed

lemma core_names:
  "tb_name table_organization = ''organization''" "tb_name table_user = ''user''"
  "tb_name table_login_history = ''login_history''" "tb_name table_refresh_token = ''refresh_token''"
  "tb_name table_workflow = ''workflow''" "tb_name table_workflow_version = ''workflow_version''"
  "tb_name table_session = ''session''" "tb_name table_message = ''message''" "tb_name table_document = ''document''"
  "tb_name table_comment = ''comment''" "tb_name table_audit_log = ''audit_log''" "tb_name table_kg_node = ''kg_node''"
  "tb_name table_kg_edge = ''kg_edge''" "tb_name table_process_pattern = ''process_pattern''"
  "tb_name table_agent_definition = ''agent_definition''" "tb_name table_pipeline_execution = ''pipeline_execution''"
  "tb_name table_agent_execution = ''agent_execution''" "tb_name table_agent_log = ''agent_log''"
  "tb_name table_agent_config_override = ''agent_config_override''"
  "tb_name table_workflow_graph_snapshot = ''workflow_graph_snapshot''"
  "tb_name table_divergence_report = ''divergence_report''" "tb_name table_divergence_point = ''divergence_point''"
  "tb_name table_reconciliation_action = ''reconciliation_action''" "tb_name table_rule = ''rule''"
  "tb_name table_rule_version = ''rule_version''" "tb_name table_skill = ''skill''"
  "tb_name table_rule_application = ''rule_application''" "tb_name table_skill_application = ''skill_application''"
  by (simp_all add: init_table_defs)

lemma init_find: "find (\<lambda>x. tb_name x = ''organization'') init_tables = Some table_organization"
  "find (\<lambda>x. tb_name x = ''user'') init_tables = Some table_user"
  "find (\<lambda>x. tb_name x = ''login_history'') init_tables = Some table_login_history"
  "find (\<lambda>x. tb_name x = ''refresh_token'') init_tables = Some table_refresh_token"
  "find (\<lambda>x. tb_name x = ''workflow'') init_tables = Some table_workflow"
  "find (\<lambda>x. tb_name x = ''workflow_version'') init_tables = Some table_workflow_version"
  "find (\<lambda>x. tb_name x = ''session'') init_tables = Some table_session"
  "find (\<lambda>x. tb_name x = ''message'') init_tables = Some table_message"
  "find (\<lambda>x. tb_name x = ''document'') init_tables = Some table_document"
  "find (\<lambda>x. tb_name x = ''comment'') init_tables = Some table_comment"
  "find (\<lambda>x. tb_name x = ''audit_log'') init_tables = Some table_audit_log"
  "find (\<lambda>x. tb_name x = ''kg_node'') init_tables = Some table_kg_node"
  "find (\<lambda>x. tb_name x = ''kg_edge'') init_tables = Some table_kg_edge"
  "find (\<lambda>x. tb_name x = ''process_pattern'') init_tables = Some table_process_pattern"
  "find (\<lambda>x. tb_name x = ''agent_definition'') init_tables = Some table_agent_definition"
  "find (\<lambda>x. tb_name x = ''pipeline_execution'') init_tables = Some table_pipeline_execution"
  "find (\<lambda>x. tb_name x = ''agent_execution'') init_tables = Some table_agent_execution"
  "find (\<lambda>x. tb_name x = ''agent_log'') init_tables = Some table_agent_log"
  "find (\<lambda>x. tb_name x = ''agent_config_override'') init_tables = Some table_agent_config_override"
  "find (\<lambda>x. tb_name x = ''workflow_graph_snapshot'') init_tables = Some table_workflow_graph_snapshot"
  "find (\<lambda>x. tb_name x = ''divergence_report'') init_tables = Some table_divergence_report"
  "find (\<lambda>x. tb_name x = ''divergence_point'') init_tables = Some table_divergence_point"
  "find (\<lambda>x. tb_name x = ''reconciliation_action'') init_tables = Some table_reconciliation_action"
  "find (\<lambda>x. tb_name x = ''rule'') init_tables = Some table_rule"
  "find (\<lambda>x. tb_name x = ''rule_version'') init_tables = Some table_rule_version"
  "find (\<lambda>x. tb_name x = ''skill'') init_tables = Some table_skill"
  "find (\<lambda>x. tb_name x = ''rule_application'') init_tables = Some table_rule_application"
  "find (\<lambda>x. tb_name x = ''skill_application'') init_tables = Some table_skill_application"
  by (simp_all add: init_tables_def core_names)

lemma run_triggers: "exec_all init_triggers (tabled_schema\<lparr>sc_indexes := init_indexes\<rparr>) = Inr core_schema"
  by (simp add: init_triggers_def core_schema_def tabled_schema_def typed_schema_def extended_schema_def empty_schema_def
      find_table_def init_find add_trigger_def core_triggers_def has_columns_def column_names_def table_workflow_def col_def)

lemma init_run: "exec_all (mg_up InitDatabaseSchema) empty_schema = Inr core_schema"
  by (simp add: InitDatabaseSchema_def exec_all_append run_extensions run_types run_tables run_indexes run_triggers)

lemma core_schema_ok: "schema_ok core_schema"
  using exec_all_ok [OF empty_schema_ok init_run] .

end
