(* ===== verification/Entity_Metadata.thy ===== *)
theory Entity_Metadata
  imports Entities Schema
begin

text \<open>
  The columns that the entity classes under \<open>src/modules/*/entities\<close> declare to TypeORM: the name of the column under the
  snake-case naming strategy, its type, whether it may be null, and for an enumeration the values the program knows. The
  queries of a repository name every column of its entity.
\<close>

datatype ConfigOverrideScope = ORG | SESSION

primrec config_override_scope_str :: "ConfigOverrideScope \<Rightarrow> string" where
  "config_override_scope_str ConfigOverrideScope.ORG = ''ORG''"
| "config_override_scope_str ConfigOverrideScope.SESSION = ''SESSION''"

datatype ReconciliationActionType = ACCEPT_A | ACCEPT_B | AI_SUGGEST_APPLY | MANUAL_EDIT | SKIP

primrec reconciliation_action_type_str :: "ReconciliationActionType \<Rightarrow> string" where
  "reconciliation_action_type_str ReconciliationActionType.ACCEPT_A = ''ACCEPT_A''"
| "reconciliation_action_type_str ReconciliationActionType.ACCEPT_B = ''ACCEPT_B''"
| "reconciliation_action_type_str ReconciliationActionType.AI_SUGGEST_APPLY = ''AI_SUGGEST_APPLY''"
| "reconciliation_action_type_str ReconciliationActionType.MANUAL_EDIT = ''MANUAL_EDIT''"
| "reconciliation_action_type_str ReconciliationActionType.SKIP = ''SKIP''"

record entity_column =
  ec_name :: string
  ec_type :: sql_type
  ec_nullable :: bool
  ec_values :: "string list option"

record entity =
  en_table :: string
  en_columns :: "entity_column list"

definition required :: "string \<Rightarrow> sql_type \<Rightarrow> entity_column" where
  "required n t = \<lparr>ec_name = n, ec_type = t, ec_nullable = False, ec_values = None\<rparr>"

definition nullable :: "string \<Rightarrow> sql_type \<Rightarrow> entity_column" where
  "nullable n t = \<lparr>ec_name = n, ec_type = t, ec_nullable = True, ec_values = None\<rparr>"

definition valued :: "string list \<Rightarrow> entity_column \<Rightarrow> entity_column" where
  "valued vs c = c\<lparr>ec_values := Some vs\<rparr>"


definition actor_type_values :: "string list" where
  "actor_type_values = map actor_type_str
    [ActorType.USER, ActorType.AI_AGENT, ActorType.SYSTEM]"

definition agent_execution_status_values :: "string list" where
  "agent_execution_status_values = map agent_execution_status_str
    [AgentExecutionStatus.PENDING, AgentExecutionStatus.RUNNING, AgentExecutionStatus.COMPLETED,
     AgentExecutionStatus.FAILED, AgentExecutionStatus.SKIPPED]"

definition agent_type_values :: "string list" where
  "agent_type_values = map agent_type_str
    [AgentType.ORCHESTRATOR, AgentType.INTAKE, AgentType.EXTRACTION, AgentType.PATTERN, AgentType.GAP_DETECTION,
     AgentType.QA, AgentType.VALIDATION, AgentType.EXPORT, AgentType.DIVERGENCE, AgentType.RULES_SKILLS_LOADER]"

definition comment_type_values :: "string list" where
  "comment_type_values = map comment_type_str
    [CommentType.QUESTION, CommentType.CORRECTION, CommentType.APPROVAL, CommentType.SUGGESTION, CommentType.ESCALATION]"

definition comparison_type_values :: "string list" where
  "comparison_type_values = map comparison_type_str
    [ComparisonType.INTENT_VS_GENERATED, ComparisonType.GENERATED_VS_EXECUTED, ComparisonType.INTENT_VS_EXECUTED]"

definition config_override_scope_values :: "string list" where
  "config_override_scope_values = map config_override_scope_str
    [ConfigOverrideScope.ORG, ConfigOverrideScope.SESSION]"

definition divergence_point_type_values :: "string list" where
  "divergence_point_type_values = map divergence_point_type_str
    [DivergencePointType.MISSING_NODE, DivergencePointType.EXTRA_NODE, DivergencePointType.MODIFIED_NODE,
     DivergencePointType.ACTOR_MISMATCH, DivergencePointType.CONDITION_MISMATCH, DivergencePointType.MISSING_EDGE,
     DivergencePointType.EXTRA_EDGE, DivergencePointType.REORDERED_SEQUENCE, DivergencePointType.LOOP_DIFFERENCE,
     DivergencePointType.MISSING_PATH, DivergencePointType.PARALLELISM_CHANGE]"

definition divergence_report_status_values :: "string list" where
  "divergence_report_status_values = map divergence_report_status_str
    [DivergenceReportStatus.PENDING, DivergenceReportStatus.RUNNING, DivergenceReportStatus.COMPLETED,
     DivergenceReportStatus.FAILED]"

definition divergence_severity_values :: "string list" where
  "divergence_severity_values = map divergence_severity_str
    [DivergenceSeverity.NONE, DivergenceSeverity.LOW, DivergenceSeverity.MEDIUM, DivergenceSeverity.HIGH,
     DivergenceSeverity.CRITICAL]"

definition graph_source_values :: "string list" where
  "graph_source_values = map graph_source_str
    [GraphSource.AI_EXTRACTION, GraphSource.AI_GENERATION, GraphSource.ELSA_IMPORT, GraphSource.MANUAL_MERGE]"

definition graph_type_values :: "string list" where
  "graph_type_values = map graph_type_str
    [GraphType.INTENT, GraphType.GENERATED, GraphType.EXECUTED, GraphType.RECONCILED]"

definition log_level_values :: "string list" where
  "log_level_values = map log_level_str
    [LogLevel.DEBUG, LogLevel.INFO, LogLevel.WARNING, LogLevel.ERROR]"

definition message_role_values :: "string list" where
  "message_role_values = map message_role_str
    [MessageRole.USER, MessageRole.AI, MessageRole.SYSTEM]"

definition message_type_values :: "string list" where
  "message_type_values = map message_type_str
    [MessageType.USER_INPUT, MessageType.AI_QUESTION, MessageType.AI_RESPONSE, MessageType.AI_SUMMARY,
     MessageType.AI_UPDATE, MessageType.AI_CONFIDENCE_REPORT, MessageType.SYSTEM_NOTE, MessageType.SYSTEM_STATUS]"

definition pipeline_status_values :: "string list" where
  "pipeline_status_values = map pipeline_status_str
    [PipelineStatus.PENDING, PipelineStatus.RUNNING, PipelineStatus.PAUSED, PipelineStatus.COMPLETED,
     PipelineStatus.FAILED, PipelineStatus.CANCELLED]"

definition pipeline_task_type_values :: "string list" where
  "pipeline_task_type_values = map pipeline_task_type_str
    [PipelineTaskType.FULL_PIPELINE, PipelineTaskType.SCOPED_REPROCESS, PipelineTaskType.EXPORT_ONLY,
     PipelineTaskType.QA_ROUND]"

definition point_severity_values :: "string list" where
  "point_severity_values = map point_severity_str
    [PointSeverity.INFO, PointSeverity.LOW, PointSeverity.MEDIUM, PointSeverity.HIGH, PointSeverity.CRITICAL]"

definition reconciliation_action_type_values :: "string list" where
  "reconciliation_action_type_values = map reconciliation_action_type_str
    [ReconciliationActionType.ACCEPT_A, ReconciliationActionType.ACCEPT_B, ReconciliationActionType.AI_SUGGEST_APPLY,
     ReconciliationActionType.MANUAL_EDIT, ReconciliationActionType.SKIP]"

definition rule_scope_values :: "string list" where
  "rule_scope_values = map rule_scope_str
    [RuleScope.ORG, RuleScope.WORKFLOW, RuleScope.AGENT]"

definition rule_type_values :: "string list" where
  "rule_type_values = map rule_type_str
    [RuleType.EXTRACTION, RuleType.ACTOR_MAPPING, RuleType.STRUCTURAL_CONSTRAINT, RuleType.VALIDATION,
     RuleType.NAMING_CONVENTION, RuleType.PROMPT_INJECTION]"

definition session_mode_values :: "string list" where
  "session_mode_values = map session_mode_str
    [SessionMode.AUTO, SessionMode.INTERACTIVE]"

definition session_status_values :: "string list" where
  "session_status_values = map session_status_str
    [SessionStatus.CREATED, SessionStatus.AWAITING_INPUT, SessionStatus.PROCESSING, SessionStatus.DRAFT_READY,
     SessionStatus.NEEDS_RECONCILIATION, SessionStatus.IN_ELICITATION, SessionStatus.IN_REVIEW, SessionStatus.VALIDATED,
     SessionStatus.EXPORTED, SessionStatus.ARCHIVED, SessionStatus.ERROR]"

definition skill_type_values :: "string list" where
  "skill_type_values = map skill_type_str
    [SkillType.VOCABULARY, SkillType.ARCHETYPE, SkillType.FEW_SHOT_EXAMPLE, SkillType.DOMAIN_KNOWLEDGE,
     SkillType.ACTOR_CATALOG, SkillType.PROMPT_TEMPLATE]"

definition user_role_values :: "string list" where
  "user_role_values = map user_role_str
    [UserRole.ADMIN, UserRole.PROCESS_OWNER, UserRole.BUSINESS_ANALYST, UserRole.REVIEWER, UserRole.VIEWER]"

definition workflow_status_values :: "string list" where
  "workflow_status_values = map workflow_status_str
    [WorkflowStatus.DRAFT, WorkflowStatus.IN_ELICITATION, WorkflowStatus.PENDING_REVIEW, WorkflowStatus.VALIDATED,
     WorkflowStatus.EXPORTED, WorkflowStatus.ARCHIVED]"

definition AgentConfigOverride_entity :: entity where
  "AgentConfigOverride_entity = \<lparr>en_table = ''agent_config_override'', en_columns =
    [required ''id'' Ty_uuid,
     required ''agent_definition_id'' Ty_uuid,
     valued config_override_scope_values (required ''scope_type'' (Ty_named ''config_override_scope_enum'')),
     required ''scope_id'' Ty_uuid,
     required ''config_patch'' Ty_jsonb,
     nullable ''description'' Ty_text,
     required ''created_by'' Ty_uuid,
     required ''created_at'' Ty_timestamptz]\<rparr>"

definition AgentDefinition_entity :: entity where
  "AgentDefinition_entity = \<lparr>en_table = ''agent_definition'', en_columns =
    [required ''id'' Ty_uuid,
     required ''name'' (Ty_varchar 128),
     valued agent_type_values (required ''agent_type'' (Ty_named ''agent_type_enum'')),
     required ''version'' (Ty_varchar 32),
     nullable ''description'' Ty_text,
     required ''capabilities'' Ty_jsonb,
     required ''default_config'' Ty_jsonb,
     required ''is_active'' Ty_boolean,
     required ''created_at'' Ty_timestamptz,
     required ''updated_at'' Ty_timestamptz]\<rparr>"

definition AgentExecution_entity :: entity where
  "AgentExecution_entity = \<lparr>en_table = ''agent_execution'', en_columns =
    [required ''id'' Ty_uuid,
     required ''pipeline_execution_id'' Ty_uuid,
     required ''agent_definition_id'' Ty_uuid,
     valued agent_execution_status_values (required ''status'' (Ty_named ''agent_execution_status_enum'')),
     required ''order_index'' Ty_smallint,
     nullable ''input_snapshot'' Ty_jsonb,
     nullable ''output_snapshot'' Ty_jsonb,
     nullable ''confidence_input'' Ty_float,
     nullable ''confidence_output'' Ty_float,
     required ''llm_calls_count'' Ty_smallint,
     required ''tokens_consumed'' Ty_integer,
     nullable ''error_message'' Ty_text,
     nullable ''duration_ms'' Ty_integer,
     nullable ''started_at'' Ty_timestamptz,
     nullable ''completed_at'' Ty_timestamptz,
     required ''created_at'' Ty_timestamptz]\<rparr>"

definition AgentLog_entity :: entity where
  "AgentLog_entity = \<lparr>en_table = ''agent_log'', en_columns =
    [required ''id'' Ty_uuid,
     required ''agent_execution_id'' Ty_uuid,
     valued log_level_values (required ''log_level'' (Ty_named ''log_level_enum'')),
     required ''message'' Ty_text,
     required ''metadata'' Ty_jsonb,
     required ''created_at'' Ty_timestamptz]\<rparr>"

definition DeadLetter_entity :: entity where
  "DeadLetter_entity = \<lparr>en_table = ''dead_letter'', en_columns =
    [required ''id'' Ty_uuid,
     required ''subject'' (Ty_varchar 255),
     required ''payload'' Ty_jsonb,
     required ''reason'' Ty_text,
     required ''delivery_count'' Ty_smallint,
     nullable ''last_error'' Ty_text,
     required ''created_at'' Ty_timestamptz]\<rparr>"

definition PipelineExecution_entity :: entity where
  "PipelineExecution_entity = \<lparr>en_table = ''pipeline_execution'', en_columns =
    [required ''id'' Ty_uuid,
     required ''session_id'' Ty_uuid,
     valued pipeline_task_type_values (required ''task_type'' (Ty_named ''pipeline_task_type_enum'')),
     required ''mode'' (Ty_varchar 16),
     valued pipeline_status_values (required ''status'' (Ty_named ''pipeline_status_enum'')),
     required ''input_payload'' Ty_jsonb,
     required ''retry_count'' Ty_smallint,
     valued agent_type_values (nullable ''last_checkpoint_agent'' (Ty_named ''agent_type_enum'')),
     nullable ''triggered_by'' Ty_uuid,
     nullable ''nats_message_id'' (Ty_varchar 256),
     nullable ''started_at'' Ty_timestamptz,
     nullable ''completed_at'' Ty_timestamptz,
     nullable ''total_duration_ms'' Ty_integer,
     required ''total_llm_calls'' Ty_integer,
     required ''total_tokens_consumed'' Ty_integer,
     nullable ''final_confidence'' Ty_float,
     nullable ''error_summary'' Ty_text,
     required ''created_at'' Ty_timestamptz,
     nullable ''archived_at'' Ty_timestamptz]\<rparr>"

definition AuditLog_entity :: entity where
  "AuditLog_entity = \<lparr>en_table = ''audit_log'', en_columns =
    [required ''id'' Ty_uuid,
     nullable ''workflow_id'' Ty_uuid,
     nullable ''actor_id'' Ty_uuid,
     valued actor_type_values (required ''actor_type'' (Ty_named ''actor_type_enum'')),
     required ''event_type'' (Ty_varchar 128),
     nullable ''element_id'' Ty_text,
     nullable ''before_state'' Ty_jsonb,
     nullable ''after_state'' Ty_jsonb,
     required ''created_at'' Ty_timestamptz]\<rparr>"

definition LoginHistory_entity :: entity where
  "LoginHistory_entity = \<lparr>en_table = ''login_history'', en_columns =
    [required ''id'' Ty_uuid,
     nullable ''user_id'' Ty_uuid,
     nullable ''ip_address'' Ty_inet,
     nullable ''user_agent'' Ty_text,
     required ''success'' Ty_boolean,
     required ''created_at'' Ty_timestamptz]\<rparr>"

definition Organization_entity :: entity where
  "Organization_entity = \<lparr>en_table = ''organization'', en_columns =
    [required ''id'' Ty_uuid,
     required ''name'' Ty_text,
     required ''plan'' Ty_text,
     required ''created_at'' Ty_timestamptz,
     required ''updated_at'' Ty_timestamptz]\<rparr>"

definition RefreshToken_entity :: entity where
  "RefreshToken_entity = \<lparr>en_table = ''refresh_token'', en_columns =
    [required ''id'' Ty_uuid,
     required ''user_id'' Ty_uuid,
     required ''token_hash'' Ty_text,
     required ''expires_at'' Ty_timestamptz,
     required ''revoked'' Ty_boolean,
     required ''created_at'' Ty_timestamptz]\<rparr>"

definition User_entity :: entity where
  "User_entity = \<lparr>en_table = ''user'', en_columns =
    [required ''id'' Ty_uuid,
     required ''email'' Ty_citext,
     required ''password_hash'' Ty_text,
     valued user_role_values (required ''role'' (Ty_named ''user_role_enum'')),
     required ''org_id'' Ty_uuid,
     required ''is_verified'' Ty_boolean,
     required ''is_active'' Ty_boolean,
     nullable ''invite_token_hash'' Ty_text,
     nullable ''invite_expires_at'' Ty_timestamptz,
     nullable ''locked_until'' Ty_timestamptz,
     required ''created_at'' Ty_timestamptz,
     required ''updated_at'' Ty_timestamptz]\<rparr>"

definition Comment_entity :: entity where
  "Comment_entity = \<lparr>en_table = ''comment'', en_columns =
    [required ''id'' Ty_uuid,
     required ''workflow_id'' Ty_uuid,
     nullable ''element_id'' Ty_text,
     required ''author_id'' Ty_uuid,
     valued comment_type_values (required ''type'' (Ty_named ''comment_type_enum'')),
     required ''content'' Ty_text,
     required ''resolved'' Ty_boolean,
     nullable ''resolved_at'' Ty_timestamptz,
     nullable ''resolved_by'' Ty_uuid,
     nullable ''resolution_note'' Ty_text,
     nullable ''parent_id'' Ty_uuid,
     nullable ''assigned_to'' Ty_uuid,
     required ''created_at'' Ty_timestamptz]\<rparr>"

definition DivergencePoint_entity :: entity where
  "DivergencePoint_entity = \<lparr>en_table = ''divergence_point'', en_columns =
    [required ''id'' Ty_uuid,
     required ''report_id'' Ty_uuid,
     valued divergence_point_type_values (required ''point_type'' (Ty_named ''divergence_point_type_enum'')),
     valued point_severity_values (required ''severity'' (Ty_named ''point_severity_enum'')),
     nullable ''element_id_in_a'' (Ty_varchar 128),
     nullable ''element_id_in_b'' (Ty_varchar 128),
     nullable ''element_label_a'' (Ty_varchar 256),
     nullable ''element_label_b'' (Ty_varchar 256),
     required ''description'' Ty_text,
     nullable ''ai_suggestion'' Ty_text,
     required ''auto_fixable'' Ty_boolean,
     required ''resolved'' Ty_boolean,
     nullable ''resolved_at'' Ty_timestamptz,
     nullable ''resolved_by'' Ty_uuid,
     required ''created_at'' Ty_timestamptz]\<rparr>"

definition DivergenceReport_entity :: entity where
  "DivergenceReport_entity = \<lparr>en_table = ''divergence_report'', en_columns =
    [required ''id'' Ty_uuid,
     required ''workflow_id'' Ty_uuid,
     required ''graph_a_id'' Ty_uuid,
     required ''graph_b_id'' Ty_uuid,
     valued comparison_type_values (required ''comparison_type'' (Ty_named ''comparison_type_enum'')),
     valued divergence_report_status_values (required ''status'' (Ty_named ''divergence_report_status_enum'')),
     nullable ''overall_similarity'' Ty_float,
     valued divergence_severity_values (nullable ''severity'' (Ty_named ''divergence_severity_enum'')),
     nullable ''algorithm_used'' (Ty_varchar 64),
     required ''total_points'' Ty_smallint,
     required ''critical_count'' Ty_smallint,
     required ''high_count'' Ty_smallint,
     required ''medium_count'' Ty_smallint,
     required ''low_count'' Ty_smallint,
     required ''auto_triggered'' Ty_boolean,
     nullable ''triggered_by'' Ty_uuid,
     nullable ''pipeline_execution_id'' Ty_uuid,
     nullable ''completed_at'' Ty_timestamptz,
     required ''created_at'' Ty_timestamptz]\<rparr>"

definition ReconciliationAction_entity :: entity where
  "ReconciliationAction_entity = \<lparr>en_table = ''reconciliation_action'', en_columns =
    [required ''id'' Ty_uuid,
     required ''divergence_point_id'' Ty_uuid,
     valued reconciliation_action_type_values (required ''action_type'' (Ty_named ''reconciliation_action_type_enum'')),
     nullable ''applied_by_user'' Ty_uuid,
     nullable ''applied_by_agent'' (Ty_varchar 64),
     nullable ''result_graph_snapshot_id'' Ty_uuid,
     nullable ''notes'' Ty_text,
     required ''created_at'' Ty_timestamptz]\<rparr>"

definition WorkflowGraphSnapshot_entity :: entity where
  "WorkflowGraphSnapshot_entity = \<lparr>en_table = ''workflow_graph_snapshot'', en_columns =
    [required ''id'' Ty_uuid,
     required ''workflow_id'' Ty_uuid,
     nullable ''workflow_version_id'' Ty_uuid,
     nullable ''session_id'' Ty_uuid,
     valued graph_type_values (required ''graph_type'' (Ty_named ''graph_type_enum'')),
     valued graph_source_values (required ''source'' (Ty_named ''graph_source_enum'')),
     required ''nodes'' Ty_jsonb,
     required ''edges'' Ty_jsonb,
     required ''node_count'' Ty_smallint,
     required ''edge_count'' Ty_smallint,
     nullable ''graph_embedding'' (Ty_vector 768),
     nullable ''created_by'' Ty_uuid,
     required ''created_at'' Ty_timestamptz]\<rparr>"

definition Document_entity :: entity where
  "Document_entity = \<lparr>en_table = ''document'', en_columns =
    [required ''id'' Ty_uuid,
     nullable ''workflow_id'' Ty_uuid,
     nullable ''session_id'' Ty_uuid,
     required ''filename'' Ty_text,
     required ''file_type'' Ty_text,
     required ''storage_url'' Ty_text,
     required ''file_size_bytes'' Ty_integer,
     nullable ''extracted_text'' Ty_text,
     nullable ''preprocessing_confidence'' Ty_float,
     required ''doc_version'' Ty_integer,
     nullable ''deleted_at'' Ty_timestamptz,
     required ''created_at'' Ty_timestamptz,
     nullable ''archived_at'' Ty_timestamptz]\<rparr>"

definition Message_entity :: entity where
  "Message_entity = \<lparr>en_table = ''message'', en_columns =
    [required ''id'' Ty_uuid,
     required ''session_id'' Ty_uuid,
     valued message_role_values (required ''role'' (Ty_named ''message_role_enum'')),
     valued message_type_values (required ''type'' (Ty_named ''message_type_enum'')),
     required ''content'' Ty_text,
     required ''metadata'' Ty_jsonb,
     required ''created_at'' Ty_timestamptz,
     nullable ''archived_at'' Ty_timestamptz]\<rparr>"

definition Project_entity :: entity where
  "Project_entity = \<lparr>en_table = ''project'', en_columns =
    [required ''id'' Ty_uuid,
     required ''name'' Ty_text,
     required ''org_id'' Ty_uuid,
     required ''owner_id'' Ty_uuid,
     required ''created_at'' Ty_timestamptz,
     required ''updated_at'' Ty_timestamptz]\<rparr>"

definition RuleApplication_entity :: entity where
  "RuleApplication_entity = \<lparr>en_table = ''rule_application'', en_columns =
    [required ''id'' Ty_uuid,
     required ''rule_id'' Ty_uuid,
     required ''rule_version'' Ty_smallint,
     required ''agent_execution_id'' Ty_uuid,
     required ''triggered'' Ty_boolean,
     nullable ''impact_description'' Ty_text,
     required ''created_at'' Ty_timestamptz]\<rparr>"

definition RuleVersion_entity :: entity where
  "RuleVersion_entity = \<lparr>en_table = ''rule_version'', en_columns =
    [required ''id'' Ty_uuid,
     required ''rule_id'' Ty_uuid,
     required ''version'' Ty_smallint,
     required ''instruction'' Ty_text,
     nullable ''condition'' Ty_jsonb,
     required ''priority'' Ty_smallint,
     required ''is_active'' Ty_boolean,
     required ''changed_by'' Ty_uuid,
     required ''created_at'' Ty_timestamptz]\<rparr>"

definition Rule_entity :: entity where
  "Rule_entity = \<lparr>en_table = ''rule'', en_columns =
    [required ''id'' Ty_uuid,
     required ''org_id'' Ty_uuid,
     nullable ''workflow_id'' Ty_uuid,
     required ''name'' (Ty_varchar 256),
     nullable ''description'' Ty_text,
     valued rule_type_values (required ''rule_type'' (Ty_named ''rule_type_enum'')),
     valued rule_scope_values (required ''scope'' (Ty_named ''rule_scope_enum'')),
     valued agent_type_values (nullable ''target_agent'' (Ty_named ''agent_type_enum'')),
     nullable ''condition'' Ty_jsonb,
     required ''instruction'' Ty_text,
     required ''priority'' Ty_smallint,
     required ''version'' Ty_smallint,
     required ''is_active'' Ty_boolean,
     required ''created_by'' Ty_uuid,
     required ''created_at'' Ty_timestamptz,
     required ''updated_at'' Ty_timestamptz]\<rparr>"

definition Session_entity :: entity where
  "Session_entity = \<lparr>en_table = ''session'', en_columns =
    [required ''id'' Ty_uuid,
     required ''workflow_id'' Ty_uuid,
     required ''user_id'' Ty_uuid,
     valued session_mode_values (required ''mode'' (Ty_named ''session_mode_enum'')),
     valued session_status_values (required ''status'' (Ty_named ''session_status_enum'')),
     required ''confidence_score'' Ty_float,
     required ''created_at'' Ty_timestamptz,
     nullable ''finalized_at'' Ty_timestamptz,
     nullable ''archived_at'' Ty_timestamptz]\<rparr>"

definition SkillApplication_entity :: entity where
  "SkillApplication_entity = \<lparr>en_table = ''skill_application'', en_columns =
    [required ''id'' Ty_uuid,
     required ''skill_id'' Ty_uuid,
     required ''agent_execution_id'' Ty_uuid,
     nullable ''retrieval_rank'' Ty_smallint,
     nullable ''similarity_score'' Ty_float,
     required ''injected_tokens'' Ty_smallint,
     required ''was_mandatory'' Ty_boolean,
     required ''created_at'' Ty_timestamptz]\<rparr>"

definition Skill_entity :: entity where
  "Skill_entity = \<lparr>en_table = ''skill'', en_columns =
    [required ''id'' Ty_uuid,
     required ''org_id'' Ty_uuid,
     required ''name'' (Ty_varchar 256),
     nullable ''description'' Ty_text,
     valued skill_type_values (required ''skill_type'' (Ty_named ''skill_type_enum'')),
     required ''content'' Ty_jsonb,
     nullable ''embedding'' (Ty_vector 768),
     nullable ''applies_to_domains'' (Ty_array Ty_text),
     valued agent_type_values (nullable ''applies_to_agents'' (Ty_array (Ty_named ''agent_type_enum''))),
     required ''is_active'' Ty_boolean,
     required ''is_mandatory'' Ty_boolean,
     required ''usage_count'' Ty_integer,
     required ''version'' Ty_smallint,
     required ''created_by'' Ty_uuid,
     required ''created_at'' Ty_timestamptz,
     required ''updated_at'' Ty_timestamptz]\<rparr>"

definition KGEdge_entity :: entity where
  "KGEdge_entity = \<lparr>en_table = ''kg_edge'', en_columns =
    [required ''id'' Ty_uuid,
     required ''session_id'' Ty_uuid,
     required ''from_node_id'' Ty_uuid,
     required ''to_node_id'' Ty_uuid,
     required ''relation_type'' (Ty_varchar 64),
     nullable ''condition'' (Ty_varchar 512),
     required ''properties'' Ty_jsonb,
     nullable ''confidence'' Ty_float,
     required ''created_at'' Ty_timestamptz]\<rparr>"

definition KGNode_entity :: entity where
  "KGNode_entity = \<lparr>en_table = ''kg_node'', en_columns =
    [required ''id'' Ty_uuid,
     required ''session_id'' Ty_uuid,
     required ''type'' (Ty_varchar 64),
     required ''label'' (Ty_varchar 256),
     required ''properties'' Ty_jsonb,
     nullable ''confidence'' Ty_float,
     nullable ''embedding'' (Ty_vector 768),
     required ''inferred'' Ty_boolean,
     required ''created_at'' Ty_timestamptz]\<rparr>"

definition ProcessPattern_entity :: entity where
  "ProcessPattern_entity = \<lparr>en_table = ''process_pattern'', en_columns =
    [required ''id'' Ty_uuid,
     required ''name'' Ty_text,
     required ''archetype_type'' Ty_text,
     nullable ''description'' Ty_text,
     required ''template_json'' Ty_jsonb,
     required ''required_slots'' (Ty_array Ty_text),
     nullable ''embedding'' (Ty_vector 768),
     required ''created_at'' Ty_timestamptz]\<rparr>"

definition WorkflowVersion_entity :: entity where
  "WorkflowVersion_entity = \<lparr>en_table = ''workflow_version'', en_columns =
    [required ''id'' Ty_uuid,
     required ''workflow_id'' Ty_uuid,
     required ''version_number'' Ty_integer,
     required ''elements_json'' Ty_jsonb,
     nullable ''elsa_json'' Ty_jsonb,
     nullable ''confidence_score'' Ty_float,
     nullable ''created_by'' Ty_uuid,
     required ''created_at'' Ty_timestamptz]\<rparr>"

definition Workflow_entity :: entity where
  "Workflow_entity = \<lparr>en_table = ''workflow'', en_columns =
    [required ''id'' Ty_uuid,
     required ''title'' Ty_text,
     nullable ''description'' Ty_text,
     valued workflow_status_values (required ''status'' (Ty_named ''workflow_status_enum'')),
     required ''current_version'' Ty_integer,
     required ''org_id'' Ty_uuid,
     required ''owner_id'' Ty_uuid,
     nullable ''project_id'' Ty_uuid,
     nullable ''domain'' Ty_text,
     required ''tags'' (Ty_array Ty_text),
     nullable ''share_token'' Ty_text,
     nullable ''share_expires_at'' Ty_timestamptz,
     nullable ''share_max_views'' Ty_integer,
     required ''share_view_count'' Ty_integer,
     required ''created_at'' Ty_timestamptz,
     required ''updated_at'' Ty_timestamptz]\<rparr>"

definition entities :: "entity list" where
  "entities =
    [AgentConfigOverride_entity, AgentDefinition_entity, AgentExecution_entity, AgentLog_entity, DeadLetter_entity,
     PipelineExecution_entity, AuditLog_entity, LoginHistory_entity, Organization_entity, RefreshToken_entity, User_entity,
     Comment_entity, DivergencePoint_entity, DivergenceReport_entity, ReconciliationAction_entity,
     WorkflowGraphSnapshot_entity, Document_entity, Message_entity, Project_entity, RuleApplication_entity,
     RuleVersion_entity, Rule_entity, Session_entity, SkillApplication_entity, Skill_entity, KGEdge_entity, KGNode_entity,
     ProcessPattern_entity, WorkflowVersion_entity, Workflow_entity]"

end
