(* ===== verification/Schema_Build.thy ===== *)
theory Schema_Build
  imports Schema_Init Entity_Metadata
begin

text \<open>
  The migrations run on an empty database, the schema they leave, and how it compares with the entity classes.
\<close>

section \<open>Additions and what undoes them\<close>

text \<open>When a statement that adds a table, a column or an index is carried out, its effect, and the statement that undoes it.\<close>

fun fits :: "statement \<Rightarrow> schema \<Rightarrow> bool" where
  "fits (Create_Table b x) sc =
     (tb_name x \<notin> set (relation_names sc) \<and> tb_name x \<notin> set (map fst (sc_types sc)) \<and> table_plain sc x \<and>
      (\<forall>c \<in> set (tb_columns x). refers_ok (x # sc_tables sc) c))"
| "fits (Add_Column b t c) sc =
     (case find_table t sc of None \<Rightarrow> False
      | Some x \<Rightarrow> cl_name c \<notin> set (column_names x) \<and> cl_name c \<noteq> ''id'' \<and> type_known sc (cl_type c) \<and> refers_ok (sc_tables sc) c)"
| "fits (Create_Index b i) sc =
     (ix_name i \<notin> set (relation_names sc) \<and>
      (case find_table (ix_table i) sc of None \<Rightarrow> False | Some x \<Rightarrow> has_columns x (ix_columns i)))"
| "fits _ sc = False"

fun effect :: "statement \<Rightarrow> schema \<Rightarrow> schema" where
  "effect (Create_Table b x) = add_table x"
| "effect (Add_Column b t c) = add_column t c"
| "effect (Create_Index b i) = add_index i"
| "effect _ = id"

fun undo :: "statement \<Rightarrow> statement" where
  "undo (Create_Table b x) = Drop_Table (tb_name x) False"
| "undo (Add_Column b t c) = Drop_Column t (cl_name c)"
| "undo (Create_Index b i) = Drop_Index (ix_name i)"
| "undo s = s"

lemma fits_exec: "fits s sc \<Longrightarrow> exec s sc = Inr (effect s sc)"
  by (cases s) (auto simp: table_plain_def split: option.splits)

lemma no_reference_to:
  assumes "schema_ok sc" "t \<notin> set (table_names sc)" "x \<in> set (sc_tables sc)" "c \<in> set (tb_columns x)"
  shows "\<not> refers_to t c" "unrefer (\<lambda>u. u = t) c = c"
proof -
  have "refers_ok (sc_tables sc) c" using assms(1,3,4) by (simp add: schema_ok_def table_ok_def column_ok_def)
  then show "\<not> refers_to t c" "unrefer (\<lambda>u. u = t) c = c"
    using assms(2) by (auto simp: refers_ok_def refers_to_def unrefer_def table_names_def split: option.splits)
qed

lemma columns_exist_table: "columns_exist sc t cs \<Longrightarrow> t \<in> set (table_names sc)"
  by (auto simp: columns_exist_def table_names_def)

lemma schema_tables:
  assumes "schema_ok sc"
  shows "i \<in> set (sc_indexes sc) \<Longrightarrow> ix_table i \<in> set (table_names sc)"
    "g \<in> set (sc_triggers sc) \<Longrightarrow> tg_table g \<in> set (table_names sc)"
    "y \<in> set (sc_tables sc) \<Longrightarrow> cs \<in> set (tb_uniques y) \<Longrightarrow> columns_exist sc (tb_name y) cs"
proof -
  show "i \<in> set (sc_indexes sc) \<Longrightarrow> ix_table i \<in> set (table_names sc)"
    "g \<in> set (sc_triggers sc) \<Longrightarrow> tg_table g \<in> set (table_names sc)"
    using assms columns_exist_table unfolding schema_ok_def by blast+
qed (use assms in \<open>auto simp: schema_ok_def table_ok_def columns_exist_def\<close>)

lemma filter_other: "n \<notin> f ` set xs \<Longrightarrow> filter (\<lambda>x. f x \<noteq> n) xs = xs"
  by (induction xs) auto

lemma undo_table:
  assumes "schema_ok sc" "tb_name x \<notin> set (relation_names sc)"
  shows "exec (Drop_Table (tb_name x) b) (add_table x sc) = Inr sc"
proof -
  have t: "tb_name x \<notin> set (table_names sc)" using assms(2) by (simp add: relation_names_def)
  have "\<not> referred (tb_name x) (add_table x sc)"
    using no_reference_to(1) [OF assms(1) t] by (auto simp: referred_def add_table_def)
  moreover have "filter (\<lambda>y. tb_name y \<noteq> tb_name x) (sc_tables (add_table x sc)) = sc_tables sc"
    using t by (simp add: add_table_def table_names_def filter_other)
  moreover have "map (\<lambda>y. y\<lparr>tb_columns := map (unrefer (\<lambda>u. u = tb_name x)) (tb_columns y)\<rparr>) (sc_tables sc) = sc_tables sc"
  proof (rule map_idI)
    fix y assume "y \<in> set (sc_tables sc)"
    then have "map (unrefer (\<lambda>u. u = tb_name x)) (tb_columns y) = tb_columns y"
      using no_reference_to(2) [OF assms(1) t] by (intro map_idI)
    then show "y\<lparr>tb_columns := map (unrefer (\<lambda>u. u = tb_name x)) (tb_columns y)\<rparr> = y" by simp
  qed
  moreover have "filter (\<lambda>i. ix_table i \<noteq> tb_name x) (sc_indexes sc) = sc_indexes sc"
    using schema_tables(1) [OF assms(1)] t by (intro filter_True ballI) metis
  moreover have "filter (\<lambda>g. tg_table g \<noteq> tb_name x) (sc_triggers sc) = sc_triggers sc"
    using schema_tables(2) [OF assms(1)] t by (intro filter_True ballI) metis
  moreover have "filter (\<lambda>(_, u, _). u \<noteq> tb_name x) (sc_grants (add_table x sc)) = sc_grants sc"
    using assms(1) t by (auto simp: add_table_def new_grants_def schema_ok_def intro!: filter_True)
  ultimately show ?thesis by (simp add: drop_table_def) (simp add: add_table_def)
qed

lemma undo_index:
  assumes "ix_name i \<notin> set (relation_names sc)"
  shows "exec (Drop_Index (ix_name i)) (add_index i sc) = Inr sc"
proof -
  have "filter (\<lambda>j. ix_name j \<noteq> ix_name i) (sc_indexes sc) = sc_indexes sc"
    using assms by (intro filter_other) (simp add: relation_names_def)
  then show ?thesis by (simp add: add_index_def)
qed

lemma unrefer_never: "(\<And>t. \<not> p t) \<Longrightarrow> unrefer p c = c"
  by (simp add: unrefer_def split: option.split)

lemma undo_column:
  assumes "schema_ok sc" "find_table t sc = Some x" "cl_name c \<notin> set (column_names x)" "cl_name c \<noteq> ''id''"
  shows "exec (Drop_Column t (cl_name c)) (add_column t c sc) = Inr sc"
proof -
  let ?sd = "add_column t c sc" and ?g = "\<lambda>u d. u = t \<and> cl_name d = cl_name c"
  have only: "y = x" if "y \<in> set (sc_tables sc)" "tb_name y = t" for y
    using that assms(1) find_table_Some [OF assms(2)] by (auto simp: schema_ok_def names_simps distinct_map dest: inj_onD)
  have "with_column t c x \<in> set (sc_tables ?sd)" "tb_name (with_column t c x) = t" "c \<in> set (tb_columns (with_column t c x))"
    using find_table_Some [OF assms(2)] by (auto simp: add_column_def with_column_def)
  then have lost: "lost ?g ?sd u cs \<longleftrightarrow> u = t \<and> cl_name c \<in> set cs" for u cs
    unfolding lost_def by metis
  have free: "cl_name c \<notin> set cs" if "columns_exist sc t cs" for cs
    using that only assms(3) by (auto simp: columns_exist_def has_columns_def)
  have ok: "schema_ok sc" by (rule assms(1))
  have "\<not> column_needed t (cl_name c) ?sd"
    using ok free assms(4) by (fastforce simp: column_needed_def schema_ok_def add_column_def)
  moreover have "t \<in> set (table_names sc)" using find_table_Some [OF assms(2)] by (auto simp: table_names_def)
  moreover have "drop_columns ?g ?sd = sc"
  proof -
    have "unrefer (\<lambda>u. lost ?g ?sd u [''id'']) d = d" for d using assms(4) by (intro unrefer_never) (simp add: lost)
    then have unref: "map (unrefer (\<lambda>u. lost ?g ?sd u [''id''])) ds = ds" for ds by (simp add: map_idI)
    have "map (\<lambda>y. y\<lparr>tb_columns := map (unrefer (\<lambda>u. lost ?g ?sd u [''id''])) (filter (\<lambda>d. \<not> ?g (tb_name y) d) (tb_columns y)),
        tb_uniques := filter (\<lambda>cs. \<not> lost ?g ?sd (tb_name y) cs) (tb_uniques y)\<rparr>) (map (with_column t c) (sc_tables sc)) = sc_tables sc"
      unfolding map_map
    proof (rule map_idI)
      fix y assume y: "y \<in> set (sc_tables sc)"
      have "filter (\<lambda>cs. \<not> lost ?g ?sd (tb_name y) cs) (tb_uniques y) = tb_uniques y"
        using schema_tables(3) [OF ok y] free by (intro filter_True) (auto simp: lost)
      moreover have "filter (\<lambda>d. \<not> ?g t d) (tb_columns x) = tb_columns x"
        using filter_other [of "cl_name c" cl_name "tb_columns x"] assms(3) by (simp add: column_names_def)
      ultimately show "((\<lambda>y. y\<lparr>tb_columns := map (unrefer (\<lambda>u. lost ?g ?sd u [''id''])) (filter (\<lambda>d. \<not> ?g (tb_name y) d) (tb_columns y)),
        tb_uniques := filter (\<lambda>cs. \<not> lost ?g ?sd (tb_name y) cs) (tb_uniques y)\<rparr>) \<circ> with_column t c) y = y"
        using only [OF y] by (auto simp: unref with_column_def)
    qed
    moreover have "filter (\<lambda>i. \<not> lost ?g ?sd (ix_table i) (ix_columns i)) (sc_indexes sc) = sc_indexes sc"
      using ok free by (intro filter_True) (auto simp: lost schema_ok_def)
    moreover have "filter (\<lambda>g. \<not> lost ?g ?sd (tg_table g) (tg_columns g)) (sc_triggers sc) = sc_triggers sc"
      using ok free by (intro filter_True) (auto simp: lost schema_ok_def)
    ultimately show ?thesis by (simp add: drop_columns_def add_column_def [of t c sc])
  qed
  moreover have "table_names ?sd = table_names sc" by (simp add: table_names_def add_column_def with_column_def)
  ultimately show ?thesis by simp
qed

lemma undo_effect: "schema_ok sc \<Longrightarrow> fits s sc \<Longrightarrow> exec (undo s) (effect s sc) = Inr sc"
proof (cases s)
  case (Add_Column b t c)
  assume "schema_ok sc" "fits s sc"
  then show ?thesis using undo_column unfolding Add_Column by (auto simp del: exec.simps split: option.splits)
qed (auto simp: undo_table undo_index simp del: exec.simps)

fun all_fit :: "statement list \<Rightarrow> schema \<Rightarrow> bool" where
  "all_fit [] sc = True"
| "all_fit (s # ss) sc = (fits s sc \<and> all_fit ss (effect s sc))"

lemma all_fit_exec: "all_fit ss sc \<Longrightarrow> exec_all ss sc = Inr (fold effect ss sc)"
  by (induction ss arbitrary: sc) (simp_all add: fits_exec)

lemma undo_all: "schema_ok sc \<Longrightarrow> all_fit ss sc \<Longrightarrow> exec_all (rev (map undo ss)) (fold effect ss sc) = Inr sc"
proof (induction ss arbitrary: sc)
  case (Cons s ss)
  then have "fits s sc" by simp
  then have "schema_ok (effect s sc)" by (rule exec_ok [OF Cons.prems(1) fits_exec])
  then have "exec_all (rev (map undo ss)) (fold effect ss (effect s sc)) = Inr (effect s sc)" using Cons by simp
  then show ?case using undo_effect Cons.prems by (simp add: exec_all_append del: exec.simps)
qed simp

section \<open>The later migrations\<close>

text \<open>What the additions make of the names and columns that later statements look for.\<close>

lemma table_names_add [simp]:
  "table_names (add_column t c sc) = table_names sc" "table_names (add_index i sc) = table_names sc"
  "table_names (add_table x sc) = table_names sc @ [tb_name x]"
  by (simp_all add: add_column_def add_index_def add_table_def table_names_def with_column_def)

lemma relation_names_add [simp]:
  "set (relation_names (add_column t c sc)) = set (relation_names sc)"
  "set (relation_names (add_index i sc)) = insert (ix_name i) (set (relation_names sc))"
  "set (relation_names (add_table x sc)) = insert (tb_name x) (set (relation_names sc))"
  by (auto simp: relation_names_def) (auto simp: add_column_def add_index_def add_table_def)

lemma find_table_add [simp]:
  "find_table u (add_column t c sc) = map_option (with_column t c) (find_table u sc)"
  "find_table u (add_index i sc) = find_table u sc"
  "find_table u (add_table x sc) =
     (case find_table u sc of Some y \<Rightarrow> Some y | None \<Rightarrow> if tb_name x = u then Some x else None)"
proof -
  have "find (\<lambda>x. tb_name x = u) (map (with_column t c) xs) = map_option (with_column t c) (find (\<lambda>x. tb_name x = u) xs)" for xs
    by (induction xs) (simp_all add: with_column_def)
  then show "find_table u (add_column t c sc) = map_option (with_column t c) (find_table u sc)"
    by (simp add: find_table_def add_column_def)
  have "find P (xs @ [x]) = (case find P xs of Some y \<Rightarrow> Some y | None \<Rightarrow> if P x then Some x else None)" for P xs
    by (induction xs) simp_all
  then show "find_table u (add_table x sc) =
     (case find_table u sc of Some y \<Rightarrow> Some y | None \<Rightarrow> if tb_name x = u then Some x else None)"
    by (simp add: find_table_def add_table_def)
qed (simp add: find_table_def add_index_def)

lemma core_find:
  "find_table ''organization'' core_schema = Some table_organization" "find_table ''user'' core_schema = Some table_user"
  "find_table ''login_history'' core_schema = Some table_login_history"
  "find_table ''refresh_token'' core_schema = Some table_refresh_token"
  "find_table ''workflow'' core_schema = Some table_workflow"
  "find_table ''workflow_version'' core_schema = Some table_workflow_version"
  "find_table ''session'' core_schema = Some table_session" "find_table ''message'' core_schema = Some table_message"
  "find_table ''document'' core_schema = Some table_document" "find_table ''comment'' core_schema = Some table_comment"
  "find_table ''audit_log'' core_schema = Some table_audit_log" "find_table ''kg_node'' core_schema = Some table_kg_node"
  "find_table ''kg_edge'' core_schema = Some table_kg_edge"
  "find_table ''process_pattern'' core_schema = Some table_process_pattern"
  "find_table ''agent_definition'' core_schema = Some table_agent_definition"
  "find_table ''pipeline_execution'' core_schema = Some table_pipeline_execution"
  "find_table ''agent_execution'' core_schema = Some table_agent_execution"
  "find_table ''agent_log'' core_schema = Some table_agent_log"
  "find_table ''agent_config_override'' core_schema = Some table_agent_config_override"
  "find_table ''workflow_graph_snapshot'' core_schema = Some table_workflow_graph_snapshot"
  "find_table ''divergence_report'' core_schema = Some table_divergence_report"
  "find_table ''divergence_point'' core_schema = Some table_divergence_point"
  "find_table ''reconciliation_action'' core_schema = Some table_reconciliation_action"
  "find_table ''rule'' core_schema = Some table_rule" "find_table ''rule_version'' core_schema = Some table_rule_version"
  "find_table ''skill'' core_schema = Some table_skill"
  "find_table ''rule_application'' core_schema = Some table_rule_application"
  "find_table ''skill_application'' core_schema = Some table_skill_application"
  by (simp_all add: find_table_def core_schema_def init_find)

definition later_relations :: "string list" where
  "later_relations = [''idx_document_session_filename_version'', ''idx_document_workflow_active_created_at'',
     ''idx_user_org_active'', ''idx_user_invite_token_hash'', ''idx_session_archived_at'', ''idx_message_session_archived'',
     ''idx_document_session_archived'', ''idx_pipeline_session_archived'', ''dead_letter'', ''idx_dead_letter_subject_created'',
     ''idx_message_session_created_id'', ''idx_message_content_fts'', ''idx_comment_assigned_resolved'',
     ''idx_audit_log_workflow_event_created'', ''idx_audit_log_workflow_actor_created'', ''project'', ''idx_project_org_id'',
     ''idx_project_name_org'', ''idx_workflow_project_id'']"

lemma later_fresh: "list_all (\<lambda>n. n \<notin> set (relation_names core_schema)) later_relations"
  by code_simp

text \<open>The schema after each migration.\<close>

definition schema1 :: schema where "schema1 = fold effect (mg_up AddDocumentStorageFields) core_schema"
definition schema2 :: schema where "schema2 = fold effect (mg_up AddOrganizationInviteFields) schema1"
definition schema3 :: schema where "schema3 = fold effect (mg_up AddSessionArchiveFields) schema2"
definition schema4 :: schema where "schema4 = fold effect (mg_up AddDeadLetterTable) schema3"
definition schema5 :: schema where "schema5 = fold effect (mg_up AddMessageSearchIndexes) schema4"
definition schema6 :: schema where "schema6 = fold effect (mg_up AddCommentAssignedToAndResolutionNote) schema5"
definition schema7 :: schema where "schema7 = fold effect (mg_up AddRuleVersionStateFields) schema6"

lemma added_types [simp]:
  "sc_types (add_column t c sc) = sc_types sc" "sc_types (add_index i sc) = sc_types sc" "sc_types (add_table x sc) = sc_types sc"
  by (simp_all add: add_column_def add_index_def add_table_def)

lemma with_column_simps [simp]:
  "tb_name (with_column t c x) = tb_name x"
  "column_names (with_column t c x) = (if tb_name x = t then column_names x @ [cl_name c] else column_names x)"
  by (simp_all add: with_column_def column_names_def)

lemma col_simps [simp]: "cl_name (col n t os) = n" "cl_type (col n t os) = t"
proof -
  have "cl_name (foldl with_option c os) = cl_name c \<and> cl_type (foldl with_option c os) = cl_type c" for c
  proof (induction os arbitrary: c)
    case (Cons a os)
    then show ?case by (cases a) simp_all
  qed simp
  then show "cl_name (col n t os) = n" "cl_type (col n t os) = t" by (simp_all add: col_def)
qed

lemma plain_references [simp]: "cl_references (col n t []) = None" "cl_references (col n t [Not_Null, Default d]) = None"
  "cl_references (col n t [References u]) = Some (u, False)"
  by (simp_all add: col_def)

lemma core_types: "sc_types core_schema = enum_types"
  by (simp add: core_schema_def typed_schema_def)

lemma core_columns:
  "set (column_names table_document) = {''id'', ''workflow_id'', ''session_id'', ''filename'', ''file_type'', ''storage_url'',
     ''extracted_text'', ''preprocessing_confidence'', ''doc_version'', ''created_at''}"
  "set (column_names table_user) = {''id'', ''email'', ''password_hash'', ''role'', ''org_id'', ''is_verified'', ''locked_until'',
     ''created_at'', ''updated_at''}"
  "set (column_names table_session) = {''id'', ''workflow_id'', ''user_id'', ''mode'', ''status'', ''confidence_score'',
     ''created_at'', ''finalized_at''}"
  "set (column_names table_message) = {''id'', ''session_id'', ''role'', ''type'', ''content'', ''metadata'', ''created_at''}"
  "set (column_names table_comment) = {''id'', ''workflow_id'', ''element_id'', ''author_id'', ''type'', ''content'', ''resolved'',
     ''resolved_at'', ''resolved_by'', ''parent_id'', ''created_at''}"
  "set (column_names table_rule_version) = {''id'', ''rule_id'', ''version'', ''instruction'', ''condition'', ''changed_by'',
     ''created_at''}"
  "set (column_names table_pipeline_execution) = {''id'', ''session_id'', ''task_type'', ''mode'', ''status'', ''input_payload'',
     ''retry_count'', ''last_checkpoint_agent'', ''triggered_by'', ''nats_message_id'', ''started_at'', ''completed_at'',
     ''total_duration_ms'', ''total_llm_calls'', ''total_tokens_consumed'', ''final_confidence'', ''error_summary'', ''created_at''}"
  "set (column_names table_audit_log) = {''id'', ''workflow_id'', ''actor_id'', ''actor_type'', ''event_type'', ''element_id'',
     ''before_state'', ''after_state'', ''created_at''}"
  "set (column_names table_workflow) = {''id'', ''title'', ''description'', ''status'', ''current_version'', ''org_id'', ''owner_id'',
     ''domain'', ''tags'', ''created_at'', ''updated_at''}"
  "set (column_names table_dead_letter) = {''id'', ''subject'', ''payload'', ''reason'', ''delivery_count'', ''last_error'',
     ''created_at''}"
  "set (column_names table_project) = {''id'', ''name'', ''org_id'', ''owner_id'', ''created_at'', ''updated_at''}"
  by (simp_all add: init_table_defs table_dead_letter_def table_project_def column_names_def)

text \<open>The tables of the later migrations refer to no other and use no declared type.\<close>

lemma later_tables: "tb_name table_dead_letter = ''dead_letter''" "tb_name table_project = ''project''"
  "table_plain sc table_dead_letter" "table_plain sc table_project"
  "\<forall>c \<in> set (tb_columns table_dead_letter). refers_ok ts c" "\<forall>c \<in> set (tb_columns table_project). refers_ok ts c"
  by (simp_all add: table_dead_letter_def table_project_def table_plain_def column_names_def)
    (simp_all add: col_def refers_ok_def)

lemma refers_user: "find_table ''user'' sc = Some x \<Longrightarrow> has_key x \<Longrightarrow> refers_ok (sc_tables sc) (col n t [References ''user''])"
  using find_table_Some [of "''user''" sc x] by (auto simp: refers_ok_def)

lemma user_key: "has_key table_user" "has_key x \<Longrightarrow> has_key (with_column t c x)"
  by (auto simp: has_key_def table_user_def col_def with_column_def)

lemma no_references: "refers_ok ts (col n t [])" "refers_ok ts (col n t [Not_Null, Default d])"
  by (simp_all add: refers_ok_def)

lemma later_fresh_simps: "n \<in> set later_relations \<Longrightarrow> n \<notin> set (relation_names core_schema)"
  using later_fresh by (simp add: list_all_iff)

lemma later_missing: "find_table ''dead_letter'' core_schema = None" "find_table ''project'' core_schema = None"
  using later_fresh_simps [of "''dead_letter''"] later_fresh_simps [of "''project''"]
  by (simp_all add: find_table_None relation_names_def later_relations_def)

lemma later_types: "''dead_letter'' \<notin> fst ` set enum_types" "''project'' \<notin> fst ` set enum_types"
  by (simp_all add: enum_types_def)

lemmas fit_simps = later_missing later_types core_find core_names core_columns core_types no_references later_fresh_simps later_relations_def
  later_tables refers_user user_key plain_index_def unique_index_def has_columns_def

lemmas migration_defs = AddDocumentStorageFields_def AddOrganizationInviteFields_def AddSessionArchiveFields_def
  AddDeadLetterTable_def AddMessageSearchIndexes_def AddCommentAssignedToAndResolutionNote_def AddRuleVersionStateFields_def

lemma fit1: "all_fit (mg_up AddDocumentStorageFields) core_schema"
  by (simp add: AddDocumentStorageFields_def fit_simps)

lemma fit2: "all_fit (mg_up AddOrganizationInviteFields) schema1"
  by (simp add: schema1_def migration_defs fit_simps)

lemma fit3: "all_fit (mg_up AddSessionArchiveFields) schema2"
  by (simp add: schema2_def schema1_def migration_defs fit_simps)

lemma fit4: "all_fit (mg_up AddDeadLetterTable) schema3"
  by (simp add: schema3_def schema2_def schema1_def migration_defs fit_simps)

lemma fit5: "all_fit (mg_up AddMessageSearchIndexes) schema4"
  by (simp add: schema4_def schema3_def schema2_def schema1_def migration_defs fit_simps)

lemma fit6: "all_fit (mg_up AddCommentAssignedToAndResolutionNote) schema5"
  by (simp add: schema5_def schema4_def schema3_def schema2_def schema1_def migration_defs fit_simps)

lemma fit7: "all_fit (mg_up AddRuleVersionStateFields) schema6"
  by (simp add: schema6_def schema5_def schema4_def schema3_def schema2_def schema1_def migration_defs fit_simps)

text \<open>The audit log becomes append-only for the role that runs the migrations, the owner of the tables.\<close>

definition audit_append_only :: "grant list \<Rightarrow> grant list" where
  "audit_append_only gs =
     (let kept = filter (\<lambda>(s, x, p). \<not> (s = ''current_user'' \<and> x = ''audit_log'' \<and> p \<in> set [''UPDATE'', ''DELETE'']))
            (filter (\<lambda>(s, x, p). \<not> (s = ''PUBLIC'' \<and> x = ''audit_log'' \<and> p \<in> set [''UPDATE'', ''DELETE''])) gs)
      in kept @ filter (\<lambda>g. g \<notin> set kept) (map (\<lambda>p. (''current_user'', ''audit_log'', p)) [''SELECT'', ''INSERT'']))"

definition hardened :: "schema \<Rightarrow> schema" where
  "hardened sc = (fold effect (take 2 (mg_up HardenAuditLogAccess)) sc)\<lparr>sc_grants := audit_append_only (sc_grants sc)\<rparr>"

lemma hardened_parts:
  "sc_tables (hardened sc) = sc_tables sc" "sc_types (hardened sc) = sc_types sc"
  "find_table t (hardened sc) = find_table t sc" "table_names (hardened sc) = table_names sc"
  "set (relation_names (hardened sc)) = {''idx_audit_log_workflow_actor_created'', ''idx_audit_log_workflow_event_created''} \<union>
     set (relation_names sc)"
  by (auto simp: hardened_def HardenAuditLogAccess_def add_index_def find_table_def table_names_def relation_names_def
      plain_index_def)

lemma harden_run:
  assumes "all_fit (take 2 (mg_up HardenAuditLogAccess)) sc"
  shows "exec_all (mg_up HardenAuditLogAccess) sc = Inr (hardened sc)"
proof -
  let ?is = "take 2 (mg_up HardenAuditLogAccess)" and ?sd = "fold effect (take 2 (mg_up HardenAuditLogAccess)) sc"
  have "mg_up HardenAuditLogAccess = ?is @ drop 2 (mg_up HardenAuditLogAccess)" by simp
  moreover have "''audit_log'' \<in> set (table_names sc)"
    using assms find_table_None [of "''audit_log''" sc] by (simp add: HardenAuditLogAccess_def plain_index_def split: option.splits)
  then have "''audit_log'' \<in> set (table_names ?sd)" by (simp add: HardenAuditLogAccess_def)
  moreover have "sc_grants ?sd = sc_grants sc" by (simp add: HardenAuditLogAccess_def add_index_def)
  ultimately show ?thesis
    using all_fit_exec [OF assms]
    by (subst \<open>mg_up HardenAuditLogAccess = _\<close>, subst exec_all_append)
      (simp add: hardened_def audit_append_only_def HardenAuditLogAccess_def table_names_def Let_def del: filter_filter)
qed

definition schema8 :: schema where "schema8 = hardened schema7"
definition schema9 :: schema where "schema9 = fold effect (mg_up AddProjectsTable) schema8"
definition schema10 :: schema where "schema10 = fold effect (mg_up AddProjectIdToWorkflow) schema9"

lemmas schema_defs = schema7_def schema6_def schema5_def schema4_def schema3_def schema2_def schema1_def

lemma fit8: "all_fit (take 2 (mg_up HardenAuditLogAccess)) schema7"
  by (simp add: schema_defs migration_defs HardenAuditLogAccess_def fit_simps)

lemma fit9: "all_fit (mg_up AddProjectsTable) schema8"
  by (simp add: schema8_def hardened_parts schema_defs migration_defs AddProjectsTable_def fit_simps)

lemma fit10: "all_fit (mg_up AddProjectIdToWorkflow) schema9"
  by (simp add: schema9_def AddProjectsTable_def AddProjectIdToWorkflow_def schema8_def hardened_parts schema_defs
      migration_defs fit_simps)

lemma again_skipped: "exec_all (mg_up AddProjectsTableAgain) schema10 = Inr schema10"
  by (simp add: schema10_def schema9_def AddProjectsTable_def AddProjectIdToWorkflow_def AddProjectsTableAgain_def
      schema8_def hardened_parts schema_defs migration_defs fit_simps)

end
