(* ===== verification/Schema_Served.thy ===== *)
theory Schema_Served
  imports Schema_Build
begin

text \<open>
  The schema the migrations leave and the columns the entity classes declare: which classes find their table as they declare
  it, and which do not.
\<close>

section \<open>Running the migrations\<close>

lemma migrations_in_order: "in_order migrations = migrations"
proof -
  have "sorted (map mg_timestamp migrations)"
    by (simp add: migrations_def InitDatabaseSchema_def migration_defs HardenAuditLogAccess_def AddProjectsTable_def
        AddProjectIdToWorkflow_def AddProjectsTableAgain_def)
  then show ?thesis unfolding in_order_def by (rule sort_key_id_if_sorted)
qed

lemma run1: "exec_all (mg_up AddDocumentStorageFields) core_schema = Inr schema1"
  using all_fit_exec [OF fit1] by (simp only: schema1_def)

lemma run2: "exec_all (mg_up AddOrganizationInviteFields) schema1 = Inr schema2"
  using all_fit_exec [OF fit2] by (simp only: schema2_def)

lemma run3: "exec_all (mg_up AddSessionArchiveFields) schema2 = Inr schema3"
  using all_fit_exec [OF fit3] by (simp only: schema3_def)

lemma run4: "exec_all (mg_up AddDeadLetterTable) schema3 = Inr schema4"
  using all_fit_exec [OF fit4] by (simp only: schema4_def)

lemma run5: "exec_all (mg_up AddMessageSearchIndexes) schema4 = Inr schema5"
  using all_fit_exec [OF fit5] by (simp only: schema5_def)

lemma run6: "exec_all (mg_up AddCommentAssignedToAndResolutionNote) schema5 = Inr schema6"
  using all_fit_exec [OF fit6] by (simp only: schema6_def)

lemma run7: "exec_all (mg_up AddRuleVersionStateFields) schema6 = Inr schema7"
  using all_fit_exec [OF fit7] by (simp only: schema7_def)

lemma run8: "exec_all (mg_up HardenAuditLogAccess) schema7 = Inr schema8"
  using harden_run [OF fit8] by (simp only: schema8_def)

lemma run9: "exec_all (mg_up AddProjectsTable) schema8 = Inr schema9"
  using all_fit_exec [OF fit9] by (simp only: schema9_def)

lemma run10: "exec_all (mg_up AddProjectIdToWorkflow) schema9 = Inr schema10"
  using all_fit_exec [OF fit10] by (simp only: schema10_def)

lemmas migration_steps = init_run run1 run2 run3 run4 run5 run6 run7 run8 run9 run10 again_skipped

lemma migrations_run: "migrate migrations empty_schema = Inr schema10"
  unfolding migrate_def migrations_in_order by (simp add: migrations_def exec_all_append migration_steps)

section \<open>The schema and the entity classes\<close>

text \<open>A declared column fits when the table has it with the same type, the same nullability and the same enumerated values.\<close>

definition column_fits :: "(string \<times> string list) list \<Rightarrow> table \<Rightarrow> entity_column \<Rightarrow> bool" where
  "column_fits types x e \<longleftrightarrow>
     (\<exists>c \<in> set (tb_columns x). cl_name c = ec_name e \<and> cl_type c = ec_type e \<and> cl_notnull c = (\<not> ec_nullable e)) \<and>
     (case ec_values e of None \<Rightarrow> True
      | Some vs \<Rightarrow> (\<exists>(n, ws) \<in> set types. type_uses n (ec_type e) \<and> set ws = set vs))"

definition misfits :: "schema \<Rightarrow> entity \<Rightarrow> (string \<times> string) list" where
  "misfits sc e =
     (case find_table (en_table e) sc of
        None \<Rightarrow> map (\<lambda>c. (en_table e, ec_name c)) (en_columns e)
      | Some x \<Rightarrow> map (\<lambda>c. (en_table e, ec_name c)) (filter (\<lambda>c. \<not> column_fits (sc_types sc) x c) (en_columns e)))"

definition misfits_in :: "table \<Rightarrow> entity \<Rightarrow> string list" where
  "misfits_in x e = map ec_name (filter (\<lambda>c. \<not> column_fits enum_types x c) (en_columns e))"

definition accepts :: "table \<Rightarrow> entity \<Rightarrow> bool" where
  "accepts x e \<longleftrightarrow>
     has_columns x (map ec_name (en_columns e)) \<and>
     (\<forall>c \<in> set (tb_columns x). cl_notnull c \<and> cl_default c = None \<longrightarrow> cl_name c \<in> set (map ec_name (en_columns e)))"

definition served :: "table \<times> entity \<Rightarrow> bool" where
  "served = (\<lambda>(x, e). tb_name x = en_table e \<and> misfits_in x e = [] \<and> accepts x e)"

lemma served_unchanged1:
  "list_all served [(table_agent_config_override, AgentConfigOverride_entity), (table_agent_definition, AgentDefinition_entity),
     (table_agent_execution, AgentExecution_entity), (table_agent_log, AgentLog_entity), (table_dead_letter, DeadLetter_entity),
     (table_audit_log, AuditLog_entity), (table_login_history, LoginHistory_entity), (table_organization, Organization_entity),
     (table_refresh_token, RefreshToken_entity), (table_divergence_point, DivergencePoint_entity)]"
  by code_simp

lemma served_unchanged2:
  "list_all served [(table_divergence_report, DivergenceReport_entity), (table_reconciliation_action, ReconciliationAction_entity),
     (table_workflow_graph_snapshot, WorkflowGraphSnapshot_entity), (table_rule_application, RuleApplication_entity),
     (table_rule, Rule_entity), (table_skill_application, SkillApplication_entity), (table_skill, Skill_entity),
     (table_kg_edge, KGEdge_entity), (table_kg_node, KGNode_entity), (table_process_pattern, ProcessPattern_entity),
     (table_workflow_version, WorkflowVersion_entity)]"
  by code_simp

text \<open>The tables that later migrations extend, as they are in the end.\<close>

definition final_user :: table where
  "final_user = fold (with_column ''user'')
     [col ''is_active'' Ty_boolean [Not_Null, Default ''true''], col ''invite_token_hash'' Ty_text [],
      col ''invite_expires_at'' Ty_timestamptz []] table_user"

definition final_document :: table where
  "final_document = fold (with_column ''document'')
     [col ''file_size_bytes'' Ty_integer [Not_Null, Default ''0''], col ''deleted_at'' Ty_timestamptz [],
      col ''archived_at'' Ty_timestamptz []] table_document"

definition final_session :: table where
  "final_session = with_column ''session'' (col ''archived_at'' Ty_timestamptz []) table_session"

definition final_message :: table where
  "final_message = with_column ''message'' (col ''archived_at'' Ty_timestamptz []) table_message"

definition final_pipeline :: table where
  "final_pipeline = with_column ''pipeline_execution'' (col ''archived_at'' Ty_timestamptz []) table_pipeline_execution"

definition final_comment :: table where
  "final_comment = fold (with_column ''comment'')
     [col ''assigned_to'' Ty_uuid [References ''user''], col ''resolution_note'' Ty_text []] table_comment"

definition final_rule_version :: table where
  "final_rule_version = fold (with_column ''rule_version'')
     [col ''priority'' Ty_smallint [Not_Null, Default ''100''], col ''is_active'' Ty_boolean [Not_Null, Default ''true'']]
     table_rule_version"

definition final_workflow :: table where
  "final_workflow = with_column ''workflow'' (col ''project_id'' Ty_uuid []) table_workflow"

lemma served_extended:
  "list_all served [(final_user, User_entity), (final_document, Document_entity), (final_session, Session_entity),
     (final_message, Message_entity), (final_pipeline, PipelineExecution_entity), (final_comment, Comment_entity),
     (final_rule_version, RuleVersion_entity)]"
  by code_simp

lemma project_served: "misfits_in table_project Project_entity = [''name'']" "accepts table_project Project_entity"
  by code_simp+

lemma workflow_unserved:
  "misfits_in final_workflow Workflow_entity = [''share_token'', ''share_expires_at'', ''share_max_views'', ''share_view_count'']"
  "\<not> accepts final_workflow Workflow_entity"
  by code_simp+

lemma with_column_other: "tb_name x \<noteq> t \<Longrightarrow> with_column t c x = x"
  by (simp add: with_column_def)

lemma final_types: "sc_types schema10 = enum_types"
  by (simp add: schema10_def schema9_def schema8_def hardened_parts schema_defs migration_defs AddProjectsTable_def
      AddProjectIdToWorkflow_def core_types)

lemma final_changed:
  "find_table ''user'' schema10 = Some final_user" "find_table ''document'' schema10 = Some final_document"
  "find_table ''session'' schema10 = Some final_session" "find_table ''message'' schema10 = Some final_message"
  "find_table ''pipeline_execution'' schema10 = Some final_pipeline" "find_table ''comment'' schema10 = Some final_comment"
  "find_table ''rule_version'' schema10 = Some final_rule_version" "find_table ''workflow'' schema10 = Some final_workflow"
  "find_table ''project'' schema10 = Some table_project" "find_table ''dead_letter'' schema10 = Some table_dead_letter"
  by (simp_all add: schema10_def schema9_def schema8_def hardened_parts schema_defs migration_defs AddProjectsTable_def
      AddProjectIdToWorkflow_def fit_simps with_column_other final_user_def final_document_def final_session_def
      final_message_def final_pipeline_def final_comment_def final_rule_version_def final_workflow_def)

lemma final_kept:
  assumes "find_table t core_schema = Some x"
    "t \<notin> set [''user'', ''document'', ''session'', ''message'', ''pipeline_execution'', ''comment'', ''rule_version'', ''workflow'']"
  shows "find_table t schema10 = Some x"
  using assms find_table_Some [OF assms(1)]
  by (simp add: schema10_def schema9_def schema8_def hardened_parts schema_defs migration_defs AddProjectsTable_def
      AddProjectIdToWorkflow_def with_column_other)

definition entity_served :: "schema \<Rightarrow> entity \<Rightarrow> bool" where
  "entity_served sc e \<longleftrightarrow> misfits sc e = [] \<and> insert_accepted sc (en_table e) (map ec_name (en_columns e))"

lemma misfits_final: "find_table (en_table e) schema10 = Some x \<Longrightarrow> misfits schema10 e = map (Pair (en_table e)) (misfits_in x e)"
  by (simp add: misfits_def misfits_in_def final_types)

lemma accepts_final:
  "find_table (en_table e) schema10 = Some x \<Longrightarrow>
    insert_accepted schema10 (en_table e) (map ec_name (en_columns e)) = accepts x e"
  by (simp add: insert_accepted_def accepts_def)

lemma served_final: "served (x, e) \<Longrightarrow> find_table (en_table e) schema10 = Some x \<Longrightarrow> entity_served schema10 e"
  by (simp add: served_def entity_served_def misfits_final accepts_final)

lemmas final_find = final_changed core_find [THEN final_kept, simplified]

lemma final_names: "tb_name final_user = ''user''" "tb_name final_document = ''document''" "tb_name final_session = ''session''"
  "tb_name final_message = ''message''" "tb_name final_pipeline = ''pipeline_execution''" "tb_name final_comment = ''comment''"
  "tb_name final_rule_version = ''rule_version''"
  by (simp_all add: final_user_def final_document_def final_session_def final_message_def final_pipeline_def final_comment_def
      final_rule_version_def core_names)

lemma all_served:
  "list_all served xs \<Longrightarrow> list_all (\<lambda>(x, e). find_table (tb_name x) schema10 = Some x) xs \<Longrightarrow>
    list_all (entity_served schema10) (map snd xs)"
  by (induction xs) (auto simp: served_def intro: served_final)

lemmas served_entities =
  all_served [OF served_unchanged1, simplified, simplified core_names later_tables final_find, simplified]
  all_served [OF served_unchanged2, simplified, simplified core_names final_find, simplified]
  all_served [OF served_extended, simplified, simplified final_names final_find, simplified]

lemma partly_served:
  "misfits schema10 Project_entity = [(''project'', ''name'')]"
  "insert_accepted schema10 (en_table Project_entity) (map ec_name (en_columns Project_entity))"
  "misfits schema10 Workflow_entity = map (Pair ''workflow'') [''share_token'', ''share_expires_at'', ''share_max_views'', ''share_view_count'']"
  "\<not> insert_accepted schema10 (en_table Workflow_entity) (map ec_name (en_columns Workflow_entity))"
proof -
  have "en_table Project_entity = ''project''" "en_table Workflow_entity = ''workflow''"
    by (simp_all add: Project_entity_def Workflow_entity_def)
  then show "misfits schema10 Project_entity = [(''project'', ''name'')]"
    "insert_accepted schema10 (en_table Project_entity) (map ec_name (en_columns Project_entity))"
    "misfits schema10 Workflow_entity = map (Pair ''workflow'') [''share_token'', ''share_expires_at'', ''share_max_views'', ''share_view_count'']"
    "\<not> insert_accepted schema10 (en_table Workflow_entity) (map ec_name (en_columns Workflow_entity))"
    using misfits_final [of Project_entity table_project] misfits_final [of Workflow_entity final_workflow]
      accepts_final [of Project_entity table_project] accepts_final [of Workflow_entity final_workflow]
      project_served workflow_unserved final_changed(8,9)
    by simp_all
qed

lemma unserved: "\<not> entity_served schema10 Project_entity" "\<not> entity_served schema10 Workflow_entity"
  using partly_served by (simp_all add: entity_served_def)

text \<open>C5. The migrations, run in the order of their timestamps on an empty database, all succeed and leave no dangling name.
Every entity class but two finds its table with exactly the columns, types, nullability and enumerated values it declares. A
project's name is declared as text and stored in 255 characters. The workflow table lacks the four columns of the share
links, so every insertion of a workflow, which names all columns of its class, is refused.\<close>

theorem migrations_serve_entities:
  "\<exists>sc. migrate migrations empty_schema = Inr sc \<and> schema_ok sc \<and>
    filter (\<lambda>e. \<not> entity_served sc e) entities = [Project_entity, Workflow_entity] \<and>
    misfits sc Project_entity = [(''project'', ''name'')] \<and>
    insert_accepted sc (en_table Project_entity) (map ec_name (en_columns Project_entity)) \<and>
    misfits sc Workflow_entity =
      map (Pair ''workflow'') [''share_token'', ''share_expires_at'', ''share_max_views'', ''share_view_count''] \<and>
    \<not> insert_accepted sc (en_table Workflow_entity) (map ec_name (en_columns Workflow_entity))"
proof -
  have "schema_ok schema10" using exec_all_ok [OF empty_schema_ok] migrations_run by (simp add: migrate_def)
  moreover have "filter (\<lambda>e. \<not> entity_served schema10 e) entities = [Project_entity, Workflow_entity]"
    by (simp add: entities_def served_entities unserved)
  ultimately show ?thesis using migrations_run partly_served by blast
qed

end
