(* ===== verification/Schema_Revert.thy ===== *)
theory Schema_Revert
  imports Schema_Served
begin

text \<open>
  Reverting the migrations one by one, from the last to the first.
\<close>

section \<open>Reverting the first migration\<close>

lemma dropped: "drop_tables = map (\<lambda>x. Drop_Table (tb_name x) True) (rev init_tables)"
  "drop_types = map (\<lambda>t. Drop_Type (fst t)) (rev enum_types)"
  by (simp_all add: drop_tables_def drop_types_def init_tables_def enum_types_def core_names)

lemma exec_drop_tables:
  "exec_all (map (\<lambda>x. Drop_Table (tb_name x) True) xs) sc = Inr (fold (\<lambda>x. drop_table (tb_name x)) xs sc)"
  by (induction xs arbitrary: sc) simp_all

lemma drop_table_keeps:
  "sc_types (drop_table t sc) = sc_types sc" "sc_extensions (drop_table t sc) = sc_extensions sc"
  "sc_functions (drop_table t sc) = sc_functions sc" "set (table_names (drop_table t sc)) = set (table_names sc) - {t}"
  by (auto simp: drop_table_def table_names_def)

lemma dropped_tables_keep:
  "sc_types (fold (\<lambda>x. drop_table (tb_name x)) xs sc) = sc_types sc \<and>
   sc_extensions (fold (\<lambda>x. drop_table (tb_name x)) xs sc) = sc_extensions sc \<and>
   sc_functions (fold (\<lambda>x. drop_table (tb_name x)) xs sc) = sc_functions sc \<and>
   set (table_names (fold (\<lambda>x. drop_table (tb_name x)) xs sc)) = set (table_names sc) - tb_name ` set xs"
  by (induction xs arbitrary: sc) (auto simp: drop_table_keeps)

text \<open>Without tables a sound schema has no indexes, triggers or grants either.\<close>

lemma no_tables:
  assumes "schema_ok sc" "table_names sc = []"
  shows "sc_tables sc = []" "sc_indexes sc = []" "sc_triggers sc = []" "sc_grants sc = []"
proof -
  show "sc_tables sc = []" using assms(2) by (simp add: table_names_def)
  show "sc_indexes sc = []" "sc_triggers sc = []"
    using schema_tables(1,2) [OF assms(1)] assms(2) by (metis empty_iff empty_set list.set_intros(1) neq_Nil_conv)+
  show "sc_grants sc = []"
  proof (cases "sc_grants sc")
    case (Cons g gs)
    then have "fst (snd g) \<in> set (table_names sc)" using assms(1) by (cases g) (simp add: schema_ok_def)
    then show ?thesis using assms(2) by simp
  qed simp
qed

lemma exec_drop_types:
  "sc_tables sc = [] \<Longrightarrow> sc_indexes sc = [] \<Longrightarrow> sc_triggers sc = [] \<Longrightarrow>
    exec_all (map (\<lambda>t. Drop_Type (fst t)) ts) sc = Inr (sc\<lparr>sc_types := filter (\<lambda>x. fst x \<notin> fst ` set ts) (sc_types sc)\<rparr>)"
proof (induction ts arbitrary: sc)
  case (Cons t ts)
  let ?sd = "sc\<lparr>sc_types := filter (\<lambda>x. fst x \<noteq> fst t) (sc_types sc)\<rparr>"
  have "exec (Drop_Type (fst t)) sc = Inr ?sd" using Cons.prems by (simp add: drop_columns_def)
  moreover have "exec_all (map (\<lambda>t. Drop_Type (fst t)) ts) ?sd =
      Inr (?sd\<lparr>sc_types := filter (\<lambda>x. fst x \<notin> fst ` set ts) (sc_types ?sd)\<rparr>)"
    by (rule Cons.IH) (simp_all add: Cons.prems)
  ultimately show ?case by (simp add: conj_commute del: exec.simps)
qed simp

lemma init_reverted: "revert InitDatabaseSchema core_schema = Inr extended_schema"
proof -
  let ?s1 = "core_schema\<lparr>sc_functions := [], sc_triggers := []\<rparr>"
  let ?s2 = "fold (\<lambda>x. drop_table (tb_name x)) (rev init_tables) ?s1"
  have triggers: "exec_all drop_triggers core_schema = Inr ?s1"
    by (simp add: drop_triggers_def core_schema_def core_triggers_def)
  have "schema_ok ?s2" using exec_all_ok [OF exec_all_ok [OF core_schema_ok triggers]] exec_drop_tables by blast
  moreover have "table_names ?s1 = map tb_name init_tables" by (simp add: core_schema_def table_names_def)
  then have "table_names ?s2 = []" using dropped_tables_keep [of "rev init_tables" ?s1] by simp
  ultimately have empty: "sc_tables ?s2 = []" "sc_indexes ?s2 = []" "sc_triggers ?s2 = []" "sc_grants ?s2 = []"
    by (rule no_tables)+
  then have "exec_all drop_types ?s2 = Inr (?s2\<lparr>sc_types := []\<rparr>)"
    using dropped_tables_keep [of "rev init_tables" ?s1] by (simp add: dropped exec_drop_types core_types)
  moreover have "?s2\<lparr>sc_types := []\<rparr> = extended_schema"
    using empty dropped_tables_keep [of "rev init_tables" ?s1]
    by (intro schema.equality) (simp_all add: extended_schema_def empty_schema_def core_schema_def typed_schema_def)
  ultimately show ?thesis
    by (simp add: revert_def InitDatabaseSchema_def exec_all_append triggers dropped(1) exec_drop_tables)
qed

section \<open>Reverting the later migrations\<close>

lemma mirrored:
  "mg_down AddDocumentStorageFields = rev (map undo (mg_up AddDocumentStorageFields))"
  "mg_down AddOrganizationInviteFields = rev (map undo (mg_up AddOrganizationInviteFields))"
  "mg_down AddSessionArchiveFields = rev (map undo (mg_up AddSessionArchiveFields))"
  "mg_down AddDeadLetterTable = rev (map undo (mg_up AddDeadLetterTable))"
  "mg_down AddMessageSearchIndexes = rev (map undo (mg_up AddMessageSearchIndexes))"
  "mg_down AddCommentAssignedToAndResolutionNote = rev (map undo (mg_up AddCommentAssignedToAndResolutionNote))"
  "mg_down AddRuleVersionStateFields = rev (map undo (mg_up AddRuleVersionStateFields))"
  "mg_down AddProjectsTable = rev (map undo (mg_up AddProjectsTable))"
  "mg_down AddProjectIdToWorkflow = rev (map undo (mg_up AddProjectIdToWorkflow))"
  by (simp_all add: migration_defs AddProjectsTable_def AddProjectIdToWorkflow_def plain_index_def unique_index_def later_tables)

lemma mirrored_revert:
  "mg_down m = rev (map undo (mg_up m)) \<Longrightarrow> schema_ok sc \<Longrightarrow> all_fit (mg_up m) sc \<Longrightarrow> exec_all (mg_up m) sc = Inr sd \<Longrightarrow>
    revert m sd = Inr sc"
  using undo_all all_fit_exec by (fastforce simp: revert_def)

lemma schemas_ok: "schema_ok schema1" "schema_ok schema2" "schema_ok schema3" "schema_ok schema4" "schema_ok schema5"
  "schema_ok schema6" "schema_ok schema7" "schema_ok schema8" "schema_ok schema9" "schema_ok schema10"
proof -
  show 1: "schema_ok schema1" by (rule exec_all_ok [OF core_schema_ok run1])
  show 2: "schema_ok schema2" by (rule exec_all_ok [OF 1 run2])
  show 3: "schema_ok schema3" by (rule exec_all_ok [OF 2 run3])
  show 4: "schema_ok schema4" by (rule exec_all_ok [OF 3 run4])
  show 5: "schema_ok schema5" by (rule exec_all_ok [OF 4 run5])
  show 6: "schema_ok schema6" by (rule exec_all_ok [OF 5 run6])
  show 7: "schema_ok schema7" by (rule exec_all_ok [OF 6 run7])
  show 8: "schema_ok schema8" by (rule exec_all_ok [OF 7 run8])
  show 9: "schema_ok schema9" by (rule exec_all_ok [OF 8 run9])
  show "schema_ok schema10" by (rule exec_all_ok [OF 9 run10])
qed

lemma later_reverted:
  "revert AddDocumentStorageFields schema1 = Inr core_schema" "revert AddOrganizationInviteFields schema2 = Inr schema1"
  "revert AddSessionArchiveFields schema3 = Inr schema2" "revert AddDeadLetterTable schema4 = Inr schema3"
  "revert AddMessageSearchIndexes schema5 = Inr schema4" "revert AddCommentAssignedToAndResolutionNote schema6 = Inr schema5"
  "revert AddRuleVersionStateFields schema7 = Inr schema6" "revert AddProjectsTable schema9 = Inr schema8"
  "revert AddProjectIdToWorkflow schema10 = Inr schema9"
  by (rule mirrored_revert [OF mirrored(1) core_schema_ok fit1 run1] mirrored_revert [OF mirrored(2) schemas_ok(1) fit2 run2]
      mirrored_revert [OF mirrored(3) schemas_ok(2) fit3 run3] mirrored_revert [OF mirrored(4) schemas_ok(3) fit4 run4]
      mirrored_revert [OF mirrored(5) schemas_ok(4) fit5 run5] mirrored_revert [OF mirrored(6) schemas_ok(5) fit6 run6]
      mirrored_revert [OF mirrored(7) schemas_ok(6) fit7 run7] mirrored_revert [OF mirrored(8) schemas_ok(8) fit9 run9]
      mirrored_revert [OF mirrored(9) schemas_ok(9) fit10 run10])+

lemma grants_kept_add [simp]: "sc_grants (add_column t c sc) = sc_grants sc" "sc_grants (add_index i sc) = sc_grants sc"
  "sc_grants (add_table x sc) = sc_grants sc @ new_grants (tb_name x)"
  by (simp_all add: add_column_def add_index_def add_table_def)

lemma public_grants: "(''PUBLIC'', t, p) \<notin> set (sc_grants schema7)"
  by (auto simp: schema_defs migration_defs core_schema_def core_grants_def new_grants_def)

lemma drop_index_grants: "exec (Drop_Index n) (sc\<lparr>sc_grants := gs\<rparr>) = map_sum id (\<lambda>sd. sd\<lparr>sc_grants := gs\<rparr>) (exec (Drop_Index n) sc)"
  by simp

definition granted :: "string \<Rightarrow> string list \<Rightarrow> string \<Rightarrow> grant list \<Rightarrow> grant list" where
  "granted r ps t gs = gs @ filter (\<lambda>g. g \<notin> set gs) (map (\<lambda>p. (r, t, p)) ps)"

lemma exec_grant: "t \<in> set (table_names sc) \<Longrightarrow> exec (Grant r ps t) (sc\<lparr>sc_grants := gs\<rparr>) = Inr (sc\<lparr>sc_grants := granted r ps t gs\<rparr>)"
  by (simp add: granted_def table_names_def)

lemma in_granted: "(r, t, p) \<in> set (granted r' ps t' gs) \<longleftrightarrow> (r, t, p) \<in> set gs \<or> (r = r' \<and> t = t' \<and> p \<in> set ps)"
  by (auto simp: granted_def)

lemma harden_reverted:
  "\<exists>gs. revert HardenAuditLogAccess schema8 = Inr (schema7\<lparr>sc_grants := gs\<rparr>) \<and> (''PUBLIC'', ''audit_log'', ''DELETE'') \<in> set gs"
proof -
  let ?is = "take 2 (mg_up HardenAuditLogAccess)" and ?gs = "audit_append_only (sc_grants schema7)"
  have "exec_all (take 2 (mg_down HardenAuditLogAccess)) (fold effect ?is schema7) = Inr schema7"
    using undo_all [OF schemas_ok(7) fit8] by (simp add: HardenAuditLogAccess_def plain_index_def del: exec.simps)
  then have dropped: "exec_all (take 2 (mg_down HardenAuditLogAccess)) schema8 = Inr (schema7\<lparr>sc_grants := ?gs\<rparr>)"
    by (auto simp: schema8_def hardened_def HardenAuditLogAccess_def drop_index_grants map_sum_def simp del: exec.simps split: sum.splits)
  have "''audit_log'' \<in> set (table_names schema7)"
    using fit8 find_table_None [of "''audit_log''" schema7] by (simp add: HardenAuditLogAccess_def plain_index_def split: option.splits)
  then have "exec_all (drop 2 (mg_down HardenAuditLogAccess)) (schema7\<lparr>sc_grants := ?gs\<rparr>) = Inr (schema7\<lparr>sc_grants :=
      granted ''current_user'' [''UPDATE'', ''DELETE''] ''audit_log'' (granted ''PUBLIC'' [''UPDATE'', ''DELETE''] ''audit_log'' ?gs)\<rparr>)"
    by (simp add: HardenAuditLogAccess_def exec_grant del: exec.simps)
  then have "\<exists>gs. exec_all (drop 2 (mg_down HardenAuditLogAccess)) (schema7\<lparr>sc_grants := ?gs\<rparr>) = Inr (schema7\<lparr>sc_grants := gs\<rparr>) \<and>
      (''PUBLIC'', ''audit_log'', ''DELETE'') \<in> set gs"
    by (auto simp: in_granted intro!: exI)
  moreover have "revert HardenAuditLogAccess schema8 =
      exec_all (take 2 (mg_down HardenAuditLogAccess) @ drop 2 (mg_down HardenAuditLogAccess)) schema8"
    by (simp only: revert_def append_take_drop_id)
  then have "revert HardenAuditLogAccess schema8 = exec_all (drop 2 (mg_down HardenAuditLogAccess)) (schema7\<lparr>sc_grants := ?gs\<rparr>)"
    by (simp only: exec_all_append dropped sum.case)
  ultimately show ?thesis by simp
qed

lemma again_reverted: "revert AddProjectsTableAgain schema10 = Inr schema8"
proof -
  have "mg_down AddProjectsTableAgain = mg_down AddProjectIdToWorkflow @ mg_down AddProjectsTable"
    by (simp add: AddProjectsTableAgain_def AddProjectIdToWorkflow_def AddProjectsTable_def)
  then show ?thesis using later_reverted(8,9) by (simp add: revert_def exec_all_append)
qed

text \<open>The schemas from the empty database to the last migration.\<close>

definition schema_history :: "schema list" where
  "schema_history = [empty_schema, core_schema, schema1, schema2, schema3, schema4, schema5, schema6, schema7, schema8, schema9,
     schema10, schema10]"


text \<open>No sequence of statements that the database accepts leaves a dangling name: names stay unique, and every type,
reference, index, trigger and grant of the result is about something that exists.\<close>

theorem schema_stays_sound:
  assumes "schema_ok sc" "exec_all ss sc = Inr sd"
  shows "schema_ok sd"
  by (rule exec_all_ok [OF assms])

theorem schema_stays_sound_witness:
  "schema_ok core_schema \<and> schema_ok (drop_table ''user'' core_schema) \<and> referred ''user'' core_schema"
proof -
  have "exec_all [Drop_Table ''user'' True] core_schema = Inr (drop_table ''user'' core_schema)" by simp
  then have "schema_ok (drop_table ''user'' core_schema)" by (rule schema_stays_sound [OF core_schema_ok])
  moreover have "table_workflow \<in> set (sc_tables core_schema)" by (simp add: core_schema_def init_tables_def)
  then have "referred ''user'' core_schema"
    unfolding referred_def by (rule bexI [rotated]) (auto simp: table_workflow_def col_def refers_to_def)
  ultimately show ?thesis using core_schema_ok by blast
qed

end
