(* ===== verification/Configuration.thy ===== *)
theory Configuration
  imports Http Realtime
begin

text \<open>
  The environment variables: \<open>src/core/config/env.validation.ts\<close> (what they must be), \<open>src/core/config/configuration.ts\<close>
  (what the services read), \<open>src/core/logger/logger.module.ts\<close> and the start of \<open>src/main.ts\<close> (what the application refuses).
  Whether a text is a number, a boolean or an address is decided by Joi, a parameter.
\<close>

section \<open>Reading texts\<close>

type_synonym env = "string \<Rightarrow> string option"

fun split_by :: "char \<Rightarrow> string \<Rightarrow> string list" where
  "split_by d [] = [[]]"
| "split_by d (c # cs) =
     (if c = d then [] # split_by d cs
      else (case split_by d cs of [] \<Rightarrow> [[c]] | t # ts \<Rightarrow> (c # t) # ts))"

definition is_space :: "char \<Rightarrow> bool" where
  "is_space c \<longleftrightarrow> of_char c \<in> {9, 10, 11, 12, 13, 32, 160 :: nat}"

definition is_digit :: "char \<Rightarrow> bool" where
  "is_digit c \<longleftrightarrow> 48 \<le> (of_char c :: nat) \<and> (of_char c :: nat) \<le> 57"

definition digits_value :: "string \<Rightarrow> int" where
  "digits_value ds = foldl (\<lambda>n c. 10 * n + (of_char c - 48)) 0 ds"

text \<open>\<open>parseInt(s, 10)\<close>: the digits in front, after spaces and a sign; None when there are none.\<close>

definition parse_digits :: "string \<Rightarrow> int option" where
  "parse_digits s = (let ds = takeWhile is_digit s in if ds = [] then None else Some (digits_value ds))"

definition parseInt :: "string \<Rightarrow> int option" where
  "parseInt s =
     (case dropWhile is_space s of
        [] \<Rightarrow> None
      | c # cs \<Rightarrow>
          if c = CHR ''-'' then map_option uminus (parse_digits cs)
          else if c = CHR ''+'' then parse_digits cs
          else parse_digits (c # cs))"

text \<open>\<open>parseInt(v, 10) || d\<close>: a missing number and zero give the default.\<close>

definition number_or :: "string option \<Rightarrow> int \<Rightarrow> int" where
  "number_or v d = (case v of None \<Rightarrow> d | Some s \<Rightarrow> (case parseInt s of None \<Rightarrow> d | Some n \<Rightarrow> if n = 0 then d else n))"

definition text_or :: "string option \<Rightarrow> string \<Rightarrow> string" where
  "text_or v d = (if truthy v then the v else d)"

section \<open>What the services read\<close>

record Config =
  cf_nodeEnv :: string
  cf_port :: int
  cf_databaseUrl :: "string option"
  cf_natsUrl :: "string option"
  cf_natsStreamName :: "string option"
  cf_natsUser :: "string option"
  cf_natsPassword :: "string option"
  cf_jwtAccessSecret :: "string option"
  cf_jwtRefreshSecret :: "string option"
  cf_jwtAccessTtl :: "string option"
  cf_jwtRefreshTtl :: "string option"
  cf_minioEndpoint :: "string option"
  cf_minioPort :: int
  cf_minioUseSsl :: bool
  cf_minioAccessKey :: "string option"
  cf_minioSecretKey :: "string option"
  cf_minioBucketDocuments :: "string option"
  cf_minioBucketExports :: "string option"
  cf_ollamaUrl :: "string option"
  cf_healthFastapi :: "string option"
  cf_healthFastapiInternal :: "string option"
  cf_healthElsa :: "string option"
  cf_corsOrigin :: "string option"
  cf_devBypassAuth :: bool
  cf_throttleTtl :: int
  cf_throttleLimit :: int
  cf_logLevel :: string

definition configuration :: "env \<Rightarrow> Config" where
  "configuration env =
     \<lparr>cf_nodeEnv = text_or (env ''NODE_ENV'') ''development'',
      cf_port = number_or (env ''PORT'') 3000,
      cf_databaseUrl = env ''DATABASE_URL'',
      cf_natsUrl = env ''NATS_URL'',
      cf_natsStreamName = env ''NATS_STREAM_NAME'',
      cf_natsUser = env ''NATS_USER'',
      cf_natsPassword = env ''NATS_PASSWORD'',
      cf_jwtAccessSecret = env ''JWT_ACCESS_SECRET'',
      cf_jwtRefreshSecret = env ''JWT_REFRESH_SECRET'',
      cf_jwtAccessTtl = env ''JWT_ACCESS_TTL'',
      cf_jwtRefreshTtl = env ''JWT_REFRESH_TTL'',
      cf_minioEndpoint = env ''MINIO_ENDPOINT'',
      cf_minioPort = number_or (env ''MINIO_PORT'') 9000,
      cf_minioUseSsl = (env ''MINIO_USE_SSL'' = Some ''true''),
      cf_minioAccessKey = env ''MINIO_ACCESS_KEY'',
      cf_minioSecretKey = env ''MINIO_SECRET_KEY'',
      cf_minioBucketDocuments = env ''MINIO_BUCKET_DOCUMENTS'',
      cf_minioBucketExports = env ''MINIO_BUCKET_EXPORTS'',
      cf_ollamaUrl = env ''OLLAMA_URL'',
      cf_healthFastapi = env ''FASTAPI_HEALTH_URL'',
      cf_healthFastapiInternal = env ''FASTAPI_INTERNAL_URL'',
      cf_healthElsa = env ''ELSA_HEALTH_URL'',
      cf_corsOrigin = env ''CORS_ORIGIN'',
      cf_devBypassAuth = (env ''DEV_BYPASS_AUTH'' = Some ''true''),
      cf_throttleTtl = number_or (env ''THROTTLE_TTL'') 60,
      cf_throttleLimit = number_or (env ''THROTTLE_LIMIT'') 120,
      cf_logLevel = text_or (env ''LOG_LEVEL'') ''info''\<rparr>"

text \<open>\<open>ConfigService.get\<close> by the path of a key, for texts.\<close>

definition config_text :: "Config \<Rightarrow> string \<Rightarrow> string option" where
  "config_text c path = Option.bind (map_of
     [(''database.url'', cf_databaseUrl c), (''nats.url'', cf_natsUrl c), (''nats.streamName'', cf_natsStreamName c),
      (''nats.user'', cf_natsUser c), (''nats.password'', cf_natsPassword c), (''jwt.accessSecret'', cf_jwtAccessSecret c),
      (''jwt.refreshSecret'', cf_jwtRefreshSecret c), (''jwt.accessTtl'', cf_jwtAccessTtl c),
      (''jwt.refreshTtl'', cf_jwtRefreshTtl c), (''minio.endpoint'', cf_minioEndpoint c),
      (''minio.accessKey'', cf_minioAccessKey c), (''minio.secretKey'', cf_minioSecretKey c),
      (''minio.bucketDocuments'', cf_minioBucketDocuments c), (''minio.bucketExports'', cf_minioBucketExports c),
      (''ollama.url'', cf_ollamaUrl c), (''health.fastapi'', cf_healthFastapi c),
      (''health.fastapiInternal'', cf_healthFastapiInternal c), (''health.elsa'', cf_healthElsa c),
      (''corsOrigin'', cf_corsOrigin c), (''nodeEnv'', Some (cf_nodeEnv c)), (''logLevel'', Some (cf_logLevel c))] path) id"

section \<open>What the variables must be\<close>

datatype joi_type = Joi_String "string list" bool nat | Joi_Number | Joi_Boolean

text \<open>A text may have to be one of a list (empty: any), an address, or of a least length.\<close>

datatype presence = Required | Optional | DefaultTo string

abbreviation "Joi_Text \<equiv> Joi_String [] False 0"
abbreviation "Joi_Uri \<equiv> Joi_String [] True 0"

definition envSchema :: "(string \<times> joi_type \<times> presence) list" where
  "envSchema =
     [(''NODE_ENV'', Joi_String [''development'', ''test'', ''production''] False 0, Required),
      (''PORT'', Joi_Number, Required),
      (''DATABASE_URL'', Joi_Uri, Required),
      (''NATS_URL'', Joi_Uri, Required),
      (''NATS_STREAM_NAME'', Joi_Text, DefaultTo ''FLOWFORGE''),
      (''NATS_USER'', Joi_Text, Optional),
      (''NATS_PASSWORD'', Joi_Text, Optional),
      (''JWT_ACCESS_SECRET'', Joi_String [] False 32, Required),
      (''JWT_REFRESH_SECRET'', Joi_String [] False 32, Required),
      (''JWT_ACCESS_TTL'', Joi_Text, DefaultTo ''15m''),
      (''JWT_REFRESH_TTL'', Joi_Text, DefaultTo ''7d''),
      (''MINIO_ENDPOINT'', Joi_Text, Required),
      (''MINIO_PORT'', Joi_Number, DefaultTo ''9000''),
      (''MINIO_USE_SSL'', Joi_Boolean, DefaultTo ''false''),
      (''MINIO_ACCESS_KEY'', Joi_Text, Required),
      (''MINIO_SECRET_KEY'', Joi_Text, Required),
      (''MINIO_BUCKET_DOCUMENTS'', Joi_Text, DefaultTo ''documents''),
      (''MINIO_BUCKET_EXPORTS'', Joi_Text, DefaultTo ''exports''),
      (''OLLAMA_URL'', Joi_Uri, Optional),
      (''FASTAPI_HEALTH_URL'', Joi_Uri, Optional),
      (''FASTAPI_INTERNAL_URL'', Joi_Uri, Optional),
      (''ELSA_HEALTH_URL'', Joi_Uri, Optional),
      (''CORS_ORIGIN'', Joi_Text, DefaultTo ''http://localhost:3001''),
      (''DEV_BYPASS_AUTH'', Joi_Boolean, DefaultTo ''false''),
      (''THROTTLE_TTL'', Joi_Number, DefaultTo ''60''),
      (''THROTTLE_LIMIT'', Joi_Number, DefaultTo ''120''),
      (''LOG_LEVEL'', Joi_String [''trace'', ''debug'', ''info'', ''warn'', ''error''] False 0, DefaultTo ''info'')]"

record joi =
  joi_number :: "string \<Rightarrow> bool"
  joi_boolean :: "string \<Rightarrow> bool"
  joi_uri :: "string \<Rightarrow> bool"

text \<open>Joi refuses an empty text.\<close>

fun value_ok :: "joi \<Rightarrow> joi_type \<Rightarrow> string \<Rightarrow> bool" where
  "value_ok j (Joi_String texts uri least) v \<longleftrightarrow>
     v \<noteq> [] \<and> (texts = [] \<or> v \<in> set texts) \<and> (uri \<longrightarrow> joi_uri j v) \<and> least \<le> length v"
| "value_ok j Joi_Number v \<longleftrightarrow> joi_number j v"
| "value_ok j Joi_Boolean v \<longleftrightarrow> joi_boolean j v"

definition variable_ok :: "joi \<Rightarrow> env \<Rightarrow> string \<times> joi_type \<times> presence \<Rightarrow> bool" where
  "variable_ok j env = (\<lambda>(name, type, presence).
     case env name of None \<Rightarrow> presence \<noteq> Required | Some v \<Rightarrow> value_ok j type v)"

definition with_default :: "string \<times> joi_type \<times> presence \<Rightarrow> env \<Rightarrow> env" where
  "with_default = (\<lambda>(name, type, presence) env.
     case presence of
       DefaultTo d \<Rightarrow> (if env name = None then env(name \<mapsto> d) else env)
     | _ \<Rightarrow> env)"

text \<open>The configuration module validates the variables and puts the defaults of the missing ones into the environment.\<close>

definition validated :: "joi \<Rightarrow> env \<Rightarrow> env option" where
  "validated j env = (if list_all (variable_ok j env) envSchema then Some (fold with_default envSchema env) else None)"

section \<open>The logger\<close>

record LoggerOptions =
  lo_level :: string
  lo_redact :: "string list"
  lo_pretty :: bool

definition logger_options :: "env \<Rightarrow> LoggerOptions" where
  "logger_options env =
     \<lparr>lo_level = text_or (env ''LOG_LEVEL'') ''info'',
      lo_redact = [''req.headers.authorization'', ''req.headers.cookie'', ''*.password'', ''*.password_hash'', ''*.token'',
        ''*.refresh_token'', ''*.access_token'', ''*.secret''],
      lo_pretty = (env ''NODE_ENV'' \<noteq> Some ''production'')\<rparr>"

section \<open>The start\<close>

datatype cors_origin = Any_Origin | Origins "string list"

record application =
  ap_cors :: cors_origin
  ap_prefix :: string
  ap_swagger :: bool
  ap_port :: string

definition bootstrap :: "env \<Rightarrow> string + application" where
  "bootstrap env =
     (let corsOrigin = (case env ''CORS_ORIGIN'' of None \<Rightarrow> [''http://localhost:3001''] | Some s \<Rightarrow> split_by (CHR '','') s) in
      if env ''NODE_ENV'' = Some ''production'' \<and> env ''DEV_BYPASS_AUTH'' = Some ''true''
      then Inl ''Refusing to boot with DEV_BYPASS_AUTH=true in production''
      else if env ''NODE_ENV'' = Some ''production'' \<and> ''*'' \<in> set corsOrigin
      then Inl ''Wildcard CORS origin is not allowed in production''
      else Inr \<lparr>ap_cors = (if env ''NODE_ENV'' = Some ''production'' then Origins corsOrigin else Any_Origin),
                ap_prefix = ''api'', ap_swagger = (env ''ENABLE_SWAGGER'' \<noteq> Some ''false''),
                ap_port = text_or (env ''PORT'') ''3000''\<rparr>)"

text \<open>The address of the database that the migrations run against from the command line.\<close>

definition migration_url :: "env \<Rightarrow> string option" where
  "migration_url env = (case env ''MIGRATION_DATABASE_URL'' of None \<Rightarrow> env ''DATABASE_URL'' | Some u \<Rightarrow> Some u)"

section \<open>Properties\<close>

text \<open>The default of a variable in a schema.\<close>

fun default_in :: "(string \<times> joi_type \<times> presence) list \<Rightarrow> string \<Rightarrow> string option" where
  "default_in [] x = None"
| "default_in ((name, type, DefaultTo d) # ks) x = (if name = x then Some d else default_in ks x)"
| "default_in ((name, type, p) # ks) x = default_in ks x"

lemma with_default_run [simp]:
  "with_default (name, ty, Required) env = env" "with_default (name, ty, Optional) env = env"
  "with_default (name, ty, DefaultTo d) env = (if env name = None then env(name \<mapsto> d) else env)"
  by (simp_all add: with_default_def)

lemma defaults_filled: "fold with_default ks env x = (case env x of None \<Rightarrow> default_in ks x | Some v \<Rightarrow> Some v)"
proof (induction ks arbitrary: env)
  case (Cons k ks)
  obtain name ty p where k: "k = (name, ty, p)" by (cases k)
  show ?case by (cases p) (auto simp: k Cons.IH split: option.splits)
qed (simp split: option.splits)

lemma validated_variable:
  assumes "validated j env = Some env'" "(name, ty, p) \<in> set envSchema"
  shows "env' name = (case env name of None \<Rightarrow> default_in envSchema name | Some v \<Rightarrow> Some v)" "variable_ok j env (name, ty, p)"
  using assms by (auto simp: validated_def list_all_iff defaults_filled split: if_splits)

definition demanded_texts :: "(string \<times> string) list" where
  "demanded_texts =
     [(''database.url'', ''DATABASE_URL''), (''nats.url'', ''NATS_URL''), (''jwt.accessSecret'', ''JWT_ACCESS_SECRET''),
      (''minio.endpoint'', ''MINIO_ENDPOINT''), (''minio.accessKey'', ''MINIO_ACCESS_KEY''),
      (''minio.secretKey'', ''MINIO_SECRET_KEY''), (''minio.bucketDocuments'', ''MINIO_BUCKET_DOCUMENTS'')]"

lemma demanded_variable:
  assumes "validated j env = Some env'" "(name, Joi_String ts uri n, p) \<in> set envSchema" "p = Optional \<Longrightarrow> False"
    "\<And>d. p = DefaultTo d \<Longrightarrow> default_in envSchema name = Some d \<and> d \<noteq> [] \<and> n \<le> length d \<and> (ts = [] \<or> d \<in> set ts)"
  shows "\<exists>v. env' name = Some v \<and> v \<noteq> [] \<and> n \<le> length v \<and> (ts = [] \<or> v \<in> set ts)"
  using validated_variable [OF assms(1,2)] assms(3,4)
  by (cases p) (auto simp: variable_ok_def split: option.splits)

lemma config_text_demanded:
  "config_text (configuration env) ''database.url'' = env ''DATABASE_URL''" "config_text (configuration env) ''nats.url'' = env ''NATS_URL''"
  "config_text (configuration env) ''jwt.accessSecret'' = env ''JWT_ACCESS_SECRET''"
  "config_text (configuration env) ''minio.endpoint'' = env ''MINIO_ENDPOINT''"
  "config_text (configuration env) ''minio.accessKey'' = env ''MINIO_ACCESS_KEY''"
  "config_text (configuration env) ''minio.secretKey'' = env ''MINIO_SECRET_KEY''"
  "config_text (configuration env) ''minio.bucketDocuments'' = env ''MINIO_BUCKET_DOCUMENTS''"
  by (simp_all add: config_text_def configuration_def Option.bind_def)

lemma number_or_nonzero: "d \<noteq> 0 \<Longrightarrow> number_or v d \<noteq> 0"
  by (simp add: number_or_def split: option.splits)

lemma config_fields:
  "cf_jwtAccessSecret (configuration env) = env ''JWT_ACCESS_SECRET''" "cf_jwtRefreshSecret (configuration env) = env ''JWT_REFRESH_SECRET''"
  "0 \<notin> {cf_port (configuration env), cf_minioPort (configuration env), cf_throttleTtl (configuration env),
      cf_throttleLimit (configuration env)}"
  "env ''NODE_ENV'' = Some v \<Longrightarrow> v \<noteq> [] \<Longrightarrow> cf_nodeEnv (configuration env) = v"
  "env ''LOG_LEVEL'' = Some v \<Longrightarrow> v \<noteq> [] \<Longrightarrow> cf_logLevel (configuration env) = v"
  "env ''THROTTLE_LIMIT'' = Some v \<Longrightarrow> cf_throttleLimit (configuration env) = number_or (Some v) 120"
  by (simp_all add: configuration_def number_or_nonzero text_or_def truthy_def)

text \<open>Validated configuration. Once the environment is validated, every key that a service asks for with \<open>getOrThrow\<close> has a
value, and a text among them is not empty: no service fails for want of configuration. The token secrets have at least 32
characters, the environment and the log level are among those listed, and no port or limit is zero - a limit of zero becomes the
default one.\<close>

theorem validated_configuration:
  assumes "validated j env = Some env'"
  shows "list_all (\<lambda>(path, name). \<exists>v. config_text (configuration env') path = Some v \<and> v \<noteq> []) demanded_texts \<and>
    (\<exists>s r. cf_jwtAccessSecret (configuration env') = Some s \<and> cf_jwtRefreshSecret (configuration env') = Some r \<and>
      32 \<le> length s \<and> 32 \<le> length r) \<and>
    cf_nodeEnv (configuration env') \<in> {''development'', ''test'', ''production''} \<and>
    cf_logLevel (configuration env') \<in> {''trace'', ''debug'', ''info'', ''warn'', ''error''} \<and>
    0 \<notin> {cf_port (configuration env'), cf_minioPort (configuration env'), cf_throttleTtl (configuration env'),
      cf_throttleLimit (configuration env')} \<and>
    (env ''THROTTLE_LIMIT'' = Some ''0'' \<longrightarrow> cf_throttleLimit (configuration env') = 120)"
proof -
  note demanded = demanded_variable [OF assms]
  have "list_all (\<lambda>(path, name). \<exists>v. env' name = Some v \<and> v \<noteq> []) demanded_texts"
    using demanded [of "''DATABASE_URL''" "[]" True 0 Required] demanded [of "''NATS_URL''" "[]" True 0 Required]
      demanded [of "''JWT_ACCESS_SECRET''" "[]" False 32 Required] demanded [of "''MINIO_ENDPOINT''" "[]" False 0 Required]
      demanded [of "''MINIO_ACCESS_KEY''" "[]" False 0 Required] demanded [of "''MINIO_SECRET_KEY''" "[]" False 0 Required]
      demanded [of "''MINIO_BUCKET_DOCUMENTS''" "[]" False 0 "DefaultTo ''documents''"]
    by (simp add: demanded_texts_def envSchema_def) blast
  then have keys: "list_all (\<lambda>(path, name). \<exists>v. config_text (configuration env') path = Some v \<and> v \<noteq> []) demanded_texts"
    by (simp add: demanded_texts_def config_text_demanded)
  have secrets: "\<exists>s r. env' ''JWT_ACCESS_SECRET'' = Some s \<and> env' ''JWT_REFRESH_SECRET'' = Some r \<and> 32 \<le> length s \<and> 32 \<le> length r"
    using demanded [of "''JWT_ACCESS_SECRET''" "[]" False 32 Required] demanded [of "''JWT_REFRESH_SECRET''" "[]" False 32 Required]
    by (simp add: envSchema_def) blast
  have "\<exists>v. env' ''NODE_ENV'' = Some v \<and> v \<in> {''development'', ''test'', ''production''}"
    using demanded [of "''NODE_ENV''" "[''development'', ''test'', ''production'']" False 0 Required] by (auto simp: envSchema_def)
  moreover have "\<exists>v. env' ''LOG_LEVEL'' = Some v \<and> v \<in> {''trace'', ''debug'', ''info'', ''warn'', ''error''}"
    using demanded [of "''LOG_LEVEL''" "[''trace'', ''debug'', ''info'', ''warn'', ''error'']" False 0 "DefaultTo ''info''"]
    by (auto simp: envSchema_def)
  moreover have "env ''THROTTLE_LIMIT'' = Some ''0'' \<Longrightarrow> env' ''THROTTLE_LIMIT'' = Some ''0''"
    using validated_variable(1) [OF assms, of "''THROTTLE_LIMIT''" Joi_Number "DefaultTo ''120''"] by (simp add: envSchema_def)
  moreover have "number_or (Some ''0'') 120 = 120" by code_simp
  ultimately have "cf_nodeEnv (configuration env') \<in> {''development'', ''test'', ''production''}"
    "cf_logLevel (configuration env') \<in> {''trace'', ''debug'', ''info'', ''warn'', ''error''}"
    "env ''THROTTLE_LIMIT'' = Some ''0'' \<longrightarrow> cf_throttleLimit (configuration env') = 120"
    using config_fields(4-6) [of env'] by (fastforce+)
  then show ?thesis
    using keys secrets config_fields(3) [of env'] unfolding config_fields(1,2) by (intro conjI)
qed

definition sample_env :: env where
  "sample_env =
     [''NODE_ENV'' \<mapsto> ''production'', ''PORT'' \<mapsto> ''3000'', ''DATABASE_URL'' \<mapsto> ''postgres://db'', ''NATS_URL'' \<mapsto> ''nats://nats'',
      ''JWT_ACCESS_SECRET'' \<mapsto> replicate 32 (CHR ''a''), ''JWT_REFRESH_SECRET'' \<mapsto> replicate 40 (CHR ''r''),
      ''MINIO_ENDPOINT'' \<mapsto> ''minio'', ''MINIO_ACCESS_KEY'' \<mapsto> ''minio'', ''MINIO_SECRET_KEY'' \<mapsto> ''secret'', ''THROTTLE_LIMIT'' \<mapsto> ''0'']"

definition sample_joi :: joi where
  "sample_joi = \<lparr>joi_number = (\<lambda>s. parse_digits s \<noteq> None), joi_boolean = (\<lambda>s. s \<in> {''true'', ''false''}), joi_uri = (\<lambda>s. CHR '':'' \<in> set s)\<rparr>"

lemma sample_validated: "validated sample_joi sample_env = Some (fold with_default envSchema sample_env)"
proof -
  have "list_all (variable_ok sample_joi sample_env) envSchema"
    by (simp add: envSchema_def variable_ok_def sample_env_def sample_joi_def parse_digits_def is_digit_def)
  then show ?thesis by (simp add: validated_def)
qed

theorem validated_configuration_witness:
  "cf_throttleLimit (configuration (fold with_default envSchema sample_env)) = 120 \<and>
   cf_logLevel (configuration (fold with_default envSchema sample_env)) \<in> {''trace'', ''debug'', ''info'', ''warn'', ''error''} \<and>
   sample_env ''LOG_LEVEL'' = None"
  using validated_configuration [OF sample_validated] by (simp add: sample_env_def)



end
