(* ===== verification/Nats_Client.thy ===== *)
theory Nats_Client
  imports Nats Configuration
begin

text \<open>
  The connection to NATS (\<open>src/infra/nats/nats.client.ts\<close>), the subjects and consumers of
  \<open>src/core/messaging/subjects.ts\<close>, and the subscriptions the services make when the application starts. The NATS library and
  server are parameters.
\<close>

section \<open>Subjects\<close>

definition SUBJECTS :: "(string \<times> string) list" where
  "SUBJECTS =
     [(''AI_TASKS_NEW'', ''ai.tasks.new''), (''AI_TASKS_RESULT'', ''ai.tasks.result''),
      (''AI_TASKS_PROGRESS'', ''ai.tasks.progress''), (''AI_TASKS_DIVERGENCE'', ''ai.tasks.divergence''),
      (''AI_TASKS_DIVERGENCE_RESULT'', ''ai.tasks.divergence.result''), (''AI_CONTEXT_LOAD'', ''ai.context.load''),
      (''DOCUMENT_PREPROCESS'', ''document.preprocess''), (''DOCUMENT_PREPROCESS_RESULT'', ''document.preprocess.result''),
      (''WORKFLOW_UPDATED'', ''workflow.events.updated''), (''SESSION_FINALIZED'', ''session.events.finalized''),
      (''SYSTEM_HEALTH_PING'', ''system.health.ping''), (''DEAD_LETTER_PREFIX'', ''dead.flowforge.'')]"

definition CONSUMERS :: "(string \<times> string) list" where
  "CONSUMERS =
     [(''AI_RESULT'', ''nestjs-ai-result''), (''AI_PROGRESS'', ''nestjs-ai-progress''),
      (''DIVERGENCE_RESULT'', ''nestjs-divergence-result''),
      (''DOCUMENT_PREPROCESS_RESULT'', ''nestjs-document-preprocess-result''), (''HEALTH_PING'', ''nestjs-health-ping'')]"

definition STREAM_SUBJECTS :: "string list" where
  "STREAM_SUBJECTS =
     [''ai.tasks.*'', ''ai.tasks.>'', ''ai.context.*'', ''document.*'', ''document.>'', ''workflow.events.*'',
      ''session.events.*'', ''system.health.*'', ''dead.flowforge.>'']"

definition named :: "(string \<times> string) list \<Rightarrow> string \<Rightarrow> string" where
  "named ps key = the (map_of ps key)"

text \<open>A subject is a list of tokens. In a pattern \<open>*\<close> stands for one token and a final \<open>>\<close> for one or more.\<close>

definition tokens :: "string \<Rightarrow> string list" where
  "tokens s = split_by (CHR ''.'') s"

fun captures :: "string list \<Rightarrow> string list \<Rightarrow> bool" where
  "captures [] [] \<longleftrightarrow> True"
| "captures [] (t # ts) \<longleftrightarrow> False"
| "captures (p # ps) [] \<longleftrightarrow> False"
| "captures (p # ps) (t # ts) \<longleftrightarrow> p = ''>'' \<and> ps = [] \<or> (p = ''*'' \<or> p = t) \<and> captures ps ts"

fun overlapping :: "string list \<Rightarrow> string list \<Rightarrow> bool" where
  "overlapping [] [] \<longleftrightarrow> True"
| "overlapping [] (q # qs) \<longleftrightarrow> False"
| "overlapping (p # ps) [] \<longleftrightarrow> False"
| "overlapping (p # ps) (q # qs) \<longleftrightarrow>
     p = ''>'' \<and> ps = [] \<or> q = ''>'' \<and> qs = [] \<or> (p = ''*'' \<or> q = ''*'' \<or> p = q) \<and> overlapping ps qs"

lemma captures_self: "captures ps ps"
  by (induction ps) auto

lemma overlapping_captures: "captures ps ts \<Longrightarrow> captures qs ts \<Longrightarrow> overlapping ps qs"
proof (induction ps qs arbitrary: ts rule: overlapping.induct)
  case (4 p ps q qs)
  then show ?case by (cases ts) auto
qed (auto elim!: captures.elims)

lemma captures_rest: "captures [''>''] ts \<longleftrightarrow> ts \<noteq> []"
  by (cases ts) auto

lemma overlapping_witness: "overlapping ps qs \<Longrightarrow> \<exists>ts. captures ps ts \<and> captures qs ts"
proof (induction ps qs rule: overlapping.induct)
  case 1
  show ?case by (rule exI [of _ "[]"]) simp
next
  case (4 p ps q qs)
  show ?case
  proof (cases "p # ps = [''>''] \<or> q # qs = [''>'']")
    case True
    then have "captures (p # ps) (q # qs) \<or> captures (q # qs) (p # ps)" using captures_rest by auto
    then show ?thesis using captures_self by blast
  next
    case False
    then have "p = ''*'' \<or> q = ''*'' \<or> p = q" "overlapping ps qs" using 4(2) by auto
    moreover obtain ts where "captures ps ts" "captures qs ts" using 4(1) False \<open>overlapping ps qs\<close> by auto
    ultimately have "captures (p # ps) ((if p = ''*'' then q else p) # ts)" "captures (q # qs) ((if p = ''*'' then q else p) # ts)"
      by auto
    then show ?thesis by blast
  qed
qed auto

text \<open>Two patterns overlap exactly when some subject is captured by both.\<close>

lemma overlapping_iff: "overlapping ps qs \<longleftrightarrow> (\<exists>ts. captures ps ts \<and> captures qs ts)"
  using overlapping_witness overlapping_captures by blast

definition captured :: "string list \<Rightarrow> string \<Rightarrow> bool" where
  "captured subjects s \<longleftrightarrow> (\<exists>p \<in> set subjects. captures (tokens p) (tokens s))"

text \<open>Some two of the subjects overlap.\<close>

fun clashing :: "string list \<Rightarrow> bool" where
  "clashing [] \<longleftrightarrow> False"
| "clashing (p # ps) \<longleftrightarrow> (\<exists>q \<in> set ps. overlapping (tokens p) (tokens q)) \<or> clashing ps"

lemma stream_subjects_clash: "clashing STREAM_SUBJECTS"
  by code_simp

section \<open>The client\<close>

record connect_options =
  co_servers :: string
  co_user :: "string option"
  co_pass :: "string option"
  co_timeout :: nat
  co_maxReconnectAttempts :: int
  co_reconnectTimeWait :: nat

record consumer_config =
  cc_durable_name :: string
  cc_filter_subject :: "string option"
  cc_deliver_subject :: string
  cc_ack_policy :: string
  cc_ack_wait :: nat
  cc_max_deliver :: nat
  cc_deliver_policy :: string

text \<open>
  What the client calls: the library with the server behind it, whose state is \<open>'s\<close>. \<open>nl_connect\<close> also gets the number of
  the attempt; an error is its message.
\<close>

record 's nats_library =
  nl_connect :: "connect_options \<Rightarrow> nat \<Rightarrow> string + unit"
  nl_manager :: "'s \<Rightarrow> string + 's"
  nl_addStream :: "string \<Rightarrow> string list \<Rightarrow> 's \<Rightarrow> string + 's"
  nl_addConsumer :: "string \<Rightarrow> consumer_config \<Rightarrow> 's \<Rightarrow> string + 's"
  nl_subscribe :: "string \<Rightarrow> string \<Rightarrow> consumer_config \<Rightarrow> 's \<Rightarrow> string + 's"
  nl_publish :: "string \<Rightarrow> json \<Rightarrow> string \<Rightarrow> 's \<Rightarrow> string + 's"
  nl_drain :: "'s \<Rightarrow> string + 's"

text \<open>
  The state: the connection promise with how it settled, the number of connections attempted, the server, and the subscriber
  loops that run (owner, subject, durable name).
\<close>

record 's client =
  nc_connectionPromise :: "(string + unit) option"
  nc_attempts :: nat
  nc_server :: 's
  nc_running :: "(string \<times> string \<times> string) list"

type_synonym ('s, 'a) client_action = "('s client, string, 'a) action"

text \<open>The settings are the texts of the configuration by their keys, \<open>config_text (configuration env)\<close>.\<close>

type_synonym settings = "string \<Rightarrow> string option"

definition connect :: "'s nats_library \<Rightarrow> settings \<Rightarrow> nat \<Rightarrow> string + unit" where
  "connect lib cfg n =
     (case cfg ''nats.url'' of
        None \<Rightarrow> Inl ''Configuration key \"nats.url\" does not exist''
      | Some servers \<Rightarrow> nl_connect lib \<lparr>co_servers = servers, co_user = cfg ''nats.user'', co_pass = cfg ''nats.password'',
          co_timeout = 60000, co_maxReconnectAttempts = -1, co_reconnectTimeWait = 2000\<rparr> n)"

definition getConnection :: "'s nats_library \<Rightarrow> settings \<Rightarrow> ('s, unit) client_action" where
  "getConnection lib cfg c =
     (case nc_connectionPromise c of
        Some r \<Rightarrow> (r, c)
      | None \<Rightarrow>
          let r = connect lib cfg (nc_attempts c)
          in (r, c\<lparr>nc_connectionPromise := Some r, nc_attempts := nc_attempts c + 1\<rparr>))"

text \<open>A call of the server.\<close>

definition calling :: "('s \<Rightarrow> string + 's) \<Rightarrow> ('s, unit) client_action" where
  "calling f c = (case f (nc_server c) of Inl e \<Rightarrow> (Inl e, c) | Inr s \<Rightarrow> (Inr (), c\<lparr>nc_server := s\<rparr>))"

fun in_sequence :: "('s, unit) client_action list \<Rightarrow> ('s, unit) client_action" where
  "in_sequence [] = ret ()"
| "in_sequence (m # ms) = andThen m (\<lambda>_. in_sequence ms)"

text \<open>\<open>Promise.all\<close> starts all of them and fails when one fails.\<close>

fun all_of :: "('s, unit) client_action list \<Rightarrow> ('s, unit) client_action" where
  "all_of [] = ret ()"
| "all_of (m # ms) = (\<lambda>c. case m c of (r, d) \<Rightarrow> case all_of ms d of (q, e) \<Rightarrow> (case r of Inl x \<Rightarrow> Inl x | Inr _ \<Rightarrow> q, e))"

text \<open>A failure that is logged and otherwise ignored.\<close>

definition caught :: "('s, unit) client_action \<Rightarrow> ('s, unit) client_action" where
  "caught m c = (Inr (), snd (m c))"

definition stream_name :: "settings \<Rightarrow> string" where
  "stream_name cfg = (case cfg ''nats.streamName'' of None \<Rightarrow> ''FLOWFORGE'' | Some n \<Rightarrow> n)"

definition durable_config :: "string option \<Rightarrow> string \<Rightarrow> consumer_config" where
  "durable_config filter_subject durableName =
     \<lparr>cc_durable_name = durableName, cc_filter_subject = filter_subject, cc_deliver_subject = ''deliver.'' @ durableName,
      cc_ack_policy = ''explicit'', cc_ack_wait = 30 * 1000000000, cc_max_deliver = 3, cc_deliver_policy = ''new''\<rparr>"

definition publish_message :: "'s nats_library \<Rightarrow> settings \<Rightarrow> string \<Rightarrow> json \<Rightarrow> string \<Rightarrow> ('s, unit) client_action" where
  "publish_message lib cfg subject payload msgId =
     andThen (getConnection lib cfg) (\<lambda>_. calling (nl_publish lib subject payload msgId))"

definition ensured_consumers :: "(string \<times> string) list" where
  "ensured_consumers =
     [(''ai.tasks.result'', named CONSUMERS ''AI_RESULT''), (''ai.tasks.progress'', named CONSUMERS ''AI_PROGRESS''),
      (''ai.tasks.divergence.result'', named CONSUMERS ''DIVERGENCE_RESULT''),
      (''document.preprocess.result'', named CONSUMERS ''DOCUMENT_PREPROCESS_RESULT''),
      (''system.health.ping'', named CONSUMERS ''HEALTH_PING'')]"

definition ensureStreamAndConsumers :: "'s nats_library \<Rightarrow> settings \<Rightarrow> ('s, unit) client_action" where
  "ensureStreamAndConsumers lib cfg =
     andThen (getConnection lib cfg) (\<lambda>_.
     andThen (calling (nl_manager lib)) (\<lambda>_.
     andThen (caught (calling (nl_addStream lib (stream_name cfg) STREAM_SUBJECTS))) (\<lambda>_.
     in_sequence (map (\<lambda>(subject, durable).
         caught (calling (nl_addConsumer lib (stream_name cfg) (durable_config (Some subject) durable))))
       ensured_consumers))))"

definition subscribeDurable :: "'s nats_library \<Rightarrow> settings \<Rightarrow> string \<Rightarrow> string \<times> string \<Rightarrow> ('s, unit) client_action" where
  "subscribeDurable lib cfg owner = (\<lambda>(subject, durable).
     andThen (getConnection lib cfg) (\<lambda>_.
     andThen (calling (nl_subscribe lib subject (stream_name cfg) (durable_config None durable))) (\<lambda>_.
     writing (nc_running_update (\<lambda>xs. xs @ [(owner, subject, durable)])))))"

definition onModuleDestroy :: "'s nats_library \<Rightarrow> ('s, unit) client_action" where
  "onModuleDestroy lib c =
     (case nc_connectionPromise c of
        None \<Rightarrow> (Inr (), c)
      | Some (Inl e) \<Rightarrow> (Inl e, c)
      | Some (Inr _) \<Rightarrow> calling (nl_drain lib) c)"

section \<open>The start of the application\<close>

datatype subscriber = Bridge | Health_Service | Documents_Subscriber | Ai_Gateway_Subscriber

fun owner_name :: "subscriber \<Rightarrow> string" where
  "owner_name Bridge = ''NatsWsBridgeService''"
| "owner_name Health_Service = ''HealthService''"
| "owner_name Documents_Subscriber = ''DocumentPreprocessSubscriberService''"
| "owner_name Ai_Gateway_Subscriber = ''AIGatewaySubscriberService''"

definition bridge_subscriptions :: "(string \<times> string) list" where
  "bridge_subscriptions =
     [(named SUBJECTS ''AI_TASKS_PROGRESS'', named CONSUMERS ''AI_PROGRESS'' @ ''-ws''),
      (named SUBJECTS ''WORKFLOW_UPDATED'', ''nestjs-workflow-updated-ws''),
      (named SUBJECTS ''SESSION_FINALIZED'', ''nestjs-session-finalized-ws''),
      (named SUBJECTS ''DOCUMENT_PREPROCESS_RESULT'', named CONSUMERS ''DOCUMENT_PREPROCESS_RESULT'' @ ''-ws''),
      (named SUBJECTS ''SYSTEM_HEALTH_PING'', named CONSUMERS ''HEALTH_PING'' @ ''-ws'')]"

definition health_subscription :: "string \<times> string" where
  "health_subscription = (''system.health.ping'', named CONSUMERS ''HEALTH_PING'')"

definition documents_subscription :: "string \<times> string" where
  "documents_subscription = (named SUBJECTS ''DOCUMENT_PREPROCESS_RESULT'', named CONSUMERS ''DOCUMENT_PREPROCESS_RESULT'')"

definition ai_subscriptions :: "(string \<times> string) list" where
  "ai_subscriptions =
     [(named SUBJECTS ''AI_TASKS_RESULT'', named CONSUMERS ''AI_RESULT''),
      (named SUBJECTS ''AI_TASKS_PROGRESS'', named CONSUMERS ''AI_PROGRESS''),
      (named SUBJECTS ''AI_TASKS_DIVERGENCE_RESULT'', named CONSUMERS ''DIVERGENCE_RESULT''),
      (named SUBJECTS ''SYSTEM_HEALTH_PING'', named CONSUMERS ''HEALTH_PING'')]"

fun subscriptions_of :: "subscriber \<Rightarrow> (string \<times> string) list" where
  "subscriptions_of Bridge = bridge_subscriptions"
| "subscriptions_of Health_Service = [health_subscription]"
| "subscriptions_of Documents_Subscriber = [documents_subscription]"
| "subscriptions_of Ai_Gateway_Subscriber = ai_subscriptions"

text \<open>The \<open>onModuleInit\<close> hooks.\<close>

fun init_hook :: "'s nats_library \<Rightarrow> settings \<Rightarrow> subscriber \<Rightarrow> ('s, unit) client_action" where
  "init_hook lib cfg Bridge = all_of (map (subscribeDurable lib cfg (owner_name Bridge)) bridge_subscriptions)"
| "init_hook lib cfg Health_Service = caught (subscribeDurable lib cfg (owner_name Health_Service) health_subscription)"
| "init_hook lib cfg Documents_Subscriber =
     subscribeDurable lib cfg (owner_name Documents_Subscriber) documents_subscription"
| "init_hook lib cfg Ai_Gateway_Subscriber =
     in_sequence (map (subscribeDurable lib cfg (owner_name Ai_Gateway_Subscriber)) ai_subscriptions)"

text \<open>The framework awaits the hooks one after the other, in an order of its own, and stops at the first that fails.\<close>

definition start_up :: "'s nats_library \<Rightarrow> settings \<Rightarrow> subscriber list \<Rightarrow> ('s, unit) client_action" where
  "start_up lib cfg order = in_sequence (map (init_hook lib cfg) order)"

end
