(* ===== verification/Nats_Correct.thy ===== *)
theory Nats_Correct
  imports Nats_Client
begin

text \<open>
  Properties of the NATS client: what ensuring the stream does, and when the application starts.
\<close>

section \<open>Running the client\<close>

lemma calling_run [run_simps]:
  "calling f c = (case f (nc_server c) of Inl e \<Rightarrow> (Inl e, c) | Inr s \<Rightarrow> (Inr (), c\<lparr>nc_server := s\<rparr>))"
  by (simp add: calling_def)

lemma caught_run [run_simps]: "caught m c = (Inr (), snd (m c))"
  by (simp add: caught_def)

lemma getConnection_again:
  "getConnection lib cfg c = (r, d) \<Longrightarrow> nc_connectionPromise d = Some r \<and> nc_server d = nc_server c \<and> nc_running d = nc_running c"
  by (auto simp: getConnection_def Let_def split: option.splits)

lemma getConnection_settled: "nc_connectionPromise c = Some r \<Longrightarrow> getConnection lib cfg c = (r, c)"
  by (simp add: getConnection_def)

section \<open>Ensuring the stream\<close>

lemma in_sequence_idle: "list_all (\<lambda>m. m c = (Inr (), c)) ms \<Longrightarrow> in_sequence ms c = (Inr (), c)"
  by (induction ms) (simp_all add: run_simps)

lemma caught_refused: "\<exists>e. f (nc_server c) = Inl e \<Longrightarrow> caught (calling f) c = (Inr (), c)"
  by (auto simp: run_simps)

text \<open>Ensuring the stream. Every subject the back end uses is captured by the stream's list of subjects, but two entries
of that list overlap. On a server that refuses a stream with overlapping subjects, and consumers of a stream that is not
there, \<open>ensureStreamAndConsumers\<close> creates nothing, and says nothing: it fails only when the connection or the manager does.\<close>

theorem ensuring_creates_nothing:
  assumes "\<And>n ss s. clashing ss \<Longrightarrow> \<exists>e. nl_addStream lib n ss s = Inl e"
    "\<And>n cc s. n \<notin> streams s \<Longrightarrow> \<exists>e. nl_addConsumer lib n cc s = Inl e"
    "\<And>s t. nl_manager lib s = Inr t \<Longrightarrow> t = s"
    "stream_name cfg \<notin> streams (nc_server c)"
  shows "list_all (\<lambda>(key, s). captured STREAM_SUBJECTS s) SUBJECTS \<and>
    nc_server (snd (ensureStreamAndConsumers lib cfg c)) = nc_server c \<and>
    (fst (ensureStreamAndConsumers lib cfg c) = Inr () \<longleftrightarrow>
       fst (getConnection lib cfg c) = Inr () \<and> nl_manager lib (nc_server c) = Inr (nc_server c))"
proof (intro conjI)
  show "list_all (\<lambda>(key, s). captured STREAM_SUBJECTS s) SUBJECTS" by code_simp
  obtain r d where c: "getConnection lib cfg c = (r, d)" by fastforce
  have d: "nc_server d = nc_server c" using getConnection_again [OF c] by blast
  obtain e where "nl_addStream lib (stream_name cfg) STREAM_SUBJECTS (nc_server d) = Inl e"
    using assms(1) [OF stream_subjects_clash] by blast
  moreover have "in_sequence (map (\<lambda>(subject, durable).
      caught (calling (nl_addConsumer lib (stream_name cfg) (durable_config (Some subject) durable)))) ensured_consumers) d =
      (Inr (), d)"
    using assms(2) assms(4) unfolding d [symmetric]
    by (intro in_sequence_idle) (simp add: ensured_consumers_def caught_refused)
  moreover have "nl_manager lib (nc_server d) = Inr t \<Longrightarrow> d\<lparr>nc_server := t\<rparr> = d" for t using assms(3) by (cases d) simp
  ultimately have "ensureStreamAndConsumers lib cfg c =
      (case r of Inl e \<Rightarrow> (Inl e, d)
       | Inr _ \<Rightarrow> (case nl_manager lib (nc_server d) of Inl e \<Rightarrow> (Inl e, d) | Inr _ \<Rightarrow> (Inr (), d)))"
    unfolding ensureStreamAndConsumers_def by (auto simp: run_simps c split: sum.splits)
  then show "nc_server (snd (ensureStreamAndConsumers lib cfg c)) = nc_server c"
    "fst (ensureStreamAndConsumers lib cfg c) = Inr () \<longleftrightarrow>
       fst (getConnection lib cfg c) = Inr () \<and> nl_manager lib (nc_server c) = Inr (nc_server c)"
    using d c assms(3) by (auto split: sum.splits)
qed

text \<open>A server that knows streams and bound durables, and accepts a subject when some stream captures it.\<close>

record server =
  sv_streams :: "(string \<times> string list) list"
  sv_bound :: "string list"

definition sample_library :: "server nats_library" where
  "sample_library =
     \<lparr>nl_connect = (\<lambda>_ _. Inr ()), nl_manager = Inr,
      nl_addStream = (\<lambda>n ss s. if clashing ss then Inl ''subjects overlap'' else Inr (s\<lparr>sv_streams := (n, ss) # sv_streams s\<rparr>)),
      nl_addConsumer = (\<lambda>n cc s. if n \<notin> fst ` set (sv_streams s) then Inl ''stream not found'' else Inr s),
      nl_subscribe = (\<lambda>subject n cc s.
        if (\<exists>(m, ss) \<in> set (sv_streams s). captured ss subject) \<and> cc_durable_name cc \<notin> set (sv_bound s)
        then Inr (s\<lparr>sv_bound := cc_durable_name cc # sv_bound s\<rparr>) else Inl ''refused''),
      nl_publish = (\<lambda>subject payload i s. if (\<exists>(m, ss) \<in> set (sv_streams s). captured ss subject) then Inr s else Inl ''503''),
      nl_drain = Inr\<rparr>"

definition sample_client :: "(string \<times> string list) list \<Rightarrow> server client" where
  "sample_client streams = \<lparr>nc_connectionPromise = None, nc_attempts = 0, nc_server = \<lparr>sv_streams = streams, sv_bound = []\<rparr>, nc_running = []\<rparr>"

definition sample_settings :: settings where
  "sample_settings = [''nats.url'' \<mapsto> ''nats://nats:4222'']"

lemma sample_refusals:
  "clashing ss \<Longrightarrow> nl_addStream sample_library n ss s = Inl ''subjects overlap''"
  "n \<notin> fst ` set (sv_streams s) \<Longrightarrow> nl_addConsumer sample_library n cc s = Inl ''stream not found''"
  by (simp_all add: sample_library_def)

theorem ensuring_creates_nothing_witness:
  "sv_streams (nc_server (snd (ensureStreamAndConsumers sample_library sample_settings (sample_client [])))) = [] \<and>
   fst (ensureStreamAndConsumers sample_library sample_settings (sample_client [])) = Inr ()"
proof -
  have "fst (getConnection sample_library sample_settings (sample_client [])) = Inr ()"
    by (simp add: getConnection_def connect_def Let_def sample_library_def sample_settings_def sample_client_def)
  moreover have "nl_manager sample_library = Inr" "nc_server (sample_client []) = \<lparr>sv_streams = [], sv_bound = []\<rparr>"
    by (simp_all add: sample_library_def sample_client_def)
  ultimately show ?thesis
    using ensuring_creates_nothing [of sample_library "\<lambda>s. fst ` set (sv_streams s)" sample_settings "sample_client []"]
      sample_refusals by simp
qed

section \<open>The start\<close>

definition durables :: "subscriber \<Rightarrow> string list" where
  "durables h = map snd (subscriptions_of h)"

definition needed_subjects :: "string list" where
  "needed_subjects = remdups (map fst (concat (map subscriptions_of [Bridge, Documents_Subscriber, Ai_Gateway_Subscriber])))"

lemma durables_distinct: "distinct (durables h)"
proof -
  have "list_all (\<lambda>h. distinct (durables h)) [Bridge, Health_Service, Documents_Subscriber, Ai_Gateway_Subscriber]" by code_simp
  then show ?thesis by (cases h) auto
qed

lemma durables_shared:
  "h \<noteq> k \<Longrightarrow> d \<in> set (durables h) \<Longrightarrow> d \<in> set (durables k) \<Longrightarrow> {h, k} = {Health_Service, Ai_Gateway_Subscriber}"
proof -
  have "list_all (\<lambda>(h, k). set (durables h) \<inter> set (durables k) = {})
     [(Bridge, Health_Service), (Bridge, Documents_Subscriber), (Bridge, Ai_Gateway_Subscriber),
      (Health_Service, Documents_Subscriber), (Documents_Subscriber, Ai_Gateway_Subscriber)]"
    by code_simp
  then show "h \<noteq> k \<Longrightarrow> d \<in> set (durables h) \<Longrightarrow> d \<in> set (durables k) \<Longrightarrow> {h, k} = {Health_Service, Ai_Gateway_Subscriber}"
    by (cases h; cases k) auto
qed

lemma health_in_ai: "set (durables Health_Service) \<subseteq> set (durables Ai_Gateway_Subscriber)"
  by code_simp

text \<open>
  The hypothesis about the server: a subscription is granted exactly when the server accepts the subject (\<open>accepts\<close>) and no
  other subscription holds its durable consumer, which has no delivery group.
\<close>

definition exclusive_durables :: "'s nats_library \<Rightarrow> (string \<Rightarrow> bool) \<Rightarrow> ('s \<Rightarrow> string set) \<Rightarrow> bool" where
  "exclusive_durables lib accepts bound \<longleftrightarrow>
     (\<forall>subject n cc s.
        if accepts subject \<and> cc_durable_name cc \<notin> bound s
        then \<exists>t. nl_subscribe lib subject n cc s = Inr t \<and> bound t = insert (cc_durable_name cc) (bound s)
        else \<exists>e. nl_subscribe lib subject n cc s = Inl e)"

lemma exclusiveD:
  "exclusive_durables lib accepts bound \<Longrightarrow>
    (if accepts subject \<and> cc_durable_name cc \<notin> bound s
     then \<exists>t. nl_subscribe lib subject n cc s = Inr t \<and> bound t = insert (cc_durable_name cc) (bound s)
     else \<exists>e. nl_subscribe lib subject n cc s = Inl e)"
  unfolding exclusive_durables_def by blast

lemma granted_subscription:
  assumes "exclusive_durables lib accepts bound" "nc_connectionPromise c = Some (Inr ())" "accepts s" "d \<notin> bound (nc_server c)"
  shows "\<exists>t. subscribeDurable lib cfg h (s, d) c =
    (Inr (), c\<lparr>nc_server := t, nc_running := nc_running c @ [(h, s, d)]\<rparr>) \<and> bound t = insert d (bound (nc_server c))"
proof -
  have "\<exists>t. nl_subscribe lib s (stream_name cfg) (durable_config None d) (nc_server c) = Inr t \<and>
      bound t = insert d (bound (nc_server c))"
    using exclusiveD [OF assms(1), of s "durable_config None d" "nc_server c"] assms(3,4) by (simp add: durable_config_def)
  then obtain t where "nl_subscribe lib s (stream_name cfg) (durable_config None d) (nc_server c) = Inr t"
    "bound t = insert d (bound (nc_server c))" by blast
  then show ?thesis
    using assms(2) by (cases c) (auto simp: subscribeDurable_def run_simps getConnection_settled intro!: exI [of _ t])
qed

lemma refused_subscription:
  assumes "exclusive_durables lib accepts bound" "nc_connectionPromise c = Some (Inr ())" "\<not> (accepts s \<and> d \<notin> bound (nc_server c))"
  shows "\<exists>e. subscribeDurable lib cfg h (s, d) c = (Inl e, c)"
proof -
  obtain e where "nl_subscribe lib s (stream_name cfg) (durable_config None d) (nc_server c) = Inl e"
    using exclusiveD [OF assms(1), of s "durable_config None d" "nc_server c"] assms(3) by (auto simp: durable_config_def split: if_splits)
  then show ?thesis using assms(2) by (simp add: subscribeDurable_def run_simps getConnection_settled)
qed

lemma disconnected_subscription:
  "nc_connectionPromise c = Some (Inl e) \<Longrightarrow> subscribeDurable lib cfg h p c = (Inl e, c)"
  by (cases p) (simp add: subscribeDurable_def run_simps getConnection_settled)

section \<open>Sequences\<close>

lemma all_of_run [simp]:
  "fst (all_of (m # ms) c) = (case fst (m c) of Inl e \<Rightarrow> Inl e | Inr _ \<Rightarrow> fst (all_of ms (snd (m c))))"
  "snd (all_of (m # ms) c) = snd (all_of ms (snd (m c)))"
  by (simp_all add: case_prod_beta)

lemma in_sequence_run [simp]:
  "fst (in_sequence (m # ms) c) = (case fst (m c) of Inl e \<Rightarrow> Inl e | Inr _ \<Rightarrow> fst (in_sequence ms (snd (m c))))"
  "snd (in_sequence (m # ms) c) = (case fst (m c) of Inl e \<Rightarrow> snd (m c) | Inr _ \<Rightarrow> snd (in_sequence ms (snd (m c))))"
  by (simp_all add: andThen_def split: prod.splits sum.splits)

lemma in_sequence_append: "in_sequence (ms @ ns) = andThen (in_sequence ms) (\<lambda>_. in_sequence ns)"
  by (induction ms) (auto simp: fun_eq_iff andThen_def ret_def split: prod.splits sum.splits)

lemma in_sequence_keeps: "list_all (keeps I) ms \<Longrightarrow> keeps I (in_sequence ms)"
  by (induction ms) (simp_all add: keeps_andThen keeps_ret)

lemma all_of_keeps: "list_all (keeps I) ms \<Longrightarrow> keeps I (all_of ms)"
proof (induction ms)
  case (Cons m ms)
  then show ?case unfolding keeps_def all_of_run by simp
qed (simp add: keeps_ret)

lemma caught_keeps: "keeps I m \<Longrightarrow> keeps I (caught m)"
  by (simp add: keeps_def caught_def)

text \<open>An action that fails in every state of an invariant makes every sequence fail that contains it.\<close>

definition fails :: "('s client \<Rightarrow> bool) \<Rightarrow> ('s, unit) client_action \<Rightarrow> bool" where
  "fails I m \<longleftrightarrow> (\<forall>c. I c \<longrightarrow> (\<exists>e. fst (m c) = Inl e))"

lemma failsI: "(\<And>c. I c \<Longrightarrow> \<exists>e. fst (m c) = Inl e) \<Longrightarrow> fails I m"
  by (simp add: fails_def)

lemma failsD: "fails I m \<Longrightarrow> I c \<Longrightarrow> fst (m c) \<noteq> Inr x"
  by (auto simp: fails_def)

lemma failing_rest: "keeps I m \<Longrightarrow> fails I k \<Longrightarrow> I c \<Longrightarrow> fst (andThen m (\<lambda>_. k) c) \<noteq> Inr x"
  unfolding keeps_def fails_def andThen_def by (fastforce split: prod.splits sum.splits)

lemma in_sequence_fails: "list_all (keeps I) ms \<Longrightarrow> list_ex (fails I) ms \<Longrightarrow> fails I (in_sequence ms)"
proof (induction ms)
  case (Cons m ms)
  then show ?case by (auto simp: fails_def keeps_def split: sum.splits simp del: in_sequence.simps)
qed simp

lemma all_of_fails: "list_all (keeps I) ms \<Longrightarrow> list_ex (fails I) ms \<Longrightarrow> fails I (all_of ms)"
proof (induction ms)
  case (Cons m ms)
  then show ?case by (auto simp: fails_def keeps_def split: sum.splits simp del: all_of.simps)
qed simp

text \<open>What every subscription keeps: a settled connection, the number of attempts and what is bound.\<close>

definition settled :: "(string + unit) \<Rightarrow> nat \<Rightarrow> 's client \<Rightarrow> bool" where
  "settled r n c \<longleftrightarrow> nc_connectionPromise c = Some r \<and> nc_attempts c = n"

lemma subscription_settled: "keeps (settled r n) (subscribeDurable lib cfg h p)"
  by (cases p) (auto simp: keeps_def settled_def subscribeDurable_def andThen_def getConnection_settled calling_def writing_def
      split: sum.splits prod.splits)

definition holding :: "('s \<Rightarrow> string set) \<Rightarrow> string set \<Rightarrow> 's client \<Rightarrow> bool" where
  "holding bound ds c \<longleftrightarrow> nc_connectionPromise c = Some (Inr ()) \<and> ds \<subseteq> bound (nc_server c)"

lemma subscription_holding:
  assumes "exclusive_durables lib accepts bound"
  shows "keeps (holding bound ds) (subscribeDurable lib cfg h p)"
proof (cases p)
  case (Pair s d)
  show ?thesis unfolding keeps_def
  proof (intro allI impI)
    fix c assume c: "holding bound ds c"
    show "holding bound ds (snd (subscribeDurable lib cfg h p c))"
    proof (cases "accepts s \<and> d \<notin> bound (nc_server c)")
      case True
      then show ?thesis using granted_subscription [OF assms, of c s d cfg h] c Pair by (auto simp: holding_def)
    next
      case False
      then show ?thesis using refused_subscription [OF assms, of c s d cfg h] c Pair by (auto simp: holding_def)
    qed
  qed
qed

lemma hook_keeps: "(\<And>h p. keeps I (subscribeDurable lib cfg h p)) \<Longrightarrow> keeps I (init_hook lib cfg h)"
  by (cases h) (simp_all add: all_of_keeps in_sequence_keeps caught_keeps list_all_iff)

lemma start_keeps: "(\<And>h p. keeps I (subscribeDurable lib cfg h p)) \<Longrightarrow> keeps I (start_up lib cfg order)"
  unfolding start_up_def by (rule in_sequence_keeps) (simp add: list_all_iff hook_keeps)

text \<open>A hook other than that of the health service fails when one of its subscriptions does.\<close>

lemma hook_fails:
  assumes "\<And>h p. keeps I (subscribeDurable lib cfg h p)" "h \<noteq> Health_Service" "p \<in> set (subscriptions_of h)"
    "\<And>h. fails I (subscribeDurable lib cfg h p)"
  shows "fails I (init_hook lib cfg h)"
proof (cases h)
  case Bridge
  then show ?thesis using assms(1,3,4) by (auto simp: list_all_iff list_ex_iff intro!: all_of_fails bexI [of _ p])
next
  case Ai_Gateway_Subscriber
  then show ?thesis using assms(1,3,4) by (auto simp: list_all_iff list_ex_iff intro!: in_sequence_fails bexI [of _ p])
qed (use assms in auto)

lemma start_fails:
  assumes "\<And>h p. keeps I (subscribeDurable lib cfg h p)" "h \<noteq> Health_Service" "p \<in> set (subscriptions_of h)"
    "\<And>h. fails I (subscribeDurable lib cfg h p)" "h \<in> set order"
  shows "fails I (start_up lib cfg order)"
  unfolding start_up_def
  by (rule in_sequence_fails) (auto simp: list_all_iff list_ex_iff hook_keeps assms(1) intro!: bexI [OF _ assms(5)] hook_fails [OF assms(1-4)])

text \<open>When nothing is refused, a hook binds its durables and starts its loops.\<close>

definition started :: "('s \<Rightarrow> string set) \<Rightarrow> string set \<Rightarrow> (string \<times> string \<times> string) list \<Rightarrow> 's client \<Rightarrow> 's client \<Rightarrow> bool" where
  "started bound ds xs c d \<longleftrightarrow>
     nc_connectionPromise d = Some (Inr ()) \<and> bound (nc_server d) = bound (nc_server c) \<union> ds \<and> nc_running d = nc_running c @ xs"

lemma subscriptions_granted:
  assumes "exclusive_durables lib accepts bound"
  shows "nc_connectionPromise c = Some (Inr ()) \<Longrightarrow> list_all (\<lambda>p. accepts (fst p)) ps \<Longrightarrow> distinct (map snd ps) \<Longrightarrow>
    set (map snd ps) \<inter> bound (nc_server c) = {} \<Longrightarrow>
    (\<exists>d. in_sequence (map (subscribeDurable lib cfg h) ps) c = (Inr (), d) \<and>
       all_of (map (subscribeDurable lib cfg h) ps) c = (Inr (), d) \<and> started bound (set (map snd ps)) (map (Pair h) ps) c d)"
proof (induction ps arbitrary: c)
  case Nil
  then show ?case by (simp add: started_def run_simps)
next
  case (Cons p ps)
  obtain s d where p: "p = (s, d)" by (cases p)
  obtain t where t: "subscribeDurable lib cfg h (s, d) c = (Inr (), c\<lparr>nc_server := t, nc_running := nc_running c @ [(h, s, d)]\<rparr>)"
    "bound t = insert d (bound (nc_server c))"
    using granted_subscription [OF assms, of c s d cfg h] Cons.prems p by auto
  let ?c = "c\<lparr>nc_server := t, nc_running := nc_running c @ [(h, s, d)]\<rparr>"
  obtain e where "in_sequence (map (subscribeDurable lib cfg h) ps) ?c = (Inr (), e)"
    "all_of (map (subscribeDurable lib cfg h) ps) ?c = (Inr (), e)" "started bound (set (map snd ps)) (map (Pair h) ps) ?c e"
    using Cons.IH [of ?c] Cons.prems p t(2) by auto
  then show ?case using p t by (auto simp: run_simps started_def)
qed

definition loops_of :: "subscriber \<Rightarrow> (string \<times> string \<times> string) list" where
  "loops_of h = map (Pair (owner_name h)) (subscriptions_of h)"

lemma andThen_unit_ret [simp]: "andThen m ret = m"
  by (auto simp: fun_eq_iff andThen_def ret_def split: prod.splits sum.splits)

lemma hook_granted:
  assumes "exclusive_durables lib accepts bound" "nc_connectionPromise c = Some (Inr ())"
    "list_all (\<lambda>p. accepts (fst p)) (subscriptions_of h)" "set (durables h) \<inter> bound (nc_server c) = {}"
  shows "\<exists>d. init_hook lib cfg h c = (Inr (), d) \<and> started bound (set (durables h)) (loops_of h) c d"
  using subscriptions_granted [OF assms(1-3), of cfg "owner_name h"] assms(4) durables_distinct [of h]
  by (cases h) (auto simp: durables_def loops_of_def caught_run simp del: all_of.simps)

lemma health_refused:
  assumes "exclusive_durables lib accepts bound" "nc_connectionPromise c = Some (Inr ())" "set (durables Health_Service) \<subseteq> bound (nc_server c)"
  shows "init_hook lib cfg Health_Service c = (Inr (), c)"
  using refused_subscription [OF assms(1,2), of "fst health_subscription" "snd health_subscription" cfg "owner_name Health_Service"] assms(3)
  by (auto simp: durables_def run_simps)

lemma start_granted:
  assumes "exclusive_durables lib accepts bound" "\<And>h. h \<noteq> Health_Service \<Longrightarrow> list_all (\<lambda>p. accepts (fst p)) (subscriptions_of h)"
  shows "nc_connectionPromise c = Some (Inr ()) \<Longrightarrow> distinct order \<Longrightarrow>
    (\<And>h. h \<in> set order \<Longrightarrow> h \<noteq> Health_Service \<Longrightarrow> set (durables h) \<inter> bound (nc_server c) = {}) \<Longrightarrow>
    (if Ai_Gateway_Subscriber \<in> set order then Ai_Gateway_Subscriber \<in> set (takeWhile (\<lambda>h. h \<noteq> Health_Service) order)
     else set (durables Health_Service) \<subseteq> bound (nc_server c)) \<Longrightarrow>
    (\<exists>d. start_up lib cfg order c = (Inr (), d) \<and>
       nc_running d = nc_running c @ concat (map loops_of (filter (\<lambda>h. h \<noteq> Health_Service) order)))"
proof (induction order arbitrary: c)
  case Nil
  then show ?case by (simp add: start_up_def run_simps)
next
  case (Cons h order)
  show ?case
  proof (cases "h = Health_Service")
    case True
    then have hp: "set (durables Health_Service) \<subseteq> bound (nc_server c)" and "Ai_Gateway_Subscriber \<notin> set order"
      using Cons.prems(4) by (auto split: if_splits)
    then show ?thesis
      using Cons.IH [OF Cons.prems(1)] Cons.prems(2,3) True health_refused [OF assms(1) Cons.prems(1) hp, of cfg]
      by (auto simp: start_up_def run_simps)
  next
    case False
    obtain d where d: "init_hook lib cfg h c = (Inr (), d)" "started bound (set (durables h)) (loops_of h) c d"
      using hook_granted [OF assms(1) Cons.prems(1) assms(2) [OF False]] Cons.prems(3) [of h] False by auto
    have "set (durables k) \<inter> bound (nc_server d) = {}" if "k \<in> set order" "k \<noteq> Health_Service" for k
      using that d(2) Cons.prems(2,3) durables_shared [of h k] False by (fastforce simp: started_def)
    moreover have "if Ai_Gateway_Subscriber \<in> set order then Ai_Gateway_Subscriber \<in> set (takeWhile (\<lambda>h. h \<noteq> Health_Service) order)
        else set (durables Health_Service) \<subseteq> bound (nc_server d)"
      using Cons.prems(2,4) False d(2) health_in_ai by (auto simp: started_def split: if_splits)
    ultimately show ?thesis
      using Cons.IH [of d] Cons.prems(2) d False by (auto simp: start_up_def run_simps started_def)
  qed
qed

text \<open>The first subscription connects; the rest is as if the connection had been there.\<close>

definition connected :: "'s nats_library \<Rightarrow> settings \<Rightarrow> 's client \<Rightarrow> 's client" where
  "connected lib cfg c =
     c\<lparr>nc_connectionPromise := Some (connect lib cfg (nc_attempts c)), nc_attempts := nc_attempts c + 1\<rparr>"

lemma subscription_connects:
  "nc_connectionPromise c = None \<Longrightarrow> subscribeDurable lib cfg h p c = subscribeDurable lib cfg h p (connected lib cfg c)"
  by (cases p) (simp add: subscribeDurable_def andThen_def getConnection_def connected_def Let_def)

lemma hook_connects: "nc_connectionPromise c = None \<Longrightarrow> init_hook lib cfg h c = init_hook lib cfg h (connected lib cfg c)"
  by (cases h) (simp_all add: bridge_subscriptions_def ai_subscriptions_def andThen_def caught_def subscription_connects [of c])

lemma start_connects:
  assumes "nc_connectionPromise c = None" "order \<noteq> []"
  shows "start_up lib cfg order c = start_up lib cfg order (connected lib cfg c)"
  using assms(2) by (cases order) (simp_all add: start_up_def andThen_def hook_connects [OF assms(1), of lib cfg])

lemma start_disconnected:
  assumes "nc_connectionPromise c = Some (Inl e)" "Bridge \<in> set order"
  shows "fst (start_up lib cfg order c) \<noteq> Inr ()"
proof -
  have "fails (settled (Inl e) (nc_attempts c)) (subscribeDurable lib cfg h p)" for h p
    by (rule failsI) (simp add: settled_def disconnected_subscription)
  moreover have "hd bridge_subscriptions \<in> set (subscriptions_of Bridge)" by (simp add: bridge_subscriptions_def)
  ultimately have "fails (settled (Inl e) (nc_attempts c)) (start_up lib cfg order)"
    by (intro start_fails [OF subscription_settled _ _ _ assms(2)]) auto
  then show ?thesis by (rule failsD) (simp add: settled_def assms(1))
qed

lemma start_refused:
  assumes "exclusive_durables lib accepts bound" "nc_connectionPromise c = Some (Inr ())"
    "h \<in> set order" "h \<noteq> Health_Service" "p \<in> set (subscriptions_of h)" "\<not> accepts (fst p)"
  shows "fst (start_up lib cfg order c) \<noteq> Inr ()"
proof -
  have "fails (holding bound {}) (subscribeDurable lib cfg k p)" for k
  proof (rule failsI)
    fix d assume "holding bound {} d"
    then show "\<exists>e. fst (subscribeDurable lib cfg k p d) = Inl e"
      using refused_subscription [OF assms(1), of d "fst p" "snd p" cfg k] assms(6) by (auto simp: holding_def)
  qed
  then have "fails (holding bound {}) (start_up lib cfg order)"
    by (rule start_fails [OF subscription_holding [OF assms(1)] assms(4,5) _ assms(3)])
  then show ?thesis by (rule failsD) (simp add: holding_def assms(2))
qed

lemma start_late:
  assumes ex: "exclusive_durables lib accepts bound" and c: "nc_connectionPromise c = Some (Inr ())"
    and order: "order = xs @ Health_Service # ys" "Ai_Gateway_Subscriber \<in> set ys" and ping: "accepts ''system.health.ping''"
  shows "fst (start_up lib cfg order c) \<noteq> Inr ()"
proof -
  let ?p = "(''system.health.ping'', ''nestjs-health-ping'')"
  let ?I = "holding bound {snd ?p}"
  have names: "health_subscription = ?p" "?p \<in> set (subscriptions_of Ai_Gateway_Subscriber)" by code_simp+
  have "fails ?I (subscribeDurable lib cfg k ?p)" for k
  proof (rule failsI)
    fix d assume "?I d"
    then show "\<exists>e. fst (subscribeDurable lib cfg k ?p d) = Inl e"
      using refused_subscription [OF ex, of d "fst ?p" "snd ?p" cfg k] by (auto simp: holding_def)
  qed
  then have failing: "fails ?I (start_up lib cfg ys)"
    by (rule start_fails [OF subscription_holding [OF ex] _ names(2) _ order(2), rotated]) simp
  have held: "?I (snd (init_hook lib cfg Health_Service d))" if d: "holding bound {} d" for d
  proof -
    have "?I (snd (subscribeDurable lib cfg k ?p d))" for k
    proof (cases "snd ?p \<in> bound (nc_server d)")
      case True
      then show ?thesis
        using d refused_subscription [OF ex, of d "fst ?p" "snd ?p" cfg k] by (auto simp: holding_def)
    next
      case False
      then show ?thesis
        using d granted_subscription [where c = d and s = "fst ?p" and d = "snd ?p" and h = k and cfg = cfg, OF ex] ping
        by (auto simp: holding_def)
    qed
    then show ?thesis by (simp add: caught_def names(1))
  qed
  have "fails (holding bound {}) (start_up lib cfg (Health_Service # ys))"
  proof (rule failsI)
    fix d assume d: "holding bound {} d"
    have "fst (init_hook lib cfg Health_Service d) = Inr ()" by (simp add: caught_def)
    then show "\<exists>e. fst (start_up lib cfg (Health_Service # ys) d) = Inl e"
      using failing held [OF d] unfolding start_up_def fails_def list.map in_sequence_run by simp
  qed
  moreover have "keeps (holding bound {}) (start_up lib cfg xs)" by (rule start_keeps) (rule subscription_holding [OF ex])
  moreover have "start_up lib cfg order = andThen (start_up lib cfg xs) (\<lambda>_. start_up lib cfg (Health_Service # ys))"
    unfolding order(1) start_up_def by (simp add: in_sequence_append)
  moreover have "holding bound {} c" using c by (simp add: holding_def)
  ultimately show ?thesis by (simp add: failing_rest)
qed

lemma start_attempts: "nc_connectionPromise c = None \<Longrightarrow> order \<noteq> [] \<Longrightarrow> nc_attempts (snd (start_up lib cfg order c)) = nc_attempts c + 1"
proof -
  assume c: "nc_connectionPromise c = None" "order \<noteq> []"
  have "keeps (settled (connect lib cfg (nc_attempts c)) (nc_attempts c + 1)) (start_up lib cfg order)"
    by (rule start_keeps) (rule subscription_settled)
  then have "settled (connect lib cfg (nc_attempts c)) (nc_attempts c + 1) (snd (start_up lib cfg order (connected lib cfg c)))"
    unfolding keeps_def by (simp add: settled_def connected_def)
  then show ?thesis using c by (simp add: start_connects settled_def)
qed

lemma ping_needed: "''system.health.ping'' \<in> set needed_subjects"
  by code_simp

lemma needed_iff:
  "(\<forall>s \<in> set needed_subjects. accepts s) \<longleftrightarrow> (\<forall>h. h \<noteq> Health_Service \<longrightarrow> list_all (\<lambda>p. accepts (fst p)) (subscriptions_of h))"
proof -
  have "(\<forall>h. h \<noteq> Health_Service \<longrightarrow> P h) \<longleftrightarrow> P Bridge \<and> P Documents_Subscriber \<and> P Ai_Gateway_Subscriber" for P
    by (metis subscriber.exhaust subscriber.distinct(1,7,9))
  then show ?thesis by (auto simp: needed_subjects_def list_all_iff)
qed

lemma first_or_not: "x \<in> set xs \<Longrightarrow> x \<noteq> y \<Longrightarrow> x \<notin> set (takeWhile (\<lambda>z. z \<noteq> y) xs) \<Longrightarrow> \<exists>ys zs. xs = ys @ y # zs \<and> x \<in> set zs"
proof (induction xs)
  case (Cons z zs)
  then show ?case
  proof (cases "z = y")
    case True
    then have "z # zs = [] @ y # zs \<and> x \<in> set zs" using Cons.prems by simp
    then show ?thesis by blast
  next
    case False
    then obtain as bs where "zs = as @ y # bs" "x \<in> set bs" using Cons by auto
    then have "z # zs = (z # as) @ y # bs \<and> x \<in> set bs" by simp
    then show ?thesis by blast
  qed
qed simp

text \<open>C8. The start of the application. The framework runs the four hooks that subscribe to NATS in an order of its own. The
application starts exactly when the first and only attempt to connect succeeds, the server accepts all subjects the bridge,
the documents and the AI gateway need, and the hook of the AI gateway runs before that of the health service: both ask for the
durable consumer \<open>nestjs-health-ping\<close>, which only one can hold. Whenever it starts, the health service is the one without, and
hears no ping.\<close>

theorem start_up_outcome:
  assumes "exclusive_durables lib accepts bound" "nc_connectionPromise c = None" "bound (nc_server c) = {}" "nc_running c = []"
    "distinct order" "set order = UNIV"
  shows "(fst (start_up lib cfg order c) = Inr () \<longleftrightarrow>
      connect lib cfg (nc_attempts c) = Inr () \<and> (\<forall>s \<in> set needed_subjects. accepts s) \<and>
      Ai_Gateway_Subscriber \<in> set (takeWhile (\<lambda>h. h \<noteq> Health_Service) order)) \<and>
    (fst (start_up lib cfg order c) = Inr () \<longrightarrow>
      nc_running (snd (start_up lib cfg order c)) = concat (map loops_of (filter (\<lambda>h. h \<noteq> Health_Service) order))) \<and>
    nc_attempts (snd (start_up lib cfg order c)) = nc_attempts c + 1"
proof -
  let ?c = "connected lib cfg c"
  have "order \<noteq> []" using assms(6) by auto
  note start = start_connects [OF assms(2) this, of lib cfg] and attempts = start_attempts [OF assms(2) this, of lib cfg]
  have c: "nc_connectionPromise ?c = Some (connect lib cfg (nc_attempts c))" "bound (nc_server ?c) = {}" "nc_running ?c = []"
    using assms by (simp_all add: connected_def)
  show ?thesis
  proof (cases "connect lib cfg (nc_attempts c) = Inr () \<and> (\<forall>s \<in> set needed_subjects. accepts s) \<and>
      Ai_Gateway_Subscriber \<in> set (takeWhile (\<lambda>h. h \<noteq> Health_Service) order)")
    case True
    then have "\<exists>d. start_up lib cfg order ?c = (Inr (), d) \<and>
        nc_running d = nc_running ?c @ concat (map loops_of (filter (\<lambda>h. h \<noteq> Health_Service) order))"
      by (intro start_granted [OF assms(1)]) (use True c assms(5,6) needed_iff [of accepts] in auto)
    then show ?thesis using True attempts c(3) unfolding start by auto
  next
    case False
    then consider e where "connect lib cfg (nc_attempts c) = Inl e"
      | "connect lib cfg (nc_attempts c) = Inr ()" "\<not> (\<forall>s \<in> set needed_subjects. accepts s)"
      | "connect lib cfg (nc_attempts c) = Inr ()" "\<forall>s \<in> set needed_subjects. accepts s"
        "Ai_Gateway_Subscriber \<notin> set (takeWhile (\<lambda>h. h \<noteq> Health_Service) order)"
      by (cases "connect lib cfg (nc_attempts c)") auto
    then have "fst (start_up lib cfg order ?c) \<noteq> Inr ()"
    proof cases
      case 1
      then show ?thesis using start_disconnected [of ?c e order lib cfg] c(1) assms(6) by auto
    next
      case 2
      then obtain h p where "h \<noteq> Health_Service" "p \<in> set (subscriptions_of h)" "\<not> accepts (fst p)"
        using needed_iff [of accepts] by (auto simp: list_all_iff)
      then show ?thesis using start_refused [OF assms(1)] c(1) 2(1) assms(6) by auto
    next
      case 3
      then obtain xs ys where "order = xs @ Health_Service # ys" "Ai_Gateway_Subscriber \<in> set ys"
        using first_or_not [of Ai_Gateway_Subscriber order Health_Service] assms(6) by auto
      then show ?thesis using start_late [OF assms(1)] c(1) 3 ping_needed by auto
    qed
    then show ?thesis using False attempts unfolding start by blast
  qed
qed

text \<open>The stream the repository's bootstrap script creates, and one with the list of the back end.\<close>

definition bootstrap_subjects :: "string list" where
  "bootstrap_subjects =
     [''ai.tasks.>'', ''workflow.events.*'', ''session.events.*'', ''system.health.*'', ''ai.context.*'', ''dead.flowforge.>'']"

definition capturing :: "string list \<Rightarrow> server nats_library" where
  "capturing ss = sample_library\<lparr>nl_subscribe := (\<lambda>subject n cc s.
     if captured ss subject \<and> cc_durable_name cc \<notin> set (sv_bound s)
     then Inr (s\<lparr>sv_bound := cc_durable_name cc # sv_bound s\<rparr>) else Inl ''refused'')\<rparr>"

lemma capturing_exclusive: "exclusive_durables (capturing ss) (captured ss) (\<lambda>s. set (sv_bound s))"
  by (simp add: exclusive_durables_def capturing_def)

lemma needed_captured:
  "list_all (captured STREAM_SUBJECTS) needed_subjects" "\<not> list_all (captured bootstrap_subjects) needed_subjects"
  by code_simp+

lemma sample_connects: "connect (capturing ss) sample_settings 0 = Inr ()"
  by (simp add: connect_def capturing_def sample_library_def sample_settings_def)

theorem start_up_outcome_witness:
  "fst (start_up (capturing STREAM_SUBJECTS) sample_settings
     [Ai_Gateway_Subscriber, Bridge, Documents_Subscriber, Health_Service] (sample_client [])) = Inr () \<and>
   fst (start_up (capturing STREAM_SUBJECTS) sample_settings
     [Health_Service, Bridge, Documents_Subscriber, Ai_Gateway_Subscriber] (sample_client [])) \<noteq> Inr () \<and>
   fst (start_up (capturing bootstrap_subjects) sample_settings
     [Ai_Gateway_Subscriber, Bridge, Documents_Subscriber, Health_Service] (sample_client [])) \<noteq> Inr ()"
proof -
  have UNIV: "UNIV = {Bridge, Health_Service, Documents_Subscriber, Ai_Gateway_Subscriber}"
    using subscriber.exhaust by blast
  have "nc_attempts (sample_client []) = 0" "nc_connectionPromise (sample_client []) = None"
    "set (sv_bound (nc_server (sample_client []))) = {}" "nc_running (sample_client []) = []"
    by (simp_all add: sample_client_def)
  note start = start_up_outcome [where cfg = sample_settings and c = "sample_client []", OF capturing_exclusive this(2-4),
      unfolded this(1)]
  show ?thesis
    using start [of "[Ai_Gateway_Subscriber, Bridge, Documents_Subscriber, Health_Service]" STREAM_SUBJECTS]
      start [of "[Health_Service, Bridge, Documents_Subscriber, Ai_Gateway_Subscriber]" STREAM_SUBJECTS]
      start [of "[Ai_Gateway_Subscriber, Bridge, Documents_Subscriber, Health_Service]" bootstrap_subjects]
      needed_captured
    by (auto simp: UNIV sample_connects list_all_iff)
qed

end
