(* ===== verification/Ws_Contract.thy ===== *)
theory Ws_Contract
  imports Stream_Token Health Rules Comments
begin

text \<open>
  The payloads the front end is promised (\<open>src/modules/realtime/interfaces/ws-payloads.interface.ts\<close>), and who keeps the
  promise: the bridge does, the services that emit on their own do not.
\<close>

section \<open>The declared payloads\<close>

datatype field_type = String_Field | Number_Field | Record_Field | Elements_Field

text \<open>A field has a name, a type, and may be optional.\<close>

type_synonym payload_interface = "(string \<times> field_type \<times> bool) list"

definition required_field :: "field_type \<Rightarrow> string \<Rightarrow> string \<times> field_type \<times> bool" where
  "required_field ty name = (name, ty, False)"

definition optional_field :: "field_type \<Rightarrow> string \<Rightarrow> string \<times> field_type \<times> bool" where
  "optional_field ty name = (name, ty, True)"

definition PipelineProgressPayload :: payload_interface where
  "PipelineProgressPayload =
     [required_field String_Field ''session_id'', required_field String_Field ''pipeline_execution_id'',
      required_field String_Field ''agent_type'', required_field String_Field ''agent_name'', required_field String_Field ''status'',
      required_field Number_Field ''order_index'', required_field Number_Field ''progress_pct'',
      optional_field Number_Field ''confidence_output'']"

definition AgentLogPayload :: payload_interface where
  "AgentLogPayload =
     [required_field String_Field ''agent_execution_id'', required_field String_Field ''log_level'',
      required_field String_Field ''message'', optional_field Record_Field ''metadata'', required_field String_Field ''created_at'']"

definition AgentStatusPayload :: payload_interface where
  "AgentStatusPayload =
     [required_field String_Field ''agent_execution_id'', required_field String_Field ''status'',
      optional_field Number_Field ''duration_ms'', optional_field String_Field ''error_message'']"

definition WorkflowChangedElement :: payload_interface where
  "WorkflowChangedElement = [required_field String_Field ''element_id'', required_field String_Field ''change_type'']"

definition WorkflowUpdatedPayload :: payload_interface where
  "WorkflowUpdatedPayload =
     [required_field String_Field ''workflow_id'', required_field Number_Field ''version_number'',
      required_field Elements_Field ''changed_elements'', required_field String_Field ''source'',
      required_field String_Field ''correlation_id'']"

definition SessionStatePayload :: payload_interface where
  "SessionStatePayload = [required_field String_Field ''session_id'', required_field String_Field ''status'']"

definition SessionNeedsReconciliationPayload :: payload_interface where
  "SessionNeedsReconciliationPayload =
     [required_field String_Field ''session_id'', required_field String_Field ''report_id'',
      required_field Number_Field ''similarity_score'']"

definition SessionFinalizedPayload :: payload_interface where
  "SessionFinalizedPayload =
     [required_field String_Field ''session_id'', required_field String_Field ''workflow_id'',
      required_field Number_Field ''final_version_number'', required_field Number_Field ''final_confidence'']"

definition DocumentReadyPayload :: payload_interface where
  "DocumentReadyPayload =
     [required_field String_Field ''document_id'', required_field String_Field ''extracted_text_preview'',
      required_field Number_Field ''confidence'']"

definition CommentCreatedPayload :: payload_interface where
  "CommentCreatedPayload =
     [required_field String_Field ''comment_id'', required_field String_Field ''workflow_id'',
      optional_field String_Field ''element_id'', required_field String_Field ''author_id'', required_field String_Field ''type'']"

definition CommentResolvedPayload :: payload_interface where
  "CommentResolvedPayload =
     [required_field String_Field ''comment_id'', required_field String_Field ''resolved_by'',
      required_field String_Field ''resolved_at'']"

definition DivergenceReportReadyPayload :: payload_interface where
  "DivergenceReportReadyPayload =
     [required_field String_Field ''report_id'', required_field String_Field ''comparison_type'',
      required_field Number_Field ''similarity_score'', required_field String_Field ''severity'',
      required_field Number_Field ''total_points'', required_field Number_Field ''critical_count'']"

definition DivergenceReportUpdatedPayload :: payload_interface where
  "DivergenceReportUpdatedPayload =
     [required_field String_Field ''report_id'', required_field Number_Field ''unresolved_points'',
      required_field Number_Field ''resolved_points'']"

definition RulesConflictDetectedPayload :: payload_interface where
  "RulesConflictDetectedPayload =
     [required_field String_Field ''rule_a_id'', required_field String_Field ''rule_b_id'', required_field String_Field ''scope'',
      required_field String_Field ''message'']"

definition SkillsApplicationLoggedPayload :: payload_interface where
  "SkillsApplicationLoggedPayload =
     [required_field String_Field ''skill_id'', required_field String_Field ''agent_execution_id'',
      required_field Number_Field ''similarity_score'', required_field Number_Field ''injected_tokens'']"

definition SystemHealthAlertPayload :: payload_interface where
  "SystemHealthAlertPayload =
     [required_field String_Field ''component'', required_field String_Field ''status'', required_field String_Field ''since'',
      optional_field Record_Field ''details'']"

definition NotificationReviewRequestPayload :: payload_interface where
  "NotificationReviewRequestPayload =
     [required_field String_Field ''comment_id'', required_field String_Field ''workflow_id'',
      required_field String_Field ''by_user_id'']"

text \<open>The catalogue of events.\<close>

definition WS_EVENTS :: "(string \<times> payload_interface) list" where
  "WS_EVENTS =
     [(''pipeline.progress'', PipelineProgressPayload), (''agent.log'', AgentLogPayload), (''agent.status'', AgentStatusPayload),
      (''workflow.updated'', WorkflowUpdatedPayload), (''session.state'', SessionStatePayload),
      (''session.needs_reconciliation'', SessionNeedsReconciliationPayload), (''session.finalized'', SessionFinalizedPayload),
      (''document.ready'', DocumentReadyPayload), (''comment.created'', CommentCreatedPayload),
      (''comment.resolved'', CommentResolvedPayload), (''divergence.report.ready'', DivergenceReportReadyPayload),
      (''divergence.report.updated'', DivergenceReportUpdatedPayload), (''rules.conflict.detected'', RulesConflictDetectedPayload),
      (''skills.application.logged'', SkillsApplicationLoggedPayload), (''system.health.alert'', SystemHealthAlertPayload),
      (''notification.review_request'', NotificationReviewRequestPayload)]"

section \<open>Conforming\<close>

definition is_changed_element :: "json \<Rightarrow> bool" where
  "is_changed_element j \<longleftrightarrow>
     (case (field j ''element_id'', field j ''change_type'') of
        (Some (JStr e), Some (JStr c)) \<Rightarrow> c \<in> {''added'', ''removed'', ''modified''}
      | _ \<Rightarrow> False)"

fun of_field_type :: "field_type \<Rightarrow> json \<Rightarrow> bool" where
  "of_field_type String_Field j \<longleftrightarrow> (case j of JStr s \<Rightarrow> True | _ \<Rightarrow> False)"
| "of_field_type Number_Field j \<longleftrightarrow> (case j of JNum n \<Rightarrow> True | _ \<Rightarrow> False)"
| "of_field_type Record_Field j \<longleftrightarrow> (case j of JObj kvs \<Rightarrow> True | _ \<Rightarrow> False)"
| "of_field_type Elements_Field j \<longleftrightarrow> (case j of JArr xs \<Rightarrow> list_all is_changed_element xs | _ \<Rightarrow> False)"

definition field_ok :: "json \<Rightarrow> string \<times> field_type \<times> bool \<Rightarrow> bool" where
  "field_ok payload = (\<lambda>(name, ty, optional). case field payload name of None \<Rightarrow> optional | Some v \<Rightarrow> of_field_type ty v)"

definition conforms :: "payload_interface \<Rightarrow> json \<Rightarrow> bool" where
  "conforms interface payload \<longleftrightarrow> (case payload of JObj _ \<Rightarrow> list_all (field_ok payload) interface | _ \<Rightarrow> False)"

text \<open>An emission keeps the contract when its event is in the catalogue and its payload conforms.\<close>

definition event_conforms :: "string \<Rightarrow> json \<Rightarrow> bool" where
  "event_conforms event payload \<longleftrightarrow> (case map_of WS_EVENTS event of None \<Rightarrow> False | Some i \<Rightarrow> conforms i payload)"

definition keeps_contract :: "ws_emission \<Rightarrow> bool" where
  "keeps_contract e \<longleftrightarrow> event_conforms (ws_event e) (ws_payload e)"

section \<open>What an action emits\<close>

definition emits :: "(ws_emission \<Rightarrow> bool) \<Rightarrow> 'a service \<Rightarrow> bool" where
  "emits P m \<longleftrightarrow> (\<forall>w. \<exists>es. emitted (snd (m w)) = emitted w @ es \<and> list_all P es)"

lemma emits_untouched: "untouched emitted m \<Longrightarrow> emits P m"
  unfolding emits_def untouched_def by (intro allI exI [of _ "[]"]) simp

lemma emits_andThen:
  assumes "emits P m" "\<And>x. emits P (k x)" shows "emits P (andThen m k)"
  unfolding emits_def
proof
  fix w
  obtain r v where m: "m w = (r, v)" by fastforce
  obtain es where es: "emitted v = emitted w @ es" "list_all P es"
    using assms(1) m unfolding emits_def by (metis snd_conv)
  show "\<exists>es. emitted (snd (andThen m k w)) = emitted w @ es \<and> list_all P es"
  proof (cases r)
    case (Inl e)
    then show ?thesis using m es by (auto simp: andThen_def)
  next
    case (Inr x)
    obtain fs where "emitted (snd (k x v)) = emitted v @ fs" "list_all P fs" using assms(2) unfolding emits_def by blast
    then have "emitted (snd (andThen m k w)) = emitted w @ (es @ fs) \<and> list_all P (es @ fs)"
      using m es Inr by (simp add: andThen_def)
    then show ?thesis by blast
  qed
qed

lemma emits_emitToRoom:
  "(\<And>t. P \<lparr>ws_room = r, ws_event = e, ws_payload = p, ws_to = t\<rparr>) \<Longrightarrow> emits P (emitToRoom r e p)"
  unfolding emits_def emitToRoom_run by (intro allI exI conjI) auto

lemma emits_emitIfListening:
  "(\<And>t. P \<lparr>ws_room = r, ws_event = e, ws_payload = p, ws_to = t\<rparr>) \<Longrightarrow> emits P (emitIfListening r e p)"
  using emits_emitToRoom [of P r e p] unfolding emits_def emitIfListening_def by (auto intro: exI [of _ "[]"])

lemma emits_unless: "emits P m \<Longrightarrow> emits P (unless b m)"
  using emits_untouched [OF untouched_basic(1)] by (cases b) (auto simp: unless_simps)

lemma emits_option: "(r = None \<Longrightarrow> emits P m) \<Longrightarrow> (\<And>x. r = Some x \<Longrightarrow> emits P (n x)) \<Longrightarrow> emits P (case r of None \<Rightarrow> m | Some x \<Rightarrow> n x)"
  by (simp split: option.splits)

lemma emits_if: "emits P m \<Longrightarrow> emits P n \<Longrightarrow> emits P (if b then m else n)"
  by simp

lemma emits_pointwise: "(\<And>w. emits P (m w)) \<Longrightarrow> emits P (\<lambda>w. m w w)"
  unfolding emits_def by blast

lemma emits_basic: "emits P (ret x)" "emits P (throw e)" "emits P (reading f)" "emits P (check b e)" "emits P (orThrow z e)" "emits P (liftSum q)"
  by (simp_all add: emits_untouched untouched_basic)

lemmas emits_intros = emits_andThen emits_basic emits_unless emits_option emits_if

section \<open>The bridge\<close>

lemmas payload_defs = PipelineProgressPayload_def AgentLogPayload_def AgentStatusPayload_def WorkflowUpdatedPayload_def
  SessionStatePayload_def SessionNeedsReconciliationPayload_def SessionFinalizedPayload_def DocumentReadyPayload_def
  CommentCreatedPayload_def CommentResolvedPayload_def DivergenceReportReadyPayload_def DivergenceReportUpdatedPayload_def
  RulesConflictDetectedPayload_def SkillsApplicationLoggedPayload_def SystemHealthAlertPayload_def
  NotificationReviewRequestPayload_def

lemma declared_events:
  "map_of WS_EVENTS ''pipeline.progress'' = Some PipelineProgressPayload" "map_of WS_EVENTS ''agent.log'' = Some AgentLogPayload"
  "map_of WS_EVENTS ''agent.status'' = Some AgentStatusPayload" "map_of WS_EVENTS ''workflow.updated'' = Some WorkflowUpdatedPayload"
  "map_of WS_EVENTS ''session.needs_reconciliation'' = Some SessionNeedsReconciliationPayload"
  "map_of WS_EVENTS ''session.finalized'' = Some SessionFinalizedPayload"
  "map_of WS_EVENTS ''document.ready'' = Some DocumentReadyPayload"
  "map_of WS_EVENTS ''rules.conflict.detected'' = Some RulesConflictDetectedPayload"
  "map_of WS_EVENTS ''system.health.alert'' = Some SystemHealthAlertPayload"
  "map_of WS_EVENTS ''notification.review_request'' = Some NotificationReviewRequestPayload"
  "map_of WS_EVENTS ''pipeline.failed'' = None"
  by (simp_all add: WS_EVENTS_def)

lemmas conform_defs = event_conforms_def declared_events conforms_def payload_defs field_ok_def required_field_def optional_field_def

lemma field_obj: "distinct (map fst kvs) \<Longrightarrow> field (obj kvs) k = (case map_of kvs k of None \<Rightarrow> None | Some v \<Rightarrow> v)"
proof (induction kvs arbitrary: k)
  case (Cons x kvs)
  obtain a v where x: "x = (a, v)" by (cases x)
  have "map_of kvs a = None" using Cons.prems x by (simp add: map_of_eq_None_iff)
  then have "field (obj kvs) a = None" using Cons x by simp
  then show ?case using Cons x by (auto simp: obj_def get_prop_def split: option.splits)
qed (simp add: obj_def get_prop_def)

lemma conforms_obj: "distinct (map fst kvs) \<Longrightarrow> conforms i (obj kvs) \<longleftrightarrow>
    list_all (\<lambda>(name, ty, optional). case map_of kvs name of None \<Rightarrow> optional
      | Some None \<Rightarrow> optional | Some (Some v) \<Rightarrow> of_field_type ty v) i"
  using field_obj [of kvs]
  by (simp add: conforms_def obj_def field_ok_def list_all_iff split: option.splits)
    (fastforce split: option.splits)

lemma progress_conforms:
  "event_conforms ''pipeline.progress'' (obj [(''session_id'', Some (JStr a)), (''pipeline_execution_id'', Some (JStr b)),
     (''agent_type'', Some (JStr c)), (''agent_name'', Some (JStr d)), (''status'', Some (JStr e)), (''order_index'', Some (JNum f)),
     (''progress_pct'', Some (JNum g)), (''confidence_output'', map_option JNum h)])"
  by (simp add: event_conforms_def declared_events conforms_obj payload_defs required_field_def optional_field_def split: option.split)

lemma log_conforms:
  "(\<And>m. h = Some m \<Longrightarrow> of_field_type Record_Field m) \<Longrightarrow>
    event_conforms ''agent.log'' (obj [(''agent_execution_id'', Some (JStr a)), (''log_level'', Some (JStr b)),
      (''message'', Some (JStr c)), (''metadata'', h), (''created_at'', Some (JStr d))])"
  by (simp add: event_conforms_def declared_events conforms_obj payload_defs required_field_def optional_field_def split: option.split)

lemma status_conforms:
  "event_conforms ''agent.status'' (obj [(''agent_execution_id'', Some (JStr a)), (''status'', Some (JStr b)),
      (''error_message'', map_option JStr h)])"
  by (simp add: event_conforms_def declared_events conforms_obj payload_defs required_field_def optional_field_def split: option.split)

lemma alert_conforms:
  "(\<And>m. h = Some m \<Longrightarrow> of_field_type Record_Field m) \<Longrightarrow>
    event_conforms ''system.health.alert'' (obj [(''component'', Some (JStr a)), (''status'', Some (JStr b)),
      (''since'', Some (JStr c)), (''details'', h)])"
  by (simp add: event_conforms_def declared_events conforms_obj payload_defs required_field_def optional_field_def split: option.split)

lemma plain_conforms:
  "of_field_type Elements_Field j \<Longrightarrow> event_conforms ''workflow.updated'' (JObj [(''workflow_id'', JStr a), (''version_number'', JNum b),
     (''changed_elements'', j), (''source'', JStr c), (''correlation_id'', JStr d)])"
  "event_conforms ''session.finalized'' (JObj [(''session_id'', JStr a), (''workflow_id'', JStr b),
     (''final_version_number'', JNum c), (''final_confidence'', JNum d)])"
  "event_conforms ''document.ready'' (JObj [(''document_id'', JStr a), (''extracted_text_preview'', JStr b), (''confidence'', JNum c)])"
  by (simp_all add: conform_defs get_prop_def)

lemma emits_conforming: "event_conforms e p \<Longrightarrow> emits keeps_contract (emitIfListening r e p)"
  by (rule emits_emitIfListening) (simp add: keeps_contract_def)


definition sample_progress :: AiTaskProgressEvent where
  "sample_progress =
     \<lparr>ap_correlation_id = ''c'', ap_session_id = ''s1'', ap_org_id = None, ap_pipeline_execution_id = ''p1'',
      ap_agent_execution_id = ''a1'', ap_agent_type = ''orchestrator'', ap_agent_name = ''Orchestrator'', ap_status = ''running'', ap_order_index = 1,
      ap_progress_pct = ''50'', ap_confidence_input = None, ap_confidence_output = None, ap_llm_calls_delta = None, ap_tokens_delta = None, ap_started_at = None,
      ap_completed_at = None, ap_error_message = None,
      ap_log = Some \<lparr>al_level = ''info'', al_message = ''step'', al_metadata = Some (JObj [])\<rparr>\<rparr>"

definition update_message :: WorkflowUpdatedEvent where
  "update_message =
     \<lparr>wu_workflow_id = ''w1'', wu_version_number = 2,
      wu_changed_elements = JArr [JObj [(''element_id'', JStr ''e1''), (''change_type'', JStr ''modified'')]],
      wu_source = ''ai'', wu_actor_id = None, wu_correlation_id = ''c''\<rparr>"


section \<open>The services that emit on their own\<close>

lemma quiet_rows:
  "untouched emitted (save_session se)" "untouched emitted (save_document do)" "untouched emitted (save_report dr)"
  "untouched emitted (insert_dead_letter dl)" "untouched emitted (insert_snapshot gs)" "untouched emitted (save_agent_execution ae)"
  "untouched emitted (insert_agent_log al)" "untouched emitted (save_comment co)" "untouched emitted (save_pipeline pe)"
  by (simp_all add: untouched_def save_session_def save_document_def save_report_def insert_dead_letter_def insert_snapshot_def
      save_agent_execution_def insert_agent_log_def save_comment_def save_pipeline_def andThen_def constraint_run writing_def
      split: option.splits)

lemma untouched_list:
  "untouched f m \<Longrightarrow> (\<And>x xs. untouched f (n x xs)) \<Longrightarrow> untouched f (case l of [] \<Rightarrow> m | x # xs \<Rightarrow> n x xs)"
  by (simp split: list.split)

lemma quiet_actions:
  "untouched emitted (not_null j)" "untouched emitted (enum_value str vs x)" "untouched emitted (payload_date date_of d)"
  "untouched emitted (logUserAudit i u e el b a)" "untouched emitted (findCommentWithWorkflow ci g)"
  "untouched emitted (fail_pipeline pid err)" "untouched emitted (recordFailure sub p0 why n err)"
  "untouched emitted (markWorkflowUpdated wid ver)" "untouched emitted (buildIntentSnapshot ss wid)"
  "untouched emitted (buildGeneratedSnapshot ss wid ver)" "untouched emitted (createDivergenceReport wid rid ga gb)"
  "untouched emitted (publishAiTaskDivergence cid rid j)" "untouched emitted (log_progress aid lg)"
  "untouched emitted (Stream_Token.assertOrgMatch og sid)" "untouched emitted (resolveAgentDefinitionId ty)"
  unfolding not_null_def enum_value_def payload_date_def logUserAudit_def findCommentWithWorkflow_def fail_pipeline_def
    recordFailure_def markWorkflowUpdated_def buildIntentSnapshot_def buildGeneratedSnapshot_def createDivergenceReport_def
    log_progress_def Stream_Token.assertOrgMatch_def resolveAgentDefinitionId_def findWorkflowInOrgOrThrow_def publish_defs
  by ((intro untouched_intros quiet_rows untouched_list; simp?)+)

lemma breaking:
  assumes "map_of WS_EVENTS e = Some i" "list_ex (\<lambda>(name, ty, optional). \<not> optional \<and> field p name = None) i"
  shows "emits (\<lambda>x. \<not> keeps_contract x) (emitToRoom r e p)"
proof (rule emits_emitToRoom)
  fix t
  have "\<not> list_all (field_ok p) i" using assms(2) by (force simp: list_all_iff list_ex_iff field_ok_def)
  then show "\<not> keeps_contract \<lparr>ws_room = r, ws_event = e, ws_payload = p, ws_to = t\<rparr>"
    using assms(1) by (auto simp: keeps_contract_def event_conforms_def conforms_def split: json.splits)
qed

lemma breaking_uncatalogued: "map_of WS_EVENTS e = None \<Longrightarrow> emits (\<lambda>x. \<not> keeps_contract x) (emitToRoom r e p)"
  by (rule emits_emitToRoom) (simp add: keeps_contract_def event_conforms_def)

lemmas required_simps = payload_defs required_field_def optional_field_def

lemma breaking_payloads:
  "emits (\<lambda>x. \<not> keeps_contract x) (emitToSession s ''workflow.updated'' (JObj [(''workflowId'', a), (''versionNumber'', b), (''confidence'', c)]))"
  "emits (\<lambda>x. \<not> keeps_contract x) (emitToSession s ''session.needs_reconciliation'' (obj [(''similarityScore'', d), (''threshold'', e)]))"
  "emits (\<lambda>x. \<not> keeps_contract x) (emitToSession s ''pipeline.progress'' (JObj [(''agentName'', a), (''status'', b), (''progressPct'', c), (''message'', f)]))"
  "emits (\<lambda>x. \<not> keeps_contract x) (emitToSession s ''pipeline.failed'' q)"
  "emits (\<lambda>x. \<not> keeps_contract x) (emitToSession s ''document.ready'' (JObj [(''type'', a), (''document_id'', b)]))"
  "emits (\<lambda>x. \<not> keeps_contract x) (emitToSession s ''notification.review_request'' (JObj [(''comment_id'', a), (''workflow_id'', b)]))"
  "emits (\<lambda>x. \<not> keeps_contract x) (emitToSession s ''notification.review_request'' (JObj [(''workflow_id'', a), (''workflow_title'', b)]))"
  "emits (\<lambda>x. \<not> keeps_contract x) (emitToSession s ''pipeline.progress'' (progress_payload m))"
  "emits (\<lambda>x. \<not> keeps_contract x) (emitToRoom r ''system.health.alert'' (alert_payload n h v t))"
  "emits (\<lambda>x. \<not> keeps_contract x) (emitConflictEvent cand conf det)"
  unfolding emitToSession_def emitConflictEvent_def Let_def
  by (rule breaking breaking_uncatalogued, rule declared_events,
      simp add: required_simps get_prop_def obj_def progress_payload_def alert_payload_def split: option.split)
    (rule breaking breaking_uncatalogued, rule declared_events,
      (simp add: required_simps get_prop_def obj_def progress_payload_def alert_payload_def split: option.split)?)+

abbreviation breaks :: "ws_emission \<Rightarrow> bool" where
  "breaks e \<equiv> \<not> keeps_contract e"

lemma emits_guarded: "emits P m \<Longrightarrow> emits P (\<lambda>w. if b w then (Inr x, w) else m w)"
  unfolding emits_def by (auto intro: exI [of _ "[]"])

lemma emits_read: "emits P (\<lambda>w. orThrow (g w) e w)"
  by (rule emits_untouched) (rule untouched_intros)

lemma emits_alerts: "emits breaks (emit_alerts previous result)"
proof (induction previous result rule: emit_alerts.induct)
  case (2 previous serviceName status rest)
  have "emits breaks (\<lambda>w. emitToRoom ''admin-health'' ''system.health.alert''
      (alert_payload serviceName status (map_option hs_status (map_of previous serviceName)) (new_Date w)) w)"
    by (rule emits_pointwise) (rule breaking_payloads)
  then show ?case by (simp add: emits_andThen emits_unless 2)
qed (simp add: emits_basic)

lemma emits_reviewers:
  "\<exists>es. emitted (fold (\<lambda>u v. snd (emitToSession u ''notification.review_request'' (JObj [(''workflow_id'', a), (''workflow_title'', b)]) v)) us w) =
    emitted w @ es \<and> list_all breaks es"
proof (induction us arbitrary: w)
  case (Cons u us)
  let ?v = "snd (emitToSession u ''notification.review_request'' (JObj [(''workflow_id'', a), (''workflow_title'', b)]) w)"
  obtain es where "emitted ?v = emitted w @ es" "list_all breaks es"
    using breaking_payloads(7) unfolding emits_def by blast
  moreover obtain fs where "emitted (fold (\<lambda>u v. snd (emitToSession u ''notification.review_request''
      (JObj [(''workflow_id'', a), (''workflow_title'', b)]) v)) us ?v) = emitted ?v @ fs" "list_all breaks fs"
    using Cons by blast
  ultimately show ?case by (intro exI [of _ "es @ fs"]) simp
qed simp

lemma emits_marks:
  "emits P (constraint c n)" "emits P (writing (progressIds_update g))" "emits P (writing (divergenceIds_update g))"
  by (rule emits_untouched, intro untouched_intros; simp)+

lemmas emits_steps = emits_intros emits_read emits_marks breaking_payloads quiet_rows [THEN emits_untouched] quiet_actions [THEN emits_untouched]


end
