(* ===== verification/Embedding.thy ===== *)
theory Embedding
  imports Skills Configuration
begin

text \<open>
  The calls of the embedding service in \<open>src/modules/skills/services/skills.service.ts\<close>, and what the skills can do in an
  environment that does not name its address. \<open>fetch\<close> is a parameter: the status and the decoded body of the answer, or none
  when the request is rejected or the body is no JSON.
\<close>

type_synonym fetch = "string \<Rightarrow> json \<Rightarrow> (nat \<times> json) option"

text \<open>A missing variable is put into the address as the text \<open>undefined\<close>.\<close>

definition embedding_address :: "env \<Rightarrow> string \<Rightarrow> string" where
  "embedding_address env path = (case env ''FASTAPI_URL'' of None \<Rightarrow> ''undefined'' | Some u \<Rightarrow> u) @ path"

definition response_ok :: "nat \<Rightarrow> bool" where
  "response_ok status \<longleftrightarrow> 200 \<le> status \<and> status < 300"

text \<open>An array of numbers is a vector; an answer without one is undefined. Reading a field of null throws.\<close>

definition number_of :: "json \<Rightarrow> number" where
  "number_of j = (case j of JNum n \<Rightarrow> n | _ \<Rightarrow> ''NaN'')"

definition embedding_field :: "json \<Rightarrow> number list option" where
  "embedding_field j = (case field j ''embedding'' of Some (JArr xs) \<Rightarrow> Some (map number_of xs) | _ \<Rightarrow> None)"

definition generateEmbedding :: "env \<Rightarrow> fetch \<Rightarrow> string \<Rightarrow> number list option option" where
  "generateEmbedding env fetch content =
     (case fetch (embedding_address env ''/internal/embed'') (JObj [(''text'', JStr content)]) of
        None \<Rightarrow> None
      | Some (status, body) \<Rightarrow> if response_ok status \<and> body \<noteq> JNull then Some (embedding_field body) else None)"

definition generateEmbeddingBatch :: "env \<Rightarrow> fetch \<Rightarrow> string list \<Rightarrow> number list option list option" where
  "generateEmbeddingBatch env fetch texts =
     (case fetch (embedding_address env ''/internal/embed/batch'')
         (JObj [(''items'', JArr (map (\<lambda>t. JObj [(''content'', JStr t)]) texts))]) of
        Some (status, JArr answers) \<Rightarrow> if response_ok status then Some (map embedding_field answers) else None
      | _ \<Rightarrow> None)"

section \<open>Properties\<close>

lemma unreachable:
  assumes "env ''FASTAPI_URL'' = None" "\<And>url body. CHR '':'' \<notin> set url \<Longrightarrow> fetch url body = None"
  shows "generateEmbedding env fetch content = None" "generateEmbeddingBatch env fetch texts = None"
  using assms by (simp_all add: generateEmbedding_def generateEmbeddingBatch_def embedding_address_def)

lemma rejected: "\<exists>e. andThen (orThrow None e0) k w = (Inl e, w)"
  by (simp add: andThen_def orThrow_def)

lemma rejected_after: "snd (m w) = w \<Longrightarrow> (\<And>x. \<exists>e. k x w = (Inl e, w)) \<Longrightarrow> \<exists>e. andThen m k w = (Inl e, w)"
  by (cases "m w") (auto simp: andThen_def split: sum.splits)

lemma reads_only: "snd (check b e w) = w" "snd (reading f w) = w" "snd (unless c (validateActorCatalogUniqueness g) w) = w"
  by (simp_all add: check_def reading_def unless_def ret_def validateActorCatalogUniqueness_def)

text \<open>C36. The skills depend on a variable that the validation does not ask for. In an environment without \<open>FASTAPI_URL\<close>, and
with a fetch that rejects an address without a scheme, every creation, every import, every search and every change of a skill's
content is refused, and nothing is stored.\<close>

theorem skills_need_an_address:
  assumes "env ''FASTAPI_URL'' = None" "\<And>url body. CHR '':'' \<notin> set url \<Longrightarrow> fetch url body = None"
  shows "''FASTAPI_URL'' \<notin> fst ` set envSchema \<and>
    (\<exists>e. createSkill (generateEmbedding env fetch) dto caller w = (Inl e, w)) \<and>
    (\<exists>e. importSkills (generateEmbeddingBatch env fetch) skills caller w = (Inl e, w)) \<and>
    (\<exists>e. semanticSearch (generateEmbedding env fetch) flat ratio query caller w = (Inl e, w)) \<and>
    (\<forall>s. findSkillByIdAndOrg i (rq_orgId caller) w = (Inr s, w) \<longrightarrow> content_changed change s \<longrightarrow>
       (\<exists>e. updateSkill (generateEmbedding env fetch) i change caller w = (Inl e, w)))"
proof (intro conjI allI impI)
  have none: "generateEmbedding env fetch content = None" "generateEmbeddingBatch env fetch texts = None" for content texts
    using unreachable [of env fetch] assms by blast+
  show "''FASTAPI_URL'' \<notin> fst ` set envSchema" by (simp add: envSchema_def)
  show "\<exists>e. createSkill (generateEmbedding env fetch) dto caller w = (Inl e, w)"
    unfolding createSkill_def assertCanModify_def none(1) by (intro rejected rejected_after reads_only)
  show "\<exists>e. importSkills (generateEmbeddingBatch env fetch) skills caller w = (Inl e, w)"
    unfolding importSkills_def assertCanModify_def none(2) case_prod_beta by (intro rejected rejected_after reads_only)
  show "\<exists>e. semanticSearch (generateEmbedding env fetch) flat ratio query caller w = (Inl e, w)"
    unfolding semanticSearch_def none(1) by (rule rejected)
  show "\<exists>e. updateSkill (generateEmbedding env fetch) i change caller w = (Inl e, w)"
    if found: "findSkillByIdAndOrg i (rq_orgId caller) w = (Inr s, w)" and changed: "content_changed change s" for s
  proof -
    have "updateSkill (generateEmbedding env fetch) i change caller w =
        andThen (assertCanModify (rq_role caller)) (\<lambda>_. andThen (check (\<not> (sk_skillType s = SkillType.ACTOR_CATALOG \<and> uk_isMandatory change = Some False))
          (ForbiddenException (JStr ''ACTOR_CATALOG skills must always be mandatory''))) (\<lambda>_. throw (InternalServerErrorException
            (JStr ''Failed to regenerate skill embedding'')))) w"
      unfolding updateSkill_def none(1) Let_def
      by (simp add: found changed run_simps) (simp add: andThen_def orThrow_def throw_def changed split: prod.splits sum.splits)
    moreover have "\<exists>e. andThen (assertCanModify (rq_role caller)) (\<lambda>_. andThen (check b e0) (\<lambda>_. throw e1)) w = (Inl e, w)" for b e0 e1
      unfolding assertCanModify_def by (intro rejected_after reads_only) (simp add: throw_def)
    ultimately show ?thesis by simp
  qed
qed

definition sample_fetch :: fetch where
  "sample_fetch url body =
     (if CHR '':'' \<in> set url then Some (200, JObj [(''embedding'', JArr [JNum ''1''])]) else None)"

theorem skills_need_an_address_witness:
  "(\<forall>dto caller w. \<exists>e. createSkill (generateEmbedding sample_env sample_fetch) dto caller w = (Inl e, w)) \<and>
   generateEmbedding (sample_env(''FASTAPI_URL'' \<mapsto> ''http://fastapi'')) sample_fetch ''text'' = Some (Some [''1''])"
proof
  have "sample_env ''FASTAPI_URL'' = None" by (simp add: sample_env_def)
  moreover have "CHR '':'' \<notin> set url \<Longrightarrow> sample_fetch url body = None" for url body by (simp add: sample_fetch_def)
  ultimately have "\<exists>e. createSkill (generateEmbedding sample_env sample_fetch) dto caller w = (Inl e, w)" for dto caller w
    using skills_need_an_address [where env = sample_env and fetch = sample_fetch] by blast
  then show "\<forall>dto caller w. \<exists>e. createSkill (generateEmbedding sample_env sample_fetch) dto caller w = (Inl e, w)" by blast
  show "generateEmbedding (sample_env(''FASTAPI_URL'' \<mapsto> ''http://fastapi'')) sample_fetch ''text'' = Some (Some [''1''])"
    by (simp add: generateEmbedding_def embedding_address_def sample_fetch_def response_ok_def embedding_field_def get_prop_def number_of_def)
qed

end
