(* ===== verification/Demo_Data.thy ===== *)
theory Demo_Data
  imports Schema "HOL-Library.Word"
begin

text \<open>
  The development seeder, \<open>src/database/seed.ts\<close>: identifiers drawn from \<open>Math.random\<close>, rows inserted into the tables of a
  schema of the migrations. An insertion is checked as PostgreSQL checks it, against the columns, types, keys and references of
  \<open>Schema\<close> and the trigger on workflow versions. The statements run outside a transaction: what came before a failure stays.
  The order of a \<open>SELECT\<close> without \<open>ORDER BY\<close> is taken to be the order of insertion.
\<close>

section \<open>Identifiers\<close>

unbundle bit_operations_syntax

definition uuid_digit :: "4 word \<Rightarrow> char" where
  "uuid_digit r = ''0123456789abcdef'' ! unat r"

text \<open>Each \<open>x\<close> and \<open>y\<close> of the template takes the next draw, \<open>Math.random() * 16 | 0\<close>.\<close>

fun replace_digits :: "string \<Rightarrow> (nat \<Rightarrow> 4 word) \<Rightarrow> nat \<Rightarrow> string" where
  "replace_digits [] draws n = []"
| "replace_digits (c # cs) draws n =
     (if c = CHR ''x'' then uuid_digit (draws n) # replace_digits cs draws (Suc n)
      else if c = CHR ''y'' then uuid_digit ((draws n AND 3) OR 8) # replace_digits cs draws (Suc n)
      else c # replace_digits cs draws n)"

definition uuid_template :: string where
  "uuid_template = ''xxxxxxxx-xxxx-4xxx-yxxx-xxxxxxxxxxxx''"

definition uuid :: "(nat \<Rightarrow> 4 word) \<Rightarrow> string" where
  "uuid draws = replace_digits uuid_template draws 0"

text \<open>The identifier of the \<open>n\<close>-th call: a call takes 31 draws.\<close>

definition nth_uuid :: "(nat \<Rightarrow> 4 word) \<Rightarrow> nat \<Rightarrow> string" where
  "nth_uuid draws n = uuid (\<lambda>i. draws (31 * n + i))"

text \<open>The form of a \<open>uuid\<close> that the database reads and writes, with hyphens in their places.\<close>

definition is_hex :: "char \<Rightarrow> bool" where
  "is_hex c \<longleftrightarrow> c \<in> set ''0123456789abcdefABCDEF''"

definition is_uuid :: "string \<Rightarrow> bool" where
  "is_uuid s \<longleftrightarrow> list_all2 (\<lambda>p c. if p = CHR ''-'' then c = CHR ''-'' else is_hex c) uuid_template s"

section \<open>Rows\<close>

text \<open>
  A cell: a text, a value of an enumeration (\<open>$4::user_role_enum\<close>), a boolean, an integer, a decimal as written, a list of
  texts, a JSON text, or what the database computes (\<open>now()\<close>, a default).
\<close>

datatype cell =
    Null | Text string | Enum_Value string string | Flag bool | Number int | Decimal string | Texts "string list"
  | Json_Text string | Computed string

type_synonym row = "(string \<times> cell) list"
type_synonym contents = "string \<Rightarrow> row list"

record demo_world =
  dw_rows :: contents
  dw_draws :: "nat \<Rightarrow> 4 word"
  dw_calls :: nat

type_synonym 'a seeding = "(demo_world, string, 'a) action"

definition cell_of :: "row \<Rightarrow> string \<Rightarrow> cell" where
  "cell_of r c = (case map_of r c of None \<Rightarrow> Null | Some v \<Rightarrow> v)"

fun text_of :: "cell \<Rightarrow> string" where
  "text_of (Text s) = s"
| "text_of _ = []"

fun cell_fits :: "(string \<times> string list) list \<Rightarrow> sql_type \<Rightarrow> cell \<Rightarrow> bool" where
  "cell_fits types ty Null = True"
| "cell_fits types ty (Computed e) = True"
| "cell_fits types ty (Enum_Value n s) = (ty = Ty_named n \<and> (case map_of types n of None \<Rightarrow> False | Some vs \<Rightarrow> s \<in> set vs))"
| "cell_fits types ty (Flag b) = (ty = Ty_boolean)"
| "cell_fits types ty (Number i) = (ty = Ty_integer \<and> - (2 ^ 31) \<le> i \<and> i < 2 ^ 31 \<or> ty = Ty_smallint \<and> - (2 ^ 15) \<le> i \<and> i < 2 ^ 15)"
| "cell_fits types ty (Decimal s) = (ty = Ty_float)"
| "cell_fits types ty (Texts ss) = (ty = Ty_array Ty_text)"
| "cell_fits types ty (Json_Text s) = (ty = Ty_jsonb)"
| "cell_fits types ty (Text s) =
     (case ty of Ty_text \<Rightarrow> True | Ty_citext \<Rightarrow> True | Ty_varchar n \<Rightarrow> length s \<le> n | Ty_uuid \<Rightarrow> is_uuid s | _ \<Rightarrow> False)"

text \<open>Equality of a unique key: nothing equals null, \<open>citext\<close> compares without case, two computed identifiers differ.\<close>

fun cell_eq :: "sql_type \<Rightarrow> cell \<Rightarrow> cell \<Rightarrow> bool" where
  "cell_eq ty Null v = False"
| "cell_eq ty (Computed e) v = False"
| "cell_eq ty (Text s) (Text t) = (if ty = Ty_citext then js_toLowerCase s = js_toLowerCase t else s = t)"
| "cell_eq ty u v = (u = v)"

definition column_type :: "table \<Rightarrow> string \<Rightarrow> sql_type" where
  "column_type x c = (case find (\<lambda>d. cl_name d = c) (tb_columns x) of None \<Rightarrow> Ty_text | Some d \<Rightarrow> cl_type d)"

definition unique_keys :: "schema \<Rightarrow> table \<Rightarrow> string list list" where
  "unique_keys sc x =
     map (\<lambda>c. [cl_name c]) (filter cl_unique (tb_columns x)) @ tb_uniques x @
     map ix_columns (filter (\<lambda>i. ix_unique i \<and> ix_table i = tb_name x) (sc_indexes sc))"

definition key_eq :: "table \<Rightarrow> string list \<Rightarrow> row \<Rightarrow> row \<Rightarrow> bool" where
  "key_eq x key r q \<longleftrightarrow> list_all (\<lambda>c. cell_eq (column_type x c) (cell_of r c) (cell_of q c)) key"

definition full_row :: "table \<Rightarrow> row \<Rightarrow> row" where
  "full_row x given =
     map (\<lambda>c. (cl_name c,
                case map_of given (cl_name c) of
                  Some v \<Rightarrow> v
                | None \<Rightarrow> (case cl_default c of None \<Rightarrow> Null | Some e \<Rightarrow> Computed e))) (tb_columns x)"

definition refers_to_row :: "contents \<Rightarrow> row \<Rightarrow> column \<Rightarrow> bool" where
  "refers_to_row rows r c \<longleftrightarrow>
     (case cl_references c of
        None \<Rightarrow> True
      | Some (t, _) \<Rightarrow>
          let v = cell_of r (cl_name c) in v = Null \<or> list_ex (\<lambda>q. cell_eq (cl_type c) v (cell_of q ''id'')) (rows t))"

text \<open>\<open>enforce_workflow_current_version\<close>, run before an insertion and before an update of \<open>current_version\<close>.\<close>

fun int_of :: "cell \<Rightarrow> int" where
  "int_of (Number i) = i"
| "int_of _ = 0"

definition max_version :: "contents \<Rightarrow> cell \<Rightarrow> int" where
  "max_version rows i =
     (case map (\<lambda>r. int_of (cell_of r ''version_number''))
             (filter (\<lambda>r. cell_eq Ty_uuid i (cell_of r ''workflow_id'')) (rows ''workflow_version'')) of
        [] \<Rightarrow> 0 | n # ns \<Rightarrow> foldl max n ns)"

definition enforce_current_version :: "schema \<Rightarrow> contents \<Rightarrow> string \<Rightarrow> row \<Rightarrow> bool" where
  "enforce_current_version sc rows t r \<longleftrightarrow>
     list_ex (\<lambda>g. tg_table g = t \<and> tg_function g = ''enforce_workflow_current_version'') (sc_triggers sc) \<longrightarrow>
     int_of (cell_of r ''current_version'') \<le> max_version rows (cell_of r ''id'')"

section \<open>Statements\<close>

text \<open>\<open>INSERT INTO t (...) VALUES (...) ON CONFLICT (target) DO NOTHING\<close>: an error, nothing, or a new row.\<close>

definition insertion :: "schema \<Rightarrow> contents \<Rightarrow> string \<Rightarrow> row \<Rightarrow> string \<Rightarrow> string + row option" where
  "insertion sc rows t given target =
     (case find_table t sc of
        None \<Rightarrow> Inl ''relation does not exist''
      | Some x \<Rightarrow>
          if \<not> has_columns x (map fst given) then Inl ''column does not exist''
          else if [target] \<notin> set (unique_keys sc x) then Inl ''no unique constraint matches''
          else if \<not> list_all (\<lambda>(c, v). cell_fits (sc_types sc) (column_type x c) v) given then Inl ''invalid input''
          else let r = full_row x given in
            if \<not> enforce_current_version sc rows t r then Inl ''current_version exceeds the latest version''
            else if list_ex (\<lambda>c. cl_notnull c \<and> cell_of r (cl_name c) = Null) (tb_columns x) then Inl ''null value''
            else if list_ex (\<lambda>c. case (cl_check c, cell_of r (cl_name c)) of
                                   (Some vs, Text s) \<Rightarrow> s \<notin> set vs | _ \<Rightarrow> False) (tb_columns x) then Inl ''check violated''
            else if list_ex (key_eq x [target] r) (rows t) then Inr None
            else if list_ex (\<lambda>u. list_ex (key_eq x u r) (rows t)) (unique_keys sc x) then Inl ''duplicate key''
            else if \<not> list_all (refers_to_row (rows(t := rows t @ [r])) r) (tb_columns x) then Inl ''no such row''
            else Inr (Some r))"

definition insert_into :: "schema \<Rightarrow> string \<Rightarrow> row \<Rightarrow> string \<Rightarrow> unit seeding" where
  "insert_into sc t given target w =
     (case insertion sc (dw_rows w) t given target of
        Inl e \<Rightarrow> (Inl e, w)
      | Inr None \<Rightarrow> (Inr (), w)
      | Inr (Some r) \<Rightarrow> (Inr (), w\<lparr>dw_rows := (dw_rows w)(t := dw_rows w t @ [r])\<rparr>))"

definition select_from :: "schema \<Rightarrow> string \<Rightarrow> string list \<Rightarrow> (row \<Rightarrow> bool) \<Rightarrow> row list seeding" where
  "select_from sc t cs p w =
     (case find_table t sc of
        None \<Rightarrow> (Inl ''relation does not exist'', w)
      | Some x \<Rightarrow> if has_columns x cs then (Inr (filter p (dw_rows w t)), w) else (Inl ''column does not exist'', w))"

definition set_cell :: "string \<Rightarrow> cell \<Rightarrow> row \<Rightarrow> row" where
  "set_cell c v r = map (\<lambda>(d, u). (d, if d = c then v else u)) r"

text \<open>\<open>UPDATE workflow SET current_version = 1, updated_at = now() WHERE id = $1\<close>: all its rows, or an error.\<close>

definition set_version_one :: "schema \<Rightarrow> string \<Rightarrow> unit seeding" where
  "set_version_one sc i w =
     (case find_table ''workflow'' sc of
        None \<Rightarrow> (Inl ''relation does not exist'', w)
      | Some x \<Rightarrow>
          let hit = (\<lambda>r. cell_of r ''id'' = Text i);
              new = (\<lambda>r. set_cell ''current_version'' (Number 1) (set_cell ''updated_at'' (Computed ''now()'') r)) in
          if \<not> has_columns x [''current_version'', ''updated_at'', ''id''] then (Inl ''column does not exist'', w)
          else if \<not> is_uuid i then (Inl ''invalid input'', w)
          else if list_ex (\<lambda>r. hit r \<and> \<not> enforce_current_version sc (dw_rows w) ''workflow'' (new r)) (dw_rows w ''workflow'')
          then (Inl ''current_version exceeds the latest version'', w)
          else (Inr (), w\<lparr>dw_rows := (dw_rows w)(''workflow'' := map (\<lambda>r. if hit r then new r else r) (dw_rows w ''workflow''))\<rparr>))"

definition next_uuid :: "string seeding" where
  "next_uuid w = (Inr (nth_uuid (dw_draws w) (dw_calls w)), w\<lparr>dw_calls := Suc (dw_calls w)\<rparr>)"

text \<open>\<open>for (const x of xs)\<close>, collecting what each turn yields, and \<open>try ... catch (e)\<close>.\<close>

fun for_each :: "('x \<Rightarrow> 'a seeding) \<Rightarrow> 'x list \<Rightarrow> 'a list seeding" where
  "for_each f [] = ret []"
| "for_each f (x # xs) = andThen (f x) (\<lambda>a. andThen (for_each f xs) (\<lambda>as. ret (a # as)))"

definition recovering :: "'a seeding \<Rightarrow> 'a \<Rightarrow> 'a seeding" where
  "recovering m d w = (case m w of (Inl e, v) \<Rightarrow> (Inr d, v) | (Inr a, v) \<Rightarrow> (Inr a, v))"

definition optional :: "string option \<Rightarrow> cell" where
  "optional s = (case s of None \<Rightarrow> Null | Some t \<Rightarrow> Text t)"

definition now_cells :: row where
  "now_cells = [(''created_at'', Computed ''now()''), (''updated_at'', Computed ''now()'')]"

section \<open>The stages of \<open>seed\<close>\<close>

definition acme_name :: string where
  "acme_name = ''Acme Corporation''"

definition id_of :: "row \<Rightarrow> string" where
  "id_of r = text_of (cell_of r ''id'')"

definition seed_organization :: "schema \<Rightarrow> string seeding" where
  "seed_organization sc =
     andThen next_uuid (\<lambda>i.
     andThen (insert_into sc ''organization''
       ([(''id'', Text i), (''name'', Text acme_name), (''plan'', Text ''free'')] @ now_cells) ''name'') (\<lambda>_.
     andThen (select_from sc ''organization'' [''id'', ''name''] (\<lambda>r. cell_of r ''name'' = Text acme_name)) (\<lambda>found.
     ret (case found of [] \<Rightarrow> i | r # _ \<Rightarrow> if id_of r = [] then i else id_of r))))"

definition demo_users :: "(string \<times> string) list" where
  "demo_users = [(''admin@acme.com'', ''admin''), (''owner@acme.com'', ''process_owner''), (''analyst@acme.com'', ''business_analyst'')]"

definition PRECOMPUTED_PASSWORD_HASH :: string where
  "PRECOMPUTED_PASSWORD_HASH = ''$2b$10$EqKcp1WMJP0xCWQ5H3GJyuVbNO4cI2G7pYvK0LbC2VqT7KQf0qQ3e''"

definition ends_with :: "string \<Rightarrow> string \<Rightarrow> bool" where
  "ends_with s p \<longleftrightarrow> drop (length s - length p) s = p"

text \<open>\<open>email LIKE '%@acme.com'\<close>, on \<open>citext\<close> without case; \<open>Array.find\<close> compares with it.\<close>

definition acme_user :: "row \<Rightarrow> bool" where
  "acme_user r \<longleftrightarrow> ends_with (js_toLowerCase (text_of (cell_of r ''email''))) ''@acme.com''"

definition user_id :: "string \<Rightarrow> row list \<Rightarrow> string option" where
  "user_id email us = map_option id_of (find (\<lambda>r. cell_of r ''email'' = Text email) us)"

definition seed_user :: "schema \<Rightarrow> string \<Rightarrow> string \<times> string \<Rightarrow> string seeding" where
  "seed_user sc org = (\<lambda>(email, role).
     andThen next_uuid (\<lambda>i.
     andThen (insert_into sc ''user''
       ([(''id'', Text i), (''email'', Text email), (''password_hash'', Text PRECOMPUTED_PASSWORD_HASH),
         (''role'', Enum_Value ''user_role_enum'' role), (''org_id'', Text org), (''is_verified'', Flag True),
         (''is_active'', Flag True)] @ now_cells) ''email'') (\<lambda>_.
     ret i)))"

definition seed_users :: "schema \<Rightarrow> string \<Rightarrow> (string option \<times> string option \<times> string option) seeding" where
  "seed_users sc org =
     andThen (select_from sc ''user'' [''id'', ''email'', ''role''] acme_user) (\<lambda>found.
     if found = [] then
       andThen (for_each (seed_user sc org) demo_users) (\<lambda>ids. ret (Some (ids ! 0), Some (ids ! 1), Some (ids ! 2)))
     else
       ret (user_id ''admin@acme.com'' found, user_id ''owner@acme.com'' found, user_id ''analyst@acme.com'' found))"

definition seed_project :: "schema \<Rightarrow> string \<Rightarrow> string option \<Rightarrow> string \<Rightarrow> string seeding" where
  "seed_project sc org owner nm =
     andThen next_uuid (\<lambda>i.
     andThen (insert_into sc ''project''
       ([(''id'', Text i), (''name'', Text nm), (''org_id'', Text org), (''owner_id'', optional owner)] @ now_cells) ''id'') (\<lambda>_.
     ret i))"

definition seed_projects :: "schema \<Rightarrow> string \<Rightarrow> string option \<Rightarrow> (string \<times> string) seeding" where
  "seed_projects sc org owner =
     recovering
       (andThen (select_from sc ''project'' [''id'', ''name'', ''org_id''] (\<lambda>r. cell_of r ''org_id'' = Text org)) (\<lambda>found.
        case found of
          [] \<Rightarrow> andThen (for_each (seed_project sc org owner) [''HR Workflows'', ''Finance Automation'']) (\<lambda>ids.
                ret (ids ! 0, ids ! 1))
        | p # ps \<Rightarrow> ret (id_of p, (case ps of [] \<Rightarrow> id_of p | q # _ \<Rightarrow> if id_of q = [] then id_of p else id_of q))))
       ([], [])"

record demo_workflow =
  dm_title :: string
  dm_description :: string
  dm_status :: string
  dm_domain :: string
  dm_tags :: "string list"
  dm_projectId :: string

definition demo_workflows :: "string \<Rightarrow> string \<Rightarrow> demo_workflow list" where
  "demo_workflows hr finance =
     [\<lparr>dm_title = ''Employee Onboarding'', dm_description = ''Complete onboarding process for new employees'',
       dm_status = ''validated'', dm_domain = ''HR'', dm_tags = [''onboarding'', ''hr''], dm_projectId = hr\<rparr>,
      \<lparr>dm_title = ''Expense Approval'', dm_description = ''Approve employee expense reports'',
       dm_status = ''in_elicitation'', dm_domain = ''Finance'', dm_tags = [''approval'', ''finance''], dm_projectId = finance\<rparr>,
      \<lparr>dm_title = ''Vacation Request'', dm_description = ''Process vacation leave requests'',
       dm_status = ''draft'', dm_domain = ''HR'', dm_tags = [''leave'', ''hr''], dm_projectId = hr\<rparr>]"

definition workflow_cells :: "string \<Rightarrow> string option \<Rightarrow> string \<Rightarrow> demo_workflow \<Rightarrow> row" where
  "workflow_cells org owner i m =
     [(''id'', Text i), (''title'', Text (dm_title m)), (''description'', Text (dm_description m)),
      (''status'', Enum_Value ''workflow_status_enum'' (dm_status m)), (''current_version'', Number 0), (''org_id'', Text org),
      (''owner_id'', optional owner), (''project_id'', Text (dm_projectId m)), (''domain'', Text (dm_domain m)),
      (''tags'', Texts (dm_tags m))] @ now_cells"

definition version_cells :: "string \<Rightarrow> string \<Rightarrow> row" where
  "version_cells v i =
     [(''id'', Text v), (''workflow_id'', Text i), (''version_number'', Number 1),
      (''version_data'', Json_Text ''{\"nodes\":[],\"edges\":[]}''), (''status'', Text ''published'')] @ now_cells"

definition seed_workflow :: "schema \<Rightarrow> string \<Rightarrow> string option \<Rightarrow> demo_workflow \<Rightarrow> string seeding" where
  "seed_workflow sc org owner m =
     andThen next_uuid (\<lambda>i.
     andThen (recovering
       (andThen (insert_into sc ''workflow'' (workflow_cells org owner i m) ''id'') (\<lambda>_.
        andThen next_uuid (\<lambda>v.
        andThen (insert_into sc ''workflow_version'' (version_cells v i) ''id'') (\<lambda>_.
        set_version_one sc i)))) ()) (\<lambda>_.
     ret i))"

text \<open>The three identifiers are there in any case; the lists below are as long as the ones the code takes apart.\<close>

definition seed_workflows :: "schema \<Rightarrow> string \<Rightarrow> string option \<Rightarrow> string \<times> string \<Rightarrow> string list seeding" where
  "seed_workflows sc org owner ps = for_each (seed_workflow sc org owner) (demo_workflows (fst ps) (snd ps))"

definition session_plan :: "(string \<times> string) list" where
  "session_plan = [(''auto'', ''validated''), (''interactive'', ''in_elicitation''), (''auto'', ''processing'')]"

definition session_cells :: "string option \<Rightarrow> string \<times> string \<times> string \<Rightarrow> string \<Rightarrow> row" where
  "session_cells analyst = (\<lambda>(workflow, mode, status) i.
     [(''id'', Text i), (''workflow_id'', Text workflow), (''user_id'', optional analyst),
      (''mode'', Enum_Value ''session_mode_enum'' mode), (''status'', Enum_Value ''session_status_enum'' status),
      (''confidence_score'', Decimal ''0.85''), (''created_at'', Computed ''now()'')])"

definition seed_session :: "schema \<Rightarrow> string option \<Rightarrow> string \<times> string \<times> string \<Rightarrow> string seeding" where
  "seed_session sc analyst s =
     andThen next_uuid (\<lambda>i.
     andThen (insert_into sc ''session'' (session_cells analyst s i) ''id'') (\<lambda>_.
     ret i))"

definition seed_sessions :: "schema \<Rightarrow> string option \<Rightarrow> string list \<Rightarrow> string list seeding" where
  "seed_sessions sc analyst workflows = for_each (seed_session sc analyst) (zip workflows session_plan)"

definition session1Messages :: "(string \<times> string \<times> string) list" where
  "session1Messages =
     [(''user'', ''user_input'', ''Create an employee onboarding workflow that collects personal details, provisions system access, and confirms completion.''),
      (''ai'', ''ai_response'', ''I've analyzed your request and identified the key actors: HR Manager, IT Department, and New Employee.''),
      (''ai'', ''ai_summary'', ''The onboarding workflow includes 5 main steps: collect details, verify documents, create accounts, assign training, and confirm completion.''),
      (''system'', ''system_status'', ''Session completed with 85% confidence. Workflow ready for review.'')]"

definition session2Messages :: "(string \<times> string \<times> string) list" where
  "session2Messages =
     [(''user'', ''user_input'', ''Build an expense approval workflow that routes to manager for approval based on amount.''),
      (''ai'', ''ai_question'', ''What should happen to requests under $100? Should they require manager approval or can they be auto-approved?''),
      (''user'', ''user_input'', ''Under $100 can be auto-approved, over $100 needs manager.''),
      (''ai'', ''ai_response'', ''Got it! I've added a decision gateway based on amount threshold.'')]"

definition message_cells :: "string \<times> string \<times> string \<times> string \<Rightarrow> string \<Rightarrow> row" where
  "message_cells = (\<lambda>(session, role, type, content) i.
     [(''id'', Text i), (''session_id'', Text session), (''role'', Enum_Value ''message_role_enum'' role),
      (''type'', Enum_Value ''message_type_enum'' type), (''content'', Text content), (''metadata'', Json_Text ''{}''),
      (''created_at'', Computed ''now()'')])"

definition seed_message :: "schema \<Rightarrow> string \<times> string \<times> string \<times> string \<Rightarrow> unit seeding" where
  "seed_message sc m = andThen next_uuid (\<lambda>i. insert_into sc ''message'' (message_cells m i) ''id'')"

definition seed_messages :: "schema \<Rightarrow> string list \<Rightarrow> unit seeding" where
  "seed_messages sc sessions =
     forget (for_each (seed_message sc)
       (map (Pair (sessions ! 0)) session1Messages @ map (Pair (sessions ! 1)) session2Messages))"

definition demo_comments :: "string option \<Rightarrow> string option \<Rightarrow> (string \<times> string \<times> string option) list" where
  "demo_comments owner analyst =
     [(''approval'', ''This workflow looks good! Approved for export.'', owner),
      (''question'', ''Should there be a notification to the employee when their request is approved or rejected?'', analyst),
      (''correction'', ''Please change the approval timeout from 48 hours to 24 hours.'', owner)]"

definition comment_cells :: "string \<times> string \<times> string \<times> string option \<Rightarrow> string \<Rightarrow> row" where
  "comment_cells = (\<lambda>(workflow, type, content, author) i.
     [(''id'', Text i), (''workflow_id'', Text workflow), (''type'', Enum_Value ''comment_type_enum'' type),
      (''content'', Text content), (''author_id'', optional author), (''created_at'', Computed ''now()'')])"

definition seed_comment :: "schema \<Rightarrow> string \<times> string \<times> string \<times> string option \<Rightarrow> unit seeding" where
  "seed_comment sc m = andThen next_uuid (\<lambda>i. insert_into sc ''comment'' (comment_cells m i) ''id'')"

definition seed_comments :: "schema \<Rightarrow> string option \<Rightarrow> string option \<Rightarrow> string list \<Rightarrow> unit seeding" where
  "seed_comments sc owner analyst workflows =
     forget (for_each (seed_comment sc) (zip workflows (demo_comments owner analyst)))"

definition demo_documents :: "(string \<times> string \<times> string \<times> int) list" where
  "demo_documents =
     [(''HR Policy Manual'', ''hr-policy.pdf'', ''application/pdf'', 1024000),
      (''Expense Form Template'', ''expense-form.docx'', ''application/vnd.openxmlformats-officedocument.wordprocessingml.document'', 51200),
      (''Leave Request Notes'', ''leave-notes.txt'', ''text/plain'', 4096)]"

definition document_cells :: "string \<times> string \<times> string \<times> string \<times> int \<Rightarrow> string \<Rightarrow> row" where
  "document_cells = (\<lambda>(workflow, nm, originalName, mimeType, bytes) i.
     [(''id'', Text i), (''workflow_id'', Text workflow), (''filename'', Text nm), (''file_type'', Text mimeType),
      (''storage_url'', Text (''documents/'' @ workflow @ ''/'' @ originalName)), (''file_size_bytes'', Number bytes),
      (''doc_version'', Number 1), (''created_at'', Computed ''now()'')])"

definition seed_document :: "schema \<Rightarrow> string \<times> string \<times> string \<times> string \<times> int \<Rightarrow> unit seeding" where
  "seed_document sc m = andThen next_uuid (\<lambda>i. insert_into sc ''document'' (document_cells m i) ''id'')"

definition seed_documents :: "schema \<Rightarrow> string list \<Rightarrow> unit seeding" where
  "seed_documents sc workflows = forget (for_each (seed_document sc) (zip workflows demo_documents))"

definition seed :: "schema \<Rightarrow> unit seeding" where
  "seed sc =
     andThen (seed_organization sc) (\<lambda>org.
     andThen (seed_users sc org) (\<lambda>(admin, owner, analyst).
     andThen (seed_projects sc org owner) (\<lambda>projects.
     andThen (seed_workflows sc org owner projects) (\<lambda>workflows.
     andThen (seed_sessions sc analyst workflows) (\<lambda>sessions.
     andThen (seed_messages sc sessions) (\<lambda>_.
     andThen (seed_comments sc owner analyst workflows) (\<lambda>_.
     seed_documents sc workflows)))))))"

end
