(* ===== verification/Demo_Rows.thy ===== *)
theory Demo_Rows
  imports Demo_Data Schema_Served
begin

text \<open>
  What the seeder does to a database that the migrations made: which statements it gets through, what a run adds, and that
  running it again adds the same again.
\<close>

section \<open>Identifiers\<close>

lemma uuid_digit_hex: "is_hex (uuid_digit r)"
proof -
  have "unat r < 16" using unsigned_less [of r] by simp
  then have "uuid_digit r \<in> set ''0123456789abcdef''" unfolding uuid_digit_def by (intro nth_mem) simp
  moreover have "set ''0123456789abcdef'' \<subseteq> set ''0123456789abcdefABCDEF''" by simp
  ultimately show ?thesis unfolding is_hex_def by blast
qed

lemma hex_signs: "is_hex CHR ''4''"
  by (simp add: is_hex_def)

lemma uuid_valid: "is_uuid (uuid draws)"
  by (simp add: is_uuid_def uuid_def uuid_template_def uuid_digit_hex hex_signs)

lemma nth_uuid_valid [simp]: "is_uuid (nth_uuid draws n)"
  by (simp add: nth_uuid_def uuid_valid)

lemma uuid_not_empty: "is_uuid s \<Longrightarrow> s \<noteq> []"
  by (auto simp: is_uuid_def uuid_template_def)

lemma id_cell: "is_uuid (id_of r) \<Longrightarrow> cell_of r ''id'' = Text (id_of r)"
  using uuid_not_empty [of "id_of r"] by (cases "cell_of r ''id''") (auto simp: id_of_def)

section \<open>The schema\<close>

lemma init_indexes_plain: "list_all (\<lambda>i. \<not> ix_unique i) init_indexes"
  by code_simp

lemma unique_indexes:
  "filter ix_unique (sc_indexes schema10) = [unique_index ''idx_project_name_org'' ''project'' [''name'', ''org_id'']]"
  using init_indexes_plain
  by (simp add: schema10_def schema9_def schema8_def hardened_def HardenAuditLogAccess_def schema_defs migration_defs
      AddProjectsTable_def AddProjectIdToWorkflow_def core_schema_def plain_index_def unique_index_def add_index_def
      add_column_def add_table_def list_all_iff filter_empty_conv)

lemma final_triggers: "sc_triggers schema10 = core_triggers"
  by (simp add: schema10_def schema9_def schema8_def hardened_def HardenAuditLogAccess_def schema_defs migration_defs
      AddProjectsTable_def AddProjectIdToWorkflow_def core_schema_def add_index_def add_column_def add_table_def)

lemma unique_keys_final:
  "unique_keys schema10 x =
     map (\<lambda>c. [cl_name c]) (filter cl_unique (tb_columns x)) @ tb_uniques x @
     (if tb_name x = ''project'' then [[''name'', ''org_id'']] else [])"
proof -
  have "filter (\<lambda>i. ix_unique i \<and> ix_table i = tb_name x) (sc_indexes schema10) =
      filter (\<lambda>i. ix_table i = tb_name x) (filter ix_unique (sc_indexes schema10))"
    by (simp add: conj_commute)
  then show ?thesis by (simp add: unique_keys_def unique_indexes unique_index_def)
qed

text \<open>A table whose one key is its identifier, without checks, and whose references are identifiers too.\<close>

definition references :: "table \<Rightarrow> (string \<times> string) list" where
  "references x = concat (map (\<lambda>c. case cl_references c of None \<Rightarrow> [] | Some (t, _) \<Rightarrow> [(cl_name c, t)]) (tb_columns x))"

definition keyed_by_id :: "table \<Rightarrow> bool" where
  "keyed_by_id x \<longleftrightarrow>
     tb_name x \<noteq> ''project'' \<and> map cl_name (filter cl_unique (tb_columns x)) = [''id''] \<and> tb_uniques x = [] \<and>
     column_type x ''id'' = Ty_uuid \<and>
     list_all (\<lambda>c. cl_check c = None \<and> (cl_references c = None \<or> cl_type c = Ty_uuid)) (tb_columns x)"

lemma demo_tables_keyed:
  "keyed_by_id final_workflow" "keyed_by_id final_session" "keyed_by_id final_message" "keyed_by_id final_comment"
  "keyed_by_id final_document"
  by code_simp+

lemma demo_references:
  "references final_workflow = [(''org_id'', ''organization''), (''owner_id'', ''user'')]"
  "references final_session = [(''workflow_id'', ''workflow''), (''user_id'', ''user'')]"
  "references final_message = [(''session_id'', ''session'')]"
  "references final_comment =
     [(''workflow_id'', ''workflow''), (''author_id'', ''user''), (''resolved_by'', ''user''), (''parent_id'', ''comment''),
      (''assigned_to'', ''user'')]"
  "references final_document = [(''workflow_id'', ''workflow''), (''session_id'', ''session'')]"
  by code_simp+

section \<open>Insertions\<close>

definition id_cells :: "contents \<Rightarrow> string \<Rightarrow> cell set" where
  "id_cells rows t = (\<lambda>r. cell_of r ''id'') ` set (rows t)"

text \<open>What does not depend on the rows there are.\<close>

definition row_ok :: "table \<Rightarrow> row \<Rightarrow> bool" where
  "row_ok x given \<longleftrightarrow>
     has_columns x (map fst given) \<and> list_all (\<lambda>(c, v). cell_fits enum_types (column_type x c) v) given \<and>
     list_all (\<lambda>c. cl_notnull c \<longrightarrow> cell_of (full_row x given) (cl_name c) \<noteq> Null) (tb_columns x)"

definition refers_known :: "contents \<Rightarrow> table \<Rightarrow> row \<Rightarrow> bool" where
  "refers_known rows x r \<longleftrightarrow>
     list_all (\<lambda>(c, u). cell_of r c = Null \<or> (\<exists>j. cell_of r c = Text j \<and> Text j \<in> id_cells rows u)) (references x)"

lemma cell_eq_uuid [simp]: "cell_eq Ty_uuid (Text i) v \<longleftrightarrow> v = Text i"
  by (cases v) auto

lemma key_eq_id:
  assumes "column_type x ''id'' = Ty_uuid" "cell_of r ''id'' = Text i"
  shows "list_ex (key_eq x [''id''] r) (rows t) \<longleftrightarrow> Text i \<in> id_cells rows t"
proof -
  have "key_eq x [''id''] r q \<longleftrightarrow> cell_of q ''id'' = Text i" for q using assms by (simp add: key_eq_def)
  then show ?thesis unfolding list_ex_iff id_cells_def by (auto intro: rev_image_eqI)
qed

lemma refers_known_rows:
  assumes "keyed_by_id x" "refers_known rows x r" "\<And>u. id_cells rows u \<subseteq> id_cells rows' u"
  shows "list_all (refers_to_row rows' r) (tb_columns x)"
  unfolding list_all_iff
proof
  fix c assume c: "c \<in> set (tb_columns x)"
  show "refers_to_row rows' r c"
  proof (cases "cl_references c")
    case (Some p)
    obtain u b where p: "p = (u, b)" by (cases p)
    have "(cl_name c, u) \<in> set (references x)" unfolding references_def using c Some p by (auto intro!: bexI [of _ c])
    then have "cell_of r (cl_name c) = Null \<or> (\<exists>j. cell_of r (cl_name c) = Text j \<and> Text j \<in> id_cells rows' u)"
      using assms(2,3) by (fastforce simp: refers_known_def list_all_iff)
    moreover have "cl_type c = Ty_uuid" using assms(1) c Some by (auto simp: keyed_by_id_def list_all_iff)
    moreover have "Text j \<in> id_cells rows' u \<longleftrightarrow> (\<exists>q \<in> set (rows' u). cell_of q ''id'' = Text j)" for j
      unfolding id_cells_def by (auto intro: rev_image_eqI)
    ultimately show ?thesis
      using Some p by (auto simp: refers_to_row_def list_ex_iff Let_def)
  qed (simp add: refers_to_row_def)
qed

lemma insertion_fresh:
  assumes "find_table t schema10 = Some x" "keyed_by_id x" "row_ok x given" "cell_of (full_row x given) ''id'' = Text i"
    "Text i \<notin> id_cells rows t" "enforce_current_version schema10 rows t (full_row x given)"
    "refers_known rows x (full_row x given)"
  shows "insertion schema10 rows t given ''id'' = Inr (Some (full_row x given))"
proof -
  let ?r = "full_row x given"
  have keys: "unique_keys schema10 x = [[''id'']]"
    using assms(2) by (auto simp: unique_keys_final keyed_by_id_def map_eq_Cons_conv)
  have "list_all (refers_to_row (rows(t := rows t @ [?r])) ?r) (tb_columns x)"
    using assms(2,7) by (rule refers_known_rows) (auto simp: id_cells_def)
  moreover have "\<not> list_ex (key_eq x [''id''] ?r) (rows t)"
    using key_eq_id [of x ?r i rows t] assms(2,4,5) by (simp add: keyed_by_id_def)
  moreover have "\<not> list_ex (\<lambda>c. cl_notnull c \<and> cell_of ?r (cl_name c) = Null) (tb_columns x)"
    using assms(3) by (auto simp: row_ok_def list_all_iff list_ex_iff)
  moreover have "\<not> list_ex (\<lambda>c. case (cl_check c, cell_of ?r (cl_name c)) of
      (Some vs, Text s) \<Rightarrow> s \<notin> set vs | _ \<Rightarrow> False) (tb_columns x)"
    using assms(2) by (auto simp: keyed_by_id_def list_all_iff list_ex_iff)
  ultimately show ?thesis
    using assms(1,3,6) keys by (simp add: insertion_def row_ok_def final_types Let_def)
qed

section \<open>Rows that a run adds\<close>

definition demo_tables :: "string list" where
  "demo_tables = [''workflow'', ''session'', ''message'', ''comment'', ''document'']"

definition next_ids :: "nat \<Rightarrow> demo_world \<Rightarrow> string list" where
  "next_ids m w = map (nth_uuid (dw_draws w)) [dw_calls w..<dw_calls w + m]"

definition unused :: "demo_world \<Rightarrow> string \<Rightarrow> bool" where
  "unused w i \<longleftrightarrow>
     list_all (\<lambda>t. list_all (\<lambda>r. cell_of r ''id'' \<noteq> Text i) (dw_rows w t)) demo_tables \<and>
     list_all (\<lambda>r. cell_of r ''workflow_id'' \<noteq> Text i) (dw_rows w ''workflow_version'')"

text \<open>The next \<open>m\<close> identifiers differ from each other and from those of the rows there are.\<close>

definition fresh_ids :: "nat \<Rightarrow> demo_world \<Rightarrow> bool" where
  "fresh_ids m w \<longleftrightarrow> distinct (next_ids m w) \<and> list_all (unused w) (next_ids m w)"

definition known :: "demo_world \<Rightarrow> string \<times> string \<Rightarrow> bool" where
  "known w = (\<lambda>(t, i). is_uuid i \<and> Text i \<in> id_cells (dw_rows w) t)"

definition new_row :: "string list \<Rightarrow> string \<Rightarrow> row \<Rightarrow> bool" where
  "new_row is t r \<longleftrightarrow>
     cell_of r ''id'' \<in> Text ` set is \<and> (t = ''workflow'' \<longrightarrow> cell_of r ''current_version'' = Number 0)"

text \<open>From one state to a later one: \<open>d t\<close> new rows in the table \<open>t\<close>, with identifiers from the \<open>k\<close> calls between.\<close>

definition grows :: "(string \<Rightarrow> nat) \<Rightarrow> nat \<Rightarrow> demo_world \<Rightarrow> demo_world \<Rightarrow> bool" where
  "grows d k w v \<longleftrightarrow>
     dw_draws v = dw_draws w \<and> dw_calls v = dw_calls w + k \<and> d ''workflow_version'' = 0 \<and>
     (\<forall>t. \<exists>rs. dw_rows v t = dw_rows w t @ rs \<and> length rs = d t \<and> (\<forall>r \<in> set rs. new_row (next_ids k w) t r))"

lemma next_ids_add: "dw_draws v = dw_draws w \<Longrightarrow> dw_calls v = dw_calls w + k \<Longrightarrow> next_ids (k + l) w = next_ids k w @ next_ids l v"
  using upt_add_eq_append [of "dw_calls w" "dw_calls w + k" l] by (simp only: next_ids_def add.assoc [symmetric] map_append le_add1 simp_thms)

lemma grows_refl: "grows (\<lambda>_. 0) 0 w w"
  by (simp add: grows_def)

lemma new_row_mono: "new_row is t r \<Longrightarrow> set is \<subseteq> set js \<Longrightarrow> new_row js t r"
  by (auto simp: new_row_def)

lemma grows_trans:
  assumes "grows d k w v" "grows e l v u"
  shows "grows (\<lambda>t. d t + e t) (k + l) w u"
proof -
  have "next_ids (k + l) w = next_ids k w @ next_ids l v"
    using assms(1) by (intro next_ids_add) (simp_all add: grows_def)
  moreover have "\<exists>rs. dw_rows u t = dw_rows w t @ rs \<and> length rs = d t + e t \<and> (\<forall>r \<in> set rs. new_row (next_ids k w @ next_ids l v) t r)" for t
  proof -
    obtain rs where rs: "dw_rows v t = dw_rows w t @ rs" "length rs = d t" "\<forall>r \<in> set rs. new_row (next_ids k w) t r"
      using assms(1) unfolding grows_def by blast
    obtain qs where qs: "dw_rows u t = dw_rows v t @ qs" "length qs = e t" "\<forall>r \<in> set qs. new_row (next_ids l v) t r"
      using assms(2) unfolding grows_def by blast
    have "\<forall>r \<in> set (rs @ qs). new_row (next_ids k w @ next_ids l v) t r"
      using rs(3) qs(3) new_row_mono [of _ t] by fastforce
    then show ?thesis using rs(1,2) qs(1,2) by (intro exI [of _ "rs @ qs"]) simp
  qed
  ultimately show ?thesis using assms by (simp add: grows_def)
qed

lemma grows_known: "grows d k w v \<Longrightarrow> known w f \<Longrightarrow> known v f"
proof -
  assume g: "grows d k w v" and f: "known w f"
  have "set (dw_rows w t) \<subseteq> set (dw_rows v t)" for t using g unfolding grows_def by (metis set_append sup_ge1)
  then have "id_cells (dw_rows w) t \<subseteq> id_cells (dw_rows v) t" for t unfolding id_cells_def by (rule image_mono)
  then show "known v f" using f unfolding known_def by (cases f) auto
qed

lemma grows_rows: "grows d k w v \<Longrightarrow> d t = 0 \<Longrightarrow> dw_rows v t = dw_rows w t"
  unfolding grows_def by (metis append_Nil2 length_0_conv)

lemma grows_unused:
  assumes "grows d k w v" "unused w i" "i \<notin> set (next_ids k w)"
  shows "unused v i"
proof -
  have "cell_of r ''id'' \<noteq> Text i" if t: "t \<in> set demo_tables" and r: "r \<in> set (dw_rows v t)" for t r
  proof -
    obtain rs where rs: "dw_rows v t = dw_rows w t @ rs" "\<forall>q \<in> set rs. new_row (next_ids k w) t q"
      using assms(1) unfolding grows_def by blast
    from r consider "r \<in> set (dw_rows w t)" | "r \<in> set rs" unfolding rs(1) by auto
    then show ?thesis
    proof cases
      case 1
      then show ?thesis using assms(2) t by (simp add: unused_def list_all_iff)
    next
      case 2
      then show ?thesis using rs(2) assms(3) by (auto simp: new_row_def)
    qed
  qed
  moreover have "dw_rows v ''workflow_version'' = dw_rows w ''workflow_version''"
    using assms(1) by (rule grows_rows) (use assms(1) in \<open>simp add: grows_def\<close>)
  ultimately show ?thesis using assms(2) by (simp add: unused_def list_all_iff)
qed

lemma grows_fresh:
  assumes "grows d k w v" "fresh_ids (k + m) w"
  shows "fresh_ids m v"
proof -
  have "next_ids (k + m) w = next_ids k w @ next_ids m v"
    using assms(1) by (intro next_ids_add) (simp_all add: grows_def)
  then show ?thesis
    using assms(2) grows_unused [OF assms(1)] by (auto simp: fresh_ids_def list_all_iff)
qed

lemma fresh_fewer: "fresh_ids (k + m) w \<Longrightarrow> fresh_ids k w"
  using next_ids_add [of "w\<lparr>dw_calls := dw_calls w + k\<rparr>" w k m] by (simp add: fresh_ids_def)

text \<open>One identifier drawn and one row inserted.\<close>

definition one :: "string \<Rightarrow> string \<Rightarrow> nat" where
  "one t = (\<lambda>u. if u = t then 1 else 0)"

definition drawn :: "demo_world \<Rightarrow> demo_world" where
  "drawn w = w\<lparr>dw_calls := Suc (dw_calls w)\<rparr>"

definition this_id :: "demo_world \<Rightarrow> string" where
  "this_id w = nth_uuid (dw_draws w) (dw_calls w)"

lemma next_uuid_run: "next_uuid w = (Inr (this_id w), drawn w)"
  by (simp add: next_uuid_def this_id_def drawn_def)

lemma drawn_rows [simp]: "dw_rows (drawn w) = dw_rows w"
  by (simp add: drawn_def)

lemma grows_drawn: "grows (\<lambda>_. 0) 1 w (drawn w)"
  by (simp add: grows_def drawn_def)

lemma this_id_unused: "fresh_ids (Suc m) w \<Longrightarrow> unused w (this_id w)"
proof -
  assume "fresh_ids (Suc m) w"
  moreover have "this_id w \<in> set (next_ids (Suc m) w)" by (simp add: next_ids_def this_id_def del: upt_Suc)
  ultimately show ?thesis by (simp add: fresh_ids_def list_all_iff)
qed

lemma current_version_zero:
  assumes "unused w i" "cell_of r ''id'' = Text i" "t = ''workflow'' \<longrightarrow> cell_of r ''current_version'' = Number 0"
  shows "enforce_current_version schema10 (dw_rows w) t r"
proof -
  have "filter (\<lambda>q. cell_eq Ty_uuid (Text i) (cell_of q ''workflow_id'')) (dw_rows w ''workflow_version'') = []"
    using assms(1) by (simp add: unused_def list_all_iff filter_empty_conv)
  then show ?thesis
    using assms(2,3) by (auto simp: enforce_current_version_def max_version_def final_triggers core_triggers_def)
qed

lemma insertion_grows:
  assumes "fresh_ids (Suc m) w" "t \<in> set demo_tables" "find_table t schema10 = Some x" "keyed_by_id x" "row_ok x given"
    "cell_of (full_row x given) ''id'' = Text (this_id w)"
    "t = ''workflow'' \<longrightarrow> cell_of (full_row x given) ''current_version'' = Number 0"
    "refers_known (dw_rows w) x (full_row x given)"
  shows "\<exists>v. insert_into schema10 t given ''id'' (drawn w) = (Inr (), v) \<and> grows (one t) 1 w v \<and> known v (t, this_id w)"
proof -
  let ?r = "full_row x given" and ?i = "this_id w"
  let ?v = "(drawn w)\<lparr>dw_rows := (dw_rows w)(t := dw_rows w t @ [?r])\<rparr>"
  have u: "unused w ?i" using assms(1) by (rule this_id_unused)
  then have "\<forall>r \<in> set (dw_rows w t). Text ?i \<noteq> cell_of r ''id''"
    using assms(2) by (simp add: unused_def list_all_iff eq_commute [of "Text ?i"])
  then have new: "Text ?i \<notin> id_cells (dw_rows w) t" by (simp add: id_cells_def image_iff)
  have "enforce_current_version schema10 (dw_rows w) t ?r" using u assms(6,7) by (rule current_version_zero)
  with new have "insertion schema10 (dw_rows w) t given ''id'' = Inr (Some ?r)"
    using assms(8) by (rule insertion_fresh [OF assms(3-6)])
  then have "insert_into schema10 t given ''id'' (drawn w) = (Inr (), ?v)"
    by (simp add: insert_into_def)
  moreover have "next_ids 1 w = [?i]" by (simp add: next_ids_def this_id_def)
  then have "grows (one t) 1 w ?v"
    using assms(2,6,7) by (auto simp: grows_def one_def drawn_def demo_tables_def new_row_def)
  moreover have "known ?v (t, ?i)" using assms(6) by (simp add: known_def id_cells_def this_id_def)
  ultimately show ?thesis by blast
qed

end
