(* ===== verification/Demo_Correct.thy ===== *)
theory Demo_Correct
  imports Demo_Rows
begin

text \<open>
  The stages of the seeder on the schema that the migrations leave, one lemma for a turn of each loop, and the whole run.
\<close>

section \<open>The rows of each stage\<close>

lemmas row_simps = row_ok_def has_columns_def column_names_def full_row_def cell_of_def column_type_def col_def with_column_def

lemmas refers_simps = refers_known_def [where x = final_workflow, unfolded demo_references]
  refers_known_def [where x = final_session, unfolded demo_references]
  refers_known_def [where x = final_message, unfolded demo_references]
  refers_known_def [where x = final_comment, unfolded demo_references]
  refers_known_def [where x = final_document, unfolded demo_references]

lemma workflow_row:
  assumes "is_uuid i" "is_uuid org" "is_uuid owner" "is_uuid (dm_projectId m)"
    "dm_status m \<in> set [''validated'', ''in_elicitation'', ''draft'']"
  shows "row_ok final_workflow (workflow_cells org (Some owner) i m)"
    "cell_of (full_row final_workflow (workflow_cells org (Some owner) i m)) ''id'' = Text i"
    "cell_of (full_row final_workflow (workflow_cells org (Some owner) i m)) ''current_version'' = Number 0"
    "refers_known rows final_workflow (full_row final_workflow (workflow_cells org (Some owner) i m)) \<longleftrightarrow>
       Text org \<in> id_cells rows ''organization'' \<and> Text owner \<in> id_cells rows ''user''"
  using assms unfolding refers_simps
  by (auto simp: row_simps final_workflow_def table_workflow_def workflow_cells_def now_cells_def optional_def
      enum_types_def)

lemma session_row:
  assumes "is_uuid i" "is_uuid wid" "is_uuid u" "(mode, status) \<in> set session_plan"
  shows "row_ok final_session (session_cells (Some u) (wid, mode, status) i)"
    "cell_of (full_row final_session (session_cells (Some u) (wid, mode, status) i)) ''id'' = Text i"
    "refers_known rows final_session (full_row final_session (session_cells (Some u) (wid, mode, status) i)) \<longleftrightarrow>
       Text wid \<in> id_cells rows ''workflow'' \<and> Text u \<in> id_cells rows ''user''"
  using assms unfolding refers_simps
  by (auto simp: row_simps final_session_def table_session_def session_cells_def optional_def enum_types_def
      session_plan_def)

lemma message_row:
  assumes "is_uuid i" "is_uuid s" "role \<in> set [''user'', ''ai'', ''system'']"
    "ty \<in> set [''user_input'', ''ai_response'', ''ai_summary'', ''system_status'', ''ai_question'']"
  shows "row_ok final_message (message_cells (s, role, ty, content) i)"
    "cell_of (full_row final_message (message_cells (s, role, ty, content) i)) ''id'' = Text i"
    "refers_known rows final_message (full_row final_message (message_cells (s, role, ty, content) i)) \<longleftrightarrow>
       Text s \<in> id_cells rows ''session''"
  using assms unfolding refers_simps
  by (auto simp: row_simps final_message_def table_message_def message_cells_def enum_types_def)

lemma comment_row:
  assumes "is_uuid i" "is_uuid wid" "is_uuid u" "ty \<in> set [''approval'', ''question'', ''correction'']"
  shows "row_ok final_comment (comment_cells (wid, ty, content, Some u) i)"
    "cell_of (full_row final_comment (comment_cells (wid, ty, content, Some u) i)) ''id'' = Text i"
    "refers_known rows final_comment (full_row final_comment (comment_cells (wid, ty, content, Some u) i)) \<longleftrightarrow>
       Text wid \<in> id_cells rows ''workflow'' \<and> Text u \<in> id_cells rows ''user''"
  using assms unfolding refers_simps
  by (auto simp: row_simps final_comment_def table_comment_def comment_cells_def optional_def enum_types_def)

lemma document_row:
  assumes "is_uuid i" "is_uuid wid" "bytes \<in> set [1024000, 51200, 4096]"
  shows "row_ok final_document (document_cells (wid, nm, original, mime, bytes) i)"
    "cell_of (full_row final_document (document_cells (wid, nm, original, mime, bytes) i)) ''id'' = Text i"
    "refers_known rows final_document (full_row final_document (document_cells (wid, nm, original, mime, bytes) i)) \<longleftrightarrow>
       Text wid \<in> id_cells rows ''workflow''"
  using assms unfolding refers_simps
  by (auto simp: row_simps final_document_def table_document_def document_cells_def)

section \<open>One turn of each loop\<close>

lemma one_other [simp]: "u \<noteq> t \<Longrightarrow> one t u = 0" "one t t = 1"
  by (simp_all add: one_def)

lemma knownD: "known w (t, i) \<Longrightarrow> is_uuid i" "known w (t, i) \<Longrightarrow> Text i \<in> id_cells (dw_rows w) t"
  by (simp_all add: known_def)

lemma this_id_valid [simp]: "is_uuid (this_id w)"
  by (simp add: this_id_def)

lemma version_refused:
  "insert_into schema10 ''workflow_version'' (version_cells v i) ''id'' w = (Inl ''column does not exist'', w)"
proof -
  have "find_table ''workflow_version'' schema10 = Some table_workflow_version" by (simp add: final_find)
  then show ?thesis
    by (simp add: insert_into_def insertion_def version_cells_def now_cells_def has_columns_def column_names_def
        table_workflow_version_def col_def)
qed

lemma seed_workflow_grows:
  assumes "fresh_ids (Suc l) w" "known w (''organization'', org)" "known w (''user'', owner)" "is_uuid (dm_projectId m)"
    "dm_status m \<in> set [''validated'', ''in_elicitation'', ''draft'']"
  shows "\<exists>v. seed_workflow schema10 org (Some owner) m w = (Inr (this_id w), v) \<and> grows (one ''workflow'') 2 w v \<and>
    known v (''workflow'', this_id w)"
proof -
  let ?given = "workflow_cells org (Some owner) (this_id w) m"
  note row = workflow_row [OF this_id_valid [of w] knownD(1) [OF assms(2)] knownD(1) [OF assms(3)] assms(4,5)]
  obtain v where v: "insert_into schema10 ''workflow'' ?given ''id'' (drawn w) = (Inr (), v)" "grows (one ''workflow'') 1 w v"
      "known v (''workflow'', this_id w)"
    using insertion_grows [OF assms(1) _ final_changed(8) demo_tables_keyed(1) row(1,2)] row(3,4) knownD(2) assms(2,3)
    by (auto simp: demo_tables_def)
  have "seed_workflow schema10 org (Some owner) m w = (Inr (this_id w), drawn v)"
    by (simp add: seed_workflow_def andThen_def next_uuid_run v(1) recovering_def version_refused ret_def)
  moreover have "grows (one ''workflow'') 2 w (drawn v)"
    using grows_trans [OF v(2) grows_drawn] by (simp add: one_def numeral_2_eq_2)
  moreover have "known (drawn v) (''workflow'', this_id w)" using grows_known [OF grows_drawn v(3)] .
  ultimately show ?thesis by blast
qed

lemma seed_session_grows:
  assumes "fresh_ids (Suc l) w" "known w (''workflow'', wid)" "known w (''user'', u)" "(mode, status) \<in> set session_plan"
  shows "\<exists>v. seed_session schema10 (Some u) (wid, mode, status) w = (Inr (this_id w), v) \<and> grows (one ''session'') 1 w v \<and>
    known v (''session'', this_id w)"
proof -
  note row = session_row [OF this_id_valid [of w] knownD(1) [OF assms(2)] knownD(1) [OF assms(3)] assms(4)]
  obtain v where "insert_into schema10 ''session'' (session_cells (Some u) (wid, mode, status) (this_id w)) ''id'' (drawn w) = (Inr (), v)"
      "grows (one ''session'') 1 w v" "known v (''session'', this_id w)"
    using insertion_grows [OF assms(1) _ final_changed(3) demo_tables_keyed(2) row(1,2)] row(3) knownD(2) assms(2,3)
    by (auto simp: demo_tables_def)
  then show ?thesis by (simp add: seed_session_def andThen_def next_uuid_run ret_def)
qed

lemma seed_message_grows:
  assumes "fresh_ids (Suc l) w" "known w (''session'', s)" "role \<in> set [''user'', ''ai'', ''system'']"
    "ty \<in> set [''user_input'', ''ai_response'', ''ai_summary'', ''system_status'', ''ai_question'']"
  shows "\<exists>v. seed_message schema10 (s, role, ty, content) w = (Inr (), v) \<and> grows (one ''message'') 1 w v"
proof -
  note row = message_row [OF this_id_valid [of w] knownD(1) [OF assms(2)] assms(3,4), where content = content]
  obtain v where "insert_into schema10 ''message'' (message_cells (s, role, ty, content) (this_id w)) ''id'' (drawn w) = (Inr (), v)"
      "grows (one ''message'') 1 w v"
    using insertion_grows [OF assms(1) _ final_changed(4) demo_tables_keyed(3) row(1,2)] row(3) knownD(2) assms(2)
    by (auto simp: demo_tables_def)
  then show ?thesis by (simp add: seed_message_def andThen_def next_uuid_run)
qed

lemma seed_comment_grows:
  assumes "fresh_ids (Suc l) w" "known w (''workflow'', wid)" "known w (''user'', u)"
    "ty \<in> set [''approval'', ''question'', ''correction'']"
  shows "\<exists>v. seed_comment schema10 (wid, ty, content, Some u) w = (Inr (), v) \<and> grows (one ''comment'') 1 w v"
proof -
  note row = comment_row [OF this_id_valid [of w] knownD(1) [OF assms(2)] knownD(1) [OF assms(3)] assms(4), where content = content]
  obtain v where "insert_into schema10 ''comment'' (comment_cells (wid, ty, content, Some u) (this_id w)) ''id'' (drawn w) = (Inr (), v)"
      "grows (one ''comment'') 1 w v"
    using insertion_grows [OF assms(1) _ final_changed(6) demo_tables_keyed(4) row(1,2)] row(3) knownD(2) assms(2,3)
    by (auto simp: demo_tables_def)
  then show ?thesis by (simp add: seed_comment_def andThen_def next_uuid_run)
qed

lemma seed_document_grows:
  assumes "fresh_ids (Suc l) w" "known w (''workflow'', wid)" "bytes \<in> set [1024000, 51200, 4096]"
  shows "\<exists>v. seed_document schema10 (wid, nm, original, mime, bytes) w = (Inr (), v) \<and> grows (one ''document'') 1 w v"
proof -
  note row = document_row [OF this_id_valid [of w] knownD(1) [OF assms(2)] assms(3), where nm = nm and original = original and mime = mime]
  obtain v where "insert_into schema10 ''document'' (document_cells (wid, nm, original, mime, bytes) (this_id w)) ''id'' (drawn w) = (Inr (), v)"
      "grows (one ''document'') 1 w v"
    using insertion_grows [OF assms(1) _ final_changed(2) demo_tables_keyed(5) row(1,2)] row(3) knownD(2) assms(2)
    by (auto simp: demo_tables_def)
  then show ?thesis by (simp add: seed_document_def andThen_def next_uuid_run)
qed

section \<open>The loops\<close>

text \<open>Where the rows of \<open>F\<close> are there, a turn returns, adds \<open>d\<close> with \<open>k\<close> identifiers, and leaves the rows of \<open>G\<close> there.\<close>

definition turns_grow ::
  "('x \<Rightarrow> 'a seeding) \<Rightarrow> 'x list \<Rightarrow> (string \<times> string) set \<Rightarrow> (string \<Rightarrow> nat) \<Rightarrow> nat \<Rightarrow> ('a \<Rightarrow> (string \<times> string) set) \<Rightarrow> bool" where
  "turns_grow body xs F d k G \<longleftrightarrow>
     (\<forall>x \<in> set xs. \<forall>v m. fresh_ids (Suc m) v \<longrightarrow> (\<forall>f \<in> F. known v f) \<longrightarrow>
       (\<exists>a u. body x v = (Inr a, u) \<and> grows d k v u \<and> (\<forall>g \<in> G a. known u g)))"

lemma for_each_grows:
  assumes "turns_grow body xs F d k G" "0 < k" "fresh_ids (length xs * k + m) w" "\<forall>f \<in> F. known w f"
  shows "\<exists>as v. for_each body xs w = (Inr as, v) \<and> length as = length xs \<and>
    grows (\<lambda>t. length xs * d t) (length xs * k) w v \<and> (\<forall>a \<in> set as. \<forall>g \<in> G a. known v g)"
  using assms
proof (induction xs arbitrary: w)
  case Nil
  then show ?case by (simp add: ret_def grows_refl)
next
  case (Cons x xs)
  have turns: "turns_grow body xs F d k G" using Cons.prems(1) by (simp add: turns_grow_def)
  have "fresh_ids (Suc (k - 1 + (length xs * k + m))) w" using Cons.prems(2,3) by (simp add: algebra_simps)
  then obtain a u where u: "body x w = (Inr a, u)" "grows d k w u" "\<forall>g \<in> G a. known u g"
    using Cons.prems(1,4) unfolding turns_grow_def by (metis list.set_intros(1))
  have "fresh_ids (length xs * k + m) u"
    using grows_fresh [OF u(2)] Cons.prems(3) by (simp add: algebra_simps)
  moreover have "\<forall>f \<in> F. known u f" using grows_known [OF u(2)] Cons.prems(4) by blast
  ultimately obtain as v where v: "for_each body xs u = (Inr as, v)" "length as = length xs"
      "grows (\<lambda>t. length xs * d t) (length xs * k) u v" "\<forall>b \<in> set as. \<forall>g \<in> G b. known v g"
    using Cons.IH [OF turns Cons.prems(2)] by blast
  have "for_each body (x # xs) w = (Inr (a # as), v)" by (simp add: andThen_def u(1) v(1) ret_def)
  moreover have "grows (\<lambda>t. length (x # xs) * d t) (length (x # xs) * k) w v"
    using grows_trans [OF u(2) v(3)] by simp
  moreover have "\<forall>b \<in> set (a # as). \<forall>g \<in> G b. known v g" using u(3) v(4) grows_known [OF v(3)] by auto
  ultimately show ?case using v(2) by (metis length_Cons)
qed

end
