(* ===== verification/Demo_Again.thy ===== *)
theory Demo_Again
  imports Demo_Correct
begin

text \<open>
  The whole run of the seeder, and what running it again does.
\<close>

section \<open>The last five stages\<close>

lemma seed_workflows_grows:
  assumes "fresh_ids (6 + l) w" "known w (''organization'', org)" "known w (''user'', owner)" "is_uuid hr" "is_uuid fin"
  shows "\<exists>ws v. seed_workflows schema10 org (Some owner) (hr, fin) w = (Inr ws, v) \<and> length ws = 3 \<and>
    grows (\<lambda>t. 3 * one ''workflow'' t) 6 w v \<and> (\<forall>a \<in> set ws. known v (''workflow'', a))"
proof -
  have "turns_grow (seed_workflow schema10 org (Some owner)) (demo_workflows hr fin)
      {(''organization'', org), (''user'', owner)} (one ''workflow'') 2 (\<lambda>a. {(''workflow'', a)})"
    unfolding turns_grow_def
  proof (intro ballI allI impI)
    fix m v k
    assume m: "m \<in> set (demo_workflows hr fin)" and v: "fresh_ids (Suc k) v"
      "\<forall>f \<in> {(''organization'', org), (''user'', owner)}. known v f"
    have "is_uuid (dm_projectId m)" "dm_status m \<in> set [''validated'', ''in_elicitation'', ''draft'']"
      using m assms(4,5) by (auto simp: demo_workflows_def)
    then show "\<exists>a u. seed_workflow schema10 org (Some owner) m v = (Inr a, u) \<and> grows (one ''workflow'') 2 v u \<and>
        (\<forall>g \<in> {(''workflow'', a)}. known u g)"
      using seed_workflow_grows [OF v(1), of org owner m] v(2) by auto
  qed
  moreover have "length (demo_workflows hr fin) = 3" by (simp add: demo_workflows_def)
  ultimately show ?thesis
    using for_each_grows [where w = w and m = l and xs = "demo_workflows hr fin"] assms(1-3) by (fastforce simp: seed_workflows_def)
qed

lemma seed_sessions_grows:
  assumes "fresh_ids (3 + l) w" "known w (''user'', u)" "length ws = 3" "\<forall>a \<in> set ws. known w (''workflow'', a)"
  shows "\<exists>ss v. seed_sessions schema10 (Some u) ws w = (Inr ss, v) \<and> length ss = 3 \<and>
    grows (\<lambda>t. 3 * one ''session'' t) 3 w v \<and> (\<forall>a \<in> set ss. known v (''session'', a))"
proof -
  have "turns_grow (seed_session schema10 (Some u)) (zip ws session_plan) (insert (''user'', u) (Pair ''workflow'' ` set ws))
      (one ''session'') 1 (\<lambda>a. {(''session'', a)})"
    unfolding turns_grow_def
  proof (intro ballI allI impI)
    fix s v k
    assume s: "s \<in> set (zip ws session_plan)" and v: "fresh_ids (Suc k) v"
      "\<forall>f \<in> insert (''user'', u) (Pair ''workflow'' ` set ws). known v f"
    obtain wid mode status where e: "s = (wid, mode, status)" by (cases s)
    then have "wid \<in> set ws" "(mode, status) \<in> set session_plan" using s by (auto dest: set_zip_leftD set_zip_rightD)
    then show "\<exists>a x. seed_session schema10 (Some u) s v = (Inr a, x) \<and> grows (one ''session'') 1 v x \<and>
        (\<forall>g \<in> {(''session'', a)}. known x g)"
      using seed_session_grows [OF v(1), of wid u mode status] v(2) e by auto
  qed
  moreover have "length (zip ws session_plan) = 3" using assms(3) by (simp add: session_plan_def)
  ultimately show ?thesis
    using for_each_grows [where w = w and m = l and xs = "zip ws session_plan"] assms by (fastforce simp: seed_sessions_def)
qed

lemma seed_messages_grows:
  assumes "fresh_ids (8 + l) w" "length ss = 3" "\<forall>a \<in> set ss. known w (''session'', a)"
  shows "\<exists>v. seed_messages schema10 ss w = (Inr (), v) \<and> grows (\<lambda>t. 8 * one ''message'' t) 8 w v"
proof -
  let ?xs = "map (Pair (ss ! 0)) session1Messages @ map (Pair (ss ! 1)) session2Messages"
  have ids: "ss ! 0 \<in> set ss" "ss ! 1 \<in> set ss" using assms(2) by simp_all
  have "turns_grow (seed_message schema10) ?xs (Pair ''session'' ` set ss) (one ''message'') 1 (\<lambda>_. {})"
    unfolding turns_grow_def
  proof (intro ballI allI impI)
    fix s v k
    assume s: "s \<in> set ?xs" and v: "fresh_ids (Suc k) v" "\<forall>f \<in> Pair ''session'' ` set ss. known v f"
    obtain i role ty content where e: "s = (i, role, ty, content)" by (cases s)
    have "role \<in> set [''user'', ''ai'', ''system'']"
      "ty \<in> set [''user_input'', ''ai_response'', ''ai_summary'', ''system_status'', ''ai_question'']" "i \<in> set ss"
      using s ids unfolding e session1Messages_def session2Messages_def by auto
    then show "\<exists>a x. seed_message schema10 s v = (Inr a, x) \<and> grows (one ''message'') 1 v x \<and> (\<forall>g \<in> {}. known x g)"
      using seed_message_grows [OF v(1), of i role ty content] v(2) e by auto
  qed
  moreover have "length ?xs = 8" by (simp add: session1Messages_def session2Messages_def)
  ultimately show ?thesis
    using for_each_grows [where w = w and m = l and xs = ?xs] assms
    by (fastforce simp: seed_messages_def forget_def andThen_def ret_def)
qed

lemma seed_comments_grows:
  assumes "fresh_ids (3 + l) w" "known w (''user'', owner)" "known w (''user'', u)" "length ws = 3"
    "\<forall>a \<in> set ws. known w (''workflow'', a)"
  shows "\<exists>v. seed_comments schema10 (Some owner) (Some u) ws w = (Inr (), v) \<and> grows (\<lambda>t. 3 * one ''comment'' t) 3 w v"
proof -
  let ?xs = "zip ws (demo_comments (Some owner) (Some u))"
  let ?F = "{(''user'', owner), (''user'', u)} \<union> Pair ''workflow'' ` set ws"
  have "turns_grow (seed_comment schema10) ?xs ?F (one ''comment'') 1 (\<lambda>_. {})"
    unfolding turns_grow_def
  proof (intro ballI allI impI)
    fix s v k
    assume s: "s \<in> set ?xs" and v: "fresh_ids (Suc k) v" "\<forall>f \<in> ?F. known v f"
    obtain wid ty content x where e: "s = (wid, ty, content, x)" by (cases s)
    have "(ty, content, x) \<in> set (demo_comments (Some owner) (Some u))" using s e by (auto dest: set_zip_rightD)
    then have "ty \<in> set [''approval'', ''question'', ''correction'']" "x = Some owner \<or> x = Some u"
      by (auto simp: demo_comments_def)
    moreover have "wid \<in> set ws" using s e by (auto dest: set_zip_leftD)
    ultimately show "\<exists>a y. seed_comment schema10 s v = (Inr a, y) \<and> grows (one ''comment'') 1 v y \<and> (\<forall>g \<in> {}. known y g)"
      using seed_comment_grows [OF v(1), of wid _ ty content] v(2) e by auto
  qed
  moreover have "length ?xs = 3" using assms(4) by (simp add: demo_comments_def)
  ultimately show ?thesis
    using for_each_grows [where w = w and m = l and xs = ?xs] assms
    by (fastforce simp: seed_comments_def forget_def andThen_def ret_def)
qed

lemma seed_documents_grows:
  assumes "fresh_ids (3 + l) w" "length ws = 3" "\<forall>a \<in> set ws. known w (''workflow'', a)"
  shows "\<exists>v. seed_documents schema10 ws w = (Inr (), v) \<and> grows (\<lambda>t. 3 * one ''document'' t) 3 w v"
proof -
  let ?xs = "zip ws demo_documents"
  have "turns_grow (seed_document schema10) ?xs (Pair ''workflow'' ` set ws) (one ''document'') 1 (\<lambda>_. {})"
    unfolding turns_grow_def
  proof (intro ballI allI impI)
    fix s v k
    assume s: "s \<in> set ?xs" and v: "fresh_ids (Suc k) v" "\<forall>f \<in> Pair ''workflow'' ` set ws. known v f"
    obtain wid nm original mime bytes where e: "s = (wid, nm, original, mime, bytes)" by (cases s)
    have "(nm, original, mime, bytes) \<in> set demo_documents" using s e by (auto dest: set_zip_rightD)
    then have "bytes \<in> set [1024000, 51200, 4096]" by (auto simp: demo_documents_def)
    moreover have "wid \<in> set ws" using s e by (auto dest: set_zip_leftD)
    ultimately show "\<exists>a y. seed_document schema10 s v = (Inr a, y) \<and> grows (one ''document'') 1 v y \<and> (\<forall>g \<in> {}. known y g)"
      using seed_document_grows [OF v(1), of wid bytes] v(2) e by auto
  qed
  moreover have "length ?xs = 3" using assms(2) by (simp add: demo_documents_def)
  ultimately show ?thesis
    using for_each_grows [where w = w and m = l and xs = ?xs] assms
    by (fastforce simp: seed_documents_def forget_def andThen_def ret_def)
qed

definition seed_rest :: "schema \<Rightarrow> string \<Rightarrow> string option \<Rightarrow> string option \<Rightarrow> string \<times> string \<Rightarrow> unit seeding" where
  "seed_rest sc org owner analyst projects =
     andThen (seed_workflows sc org owner projects) (\<lambda>workflows.
     andThen (seed_sessions sc analyst workflows) (\<lambda>sessions.
     andThen (seed_messages sc sessions) (\<lambda>_.
     andThen (seed_comments sc owner analyst workflows) (\<lambda>_.
     seed_documents sc workflows))))"

text \<open>What a run adds to each table.\<close>

definition added_rows :: "(string \<times> nat) list" where
  "added_rows =
     [(''organization'', 0), (''user'', 0), (''project'', 0), (''workflow'', 3), (''workflow_version'', 0), (''session'', 3),
      (''message'', 8), (''comment'', 3), (''document'', 3)]"

definition run_adds :: "string \<Rightarrow> nat" where
  "run_adds t =
     3 * one ''workflow'' t + 3 * one ''session'' t + 8 * one ''message'' t + 3 * one ''comment'' t + 3 * one ''document'' t"

lemma seed_rest_grows:
  assumes "fresh_ids (23 + l) w" "known w (''organization'', org)" "known w (''user'', owner)" "known w (''user'', u)"
    "is_uuid hr" "is_uuid fin"
  shows "\<exists>v. seed_rest schema10 org (Some owner) (Some u) (hr, fin) w = (Inr (), v) \<and> grows run_adds 23 w v"
proof -
  obtain ws v1 where v1: "seed_workflows schema10 org (Some owner) (hr, fin) w = (Inr ws, v1)" "length ws = 3"
      "grows (\<lambda>t. 3 * one ''workflow'' t) 6 w v1" "\<forall>a \<in> set ws. known v1 (''workflow'', a)"
    using seed_workflows_grows [of "17 + l" w org owner hr fin] assms by auto
  have f1: "fresh_ids (17 + l) v1" using grows_fresh [OF v1(3), of "17 + l"] assms(1) by simp
  obtain ss v2 where v2: "seed_sessions schema10 (Some u) ws v1 = (Inr ss, v2)" "length ss = 3"
      "grows (\<lambda>t. 3 * one ''session'' t) 3 v1 v2" "\<forall>a \<in> set ss. known v2 (''session'', a)"
    using seed_sessions_grows [of "14 + l" v1 u ws] f1 v1(2,4) grows_known [OF v1(3) assms(4)] by auto
  have f2: "fresh_ids (14 + l) v2" using grows_fresh [OF v2(3), of "14 + l"] f1 by simp
  obtain v3 where v3: "seed_messages schema10 ss v2 = (Inr (), v3)" "grows (\<lambda>t. 8 * one ''message'' t) 8 v2 v3"
    using seed_messages_grows [of "6 + l" v2 ss] f2 v2(2,4) by auto
  have f3: "fresh_ids (6 + l) v3" using grows_fresh [OF v3(2), of "6 + l"] f2 by simp
  have g3: "grows (\<lambda>t. 3 * one ''workflow'' t + (3 * one ''session'' t + 8 * one ''message'' t)) 17 w v3"
    using grows_trans [OF v1(3) grows_trans [OF v2(3) v3(2)]] by simp
  have w3: "\<forall>a \<in> set ws. known v3 (''workflow'', a)"
    using v1(4) grows_known [OF grows_trans [OF v2(3) v3(2)]] by blast
  note u3 = grows_known [OF g3 assms(3)] grows_known [OF g3 assms(4)]
  obtain v4 where v4: "seed_comments schema10 (Some owner) (Some u) ws v3 = (Inr (), v4)"
      "grows (\<lambda>t. 3 * one ''comment'' t) 3 v3 v4"
    using seed_comments_grows [of "3 + l" v3 owner u ws] f3 u3 v1(2) w3 by auto
  have f4: "fresh_ids (3 + l) v4" using grows_fresh [OF v4(2), of "3 + l"] f3 by simp
  obtain v5 where v5: "seed_documents schema10 ws v4 = (Inr (), v5)" "grows (\<lambda>t. 3 * one ''document'' t) 3 v4 v5"
    using seed_documents_grows [OF f4 v1(2)] w3 grows_known [OF v4(2)] by blast
  have "seed_rest schema10 org (Some owner) (Some u) (hr, fin) w = (Inr (), v5)"
    by (simp add: seed_rest_def andThen_def v1(1) v2(1) v3(1) v4(1) v5(1))
  moreover have "grows run_adds 23 w v5"
    using grows_trans [OF g3 grows_trans [OF v4(2) v5(2)]] by (simp add: run_adds_def [abs_def] add.assoc)
  ultimately show ?thesis by blast
qed

section \<open>A database that was seeded before\<close>

definition acme_users :: "demo_world \<Rightarrow> row list" where
  "acme_users w = filter acme_user (dw_rows w ''user'')"

text \<open>The organization, its owner and its analyst are there, and a project; all with proper identifiers.\<close>

definition seeded :: "demo_world \<Rightarrow> bool" where
  "seeded w \<longleftrightarrow>
     (case filter (\<lambda>r. cell_of r ''name'' = Text acme_name) (dw_rows w ''organization'') of
        [] \<Rightarrow> False
      | o1 # _ \<Rightarrow>
          is_uuid (id_of o1) \<and>
          (case (user_id ''owner@acme.com'' (acme_users w), user_id ''analyst@acme.com'' (acme_users w)) of
             (Some a, Some b) \<Rightarrow> is_uuid a \<and> is_uuid b | _ \<Rightarrow> False) \<and>
          (let ps = filter (\<lambda>r. cell_of r ''org_id'' = Text (id_of o1)) (dw_rows w ''project'') in
             ps \<noteq> [] \<and> list_all (\<lambda>p. is_uuid (id_of p)) ps))"

lemma find_final:
  "find_table ''organization'' schema10 = Some table_organization"
  by (simp add: final_find)

lemma organization_kept:
  assumes "r \<in> set (dw_rows w ''organization'')" "cell_of r ''name'' = Text acme_name" "is_uuid i"
  shows "insert_into schema10 ''organization''
    ([(''id'', Text i), (''name'', Text acme_name), (''plan'', Text ''free'')] @ now_cells) ''name'' w = (Inr (), w)"
proof -
  let ?given = "[(''id'', Text i), (''name'', Text acme_name), (''plan'', Text ''free'')] @ now_cells"
  let ?x = table_organization
  have keys: "unique_keys schema10 ?x = [[''id''], [''name'']]"
    by (simp add: unique_keys_final table_organization_def col_def)
  have row: "full_row ?x ?given = ?given"
    by (simp add: full_row_def table_organization_def col_def now_cells_def)
  have static: "has_columns ?x (map fst ?given)" "list_all (\<lambda>(c, v). cell_fits enum_types (column_type ?x c) v) ?given"
    "\<not> list_ex (\<lambda>c. cl_notnull c \<and> cell_of ?given (cl_name c) = Null) (tb_columns ?x)"
    "\<not> list_ex (\<lambda>c. case (cl_check c, cell_of ?given (cl_name c)) of (Some vs, Text s) \<Rightarrow> s \<notin> set vs | _ \<Rightarrow> False) (tb_columns ?x)"
    using assms(3) by (simp_all add: row_simps table_organization_def now_cells_def)
  have "enforce_current_version schema10 (dw_rows w) ''organization'' ?given"
    by (simp add: enforce_current_version_def final_triggers core_triggers_def)
  moreover have "key_eq ?x [''name''] ?given r"
    using assms(2) by (simp add: key_eq_def column_type_def table_organization_def col_def cell_of_def)
  then have "list_ex (key_eq ?x [''name''] ?given) (dw_rows w ''organization'')"
    using assms(1) unfolding list_ex_iff by blast
  ultimately have "insertion schema10 (dw_rows w) ''organization'' ?given ''name'' = Inr None"
    using keys row static unfolding insertion_def find_final final_types by (simp only: Let_def option.case if_True if_False) simp
  then show ?thesis by (simp add: insert_into_def)
qed

lemma select_run:
  "find_table t schema10 = Some x \<Longrightarrow> has_columns x cs \<Longrightarrow> select_from schema10 t cs p w = (Inr (filter p (dw_rows w t)), w)"
  by (simp add: select_from_def)

lemma final_demo_columns:
  "has_columns table_organization [''id'', ''name'']" "has_columns final_user [''id'', ''email'', ''role'']"
  "has_columns table_project [''id'', ''name'', ''org_id'']"
  by code_simp+

lemma known_id: "r \<in> set (dw_rows w t) \<Longrightarrow> is_uuid (id_of r) \<Longrightarrow> known w (t, id_of r)"
  using id_cell [of r] by (force simp: known_def id_cells_def image_iff)

lemma seed_organization_kept:
  assumes "filter (\<lambda>r. cell_of r ''name'' = Text acme_name) (dw_rows w ''organization'') = o1 # os" "is_uuid (id_of o1)"
  shows "seed_organization schema10 w = (Inr (id_of o1), drawn w)" "known w (''organization'', id_of o1)"
proof -
  have o1: "o1 \<in> set (dw_rows w ''organization'')" "cell_of o1 ''name'' = Text acme_name"
    using list.set_intros(1) [of o1 os] unfolding assms(1) [symmetric] by simp_all
  have "insert_into schema10 ''organization''
      ([(''id'', Text (this_id w)), (''name'', Text acme_name), (''plan'', Text ''free'')] @ now_cells) ''name'' (drawn w) = (Inr (), drawn w)"
    using o1 by (intro organization_kept) simp_all
  then show "seed_organization schema10 w = (Inr (id_of o1), drawn w)"
    using uuid_not_empty [OF assms(2)] assms(1)
    by (simp add: seed_organization_def andThen_def next_uuid_run select_run [OF find_final final_demo_columns(1)] ret_def)
  show "known w (''organization'', id_of o1)" using o1(1) assms(2) by (rule known_id)
qed

lemma user_known: "user_id e (acme_users w) = Some a \<Longrightarrow> is_uuid a \<Longrightarrow> known w (''user'', a)"
  by (auto simp: user_id_def acme_users_def dest!: find_Some_set intro!: known_id)

lemma seed_users_kept:
  assumes "user_id ''owner@acme.com'' (acme_users w) = Some a" "user_id ''analyst@acme.com'' (acme_users w) = Some b"
  shows "seed_users schema10 org w = (Inr (user_id ''admin@acme.com'' (acme_users w), Some a, Some b), w)"
proof -
  have "acme_users w \<noteq> []" using assms(1) by (auto simp: user_id_def)
  then show ?thesis
    using assms
    by (simp add: seed_users_def andThen_def select_run [OF final_changed(1) final_demo_columns(2)] acme_users_def ret_def)
qed

lemma seed_projects_kept:
  assumes "filter (\<lambda>r. cell_of r ''org_id'' = Text org) (dw_rows w ''project'') = p # ps" "list_all (\<lambda>q. is_uuid (id_of q)) (p # ps)"
  shows "\<exists>fin. seed_projects schema10 org owner w = (Inr (id_of p, fin), w) \<and> is_uuid fin"
  using assms uuid_not_empty
  by (cases ps) (auto simp: seed_projects_def andThen_def select_run [OF final_changed(9) final_demo_columns(3)] recovering_def ret_def)

section \<open>Running it again\<close>

lemma seed_split:
  "seed sc = andThen (seed_organization sc) (\<lambda>org. andThen (seed_users sc org) (\<lambda>(admin, owner, analyst).
     andThen (seed_projects sc org owner) (\<lambda>projects. seed_rest sc org owner analyst projects)))"
  unfolding seed_def seed_rest_def ..

lemma seed_again:
  assumes "seeded w" "fresh_ids (24 + l) w"
  shows "\<exists>v. seed schema10 w = (Inr (), v) \<and> grows run_adds 24 w v"
proof -
  obtain o1 os where o1: "filter (\<lambda>r. cell_of r ''name'' = Text acme_name) (dw_rows w ''organization'') = o1 # os"
      "is_uuid (id_of o1)"
    using assms(1) by (auto simp: seeded_def split: list.splits)
  obtain a b where ab: "user_id ''owner@acme.com'' (acme_users w) = Some a" "user_id ''analyst@acme.com'' (acme_users w) = Some b"
      "is_uuid a" "is_uuid b"
    using assms(1) o1(1) by (auto simp: seeded_def split: option.splits)
  obtain p ps where p: "filter (\<lambda>r. cell_of r ''org_id'' = Text (id_of o1)) (dw_rows w ''project'') = p # ps"
      "list_all (\<lambda>q. is_uuid (id_of q)) (p # ps)"
    using assms(1) o1(1) by (cases "filter (\<lambda>r. cell_of r ''org_id'' = Text (id_of o1)) (dw_rows w ''project'')")
      (auto simp: seeded_def Let_def)
  note org = seed_organization_kept [OF o1]
  have same: "acme_users (drawn w) = acme_users w" by (simp add: acme_users_def)
  obtain fin where fin: "seed_projects schema10 (id_of o1) (Some a) (drawn w) = (Inr (id_of p, fin), drawn w)" "is_uuid fin"
    using seed_projects_kept [of "id_of o1" "drawn w" p ps "Some a"] p by auto
  have "fresh_ids (23 + l) (drawn w)" using grows_fresh [OF grows_drawn, of "23 + l" w] assms(2) by simp
  moreover have "known (drawn w) (''organization'', id_of o1)" "known (drawn w) (''user'', a)" "known (drawn w) (''user'', b)"
    using grows_known [OF grows_drawn] org(2) user_known ab by blast+
  ultimately obtain v where v: "seed_rest schema10 (id_of o1) (Some a) (Some b) (id_of p, fin) (drawn w) = (Inr (), v)"
      "grows run_adds 23 (drawn w) v"
    using seed_rest_grows [of l "drawn w" "id_of o1" a b "id_of p" fin] fin(2) p(2) by auto
  have "seed schema10 w = (Inr (), v)"
    unfolding seed_split using seed_users_kept [of "drawn w" a b "id_of o1"] ab(1,2)
    by (simp add: andThen_def org(1) same fin(1) v(1))
  moreover have "grows run_adds 24 w v" using grows_trans [OF grows_drawn v(2)] by simp
  ultimately show ?thesis by blast
qed

lemma seeded_kept:
  assumes "grows d k w v" "d ''organization'' = 0" "d ''user'' = 0" "d ''project'' = 0" "seeded w"
  shows "seeded v"
  using assms(5) unfolding seeded_def acme_users_def
  by (simp only: grows_rows [OF assms(1,2)] grows_rows [OF assms(1,3)] grows_rows [OF assms(1,4)])

definition after_runs :: "schema \<Rightarrow> nat \<Rightarrow> demo_world \<Rightarrow> demo_world" where
  "after_runs sc n w = ((\<lambda>v. snd (seed sc v)) ^^ n) w"

lemma after_runs_grow:
  assumes "seeded w" "fresh_ids (24 * n) w"
  shows "grows (\<lambda>t. n * run_adds t) (24 * n) w (after_runs schema10 n w)"
  using assms(2)
proof (induction n)
  case 0
  then show ?case by (simp add: after_runs_def grows_refl)
next
  case (Suc n)
  have g: "grows (\<lambda>t. n * run_adds t) (24 * n) w (after_runs schema10 n w)"
    using Suc.IH fresh_fewer [of "24 * n" 24 w] Suc.prems by (simp add: add.commute)
  have "seeded (after_runs schema10 n w)"
    by (rule seeded_kept [OF g _ _ _ assms(1)]) (simp_all add: run_adds_def)
  moreover have "fresh_ids 24 (after_runs schema10 n w)"
    using grows_fresh [OF g, of 24] Suc.prems by (simp add: add.commute)
  ultimately obtain v where v: "seed schema10 (after_runs schema10 n w) = (Inr (), v)" "grows run_adds 24 (after_runs schema10 n w) v"
    using seed_again [of "after_runs schema10 n w" 0] by auto
  have "after_runs schema10 (Suc n) w = v" using v(1) by (simp add: after_runs_def)
  then show ?case using grows_trans [OF g v(2)] by (simp add: add.commute)
qed

lemma runs_succeed:
  assumes "seeded w" "fresh_ids (24 * n) w"
  shows "map (\<lambda>m. fst (seed schema10 (after_runs schema10 m w))) [0..<n] = replicate n (Inr ())"
proof (rule nth_equalityI)
  fix m assume m: "m < length (map (\<lambda>m. fst (seed schema10 (after_runs schema10 m w))) [0..<n])"
  then obtain k where k: "n = Suc m + k" using less_iff_Suc_add by auto
  then have f: "fresh_ids (24 * m + (24 + 24 * k)) w" using assms(2) by (simp add: algebra_simps)
  have g: "grows (\<lambda>t. m * run_adds t) (24 * m) w (after_runs schema10 m w)"
    using after_runs_grow [OF assms(1) fresh_fewer [OF f]] .
  have "seeded (after_runs schema10 m w)" by (rule seeded_kept [OF g _ _ _ assms(1)]) (simp_all add: run_adds_def)
  then have "fst (seed schema10 (after_runs schema10 m w)) = Inr ()"
    using seed_again [of _ "24 * k"] grows_fresh [OF g f] by (metis fst_conv)
  then show "map (\<lambda>m. fst (seed schema10 (after_runs schema10 m w))) [0..<n] ! m = replicate n (Inr ()) ! m"
    using m by simp
qed simp

lemma runs_add:
  assumes "seeded w" "fresh_ids (24 * n) w" "(t, k) \<in> set added_rows"
  shows "\<exists>rs. dw_rows (after_runs schema10 n w) t = dw_rows w t @ rs \<and> length rs = n * k \<and>
    list_all (\<lambda>r. t = ''workflow'' \<longrightarrow> cell_of r ''current_version'' = Number 0) rs"
proof -
  have "run_adds t = k" using assms(3) by (auto simp: added_rows_def run_adds_def)
  then show ?thesis
    using after_runs_grow [OF assms(1,2)] unfolding grows_def new_row_def list_all_iff by metis
qed


text \<open>A seeded database without workflows, and draws that count the calls.\<close>

definition counting_draws :: "nat \<Rightarrow> 4 word" where
  "counting_draws d = (if d mod 31 = 0 then of_nat (d div 31) else if d mod 31 = 1 then of_nat (d div 31 div 16) else 0)"

definition demo_id :: "string \<Rightarrow> string" where
  "demo_id s = ''ffffffff-0000-4000-8000-00000000000'' @ s"

definition seeded_world :: demo_world where
  "seeded_world =
     \<lparr>dw_rows = (\<lambda>_. [])
        (''organization'' := [[(''id'', Text (demo_id ''1'')), (''name'', Text ''Acme Corporation'')]],
         ''user'' := [[(''id'', Text (demo_id ''2'')), (''email'', Text ''owner@acme.com'')],
                      [(''id'', Text (demo_id ''3'')), (''email'', Text ''analyst@acme.com'')]],
         ''project'' := [[(''id'', Text (demo_id ''4'')), (''org_id'', Text (demo_id ''1''))]]),
      dw_draws = counting_draws, dw_calls = 0\<rparr>"

lemma seeded_world_seeded: "seeded seeded_world"
  by code_simp

lemma nth_uuid_start: "take 2 (nth_uuid draws n) = [uuid_digit (draws (31 * n)), uuid_digit (draws (31 * n + 1))]"
  by (simp add: nth_uuid_def uuid_def uuid_template_def)

lemma counting_start: "take 2 (nth_uuid counting_draws n) = [uuid_digit (of_nat n), uuid_digit (of_nat (n div 16))]"
proof -
  have "(31 * n + 1) mod 31 = 1" "(31 * n + 1) div 31 = n" by (simp_all add: div_mult_self4)
  then show ?thesis by (simp add: nth_uuid_start counting_draws_def)
qed

lemma seeded_world_fresh: "fresh_ids 48 seeded_world"
proof -
  have "distinct (map (\<lambda>n. take 2 (nth_uuid counting_draws n)) [0..<48])"
    unfolding counting_start by code_simp
  then have "distinct (map (take 2) (map (nth_uuid counting_draws) [0..<48]))" by (simp only: map_map comp_def)
  then have "distinct (next_ids 48 seeded_world)"
    unfolding next_ids_def seeded_world_def by (auto simp: distinct_map intro: inj_on_imageI2 simp del: upt_rec_numeral)
  moreover have "unused seeded_world i" for i by (simp add: unused_def demo_tables_def seeded_world_def)
  ultimately show ?thesis by (simp add: fresh_ids_def list_all_iff)
qed


end
